(* ===== verification/Prelude.thy ===== *)
theory Prelude
  imports Main "HOL-Library.AList" "HOL-Library.Char_ord" "HOL-Library.List_Lexorder"
    "HOL-Library.Product_Lexorder" "HOL-Library.Sublist"
begin

text \<open>
  Shared vocabulary of the development: Python values that the modelled code passes around
  (dictionaries in insertion order, JSON values, stripped and case-folded strings), results
  of operations that may raise, and the generic lemmas the component theories use.

  A Python \<open>str\<close> is a \<open>string\<close>, read as the list of its code points; code points above
  255 do not occur in the model. A Python \<open>dict\<close> is an association list with distinct
  keys in insertion order, so that iteration, \<open>sorted\<close> and first-match searches are
  executable and see the entries in the order the code sees them.
\<close>

named_theorems py_simps \<open>characteristic equations of the Python operations below\<close>
named_theorems inv_intros \<open>one preservation rule per operation and invariant\<close>

section \<open>Results of operations that may raise\<close>

text \<open>\<open>Inl\<close> is the raised error, \<open>Inr\<close> the returned value.\<close>

definition bind_res :: "'e + 'a \<Rightarrow> ('a \<Rightarrow> 'e + 'b) \<Rightarrow> 'e + 'b" where
  "bind_res m f = (case m of Inl e \<Rightarrow> Inl e | Inr x \<Rightarrow> f x)"

lemma bind_res_simps [simp]:
  "bind_res (Inl e) f = Inl e"
  "bind_res (Inr x) f = f x"
  by (simp_all add: bind_res_def)

lemma bind_res_Inr_iff: "bind_res m f = Inr y \<longleftrightarrow> (\<exists>x. m = Inr x \<and> f x = Inr y)"
  by (cases m) auto

lemma bind_res_Inl_iff:
  "bind_res m f = Inl e \<longleftrightarrow> m = Inl e \<or> (\<exists>x. m = Inr x \<and> f x = Inl e)"
  by (cases m) auto

definition raise_unless :: "bool \<Rightarrow> 'e \<Rightarrow> 'e + unit" where
  "raise_unless c e = (if c then Inr () else Inl e)"

lemma raise_unless_iff [simp]:
  "raise_unless c e = Inr u \<longleftrightarrow> c"
  "raise_unless c e = Inl e' \<longleftrightarrow> \<not> c \<and> e' = e"
  by (auto simp: raise_unless_def)

definition of_option :: "'e \<Rightarrow> 'a option \<Rightarrow> 'e + 'a" where
  "of_option e m = (case m of None \<Rightarrow> Inl e | Some x \<Rightarrow> Inr x)"

lemma of_option_simps [simp]:
  "of_option e None = Inl e"
  "of_option e (Some x) = Inr x"
  by (simp_all add: of_option_def)

lemma of_option_Inr_iff [simp]: "of_option e m = Inr x \<longleftrightarrow> m = Some x"
  by (cases m) auto

lemma of_option_Inl_iff [simp]: "of_option e m = Inl e' \<longleftrightarrow> m = None \<and> e' = e"
  by (cases m) auto

section \<open>Dictionaries\<close>

type_synonym ('k, 'v) dict = "('k \<times> 'v) list"

abbreviation dget :: "('k, 'v) dict \<Rightarrow> 'k \<Rightarrow> 'v option" where
  "dget \<equiv> map_of"

abbreviation dput :: "'k \<Rightarrow> 'v \<Rightarrow> ('k, 'v) dict \<Rightarrow> ('k, 'v) dict" where
  "dput \<equiv> AList.update"

abbreviation ddel :: "'k \<Rightarrow> ('k, 'v) dict \<Rightarrow> ('k, 'v) dict" where
  "ddel \<equiv> AList.delete"

definition dvalues :: "('k, 'v) dict \<Rightarrow> 'v list" where
  "dvalues d = map snd d"

definition dkeys :: "('k, 'v) dict \<Rightarrow> 'k list" where
  "dkeys d = map fst d"

definition wf_dict :: "('k, 'v) dict \<Rightarrow> bool" where
  "wf_dict d \<longleftrightarrow> distinct (map fst d)"

text \<open>A dictionary whose every entry is stored under the key computed from its value.\<close>

definition keyed_by :: "('v \<Rightarrow> 'k) \<Rightarrow> ('k, 'v) dict \<Rightarrow> bool" where
  "keyed_by key d \<longleftrightarrow> (\<forall>(k, v) \<in> set d. k = key v)"

lemma dget_dput [simp]: "dget (dput k v d) k' = (if k' = k then Some v else dget d k')"
  by (simp add: update_conv')

lemma dget_ddel [simp]: "dget (ddel k d) k' = (if k' = k then None else dget d k')"
  by (simp add: delete_conv')

lemma wf_dict_Nil [simp, inv_intros]: "wf_dict []"
  by (simp add: wf_dict_def)

lemma wf_dict_dput [simp, inv_intros]: "wf_dict d \<Longrightarrow> wf_dict (dput k v d)"
  by (simp add: wf_dict_def distinct_update)

lemma wf_dict_ddel [simp, inv_intros]: "wf_dict d \<Longrightarrow> wf_dict (ddel k d)"
  by (simp add: wf_dict_def distinct_delete)

lemma wf_dict_filter [simp, inv_intros]: "wf_dict d \<Longrightarrow> wf_dict (filter P d)"
  by (auto simp: wf_dict_def distinct_map intro: inj_on_subset)

lemma wf_dict_get: "wf_dict d \<Longrightarrow> (k, v) \<in> set d \<longleftrightarrow> dget d k = Some v"
  by (auto simp: wf_dict_def)

lemma set_dput_subset: "set (dput k v d) \<subseteq> insert (k, v) (set d)"
  by (induction d) auto

lemma set_ddel_subset: "set (ddel k d) \<subseteq> set d"
  by (auto simp: AList.delete_eq)

lemma keyed_by_Nil [simp, inv_intros]: "keyed_by key []"
  by (simp add: keyed_by_def)

lemma keyed_by_dput [inv_intros]: "keyed_by key d \<Longrightarrow> k = key v \<Longrightarrow> keyed_by key (dput k v d)"
  using set_dput_subset [of k v d] by (fastforce simp: keyed_by_def)

lemma keyed_by_ddel [inv_intros]: "keyed_by key d \<Longrightarrow> keyed_by key (ddel k d)"
  using set_ddel_subset [of k d] by (fastforce simp: keyed_by_def)

lemma keyed_by_filter [inv_intros]: "keyed_by key d \<Longrightarrow> keyed_by key (filter P d)"
  by (auto simp: keyed_by_def)

lemma keyed_by_get: "keyed_by key d \<Longrightarrow> dget d k = Some v \<Longrightarrow> k = key v"
  by (auto simp: keyed_by_def dest: map_of_SomeD)

lemma dvalues_iff: "wf_dict d \<Longrightarrow> v \<in> set (dvalues d) \<longleftrightarrow> (\<exists>k. dget d k = Some v)"
  by (force simp: dvalues_def simp flip: wf_dict_get)

text \<open>Among stored rows, the one with a given key is unique when rows are keyed by value.\<close>

lemma keyed_by_value_unique:
  assumes "wf_dict d" "keyed_by key d" "v \<in> set (dvalues d)" "w \<in> set (dvalues d)" "key v = key w"
  shows "v = w"
  using assms by (metis dvalues_iff keyed_by_get option.inject)

lemma distinct_dvalues:
  assumes "wf_dict d" "keyed_by key d"
  shows "distinct (dvalues d)"
proof -
  have "map fst d = map (key \<circ> snd) d"
    using assms(2) by (auto simp: keyed_by_def)
  then have "distinct (map key (dvalues d))"
    using assms(1) by (metis wf_dict_def dvalues_def map_map)
  then show ?thesis
    by (rule distinct_map [THEN iffD1, THEN conjunct1])
qed

lemma length_ddel_less: "dget d k = Some v \<Longrightarrow> length (ddel k d) < length d"
  by (induction d) (auto simp: AList.delete_eq le_imp_less_Suc split: if_splits)

section \<open>\<open>dict.fromkeys\<close>: deduplication that keeps first occurrences\<close>

fun fromkeys_acc :: "'a list \<Rightarrow> 'a list \<Rightarrow> 'a list" where
  "fromkeys_acc seen [] = []"
| "fromkeys_acc seen (x # xs) =
     (if x \<in> set seen then fromkeys_acc seen xs else x # fromkeys_acc (x # seen) xs)"

definition fromkeys :: "'a list \<Rightarrow> 'a list" where
  "fromkeys xs = fromkeys_acc [] xs"

lemma set_fromkeys_acc: "set (fromkeys_acc seen xs) = set xs - set seen"
  by (induction seen xs rule: fromkeys_acc.induct) auto

lemma set_fromkeys [simp]: "set (fromkeys xs) = set xs"
  by (simp add: fromkeys_def set_fromkeys_acc)

lemma distinct_fromkeys_acc: "distinct (fromkeys_acc seen xs)"
  by (induction seen xs rule: fromkeys_acc.induct) (auto simp: set_fromkeys_acc)

lemma distinct_fromkeys [simp]: "distinct (fromkeys xs)"
  by (simp add: fromkeys_def distinct_fromkeys_acc)

lemma fromkeys_acc_distinct:
  "distinct xs \<Longrightarrow> set xs \<inter> set seen = {} \<Longrightarrow> fromkeys_acc seen xs = xs"
  by (induction seen xs rule: fromkeys_acc.induct) auto

lemma fromkeys_distinct [simp]: "distinct xs \<Longrightarrow> fromkeys xs = xs"
  by (simp add: fromkeys_def fromkeys_acc_distinct)

section \<open>Strings\<close>

definition is_space :: "char \<Rightarrow> bool" where
  "is_space c = (let n = (of_char c :: nat) in
     (9 \<le> n \<and> n \<le> 13) \<or> (28 \<le> n \<and> n \<le> 32) \<or> n = 133 \<or> n = 160)"

definition strip :: "string \<Rightarrow> string" where
  "strip s = rev (dropWhile is_space (rev (dropWhile is_space s)))"

definition ascii_lower :: "char \<Rightarrow> char" where
  "ascii_lower c = (let n = (of_char c :: nat) in
     if 65 \<le> n \<and> n \<le> 90 then char_of (n + 32) else c)"

definition ascii_upper :: "char \<Rightarrow> char" where
  "ascii_upper c = (let n = (of_char c :: nat) in
     if 97 \<le> n \<and> n \<le> 122 then char_of (n - 32) else c)"

text \<open>
  \<open>casefold\<close> and \<open>upper\<close> are used by the code to compare with ASCII words only; on ASCII
  letters they are the maps below, and no other code point below 256 folds to an ASCII
  letter of those words.
\<close>

definition casefold :: "string \<Rightarrow> string" where
  "casefold = map ascii_lower"

definition upper :: "string \<Rightarrow> string" where
  "upper = map ascii_upper"

lemma strip_Nil [simp]: "strip [] = []"
  by (simp add: strip_def)

lemma dropWhile_eq_self_iff: "dropWhile P s = s \<longleftrightarrow> s = [] \<or> \<not> P (hd s)"
proof (cases s)
  case (Cons x xs)
  have "length (dropWhile P xs) \<le> length xs" by (rule length_dropWhile_le)
  with Cons show ?thesis by (auto dest: arg_cong [where f = length])
qed simp

lemma strip_hd: "strip s \<noteq> [] \<Longrightarrow> \<not> is_space (hd (strip s))"
proof -
  let ?t = "dropWhile is_space s"
  assume "strip s \<noteq> []"
  then have "?t \<noteq> []" by (metis strip_def dropWhile.simps(1) rev.simps(1))
  then have t: "\<not> is_space (hd ?t)" by (rule hd_dropWhile)
  have "?t = strip s @ rev (takeWhile is_space (rev ?t))"
    unfolding strip_def by (metis rev_append rev_rev_ident takeWhile_dropWhile_id)
  with \<open>strip s \<noteq> []\<close> have "hd ?t = hd (strip s)" by (metis hd_append2)
  with t show ?thesis by simp
qed

lemma strip_last: "strip s \<noteq> [] \<Longrightarrow> \<not> is_space (last (strip s))"
  by (simp add: strip_def last_rev hd_dropWhile)

lemma strip_id:
  assumes "s \<noteq> [] \<Longrightarrow> \<not> is_space (hd s) \<and> \<not> is_space (last s)"
  shows "strip s = s"
proof -
  have "dropWhile is_space s = s" "dropWhile is_space (rev s) = rev s"
    using assms by (auto simp: dropWhile_eq_self_iff hd_rev)
  then show ?thesis by (simp add: strip_def)
qed

lemma strip_strip [simp]: "strip (strip s) = strip s"
  by (rule strip_id) (simp add: strip_hd strip_last)

lemma set_strip: "set (strip s) \<subseteq> set s"
  by (auto simp: strip_def dest!: set_dropWhileD)

text \<open>\<open>[g.strip() for g in xs if g and g.strip()]\<close>, a comprehension the code repeats.\<close>

definition stripped_nonempty :: "string list \<Rightarrow> string list" where
  "stripped_nonempty xs = map strip (filter (\<lambda>x. x \<noteq> [] \<and> strip x \<noteq> []) xs)"

lemma stripped_nonempty_mem:
  "g \<in> set (stripped_nonempty xs) \<longleftrightarrow> g \<noteq> [] \<and> (\<exists>x \<in> set xs. strip x = g)"
  by (auto simp: stripped_nonempty_def)

lemma Nil_notin_stripped_nonempty [simp]: "[] \<notin> set (stripped_nonempty xs)"
  by (simp add: stripped_nonempty_mem)

lemma stripped_nonempty_strip: "g \<in> set (stripped_nonempty xs) \<Longrightarrow> strip g = g"
  by (auto simp: stripped_nonempty_mem)

lemma bex_stripped_nonempty:
  "(\<exists>g \<in> set (stripped_nonempty xs). P g) \<longleftrightarrow> (\<exists>x \<in> set xs. strip x \<noteq> [] \<and> P (strip x))"
  by (force simp: stripped_nonempty_mem)

text \<open>\<open>s.split(c)\<close> and \<open>s.partition(c)\<close> for a single character.\<close>

fun split_on :: "char \<Rightarrow> string \<Rightarrow> string list" where
  "split_on c [] = [[]]"
| "split_on c (x # xs) =
     (if x = c then [] # split_on c xs
      else (case split_on c xs of [] \<Rightarrow> [[x]] | w # ws \<Rightarrow> (x # w) # ws))"

definition partition_at :: "char \<Rightarrow> string \<Rightarrow> string \<times> bool \<times> string" where
  "partition_at c s =
     (let pre = takeWhile (\<lambda>x. x \<noteq> c) s; rest = dropWhile (\<lambda>x. x \<noteq> c) s
      in case rest of [] \<Rightarrow> (s, False, []) | _ # ys \<Rightarrow> (pre, True, ys))"

lemma split_on_nonempty: "split_on c s \<noteq> []"
  by (induction s) (auto split: list.splits)

lemma split_on_no_sep: "w \<in> set (split_on c s) \<Longrightarrow> c \<notin> set w"
  by (induction s arbitrary: w) (auto split: list.splits if_splits)

section \<open>JSON values\<close>

text \<open>
  A decoded JSON document. Numbers are never computed with by the modelled code, so a
  float is carried as its \<open>repr\<close>.
\<close>

datatype json =
    JNull
  | JBool bool
  | JInt int
  | JFloat string
  | JStr string
  | JArr "json list"
  | JObj "(string \<times> json) list"

fun as_obj :: "json \<Rightarrow> (string \<times> json) list option" where
  "as_obj (JObj kvs) = Some kvs"
| "as_obj _ = None"

fun as_str :: "json \<Rightarrow> string option" where
  "as_str (JStr s) = Some s"
| "as_str _ = None"

fun as_arr :: "json \<Rightarrow> json list option" where
  "as_arr (JArr xs) = Some xs"
| "as_arr _ = None"

lemma as_obj_Some [simp]: "as_obj j = Some kvs \<longleftrightarrow> j = JObj kvs"
  by (cases j) auto

lemma as_str_Some [simp]: "as_str j = Some s \<longleftrightarrow> j = JStr s"
  by (cases j) auto

text \<open>\<open>d.get(k)\<close> on a JSON object, \<open>None\<close> for a missing key.\<close>

definition jget :: "(string \<times> json) list \<Rightarrow> string \<Rightarrow> json" where
  "jget kvs k = (case map_of kvs k of None \<Rightarrow> JNull | Some v \<Rightarrow> v)"

text \<open>
  Python's truth value of a decoded JSON value, and \<open>str\<close> of one. The \<open>str\<close> of a list or an
  object is its \<open>repr\<close>, a parameter here.
\<close>

fun truthy :: "json \<Rightarrow> bool" where
  "truthy JNull = False"
| "truthy (JBool b) = b"
| "truthy (JInt n) = (n \<noteq> 0)"
| "truthy (JFloat t) = (t \<notin> {''0.0'', ''-0.0''})"
| "truthy (JStr s) = (s \<noteq> [])"
| "truthy (JArr xs) = (xs \<noteq> [])"
| "truthy (JObj kvs) = (kvs \<noteq> [])"

fun nat_digits :: "nat \<Rightarrow> string" where
  "nat_digits n = (if n < 10 then [char_of (48 + n)]
                   else nat_digits (n div 10) @ [char_of (48 + n mod 10)])"

declare nat_digits.simps [simp del]

definition int_digits :: "int \<Rightarrow> string" where
  "int_digits n = (if n < 0 then CHR ''-'' # nat_digits (nat (- n)) else nat_digits (nat n))"

fun py_str :: "(json \<Rightarrow> string) \<Rightarrow> json \<Rightarrow> string" where
  "py_str repr JNull = ''None''"
| "py_str repr (JBool b) = (if b then ''True'' else ''False'')"
| "py_str repr (JInt n) = int_digits n"
| "py_str repr (JFloat t) = t"
| "py_str repr (JStr s) = s"
| "py_str repr j = repr j"

text \<open>\<open>d.get(k, default)\<close>, and \<open>a or b\<close> on JSON values.\<close>

definition jget_or :: "(string \<times> json) list \<Rightarrow> string \<Rightarrow> json \<Rightarrow> json" where
  "jget_or kvs k d = (case map_of kvs k of None \<Rightarrow> d | Some v \<Rightarrow> v)"

definition j_or :: "json \<Rightarrow> json \<Rightarrow> json" where
  "j_or a b = (if truthy a then a else b)"

section \<open>Sorted listings\<close>

lemma set_sort_key [simp]: "set (sort_key f xs) = set xs"
  by simp

lemma filter_singleton:
  assumes "distinct xs" "x \<in> set xs" "\<And>y. y \<in> set xs \<Longrightarrow> P y \<longleftrightarrow> y = x"
  shows "filter P xs = [x]"
proof -
  have "filter P xs = filter (\<lambda>y. y = x) xs"
    using assms(3) by (intro filter_cong) auto
  also have "\<dots> = [x]"
    using assms(1,2) by (induction xs) (auto simp: filter_empty_conv)
  finally show ?thesis .
qed

lemma length_filter_one:
  "length (filter P xs) = 1 \<longleftrightarrow> (\<exists>x. filter P xs = [x])"
  by (cases "filter P xs") auto

end
