(* ===== verification/Identity_Models.thy ===== *)
theory Identity_Models
  imports Prelude
begin

text \<open>
  The value objects of the identity domain (\<open>identity/models.py\<close>): enumerations as
  datatypes, frozen dataclasses as records with the source's fields in the source's order.
  Constructors and fields carry a prefix where the source reuses a name between classes:
  \<open>ag_\<close> for AccessGrant, \<open>atb_\<close> for AgentToolBinding, \<open>dc_\<close> for DelegationContext, and so on.
  \<open>int\<close> stands for Python integers, \<open>option\<close> for values that may be \<open>None\<close>, lists for
  tuples. Enum values that reach strings (reason codes, audit rows) have a \<open>_value\<close> function.
\<close>

section \<open>Enumerations\<close>

datatype connection_status = Connection_ACTIVE | Connection_DISABLED
datatype capability_status = Capability_ACTIVE | Capability_DISABLED
datatype grant_status = Grant_ACTIVE | Grant_REVOKED
datatype asset_capability_status = AssetCap_PENDING | AssetCap_APPROVED | AssetCap_REJECTED
datatype authorization_outcome = ALLOW | DENY

datatype decision_reason =
    ALLOWED
  | TOOL_BINDING_REJECTED
  | POLICY_DEPLOYMENT_FAILED
  | WORKLOAD_AUTH_FAILED
  | INVALID_DELEGATION
  | ASSET_NOT_DELEGATED
  | ASSET_INACTIVE
  | ASSET_VERSION_MISMATCH
  | ASSET_CAPABILITY_NOT_FOUND
  | ASSET_CAPABILITY_NOT_APPROVED
  | CONNECTION_INACTIVE
  | CAPABILITY_INACTIVE
  | CAPABILITY_OUTSIDE_CEILING
  | CAPABILITY_NOT_GRANTED
  | AGENT_TOOL_NOT_BOUND

datatype approval_state = Approval_REQUESTED | Approval_APPROVED | Approval_REJECTED
datatype desired_state = Desired_ALLOWED | Desired_REVOKED

datatype effective_state =
    Effective_PENDING
  | Effective_ACTIVE
  | Effective_REVOKED
  | Effective_FAILED
  | Effective_UNKNOWN

datatype identity_type = MANAGED_RUNTIME_ROLE | EXTERNAL_IAM_ROLE | OAUTH_CLIENT

datatype identity_binding_status =
    Identity_PROVISIONING
  | Identity_ACTIVE
  | Identity_FAILED
  | Identity_REVOKED

datatype policy_deployment_status =
    Policy_PENDING
  | Policy_ACTIVE
  | Policy_SUPERSEDED
  | Policy_FAILED

datatype policy_mode = LOG_ONLY | ENFORCE
datatype invoke_effect = Invoke_ALLOW | Invoke_DENY
datatype authorization_mode = LEGACY_DELEGATED | AGENT_POLICY

datatype agent_invoke_reason = OWNER | PRINCIPAL_ALLOWED | GROUP_ALLOWED | NOT_AUTHORIZED

datatype security_failure_type =
    WORKLOAD_TOKEN_MISSING
  | WORKLOAD_TOKEN_INVALID
  | WORKLOAD_IDENTITY_NOT_ENROLLED
  | WORKLOAD_ASSERTION_INVALID
  | WORKLOAD_ASSERTION_EXPIRED
  | WORKLOAD_ASSERTION_REPLAYED
  | DELEGATION_INVALID
  | DELEGATION_ASSET_NOT_ALLOWED

datatype permission_group = READ_ONLY | READ_CREATE | READ_WRITE | FULL_ACCESS

section \<open>Connections, grants and asset capabilities\<close>

record resource_ref =
  rr_kind :: string
  rr_service :: string
  rr_region :: string
  rr_account :: string
  rr_resource_type :: string
  rr_resource_id :: string
  rr_raw :: string

record connection =
  cn_connection_id :: string
  cn_name :: string
  cn_kind :: string
  cn_target :: string
  cn_credential_mode :: string
  cn_ceiling :: "string list"
  cn_status :: connection_status
  cn_enforcement :: string
  cn_created_by :: string
  cn_created_at :: string
  cn_updated_at :: string
  cn_role_arn :: "string option"
  cn_external_id_ref :: "string option"
  cn_resource :: "resource_ref option"
  cn_schema_version :: int

record connection_capability =
  cc_name :: string
  cc_description :: string
  cc_operations :: "string list"
  cc_status :: capability_status

record access_grant =
  ag_grant_id :: string
  ag_principal_id :: string
  ag_status :: grant_status
  ag_version :: int
  ag_granted_by :: string
  ag_created_at :: string
  ag_updated_at :: string
  ag_expires_at :: "int option"
  ag_subject_group :: string
  ag_asset_id :: string
  ag_operation_id :: string
  ag_asset_version :: string
  ag_connection_id :: string
  ag_capabilities :: "string list"

record asset_version_record =
  av_asset_id :: string
  av_asset_version :: string
  av_record_id :: string
  av_updated_at :: string
  av_updated_by :: string
  av_source :: string

record asset_capability =
  ac_asset_id :: string
  ac_asset_version :: string
  ac_operation_id :: string
  ac_connection_id :: string
  ac_required_capabilities :: "string list"
  ac_status :: asset_capability_status
  ac_version :: int
  ac_updated_at :: string
  ac_approved_by :: "string option"

section \<open>Delegations and workload identities\<close>

record delegation_context =
  dc_handle_hash :: string
  dc_principal_id :: string
  dc_agent_id :: string
  dc_invocation_id :: string
  dc_workload_id :: string
  dc_created_at :: int
  dc_expires_at :: int
  dc_allowed_asset_ids :: "string list"
  dc_principal_groups :: "string list"
  dc_principal_email :: string
  dc_revoked_at :: "int option"

record external_workload_identity =
  ew_agent_id :: string
  ew_workload_id :: string
  ew_public_key :: string
  ew_algorithm :: string
  ew_version :: int
  ew_enrolled_by :: string
  ew_updated_at :: string

section \<open>Audit\<close>

record audit_event =
  ae_event_id :: string
  ae_invocation_id :: string
  ae_principal_id :: string
  ae_agent_id :: string
  ae_asset_id :: string
  ae_operation_id :: string
  ae_connection_id :: string
  ae_capabilities :: "string list"
  ae_decision :: authorization_outcome
  ae_reason :: decision_reason
  ae_target :: string
  ae_timestamp :: string
  ae_workload_id :: string
  ae_event_type :: string
  ae_severity :: string
  ae_failure_type :: string
  ae_mode :: string
  ae_policy_deployment_outcome :: string
  ae_policy_revision :: int
  ae_policy_hash :: string
  ae_validation_findings :: "string list"
  ae_request_justification :: string
  ae_trace_id :: string
  ae_span_id :: string
  ae_invocation_outcome :: string

text \<open>Floating-point figures of usage reports are carried as text; nothing computes with them.\<close>

record tool_invocation_usage =
  tu_name :: string
  tu_call_count :: int
  tu_success_count :: int
  tu_error_count :: int
  tu_total_time :: string

record invocation_usage =
  iu_invocation_id :: string
  iu_principal_id :: string
  iu_agent_id :: string
  iu_session_id :: string
  iu_observed_at :: string
  iu_status :: string
  iu_source :: string
  iu_reason :: string
  iu_input_tokens :: "int option"
  iu_output_tokens :: "int option"
  iu_total_tokens :: "int option"
  iu_cache_read_input_tokens :: "int option"
  iu_cache_write_input_tokens :: "int option"
  iu_latency_ms :: "string option"
  iu_cycle_count :: "int option"
  iu_cycle_durations :: "string list"
  iu_tool_metrics_status :: string
  iu_tool_metrics_reason :: string
  iu_tool_metrics_discarded_count :: int
  iu_tool_metrics :: "tool_invocation_usage list"

record authorization_decision =
  ad_decision :: authorization_outcome
  ad_reason :: decision_reason
  ad_invocation_id :: string
  ad_principal_id :: string
  ad_connection_id :: string
  ad_capabilities :: "string list"
  ad_trace_id :: string

record security_rejection_event =
  sr_event_type :: string
  sr_severity :: string
  sr_reason_code :: decision_reason
  sr_failure_type :: security_failure_type
  sr_timestamp :: string
  sr_invocation_id :: string
  sr_workload_id :: string
  sr_principal_id :: string
  sr_agent_id :: string
  sr_asset_id :: string
  sr_operation_id :: string

section \<open>Agent ledger\<close>

record agent_tool_binding =
  atb_agent_record_id :: string
  atb_asset_id :: string
  atb_asset_version :: string
  atb_operation_id :: string
  atb_gateway_id :: string
  atb_gateway_target_name :: string
  atb_gateway_action :: string
  atb_approval_state :: approval_state
  atb_desired_state :: desired_state
  atb_effective_state :: effective_state
  atb_policy_revision :: int
  atb_created_by :: string
  atb_updated_by :: string
  atb_approved_by :: "string option"
  atb_approved_at :: "string option"
  atb_sensitivity :: string
  atb_request_justification :: string

record agent_identity_binding =
  aib_agent_record_id :: string
  aib_identity_type :: identity_type
  aib_status :: identity_binding_status
  aib_workload_identity_name :: string
  aib_runtime_role_arn :: string
  aib_external_source_role_arn :: string
  aib_gateway_role_arn :: string
  aib_policy_principal_id :: string
  aib_client_id :: string
  aib_verified_at :: string

record agent_policy_deployment =
  apd_agent_record_id :: string
  apd_revision :: int
  apd_gateway_id :: string
  apd_policy_id :: string
  apd_policy_hash :: string
  apd_cedar_policy :: string
  apd_action_count :: int
  apd_mode :: policy_mode
  apd_status :: policy_deployment_status
  apd_created_at :: string
  apd_created_by :: string
  apd_validation_findings :: "string list"
  apd_compiled_actions :: "string list"
  apd_agentcore_policy_id :: string
  apd_deployed_policy_hash :: string
  apd_deployed_at :: string

record domain_policy_enforcement_change =
  dpc_requested_mode :: string
  dpc_observed_mode :: string
  dpc_observed_status :: string
  dpc_changed_by :: string
  dpc_changed_at :: string
  dpc_reason :: string

record domain_policy_rule =
  dpr_rule_id :: string
  dpr_gateway_arn :: string
  dpr_engine_id :: string
  dpr_asset_id :: string
  dpr_asset_version :: string
  dpr_target_name :: string
  dpr_tool_name :: string
  dpr_gateway_action :: string
  dpr_argument :: string
  dpr_operator :: string
  dpr_value_kind :: string
  dpr_threshold :: string
  dpr_cedar_policy :: string
  dpr_policy_hash :: string
  dpr_remote_policy_id :: string
  dpr_remote_policy_name :: string
  dpr_observed_status :: string
  dpr_created_by :: string
  dpr_created_at :: string
  dpr_description :: string
  dpr_status_reasons :: "string list"
  dpr_coarse_conflicts :: "string list"
  dpr_coarse_conflict_policies :: "string list"
  dpr_conflict_acknowledged :: bool
  dpr_enforcement_mode :: string
  dpr_requested_enforcement_mode :: string
  dpr_enforcement_changes :: "domain_policy_enforcement_change list"
  dpr_version :: int

record agent_client_claim =
  acl_client_id :: string
  acl_agent_record_id :: string

record agent_authorization_ledger_snapshot =
  als_identities :: "agent_identity_binding list"
  als_tool_bindings :: "agent_tool_binding list"
  als_policy_deployments :: "agent_policy_deployment list"
  als_client_claims :: "agent_client_claim list"

record agent_invoke_authorization =
  aia_agent_id :: string
  aia_owner_principal_id :: string
  aia_allowed_principals :: "string list"
  aia_allowed_groups :: "string list"
  aia_default_effect :: invoke_effect
  aia_updated_by :: string
  aia_updated_at :: string
  aia_permission_group :: permission_group
  aia_permission_group_justification :: string

record agent_invoke_decision =
  aid_decision :: authorization_outcome
  aid_reason :: agent_invoke_reason
  aid_agent_id :: string
  aid_caller_principal_id :: string

section \<open>Shared-policy cutover ledger rows (\<open>identity/agent_policy_cutover.py\<close>)\<close>

datatype gateway_policy_cutover_phase =
    Cutover_CREATING
  | Cutover_AWAITING_ACTIVE
  | Cutover_DELETING_LEGACY
  | Cutover_VERIFYING_CALL
  | Cutover_COMPLETED
  | Cutover_FAILED
  | Cutover_UNKNOWN

record gateway_shared_policy_deployment =
  gsp_policy_key :: string
  gsp_policy_name :: string
  gsp_cedar_policy :: string
  gsp_policy_hash :: string
  gsp_target_count :: int
  gsp_size_bytes :: int
  gsp_agentcore_policy_id :: string
  gsp_remote_status :: string
  gsp_deployed_policy_hash :: string
  gsp_status_reasons :: "string list"

record gateway_call_verification =
  gcv_status :: string
  gcv_reachable_call_observed :: bool
  gcv_negative_control_observed :: bool
  gcv_evidence_source :: string
  gcv_positive_call_id :: string
  gcv_negative_call_id :: string
  gcv_positive_target_event_id :: string
  gcv_negative_decision_event_id :: string
  gcv_observation_window_id :: string
  gcv_negative_control_kind :: string
  gcv_detail :: string

record gateway_policy_cutover =
  gpc_gateway_arn :: string
  gpc_revision :: int
  gpc_phase :: gateway_policy_cutover_phase
  gpc_policies :: "gateway_shared_policy_deployment list"
  gpc_created_at :: string
  gpc_created_by :: string
  gpc_updated_at :: string
  gpc_version :: int
  gpc_delete_requested_policy_ids :: "string list"
  gpc_deleted_policy_ids :: "string list"
  gpc_unmanaged_policy_ids :: "string list"
  gpc_preserved_policy_ids :: "string list"
  gpc_call_verification :: gateway_call_verification
  gpc_findings :: "string list"

text \<open>The platform roles; their order is the contract's order.\<close>

definition PLATFORM_ROLES :: "string list" where
  "PLATFORM_ROLES = [''user'', ''admin'']"

text \<open>
  \<open>filter_platform_roles\<close> accepts one string or a collection of values, and ignores
  anything else; a value other than a string normalises to its \<open>str\<close>, which is never a role.
\<close>

datatype raw_groups = RawString string | RawValues "string option list" | RawOther

fun filter_platform_roles :: "raw_groups \<Rightarrow> string list" where
  "filter_platform_roles RawOther = []"
| "filter_platform_roles (RawString s) =
     filter (\<lambda>role. role \<in> set [strip s]) PLATFORM_ROLES"
| "filter_platform_roles (RawValues vs) =
     filter (\<lambda>role. role \<in> set (map strip (List.map_filter id vs))) PLATFORM_ROLES"

record principal =
  pr_principal_id :: string
  pr_roles :: "string list"
  pr_source :: string
  pr_token_id :: string
  pr_token_expires_at :: int
  pr_team :: string
  pr_email :: string

definition is_admin :: "principal \<Rightarrow> bool" where
  "is_admin p \<longleftrightarrow> ''admin'' \<in> set (pr_roles p)"

definition has_any_role :: "principal \<Rightarrow> string list \<Rightarrow> bool" where
  "has_any_role p allowed \<longleftrightarrow> list_ex (\<lambda>r. r \<in> set allowed) (pr_roles p)"

section \<open>Permission groups (\<open>shared/permission_group.py\<close>)\<close>

fun allowed_tags :: "permission_group \<Rightarrow> string list" where
  "allowed_tags READ_ONLY = [''READ'']"
| "allowed_tags READ_CREATE = [''READ'', ''CREATE'']"
| "allowed_tags READ_WRITE = [''READ'', ''CREATE'', ''UPDATE'']"
| "allowed_tags FULL_ACCESS = [''READ'', ''CREATE'', ''UPDATE'', ''DELETE'']"

definition group_allows :: "permission_group \<Rightarrow> string \<Rightarrow> bool" where
  "group_allows g tag = (if tag = [] then False else upper (strip tag) \<in> set (allowed_tags g))"

fun requires_admin_elevation :: "permission_group \<Rightarrow> bool" where
  "requires_admin_elevation READ_WRITE = True"
| "requires_admin_elevation FULL_ACCESS = True"
| "requires_admin_elevation _ = False"

text \<open>The presets are ordered by what they allow.\<close>

instantiation permission_group :: linorder
begin

fun rank_permission_group :: "permission_group \<Rightarrow> nat" where
  "rank_permission_group READ_ONLY = 0"
| "rank_permission_group READ_CREATE = 1"
| "rank_permission_group READ_WRITE = 2"
| "rank_permission_group FULL_ACCESS = 3"

definition less_eq_permission_group :: "permission_group \<Rightarrow> permission_group \<Rightarrow> bool" where
  "less_eq_permission_group g h \<longleftrightarrow> rank_permission_group g \<le> rank_permission_group h"

definition less_permission_group :: "permission_group \<Rightarrow> permission_group \<Rightarrow> bool" where
  "less_permission_group g h \<longleftrightarrow> rank_permission_group g < rank_permission_group h"

instance
proof
  fix g h k :: permission_group
  show "g < h \<longleftrightarrow> g \<le> h \<and> \<not> h \<le> g"
    by (auto simp: less_eq_permission_group_def less_permission_group_def)
  show "g \<le> g" "g \<le> h \<Longrightarrow> h \<le> k \<Longrightarrow> g \<le> k" "g \<le> h \<or> h \<le> g"
    by (auto simp: less_eq_permission_group_def)
  show "g \<le> h \<Longrightarrow> h \<le> g \<Longrightarrow> g = h"
    by (cases g; cases h) (auto simp: less_eq_permission_group_def)
qed

end

lemma allowed_tags_mono: "g \<le> h \<Longrightarrow> set (allowed_tags g) \<subseteq> set (allowed_tags h)"
  by (cases g; cases h) (auto simp: less_eq_permission_group_def)

lemma group_allows_mono: "g \<le> h \<Longrightarrow> group_allows g tag \<Longrightarrow> group_allows h tag"
  using allowed_tags_mono [of g h] by (auto simp: group_allows_def split: if_splits)

end
