(* ===== verification/Gateway_Targets.thy ===== *)
theory Gateway_Targets
  imports Identity_Models
begin

text \<open>
  Gateway Targets and tool names (\<open>shared/gateway_tools.py\<close>): the validated index from MCP
  operations to sensitivity Targets that the Registry's descriptor declares, selection from it,
  and the names under which the Gateway exposes an operation. Also the prefix rule for OAuth
  scope names (\<open>identity/agent_policy_scope.py\<close>).
\<close>

section \<open>Tool names\<close>

definition TOOL_SEPARATOR :: string where
  "TOOL_SEPARATOR = ''___''"

definition gateway_tool_name :: "string \<Rightarrow> string \<Rightarrow> string" where
  "gateway_tool_name target operation = target @ TOOL_SEPARATOR @ operation"

definition dash_to_underscore :: "string \<Rightarrow> string" where
  "dash_to_underscore = map (\<lambda>c. if c = CHR ''-'' then CHR ''_'' else c)"

definition gateway_tool_names :: "string \<Rightarrow> string \<Rightarrow> string list" where
  "gateway_tool_names target operation =
     map (\<lambda>t. gateway_tool_name t operation) (fromkeys [target, dash_to_underscore target])"

definition gateway_tool_prefixes :: "string \<Rightarrow> string list" where
  "gateway_tool_prefixes target =
     map (\<lambda>t. t @ TOOL_SEPARATOR) (fromkeys [target, dash_to_underscore target])"

section \<open>The Target index of an MCP descriptor\<close>

record mcp_gateway_target =
  mt_name :: string
  mt_sensitivity :: string
  mt_operations :: "string list"
  mt_target_id :: string

record mcp_gateway_target_index =
  ti_split :: bool
  ti_targets :: "mcp_gateway_target list"
  ti_legacy_target_name :: "string option"

text \<open>A raised \<open>McpGatewayTargetError\<close>, with the operations it names, if any.\<close>

datatype target_error = TargetError | UnassignedOperations "string list"

definition index_target_name :: "mcp_gateway_target_index \<Rightarrow> string \<Rightarrow> string option" where
  "index_target_name idx operation_id =
     (if ti_split idx
      then map_option mt_name
             (find (\<lambda>t. strip operation_id \<in> set (mt_operations t)) (ti_targets idx))
      else ti_legacy_target_name idx)"

text \<open>\<open>select\<close>: the Targets that own a requested operation, narrowed to it.\<close>

definition narrowed_targets ::
  "mcp_gateway_target list \<Rightarrow> string list \<Rightarrow> mcp_gateway_target list" where
  "narrowed_targets targets requested =
     filter (\<lambda>t. mt_operations t \<noteq> [])
       (map (\<lambda>t. t\<lparr>mt_operations := filter (\<lambda>op. op \<in> set requested) (mt_operations t)\<rparr>) targets)"

definition index_select ::
  "mcp_gateway_target_index \<Rightarrow> string list option \<Rightarrow> target_error + mcp_gateway_target list" where
  "index_select idx operations =
     (if \<not> ti_split idx then Inr []
      else case operations of
        None \<Rightarrow> Inl TargetError
      | Some ops \<Rightarrow>
          (let requested = fromkeys (stripped_nonempty ops);
               selected = narrowed_targets (ti_targets idx) requested;
               assigned = concat (map mt_operations selected);
               missing = sort (filter (\<lambda>op. op \<notin> set assigned) requested)
           in if missing \<noteq> [] then Inl (UnassignedOperations missing) else Inr selected))"

text \<open>One raw entry: its name, sensitivity, operations and id, when it is complete.\<close>

definition nonblank :: "json \<Rightarrow> bool" where
  "nonblank j = (case j of JStr s \<Rightarrow> strip s \<noteq> [] | _ \<Rightarrow> False)"

definition str_of :: "json \<Rightarrow> string" where
  "str_of j = (case j of JStr s \<Rightarrow> s | _ \<Rightarrow> [])"

definition read_target :: "json \<Rightarrow> mcp_gateway_target option" where
  "read_target raw =
     (case raw of
        JObj t \<Rightarrow>
          (let name = jget t ''gatewayTargetName''; target_id = jget t ''gatewayTargetId'';
               state = jget t ''gatewayTargetState'';
               sensitivity = upper (strip (str_of (jget t ''sensitivity'')))
           in case jget t ''operations'' of
                JArr ops \<Rightarrow>
                  if \<not> nonblank name \<or> \<not> nonblank target_id
                     \<or> as_str state = None \<or> casefold (strip (str_of state)) \<noteq> ''ready''
                     \<or> sensitivity \<notin> set (allowed_tags FULL_ACCESS)
                     \<or> ops = [] \<or> \<not> list_all nonblank ops
                  then None
                  else Some \<lparr>mt_name = strip (str_of name), mt_sensitivity = sensitivity,
                             mt_operations = fromkeys (map (\<lambda>op. strip (str_of op)) ops),
                             mt_target_id = strip (str_of target_id)\<rparr>
              | _ \<Rightarrow> None)
      | _ \<Rightarrow> None)"

text \<open>
  The loop over the entries: the accepted Targets so far, in order. A name, a sensitivity or an
  operation that an earlier Target already has raises.
\<close>

fun read_targets ::
  "json list \<Rightarrow> mcp_gateway_target list \<Rightarrow> target_error + mcp_gateway_target list" where
  "read_targets [] targets = Inr targets"
| "read_targets (raw # raws) targets =
     (case read_target raw of
        None \<Rightarrow> Inl TargetError
      | Some t \<Rightarrow>
          if mt_name t \<in> set (map mt_name targets)
             \<or> mt_sensitivity t \<in> set (map mt_sensitivity targets)
             \<or> list_ex (\<lambda>op. op \<in> set (concat (map mt_operations targets))) (mt_operations t)
          then Inl TargetError
          else read_targets raws (targets @ [t]))"

definition mcp_gateway_target_index ::
  "json \<Rightarrow> target_error + mcp_gateway_target_index" where
  "mcp_gateway_target_index descriptors =
     (case (case descriptors of JObj d \<Rightarrow> jget d ''mcp'' | _ \<Rightarrow> JNull) of
        JObj mcp \<Rightarrow>
          (case map_of mcp ''gatewayTargets'' of
             None \<Rightarrow>
               (case jget mcp ''gatewayTargetName'' of
                  JNull \<Rightarrow> Inr \<lparr>ti_split = False, ti_targets = [], ti_legacy_target_name = None\<rparr>
                | JStr s \<Rightarrow>
                    if strip s = [] then Inl TargetError
                    else Inr \<lparr>ti_split = False, ti_targets = [],
                              ti_legacy_target_name = Some (strip s)\<rparr>
                | _ \<Rightarrow> Inl TargetError)
           | Some (JArr raws) \<Rightarrow>
               bind_res (read_targets raws []) (\<lambda>targets.
                 Inr \<lparr>ti_split = True, ti_targets = targets, ti_legacy_target_name = None\<rparr>)
           | Some _ \<Rightarrow> Inl TargetError)
      | _ \<Rightarrow> Inl TargetError)"

section \<open>Scope names\<close>

datatype scope_name_conflict = Scope_empty | Scope_prefix string string

fun check_prefixes :: "string list \<Rightarrow> scope_name_conflict + unit" where
  "check_prefixes [] = Inr ()"
| "check_prefixes (x # xs) =
     (case find (\<lambda>y. prefix y x \<or> prefix x y) xs of
        Some y \<Rightarrow> Inl (Scope_prefix x y)
      | None \<Rightarrow> check_prefixes xs)"

definition validate_scope_name_prefixes ::
  "string list \<Rightarrow> scope_name_conflict + string list" where
  "validate_scope_name_prefixes scope_names =
     (let names = map strip scope_names in
      if [] \<in> set names then Inl Scope_empty
      else bind_res (check_prefixes names) (\<lambda>_. Inr names))"

section \<open>Lemmas\<close>

text \<open>A valid list of Targets: no two share a name, a sensitivity or an operation.\<close>

definition targets_valid :: "mcp_gateway_target list \<Rightarrow> bool" where
  "targets_valid ts \<longleftrightarrow> distinct (map mt_name ts) \<and> distinct (map mt_sensitivity ts) \<and>
     distinct (concat (map mt_operations ts)) \<and>
     (\<forall>t \<in> set ts. mt_operations t \<noteq> [] \<and> mt_name t \<noteq> [] \<and>
        mt_sensitivity t \<in> set (allowed_tags FULL_ACCESS))"

lemma fromkeys_eq_Nil [simp]: "fromkeys xs = [] \<longleftrightarrow> xs = []"
  by (metis set_empty set_fromkeys)

lemma read_target_valid:
  assumes "read_target raw = Some t"
  shows "distinct (mt_operations t) \<and> mt_operations t \<noteq> [] \<and>
     mt_name t \<noteq> [] \<and> mt_sensitivity t \<in> set (allowed_tags FULL_ACCESS)"
proof -
  obtain e where e: "raw = JObj e" using assms by (cases raw) (auto simp: read_target_def)
  obtain ops where ops: "jget e ''operations'' = JArr ops"
    using assms by (cases "jget e ''operations''") (auto simp: read_target_def e Let_def)
  obtain name where "jget e ''gatewayTargetName'' = JStr name" "strip name \<noteq> []"
    using assms by (cases "jget e ''gatewayTargetName''")
      (auto simp: read_target_def e ops Let_def nonblank_def split: if_splits)
  with assms show ?thesis
    by (auto simp: read_target_def e ops Let_def str_of_def simp del: allowed_tags.simps
        split: if_splits)
qed

lemma read_targets_valid:
  "read_targets raws ts = Inr us \<Longrightarrow> targets_valid ts \<Longrightarrow> targets_valid us"
proof (induction raws ts rule: read_targets.induct)
  case (2 raw raws ts)
  then obtain t where t: "read_target raw = Some t"
    and new: "mt_name t \<notin> set (map mt_name ts)" "mt_sensitivity t \<notin> set (map mt_sensitivity ts)"
      "\<forall>op \<in> set (mt_operations t). op \<notin> set (concat (map mt_operations ts))"
    and rest: "read_targets raws (ts @ [t]) = Inr us"
    by (auto simp: list_ex_iff split: option.splits if_splits)
  from read_target_valid [OF t] new 2(3) have "targets_valid (ts @ [t])"
    by (auto simp: targets_valid_def)
  with 2(1) [OF t _ rest] new show ?case by (auto simp: list_ex_iff)
qed simp

lemma index_targets_valid:
  "mcp_gateway_target_index d = Inr idx \<Longrightarrow> targets_valid (ti_targets idx)"
  by (auto simp: mcp_gateway_target_index_def bind_res_Inr_iff targets_valid_def
      dest!: read_targets_valid split: json.splits option.splits if_splits)

lemma check_prefixes_Inr:
  "check_prefixes xs = Inr u \<longleftrightarrow> sorted_wrt (\<lambda>x y. \<not> prefix y x \<and> \<not> prefix x y) xs"
  by (induction xs) (auto split: option.splits simp: find_None_iff find_Some_iff)


lemma narrowed_operations:
  "concat (map mt_operations (narrowed_targets ts req)) =
     filter (\<lambda>op. op \<in> set req) (concat (map mt_operations ts))"
  by (induction ts) (auto simp: narrowed_targets_def)

lemma narrowed_from:
  "t \<in> set (narrowed_targets ts req) \<Longrightarrow>
     \<exists>u \<in> set ts. mt_name u = mt_name t \<and> mt_sensitivity u = mt_sensitivity t \<and>
       set (mt_operations t) \<subseteq> set (mt_operations u)"
  by (auto simp: narrowed_targets_def)

text \<open>In a valid list the owner of an operation is unique, so the first match is the owner.\<close>

lemma owner_unique:
  assumes "targets_valid ts" "t \<in> set ts" "op \<in> set (mt_operations t)"
  shows "find (\<lambda>t. op \<in> set (mt_operations t)) ts = Some t"
proof -
  have "distinct (concat (map mt_operations ts))" using assms(1) by (simp add: targets_valid_def)
  then show ?thesis using assms(2,3)
  proof (induction ts)
    case (Cons u us)
    show ?case
    proof (cases "op \<in> set (mt_operations u)")
      case True
      with Cons.prems have "t = u" by auto
      with True show ?thesis by simp
    next
      case False
      with Cons show ?thesis by auto
    qed
  qed simp
qed

lemma index_select_Inr:
  assumes "index_select idx (Some ops) = Inr sel" "ti_split idx"
  shows "sel = narrowed_targets (ti_targets idx) (fromkeys (stripped_nonempty ops))"
    and "set (fromkeys (stripped_nonempty ops)) \<subseteq> set (concat (map mt_operations sel))"
proof -
  let ?req = "fromkeys (stripped_nonempty ops)"
  let ?sel = "narrowed_targets (ti_targets idx) ?req"
  have "sort (filter (\<lambda>op. op \<notin> set (concat (map mt_operations ?sel))) ?req) = [] \<and> sel = ?sel"
    using assms by (auto simp: index_select_def Let_def split: if_splits)
  moreover have "sort xs = [] \<longleftrightarrow> xs = []" for xs :: "string list"
    by (metis set_empty set_sort)
  ultimately show "sel = ?sel" "set ?req \<subseteq> set (concat (map mt_operations sel))"
    by (auto simp only: filter_empty_conv)
qed

section \<open>Properties\<close>

text \<open>A selection serves every requested operation through one Target. For an index read from
  a split descriptor, a selection that does not raise covers exactly the requested operations,
  lists each of them once, and under the very Target that the index names for it; its
  sensitivities are pairwise different.\<close>

theorem selection_partitions_operations:
  assumes "mcp_gateway_target_index d = Inr idx" "ti_split idx"
    and "index_select idx (Some ops) = Inr sel"
  shows "set (concat (map mt_operations sel)) = set (stripped_nonempty ops) \<and>
    distinct (concat (map mt_operations sel)) \<and> distinct (map mt_sensitivity sel) \<and>
    (\<forall>t \<in> set sel. mt_operations t \<noteq> [] \<and>
       (\<forall>op \<in> set (mt_operations t). index_target_name idx op = Some (mt_name t)))"
proof -
  let ?ts = "ti_targets idx" and ?req = "fromkeys (stripped_nonempty ops)"
  have valid: "targets_valid ?ts" using assms(1) by (rule index_targets_valid)
  note sel = index_select_Inr [OF assms(3,2)]
  have ops: "concat (map mt_operations sel) = filter (\<lambda>op. op \<in> set ?req) (concat (map mt_operations ?ts))"
    by (simp only: sel(1) narrowed_operations)
  have "set (concat (map mt_operations sel)) = set (stripped_nonempty ops)"
  proof
    show "set (concat (map mt_operations sel)) \<subseteq> set (stripped_nonempty ops)"
      unfolding ops by auto
  qed (use sel(2) in simp)
  moreover have "distinct (concat (map mt_operations sel))"
    using valid by (simp only: ops distinct_filter targets_valid_def)
  moreover have "distinct (map mt_sensitivity sel)"
    unfolding sel(1) narrowed_targets_def
    by (rule distinct_map_filter) (use valid in \<open>simp add: targets_valid_def comp_def\<close>)
  moreover have "mt_operations t \<noteq> [] \<and>
      (\<forall>op \<in> set (mt_operations t). index_target_name idx op = Some (mt_name t))"
    if t: "t \<in> set sel" for t
  proof -
    have "mt_operations t \<noteq> []" using t by (auto simp: sel(1) narrowed_targets_def)
    moreover have "index_target_name idx op = Some (mt_name t)" if op: "op \<in> set (mt_operations t)" for op
    proof -
      from narrowed_from [of t ?ts ?req] t obtain u where u: "u \<in> set ?ts" "mt_name u = mt_name t"
        "op \<in> set (mt_operations u)" using op by (auto simp: sel(1))
      have "op \<in> set ?req" using t op by (auto simp: sel(1) narrowed_targets_def)
      then have "strip op = op" by (auto intro: stripped_nonempty_strip)
      with owner_unique [OF valid u(1,3)] u(2) show ?thesis
        by (simp add: index_target_name_def assms(2))
    qed
    ultimately show ?thesis by blast
  qed
  ultimately show ?thesis by blast
qed

definition sample_descriptor :: json where
  "sample_descriptor = JObj [(''mcp'', JObj [(''gatewayTargets'', JArr [
     JObj [(''gatewayTargetName'', JStr ''notes-read''), (''gatewayTargetId'', JStr ''T1''),
           (''gatewayTargetState'', JStr ''READY''), (''sensitivity'', JStr ''read''),
           (''operations'', JArr [JStr ''list'', JStr ''get''])],
     JObj [(''gatewayTargetName'', JStr ''notes-delete''), (''gatewayTargetId'', JStr ''T2''),
           (''gatewayTargetState'', JStr ''ready''), (''sensitivity'', JStr ''DELETE''),
           (''operations'', JArr [JStr ''purge''])]])])]"

theorem selection_partitions_operations_witness:
  "\<exists>idx sel. mcp_gateway_target_index sample_descriptor = Inr idx \<and>
     index_select idx (Some ['' purge'', ''get'']) = Inr sel \<and>
     set (concat (map mt_operations sel)) = {''purge'', ''get''}"
proof -
  define idx where "idx = \<lparr>ti_split = True, ti_targets =
      [\<lparr>mt_name = ''notes-read'', mt_sensitivity = ''READ'', mt_operations = [''list'', ''get''],
        mt_target_id = ''T1''\<rparr>,
       \<lparr>mt_name = ''notes-delete'', mt_sensitivity = ''DELETE'', mt_operations = [''purge''],
        mt_target_id = ''T2''\<rparr>], ti_legacy_target_name = None\<rparr>"
  have i: "mcp_gateway_target_index sample_descriptor = Inr idx"
    unfolding idx_def by code_simp
  have split: "ti_split idx" by (simp add: idx_def)
  have req: "stripped_nonempty ['' purge'', ''get''] = [''purge'', ''get'']" by code_simp
  obtain sel where s: "index_select idx (Some ['' purge'', ''get'']) = Inr sel"
    by (simp add: index_select_def req idx_def narrowed_targets_def fromkeys_def Let_def)
  from selection_partitions_operations [OF i split s] i s req show ?thesis by auto
qed

end
