(* ===== verification/Interfaces.thy ===== *)
theory Interfaces
  imports Prelude
begin

text \<open>
  The contracts between components, as locales over arbitrary states: a keyed table of rows,
  a table whose rows can be deleted, optimistic concurrency on a row version, a register of
  one-time claims, and a transition system with an invariant. Each is interpreted on the
  model's own operations in the theory of the component that provides them; the lemmas
  proved here once are then facts about those operations.
\<close>

section \<open>Keyed tables\<close>

text \<open>
  \<open>get\<close> reads a row by key and \<open>put\<close> stores a row under the key computed from it. The law is
  the contract between a writer and a reader that address the same row.
\<close>

locale row_table =
  fixes get :: "'s \<Rightarrow> 'k \<Rightarrow> 'v option"
    and put :: "'v \<Rightarrow> 's \<Rightarrow> 's"
    and key :: "'v \<Rightarrow> 'k"
  assumes get_put: "get (put v s) k = (if k = key v then Some v else get s k)"
begin

lemma get_put_same: "get (put v s) (key v) = Some v"
  by (simp add: get_put)

lemma get_put_other: "k \<noteq> key v \<Longrightarrow> get (put v s) k = get s k"
  by (simp add: get_put)

lemma put_overwrites: "key v = key w \<Longrightarrow> get (put v (put w s)) k = get (put v s) k"
  by (simp add: get_put)

lemma put_commute: "key v \<noteq> key w \<Longrightarrow> get (put v (put w s)) k = get (put w (put v s)) k"
  by (simp add: get_put)

text \<open>After any batch of writes a row is the last one written under its key.\<close>

lemma get_fold_put:
  "get (fold put vs s) k =
     (case find (\<lambda>v. key v = k) (rev vs) of None \<Rightarrow> get s k | Some v \<Rightarrow> Some v)"
proof (induction vs rule: rev_induct)
  case (snoc v vs)
  then show ?case by (simp add: get_put)
qed simp

end

locale deletable_table = row_table +
  fixes del :: "'b \<Rightarrow> 'a \<Rightarrow> 'a"
  assumes get_del: "get (del k s) k' = (if k' = k then None else get s k')"
begin

lemma get_del_same: "get (del k s) k = None"
  by (simp add: get_del)

lemma del_put: "key v = k \<Longrightarrow> get (del k (put v s)) k' = get (del k s) k'"
  by (simp add: get_del get_put)

lemma put_after_del: "key v = k \<Longrightarrow> get (put v (del k s)) k' = get (put v s) k'"
  by (simp add: get_del get_put)

end

section \<open>Optimistic concurrency\<close>

text \<open>
  Attempts to update one row run one after the other; an attempt that raises leaves the
  state as it was. The result lists which attempts were applied.
\<close>

fun run_attempts :: "('s \<Rightarrow> 's option) list \<Rightarrow> 's \<Rightarrow> 's \<times> bool list" where
  "run_attempts [] s = (s, [])"
| "run_attempts (f # fs) s =
     (case f s of
        None \<Rightarrow> map_prod id (Cons False) (run_attempts fs s)
      | Some s' \<Rightarrow> map_prod id (Cons True) (run_attempts fs s'))"

lemma length_run_attempts: "length (snd (run_attempts fs s)) = length fs"
  by (induction fs arbitrary: s) (auto split: option.splits)

text \<open>
  \<open>ver s k\<close> is the version of row \<open>k\<close>, if it exists; \<open>upd a k n s\<close> is the state after an
  update by a caller who saw version \<open>n\<close>, or \<open>None\<close> if the update was not applied.
\<close>

locale versioned_row =
  fixes ver :: "'s \<Rightarrow> 'k \<Rightarrow> int option"
    and upd :: "'a \<Rightarrow> 'k \<Rightarrow> int \<Rightarrow> 's \<Rightarrow> 's option"
  assumes upd_saw_current: "upd a k n s = Some t \<Longrightarrow> ver s k = Some n"
    and upd_advances: "upd a k n s = Some t \<Longrightarrow> ver t k = Some m \<Longrightarrow> n < m"
begin

lemma stale_rejected: "ver s k \<noteq> Some n \<Longrightarrow> upd a k n s = None"
  using upd_saw_current by (cases "upd a k n s") auto

lemma second_writer_loses: "upd a k n s = Some t \<Longrightarrow> upd b k n t = None"
  using upd_advances stale_rejected by blast

lemma stale_attempts_fail:
  "ver s k \<noteq> Some n \<Longrightarrow> run_attempts (map (\<lambda>a. upd a k n) xs) s = (s, replicate (length xs) False)"
  by (induction xs) (simp_all add: stale_rejected)

text \<open>Of any number of writers that saw the same version, at most one is applied.\<close>

lemma at_most_one_writer:
  "length (filter id (snd (run_attempts (map (\<lambda>a. upd a k n) xs) s))) \<le> 1"
proof (induction xs)
  case (Cons a xs)
  show ?case
  proof (cases "upd a k n s")
    case None
    with Cons show ?thesis by simp
  next
    case (Some t)
    then have "ver t k \<noteq> Some n" using upd_advances by blast
    with Some show ?thesis by (simp add: stale_attempts_fail)
  qed
qed simp

end

text \<open>Updates of one row leave the versions of all others alone.\<close>

locale versioned_table = versioned_row ver upd
  for ver :: "'s \<Rightarrow> 'k \<Rightarrow> int option" and upd :: "'a \<Rightarrow> 'k \<Rightarrow> int \<Rightarrow> 's \<Rightarrow> 's option" +
  assumes upd_frame: "upd a k n s = Some t \<Longrightarrow> k' \<noteq> k \<Longrightarrow> ver t k' = ver s k'"
begin

lemma no_false_conflict:
  "upd a k n s = Some t \<Longrightarrow> k' \<noteq> k \<Longrightarrow> ver t k' = Some m \<longleftrightarrow> ver s k' = Some m"
  by (simp add: upd_frame)

end

section \<open>One-time claims\<close>

fun run_claims :: "('k \<Rightarrow> 's \<Rightarrow> 's \<times> bool) \<Rightarrow> 'k list \<Rightarrow> 's \<Rightarrow> 's \<times> bool list" where
  "run_claims f [] s = (s, [])"
| "run_claims f (k # ks) s =
     map_prod id (Cons (snd (f k s))) (run_claims f ks (fst (f k s)))"

text \<open>The positions of a list that hold an element not seen before.\<close>

fun first_seen :: "'k set \<Rightarrow> 'k list \<Rightarrow> bool list" where
  "first_seen seen [] = []"
| "first_seen seen (k # ks) = (k \<notin> seen) # first_seen (insert k seen) ks"

lemma first_seen_none: "set ks \<subseteq> seen \<Longrightarrow> first_seen seen ks = replicate (length ks) False"
  by (induction ks arbitrary: seen) (auto simp: subset_insertI2)

text \<open>
  A claim is accepted iff its key was not claimed, and from then on it is claimed. Whatever
  is accepted can never be accepted again.
\<close>

locale claim_register =
  fixes claim :: "'k \<Rightarrow> 's \<Rightarrow> 's \<times> bool"
    and claimed :: "'s \<Rightarrow> 'k set"
  assumes claim_accepts: "snd (claim k s) \<longleftrightarrow> k \<notin> claimed s"
    and claim_records: "claimed (fst (claim k s)) = insert k (claimed s)"
begin

lemma replay_refused: "\<not> snd (claim k (fst (claim k s)))"
  by (simp add: claim_accepts claim_records)

lemma run_claims_results: "snd (run_claims claim ks s) = first_seen (claimed s) ks"
  by (induction ks arbitrary: s) (simp_all add: claim_accepts claim_records)

lemma claimed_run_claims: "claimed (fst (run_claims claim ks s)) = claimed s \<union> set ks"
  by (induction ks arbitrary: s) (simp_all add: claim_records)

end

section \<open>Transition systems with an invariant\<close>

locale transition_system =
  fixes step :: "'op \<Rightarrow> 's \<Rightarrow> 's"
    and inv :: "'s \<Rightarrow> bool"
  assumes inv_step: "inv s \<Longrightarrow> inv (step op s)"
begin

lemma inv_run: "inv s \<Longrightarrow> inv (fold step ops s)"
  by (induction ops arbitrary: s) (auto intro: inv_step)

end

text \<open>A system with a quantity that no step lets decrease.\<close>

locale monotone_system = transition_system step inv
  for step :: "'op \<Rightarrow> 's \<Rightarrow> 's" and inv :: "'s \<Rightarrow> bool" +
  fixes rank :: "'s \<Rightarrow> int"
  assumes rank_step: "inv s \<Longrightarrow> rank s \<le> rank (step op s)"
begin

lemma rank_run: "inv s \<Longrightarrow> rank s \<le> rank (fold step ops s)"
proof (induction ops arbitrary: s)
  case (Cons op ops)
  then have "rank (step op s) \<le> rank (fold step ops (step op s))"
    by (simp add: inv_step)
  with rank_step [OF Cons.prems, of op] show ?case by simp
qed simp

end

end
