(* ===== verification/Identity_Store.thy ===== *)
theory Identity_Store
  imports Identity_Models Interfaces
begin

text \<open>
  The identity ledger of \<open>identity/store.py\<close>: the state of \<open>InMemoryIdentityStore\<close> as a record
  of dictionaries, and its operations on connections, capabilities, access grants (layer 7),
  asset versions, asset capabilities, delegations, workload nonces and external workload
  identities. Each operation is total: a raised \<open>IdentityRecordNotFound\<close>,
  \<open>IdentityVersionConflict\<close> or \<open>ValueError\<close> is a value of \<open>identity_error\<close> (message texts are
  dropped), and a mutation returns the new state. The locks make every method atomic, so a
  method is one step. The agent ledger and the audit log, which share this state, are in
  \<open>Agent_Ledger\<close> and \<open>Audit_Log\<close>.
\<close>

section \<open>State\<close>

datatype identity_error = RecordNotFound | VersionConflict | InvalidValue

text \<open>A managed-client reservation: owner, client id (empty until created), deleting flag.\<close>

type_synonym reservation = "string \<times> string \<times> bool"
type_synonym binding_key = "string \<times> string \<times> string \<times> string"

text \<open>A paged audit query in progress: its parameters, the snapshot it pages, the offset.\<close>

record timeline_query =
  tq_from_time :: string
  tq_to_time :: string
  tq_decision :: "authorization_outcome option"
  tq_agent_id :: string
  tq_principal_id :: string
  tq_limit :: int

record timeline_cursor =
  tc_query :: timeline_query
  tc_items :: "audit_event list"
  tc_offset :: nat

record identity_store =
  st_connections :: "(string, connection) dict"
  st_connection_capabilities :: "(string, (string, connection_capability) dict) dict"
  st_connection_capabilities_version :: "(string, int) dict"
  st_grants :: "(string \<times> string, access_grant) dict"
  st_asset_capabilities :: "(string \<times> string, asset_capability) dict"
  st_asset_versions :: "(string, asset_version_record) dict"
  st_delegations :: "(string, delegation_context) dict"
  st_workload_nonces :: "(string \<times> string, int) dict"
  st_external_workload_identities :: "(string, external_workload_identity) dict"
  st_audit_events :: "audit_event list"
  st_audit_idempotency_keys :: "(string \<times> string) list"
  st_audit_evidence_chunks :: "(string \<times> string, string list) dict"
  st_invocation_usage :: "(string, invocation_usage) dict"
  st_audit_timeline_cursors :: "(string, timeline_cursor) dict"
  st_agent_tool_bindings :: "(binding_key, agent_tool_binding) dict"
  st_agent_identity_bindings :: "(string, agent_identity_binding) dict"
  st_managed_client_reservations :: "(string, reservation) dict"
  st_agent_client_claims :: "(string, string) dict"
  st_agent_policy_deployments :: "(string, (int, agent_policy_deployment) dict) dict"
  st_gateway_policy_cutovers :: "(string, (int, gateway_policy_cutover) dict) dict"
  st_agent_invoke_authorizations :: "(string, agent_invoke_authorization) dict"
  st_domain_policy_rules :: "(string, domain_policy_rule) dict"

definition empty_store :: identity_store where
  "empty_store = \<lparr>
     st_connections = [], st_connection_capabilities = [],
     st_connection_capabilities_version = [], st_grants = [], st_asset_capabilities = [],
     st_asset_versions = [], st_delegations = [], st_workload_nonces = [],
     st_external_workload_identities = [], st_audit_events = [],
     st_audit_idempotency_keys = [], st_audit_evidence_chunks = [], st_invocation_usage = [],
     st_audit_timeline_cursors = [],
     st_agent_tool_bindings = [], st_agent_identity_bindings = [],
     st_managed_client_reservations = [], st_agent_client_claims = [],
     st_agent_policy_deployments = [], st_gateway_policy_cutovers = [],
     st_agent_invoke_authorizations = [], st_domain_policy_rules = []\<rparr>"

section \<open>Connections and their capabilities\<close>

text \<open>\<open>ResourceRef\<close> parsing: \<open>arn:\<close> strings, custom URI schemes, everything else opaque.\<close>

definition CURRENT_SCHEMA_VERSION :: int where
  "CURRENT_SCHEMA_VERSION = 1"

definition opaque_ref :: "string \<Rightarrow> resource_ref" where
  "opaque_ref t = \<lparr>rr_kind = ''opaque'', rr_service = [], rr_region = [], rr_account = [],
     rr_resource_type = [], rr_resource_id = [], rr_raw = t\<rparr>"

text \<open>\<open>text.split(":", 5)\<close>: at most \<open>n\<close> cuts.\<close>

fun split_max :: "char \<Rightarrow> nat \<Rightarrow> string \<Rightarrow> string list" where
  "split_max c 0 s = [s]"
| "split_max c (Suc n) s =
     (case partition_at c s of (pre, found, rest) \<Rightarrow>
        if found then pre # split_max c n rest else [s])"

text \<open>\<open>text.split("://", 1)\<close>, the first occurrence of a separator.\<close>

fun split_first :: "string \<Rightarrow> string \<Rightarrow> (string \<times> string) option" where
  "split_first sep [] = (if sep = [] then Some ([], []) else None)"
| "split_first sep (x # xs) =
     (if prefix sep (x # xs) then Some ([], drop (length sep) (x # xs))
      else map_option (\<lambda>(a, b). (x # a, b)) (split_first sep xs))"

definition parse_target :: "string \<Rightarrow> resource_ref" where
  "parse_target s =
     (let t = strip s in
      if prefix ''arn:'' t then
        (case split_max (CHR '':'') 5 t of
           [_, _, service, region, account, resource] \<Rightarrow>
             (let (rtype, rid) =
                (case partition_at (CHR ''/'') resource of
                   (a, True, b) \<Rightarrow> (a, b)
                 | (_, False, _) \<Rightarrow>
                     (case partition_at (CHR '':'') resource of
                        (a, True, b) \<Rightarrow> (a, b)
                      | (_, False, _) \<Rightarrow> ([], resource)))
              in \<lparr>rr_kind = ''aws'', rr_service = service, rr_region = region,
                  rr_account = account, rr_resource_type = rtype, rr_resource_id = rid,
                  rr_raw = t\<rparr>)
         | _ \<Rightarrow> opaque_ref t)
      else
        (case split_first ''://'' t of
           Some (scheme, rest) \<Rightarrow>
             if scheme \<noteq> [] \<and> scheme \<notin> {''http'', ''https''}
             then \<lparr>rr_kind = ''uri'', rr_service = scheme, rr_region = [], rr_account = [],
                    rr_resource_type = [], rr_resource_id = rest, rr_raw = t\<rparr>
             else opaque_ref t
         | None \<Rightarrow> opaque_ref t))"

definition to_arn :: "resource_ref \<Rightarrow> string option" where
  "to_arn r =
     (if rr_kind r \<noteq> ''aws'' then None
      else if prefix ''arn:'' (rr_raw r) then Some (rr_raw r)
      else
        (let resource = (if rr_resource_type r \<noteq> []
                         then rr_resource_type r @ ''/'' @ rr_resource_id r
                         else rr_resource_id r)
         in Some (''arn:aws:'' @ rr_service r @ '':'' @ rr_region r @ '':'' @ rr_account r
                  @ '':'' @ resource)))"

definition normalize_connection :: "connection \<Rightarrow> connection" where
  "normalize_connection c =
     (if cn_resource c = None
      then c\<lparr>cn_resource := Some (parse_target (cn_target c)),
             cn_schema_version := CURRENT_SCHEMA_VERSION\<rparr>
      else if cn_schema_version c \<noteq> CURRENT_SCHEMA_VERSION
      then c\<lparr>cn_schema_version := CURRENT_SCHEMA_VERSION\<rparr>
      else c)"

definition rederive_for_target :: "connection \<Rightarrow> string \<Rightarrow> connection" where
  "rederive_for_target c t =
     c\<lparr>cn_target := t, cn_resource := Some (parse_target t),
       cn_schema_version := CURRENT_SCHEMA_VERSION\<rparr>"

definition put_connection :: "connection \<Rightarrow> identity_store \<Rightarrow> identity_store" where
  "put_connection c s =
     s\<lparr>st_connections := dput (cn_connection_id c) (normalize_connection c) (st_connections s)\<rparr>"

definition get_connection :: "identity_store \<Rightarrow> string \<Rightarrow> identity_error + connection" where
  "get_connection s cid = of_option RecordNotFound (dget (st_connections s) cid)"

definition list_connections :: "identity_store \<Rightarrow> connection list" where
  "list_connections s = sort_key cn_created_at (dvalues (st_connections s))"

definition get_connection_capabilities_version :: "identity_store \<Rightarrow> string \<Rightarrow> int" where
  "get_connection_capabilities_version s cid =
     (case dget (st_connection_capabilities_version s) cid of None \<Rightarrow> 0 | Some n \<Rightarrow> n)"

definition put_connection_capabilities ::
  "string \<Rightarrow> connection_capability list \<Rightarrow> int option \<Rightarrow> identity_store
     \<Rightarrow> identity_error + identity_store" where
  "put_connection_capabilities cid caps expected s =
     bind_res (get_connection s cid) (\<lambda>_.
       let current = get_connection_capabilities_version s cid in
       if expected \<noteq> None \<and> expected \<noteq> Some current then Inl VersionConflict
       else Inr (s\<lparr>
         st_connection_capabilities :=
           dput cid (foldl (\<lambda>d c. dput (cc_name c) c d) [] caps) (st_connection_capabilities s),
         st_connection_capabilities_version :=
           dput cid (current + 1) (st_connection_capabilities_version s)\<rparr>))"

definition list_connection_capabilities ::
  "identity_store \<Rightarrow> string \<Rightarrow> identity_error + connection_capability list" where
  "list_connection_capabilities s cid =
     bind_res (get_connection s cid) (\<lambda>_.
       Inr (sort_key cc_name
              (dvalues (case dget (st_connection_capabilities s) cid of
                          None \<Rightarrow> [] | Some d \<Rightarrow> d))))"

section \<open>Access grants\<close>

definition grant_key ::
  "string \<Rightarrow> string \<Rightarrow> string \<Rightarrow> string \<Rightarrow> identity_error + string \<times> string" where
  "grant_key principal_id subject_group asset_id operation_id =
     (let asset = strip asset_id; operation = strip operation_id in
      if asset = [] \<or> operation = [] then Inl InvalidValue
      else
        (let grp = strip subject_group;
             partition = (if grp \<noteq> [] then ''GROUP#'' @ grp
                          else ''PRINCIPAL#'' @ principal_id)
         in Inr (partition, ''GRANT#'' @ asset @ ''#'' @ operation)))"

definition grant_key_for :: "access_grant \<Rightarrow> identity_error + string \<times> string" where
  "grant_key_for g =
     grant_key (ag_principal_id g) (ag_subject_group g) (ag_asset_id g) (ag_operation_id g)"

definition put_grant :: "access_grant \<Rightarrow> identity_store \<Rightarrow> identity_error + identity_store" where
  "put_grant g s =
     bind_res (grant_key_for g) (\<lambda>key. Inr (s\<lparr>st_grants := dput key g (st_grants s)\<rparr>))"

definition get_grant :: "identity_store \<Rightarrow> string \<Rightarrow> identity_error + access_grant" where
  "get_grant s gid =
     of_option RecordNotFound (find (\<lambda>g. ag_grant_id g = gid) (dvalues (st_grants s)))"

definition get_tool_grant ::
  "identity_store \<Rightarrow> string \<Rightarrow> string \<Rightarrow> string \<Rightarrow> string \<Rightarrow> identity_error + access_grant" where
  "get_tool_grant s asset_id operation_id principal_id subject_group =
     bind_res (grant_key principal_id subject_group asset_id operation_id)
       (\<lambda>key. of_option RecordNotFound (dget (st_grants s) key))"

definition list_grants ::
  "identity_store \<Rightarrow> string option \<Rightarrow> string option \<Rightarrow> string list \<Rightarrow> access_grant list" where
  "list_grants s principal_id connection_id subject_groups =
     (let items = dvalues (st_grants s);
          items = (case principal_id of
                     None \<Rightarrow> items
                   | Some p \<Rightarrow>
                       (let groups = stripped_nonempty subject_groups in
                        filter (\<lambda>g. ag_principal_id g = p \<or>
                                   (ag_subject_group g \<noteq> [] \<and> ag_subject_group g \<in> set groups))
                          items));
          items = (case connection_id of
                     None \<Rightarrow> items
                   | Some c \<Rightarrow> filter (\<lambda>g. ag_connection_id g = c) items)
      in sort_key ag_created_at items)"

definition list_group_grants :: "identity_store \<Rightarrow> string \<Rightarrow> access_grant list" where
  "list_group_grants s grp =
     (let wanted = strip grp in
      if wanted = [] then []
      else sort_key ag_created_at
             (filter (\<lambda>g. ag_subject_group g = wanted) (dvalues (st_grants s))))"

definition delete_grant_with_audit ::
  "string \<Rightarrow> string \<Rightarrow> string \<Rightarrow> string \<Rightarrow> int \<Rightarrow> audit_event \<Rightarrow> identity_store
     \<Rightarrow> identity_error + identity_store \<times> bool" where
  "delete_grant_with_audit asset_id operation_id principal_id subject_group expected event s =
     bind_res (grant_key principal_id subject_group asset_id operation_id) (\<lambda>key.
       case dget (st_grants s) key of
         None \<Rightarrow> Inr (s, False)
       | Some current \<Rightarrow>
           if ag_version current \<noteq> expected then Inl VersionConflict
           else Inr (s\<lparr>st_grants := ddel key (st_grants s),
                       st_audit_events := st_audit_events s @ [event]\<rparr>, True))"

definition revoke_grant ::
  "string \<Rightarrow> string \<Rightarrow> identity_store \<Rightarrow> identity_error + identity_store \<times> access_grant" where
  "revoke_grant gid updated_at s =
     bind_res (get_grant s gid) (\<lambda>current.
       let revoked = current\<lparr>ag_status := Grant_REVOKED, ag_version := ag_version current + 1,
                             ag_updated_at := updated_at\<rparr>
       in bind_res (put_grant revoked s) (\<lambda>s'. Inr (s', revoked)))"

section \<open>Asset versions\<close>

definition put_asset_version :: "asset_version_record \<Rightarrow> identity_store \<Rightarrow> identity_store" where
  "put_asset_version r s =
     s\<lparr>st_asset_versions := dput (av_asset_id r) r (st_asset_versions s)\<rparr>"

definition get_asset_version ::
  "identity_store \<Rightarrow> string \<Rightarrow> identity_error + asset_version_record" where
  "get_asset_version s aid = of_option RecordNotFound (dget (st_asset_versions s) aid)"

definition delete_asset_version :: "string \<Rightarrow> identity_store \<Rightarrow> identity_store \<times> bool" where
  "delete_asset_version aid s =
     (s\<lparr>st_asset_versions := ddel aid (st_asset_versions s)\<rparr>,
      dget (st_asset_versions s) aid \<noteq> None)"

definition list_all_asset_versions :: "identity_store \<Rightarrow> asset_version_record list" where
  "list_all_asset_versions s = sort_key av_asset_id (dvalues (st_asset_versions s))"

section \<open>Asset capabilities\<close>

definition put_asset_capability ::
  "asset_capability \<Rightarrow> int option \<Rightarrow> int option \<Rightarrow> identity_store
     \<Rightarrow> identity_error + identity_store" where
  "put_asset_capability cap expected expected_caps s =
     (let key = (ac_asset_id cap, ac_operation_id cap) in
      if expected_caps \<noteq> None \<and>
         Some (get_connection_capabilities_version s (ac_connection_id cap)) \<noteq> expected_caps
      then Inl VersionConflict
      else if expected \<noteq> None \<and>
              map_option ac_version (dget (st_asset_capabilities s) key) \<noteq> expected
      then Inl VersionConflict
      else Inr (s\<lparr>st_asset_capabilities := dput key cap (st_asset_capabilities s)\<rparr>))"

definition get_asset_capability ::
  "identity_store \<Rightarrow> string \<Rightarrow> string \<Rightarrow> identity_error + asset_capability" where
  "get_asset_capability s aid op =
     of_option RecordNotFound (dget (st_asset_capabilities s) (aid, op))"

definition list_asset_capabilities :: "identity_store \<Rightarrow> string \<Rightarrow> asset_capability list" where
  "list_asset_capabilities s aid =
     sort_key ac_operation_id
       (map snd (filter (\<lambda>((a, _), _). a = aid) (st_asset_capabilities s)))"

definition list_all_asset_capabilities :: "identity_store \<Rightarrow> asset_capability list" where
  "list_all_asset_capabilities s =
     sort_key (\<lambda>c. (ac_asset_id c, ac_operation_id c)) (dvalues (st_asset_capabilities s))"

definition delete_asset_capability_with_audit ::
  "string \<Rightarrow> string \<Rightarrow> int \<Rightarrow> audit_event \<Rightarrow> identity_store
     \<Rightarrow> identity_error + identity_store \<times> bool" where
  "delete_asset_capability_with_audit aid op expected event s =
     (case dget (st_asset_capabilities s) (aid, op) of
        None \<Rightarrow> Inr (s, False)
      | Some current \<Rightarrow>
          if ac_version current \<noteq> expected then Inl VersionConflict
          else Inr (s\<lparr>st_asset_capabilities := ddel (aid, op) (st_asset_capabilities s),
                      st_audit_events := st_audit_events s @ [event]\<rparr>, True))"

definition approve_asset_capability ::
  "string \<Rightarrow> string \<Rightarrow> int \<Rightarrow> string \<Rightarrow> string \<Rightarrow> identity_store
     \<Rightarrow> identity_error + identity_store \<times> asset_capability" where
  "approve_asset_capability aid op expected approved_by updated_at s =
     bind_res (get_asset_capability s aid op) (\<lambda>current.
       if ac_version current \<noteq> expected then Inl VersionConflict
       else
         (let approved = current\<lparr>ac_status := AssetCap_APPROVED,
                                 ac_approved_by := Some approved_by,
                                 ac_version := ac_version current + 1,
                                 ac_updated_at := updated_at\<rparr>
          in Inr (s\<lparr>st_asset_capabilities := dput (aid, op) approved (st_asset_capabilities s)\<rparr>,
                  approved)))"

definition reject_asset_capability ::
  "string \<Rightarrow> string \<Rightarrow> int \<Rightarrow> string \<Rightarrow> int option \<Rightarrow> identity_store
     \<Rightarrow> identity_error + identity_store \<times> asset_capability" where
  "reject_asset_capability aid op expected updated_at expected_caps s =
     bind_res (get_asset_capability s aid op) (\<lambda>current.
       if ac_version current \<noteq> expected \<or>
          (expected_caps \<noteq> None \<and>
           Some (get_connection_capabilities_version s (ac_connection_id current)) \<noteq> expected_caps)
       then Inl VersionConflict
       else
         (let rejected = current\<lparr>ac_status := AssetCap_REJECTED,
                                 ac_approved_by := None,
                                 ac_version := ac_version current + 1,
                                 ac_updated_at := updated_at\<rparr>
          in Inr (s\<lparr>st_asset_capabilities := dput (aid, op) rejected (st_asset_capabilities s)\<rparr>,
                  rejected)))"

section \<open>Delegations, nonces, external workload identities\<close>

definition put_delegation :: "delegation_context \<Rightarrow> identity_store \<Rightarrow> identity_store" where
  "put_delegation c s = s\<lparr>st_delegations := dput (dc_handle_hash c) c (st_delegations s)\<rparr>"

definition get_delegation ::
  "identity_store \<Rightarrow> string \<Rightarrow> identity_error + delegation_context" where
  "get_delegation s h = of_option RecordNotFound (dget (st_delegations s) h)"

definition claim_workload_nonce ::
  "string \<Rightarrow> string \<Rightarrow> int \<Rightarrow> identity_store \<Rightarrow> identity_store \<times> bool" where
  "claim_workload_nonce workload_id nonce expires_at s =
     (let key = (workload_id, nonce) in
      if dget (st_workload_nonces s) key \<noteq> None then (s, False)
      else (s\<lparr>st_workload_nonces := dput key expires_at (st_workload_nonces s)\<rparr>, True))"

definition put_external_workload_identity ::
  "external_workload_identity \<Rightarrow> identity_store \<Rightarrow> identity_store" where
  "put_external_workload_identity i s =
     s\<lparr>st_external_workload_identities :=
         dput (ew_agent_id i) i (st_external_workload_identities s)\<rparr>"

definition get_external_workload_identity ::
  "identity_store \<Rightarrow> string \<Rightarrow> identity_error + external_workload_identity" where
  "get_external_workload_identity s aid =
     of_option RecordNotFound (dget (st_external_workload_identities s) aid)"

definition delete_external_workload_identity ::
  "string \<Rightarrow> identity_store \<Rightarrow> identity_store \<times> bool" where
  "delete_external_workload_identity aid s =
     (s\<lparr>st_external_workload_identities := ddel aid (st_external_workload_identities s)\<rparr>,
      dget (st_external_workload_identities s) aid \<noteq> None)"

definition put_external_workload_identity_with_audit ::
  "external_workload_identity \<Rightarrow> audit_event \<Rightarrow> identity_store \<Rightarrow> identity_store" where
  "put_external_workload_identity_with_audit i event s =
     s\<lparr>st_external_workload_identities :=
         dput (ew_agent_id i) i (st_external_workload_identities s),
       st_audit_events := st_audit_events s @ [event]\<rparr>"

definition delete_external_workload_identity_with_audit ::
  "string \<Rightarrow> audit_event \<Rightarrow> identity_store \<Rightarrow> identity_store \<times> bool" where
  "delete_external_workload_identity_with_audit aid event s =
     (if dget (st_external_workload_identities s) aid = None then (s, False)
      else (s\<lparr>st_external_workload_identities := ddel aid (st_external_workload_identities s),
              st_audit_events := st_audit_events s @ [event]\<rparr>, True))"

section \<open>Row addressing\<close>

lemma grant_key_Inr_iff:
  "grant_key p g a op = Inr key \<longleftrightarrow>
     strip a \<noteq> [] \<and> strip op \<noteq> [] \<and>
     key = (if strip g \<noteq> [] then ''GROUP#'' @ strip g else ''PRINCIPAL#'' @ p,
            ''GRANT#'' @ strip a @ ''#'' @ strip op)"
  by (auto simp: grant_key_def Let_def)

lemma grant_key_Inl_iff:
  "grant_key p g a op = Inl e \<longleftrightarrow> (strip a = [] \<or> strip op = []) \<and> e = InvalidValue"
  by (auto simp: grant_key_def Let_def)

lemma group_principal_partitions_differ: "''GROUP#'' @ g \<noteq> ''PRINCIPAL#'' @ p"
  by simp

text \<open>A row of the grant table is read through the key that wrote it, and only through it.\<close>

lemma get_tool_grant_put_grant:
  assumes "put_grant g s = Inr t"
  shows "get_tool_grant t a op p grp =
    (if grant_key p grp a op = grant_key_for g then Inr g else get_tool_grant s a op p grp)"
proof -
  from assms obtain key where key: "grant_key_for g = Inr key"
    and t: "t = s\<lparr>st_grants := dput key g (st_grants s)\<rparr>"
    by (auto simp: put_grant_def bind_res_Inr_iff)
  show ?thesis
    by (cases "grant_key p grp a op") (auto simp: get_tool_grant_def key t)
qed

lemma split_at_hash:
  assumes "a @ CHR ''#'' # b = c @ CHR ''#'' # d" "CHR ''#'' \<notin> set a" "CHR ''#'' \<notin> set c"
  shows "a = c \<and> b = d"
  using assms
proof (induction a arbitrary: c)
  case Nil
  then show ?case by (cases c) auto
next
  case (Cons x a)
  then show ?case by (cases c) auto
qed

section \<open>Interpretations of the interfaces\<close>

interpretation asset_version_rows: deletable_table
  "\<lambda>s a. dget (st_asset_versions s) a" put_asset_version av_asset_id
  "\<lambda>a s. fst (delete_asset_version a s)"
  by unfold_locales (simp_all add: put_asset_version_def delete_asset_version_def)

interpretation delegation_rows: row_table
  "\<lambda>s h. dget (st_delegations s) h" put_delegation dc_handle_hash
  by unfold_locales (simp add: put_delegation_def)

interpretation external_identity_rows: deletable_table
  "\<lambda>s a. dget (st_external_workload_identities s) a" put_external_workload_identity ew_agent_id
  "\<lambda>a s. fst (delete_external_workload_identity a s)"
  by unfold_locales
    (simp_all add: put_external_workload_identity_def delete_external_workload_identity_def)

text \<open>Nonces claimed with one expiry rule: \<open>expiry\<close> gives the stored expiry of each claim.\<close>

interpretation workload_nonces: claim_register
  "\<lambda>k s. claim_workload_nonce (fst k) (snd k) (expiry k) s"
  "\<lambda>s. dom (dget (st_workload_nonces s))"
  for expiry :: "string \<times> string \<Rightarrow> int"
proof
  fix k s
  show "snd (claim_workload_nonce (fst k) (snd k) (expiry k) s) \<longleftrightarrow>
      k \<notin> dom (dget (st_workload_nonces s))"
    by (auto simp: claim_workload_nonce_def Let_def domIff)
  show "dom (dget (st_workload_nonces (fst (claim_workload_nonce (fst k) (snd k) (expiry k) s)))) =
      insert k (dom (dget (st_workload_nonces s)))"
    by (auto simp: claim_workload_nonce_def Let_def dom_def split: if_splits)
qed

text \<open>The three ways to change an asset capability under an expected version.\<close>

datatype capability_update =
    Approve_capability string string
  | Reject_capability string "int option"
  | Delete_capability audit_event

fun apply_capability_update ::
  "capability_update \<Rightarrow> string \<times> string \<Rightarrow> int \<Rightarrow> identity_store \<Rightarrow> identity_store option" where
  "apply_capability_update (Approve_capability approved_by at) (a, op) n s =
     (case approve_asset_capability a op n approved_by at s of
        Inl e \<Rightarrow> None | Inr (t, _) \<Rightarrow> Some t)"
| "apply_capability_update (Reject_capability at caps) (a, op) n s =
     (case reject_asset_capability a op n at caps s of
        Inl e \<Rightarrow> None | Inr (t, _) \<Rightarrow> Some t)"
| "apply_capability_update (Delete_capability event) (a, op) n s =
     (case delete_asset_capability_with_audit a op n event s of
        Inr (t, True) \<Rightarrow> Some t | _ \<Rightarrow> None)"

definition capability_version :: "identity_store \<Rightarrow> string \<times> string \<Rightarrow> int option" where
  "capability_version s k = map_option ac_version (dget (st_asset_capabilities s) k)"

interpretation capability_rows: versioned_table capability_version apply_capability_update
proof
  fix u k n s t m k'
  assume upd: "apply_capability_update u k n s = Some t"
  obtain a op where k: "k = (a, op)" by (cases k)
  show "capability_version s k = Some n"
    using upd k by (cases u) (auto simp: capability_version_def approve_asset_capability_def
        reject_asset_capability_def delete_asset_capability_with_audit_def get_asset_capability_def
        bind_res_def of_option_def Let_def split: option.splits if_splits sum.splits bool.splits)
  show "capability_version t k = Some m \<Longrightarrow> n < m"
    using upd k by (cases u) (auto simp: capability_version_def approve_asset_capability_def
        reject_asset_capability_def delete_asset_capability_with_audit_def get_asset_capability_def
        bind_res_def of_option_def Let_def split: option.splits if_splits sum.splits bool.splits)
  show "k' \<noteq> k \<Longrightarrow> capability_version t k' = capability_version s k'"
    using upd k by (cases u) (auto simp: capability_version_def approve_asset_capability_def
        reject_asset_capability_def delete_asset_capability_with_audit_def get_asset_capability_def
        bind_res_def of_option_def Let_def split: option.splits if_splits sum.splits bool.splits)
qed

text \<open>Conditional deletion of a grant row, addressed the way its reader addresses it.\<close>

type_synonym grant_address = "string \<times> string \<times> string \<times> string"

definition grant_version :: "identity_store \<Rightarrow> grant_address \<Rightarrow> int option" where
  "grant_version s k =
     (case k of (a, op, p, g) \<Rightarrow>
        (case get_tool_grant s a op p g of Inl _ \<Rightarrow> None | Inr row \<Rightarrow> Some (ag_version row)))"

definition apply_grant_delete ::
  "audit_event \<Rightarrow> grant_address \<Rightarrow> int \<Rightarrow> identity_store \<Rightarrow> identity_store option" where
  "apply_grant_delete event k n s =
     (case k of (a, op, p, g) \<Rightarrow>
        (case delete_grant_with_audit a op p g n event s of
           Inr (t, True) \<Rightarrow> Some t | _ \<Rightarrow> None))"

interpretation grant_rows: versioned_row grant_version apply_grant_delete
proof
  fix e k n s t m
  assume upd: "apply_grant_delete e k n s = Some t"
  obtain a op p g where k: "k = (a, op, p, g)" by (cases k)
  show "grant_version s k = Some n"
    using upd by (auto simp: k grant_version_def apply_grant_delete_def get_tool_grant_def
        delete_grant_with_audit_def bind_res_def split: sum.splits option.splits if_splits)
  show "grant_version t k = Some m \<Longrightarrow> n < m"
    using upd by (auto simp: k grant_version_def apply_grant_delete_def get_tool_grant_def
        delete_grant_with_audit_def bind_res_def split: sum.splits option.splits if_splits)
qed

section \<open>Properties\<close>

text \<open>Row isolation of tool grants. For tools whose asset ids contain no separator
  character, storing a grant changes the answer of the exact-key lookup for that subject and
  that tool only: a lookup for another asset, another operation, another group, or for a
  person where the grant is a group's, answers as before.\<close>

theorem put_grant_opens_one_tool:
  assumes "put_grant g s = Inr t"
    and "CHR ''#'' \<notin> set (ag_asset_id g)" "CHR ''#'' \<notin> set a"
    and "strip a \<noteq> strip (ag_asset_id g) \<or> strip op \<noteq> strip (ag_operation_id g)
       \<or> strip grp \<noteq> strip (ag_subject_group g)
       \<or> strip (ag_subject_group g) = [] \<and> p \<noteq> ag_principal_id g"
  shows "get_tool_grant t a op p grp = get_tool_grant s a op p grp"
proof -
  have hash: "CHR ''#'' \<notin> set (strip (ag_asset_id g))" "CHR ''#'' \<notin> set (strip a)"
    using assms(2,3) set_strip by blast+
  have "grant_key p grp a op \<noteq> grant_key_for g"
  proof
    assume eq: "grant_key p grp a op = grant_key_for g"
    from assms(1) obtain key where key: "grant_key_for g = Inr key"
      by (auto simp: put_grant_def bind_res_Inr_iff)
    with eq have "grant_key p grp a op = Inr key" by simp
    with key assms(4) show False
      by (auto simp: grant_key_for_def grant_key_Inr_iff split: if_splits
          dest!: split_at_hash [OF _ hash(2,1)] split_at_hash [OF _ hash])
  qed
  with get_tool_grant_put_grant [OF assms(1)] show ?thesis by simp
qed

theorem put_grant_opens_one_tool_witness:
  "\<exists>g t. put_grant g empty_store = Inr t \<and> get_tool_grant t ''a'' ''read'' ''p'' [] = Inr g \<and>
     get_tool_grant t ''a'' ''write'' ''p'' [] = Inl RecordNotFound"
proof -
  define g where "g = \<lparr>ag_grant_id = ''g'', ag_principal_id = ''p'', ag_status = Grant_ACTIVE,
    ag_version = 1, ag_granted_by = [], ag_created_at = [], ag_updated_at = [],
    ag_expires_at = None, ag_subject_group = [], ag_asset_id = ''a'', ag_operation_id = ''read'',
    ag_asset_version = [], ag_connection_id = [], ag_capabilities = []\<rparr>"
  have strips: "strip ''a'' = ''a''" "strip ''read'' = ''read''" "strip ''write'' = ''write''"
    by (simp_all add: strip_def is_space_def)
  obtain t where t: "put_grant g empty_store = Inr t"
    by (simp add: put_grant_def grant_key_for_def grant_key_def g_def strips)
  have "get_tool_grant t ''a'' ''write'' ''p'' [] = get_tool_grant empty_store ''a'' ''write'' ''p'' []"
    by (rule put_grant_opens_one_tool [OF t]) (simp_all add: g_def strips)
  moreover have "get_tool_grant empty_store ''a'' ''write'' ''p'' [] = Inl RecordNotFound"
    by (simp add: get_tool_grant_def grant_key_def strips empty_store_def)
  moreover have "get_tool_grant t ''a'' ''read'' ''p'' [] = Inr g"
    by (simp add: get_tool_grant_put_grant [OF t] grant_key_for_def g_def)
  ultimately show ?thesis using t by auto
qed

text \<open>
  The condition on the separator is needed: the key is built by joining with \<open>#\<close>, and two
  different tools whose ids contain it share one row.
\<close>

lemma grant_key_separator_collision:
  "grant_key p [] ''a#b'' ''c'' = grant_key p [] ''a'' ''b#c''"
  by (simp add: grant_key_def strip_def is_space_def)

end
