(* ===== verification/Policy_Compiler.thy ===== *)
theory Policy_Compiler
  imports Gateway_Targets Identity_Store
begin

text \<open>
  The Cedar policy compilers (\<open>identity/agent_policy_compiler.py\<close>): the shared Gateway policy
  from the declared tool rows, the domain rules, the Registry's Targets and an observation of
  the live Gateway, with its completeness gate; and the older per-agent policy. The Cedar text
  is built character by character, and the compiled actions are read back from it by the
  regular expression the code uses. SHA-256 is the parameter \<open>hash\<close>; the text is ASCII, so its
  UTF-8 size is its length.
\<close>

section \<open>Allowed characters\<close>

definition is_alnum :: "char \<Rightarrow> bool" where
  "is_alnum c = (let n = (of_char c :: nat) in
     (48 \<le> n \<and> n \<le> 57) \<or> (65 \<le> n \<and> n \<le> 90) \<or> (97 \<le> n \<and> n \<le> 122))"

definition action_char :: "char \<Rightarrow> bool" where
  "action_char c \<longleftrightarrow> is_alnum c \<or> c \<in> set ''_.-''"

definition gateway_char :: "char \<Rightarrow> bool" where
  "gateway_char c \<longleftrightarrow> is_alnum c \<or> c \<in> set ''_.:/=+@-''"

text \<open>\<open>_SAFE_ACTION_RE\<close>: safe characters with \<open>___\<close> somewhere properly inside.\<close>

definition safe_action :: "string \<Rightarrow> bool" where
  "safe_action a \<longleftrightarrow> list_all action_char a \<and>
     list_ex (\<lambda>i. prefix ''___'' (drop i a) \<and> i + 3 < length a) [1..<length a]"

definition safe_principal :: "string \<Rightarrow> bool" where
  "safe_principal p \<longleftrightarrow> list_all (\<lambda>c. is_alnum c \<or> c \<in> set ''_+-'') p"

definition safe_gateway :: "string \<Rightarrow> bool" where
  "safe_gateway g \<longleftrightarrow> list_all gateway_char g"

definition safe_target :: "string \<Rightarrow> bool" where
  "safe_target t \<longleftrightarrow> list_all action_char t \<and> 1 \<le> length t \<and> length t \<le> 100"

definition safe_scope :: "string \<Rightarrow> bool" where
  "safe_scope s \<longleftrightarrow> list_all gateway_char s \<and> s \<noteq> []"

definition MAX_CEDAR_POLICY_BYTES :: nat where
  "MAX_CEDAR_POLICY_BYTES = 10000"

section \<open>Inputs and outputs\<close>

record gateway_policy_target =
  gt_name :: string
  gt_sensitivity :: string
  gt_operations :: "string list"

record live_gateway_inventory =
  li_targets :: "string list"
  li_tools_by_target :: "(string, string list) dict"
  li_tool_lists_complete :: bool

definition has_action :: "live_gateway_inventory \<Rightarrow> string \<Rightarrow> string \<Rightarrow> bool" where
  "has_action live target_name operation_id =
     (if target_name \<notin> set (li_targets live) then False
      else case dget (li_tools_by_target live) target_name of
        None \<Rightarrow> True
      | Some tools \<Rightarrow> operation_id \<in> set tools)"

record shared_gateway_policy_spec =
  sp_gateway_arn :: string
  sp_targets :: "gateway_policy_target list"
  sp_invoke_scope :: string
  sp_scope_names :: "string list"
  sp_interceptor_attached :: "bool option"
  sp_tool_bindings :: "agent_tool_binding list option"
  sp_domain_policy_rules :: "domain_policy_rule list option"
  sp_live_inventory :: "live_gateway_inventory option"

record compiled_shared_policy =
  cp_policy_key :: string
  cp_cedar_policy :: string
  cp_policy_hash :: string
  cp_target_count :: int
  cp_size_bytes :: nat
  cp_actions :: "string list"

record compiled_shared_gateway_policies =
  cs_gateway_arn :: string
  cs_policies :: "compiled_shared_policy list"
  cs_danger_target_count :: int
  cs_live_inventory_status :: string
  cs_excluded_actions :: "string list"
  cs_excluded_approved_actions :: "string list"

text \<open>
  The causes of \<open>InvalidPolicyInput\<close>, one constructor per message; the last carries the
  disclosed exclusions.
\<close>

datatype policy_input_error =
    Bad_gateway_arn
  | Bad_scope
  | Scope_conflict scope_name_conflict
  | Bad_target string
  | Unknown_sensitivity string
  | Empty_operations string
  | Bad_action string
  | Duplicate_target_names
  | Interceptor_missing
  | Bindings_unobserved
  | Rules_unobserved
  | Bad_binding string
  | Nothing_declared
  | Bad_rule string
  | Policy_too_large nat
  | Uncovered_approved "string list"
  | Nothing_enumerable "string list" "string list"
  | Registry_targets_invalid

text \<open>\<open>from_registry\<close>: the Targets of all descriptors, each of which must be split.\<close>

fun targets_from_registry ::
  "json list \<Rightarrow> policy_input_error + gateway_policy_target list" where
  "targets_from_registry [] = Inr []"
| "targets_from_registry (d # ds) =
     (case mcp_gateway_target_index d of
        Inl _ \<Rightarrow> Inl Registry_targets_invalid
      | Inr idx \<Rightarrow>
          if \<not> ti_split idx then Inl Registry_targets_invalid
          else bind_res (targets_from_registry ds) (\<lambda>rest.
            Inr (map (\<lambda>t. \<lparr>gt_name = mt_name t, gt_sensitivity = mt_sensitivity t,
                           gt_operations = mt_operations t\<rparr>) (ti_targets idx) @ rest)))"

section \<open>Cedar text\<close>

definition cedar_string_literal :: "string \<Rightarrow> string" where
  "cedar_string_literal v =
     concat (map (\<lambda>c. if c = CHR 0x5C then [CHR 0x5C, CHR 0x5C]
                      else if c = CHR 0x22 then [CHR 0x5C, CHR 0x22] else [c]) v)"

definition newline :: string where
  "newline = [CHR 0x0A]"

definition quoted :: "string \<Rightarrow> string" where
  "quoted v = CHR 0x22 # v @ [CHR 0x22]"

definition action_line :: "string \<Rightarrow> string" where
  "action_line a = ''    AgentCore::Action::'' @ quoted (cedar_string_literal a)"

text \<open>\<open>",\\n".join(lines)\<close>.\<close>

fun join_lines :: "string list \<Rightarrow> string" where
  "join_lines [] = []"
| "join_lines [l] = l"
| "join_lines (l # ls) = l @ '','' @ newline @ join_lines ls"

definition coarse_gate :: "string \<Rightarrow> string list \<Rightarrow> string" where
  "coarse_gate gateway_arn actions =
     ''permit('' @ newline @ ''  principal is AgentCore::OAuthUser,'' @ newline @
     ''  action in ['' @ newline @
     join_lines (map action_line actions) @ newline @
     ''  ],'' @ newline @
     ''  resource == AgentCore::Gateway::'' @ quoted (cedar_string_literal gateway_arn) @ newline @
     '')'' @ newline @
     ''when { principal.hasTag('' @ quoted ''scope'' @ '') };''"

text \<open>\<open>_CEDAR_ACTION_LITERAL_RE.findall\<close>: scan for the marker, take the run up to the quote.\<close>

definition ACTION_MARKER :: string where
  "ACTION_MARKER = ''AgentCore::Action::'' @ [CHR 0x22]"

definition literal_at :: "string \<Rightarrow> (string \<times> string) option" where
  "literal_at s =
     (if prefix ACTION_MARKER s then
        (let rest = drop (length ACTION_MARKER) s; run = takeWhile action_char rest in
         case dropWhile action_char rest of
           c # after \<Rightarrow> if c = CHR 0x22 \<and> safe_action run then Some (run, after) else None
         | [] \<Rightarrow> None)
      else None)"

lemma literal_at_shorter: "literal_at s = Some (a, r) \<Longrightarrow> length r < length s"
proof -
  assume "literal_at s = Some (a, r)"
  then have "length (dropWhile action_char (drop (length ACTION_MARKER) s)) = Suc (length r)"
    by (auto simp: literal_at_def Let_def split: if_splits list.splits)
  moreover have "length (dropWhile action_char (drop (length ACTION_MARKER) s)) \<le> length s"
    using length_dropWhile_le [of action_char "drop (length ACTION_MARKER) s"] by simp
  ultimately show ?thesis by simp
qed

function find_action_literals :: "string \<Rightarrow> string list" where
  "find_action_literals s =
     (case literal_at s of
        Some (a, r) \<Rightarrow> a # find_action_literals r
      | None \<Rightarrow> (case s of [] \<Rightarrow> [] | _ # cs \<Rightarrow> find_action_literals cs))"
  by auto
termination
  by (relation "measure length") (auto dest: literal_at_shorter)

declare find_action_literals.simps [simp del]

definition compiled_shared_policy ::
  "(string \<Rightarrow> string) \<Rightarrow> string \<Rightarrow> string \<Rightarrow> int \<Rightarrow> compiled_shared_policy" where
  "compiled_shared_policy hash key cedar target_count =
     \<lparr>cp_policy_key = key, cp_cedar_policy = cedar, cp_policy_hash = hash cedar,
      cp_target_count = target_count, cp_size_bytes = length cedar,
      cp_actions = find_action_literals cedar\<rparr>"

definition sorted_set :: "string list \<Rightarrow> string list" where
  "sorted_set xs = sort (remdups xs)"

definition enumerated_actions :: "compiled_shared_gateway_policies \<Rightarrow> string list" where
  "enumerated_actions c =
     sorted_set (concat (map (\<lambda>p. find_action_literals (cp_cedar_policy p)) (cs_policies c)))"

section \<open>Compiling the shared policy\<close>

definition check_gateway_and_scopes ::
  "shared_gateway_policy_spec \<Rightarrow> policy_input_error + unit" where
  "check_gateway_and_scopes spec =
     (if \<not> prefix ''arn:'' (sp_gateway_arn spec) \<or> \<not> safe_gateway (sp_gateway_arn spec)
      then Inl Bad_gateway_arn
      else
        (let scopes = fromkeys (map strip (sp_scope_names spec)) in
         if sp_invoke_scope spec = [] \<or> sp_invoke_scope spec \<notin> set scopes
            \<or> list_ex (\<lambda>s. \<not> safe_scope s) scopes
         then Inl Bad_scope
         else (case validate_scope_name_prefixes scopes of
                 Inl e \<Rightarrow> Inl (Scope_conflict e)
               | Inr _ \<Rightarrow> Inr ())))"

definition normalize_target ::
  "gateway_policy_target \<Rightarrow> policy_input_error + string \<times> string \<times> string list" where
  "normalize_target t =
     (let name = strip (gt_name t); sensitivity = upper (strip (gt_sensitivity t));
          operations = fromkeys (stripped_nonempty (gt_operations t))
      in if \<not> safe_target name \<or> name = ''CallTool'' then Inl (Bad_target name)
         else if sensitivity \<notin> set (allowed_tags FULL_ACCESS)
         then Inl (Unknown_sensitivity (gt_sensitivity t))
         else if operations = [] then Inl (Empty_operations name)
         else (case find (\<lambda>op. \<not> safe_action (gateway_tool_name name op)) operations of
                 Some op \<Rightarrow> Inl (Bad_action (gateway_tool_name name op))
               | None \<Rightarrow> Inr (name, sensitivity, operations)))"

fun normalize_targets ::
  "gateway_policy_target list \<Rightarrow> policy_input_error + (string \<times> string \<times> string list) list" where
  "normalize_targets [] = Inr []"
| "normalize_targets (t # ts) =
     bind_res (normalize_target t) (\<lambda>n. bind_res (normalize_targets ts) (\<lambda>ns. Inr (n # ns)))"

definition registry_actions :: "(string \<times> string \<times> string list) list \<Rightarrow> string list" where
  "registry_actions targets = concat (map (\<lambda>(name, _, ops). map (gateway_tool_name name) ops) targets)"

text \<open>The declared rows of this Gateway: not withdrawn, not rejected.\<close>

definition declares_action :: "string \<Rightarrow> agent_tool_binding \<Rightarrow> bool" where
  "declares_action gateway_arn b \<longleftrightarrow>
     atb_desired_state b = Desired_ALLOWED \<and> strip (atb_gateway_id b) = gateway_arn \<and>
     atb_approval_state b \<noteq> Approval_REJECTED"

definition binding_coordinates_ok :: "agent_tool_binding \<Rightarrow> bool" where
  "binding_coordinates_ok b \<longleftrightarrow>
     strip (atb_gateway_target_name b) \<noteq> [] \<and> strip (atb_operation_id b) \<noteq> [] \<and>
     strip (atb_gateway_action b) =
       gateway_tool_name (strip (atb_gateway_target_name b)) (strip (atb_operation_id b)) \<and>
     safe_action (strip (atb_gateway_action b))"

definition check_bindings ::
  "string \<Rightarrow> agent_tool_binding list \<Rightarrow> policy_input_error + string list \<times> string list" where
  "check_bindings gateway_arn bindings =
     (let rows = filter (declares_action gateway_arn) bindings in
      case find (\<lambda>b. \<not> binding_coordinates_ok b) rows of
        Some b \<Rightarrow> Inl (Bad_binding (strip (atb_gateway_action b)))
      | None \<Rightarrow> Inr (map (\<lambda>b. strip (atb_gateway_action b)) rows,
                     map (\<lambda>b. strip (atb_gateway_action b))
                       (filter (\<lambda>b. atb_approval_state b = Approval_APPROVED) rows)))"

definition active_rule :: "string \<Rightarrow> domain_policy_rule \<Rightarrow> bool" where
  "active_rule gateway_arn r \<longleftrightarrow>
     strip (dpr_gateway_arn r) = gateway_arn \<and>
     upper (strip (dpr_observed_status r)) = ''ACTIVE'' \<and>
     upper (strip (dpr_enforcement_mode r)) = ''ACTIVE'' \<and>
     strip (dpr_remote_policy_id r) \<noteq> []"

definition rule_coordinates_ok :: "domain_policy_rule \<Rightarrow> bool" where
  "rule_coordinates_ok r \<longleftrightarrow>
     strip (dpr_gateway_action r) =
       gateway_tool_name (strip (dpr_target_name r)) (strip (dpr_tool_name r)) \<and>
     safe_action (strip (dpr_gateway_action r))"

definition check_rules ::
  "string \<Rightarrow> domain_policy_rule list \<Rightarrow> policy_input_error + string list" where
  "check_rules gateway_arn rules =
     (let rows = filter (active_rule gateway_arn) rules in
      case find (\<lambda>r. \<not> rule_coordinates_ok r) rows of
        Some r \<Rightarrow> Inl (Bad_rule (strip (dpr_gateway_action r)))
      | None \<Rightarrow> Inr (map (\<lambda>r. strip (dpr_gateway_action r)) rows))"

definition is_live :: "live_gateway_inventory \<Rightarrow> string \<Rightarrow> bool" where
  "is_live live action =
     (case split_first TOOL_SEPARATOR action of
        Some (target_name, operation_id) \<Rightarrow> has_action live target_name operation_id
      | None \<Rightarrow> has_action live action [])"

definition live_status :: "live_gateway_inventory option \<Rightarrow> string" where
  "live_status live =
     (case live of None \<Rightarrow> ''unknown''
      | Some i \<Rightarrow> if li_tool_lists_complete i then ''observed'' else ''partial'')"

definition excluded_of ::
  "live_gateway_inventory option \<Rightarrow> string list \<Rightarrow> string list \<Rightarrow> string list" where
  "excluded_of live declared registry =
     (case live of None \<Rightarrow> []
      | Some i \<Rightarrow> sorted_set (filter (\<lambda>a. a \<in> set registry \<and> \<not> is_live i a) declared))"

text \<open>The part of the compiler after its input checks: exclusion, text, completeness gate.\<close>

definition publish_shared_policy ::
  "(string \<Rightarrow> string) \<Rightarrow> string \<Rightarrow> live_gateway_inventory option \<Rightarrow> string list \<Rightarrow> string list
     \<Rightarrow> string list \<Rightarrow> string list \<Rightarrow> policy_input_error + compiled_shared_gateway_policies" where
  "publish_shared_policy hash gateway_arn live registry declared all_approved rule_actions =
     (let excluded = excluded_of live declared registry;
          excluded_approved = filter (\<lambda>a. a \<in> set all_approved) excluded;
          registry = filter (\<lambda>a. a \<notin> set excluded) registry;
          approved = filter (\<lambda>a. a \<notin> set excluded) all_approved;
          enumerated = sorted_set
            (filter (\<lambda>a. a \<notin> set rule_actions \<and> a \<in> set registry) declared);
          policies = (if enumerated = [] then []
            else [compiled_shared_policy hash ''coarse-gate'' (coarse_gate gateway_arn enumerated) 0]);
          compiled = \<lparr>cs_gateway_arn = gateway_arn, cs_policies = policies,
            cs_danger_target_count = 0, cs_live_inventory_status = live_status live,
            cs_excluded_actions = excluded, cs_excluded_approved_actions = excluded_approved\<rparr>;
          covered = enumerated_actions compiled @ rule_actions;
          uncovered = sorted_set (filter (\<lambda>a. a \<notin> set covered) approved)
      in if list_ex (\<lambda>p. MAX_CEDAR_POLICY_BYTES < cp_size_bytes p) policies
         then Inl (Policy_too_large (sum_list (map cp_size_bytes policies)))
         else if uncovered \<noteq> [] then Inl (Uncovered_approved uncovered)
         else if list_ex (\<lambda>a. a \<notin> set rule_actions) declared \<and> enumerated = []
         then Inl (Nothing_enumerable excluded excluded_approved)
         else Inr compiled)"

definition compile_shared_gateway_policies ::
  "(string \<Rightarrow> string) \<Rightarrow> bool \<Rightarrow> shared_gateway_policy_spec
     \<Rightarrow> policy_input_error + compiled_shared_gateway_policies" where
  "compile_shared_gateway_policies hash allow_empty_declaration spec =
     bind_res (check_gateway_and_scopes spec) (\<lambda>_.
     bind_res (normalize_targets (sp_targets spec)) (\<lambda>targets.
     bind_res (raise_unless (distinct (map fst targets)) Duplicate_target_names) (\<lambda>_.
     bind_res (raise_unless (sp_interceptor_attached spec = Some True) Interceptor_missing) (\<lambda>_.
     bind_res (of_option Bindings_unobserved (sp_tool_bindings spec)) (\<lambda>bindings.
     bind_res (of_option Rules_unobserved (sp_domain_policy_rules spec)) (\<lambda>rules.
     bind_res (check_bindings (sp_gateway_arn spec) bindings) (\<lambda>(declared, approved).
     bind_res (raise_unless (declared \<noteq> [] \<or> allow_empty_declaration) Nothing_declared) (\<lambda>_.
     bind_res (check_rules (sp_gateway_arn spec) rules) (\<lambda>rule_actions.
       publish_shared_policy hash (sp_gateway_arn spec) (sp_live_inventory spec)
         (registry_actions targets) declared approved rule_actions)))))))))"

section \<open>The older per-agent policy\<close>

record agent_policy_spec =
  as_principal_id :: string
  as_gateway_arn :: string
  as_actions :: "string list"
  as_agent_record_id :: string
  as_revision :: int

record compiled_agent_policy =
  ca_agent_record_id :: string
  ca_revision :: int
  ca_cedar_policy :: string
  ca_policy_hash :: string
  ca_action_count :: nat

datatype agent_policy_error =
    No_tool_access string
  | Invalid_action string
  | Invalid_principal string
  | Invalid_gateway string
  | Multiple_gateways

definition compile_agent_policy ::
  "(string \<Rightarrow> string) \<Rightarrow> agent_policy_spec \<Rightarrow> agent_policy_error + compiled_agent_policy" where
  "compile_agent_policy hash spec =
     (let actions = sorted_set (stripped_nonempty (as_actions spec)) in
      if actions = [] then Inl (No_tool_access (as_agent_record_id spec))
      else case find (\<lambda>a. \<not> safe_action a) actions of
        Some a \<Rightarrow> Inl (Invalid_action a)
      | None \<Rightarrow>
          if \<not> safe_principal (as_principal_id spec) then Inl (Invalid_principal (as_principal_id spec))
          else if \<not> safe_gateway (as_gateway_arn spec) then Inl (Invalid_gateway (as_gateway_arn spec))
          else
            (let cedar = ''permit('' @ newline @
                   ''  principal == AgentCore::OAuthUser::'' @
                     quoted (cedar_string_literal (as_principal_id spec)) @ '','' @ newline @
                   ''  action in ['' @ newline @
                   join_lines (map action_line actions) @ newline @
                   ''  ],'' @ newline @
                   ''  resource == AgentCore::Gateway::'' @
                     quoted (cedar_string_literal (as_gateway_arn spec)) @ newline @
                   '');''
             in Inr \<lparr>ca_agent_record_id = as_agent_record_id spec, ca_revision = as_revision spec,
                     ca_cedar_policy = cedar, ca_policy_hash = hash cedar,
                     ca_action_count = length actions\<rparr>))"

definition opened_binding :: "agent_tool_binding \<Rightarrow> bool" where
  "opened_binding b \<longleftrightarrow>
     atb_approval_state b = Approval_APPROVED \<and> atb_desired_state b = Desired_ALLOWED"

definition within_ceiling ::
  "(string, string) dict \<Rightarrow> permission_group \<Rightarrow> string \<Rightarrow> bool" where
  "within_ceiling sensitivity grp action =
     (case dget sensitivity action of None \<Rightarrow> False
      | Some tag \<Rightarrow> if tag = [] then False else group_allows grp tag)"

definition build_policy_spec ::
  "string \<Rightarrow> string \<Rightarrow> int \<Rightarrow> agent_tool_binding list \<Rightarrow> permission_group \<Rightarrow> (string, string) dict
     \<Rightarrow> agent_policy_error + agent_policy_spec" where
  "build_policy_spec principal_id rid revision bindings grp sensitivity =
     (let approved = filter opened_binding bindings;
          gateways = remdups (map atb_gateway_id approved);
          actions = sorted_set
            (map (\<lambda>b. gateway_tool_name (atb_gateway_target_name b) (atb_operation_id b))
              (filter (\<lambda>b. within_ceiling sensitivity grp (atb_gateway_action b)) approved))
      in if approved = [] then Inl (No_tool_access rid)
         else if length gateways \<noteq> 1 then Inl Multiple_gateways
         else if actions = [] then Inl (No_tool_access rid)
         else Inr \<lparr>as_principal_id = principal_id, as_gateway_arn = hd gateways,
                   as_actions = actions, as_agent_record_id = rid, as_revision = revision\<rparr>)"

section \<open>Reading the actions back from the text\<close>

lemma find_literals_skip:
  "\<not> prefix ACTION_MARKER (c # s) \<Longrightarrow> find_action_literals (c # s) = find_action_literals s"
  by (simp add: find_action_literals.simps [of "c # s"] literal_at_def)

lemma quote_not_action_char [simp]: "\<not> action_char (CHR 0x22)"
  by (simp add: action_char_def is_alnum_def)

lemma find_literals_hit:
  assumes "safe_action a"
  shows "find_action_literals (ACTION_MARKER @ a @ CHR 0x22 # r) = a # find_action_literals r"
proof -
  have "\<forall>c \<in> set a. action_char c" using assms by (simp add: safe_action_def list_all_iff)
  then have "takeWhile action_char (a @ CHR 0x22 # r) = a"
    "dropWhile action_char (a @ CHR 0x22 # r) = CHR 0x22 # r"
    by (simp_all add: takeWhile_append2 dropWhile_append2)
  with assms have "literal_at (ACTION_MARKER @ a @ CHR 0x22 # r) = Some (a, r)"
    by (simp add: literal_at_def)
  then show ?thesis by (simp add: find_action_literals.simps [of "ACTION_MARKER @ _"])
qed

lemma cedar_literal_id: "list_all gateway_char s \<Longrightarrow> cedar_string_literal s = s"
  by (induction s) (auto simp: cedar_string_literal_def gateway_char_def is_alnum_def)

lemma action_char_gateway_char: "action_char c \<Longrightarrow> gateway_char c"
  by (auto simp: action_char_def gateway_char_def)

lemma safe_action_literal: "safe_action a \<Longrightarrow> cedar_string_literal a = a"
  by (rule cedar_literal_id) (auto simp: safe_action_def list_all_iff action_char_gateway_char)

lemma find_literals_line:
  assumes "safe_action a"
  shows "find_action_literals (action_line a @ r) = a # find_action_literals r"
proof -
  have "action_line a @ r = replicate 4 (CHR '' '') @ ACTION_MARKER @ a @ CHR 0x22 # r"
    using assms by (simp add: action_line_def quoted_def safe_action_literal ACTION_MARKER_def
        numeral_eq_Suc)
  moreover have "find_action_literals (replicate n (CHR '' '') @ s) = find_action_literals s" for n s
    by (induction n) (simp_all add: find_literals_skip ACTION_MARKER_def)
  ultimately show ?thesis by (simp add: find_literals_hit [OF assms])
qed

lemma find_literals_lines:
  "list_all safe_action as \<Longrightarrow>
     find_action_literals (join_lines (map action_line as) @ r) = as @ find_action_literals r"
proof (induction as rule: induct_list012)
  case (3 a b as)
  have "find_action_literals ('','' @ newline @ s) = find_action_literals s" for s
    by (simp add: newline_def find_literals_skip ACTION_MARKER_def)
  with 3 show ?case by (simp add: find_literals_line)
qed (simp_all add: find_literals_line)

text \<open>A text in which no quote is followed by an action has no action literal.\<close>

fun no_quoted_action :: "string \<Rightarrow> bool" where
  "no_quoted_action [] = True"
| "no_quoted_action (c # s) =
     ((c = CHR 0x22 \<longrightarrow> \<not> safe_action (takeWhile action_char s)) \<and> no_quoted_action s)"

lemma no_quoted_action_suffix: "no_quoted_action (u @ v) \<Longrightarrow> no_quoted_action v"
  by (induction u) auto

lemma no_quoted_action_none: "no_quoted_action s \<Longrightarrow> literal_at s = None"
proof (rule ccontr)
  assume n: "no_quoted_action s" and "literal_at s \<noteq> None"
  then obtain rest where s: "s = ACTION_MARKER @ rest"
    and "safe_action (takeWhile action_char rest)"
    by (auto simp: literal_at_def prefix_def Let_def split: if_splits list.splits)
  with n no_quoted_action_suffix [of "''AgentCore::Action::''" "CHR 0x22 # rest"]
  show False by (simp add: ACTION_MARKER_def)
qed

lemma find_literals_none: "no_quoted_action s \<Longrightarrow> find_action_literals s = []"
proof (induction s)
  case (Cons c s)
  then show ?case
    by (simp add: find_action_literals.simps [of "c # s"] no_quoted_action_none del: no_quoted_action.simps)
      simp
qed (simp add: find_action_literals.simps [of "[]"] literal_at_def ACTION_MARKER_def)

lemma no_quoted_action_plain:
  "list_all gateway_char g \<Longrightarrow> no_quoted_action (g @ t) = no_quoted_action t"
  by (induction g) (auto simp: gateway_char_def is_alnum_def)

lemma short_not_safe: "length a < 5 \<Longrightarrow> \<not> safe_action a"
  by (auto simp: safe_action_def list_ex_iff)

lemma coarse_gate_tail:
  assumes "prefix ''arn:'' g" "safe_gateway g"
  shows "find_action_literals (newline @ ''  ],'' @ newline @
     ''  resource == AgentCore::Gateway::'' @ quoted (cedar_string_literal g) @ newline @
     '')'' @ newline @ ''when { principal.hasTag('' @ quoted ''scope'' @ '') };'') = []"
proof (rule find_literals_none)
  have g: "list_all gateway_char g" using assms(2) by (simp add: safe_gateway_def)
  obtain h where h: "g = ''arn:'' @ h" using assms(1) by (auto simp: prefix_def)
  have colon: "\<not> action_char (CHR '':'')" by (simp add: action_char_def is_alnum_def)
  have arn: "takeWhile action_char (g @ t) = ''arn''" for t
    using colon by (simp add: h action_char_def is_alnum_def)
  have scope: "takeWhile action_char (''scope'' @ CHR 0x22 # t) = ''scope''" for t
    by (simp add: action_char_def is_alnum_def)
  have "\<not> safe_action ''scope''" by (simp add: safe_action_def)
  moreover have "\<not> action_char (CHR 0x0A)" "\<not> action_char (CHR '')'')"
    by (simp_all add: action_char_def is_alnum_def)
  ultimately show "no_quoted_action (newline @ ''  ],'' @ newline @
     ''  resource == AgentCore::Gateway::'' @ quoted (cedar_string_literal g) @ newline @
     '')'' @ newline @ ''when { principal.hasTag('' @ quoted ''scope'' @ '') };'')"
    using scope [of "'') };''"]
    by (simp add: quoted_def newline_def cedar_literal_id [OF g] no_quoted_action_plain [OF g] arn
        short_not_safe)
qed

lemma coarse_gate_actions:
  assumes "list_all safe_action as" "prefix ''arn:'' g" "safe_gateway g"
  shows "find_action_literals (coarse_gate g as) = as"
proof -
  have head: "find_action_literals (''permit('' @ newline @
      ''  principal is AgentCore::OAuthUser,'' @ newline @ ''  action in ['' @ newline @ r) =
      find_action_literals r" for r
    by (simp add: newline_def find_literals_skip ACTION_MARKER_def)
  show ?thesis
    unfolding coarse_gate_def head find_literals_lines [OF assms(1)] coarse_gate_tail [OF assms(2,3)]
    by simp
qed


section \<open>The compiled sets\<close>

definition declared_set :: "string \<Rightarrow> agent_tool_binding list \<Rightarrow> string set" where
  "declared_set gateway_arn bindings =
     {strip (atb_gateway_action b) | b. b \<in> set bindings \<and> declares_action gateway_arn b}"

definition approved_set :: "string \<Rightarrow> agent_tool_binding list \<Rightarrow> string set" where
  "approved_set gateway_arn bindings =
     {strip (atb_gateway_action b) | b. b \<in> set bindings \<and> declares_action gateway_arn b \<and>
        atb_approval_state b = Approval_APPROVED}"

definition ruled_set :: "string \<Rightarrow> domain_policy_rule list \<Rightarrow> string set" where
  "ruled_set gateway_arn rules =
     {strip (dpr_gateway_action r) | r. r \<in> set rules \<and> active_rule gateway_arn r}"

definition registry_set :: "gateway_policy_target list \<Rightarrow> string set" where
  "registry_set targets =
     {gateway_tool_name (strip (gt_name t)) op | t op.
        t \<in> set targets \<and> op \<in> set (stripped_nonempty (gt_operations t))}"

lemma compiled_set_lists:
  "declared_set g bs = set (map (\<lambda>b. strip (atb_gateway_action b)) (filter (declares_action g) bs))"
  "approved_set g bs = set (map (\<lambda>b. strip (atb_gateway_action b))
     (filter (\<lambda>b. declares_action g b \<and> atb_approval_state b = Approval_APPROVED) bs))"
  "ruled_set g rs = set (map (\<lambda>r. strip (dpr_gateway_action r)) (filter (active_rule g) rs))"
  "registry_set ts = set (concat (map (\<lambda>t. map (gateway_tool_name (strip (gt_name t)))
     (stripped_nonempty (gt_operations t))) ts))"
  by (auto simp: declared_set_def approved_set_def ruled_set_def registry_set_def)

lemma set_sorted_set [simp]: "set (sorted_set xs) = set xs"
  by (simp add: sorted_set_def)

lemma sorted_set_eq_Nil [simp]: "sorted_set xs = [] \<longleftrightarrow> xs = []"
  by (metis set_empty set_sorted_set)

lemma check_bindings_Inr:
  assumes "check_bindings g bs = Inr (declared, approved)"
  shows "set declared = declared_set g bs \<and> set approved = approved_set g bs \<and>
     (\<forall>a \<in> set declared. safe_action a)"
proof -
  let ?rows = "filter (declares_action g) bs"
  have ok: "find (\<lambda>b. \<not> binding_coordinates_ok b) ?rows = None"
    and d: "declared = map (\<lambda>b. strip (atb_gateway_action b)) ?rows"
    and a: "approved = map (\<lambda>b. strip (atb_gateway_action b))
      (filter (\<lambda>b. atb_approval_state b = Approval_APPROVED) ?rows)"
    using assms by (auto simp: check_bindings_def Let_def split: option.splits)
  have "safe_action (strip (atb_gateway_action b))" if "b \<in> set ?rows" for b
    using ok that by (auto simp: find_None_iff binding_coordinates_ok_def)
  then show ?thesis by (auto simp: d a declared_set_def approved_set_def)
qed

lemma check_rules_Inr: "check_rules g rs = Inr ruled \<Longrightarrow> set ruled = ruled_set g rs"
  by (auto simp: check_rules_def Let_def ruled_set_def split: option.splits)

lemma normalize_targets_Inr:
  "normalize_targets ts = Inr ns \<Longrightarrow> set (registry_actions ns) = registry_set ts"
proof (induction ts arbitrary: ns)
  case Nil
  then show ?case by (simp add: registry_actions_def registry_set_def)
next
  case (Cons t ts)
  then obtain n ms where n: "normalize_target t = Inr n" and ms: "normalize_targets ts = Inr ms"
    and ns: "ns = n # ms"
    by (auto simp: bind_res_Inr_iff)
  from n obtain s where "n = (strip (gt_name t), s, fromkeys (stripped_nonempty (gt_operations t)))"
    by (auto simp: normalize_target_def Let_def split: if_splits option.splits)
  then have "set (registry_actions ns) =
      gateway_tool_name (strip (gt_name t)) ` set (stripped_nonempty (gt_operations t))
      \<union> set (registry_actions ms)"
    by (simp add: registry_actions_def ns)
  with Cons.IH [OF ms] show ?case by (auto simp: registry_set_def)
qed

lemma sorted_set_id: "sorted_set (sorted_set xs) = sorted_set xs"
  by (simp add: sorted_set_def distinct_remdups_id sort_key_id_if_sorted)

lemma check_gateway_Inr:
  "check_gateway_and_scopes spec = Inr u \<Longrightarrow>
     prefix ''arn:'' (sp_gateway_arn spec) \<and> safe_gateway (sp_gateway_arn spec)"
  by (auto simp: check_gateway_and_scopes_def split: if_splits)

lemma excluded_of_iff:
  "a \<in> set (excluded_of live declared registry) \<longleftrightarrow>
     a \<in> set declared \<and> a \<in> set registry \<and> (\<exists>i. live = Some i \<and> \<not> is_live i a)"
  by (auto simp: excluded_of_def split: option.split)

lemma enumerated_actions_out:
  assumes "cs_policies out = (if e = [] then []
      else [compiled_shared_policy hash k (coarse_gate g e) 0])"
    and "\<forall>a \<in> set e. safe_action a" "sorted_set e = e" "prefix ''arn:'' g" "safe_gateway g"
  shows "enumerated_actions out = e"
  using assms coarse_gate_actions [of e g]
  by (cases "e = []")
    (simp_all add: enumerated_actions_def compiled_shared_policy_def list_all_iff)

text \<open>What a published policy has: the enumeration, the disclosure and the completeness gate.\<close>

lemma publish_Inr:
  assumes pub: "publish_shared_policy hash g live registry declared approved ruled = Inr out"
    and safe: "\<forall>a \<in> set declared. safe_action a" "prefix ''arn:'' g" "safe_gateway g"
  shows "cs_excluded_actions out = excluded_of live declared registry"
    and "set (cs_excluded_approved_actions out) = set (cs_excluded_actions out) \<inter> set approved"
    and "set (enumerated_actions out) = {a \<in> set declared. a \<notin> set ruled \<and>
         a \<in> set registry \<and> a \<notin> set (cs_excluded_actions out)}"
    and "set declared \<subseteq> set ruled \<or> cs_policies out \<noteq> []"
    and "\<forall>p \<in> set (cs_policies out). length (cp_cedar_policy p) = cp_size_bytes p \<and>
         cp_size_bytes p \<le> MAX_CEDAR_POLICY_BYTES"
    and "set approved - set (cs_excluded_actions out) \<subseteq> set (enumerated_actions out) \<union> set ruled"
proof -
  define excluded where "excluded = excluded_of live declared registry"
  define e where "e = sorted_set (filter (\<lambda>a. a \<notin> set ruled \<and>
     a \<in> set (filter (\<lambda>a. a \<notin> set excluded) registry)) declared)"
  define policies where "policies = (if e = [] then []
     else [compiled_shared_policy hash ''coarse-gate'' (coarse_gate g e) 0])"
  define compiled where "compiled = \<lparr>cs_gateway_arn = g, cs_policies = policies,
     cs_danger_target_count = 0, cs_live_inventory_status = live_status live,
     cs_excluded_actions = excluded,
     cs_excluded_approved_actions = filter (\<lambda>a. a \<in> set approved) excluded\<rparr>"
  note unfolded = pub [unfolded publish_shared_policy_def Let_def, folded excluded_def,
      folded e_def, folded policies_def, folded compiled_def]
  have out: "out = compiled"
    and size: "\<not> list_ex (\<lambda>p. MAX_CEDAR_POLICY_BYTES < cp_size_bytes p) policies"
    and cov: "filter (\<lambda>a. a \<notin> set (enumerated_actions compiled @ ruled))
        (filter (\<lambda>a. a \<notin> set excluded) approved) = []"
    and ne: "\<not> (list_ex (\<lambda>a. a \<notin> set ruled) declared \<and> e = [])"
    using unfolded by (auto split: if_splits)
  have fields: "cs_excluded_actions out = excluded" "cs_policies out = policies"
    "cs_excluded_approved_actions out = filter (\<lambda>a. a \<in> set approved) excluded"
    by (simp_all add: out compiled_def)
  have set_e: "set e = {a \<in> set declared. a \<notin> set ruled \<and> a \<in> set registry \<and> a \<notin> set excluded}"
    by (auto simp: e_def)
  have enum: "enumerated_actions out = e"
    by (rule enumerated_actions_out [OF fields(2) [unfolded policies_def] _ _ safe(2,3)])
      (use set_e safe(1) in \<open>auto simp: e_def sorted_set_id\<close>)
  show "cs_excluded_actions out = excluded_of live declared registry"
    by (simp add: fields excluded_def)
  show "set (cs_excluded_approved_actions out) = set (cs_excluded_actions out) \<inter> set approved"
    by (auto simp: fields)
  show "set (enumerated_actions out) = {a \<in> set declared. a \<notin> set ruled \<and>
         a \<in> set registry \<and> a \<notin> set (cs_excluded_actions out)}"
    by (simp add: enum set_e fields)
  show "set declared \<subseteq> set ruled \<or> cs_policies out \<noteq> []"
    using ne by (auto simp: fields policies_def list_ex_iff)
  show "\<forall>p \<in> set (cs_policies out). length (cp_cedar_policy p) = cp_size_bytes p \<and>
         cp_size_bytes p \<le> MAX_CEDAR_POLICY_BYTES"
    using size by (auto simp: fields policies_def compiled_shared_policy_def)
  show "set approved - set (cs_excluded_actions out) \<subseteq> set (enumerated_actions out) \<union> set ruled"
    using cov fields(1) unfolding out by (auto simp: filter_empty_conv)
qed

text \<open>Everything a successful compilation has checked before it publishes.\<close>

lemma compile_Inr:
  assumes "compile_shared_gateway_policies hash allow_empty spec = Inr out"
    and "sp_tool_bindings spec = Some bindings" "sp_domain_policy_rules spec = Some rules"
  obtains u targets declared approved ruled where
    "check_gateway_and_scopes spec = Inr u" "normalize_targets (sp_targets spec) = Inr targets"
    "sp_interceptor_attached spec = Some True"
    "check_bindings (sp_gateway_arn spec) bindings = Inr (declared, approved)"
    "declared \<noteq> [] \<or> allow_empty"
    "check_rules (sp_gateway_arn spec) rules = Inr ruled"
    "publish_shared_policy hash (sp_gateway_arn spec) (sp_live_inventory spec)
       (registry_actions targets) declared approved ruled = Inr out"
  using assms
  unfolding compile_shared_gateway_policies_def bind_res_Inr_iff split_paired_Ex split_conv
    raise_unless_iff of_option_Inr_iff
  by (elim exE conjE) (simp only: option.inject)

text \<open>A Gateway with one Target, two approved rows and one that waits for approval.\<close>

definition sample_row :: "string \<Rightarrow> approval_state \<Rightarrow> agent_tool_binding" where
  "sample_row op state = \<lparr>atb_agent_record_id = ''bot'', atb_asset_id = ''mcp'',
     atb_asset_version = ''1'', atb_operation_id = op, atb_gateway_id = ''arn:gw'',
     atb_gateway_target_name = ''notes'', atb_gateway_action = ''notes___'' @ op,
     atb_approval_state = state, atb_desired_state = Desired_ALLOWED,
     atb_effective_state = Effective_PENDING, atb_policy_revision = 0, atb_created_by = [],
     atb_updated_by = [], atb_approved_by = None, atb_approved_at = None,
     atb_sensitivity = [], atb_request_justification = []\<rparr>"

definition sample_spec :: shared_gateway_policy_spec where
  "sample_spec = \<lparr>sp_gateway_arn = ''arn:gw'',
     sp_targets = [\<lparr>gt_name = ''notes'', gt_sensitivity = ''read'',
                    gt_operations = [''get'', ''list'', ''put'']\<rparr>],
     sp_invoke_scope = ''invoke'', sp_scope_names = [''invoke''],
     sp_interceptor_attached = Some True,
     sp_tool_bindings = Some [sample_row ''put'' Approval_REQUESTED,
       sample_row ''get'' Approval_APPROVED, sample_row ''list'' Approval_APPROVED],
     sp_domain_policy_rules = Some [],
     sp_live_inventory = Some \<lparr>li_targets = [''notes''],
       li_tools_by_target = [(''notes'', [''get'', ''put''])], li_tool_lists_complete = True\<rparr>\<rparr>"

lemma sample_compiles:
  "\<exists>out. compile_shared_gateway_policies id False sample_spec = Inr out"
proof -
  have "(case compile_shared_gateway_policies id False sample_spec of
      Inr out \<Rightarrow> True | Inl e \<Rightarrow> False)"
    by code_simp
  then show ?thesis by (auto split: sum.splits)
qed

section \<open>Properties\<close>

text \<open>C10: What the shared policy permits. Read back from the Cedar text by the code's own regular
  expression, the actions of a compiled policy are exactly the declared ones (not withdrawn,
  not rejected, of this Gateway) that no active domain rule governs, that the Registry's
  Targets own, and that the observed live Gateway has; what was left out for the last reason,
  and only that, is disclosed. An approval neither adds nor removes an action.\<close>

theorem shared_policy_enumerates_exactly:
  assumes "compile_shared_gateway_policies hash allow_empty spec = Inr out"
    and "sp_tool_bindings spec = Some bindings" "sp_domain_policy_rules spec = Some rules"
  shows "set (enumerated_actions out) =
      {a \<in> declared_set (sp_gateway_arn spec) bindings - ruled_set (sp_gateway_arn spec) rules.
         a \<in> registry_set (sp_targets spec) \<and> a \<notin> set (cs_excluded_actions out)} \<and>
    set (cs_excluded_actions out) =
      {a \<in> declared_set (sp_gateway_arn spec) bindings \<inter> registry_set (sp_targets spec).
         \<exists>live. sp_live_inventory spec = Some live \<and> \<not> is_live live a}"
proof -
  obtain u targets declared approved ruled where
    f: "check_gateway_and_scopes spec = Inr u" "normalize_targets (sp_targets spec) = Inr targets"
    "check_bindings (sp_gateway_arn spec) bindings = Inr (declared, approved)"
    "check_rules (sp_gateway_arn spec) rules = Inr ruled"
    and pub: "publish_shared_policy hash (sp_gateway_arn spec) (sp_live_inventory spec)
       (registry_actions targets) declared approved ruled = Inr out"
    using compile_Inr [OF assms] by metis
  note sets = check_bindings_Inr [OF f(3)] check_rules_Inr [OF f(4)] normalize_targets_Inr [OF f(2)]
  have "\<forall>a \<in> set declared. safe_action a" using sets(1) by simp
  note p = publish_Inr [OF pub this check_gateway_Inr [OF f(1), THEN conjunct1]
      check_gateway_Inr [OF f(1), THEN conjunct2]]
  show ?thesis
    using sets by (auto simp: p(3) p(1) excluded_of_iff)
qed

theorem shared_policy_enumerates_exactly_witness:
  "\<exists>out. compile_shared_gateway_policies id False sample_spec = Inr out \<and>
     set (enumerated_actions out) = {''notes___get'', ''notes___put''} \<and>
     set (cs_excluded_actions out) = {''notes___list''}"
proof -
  obtain out where out: "compile_shared_gateway_policies id False sample_spec = Inr out"
    using sample_compiles by blast
  obtain bindings rules where b: "sp_tool_bindings sample_spec = Some bindings"
    and r: "sp_domain_policy_rules sample_spec = Some rules"
    by (simp add: sample_spec_def)
  have d: "declared_set (sp_gateway_arn sample_spec) bindings =
      {''notes___put'', ''notes___get'', ''notes___list''}"
    "ruled_set (sp_gateway_arn sample_spec) rules = {}"
    "registry_set (sp_targets sample_spec) = {''notes___get'', ''notes___list'', ''notes___put''}"
  proof -
    have "bindings = the (sp_tool_bindings sample_spec)" "rules = []"
      using b r by (simp_all add: sample_spec_def)
    moreover have "map (\<lambda>b. strip (atb_gateway_action b)) (filter (declares_action
        (sp_gateway_arn sample_spec)) (the (sp_tool_bindings sample_spec))) =
        [''notes___put'', ''notes___get'', ''notes___list'']"
      "concat (map (\<lambda>t. map (gateway_tool_name (strip (gt_name t)))
        (stripped_nonempty (gt_operations t))) (sp_targets sample_spec)) =
        [''notes___get'', ''notes___list'', ''notes___put'']"
      by code_simp+
    ultimately show "declared_set (sp_gateway_arn sample_spec) bindings =
      {''notes___put'', ''notes___get'', ''notes___list''}"
      "ruled_set (sp_gateway_arn sample_spec) rules = {}"
      "registry_set (sp_targets sample_spec) = {''notes___get'', ''notes___list'', ''notes___put''}"
      by (simp_all only: compiled_set_lists) simp_all
  qed
  have live: "\<exists>live. sp_live_inventory sample_spec = Some live \<and> \<not> is_live live ''notes___list''"
    "\<not> (\<exists>live. sp_live_inventory sample_spec = Some live \<and> \<not> is_live live ''notes___get'')"
    "\<not> (\<exists>live. sp_live_inventory sample_spec = Some live \<and> \<not> is_live live ''notes___put'')"
    by (simp_all add: sample_spec_def is_live_def has_action_def TOOL_SEPARATOR_def)
  from shared_policy_enumerates_exactly [OF out b r] have
    "set (cs_excluded_actions out) = {''notes___list''}"
    unfolding d using live by auto
  moreover from this shared_policy_enumerates_exactly [OF out b r] have
    "set (enumerated_actions out) = {''notes___get'', ''notes___put''}"
    unfolding d by auto
  ultimately show ?thesis using out by blast
qed

text \<open>C11: No approved tool is silently lost, and nothing is published on a blind spot. When the
  compiler succeeds, every approved action is in the published policy, under an active domain
  rule, or in the disclosed exclusions; the request interceptor was observed attached and both
  ledgers were read; a remaining declared action keeps the policy from being published empty;
  and the text is within the size limit.\<close>

theorem compiled_policy_complete:
  assumes "compile_shared_gateway_policies hash allow_empty spec = Inr out"
    and "sp_tool_bindings spec = Some bindings" "sp_domain_policy_rules spec = Some rules"
  shows "approved_set (sp_gateway_arn spec) bindings \<subseteq>
      set (enumerated_actions out) \<union> ruled_set (sp_gateway_arn spec) rules
      \<union> set (cs_excluded_approved_actions out) \<and>
    sp_interceptor_attached spec = Some True \<and>
    (declared_set (sp_gateway_arn spec) bindings \<noteq> {} \<or> allow_empty) \<and>
    (declared_set (sp_gateway_arn spec) bindings \<subseteq> ruled_set (sp_gateway_arn spec) rules
      \<or> cs_policies out \<noteq> []) \<and>
    (\<forall>p \<in> set (cs_policies out). length (cp_cedar_policy p) = cp_size_bytes p \<and>
       cp_size_bytes p \<le> MAX_CEDAR_POLICY_BYTES)"
proof -
  obtain u targets declared approved ruled where
    f: "check_gateway_and_scopes spec = Inr u" "sp_interceptor_attached spec = Some True"
    "check_bindings (sp_gateway_arn spec) bindings = Inr (declared, approved)"
    "declared \<noteq> [] \<or> allow_empty"
    "check_rules (sp_gateway_arn spec) rules = Inr ruled"
    and pub: "publish_shared_policy hash (sp_gateway_arn spec) (sp_live_inventory spec)
       (registry_actions targets) declared approved ruled = Inr out"
    using compile_Inr [OF assms] by metis
  note sets = check_bindings_Inr [OF f(3)] check_rules_Inr [OF f(5)]
  have "\<forall>a \<in> set declared. safe_action a" using sets(1) by simp
  note p = publish_Inr [OF pub this check_gateway_Inr [OF f(1), THEN conjunct1]
      check_gateway_Inr [OF f(1), THEN conjunct2]]
  have "approved_set (sp_gateway_arn spec) bindings \<subseteq>
      set (enumerated_actions out) \<union> ruled_set (sp_gateway_arn spec) rules
      \<union> set (cs_excluded_approved_actions out)"
    using p(2,6) sets by auto
  moreover have "declared_set (sp_gateway_arn spec) bindings \<noteq> {} \<or> allow_empty"
    using f(4) sets(1) by auto
  ultimately show ?thesis using p(4,5) f(2) sets by simp
qed

theorem compiled_policy_complete_witness:
  "\<exists>out. compile_shared_gateway_policies id False sample_spec = Inr out \<and>
     {''notes___get'', ''notes___list''} \<subseteq>
       set (enumerated_actions out) \<union> set (cs_excluded_approved_actions out)"
proof -
  obtain out where out: "compile_shared_gateway_policies id False sample_spec = Inr out"
    using sample_compiles by blast
  obtain bindings rules where b: "sp_tool_bindings sample_spec = Some bindings"
    and r: "sp_domain_policy_rules sample_spec = Some rules"
    by (simp add: sample_spec_def)
  have "approved_set (sp_gateway_arn sample_spec) bindings = {''notes___get'', ''notes___list''}"
    "ruled_set (sp_gateway_arn sample_spec) rules = {}"
  proof -
    have "bindings = the (sp_tool_bindings sample_spec)" "rules = []"
      using b r by (simp_all add: sample_spec_def)
    moreover have "map (\<lambda>b. strip (atb_gateway_action b)) (filter (\<lambda>b. declares_action
        (sp_gateway_arn sample_spec) b \<and> atb_approval_state b = Approval_APPROVED)
        (the (sp_tool_bindings sample_spec))) = [''notes___get'', ''notes___list'']"
      by code_simp
    ultimately show "approved_set (sp_gateway_arn sample_spec) bindings =
        {''notes___get'', ''notes___list''}" "ruled_set (sp_gateway_arn sample_spec) rules = {}"
      by (simp_all only: compiled_set_lists) simp_all
  qed
  with compiled_policy_complete [OF out b r] out show ?thesis by auto
qed

text \<open>C39: The text says what was meant. For every list of well-formed actions and every Gateway
  ARN the compiler accepts, the code's regular expression reads back from the Cedar text
  exactly that list, in order: no action is lost or mangled, and no part of the ARN or of the
  fixed text is mistaken for one.\<close>

theorem cedar_text_roundtrip:
  assumes "\<forall>a \<in> set actions. safe_action a" "prefix ''arn:'' g" "safe_gateway g"
  shows "find_action_literals (coarse_gate g actions) = actions"
  using assms by (intro coarse_gate_actions) (simp_all add: list_all_iff)

theorem cedar_text_roundtrip_witness:
  "find_action_literals (coarse_gate ''arn:gw/AgentCore::Action::'' [''t___x'', ''t___y'']) =
     [''t___x'', ''t___y'']"
proof (rule cedar_text_roundtrip)
  show "\<forall>a \<in> set [''t___x'', ''t___y'']. safe_action a" by code_simp
  show "safe_gateway ''arn:gw/AgentCore::Action::''" by code_simp
qed simp

definition underscore_spec :: shared_gateway_policy_spec where
  "underscore_spec = sample_spec\<lparr>
     sp_targets := [\<lparr>gt_name = ''notes_'', gt_sensitivity = ''read'', gt_operations = [''get'']\<rparr>,
                    \<lparr>gt_name = ''wiki'', gt_sensitivity = ''read'', gt_operations = [''get'']\<rparr>],
     sp_tool_bindings := Some [
       (sample_row ''get'' Approval_APPROVED)\<lparr>atb_gateway_target_name := ''notes_'',
          atb_gateway_action := ''notes____get''\<rparr>,
       (sample_row ''get'' Approval_APPROVED)\<lparr>atb_gateway_target_name := ''wiki'',
          atb_gateway_action := ''wiki___get''\<rparr>],
     sp_live_inventory := Some \<lparr>li_targets = [''notes_'', ''wiki''],
       li_tools_by_target = [(''notes_'', [''get'']), (''wiki'', [''get''])],
       li_tool_lists_complete = True\<rparr>\<rparr>"

text \<open>A live tool may be dropped from the policy. The liveness test cuts an action at its first
  \<open>___\<close>. A Target name that the compiler accepts may end in an underscore; then a tool that the
  live Gateway reports on exactly that Target is judged not live, excluded, and no longer
  permitted, although its row is approved.\<close>

theorem live_action_excluded:
  "\<exists>live out. sp_live_inventory underscore_spec = Some live \<and> has_action live ''notes_'' ''get'' \<and>
     compile_shared_gateway_policies id False underscore_spec = Inr out \<and>
     ''notes____get'' \<in> set (cs_excluded_approved_actions out) \<and>
     ''notes____get'' \<notin> set (enumerated_actions out)"
proof -
  have "(case compile_shared_gateway_policies id False underscore_spec of
      Inr out \<Rightarrow> ''notes____get'' \<in> set (cs_excluded_approved_actions out) \<and>
        ''notes____get'' \<notin> set (enumerated_actions out)
    | Inl e \<Rightarrow> False)"
    by code_simp
  then obtain out where "compile_shared_gateway_policies id False underscore_spec = Inr out"
    "''notes____get'' \<in> set (cs_excluded_approved_actions out)"
    "''notes____get'' \<notin> set (enumerated_actions out)"
    by (auto split: sum.splits)
  then show ?thesis by (simp add: underscore_spec_def has_action_def)
qed

text \<open>The per-agent policy stays under its ceiling. The actions of a built spec are exactly
  those of the approved, not withdrawn rows whose sensitivity tag is known and allowed by the
  agent's permission group; so a higher group never yields fewer actions, and the compiled
  policy counts exactly these.\<close>

theorem agent_policy_within_ceiling:
  assumes "build_policy_spec pid rid n bindings grp sensitivity = Inr spec"
  shows "set (as_actions spec) =
      {gateway_tool_name (atb_gateway_target_name b) (atb_operation_id b) | b.
         b \<in> set bindings \<and> opened_binding b \<and>
         within_ceiling sensitivity grp (atb_gateway_action b)} \<and>
    (\<forall>b \<in> set bindings. opened_binding b \<longrightarrow> atb_gateway_id b = as_gateway_arn spec) \<and>
    (\<forall>higher \<ge> grp. \<exists>spec'. build_policy_spec pid rid n bindings higher sensitivity = Inr spec'
       \<and> set (as_actions spec) \<subseteq> set (as_actions spec'))"
proof -
  let ?open = "filter opened_binding bindings"
  let ?gws = "remdups (map atb_gateway_id ?open)"
  let ?acts = "\<lambda>g. map (\<lambda>b. gateway_tool_name (atb_gateway_target_name b) (atb_operation_id b))
     (filter (\<lambda>b. within_ceiling sensitivity g (atb_gateway_action b)) ?open)"
  from assms have open_ne: "?open \<noteq> []" and one: "length ?gws = 1"
    and ne: "?acts grp \<noteq> []"
    and spec: "as_gateway_arn spec = hd ?gws" "as_actions spec = sorted_set (?acts grp)"
    by (auto simp: build_policy_spec_def Let_def simp del: filter_filter split: if_splits)
  have "\<forall>b \<in> set bindings. opened_binding b \<longrightarrow> atb_gateway_id b = hd ?gws"
  proof -
    obtain x where "?gws = [x]" using one by (cases ?gws) auto
    then have "set (map atb_gateway_id ?open) = {x}" by (metis set_remdups list.set(1,2))
    with \<open>?gws = [x]\<close> show ?thesis by auto
  qed
  moreover have "\<exists>spec'. build_policy_spec pid rid n bindings higher sensitivity = Inr spec'
      \<and> set (as_actions spec) \<subseteq> set (as_actions spec')" if "grp \<le> higher" for higher
  proof -
    have sub: "set (?acts grp) \<subseteq> set (?acts higher)"
      using group_allows_mono [OF that] by (auto simp: within_ceiling_def split: option.splits if_splits)
    with ne have "?acts higher \<noteq> []" by (metis set_empty subset_empty)
    with open_ne one sub show ?thesis
      by (auto simp: build_policy_spec_def Let_def spec simp del: filter_filter)
  qed
  ultimately show ?thesis by (auto simp: spec)
qed

theorem agent_policy_within_ceiling_witness:
  "\<exists>spec. build_policy_spec ''c'' ''bot'' 1
       [sample_row ''get'' Approval_APPROVED, sample_row ''put'' Approval_APPROVED] READ_ONLY
       [(''notes___get'', ''READ''), (''notes___put'', ''UPDATE'')] = Inr spec \<and>
     set (as_actions spec) = {''notes___get''}"
proof -
  let ?rows = "[sample_row ''get'' Approval_APPROVED, sample_row ''put'' Approval_APPROVED]"
  let ?tags = "[(''notes___get'', ''READ''), (''notes___put'', ''UPDATE'')]"
  have "{gateway_tool_name (atb_gateway_target_name b) (atb_operation_id b) | b.
      b \<in> set ?rows \<and> opened_binding b \<and> within_ceiling ?tags READ_ONLY (atb_gateway_action b)} =
    set (map (\<lambda>b. gateway_tool_name (atb_gateway_target_name b) (atb_operation_id b))
      (filter (\<lambda>b. opened_binding b \<and> within_ceiling ?tags READ_ONLY (atb_gateway_action b)) ?rows))"
    by auto
  also have "\<dots> = {''notes___get''}"
  proof -
    have "map (\<lambda>b. gateway_tool_name (atb_gateway_target_name b) (atb_operation_id b))
      (filter (\<lambda>b. opened_binding b \<and> within_ceiling ?tags READ_ONLY (atb_gateway_action b)) ?rows)
      = [''notes___get'']"
      by code_simp
    then show ?thesis by (simp only:) simp
  qed
  finally have acts: "{gateway_tool_name (atb_gateway_target_name b) (atb_operation_id b) | b.
      b \<in> set ?rows \<and> opened_binding b \<and> within_ceiling ?tags READ_ONLY (atb_gateway_action b)} =
    {''notes___get''}" .
  have "(case build_policy_spec ''c'' ''bot'' 1 ?rows READ_ONLY ?tags of
      Inr spec \<Rightarrow> True | Inl e \<Rightarrow> False)"
    by code_simp
  then obtain spec where s: "build_policy_spec ''c'' ''bot'' 1 ?rows READ_ONLY ?tags = Inr spec"
    by (auto split: sum.splits)
  from agent_policy_within_ceiling [OF s] have "set (as_actions spec) = {''notes___get''}"
    unfolding acts by (rule conjunct1)
  with s show ?thesis by blast
qed

end
