(* ===== verification/Agent_Ledger.thy ===== *)
theory Agent_Ledger
  imports Identity_Store
begin

text \<open>
  The agent part of the identity ledger (\<open>InMemoryIdentityStore\<close> in \<open>identity/store.py\<close>):
  tool bindings (layer 4) and their approval, agent identities with the client-id index,
  managed-client reservations, compiled policy revisions, shared-policy cutovers, invoke
  authorizations and domain policy rules. Two operations insert an empty revision table
  before they may raise; they return the state beside the result.
\<close>

section \<open>Tool bindings\<close>

definition binding_key :: "agent_tool_binding \<Rightarrow> binding_key" where
  "binding_key b = (atb_agent_record_id b, atb_asset_id b, atb_asset_version b, atb_operation_id b)"

definition put_agent_tool_binding :: "agent_tool_binding \<Rightarrow> identity_store \<Rightarrow> identity_store" where
  "put_agent_tool_binding b s =
     s\<lparr>st_agent_tool_bindings := dput (binding_key b) b (st_agent_tool_bindings s)\<rparr>"

definition get_agent_tool_binding ::
  "identity_store \<Rightarrow> string \<Rightarrow> string \<Rightarrow> string \<Rightarrow> string
     \<Rightarrow> identity_error + agent_tool_binding" where
  "get_agent_tool_binding s rid aid ver op =
     of_option RecordNotFound (dget (st_agent_tool_bindings s) (rid, aid, ver, op))"

definition list_agent_tool_bindings :: "identity_store \<Rightarrow> string \<Rightarrow> agent_tool_binding list" where
  "list_agent_tool_bindings s rid =
     sort_key (\<lambda>b. (atb_asset_id b, atb_asset_version b, atb_operation_id b))
       (map snd (filter (\<lambda>((r, _, _, _), _). r = rid) (st_agent_tool_bindings s)))"

definition set_agent_tool_binding_effective_state ::
  "agent_tool_binding \<Rightarrow> effective_state \<Rightarrow> int \<Rightarrow> identity_store
     \<Rightarrow> identity_error + identity_store \<times> agent_tool_binding" where
  "set_agent_tool_binding_effective_state b eff revision s =
     (if atb_policy_revision b > revision then Inl VersionConflict
      else
        bind_res (of_option RecordNotFound (dget (st_agent_tool_bindings s) (binding_key b)))
          (\<lambda>current.
            if current \<noteq> b then Inl VersionConflict
            else
              (let updated = current\<lparr>atb_effective_state := eff,
                                     atb_policy_revision := revision\<rparr>
               in Inr (s\<lparr>st_agent_tool_bindings :=
                           dput (binding_key b) updated (st_agent_tool_bindings s)\<rparr>, updated))))"

definition approve_agent_tool_binding ::
  "string \<Rightarrow> string \<Rightarrow> string \<Rightarrow> string \<Rightarrow> string \<Rightarrow> string \<Rightarrow> identity_store
     \<Rightarrow> identity_error + identity_store \<times> agent_tool_binding" where
  "approve_agent_tool_binding rid aid ver op approved_by approved_at s =
     bind_res (get_agent_tool_binding s rid aid ver op) (\<lambda>current.
       if atb_approval_state current \<noteq> Approval_REQUESTED then Inl VersionConflict
       else
         (let approved = current\<lparr>atb_approval_state := Approval_APPROVED,
                                 atb_approved_by := Some approved_by,
                                 atb_approved_at := Some approved_at,
                                 atb_updated_by := approved_by\<rparr>
          in Inr (s\<lparr>st_agent_tool_bindings :=
                      dput (rid, aid, ver, op) approved (st_agent_tool_bindings s)\<rparr>, approved)))"

definition rejected_binding :: "string \<Rightarrow> agent_tool_binding \<Rightarrow> agent_tool_binding" where
  "rejected_binding updated_by b =
     b\<lparr>atb_approval_state := Approval_REJECTED, atb_desired_state := Desired_REVOKED,
       atb_effective_state := Effective_REVOKED, atb_updated_by := updated_by\<rparr>"

definition reject_agent_tool_binding ::
  "string \<Rightarrow> string \<Rightarrow> string \<Rightarrow> string \<Rightarrow> string \<Rightarrow> identity_store
     \<Rightarrow> identity_error + identity_store \<times> agent_tool_binding" where
  "reject_agent_tool_binding rid aid ver op updated_by s =
     bind_res (get_agent_tool_binding s rid aid ver op) (\<lambda>current.
       let rejected = rejected_binding updated_by current
       in Inr (s\<lparr>st_agent_tool_bindings :=
                   dput (rid, aid, ver, op) rejected (st_agent_tool_bindings s)\<rparr>, rejected))"

definition approve_agent_tool_binding_with_audit ::
  "string \<Rightarrow> string \<Rightarrow> string \<Rightarrow> string \<Rightarrow> string \<Rightarrow> string \<Rightarrow> string option \<Rightarrow> audit_event
     \<Rightarrow> identity_store \<Rightarrow> identity_error + identity_store \<times> agent_tool_binding" where
  "approve_agent_tool_binding_with_audit rid aid ver op approved_by approved_at sensitivity event s =
     bind_res (get_agent_tool_binding s rid aid ver op) (\<lambda>current.
       if atb_approval_state current \<noteq> Approval_REQUESTED then Inl VersionConflict
       else
         (let approved = current\<lparr>atb_approval_state := Approval_APPROVED,
                                 atb_approved_by := Some approved_by,
                                 atb_approved_at := Some approved_at,
                                 atb_updated_by := approved_by,
                                 atb_sensitivity := (case sensitivity of
                                     None \<Rightarrow> atb_sensitivity current | Some x \<Rightarrow> x)\<rparr>
          in Inr (s\<lparr>st_audit_events := st_audit_events s @ [event],
                    st_agent_tool_bindings :=
                      dput (rid, aid, ver, op) approved (st_agent_tool_bindings s)\<rparr>, approved)))"

definition reject_agent_tool_binding_with_audit ::
  "string \<Rightarrow> string \<Rightarrow> string \<Rightarrow> string \<Rightarrow> string \<Rightarrow> audit_event \<Rightarrow> identity_store
     \<Rightarrow> identity_error + identity_store \<times> agent_tool_binding" where
  "reject_agent_tool_binding_with_audit rid aid ver op updated_by event s =
     bind_res (get_agent_tool_binding s rid aid ver op) (\<lambda>current.
       if atb_approval_state current \<noteq> Approval_REQUESTED then Inl VersionConflict
       else
         (let rejected = rejected_binding updated_by current
          in Inr (s\<lparr>st_audit_events := st_audit_events s @ [event],
                    st_agent_tool_bindings :=
                      dput (rid, aid, ver, op) rejected (st_agent_tool_bindings s)\<rparr>, rejected)))"

section \<open>Agent identities and the client index\<close>

definition identity_conflict :: "agent_identity_binding \<Rightarrow> string \<times> agent_identity_binding \<Rightarrow> bool" where
  "identity_conflict b e =
     (case e of (other_id, existing) \<Rightarrow>
        other_id \<noteq> aib_agent_record_id b \<and>
        (aib_client_id b \<noteq> [] \<and> aib_client_id existing = aib_client_id b \<or>
         aib_client_id b = [] \<and> aib_gateway_role_arn b \<noteq> [] \<and>
           aib_gateway_role_arn existing = aib_gateway_role_arn b))"

definition put_agent_identity_binding ::
  "agent_identity_binding \<Rightarrow> identity_store \<Rightarrow> identity_error + identity_store" where
  "put_agent_identity_binding b s =
     (if list_ex (identity_conflict b) (st_agent_identity_bindings s) then Inl VersionConflict
      else
        (let s' = s\<lparr>st_agent_identity_bindings :=
                      dput (aib_agent_record_id b) b (st_agent_identity_bindings s)\<rparr>
         in Inr (if aib_client_id b \<noteq> []
                 then s'\<lparr>st_agent_client_claims :=
                           dput (aib_client_id b) (aib_agent_record_id b)
                             (st_agent_client_claims s')\<rparr>
                 else s')))"

definition get_agent_identity_binding ::
  "identity_store \<Rightarrow> string \<Rightarrow> identity_error + agent_identity_binding" where
  "get_agent_identity_binding s rid =
     of_option RecordNotFound (dget (st_agent_identity_bindings s) rid)"

definition find_agent_identity_binding_by_role ::
  "identity_store \<Rightarrow> string \<Rightarrow> agent_identity_binding option" where
  "find_agent_identity_binding_by_role s role =
     find (\<lambda>b. aib_gateway_role_arn b = role) (dvalues (st_agent_identity_bindings s))"

section \<open>Managed-client reservations\<close>

record managed_client_reservation =
  mcr_acquired :: bool
  mcr_client_id :: string
  mcr_deleting :: bool

definition reserve_managed_client ::
  "string \<Rightarrow> string \<Rightarrow> identity_store \<Rightarrow> identity_store \<times> managed_client_reservation" where
  "reserve_managed_client rid reservation_id s =
     (case dget (st_managed_client_reservations s) rid of
        None \<Rightarrow>
          (s\<lparr>st_managed_client_reservations :=
               dput rid (reservation_id, [], False) (st_managed_client_reservations s)\<rparr>,
           \<lparr>mcr_acquired = True, mcr_client_id = [], mcr_deleting = False\<rparr>)
      | Some (owner_id, client_id, deleting) \<Rightarrow>
          (s, \<lparr>mcr_acquired = (owner_id = reservation_id \<and> client_id = [] \<and> \<not> deleting),
               mcr_client_id = (if deleting then [] else client_id),
               mcr_deleting = deleting\<rparr>))"

definition get_managed_client_reservation ::
  "identity_store \<Rightarrow> string \<Rightarrow> managed_client_reservation option" where
  "get_managed_client_reservation s rid =
     map_option (\<lambda>(_, client_id, deleting).
         \<lparr>mcr_acquired = False, mcr_client_id = client_id, mcr_deleting = deleting\<rparr>)
       (dget (st_managed_client_reservations s) rid)"

definition set_reservation :: "string \<Rightarrow> reservation \<Rightarrow> identity_store \<Rightarrow> identity_store" where
  "set_reservation rid r s =
     s\<lparr>st_managed_client_reservations := dput rid r (st_managed_client_reservations s)\<rparr>"

definition drop_reservation :: "string \<Rightarrow> identity_store \<Rightarrow> identity_store" where
  "drop_reservation rid s =
     s\<lparr>st_managed_client_reservations := ddel rid (st_managed_client_reservations s)\<rparr>"

definition complete_managed_client_reservation ::
  "string \<Rightarrow> string \<Rightarrow> string \<Rightarrow> identity_store \<Rightarrow> identity_error + identity_store" where
  "complete_managed_client_reservation rid reservation_id client_id s =
     (case dget (st_managed_client_reservations s) rid of
        None \<Rightarrow> Inl VersionConflict
      | Some (owner, client, deleting) \<Rightarrow>
          if owner \<noteq> reservation_id \<or> deleting then Inl VersionConflict
          else if client \<noteq> [] \<and> client \<noteq> client_id then Inl VersionConflict
          else Inr (set_reservation rid (reservation_id, client_id, False) s))"

definition complete_observed_managed_client_reservation ::
  "string \<Rightarrow> string \<Rightarrow> identity_store \<Rightarrow> identity_error + identity_store" where
  "complete_observed_managed_client_reservation rid client_id s =
     (case dget (st_managed_client_reservations s) rid of
        None \<Rightarrow> Inl VersionConflict
      | Some (owner, client, deleting) \<Rightarrow>
          if deleting \<or> (client \<noteq> [] \<and> client \<noteq> client_id) then Inl VersionConflict
          else Inr (set_reservation rid (owner, client_id, False) s))"

definition release_managed_client_reservation ::
  "string \<Rightarrow> string \<Rightarrow> identity_store \<Rightarrow> identity_error + identity_store" where
  "release_managed_client_reservation rid reservation_id s =
     (case dget (st_managed_client_reservations s) rid of
        None \<Rightarrow> Inl VersionConflict
      | Some (owner, client, deleting) \<Rightarrow>
          if owner \<noteq> reservation_id \<or> client \<noteq> [] \<or> deleting then Inl VersionConflict
          else Inr (drop_reservation rid s))"

definition tombstone_managed_client_reservation ::
  "string \<Rightarrow> string \<Rightarrow> identity_store \<Rightarrow> identity_store \<times> bool" where
  "tombstone_managed_client_reservation rid client_id s =
     (case dget (st_managed_client_reservations s) rid of
        None \<Rightarrow> (s, False)
      | Some (owner, client, deleting) \<Rightarrow>
          if client \<noteq> client_id then (s, False)
          else (set_reservation rid (owner, client, True) s, True))"

definition finalize_managed_client_reservation_deletion ::
  "string \<Rightarrow> string \<Rightarrow> identity_store \<Rightarrow> identity_store \<times> bool" where
  "finalize_managed_client_reservation_deletion rid client_id s =
     (case dget (st_managed_client_reservations s) rid of
        None \<Rightarrow> (s, False)
      | Some (owner, client, deleting) \<Rightarrow>
          if client \<noteq> client_id \<or> \<not> deleting then (s, False)
          else (drop_reservation rid s, True))"

section \<open>Compiled policy revisions\<close>

definition latest_revision :: "(int, 'v) dict \<Rightarrow> int" where
  "latest_revision d = (case dkeys d of [] \<Rightarrow> 0 | r # rs \<Rightarrow> fold max rs r)"

definition revisions_of ::
  "(string, (int, 'v) dict) dict \<Rightarrow> string \<Rightarrow> (int, 'v) dict" where
  "revisions_of d k = (case dget d k of None \<Rightarrow> [] | Some r \<Rightarrow> r)"

definition put_agent_policy_deployment ::
  "agent_policy_deployment \<Rightarrow> int \<Rightarrow> identity_store
     \<Rightarrow> identity_store \<times> (identity_error + unit)" where
  "put_agent_policy_deployment d expected s =
     (let rid = apd_agent_record_id d;
          revisions = revisions_of (st_agent_policy_deployments s) rid;
          s' = s\<lparr>st_agent_policy_deployments := dput rid revisions (st_agent_policy_deployments s)\<rparr>
      in if latest_revision revisions \<noteq> expected then (s', Inl VersionConflict)
         else (s'\<lparr>st_agent_policy_deployments :=
                    dput rid (dput (apd_revision d) d revisions)
                      (st_agent_policy_deployments s')\<rparr>, Inr ()))"

definition get_latest_agent_policy_deployment ::
  "identity_store \<Rightarrow> string \<Rightarrow> agent_policy_deployment option" where
  "get_latest_agent_policy_deployment s rid =
     (let revisions = revisions_of (st_agent_policy_deployments s) rid in
      if revisions = [] then None else dget revisions (latest_revision revisions))"

definition list_agent_policy_deployments ::
  "identity_store \<Rightarrow> string \<Rightarrow> agent_policy_deployment list" where
  "list_agent_policy_deployments s rid =
     map snd (sort_key fst (revisions_of (st_agent_policy_deployments s) rid))"

definition list_all_agent_policy_deployments ::
  "identity_store \<Rightarrow> agent_policy_deployment list" where
  "list_all_agent_policy_deployments s =
     concat (map (list_agent_policy_deployments s) (sort (dkeys (st_agent_policy_deployments s))))"

definition mark_agent_policy_deployment ::
  "string \<Rightarrow> int \<Rightarrow> policy_deployment_status \<Rightarrow> string \<Rightarrow> string \<Rightarrow> string \<Rightarrow> string list
     \<Rightarrow> identity_store \<Rightarrow> identity_error + identity_store \<times> agent_policy_deployment" where
  "mark_agent_policy_deployment rid revision status policy_id hash deployed_at findings s =
     (let by_revision = revisions_of (st_agent_policy_deployments s) rid in
      bind_res (of_option RecordNotFound (dget by_revision revision)) (\<lambda>current.
        let updated = current\<lparr>
              apd_status := status,
              apd_agentcore_policy_id :=
                (if policy_id \<noteq> [] then policy_id else apd_agentcore_policy_id current),
              apd_deployed_policy_hash :=
                (if hash \<noteq> [] then hash else apd_deployed_policy_hash current),
              apd_deployed_at :=
                (if deployed_at \<noteq> [] then deployed_at else apd_deployed_at current),
              apd_validation_findings :=
                (if status = Policy_ACTIVE then findings
                 else if findings \<noteq> [] then findings
                 else apd_validation_findings current)\<rparr>
        in Inr (s\<lparr>st_agent_policy_deployments :=
                    dput rid (dput revision updated by_revision)
                      (st_agent_policy_deployments s)\<rparr>, updated)))"

section \<open>Shared-policy cutovers\<close>

definition put_gateway_policy_cutover ::
  "gateway_policy_cutover \<Rightarrow> int \<Rightarrow> identity_store
     \<Rightarrow> identity_store \<times> (identity_error + unit)" where
  "put_gateway_policy_cutover c expected s =
     (let arn = gpc_gateway_arn c;
          revisions = revisions_of (st_gateway_policy_cutovers s) arn;
          s' = s\<lparr>st_gateway_policy_cutovers := dput arn revisions (st_gateway_policy_cutovers s)\<rparr>
      in if latest_revision revisions \<noteq> expected \<or> gpc_revision c \<noteq> expected + 1
            \<or> gpc_version c \<noteq> 1
         then (s', Inl VersionConflict)
         else (s'\<lparr>st_gateway_policy_cutovers :=
                    dput arn (dput (gpc_revision c) c revisions)
                      (st_gateway_policy_cutovers s')\<rparr>, Inr ()))"

definition update_gateway_policy_cutover ::
  "gateway_policy_cutover \<Rightarrow> int \<Rightarrow> identity_store \<Rightarrow> identity_error + identity_store" where
  "update_gateway_policy_cutover c expected s =
     (let arn = gpc_gateway_arn c;
          revisions = revisions_of (st_gateway_policy_cutovers s) arn
      in case dget revisions (gpc_revision c) of
           None \<Rightarrow> Inl VersionConflict
         | Some current \<Rightarrow>
             if gpc_version current \<noteq> expected \<or> gpc_version c \<noteq> expected + 1
             then Inl VersionConflict
             else Inr (s\<lparr>st_gateway_policy_cutovers :=
                           dput arn (dput (gpc_revision c) c revisions)
                             (st_gateway_policy_cutovers s)\<rparr>))"

definition list_gateway_policy_cutovers ::
  "identity_store \<Rightarrow> string \<Rightarrow> gateway_policy_cutover list" where
  "list_gateway_policy_cutovers s arn =
     map snd (sort_key fst (revisions_of (st_gateway_policy_cutovers s) arn))"

definition get_latest_gateway_policy_cutover ::
  "identity_store \<Rightarrow> string \<Rightarrow> gateway_policy_cutover option" where
  "get_latest_gateway_policy_cutover s arn =
     (let cutovers = list_gateway_policy_cutovers s arn in
      if cutovers = [] then None else Some (last cutovers))"

section \<open>Invoke authorizations and domain rules\<close>

definition put_agent_invoke_authorization ::
  "agent_invoke_authorization \<Rightarrow> identity_store \<Rightarrow> identity_store" where
  "put_agent_invoke_authorization a s =
     s\<lparr>st_agent_invoke_authorizations :=
         dput (aia_agent_id a) a (st_agent_invoke_authorizations s)\<rparr>"

definition get_agent_invoke_authorization ::
  "identity_store \<Rightarrow> string \<Rightarrow> identity_error + agent_invoke_authorization" where
  "get_agent_invoke_authorization s aid =
     of_option RecordNotFound (dget (st_agent_invoke_authorizations s) aid)"

definition put_domain_policy_rule :: "domain_policy_rule \<Rightarrow> identity_store \<Rightarrow> identity_store" where
  "put_domain_policy_rule r s =
     s\<lparr>st_domain_policy_rules := dput (dpr_rule_id r) r (st_domain_policy_rules s)\<rparr>"

definition get_domain_policy_rule ::
  "identity_store \<Rightarrow> string \<Rightarrow> identity_error + domain_policy_rule" where
  "get_domain_policy_rule s rule_id =
     of_option RecordNotFound (dget (st_domain_policy_rules s) rule_id)"

definition list_domain_policy_rules :: "identity_store \<Rightarrow> domain_policy_rule list" where
  "list_domain_policy_rules s = dvalues (st_domain_policy_rules s)"

definition delete_domain_policy_rule :: "string \<Rightarrow> identity_store \<Rightarrow> identity_store \<times> bool" where
  "delete_domain_policy_rule rule_id s =
     (s\<lparr>st_domain_policy_rules := ddel rule_id (st_domain_policy_rules s)\<rparr>,
      dget (st_domain_policy_rules s) rule_id \<noteq> None)"

section \<open>Whole-agent operations\<close>

definition get_agent_authorization_ledger_snapshot ::
  "identity_store \<Rightarrow> agent_authorization_ledger_snapshot" where
  "get_agent_authorization_ledger_snapshot s = \<lparr>
     als_identities = map snd (sort_key fst (st_agent_identity_bindings s)),
     als_tool_bindings = sort_key binding_key (dvalues (st_agent_tool_bindings s)),
     als_policy_deployments = list_all_agent_policy_deployments s,
     als_client_claims =
       map (\<lambda>(c, rid). \<lparr>acl_client_id = c, acl_agent_record_id = rid\<rparr>)
         (sort_key fst (st_agent_client_claims s))\<rparr>"

definition delete_agent_authorization_artifacts :: "string \<Rightarrow> identity_store \<Rightarrow> identity_store" where
  "delete_agent_authorization_artifacts rid s =
     s\<lparr>st_agent_client_claims :=
         (case dget (st_agent_identity_bindings s) rid of
            None \<Rightarrow> st_agent_client_claims s
          | Some i \<Rightarrow> if aib_client_id i \<noteq> [] then ddel (aib_client_id i) (st_agent_client_claims s)
                      else st_agent_client_claims s),
       st_agent_identity_bindings := ddel rid (st_agent_identity_bindings s),
       st_managed_client_reservations := ddel rid (st_managed_client_reservations s),
       st_agent_policy_deployments := ddel rid (st_agent_policy_deployments s),
       st_agent_invoke_authorizations := ddel rid (st_agent_invoke_authorizations s),
       st_agent_tool_bindings :=
         filter (\<lambda>((r, _, _, _), _). r \<noteq> rid) (st_agent_tool_bindings s)\<rparr>"

definition rollback_agent_provisioning ::
  "string \<Rightarrow> (string \<times> string \<times> string) list \<Rightarrow> int option \<Rightarrow> identity_store \<Rightarrow> identity_store"
  where
  "rollback_agent_provisioning rid created policy_revision s =
     (let s' = s\<lparr>st_agent_tool_bindings :=
                   foldl (\<lambda>d (a, v, op). ddel (rid, a, v, op) d)
                     (st_agent_tool_bindings s) created\<rparr>
      in case policy_revision of
           None \<Rightarrow> s'
         | Some r \<Rightarrow>
             (let present = (dget (st_agent_policy_deployments s') rid \<noteq> None);
                  revisions = ddel r (revisions_of (st_agent_policy_deployments s') rid)
              in s'\<lparr>st_agent_policy_deployments :=
                      (if revisions = [] then ddel rid (st_agent_policy_deployments s')
                       else if present then dput rid revisions (st_agent_policy_deployments s')
                       else st_agent_policy_deployments s')\<rparr>))"

section \<open>Interpretations of the interfaces\<close>

interpretation tool_binding_rows: row_table
  "\<lambda>s k. dget (st_agent_tool_bindings s) k" put_agent_tool_binding binding_key
  by unfold_locales (simp add: put_agent_tool_binding_def)

interpretation invoke_authorization_rows: row_table
  "\<lambda>s k. dget (st_agent_invoke_authorizations s) k" put_agent_invoke_authorization aia_agent_id
  by unfold_locales (simp add: put_agent_invoke_authorization_def)

interpretation domain_rule_rows: deletable_table
  "\<lambda>s k. dget (st_domain_policy_rules s) k" put_domain_policy_rule dpr_rule_id
  "\<lambda>k s. fst (delete_domain_policy_rule k s)"
  by unfold_locales (simp_all add: put_domain_policy_rule_def delete_domain_policy_rule_def)

definition cutover_version :: "identity_store \<Rightarrow> string \<times> int \<Rightarrow> int option" where
  "cutover_version s k =
     map_option gpc_version (dget (revisions_of (st_gateway_policy_cutovers s) (fst k)) (snd k))"

definition apply_cutover_update ::
  "gateway_policy_cutover \<Rightarrow> string \<times> int \<Rightarrow> int \<Rightarrow> identity_store \<Rightarrow> identity_store option" where
  "apply_cutover_update c k n s =
     (if (gpc_gateway_arn c, gpc_revision c) \<noteq> k then None
      else case update_gateway_policy_cutover c n s of Inl _ \<Rightarrow> None | Inr t \<Rightarrow> Some t)"

interpretation cutover_rows: versioned_table cutover_version apply_cutover_update
proof
  fix c k n s t m k'
  assume upd: "apply_cutover_update c k n s = Some t"
  show "cutover_version s k = Some n" "cutover_version t k = Some m \<Longrightarrow> n < m"
    "k' \<noteq> k \<Longrightarrow> cutover_version t k' = cutover_version s k'"
    using upd by (auto simp: cutover_version_def apply_cutover_update_def prod_eq_iff
        update_gateway_policy_cutover_def Let_def revisions_of_def
        split: option.splits if_splits sum.splits)
qed

section \<open>Tool binding rows\<close>

text \<open>Rows of the binding table are unique per key, and stored under the key they carry.\<close>

definition bindings_wf :: "identity_store \<Rightarrow> bool" where
  "bindings_wf s \<longleftrightarrow>
     wf_dict (st_agent_tool_bindings s) \<and> keyed_by binding_key (st_agent_tool_bindings s)"

definition stored_binding :: "identity_store \<Rightarrow> agent_tool_binding \<Rightarrow> bool" where
  "stored_binding s b \<longleftrightarrow> dget (st_agent_tool_bindings s) (binding_key b) = Some b"

lemma list_agent_tool_bindings_mem:
  assumes "bindings_wf s"
  shows "b \<in> set (list_agent_tool_bindings s rid) \<longleftrightarrow>
    stored_binding s b \<and> atb_agent_record_id b = rid"
proof -
  have row: "(k, b) \<in> set (st_agent_tool_bindings s) \<longleftrightarrow>
      dget (st_agent_tool_bindings s) k = Some b \<and> k = binding_key b" for k
    using assms by (auto simp: bindings_wf_def keyed_by_def dest: wf_dict_get [THEN iffD1]
        intro: map_of_SomeD)
  show ?thesis
    by (auto simp: list_agent_tool_bindings_def row stored_binding_def image_iff binding_key_def)
qed

lemma distinct_list_agent_tool_bindings:
  assumes "bindings_wf s"
  shows "distinct (list_agent_tool_bindings s rid)"
proof -
  let ?d = "filter (\<lambda>((r, _, _, _), _). r = rid) (st_agent_tool_bindings s)"
  have "wf_dict ?d" "keyed_by binding_key ?d"
    using assms by (auto simp: bindings_wf_def intro: keyed_by_filter)
  from distinct_dvalues [OF this] show ?thesis
    by (simp add: list_agent_tool_bindings_def dvalues_def)
qed

section \<open>The reservation life cycle\<close>

text \<open>
  What the reservation of one agent promises, as a state machine: a creator reserves, records
  the client it created, and the client is tombstoned before its reservation disappears.
\<close>

datatype reservation_phase =
    Absent
  | Reserved string
  | Completed string string
  | Deleting string string

inductive reservation_step :: "reservation_phase \<Rightarrow> reservation_phase \<Rightarrow> bool" where
  rs_reserve: "reservation_step Absent (Reserved owner)"
| rs_complete: "client \<noteq> [] \<Longrightarrow> reservation_step (Reserved owner) (Completed owner client)"
| rs_release: "reservation_step (Reserved owner) Absent"
| rs_tombstone_reserved: "reservation_step (Reserved owner) (Deleting owner [])"
| rs_tombstone: "reservation_step (Completed owner client) (Deleting owner client)"
| rs_finalize: "reservation_step (Deleting owner client) Absent"

inductive_cases from_completed: "reservation_step (Completed owner client) p"
inductive_cases from_deleting: "reservation_step (Deleting owner client) p"
inductive_cases from_reserved: "reservation_step (Reserved owner) p"

inductive_simps reservation_step_Completed: "reservation_step p (Completed owner client)"

fun phase_of_reservation :: "reservation option \<Rightarrow> reservation_phase" where
  "phase_of_reservation None = Absent"
| "phase_of_reservation (Some (owner, client, True)) = Deleting owner client"
| "phase_of_reservation (Some (owner, client, False)) =
     (if client = [] then Reserved owner else Completed owner client)"

definition reservation_phase_of :: "identity_store \<Rightarrow> string \<Rightarrow> reservation_phase" where
  "reservation_phase_of s rid =
     phase_of_reservation (dget (st_managed_client_reservations s) rid)"

fun phase_owner :: "reservation_phase \<Rightarrow> string option" where
  "phase_owner Absent = None"
| "phase_owner (Reserved owner) = Some owner"
| "phase_owner (Completed owner _) = Some owner"
| "phase_owner (Deleting owner _) = Some owner"

datatype reservation_op =
    Reserve string string
  | Complete string string string
  | Complete_observed string string
  | Release string string
  | Tombstone string string
  | Finalize string string
  | Purge_agent string

definition keep_state :: "identity_store \<Rightarrow> identity_error + identity_store \<Rightarrow> identity_store" where
  "keep_state s r = (case r of Inl _ \<Rightarrow> s | Inr t \<Rightarrow> t)"

fun apply_reservation_op :: "reservation_op \<Rightarrow> identity_store \<Rightarrow> identity_store" where
  "apply_reservation_op (Reserve rid owner) s = fst (reserve_managed_client rid owner s)"
| "apply_reservation_op (Complete rid owner client) s =
     keep_state s (complete_managed_client_reservation rid owner client s)"
| "apply_reservation_op (Complete_observed rid client) s =
     keep_state s (complete_observed_managed_client_reservation rid client s)"
| "apply_reservation_op (Release rid owner) s =
     keep_state s (release_managed_client_reservation rid owner s)"
| "apply_reservation_op (Tombstone rid client) s =
     fst (tombstone_managed_client_reservation rid client s)"
| "apply_reservation_op (Finalize rid client) s =
     fst (finalize_managed_client_reservation_deletion rid client s)"
| "apply_reservation_op (Purge_agent rid) s = delete_agent_authorization_artifacts rid s"

lemmas reservation_op_defs =
  reserve_managed_client_def complete_managed_client_reservation_def
  complete_observed_managed_client_reservation_def release_managed_client_reservation_def
  tombstone_managed_client_reservation_def finalize_managed_client_reservation_deletion_def
  delete_agent_authorization_artifacts_def set_reservation_def drop_reservation_def
  keep_state_def

lemma reservation_op_step:
  "reservation_phase_of (apply_reservation_op op s) k = reservation_phase_of s k \<or>
   reservation_step (reservation_phase_of s k) (reservation_phase_of (apply_reservation_op op s) k) \<or>
   op = Purge_agent k \<and> reservation_phase_of (apply_reservation_op op s) k = Absent"
proof (cases "dget (st_managed_client_reservations s) k")
  case None
  then show ?thesis
    by (cases op) (auto simp: reservation_phase_of_def reservation_op_defs
        split: option.splits if_splits intro: reservation_step.intros)
next
  case (Some r)
  obtain owner client deleting where r: "r = (owner, client, deleting)" by (cases r)
  with Some show ?thesis
    by (cases op; cases deleting) (auto simp: reservation_phase_of_def reservation_op_defs
        split: option.splits if_splits intro: reservation_step.intros)
qed

lemma reservation_owner_kept:
  "reservation_step p q \<Longrightarrow> phase_owner p = Some x \<Longrightarrow> q \<noteq> Absent \<Longrightarrow> phase_owner q = Some x"
  by (auto elim!: reservation_step.cases)

lemma reservation_owner_run:
  assumes "phase_owner (reservation_phase_of s k) = Some x"
    and "\<And>n. reservation_phase_of (fold apply_reservation_op (take n ops) s) k \<noteq> Absent"
  shows "phase_owner (reservation_phase_of (fold apply_reservation_op ops s) k) = Some x"
  using assms
proof (induction ops arbitrary: s)
  case (Cons op ops)
  let ?t = "apply_reservation_op op s"
  have "reservation_phase_of ?t k \<noteq> Absent"
    using Cons.prems(2) [of 1] by simp
  with Cons.prems(1) reservation_op_step [of op s k]
  have "phase_owner (reservation_phase_of ?t k) = Some x"
    by (auto dest: reservation_owner_kept)
  moreover have "reservation_phase_of (fold apply_reservation_op (take n ops) ?t) k \<noteq> Absent" for n
    using Cons.prems(2) [of "Suc n"] by simp
  ultimately show ?case using Cons.IH [of ?t] by simp
qed simp

lemma acquired_phase:
  "mcr_acquired (snd (reserve_managed_client rid r s)) \<longleftrightarrow>
     reservation_phase_of s rid \<in> {Absent, Reserved r}"
  by (auto simp: reserve_managed_client_def reservation_phase_of_def
      split: option.splits if_splits elim!: phase_of_reservation.elims)

lemma reserve_phase:
  "reservation_phase_of (fst (reserve_managed_client rid r s)) rid =
     (if reservation_phase_of s rid = Absent then Reserved r else reservation_phase_of s rid)"
  by (auto simp: reserve_managed_client_def reservation_phase_of_def
      split: option.splits if_splits elim!: phase_of_reservation.elims)

lemma completed_run:
  assumes "reservation_phase_of s k \<in> {Completed x c, Deleting x c}"
    and "\<And>n. reservation_phase_of (fold apply_reservation_op (take n ops) s) k \<noteq> Absent"
  shows "reservation_phase_of (fold apply_reservation_op ops s) k \<in> {Completed x c, Deleting x c}"
  using assms
proof (induction ops arbitrary: s)
  case (Cons op ops)
  let ?t = "apply_reservation_op op s"
  have "reservation_phase_of ?t k \<noteq> Absent"
    using Cons.prems(2) [of 1] by simp
  with Cons.prems(1) reservation_op_step [of op s k]
  have "reservation_phase_of ?t k \<in> {Completed x c, Deleting x c}"
    by (auto elim: from_completed from_deleting)
  moreover have "reservation_phase_of (fold apply_reservation_op (take n ops) ?t) k \<noteq> Absent" for n
    using Cons.prems(2) [of "Suc n"] by simp
  ultimately show ?case using Cons.IH [of ?t] by simp
qed simp

section \<open>Properties\<close>

text \<open>C37: Every reservation operation of the ledger, on any agent and in any state, moves the
  life cycle of each agent's managed client along an edge of the specified state machine or
  leaves it where it is: a client is recorded only on a live reservation, a tombstoned one is
  never recorded again, and only an unused or a tombstoned reservation is dropped. The one
  exception is the deletion of all artifacts of that agent, which ends in no reservation.\<close>

theorem reservation_ops_refine_lifecycle:
  "reservation_phase_of (apply_reservation_op op s) k = reservation_phase_of s k \<or>
   reservation_step (reservation_phase_of s k) (reservation_phase_of (apply_reservation_op op s) k) \<or>
   op = Purge_agent k \<and> reservation_phase_of (apply_reservation_op op s) k = Absent"
  by (rule reservation_op_step)

text \<open>At most one creator. If one request acquires the reservation of an agent and
  any operations follow that never leave the agent without a reservation, then a second
  request acquires it only if it is the same request; two concurrent issuers cannot both be
  told to create the client.\<close>

theorem single_client_creator:
  assumes "mcr_acquired (snd (reserve_managed_client rid r s))"
    and "\<And>n. reservation_phase_of
            (fold apply_reservation_op (take n ops) (fst (reserve_managed_client rid r s))) rid \<noteq> Absent"
    and "mcr_acquired (snd (reserve_managed_client rid r'
            (fold apply_reservation_op ops (fst (reserve_managed_client rid r s)))))"
  shows "r' = r"
proof -
  let ?t = "fst (reserve_managed_client rid r s)"
  have "phase_owner (reservation_phase_of ?t rid) = Some r"
    using assms(1) by (auto simp: acquired_phase reserve_phase)
  then have "phase_owner (reservation_phase_of (fold apply_reservation_op ops ?t) rid) = Some r"
    by (rule reservation_owner_run) (rule assms(2))
  with assms(3) assms(2) [of "length ops"] show ?thesis
    by (auto simp: acquired_phase)
qed

theorem single_client_creator_witness:
  "mcr_acquired (snd (reserve_managed_client ''a'' ''r1'' empty_store)) \<and>
   \<not> mcr_acquired (snd (reserve_managed_client ''a'' ''r3''
          (fold apply_reservation_op [Reserve ''a'' ''r2'']
             (fst (reserve_managed_client ''a'' ''r1'' empty_store)))))"
proof -
  have a: "mcr_acquired (snd (reserve_managed_client ''a'' ''r1'' empty_store))"
    by (simp add: reserve_managed_client_def empty_store_def)
  have b: "reservation_phase_of (fold apply_reservation_op (take n [Reserve ''a'' ''r2''])
      (fst (reserve_managed_client ''a'' ''r1'' empty_store))) ''a'' \<noteq> Absent" for n
    by (cases n) (simp_all add: reserve_managed_client_def empty_store_def
        reservation_phase_of_def)
  show ?thesis using a single_client_creator [OF a b, of "''r3''"] by auto
qed

text \<open>A recorded client is never replaced. Once a client id is recorded for an agent, then
  until the agent has no reservation at all the recorded client is that one, whether still in
  use or already being deleted.\<close>

theorem recorded_client_never_replaced:
  assumes "reservation_phase_of s k = Completed x c"
    and "\<And>n. reservation_phase_of (fold apply_reservation_op (take n ops) s) k \<noteq> Absent"
  shows "reservation_phase_of (fold apply_reservation_op ops s) k \<in> {Completed x c, Deleting x c}"
  using assms by (intro completed_run) auto

theorem recorded_client_never_replaced_witness:
  "reservation_phase_of
     (fold apply_reservation_op [Complete_observed ''a'' ''c2'', Tombstone ''a'' ''c1'']
       (set_reservation ''a'' (''r1'', ''c1'', False) empty_store)) ''a''
     \<in> {Completed ''r1'' ''c1'', Deleting ''r1'' ''c1''}"
proof (rule recorded_client_never_replaced)
  show "reservation_phase_of (set_reservation ''a'' (''r1'', ''c1'', False) empty_store) ''a'' =
      Completed ''r1'' ''c1''"
    by (simp add: reservation_phase_of_def set_reservation_def empty_store_def)
  show "reservation_phase_of
      (fold apply_reservation_op (take n [Complete_observed ''a'' ''c2'', Tombstone ''a'' ''c1''])
        (set_reservation ''a'' (''r1'', ''c1'', False) empty_store)) ''a'' \<noteq> Absent" for n
    by (cases n; cases "n - 1")
      (simp_all add: reservation_phase_of_def reservation_op_defs empty_store_def)
qed

end
