(* ===== verification/Delegation.thy ===== *)
theory Delegation
  imports Identity_Store
begin

text \<open>
  Call handles (\<open>identity/delegation.py\<close>): issuing, validating and revoking a delegation, and
  reading the deployment-fixed MCP declarations of an agent descriptor. The SHA-256 of a
  handle is the parameter \<open>hash\<close>; the clock, the fresh handle and the fresh invocation id are
  arguments.
\<close>

datatype delegation_error = DelegationError | DelegationValueError

section \<open>Issuing, validating, revoking\<close>

record issue_request =
  ir_principal_id :: string
  ir_agent_id :: string
  ir_workload_id :: string
  ir_allowed_asset_ids :: "string list"
  ir_principal_groups :: "string list"
  ir_principal_email :: string
  ir_ttl_seconds :: int

definition issue ::
  "(string \<Rightarrow> string) \<Rightarrow> int \<Rightarrow> string \<Rightarrow> string \<Rightarrow> issue_request \<Rightarrow> identity_store
     \<Rightarrow> delegation_error + identity_store \<times> string \<times> delegation_context" where
  "issue hash now handle new_id r s =
     (if ir_principal_id r = [] \<or> ir_agent_id r = [] then Inl DelegationValueError
      else if \<not> (60 \<le> ir_ttl_seconds r \<and> ir_ttl_seconds r \<le> 900) then Inl DelegationValueError
      else
        (let context = \<lparr>
               dc_handle_hash = hash handle,
               dc_principal_id = ir_principal_id r,
               dc_agent_id = ir_agent_id r,
               dc_invocation_id = new_id,
               dc_workload_id = ir_workload_id r,
               dc_created_at = now,
               dc_expires_at = now + ir_ttl_seconds r,
               dc_allowed_asset_ids = fromkeys (stripped_nonempty (ir_allowed_asset_ids r)),
               dc_principal_groups = fromkeys (stripped_nonempty (ir_principal_groups r)),
               dc_principal_email = strip (ir_principal_email r),
               dc_revoked_at = None\<rparr>
         in Inr (put_delegation context s, handle, context)))"

definition validate ::
  "(string \<Rightarrow> string) \<Rightarrow> int \<Rightarrow> string \<Rightarrow> string \<Rightarrow> string \<Rightarrow> identity_store
     \<Rightarrow> delegation_error + delegation_context" where
  "validate hash now handle agent_id workload_id s =
     (if handle = [] then Inl DelegationError
      else case get_delegation s (hash handle) of
        Inl _ \<Rightarrow> Inl DelegationError
      | Inr c \<Rightarrow>
          if dc_revoked_at c \<noteq> None \<or> dc_expires_at c \<le> now \<or> dc_agent_id c \<noteq> agent_id
             \<or> dc_workload_id c \<noteq> workload_id
          then Inl DelegationError
          else Inr c)"

definition revoke :: "(string \<Rightarrow> string) \<Rightarrow> int \<Rightarrow> string \<Rightarrow> identity_store \<Rightarrow> identity_store" where
  "revoke hash now handle s =
     (case get_delegation s (hash handle) of
        Inl _ \<Rightarrow> s
      | Inr c \<Rightarrow> put_delegation (c\<lparr>dc_revoked_at := Some now\<rparr>) s)"

section \<open>Declared MCP assets\<close>

record delegated_asset =
  da_asset_id :: string
  da_asset_version :: string
  da_operations :: "string list option"

definition allows :: "delegated_asset \<Rightarrow> string \<Rightarrow> string \<Rightarrow> bool" where
  "allows a asset_version operation_id \<longleftrightarrow>
     (da_asset_version a = [] \<or> da_asset_version a = asset_version) \<and>
     (case da_operations a of None \<Rightarrow> False | Some ops \<Rightarrow> operation_id \<in> set ops)"

definition declared_operations :: "(string \<times> json) list \<Rightarrow> string list option" where
  "declared_operations item =
     (case map_of item ''operations'' of
        None \<Rightarrow> None
      | Some (JArr ops) \<Rightarrow>
          Some (fromkeys (map strip (filter (\<lambda>op. strip op \<noteq> [])
            (List.map_filter as_str ops))))
      | Some _ \<Rightarrow> Some [])"

definition delegated_asset_of ::
  "(json \<Rightarrow> string) \<Rightarrow> (string \<times> json) list \<Rightarrow> delegated_asset" where
  "delegated_asset_of repr item = \<lparr>
     da_asset_id = strip (py_str repr (jget_or item ''assetId'' (JStr []))),
     da_asset_version =
       strip (py_str repr (j_or (j_or (jget item ''version'') (jget item ''assetVersion''))
                            (JStr []))),
     da_operations = declared_operations item\<rparr>"

text \<open>The object under a key, when the value is an object.\<close>

definition sub_obj :: "json \<Rightarrow> string \<Rightarrow> json" where
  "sub_obj j k = (case as_obj j of None \<Rightarrow> JNull | Some kvs \<Rightarrow> jget kvs k)"

definition delegated_assets :: "(json \<Rightarrow> string) \<Rightarrow> json \<Rightarrow> delegated_asset list" where
  "delegated_assets repr descriptors =
     (case sub_obj (sub_obj (sub_obj descriptors ''agent'') ''agoraDependencies'') ''mcpAssets'' of
        JArr assets \<Rightarrow>
          map (delegated_asset_of repr)
            (filter (\<lambda>item. strip (py_str repr (jget_or item ''assetId'' (JStr []))) \<noteq> [])
              (List.map_filter as_obj assets))
      | _ \<Rightarrow> [])"

definition delegated_asset_ids :: "(json \<Rightarrow> string) \<Rightarrow> json \<Rightarrow> string list" where
  "delegated_asset_ids repr descriptors =
     fromkeys (map da_asset_id (delegated_assets repr descriptors))"

definition delegated_workload_binding :: "(json \<Rightarrow> string) \<Rightarrow> json \<Rightarrow> string \<times> string" where
  "delegated_workload_binding repr descriptors =
     (case sub_obj (sub_obj descriptors ''agent'') ''workloadIdentity'' of
        JObj binding \<Rightarrow>
          (if (case jget binding ''version'' of JInt n \<Rightarrow> n = 1 | JBool b \<Rightarrow> b
                 | JFloat t \<Rightarrow> t = ''1.0'' | _ \<Rightarrow> False)
              \<and> jget binding ''algorithm'' = JStr ''Ed25519''
           then
             (let workload_id = strip (py_str repr (j_or (jget binding ''id'') (JStr [])));
                  public_key = strip (py_str repr (j_or (jget binding ''publicKey'') (JStr [])))
              in if workload_id \<noteq> [] \<and> public_key \<noteq> [] then (workload_id, public_key)
                 else ([], []))
           else ([], []))
      | _ \<Rightarrow> ([], []))"

section \<open>Lemmas\<close>

lemma issue_Inr_iff:
  "issue hash now handle new_id r s = Inr (t, h, c) \<longleftrightarrow>
     ir_principal_id r \<noteq> [] \<and> ir_agent_id r \<noteq> [] \<and>
     60 \<le> ir_ttl_seconds r \<and> ir_ttl_seconds r \<le> 900 \<and> h = handle \<and> t = put_delegation c s \<and>
     c = \<lparr>dc_handle_hash = hash handle, dc_principal_id = ir_principal_id r,
          dc_agent_id = ir_agent_id r, dc_invocation_id = new_id,
          dc_workload_id = ir_workload_id r, dc_created_at = now,
          dc_expires_at = now + ir_ttl_seconds r,
          dc_allowed_asset_ids = fromkeys (stripped_nonempty (ir_allowed_asset_ids r)),
          dc_principal_groups = fromkeys (stripped_nonempty (ir_principal_groups r)),
          dc_principal_email = strip (ir_principal_email r), dc_revoked_at = None\<rparr>"
  by (auto simp: issue_def Let_def)

lemma get_delegation_put [simp]:
  "get_delegation (put_delegation c s) h =
     (if h = dc_handle_hash c then Inr c else get_delegation s h)"
  by (simp add: get_delegation_def delegation_rows.get_put)

lemma get_delegation_revoke:
  assumes "\<And>h c. get_delegation s h = Inr c \<Longrightarrow> dc_handle_hash c = h"
  shows "get_delegation (revoke hash now handle s) h =
    (case get_delegation s h of
       Inl e \<Rightarrow> Inl e
     | Inr c \<Rightarrow> Inr (if h = hash handle then c\<lparr>dc_revoked_at := Some now\<rparr> else c))"
  using assms by (auto simp: revoke_def split: sum.splits)

text \<open>Every stored delegation sits under the hash it carries.\<close>

definition delegations_keyed :: "identity_store \<Rightarrow> bool" where
  "delegations_keyed s \<longleftrightarrow> keyed_by dc_handle_hash (st_delegations s)"

lemma delegations_keyedD:
  "delegations_keyed s \<Longrightarrow> get_delegation s h = Inr c \<Longrightarrow> dc_handle_hash c = h"
  unfolding delegations_keyed_def get_delegation_def
  by (auto dest: keyed_by_get)

lemma delegations_keyed_put [inv_intros]:
  "delegations_keyed s \<Longrightarrow> delegations_keyed (put_delegation c s)"
  by (simp add: delegations_keyed_def put_delegation_def keyed_by_dput)

lemma delegations_keyed_revoke [inv_intros]:
  "delegations_keyed s \<Longrightarrow> delegations_keyed (revoke hash now handle s)"
  by (auto simp: revoke_def inv_intros split: sum.splits)

section \<open>Properties\<close>

text \<open>An issued handle is good for exactly its agent, its workload and its lifetime. The
  lifetime is between one and fifteen minutes; until it ends the handle validates to the
  issued context for the issued agent and workload, and validation is refused for any other
  agent or workload and from the expiry second on.\<close>

theorem issued_handle_validates_exactly:
  assumes "issue hash now handle new_id r s = Inr (t, h, c)" "h \<noteq> []"
  shows "validate hash later h agent workload t =
      (if agent = ir_agent_id r \<and> workload = ir_workload_id r \<and> later < now + ir_ttl_seconds r
       then Inr c else Inl DelegationError)
    \<and> now + 60 \<le> dc_expires_at c \<and> dc_expires_at c \<le> now + 900"
  using assms by (auto simp: issue_Inr_iff validate_def)

definition sample_issue :: issue_request where
  "sample_issue = \<lparr>ir_principal_id = ''p'', ir_agent_id = ''agent'', ir_workload_id = [],
     ir_allowed_asset_ids = ['' mcp-1 '', ''mcp-1''], ir_principal_groups = [''user''],
     ir_principal_email = ''p@x'', ir_ttl_seconds = 900\<rparr>"

theorem issued_handle_validates_exactly_witness:
  "\<exists>t c. issue id 100 ''h'' ''i'' sample_issue empty_store = Inr (t, ''h'', c) \<and>
     validate id 999 ''h'' ''agent'' [] t = Inr c \<and>
     validate id 1000 ''h'' ''agent'' [] t = Inl DelegationError"
proof -
  obtain t c where i: "issue id 100 ''h'' ''i'' sample_issue empty_store = Inr (t, ''h'', c)"
    by (simp add: issue_def sample_issue_def Let_def)
  from issued_handle_validates_exactly [OF i, of 999 "''agent''" "[]"]
    issued_handle_validates_exactly [OF i, of 1000 "''agent''" "[]"] i
  show ?thesis by (auto simp: sample_issue_def)
qed

text \<open>Revocation is immediate and final for the handle, and touches no other. After
  \<open>revoke\<close> the handle never validates again, at any time and for any agent, while a handle
  with a different hash validates as before.\<close>

theorem revoked_handle_never_validates:
  assumes "delegations_keyed s"
  shows "validate hash later handle agent workload (revoke hash now handle s) = Inl DelegationError
    \<and> (hash handle' \<noteq> hash handle \<longrightarrow>
        validate hash later handle' agent workload (revoke hash now handle s) =
        validate hash later handle' agent workload s)"
proof -
  have g: "get_delegation (revoke hash now handle s) h =
      (case get_delegation s h of
         Inl e \<Rightarrow> Inl e
       | Inr c \<Rightarrow> Inr (if h = hash handle then c\<lparr>dc_revoked_at := Some now\<rparr> else c))" for h
    by (rule get_delegation_revoke) (rule delegations_keyedD [OF assms])
  have "get_delegation (revoke hash now handle s) (hash handle') =
      get_delegation s (hash handle')" if "hash handle' \<noteq> hash handle"
    using that by (cases "get_delegation s (hash handle')") (simp_all add: g)
  moreover have "validate hash later handle agent workload (revoke hash now handle s) =
      Inl DelegationError"
    by (cases "get_delegation s (hash handle)") (simp_all add: validate_def g)
  ultimately show ?thesis by (simp add: validate_def)
qed

theorem revoked_handle_never_validates_witness:
  "\<exists>t c. issue id 100 ''h'' ''i'' sample_issue empty_store = Inr (t, ''h'', c) \<and>
     validate id 101 ''h'' ''agent'' [] t = Inr c \<and>
     validate id 101 ''h'' ''agent'' [] (revoke id 100 ''h'' t) = Inl DelegationError"
proof -
  obtain t c where i: "issue id 100 ''h'' ''i'' sample_issue empty_store = Inr (t, ''h'', c)"
    by (simp add: issue_def sample_issue_def Let_def)
  have "delegations_keyed empty_store" by (simp add: delegations_keyed_def empty_store_def)
  with i have "delegations_keyed t" by (auto simp: issue_Inr_iff inv_intros)
  from revoked_handle_never_validates [OF this, of id 101 "''h''" "''agent''" "[]" 100] i
  show ?thesis by (auto simp: issue_Inr_iff validate_def sample_issue_def)
qed

end
