(* ===== verification/Sample_Ledger.thy ===== *)
theory Sample_Ledger
  imports Agent_Ledger Delegation
begin

text \<open>
  One small ledger that the witnesses of several theories evaluate: agent \<open>bot\<close> with an
  ACTIVE client, one approved and allowed tool row on asset \<open>mcp\<close> at its current version, a
  personal grant of \<open>ann\<close> that expires at second 500, and a delegation of \<open>ann\<close> to the agent.
\<close>

definition sample_binding :: agent_tool_binding where
  "sample_binding = \<lparr>atb_agent_record_id = ''bot'', atb_asset_id = ''mcp'',
     atb_asset_version = ''1'', atb_operation_id = ''read'', atb_gateway_id = ''gw'',
     atb_gateway_target_name = ''t'', atb_gateway_action = ''t___read'',
     atb_approval_state = Approval_APPROVED, atb_desired_state = Desired_ALLOWED,
     atb_effective_state = Effective_ACTIVE, atb_policy_revision = 1,
     atb_created_by = ''ann'', atb_updated_by = ''adm'', atb_approved_by = Some ''adm'',
     atb_approved_at = Some ''t1'', atb_sensitivity = ''read'',
     atb_request_justification = []\<rparr>"

definition sample_identity :: agent_identity_binding where
  "sample_identity = \<lparr>aib_agent_record_id = ''bot'', aib_identity_type = OAUTH_CLIENT,
     aib_status = Identity_ACTIVE, aib_workload_identity_name = [], aib_runtime_role_arn = [],
     aib_external_source_role_arn = [], aib_gateway_role_arn = [],
     aib_policy_principal_id = [], aib_client_id = ''client'', aib_verified_at = []\<rparr>"

definition sample_version :: asset_version_record where
  "sample_version = \<lparr>av_asset_id = ''mcp'', av_asset_version = ''1'', av_record_id = ''rec'',
     av_updated_at = ''t0'', av_updated_by = ''adm'', av_source = ''register''\<rparr>"

definition sample_grant :: access_grant where
  "sample_grant = \<lparr>ag_grant_id = ''g1'', ag_principal_id = ''ann'', ag_status = Grant_ACTIVE,
     ag_version = 1, ag_granted_by = ''adm'', ag_created_at = ''t0'', ag_updated_at = ''t0'',
     ag_expires_at = Some 500, ag_subject_group = [], ag_asset_id = ''mcp'',
     ag_operation_id = ''read'', ag_asset_version = [], ag_connection_id = [],
     ag_capabilities = []\<rparr>"

definition sample_context :: delegation_context where
  "sample_context = \<lparr>dc_handle_hash = ''h'', dc_principal_id = ''ann'', dc_agent_id = ''bot'',
     dc_invocation_id = ''inv'', dc_workload_id = [], dc_created_at = 100,
     dc_expires_at = 1000, dc_allowed_asset_ids = [''mcp''], dc_principal_groups = [''user''],
     dc_principal_email = ''ann@x'', dc_revoked_at = None\<rparr>"

definition sample_store :: identity_store where
  "sample_store = empty_store\<lparr>
     st_agent_tool_bindings := [((''bot'', ''mcp'', ''1'', ''read''), sample_binding)],
     st_agent_identity_bindings := [(''bot'', sample_identity)],
     st_agent_client_claims := [(''client'', ''bot'')],
     st_asset_versions := [(''mcp'', sample_version)],
     st_grants := [((''PRINCIPAL#ann'', ''GRANT#mcp#read''), sample_grant)],
     st_delegations := [(''h'', sample_context)]\<rparr>"

lemma strip_sample [simp]:
  "strip ''mcp'' = ''mcp''" "strip ''read'' = ''read''" "strip ''user'' = ''user''"
  "strip ''ann'' = ''ann''" "strip ''h'' = ''h''"
  by (simp_all add: strip_def is_space_def)

lemma sample_bindings_wf [simp]: "bindings_wf sample_store"
  by (simp add: bindings_wf_def wf_dict_def keyed_by_def sample_store_def sample_binding_def
      binding_key_def)

lemma sample_gets [simp]:
  "get_delegation sample_store ''h'' = Inr sample_context"
  "get_agent_identity_binding sample_store ''bot'' = Inr sample_identity"
  "get_asset_version sample_store ''mcp'' = Inr sample_version"
  "get_tool_grant sample_store ''mcp'' ''read'' ''ann'' [] = Inr sample_grant"
  "list_agent_tool_bindings sample_store ''bot'' = [sample_binding]"
  by (simp_all add: sample_store_def get_delegation_def get_agent_identity_binding_def
      get_asset_version_def get_tool_grant_def grant_key_def list_agent_tool_bindings_def)

end
