(* ===== verification/Gateway_Interceptor.thy ===== *)
theory Gateway_Interceptor
  imports Sample_Ledger
begin

text \<open>
  The Gateway REQUEST interceptor (\<open>identity/gateway_interceptor.py\<close> and the Lambda entry
  \<open>gateway_request_interceptor.py\<close>): it authenticates the caller of one MCP request from the
  identity ledger, authorizes \<open>tools/call\<close> against layers 4 and 7, and rewrites the body.
  The clock reading of the request, the configured human client ids, SHA-256 and the decoder
  of a JWT payload (base64url, then JSON; \<open>None\<close> when either fails) are the environment.
  Denial message texts are a parameter (they are Korean prose).
\<close>

section \<open>Denials\<close>

datatype gateway_denial_reason =
    Deny_invalid_request
  | Deny_invalid_delegation
  | Deny_agent_mismatch
  | Deny_principal_mismatch
  | Deny_human_route_unconfigured
  | Deny_method_not_allowed
  | Deny_tool_not_approved
  | Deny_tool_pending_approval
  | Deny_human_grant_missing
  | Deny_owner_identity_missing

fun denial_value :: "gateway_denial_reason \<Rightarrow> string" where
  "denial_value Deny_invalid_request = ''invalid_request''"
| "denial_value Deny_invalid_delegation = ''invalid_delegation''"
| "denial_value Deny_agent_mismatch = ''agent_mismatch''"
| "denial_value Deny_principal_mismatch = ''principal_mismatch''"
| "denial_value Deny_human_route_unconfigured = ''human_route_unconfigured''"
| "denial_value Deny_method_not_allowed = ''method_not_allowed''"
| "denial_value Deny_tool_not_approved = ''tool_not_approved''"
| "denial_value Deny_tool_pending_approval = ''tool_pending_approval''"
| "denial_value Deny_human_grant_missing = ''human_grant_missing''"
| "denial_value Deny_owner_identity_missing = ''owner_identity_missing''"

text \<open>A raised \<open>GatewayRequestDenied\<close>, or any other exception (of the ledger).\<close>

datatype interceptor_error = Denied gateway_denial_reason | Crashed

section \<open>Reading the request\<close>

record interceptor_env =
  ie_now :: int
  ie_human_client_ids :: string
  ie_hash :: "string \<Rightarrow> string"
  ie_decode :: "string \<Rightarrow> json option"

definition OWNER_ARGUMENT :: string where
  "OWNER_ARGUMENT = ''agora_user_id''"

definition PASSTHROUGH_METHODS :: "string list" where
  "PASSTHROUGH_METHODS = [''initialize'', ''ping'', ''tools/list'']"

definition ALLOWED_META_KEYS :: "string list" where
  "ALLOWED_META_KEYS = [''progressToken'']"

definition GATEWAY_META_PREFIX :: string where
  "GATEWAY_META_PREFIX = ''aws.bedrock-agentcore.gateway/''"

definition header_of :: "json \<Rightarrow> string \<Rightarrow> string" where
  "header_of headers name =
     (case as_obj headers of
        None \<Rightarrow> []
      | Some kvs \<Rightarrow>
          (case find (\<lambda>(k, v). casefold k = casefold name \<and> as_str v \<noteq> None) kvs of
             Some (_, JStr v) \<Rightarrow> strip v
           | _ \<Rightarrow> []))"

record bearer_claims =
  bc_client_id :: string
  bc_sub :: string
  bc_token_use :: string

definition stripped_str :: "json \<Rightarrow> string" where
  "stripped_str j = (case j of JStr s \<Rightarrow> strip s | _ \<Rightarrow> [])"

definition pad_base64 :: "string \<Rightarrow> string" where
  "pad_base64 p = p @ replicate (nat ((- int (length p)) mod 4)) (CHR ''='')"

definition read_bearer_claims ::
  "interceptor_env \<Rightarrow> json \<Rightarrow> interceptor_error + bearer_claims" where
  "read_bearer_claims env headers =
     (case partition_at (CHR '' '') (header_of headers ''authorization'') of
        (scheme, separator, token) \<Rightarrow>
          if \<not> separator \<or> casefold scheme \<noteq> ''bearer'' then Inl (Denied Deny_agent_mismatch)
          else
            (case split_on (CHR ''.'') token of
               [_, part, _] \<Rightarrow>
                 (case ie_decode env (pad_base64 part) of
                    Some (JObj payload) \<Rightarrow>
                      (let client_id = stripped_str (jget payload ''client_id'') in
                       if client_id = [] then Inl (Denied Deny_agent_mismatch)
                       else Inr \<lparr>bc_client_id = client_id,
                                 bc_sub = stripped_str (jget payload ''sub''),
                                 bc_token_use = stripped_str (jget payload ''token_use'')\<rparr>)
                  | _ \<Rightarrow> Inl (Denied Deny_agent_mismatch))
             | _ \<Rightarrow> Inl (Denied Deny_agent_mismatch)))"

definition human_client_ids :: "interceptor_env \<Rightarrow> string list" where
  "human_client_ids env = stripped_nonempty (split_on (CHR '','') (ie_human_client_ids env))"

definition sanitize_request_metadata :: "(string \<times> json) list \<Rightarrow> (string \<times> json) list" where
  "sanitize_request_metadata body =
     (case jget body ''params'' of
        JObj params \<Rightarrow>
          (case map_of params ''_meta'' of
             None \<Rightarrow> body
           | Some metadata \<Rightarrow>
               (let sanitized =
                  (case metadata of
                     JObj entries \<Rightarrow>
                       filter (\<lambda>(k, _). \<not> prefix GATEWAY_META_PREFIX k \<and> k \<in> set ALLOWED_META_KEYS)
                         entries
                   | _ \<Rightarrow> [])
                in dput ''params''
                     (JObj (if sanitized \<noteq> [] then dput ''_meta'' (JObj sanitized) params
                            else ddel ''_meta'' params))
                     body))
      | _ \<Rightarrow> body)"

section \<open>Authenticating the caller\<close>

definition human_shaped :: "bearer_claims \<Rightarrow> bool" where
  "human_shaped cl \<longleftrightarrow> bc_sub cl \<noteq> [] \<and> bc_sub cl \<noteq> bc_client_id cl"

definition is_human :: "interceptor_env \<Rightarrow> bearer_claims \<Rightarrow> bool" where
  "is_human env cl \<longleftrightarrow> human_shaped cl \<and> bc_client_id cl \<in> set (human_client_ids env)"

definition validate_call ::
  "interceptor_env \<Rightarrow> identity_store \<Rightarrow> json \<Rightarrow> interceptor_error + delegation_context \<times> string"
  where
  "validate_call env s headers =
     (let handle = header_of headers ''x-agora-call'' in
      if handle = [] then Inl (Denied Deny_invalid_delegation)
      else case get_delegation s (ie_hash env handle) of
        Inl _ \<Rightarrow> Inl (Denied Deny_invalid_delegation)
      | Inr context \<Rightarrow>
          if dc_revoked_at context \<noteq> None \<or> dc_expires_at context \<le> ie_now env
          then Inl (Denied Deny_invalid_delegation)
          else bind_res (read_bearer_claims env headers) (\<lambda>claims.
            if human_shaped claims \<and> human_client_ids env = []
            then Inl (Denied Deny_human_route_unconfigured)
            else case get_agent_identity_binding s (dc_agent_id context) of
              Inl _ \<Rightarrow> Inl (Denied Deny_agent_mismatch)
            | Inr identity \<Rightarrow>
                if aib_status identity \<noteq> Identity_ACTIVE \<or> aib_client_id identity = []
                then Inl (Denied Deny_agent_mismatch)
                else if is_human env claims then
                  (if bc_token_use claims \<noteq> ''access'' \<or> bc_sub claims \<noteq> dc_principal_id context
                   then Inl (Denied Deny_principal_mismatch)
                   else Inr (context, bc_client_id claims))
                else if aib_client_id identity \<noteq> bc_client_id claims
                then Inl (Denied Deny_agent_mismatch)
                else Inr (context, bc_client_id claims)))"

section \<open>Layer 7: a grant of the person or of one of the groups\<close>

datatype grant_subject = Person string | Member string

fun lookup_tool_grant ::
  "identity_store \<Rightarrow> string \<Rightarrow> string \<Rightarrow> grant_subject \<Rightarrow> identity_error + access_grant" where
  "lookup_tool_grant s aid op (Person p) = get_tool_grant s aid op p []"
| "lookup_tool_grant s aid op (Member g) = get_tool_grant s aid op [] g"

definition live_grant :: "int \<Rightarrow> access_grant \<Rightarrow> bool" where
  "live_grant now g \<longleftrightarrow> ag_status g = Grant_ACTIVE \<and>
     (case ag_expires_at g of None \<Rightarrow> True | Some e \<Rightarrow> \<not> e \<le> now)"

fun any_live_grant ::
  "(grant_subject \<Rightarrow> identity_error + access_grant) \<Rightarrow> int \<Rightarrow> grant_subject list
     \<Rightarrow> identity_error + bool" where
  "any_live_grant lookup now [] = Inr False"
| "any_live_grant lookup now (x # xs) =
     (case lookup x of
        Inl RecordNotFound \<Rightarrow> any_live_grant lookup now xs
      | Inl e \<Rightarrow> Inl e
      | Inr g \<Rightarrow> if live_grant now g then Inr True else any_live_grant lookup now xs)"

definition grant_subjects :: "delegation_context \<Rightarrow> grant_subject list" where
  "grant_subjects c =
     Person (dc_principal_id c) # map Member (fromkeys (stripped_nonempty (dc_principal_groups c)))"

definition has_tool_grant ::
  "identity_store \<Rightarrow> int \<Rightarrow> delegation_context \<Rightarrow> agent_tool_binding \<Rightarrow> identity_error + bool" where
  "has_tool_grant s now c b =
     any_live_grant (lookup_tool_grant s (atb_asset_id b) (atb_operation_id b)) now
       (grant_subjects c)"

section \<open>Authorizing one tool call\<close>

definition candidate_bindings ::
  "identity_store \<Rightarrow> string \<Rightarrow> string \<Rightarrow> agent_tool_binding list" where
  "candidate_bindings s agent_id tool =
     filter (\<lambda>b. atb_gateway_action b = tool \<and> atb_desired_state b = Desired_ALLOWED)
       (list_agent_tool_bindings s agent_id)"

definition approved_bindings ::
  "identity_store \<Rightarrow> string \<Rightarrow> string \<Rightarrow> agent_tool_binding list" where
  "approved_bindings s agent_id tool =
     filter (\<lambda>b. atb_approval_state b = Approval_APPROVED) (candidate_bindings s agent_id tool)"

definition pending_bindings ::
  "identity_store \<Rightarrow> string \<Rightarrow> string \<Rightarrow> agent_tool_binding list" where
  "pending_bindings s agent_id tool =
     filter (\<lambda>b. atb_approval_state b = Approval_REQUESTED) (candidate_bindings s agent_id tool)"

definition resolve_binding ::
  "identity_store \<Rightarrow> string \<Rightarrow> string \<Rightarrow> gateway_denial_reason + agent_tool_binding" where
  "resolve_binding s agent_id tool =
     (case approved_bindings s agent_id tool of
        [b] \<Rightarrow> Inr b
      | approved \<Rightarrow>
          if approved = [] \<and> length (pending_bindings s agent_id tool) = 1
          then Inl Deny_tool_pending_approval
          else Inl Deny_tool_not_approved)"

definition rewrite_owner ::
  "delegation_context \<Rightarrow> (string \<times> json) list \<Rightarrow> gateway_denial_reason + (string \<times> json) list"
  where
  "rewrite_owner c arguments =
     (if map_of arguments OWNER_ARGUMENT \<noteq> None then
        (if dc_principal_email c = [] then Inl Deny_owner_identity_missing
         else Inr (dput OWNER_ARGUMENT (JStr (dc_principal_email c)) arguments))
      else Inr arguments)"

definition authorize_tool ::
  "interceptor_env \<Rightarrow> identity_store \<Rightarrow> (string \<times> json) list \<Rightarrow> delegation_context
     \<Rightarrow> interceptor_error + (string \<times> json) list" where
  "authorize_tool env s body c =
     (case jget body ''params'' of
        JObj params \<Rightarrow>
          (case (jget params ''name'', jget_or params ''arguments'' (JObj [])) of
             (JStr tool, JObj arguments) \<Rightarrow>
               if tool = [] then Inl (Denied Deny_invalid_request)
               else (case resolve_binding s (dc_agent_id c) tool of
                 Inl r \<Rightarrow> Inl (Denied r)
               | Inr b \<Rightarrow>
                   if atb_asset_id b \<notin> set (dc_allowed_asset_ids c)
                   then Inl (Denied Deny_tool_not_approved)
                   else (case get_asset_version s (atb_asset_id b) of
                     Inl _ \<Rightarrow> Inl (Denied Deny_tool_not_approved)
                   | Inr v \<Rightarrow>
                       if av_asset_version v \<noteq> atb_asset_version b
                       then Inl (Denied Deny_tool_not_approved)
                       else (case has_tool_grant s (ie_now env) c b of
                         Inl _ \<Rightarrow> Inl Crashed
                       | Inr False \<Rightarrow> Inl (Denied Deny_human_grant_missing)
                       | Inr True \<Rightarrow>
                           (case rewrite_owner c arguments of
                              Inl r \<Rightarrow> Inl (Denied r)
                            | Inr rewritten \<Rightarrow>
                                Inr (dput ''params''
                                       (JObj (dput ''arguments'' (JObj rewritten) params))
                                       body)))))
           | _ \<Rightarrow> Inl (Denied Deny_invalid_request))
      | _ \<Rightarrow> Inl (Denied Deny_invalid_request))"

definition authorize_and_transform ::
  "interceptor_env \<Rightarrow> identity_store \<Rightarrow> json \<Rightarrow> json \<Rightarrow> interceptor_error + (string \<times> json) list"
  where
  "authorize_and_transform env s body headers =
     (case body of
        JObj kvs \<Rightarrow>
          (case jget kvs ''method'' of
             JStr m \<Rightarrow>
               if m = [] then Inl (Denied Deny_invalid_request)
               else bind_res (validate_call env s headers) (\<lambda>(c, _).
                 bind_res
                   (if m = ''tools/call'' then authorize_tool env s kvs c
                    else if prefix ''prompts/'' m \<or> prefix ''resources/'' m
                    then Inl (Denied Deny_method_not_allowed)
                    else if prefix ''notifications/'' m \<or> m \<in> set PASSTHROUGH_METHODS
                    then Inr kvs
                    else Inl (Denied Deny_method_not_allowed))
                   (\<lambda>transformed. Inr (sanitize_request_metadata transformed)))
           | _ \<Rightarrow> Inl (Denied Deny_invalid_request))
      | _ \<Rightarrow> Inl (Denied Deny_invalid_request))"

section \<open>The Lambda entry\<close>

definition gateway_request_of :: "json \<Rightarrow> json" where
  "gateway_request_of event = sub_obj (sub_obj event ''mcp'') ''gatewayRequest''"

definition event_method :: "json \<Rightarrow> string" where
  "event_method event =
     (case sub_obj (sub_obj (gateway_request_of event) ''body'') ''method'' of
        JStr m \<Rightarrow> if m \<noteq> [] then m else ''unknown''
      | _ \<Rightarrow> ''unknown'')"

definition event_request :: "json \<Rightarrow> json \<times> json" where
  "event_request event =
     (if sub_obj event ''interceptorInputVersion'' \<noteq> JStr ''1.0'' then (JNull, JNull)
      else (sub_obj (gateway_request_of event) ''body'', sub_obj (gateway_request_of event) ''headers''))"

definition NOTIFICATION_NOOP :: "(string \<times> json) list" where
  "NOTIFICATION_NOOP =
     [(''jsonrpc'', JStr ''2.0''), (''method'', JStr ''notifications/initialized'')]"

definition pass_output :: "(string \<times> json) list \<Rightarrow> json" where
  "pass_output body =
     JObj [(''interceptorOutputVersion'', JStr ''1.0''),
           (''mcp'', JObj [(''transformedGatewayRequest'', JObj [(''body'', JObj body)])])]"

definition deny_output ::
  "(gateway_denial_reason \<Rightarrow> string) \<Rightarrow> json \<Rightarrow> gateway_denial_reason \<Rightarrow> json" where
  "deny_output message body reason =
     JObj [(''interceptorOutputVersion'', JStr ''1.0''),
           (''mcp'', JObj [(''transformedGatewayResponse'', JObj
              [(''statusCode'', JInt 200),
               (''body'', JObj
                  [(''jsonrpc'', JStr ''2.0''),
                   (''id'', sub_obj body ''id''),
                   (''error'', JObj
                      [(''code'', JInt (- 32001)),
                       (''message'', JStr (message reason)),
                       (''data'', JObj [(''reason'', JStr (denial_value reason))])])])])])]"

text \<open>The Lambda's answer; \<open>Inl\<close> is the raised \<open>InterceptorUnavailable\<close>.\<close>

definition process_event ::
  "(gateway_denial_reason \<Rightarrow> string) \<Rightarrow> interceptor_env \<Rightarrow> identity_store \<Rightarrow> json
     \<Rightarrow> unit + json" where
  "process_event message env s event =
     (case event_request event of
        (body, headers) \<Rightarrow>
          (case authorize_and_transform env s body headers of
             Inr transformed \<Rightarrow> Inr (pass_output transformed)
           | Inl Crashed \<Rightarrow> Inl ()
           | Inl (Denied reason) \<Rightarrow>
               if prefix ''notifications/'' (event_method event)
               then Inr (pass_output NOTIFICATION_NOOP)
               else Inr (deny_output message body reason)))"

section \<open>Layer 4 lemmas\<close>

text \<open>What it takes for a ledger row to open a tool: stored, allowed and approved.\<close>

definition opens_tool :: "identity_store \<Rightarrow> string \<Rightarrow> string \<Rightarrow> agent_tool_binding \<Rightarrow> bool" where
  "opens_tool s agent_id tool b \<longleftrightarrow>
     stored_binding s b \<and> atb_agent_record_id b = agent_id \<and> atb_gateway_action b = tool \<and>
     atb_desired_state b = Desired_ALLOWED \<and> atb_approval_state b = Approval_APPROVED"

definition awaits_approval ::
  "identity_store \<Rightarrow> string \<Rightarrow> string \<Rightarrow> agent_tool_binding \<Rightarrow> bool" where
  "awaits_approval s agent_id tool b \<longleftrightarrow>
     stored_binding s b \<and> atb_agent_record_id b = agent_id \<and> atb_gateway_action b = tool \<and>
     atb_desired_state b = Desired_ALLOWED \<and> atb_approval_state b = Approval_REQUESTED"

lemma approved_bindings_mem:
  "bindings_wf s \<Longrightarrow> b \<in> set (approved_bindings s a tool) \<longleftrightarrow> opens_tool s a tool b"
  by (auto simp: approved_bindings_def candidate_bindings_def opens_tool_def
      list_agent_tool_bindings_mem)

lemma pending_bindings_mem:
  "bindings_wf s \<Longrightarrow> b \<in> set (pending_bindings s a tool) \<longleftrightarrow> awaits_approval s a tool b"
  by (auto simp: pending_bindings_def candidate_bindings_def awaits_approval_def
      list_agent_tool_bindings_mem)

lemma distinct_approved_bindings [simp]: "bindings_wf s \<Longrightarrow> distinct (approved_bindings s a tool)"
  by (simp add: approved_bindings_def candidate_bindings_def distinct_list_agent_tool_bindings)

lemma distinct_pending_bindings [simp]: "bindings_wf s \<Longrightarrow> distinct (pending_bindings s a tool)"
  by (simp add: pending_bindings_def candidate_bindings_def distinct_list_agent_tool_bindings)

lemma distinct_singleton_iff: "distinct xs \<Longrightarrow> xs = [x] \<longleftrightarrow> set xs = {x}"
  by (metis distinct.simps(2) empty_iff insertI1 list.exhaust list.set(1) list.set(2)
      set_empty2 singletonD subset_singletonD subset_insertI)

lemma approved_singleton_iff:
  assumes "bindings_wf s"
  shows "approved_bindings s a tool = [b] \<longleftrightarrow> {x. opens_tool s a tool x} = {b}"
  using distinct_singleton_iff [OF distinct_approved_bindings [OF assms]]
    approved_bindings_mem [OF assms, of _ a tool] by auto

lemma pending_singleton_iff:
  assumes "bindings_wf s"
  shows "length (pending_bindings s a tool) = 1 \<longleftrightarrow> (\<exists>b. {x. awaits_approval s a tool x} = {b})"
proof -
  have "{x. awaits_approval s a tool x} = set (pending_bindings s a tool)"
    using pending_bindings_mem [OF assms] by auto
  then show ?thesis
    using distinct_singleton_iff [OF distinct_pending_bindings [OF assms]]
    by (metis One_nat_def length_0_conv length_Suc_conv)
qed

lemma resolve_binding_Inr_iff:
  "resolve_binding s a tool = Inr b \<longleftrightarrow> approved_bindings s a tool = [b]"
  by (auto simp: resolve_binding_def split: list.splits)

lemma resolve_binding_pending_iff:
  "resolve_binding s a tool = Inl Deny_tool_pending_approval \<longleftrightarrow>
     approved_bindings s a tool = [] \<and> length (pending_bindings s a tool) = 1"
  by (auto simp: resolve_binding_def split: list.splits)

lemma resolve_binding_reasons:
  "resolve_binding s a tool = Inl r \<Longrightarrow>
     r = Deny_tool_pending_approval \<or> r = Deny_tool_not_approved"
  by (auto simp: resolve_binding_def split: list.splits if_splits)

section \<open>Layer 7 lemmas\<close>

text \<open>
  What the interceptor needs of the ledger: a lookup for a well addressed tool either finds a
  row or reports a missing one; for an ill addressed tool it raises.
\<close>

locale grant_ledger =
  fixes lookup :: "'s \<Rightarrow> 'tool \<Rightarrow> grant_subject \<Rightarrow> identity_error + access_grant"
    and addressed :: "'tool \<Rightarrow> bool"
  assumes lookup_addressed: "addressed t \<Longrightarrow> lookup s t x = Inl e \<Longrightarrow> e = RecordNotFound"
    and lookup_unaddressed: "\<not> addressed t \<Longrightarrow> lookup s t x = Inl InvalidValue"
begin

lemma any_live_addressed:
  "addressed t \<Longrightarrow>
     any_live_grant (lookup s t) now xs =
       Inr (\<exists>x \<in> set xs. \<exists>g. lookup s t x = Inr g \<and> live_grant now g)"
  by (induction xs)
    (auto dest: lookup_addressed split: sum.splits identity_error.splits)

lemma any_live_unaddressed:
  "\<not> addressed t \<Longrightarrow> any_live_grant (lookup s t) now (x # xs) = Inl InvalidValue"
  by (simp add: lookup_unaddressed)

lemma any_live_iff:
  "any_live_grant (lookup s t) now (x # xs) = Inr True \<longleftrightarrow>
     (\<exists>y \<in> set (x # xs). \<exists>g. lookup s t y = Inr g \<and> live_grant now g)"
  by (cases "addressed t")
    (auto simp: any_live_addressed any_live_unaddressed lookup_unaddressed
      simp del: any_live_grant.simps)

lemma any_live_missing_iff:
  "any_live_grant (lookup s t) now (x # xs) = Inr False \<longleftrightarrow>
     addressed t \<and> (\<forall>y \<in> set (x # xs). \<forall>g. lookup s t y = Inr g \<longrightarrow> \<not> live_grant now g)"
  by (cases "addressed t")
    (auto simp: any_live_addressed any_live_unaddressed simp del: any_live_grant.simps)

end

interpretation tool_grants: grant_ledger
  "\<lambda>s (a, op). lookup_tool_grant s a op" "\<lambda>(a, op). strip a \<noteq> [] \<and> strip op \<noteq> []"
proof
  fix t :: "string \<times> string" and s x e
  obtain a op where t: "t = (a, op)" by (cases t)
  show "(case t of (a, op) \<Rightarrow> strip a \<noteq> [] \<and> strip op \<noteq> []) \<Longrightarrow>
      (case t of (a, op) \<Rightarrow> lookup_tool_grant s a op) x = Inl e \<Longrightarrow> e = RecordNotFound"
    by (cases x) (auto simp: t get_tool_grant_def bind_res_Inl_iff grant_key_Inl_iff)
  show "\<not> (case t of (a, op) \<Rightarrow> strip a \<noteq> [] \<and> strip op \<noteq> []) \<Longrightarrow>
      (case t of (a, op) \<Rightarrow> lookup_tool_grant s a op) x = Inl InvalidValue"
    by (cases x) (auto simp: t get_tool_grant_def bind_res_Inl_iff grant_key_Inl_iff)
qed

text \<open>Some subject of the delegation holds a live grant for exactly the tool of the row.\<close>

definition holds_grant ::
  "identity_store \<Rightarrow> int \<Rightarrow> delegation_context \<Rightarrow> agent_tool_binding \<Rightarrow> bool" where
  "holds_grant s now c b \<longleftrightarrow>
     (\<exists>x \<in> set (grant_subjects c). \<exists>g.
        lookup_tool_grant s (atb_asset_id b) (atb_operation_id b) x = Inr g \<and> live_grant now g)"

lemma has_tool_grant_iff: "has_tool_grant s now c b = Inr True \<longleftrightarrow> holds_grant s now c b"
  using tool_grants.any_live_iff [of s "(atb_asset_id b, atb_operation_id b)"]
  by (simp add: has_tool_grant_def holds_grant_def grant_subjects_def del: any_live_grant.simps)

lemma holds_grant_person_or_group:
  "holds_grant s now c b \<longleftrightarrow>
     (\<exists>g. get_tool_grant s (atb_asset_id b) (atb_operation_id b) (dc_principal_id c) [] = Inr g
        \<and> live_grant now g)
   \<or> (\<exists>grp \<in> set (dc_principal_groups c). strip grp \<noteq> [] \<and>
        (\<exists>g. get_tool_grant s (atb_asset_id b) (atb_operation_id b) [] grp = Inr g
           \<and> live_grant now g))"
proof -
  have same: "get_tool_grant s a op [] (strip grp) = get_tool_grant s a op [] grp" for a op grp
    by (simp add: get_tool_grant_def grant_key_def Let_def)
  have "holds_grant s now c b \<longleftrightarrow>
     (\<exists>g. get_tool_grant s (atb_asset_id b) (atb_operation_id b) (dc_principal_id c) [] = Inr g
        \<and> live_grant now g)
   \<or> (\<exists>grp \<in> set (stripped_nonempty (dc_principal_groups c)).
        (\<exists>g. get_tool_grant s (atb_asset_id b) (atb_operation_id b) [] grp = Inr g
           \<and> live_grant now g))"
    by (simp add: holds_grant_def grant_subjects_def)
  also have "(\<exists>grp \<in> set (stripped_nonempty (dc_principal_groups c)).
        (\<exists>g. get_tool_grant s (atb_asset_id b) (atb_operation_id b) [] grp = Inr g
           \<and> live_grant now g)) \<longleftrightarrow>
     (\<exists>grp \<in> set (dc_principal_groups c). strip grp \<noteq> [] \<and>
        (\<exists>g. get_tool_grant s (atb_asset_id b) (atb_operation_id b) [] grp = Inr g
           \<and> live_grant now g))"
    by (simp add: bex_stripped_nonempty same)
  finally show ?thesis .
qed


section \<open>The stages of one request\<close>

lemma bool_sum_case: "(case b of True \<Rightarrow> x | False \<Rightarrow> y) = (if b then x else y)"
  by (cases b) simp_all

lemma validate_call_Inr_iff:
  "validate_call env s headers = Inr (c, client) \<longleftrightarrow>
     (\<exists>claims identity.
        header_of headers ''x-agora-call'' \<noteq> [] \<and>
        get_delegation s (ie_hash env (header_of headers ''x-agora-call'')) = Inr c \<and>
        dc_revoked_at c = None \<and> ie_now env < dc_expires_at c \<and>
        read_bearer_claims env headers = Inr claims \<and> bc_client_id claims = client \<and>
        (human_shaped claims \<longrightarrow> human_client_ids env \<noteq> []) \<and>
        get_agent_identity_binding s (dc_agent_id c) = Inr identity \<and>
        aib_status identity = Identity_ACTIVE \<and> aib_client_id identity \<noteq> [] \<and>
        (if is_human env claims
         then bc_token_use claims = ''access'' \<and> bc_sub claims = dc_principal_id c
         else aib_client_id identity = client))"
proof (cases "get_delegation s (ie_hash env (header_of headers ''x-agora-call''))")
  case (Inr d)
  show ?thesis
  proof (cases "read_bearer_claims env headers")
    case claims: (Inr claims)
    show ?thesis
      by (cases "get_agent_identity_binding s (dc_agent_id d)")
        (auto simp: validate_call_def Let_def Inr claims not_le)
  qed (auto simp: validate_call_def Let_def Inr)
qed (auto simp: validate_call_def Let_def)

definition requested_tool ::
  "(string \<times> json) list \<Rightarrow> ((string \<times> json) list \<times> string \<times> (string \<times> json) list) option" where
  "requested_tool kvs =
     (case jget kvs ''params'' of
        JObj params \<Rightarrow>
          (case (jget params ''name'', jget_or params ''arguments'' (JObj [])) of
             (JStr tool, JObj arguments) \<Rightarrow>
               if tool = [] then None else Some (params, tool, arguments)
           | _ \<Rightarrow> None)
      | _ \<Rightarrow> None)"

definition rewritten_body ::
  "(string \<times> json) list \<Rightarrow> (string \<times> json) list \<Rightarrow> (string \<times> json) list \<Rightarrow> (string \<times> json) list"
  where
  "rewritten_body kvs params rewritten =
     dput ''params'' (JObj (dput ''arguments'' (JObj rewritten) params)) kvs"

text \<open>\<open>_authorize_tool\<close> after the request is read: layer 4, the asset boundary, the version.\<close>

definition layer4 ::
  "identity_store \<Rightarrow> delegation_context \<Rightarrow> string \<Rightarrow> gateway_denial_reason + agent_tool_binding"
  where
  "layer4 s c tool =
     bind_res (resolve_binding s (dc_agent_id c) tool) (\<lambda>b.
       if atb_asset_id b \<notin> set (dc_allowed_asset_ids c) then Inl Deny_tool_not_approved
       else case get_asset_version s (atb_asset_id b) of
         Inl _ \<Rightarrow> Inl Deny_tool_not_approved
       | Inr v \<Rightarrow> if av_asset_version v \<noteq> atb_asset_version b then Inl Deny_tool_not_approved
                  else Inr b)"

lemma authorize_tool_stages:
  "authorize_tool env s kvs c =
     (case requested_tool kvs of
        None \<Rightarrow> Inl (Denied Deny_invalid_request)
      | Some (params, tool, arguments) \<Rightarrow>
          (case layer4 s c tool of
             Inl r \<Rightarrow> Inl (Denied r)
           | Inr b \<Rightarrow>
               (case has_tool_grant s (ie_now env) c b of
                  Inl _ \<Rightarrow> Inl Crashed
                | Inr ok \<Rightarrow>
                    if \<not> ok then Inl (Denied Deny_human_grant_missing)
                    else (case rewrite_owner c arguments of
                            Inl r \<Rightarrow> Inl (Denied r)
                          | Inr rewritten \<Rightarrow> Inr (rewritten_body kvs params rewritten)))))"
proof (cases "requested_tool kvs")
  case None
  then show ?thesis
    by (auto simp: authorize_tool_def requested_tool_def split: json.splits if_splits)
next
  case (Some p)
  obtain params tool arguments where p: "p = (params, tool, arguments)" by (cases p)
  with Some have "jget kvs ''params'' = JObj params" "jget params ''name'' = JStr tool"
    "tool \<noteq> []" "jget_or params ''arguments'' (JObj []) = JObj arguments"
    by (auto simp: requested_tool_def split: json.splits if_splits)
  with Some show ?thesis
    by (simp add: p authorize_tool_def layer4_def rewritten_body_def bool_sum_case
        split: sum.split)
qed

lemma layer4_Inr_iff:
  assumes "bindings_wf s"
  shows "layer4 s c tool = Inr b \<longleftrightarrow>
     {x. opens_tool s (dc_agent_id c) tool x} = {b} \<and>
     atb_asset_id b \<in> set (dc_allowed_asset_ids c) \<and>
     (\<exists>v. get_asset_version s (atb_asset_id b) = Inr v \<and> av_asset_version v = atb_asset_version b)"
proof -
  have "(if atb_asset_id x \<notin> set (dc_allowed_asset_ids c) then Inl Deny_tool_not_approved
       else case get_asset_version s (atb_asset_id x) of
         Inl _ \<Rightarrow> Inl Deny_tool_not_approved
       | Inr v \<Rightarrow> if av_asset_version v \<noteq> atb_asset_version x then Inl Deny_tool_not_approved
                  else Inr x) = Inr b \<longleftrightarrow>
     x = b \<and> atb_asset_id b \<in> set (dc_allowed_asset_ids c) \<and>
     (\<exists>v. get_asset_version s (atb_asset_id b) = Inr v \<and> av_asset_version v = atb_asset_version b)"
    for x
    by (auto split: sum.splits)
  then show ?thesis
    unfolding layer4_def bind_res_Inr_iff resolve_binding_Inr_iff approved_singleton_iff [OF assms]
    by auto
qed

lemma layer4_reasons:
  "layer4 s c tool = Inl r \<Longrightarrow> r = Deny_tool_pending_approval \<or> r = Deny_tool_not_approved"
proof (cases "resolve_binding s (dc_agent_id c) tool")
  case (Inr b)
  then show "layer4 s c tool = Inl r \<Longrightarrow> ?thesis"
    by (cases "get_asset_version s (atb_asset_id b)") (auto simp: layer4_def split: if_splits)
qed (auto simp: layer4_def dest: resolve_binding_reasons)

lemma rewrite_owner_Inr_iff:
  "rewrite_owner c arguments = Inr rewritten \<longleftrightarrow>
     (map_of arguments OWNER_ARGUMENT \<noteq> None \<longrightarrow> dc_principal_email c \<noteq> []) \<and>
     rewritten = (if map_of arguments OWNER_ARGUMENT = None then arguments
                  else dput OWNER_ARGUMENT (JStr (dc_principal_email c)) arguments)"
  by (auto simp: rewrite_owner_def)

lemma rewrite_owner_ex:
  "(\<exists>rewritten. rewrite_owner c arguments = Inr rewritten) \<longleftrightarrow>
     (map_of arguments OWNER_ARGUMENT \<noteq> None \<longrightarrow> dc_principal_email c \<noteq> [])"
  by (auto simp: rewrite_owner_Inr_iff)

lemma authorize_tool_Inr_iff:
  "authorize_tool env s kvs c = Inr out \<longleftrightarrow>
     (\<exists>params tool arguments b rewritten.
        requested_tool kvs = Some (params, tool, arguments) \<and> layer4 s c tool = Inr b \<and>
        holds_grant s (ie_now env) c b \<and> rewrite_owner c arguments = Inr rewritten \<and>
        out = rewritten_body kvs params rewritten)"
  by (auto simp: authorize_tool_stages has_tool_grant_iff [symmetric]
      split: option.splits sum.splits if_splits)

lemma transform_tools_call:
  assumes "jget kvs ''method'' = JStr ''tools/call''"
  shows "authorize_and_transform env s (JObj kvs) headers =
    bind_res (validate_call env s headers) (\<lambda>(c, _).
      bind_res (authorize_tool env s kvs c) (\<lambda>out. Inr (sanitize_request_metadata out)))"
  using assms by (simp add: authorize_and_transform_def)


section \<open>Metadata\<close>

lemma sanitize_cases:
  obtains (plain) "sanitize_request_metadata body = body"
      "\<And>params. jget body ''params'' = JObj params \<Longrightarrow> map_of params ''_meta'' = None"
  | (dropped) params where "jget body ''params'' = JObj params"
      "sanitize_request_metadata body = dput ''params'' (JObj (ddel ''_meta'' params)) body"
  | (kept) params entries where "jget body ''params'' = JObj params"
      "sanitize_request_metadata body =
         dput ''params'' (JObj (dput ''_meta'' (JObj entries) params)) body"
      "set (map fst entries) \<subseteq> {''progressToken''}"
proof (cases "\<exists>params. jget body ''params'' = JObj params \<and> map_of params ''_meta'' \<noteq> None")
  case False
  then have "sanitize_request_metadata body = body"
    by (auto simp: sanitize_request_metadata_def split: json.splits)
  with False plain show ?thesis by auto
next
  case True
  then obtain params metadata where p: "jget body ''params'' = JObj params"
    and m: "map_of params ''_meta'' = Some metadata"
    by auto
  let ?e = "case metadata of
      JObj entries \<Rightarrow> filter (\<lambda>(k, _). \<not> prefix GATEWAY_META_PREFIX k \<and>
                                       k \<in> set ALLOWED_META_KEYS) entries
    | _ \<Rightarrow> []"
  have "set (map fst ?e) \<subseteq> {''progressToken''}"
    by (auto simp: ALLOWED_META_KEYS_def split: json.splits)
  with p m dropped kept [of params ?e] show ?thesis
    by (cases "?e = []") (auto simp: sanitize_request_metadata_def)
qed

lemma sanitize_frame:
  assumes "jget body ''params'' = JObj params"
  obtains params' where "jget (sanitize_request_metadata body) ''params'' = JObj params'"
    "\<And>k. k \<noteq> ''_meta'' \<Longrightarrow> map_of params' k = map_of params k"
    "\<And>k. k \<noteq> ''params'' \<Longrightarrow> map_of (sanitize_request_metadata body) k = map_of body k"
    "\<And>metadata. map_of params' ''_meta'' = Some metadata \<Longrightarrow>
       \<exists>entries. metadata = JObj entries \<and> set (map fst entries) \<subseteq> {''progressToken''}"
proof (rule sanitize_cases [of body])
  assume "sanitize_request_metadata body = body"
    "\<And>params. jget body ''params'' = JObj params \<Longrightarrow> map_of params ''_meta'' = None"
  with assms that show ?thesis by auto
next
  fix p assume "jget body ''params'' = JObj p"
    "sanitize_request_metadata body = dput ''params'' (JObj (ddel ''_meta'' p)) body"
  with assms that [of "ddel ''_meta'' p"] show ?thesis by (auto simp: jget_def)
next
  fix p entries assume "jget body ''params'' = JObj p"
    "sanitize_request_metadata body =
       dput ''params'' (JObj (dput ''_meta'' (JObj entries) p)) body"
    "set (map fst entries) \<subseteq> {''progressToken''}"
  with assms that [of "dput ''_meta'' (JObj entries) p"] show ?thesis by (auto simp: jget_def)
qed

section \<open>Independence of the grant table\<close>

text \<open>The parts of the state that a request reads before layer 7.\<close>

lemma validate_call_grants:
  "validate_call env (s\<lparr>st_grants := gs\<rparr>) headers = validate_call env s headers"
proof -
  have "get_delegation (s\<lparr>st_grants := gs\<rparr>) = get_delegation s"
    "get_agent_identity_binding (s\<lparr>st_grants := gs\<rparr>) = get_agent_identity_binding s"
    by (simp_all add: get_delegation_def get_agent_identity_binding_def fun_eq_iff)
  then show ?thesis by (simp only: validate_call_def)
qed

lemma layer4_grants: "layer4 (s\<lparr>st_grants := gs\<rparr>) c tool = layer4 s c tool"
proof -
  have "list_agent_tool_bindings (s\<lparr>st_grants := gs\<rparr>) = list_agent_tool_bindings s"
    "get_asset_version (s\<lparr>st_grants := gs\<rparr>) = get_asset_version s"
    by (simp_all add: list_agent_tool_bindings_def get_asset_version_def fun_eq_iff)
  then show ?thesis
    by (simp only: layer4_def resolve_binding_def approved_bindings_def pending_bindings_def
        candidate_bindings_def)
qed

lemma authorize_tool_denied_grants:
  assumes "r \<notin> {Deny_human_grant_missing, Deny_owner_identity_missing}"
  shows "authorize_tool env (s\<lparr>st_grants := gs\<rparr>) kvs c = Inl (Denied r) \<longleftrightarrow>
    authorize_tool env s kvs c = Inl (Denied r)"
proof -
  have "authorize_tool env s' kvs c = Inl (Denied r) \<longleftrightarrow>
      (case requested_tool kvs of
         None \<Rightarrow> r = Deny_invalid_request
       | Some (params, tool, arguments) \<Rightarrow> layer4 s' c tool = Inl r)" for s'
    using assms
    by (auto simp: authorize_tool_stages rewrite_owner_def split: option.splits sum.splits)
  then show ?thesis by (simp only: layer4_grants)
qed

section \<open>A concrete request\<close>

definition sample_env :: interceptor_env where
  "sample_env = \<lparr>ie_now = 200, ie_human_client_ids = [], ie_hash = id,
     ie_decode = (\<lambda>p. if p = ''AAAA'' then Some (JObj [(''client_id'', JStr ''client'')])
                      else None)\<rparr>"

definition sample_headers :: json where
  "sample_headers = JObj [(''Authorization'', JStr ''Bearer h.AAAA.s''), (''X-Agora-Call'', JStr ''h'')]"

definition sample_call :: "(string \<times> json) list" where
  "sample_call = [(''method'', JStr ''tools/call''), (''id'', JInt 7),
     (''params'', JObj [(''name'', JStr ''t___read''),
        (''arguments'', JObj [(''q'', JInt 1), (OWNER_ARGUMENT, JStr ''eve@x'')]),
        (''_meta'', JObj [(''progressToken'', JInt 3), (''trace'', JInt 4)])])]"

lemma sample_claims:
  "read_bearer_claims sample_env sample_headers =
     Inr \<lparr>bc_client_id = ''client'', bc_sub = [], bc_token_use = []\<rparr>"
proof -
  have "header_of sample_headers ''authorization'' = ''Bearer h.AAAA.s''"
    "casefold ''Bearer'' = ''bearer''" by code_simp+
  then show ?thesis
    by (simp add: read_bearer_claims_def sample_env_def partition_at_def pad_base64_def
        stripped_str_def jget_def strip_def is_space_def)
qed

lemma sample_validated:
  "validate_call sample_env sample_store sample_headers = Inr (sample_context, ''client'')"
proof -
  have "header_of sample_headers ''x-agora-call'' = ''h''"
    by code_simp
  moreover have "ie_now sample_env = 200" "ie_hash sample_env = id" by (simp_all add: sample_env_def)
  moreover have "dc_revoked_at sample_context = None" "dc_expires_at sample_context = 1000"
    "dc_agent_id sample_context = ''bot''" by (simp_all add: sample_context_def)
  moreover have "aib_status sample_identity = Identity_ACTIVE"
    "aib_client_id sample_identity = ''client''" by (simp_all add: sample_identity_def)
  ultimately show ?thesis
    by (simp add: validate_call_Inr_iff sample_claims human_shaped_def is_human_def)
qed

lemma sample_opens: "{b. opens_tool sample_store ''bot'' ''t___read'' b} = {sample_binding}"
proof -
  have "approved_bindings sample_store ''bot'' ''t___read'' = [sample_binding]"
    by (simp add: approved_bindings_def candidate_bindings_def sample_binding_def)
  then show ?thesis by (simp add: approved_singleton_iff)
qed

lemma sample_requested:
  "jget sample_call ''method'' = JStr ''tools/call''"
  "requested_tool sample_call =
     Some ([(''name'', JStr ''t___read''),
        (''arguments'', JObj [(''q'', JInt 1), (OWNER_ARGUMENT, JStr ''eve@x'')]),
        (''_meta'', JObj [(''progressToken'', JInt 3), (''trace'', JInt 4)])],
       ''t___read'', [(''q'', JInt 1), (OWNER_ARGUMENT, JStr ''eve@x'')])"
  by (simp_all add: sample_call_def requested_tool_def jget_def jget_or_def)

section \<open>Properties\<close>

text \<open>C2: What a tool call needs to pass the Gateway, exactly. On a well-formed binding table
  a \<open>tools/call\<close> is forwarded iff the caller is authenticated for an unexpired, unrevoked
  delegation, the request names a tool and an argument object, exactly one ledger row of the
  agent opens that tool, its asset is one the handle was issued for, the approval is for the
  asset's current version, the person or one of the person's groups holds a live grant for
  exactly that tool, and an email is on record if the tool asks for its owner.\<close>

theorem tools_call_forwarded_iff:
  assumes "bindings_wf s" "jget kvs ''method'' = JStr ''tools/call''"
  shows "(\<exists>out. authorize_and_transform env s (JObj kvs) headers = Inr out) \<longleftrightarrow>
    (\<exists>c client params tool arguments b v.
       validate_call env s headers = Inr (c, client) \<and>
       requested_tool kvs = Some (params, tool, arguments) \<and>
       {x. opens_tool s (dc_agent_id c) tool x} = {b} \<and>
       atb_asset_id b \<in> set (dc_allowed_asset_ids c) \<and>
       get_asset_version s (atb_asset_id b) = Inr v \<and>
       av_asset_version v = atb_asset_version b \<and>
       holds_grant s (ie_now env) c b \<and>
       (map_of arguments OWNER_ARGUMENT \<noteq> None \<longrightarrow> dc_principal_email c \<noteq> []))"
  unfolding transform_tools_call [OF assms(2)] bind_res_Inr_iff split_paired_Ex split_conv
    authorize_tool_Inr_iff layer4_Inr_iff [OF assms(1)] rewrite_owner_ex [symmetric]
  by blast

theorem tools_call_forwarded_iff_witness:
  "\<exists>out. authorize_and_transform sample_env sample_store (JObj sample_call) sample_headers
     = Inr out"
proof -
  have "holds_grant sample_store (ie_now sample_env) sample_context sample_binding"
    by (simp add: holds_grant_person_or_group sample_binding_def sample_context_def
        sample_grant_def live_grant_def sample_env_def)
  with tools_call_forwarded_iff [OF sample_bindings_wf sample_requested(1),
      of sample_env sample_headers]
  show ?thesis
    using sample_validated sample_requested(2) sample_opens
    by (auto simp: sample_context_def sample_binding_def sample_version_def)
qed

text \<open>C4: What a forwarded tool call carries. Of the client's request the Gateway target sees
  everything but three things: \<open>agora_user_id\<close>, where the client sent it, is the email the
  ledger has for the delegation's principal and never the client's value; \<open>_meta\<close> keeps at
  most \<open>progressToken\<close>; no argument is added.\<close>

theorem forwarded_call_content:
  assumes "authorize_and_transform env s (JObj kvs) headers = Inr out"
    and "jget kvs ''method'' = JStr ''tools/call''"
  shows "\<exists>c client params tool arguments params' arguments'.
    validate_call env s headers = Inr (c, client) \<and>
    requested_tool kvs = Some (params, tool, arguments) \<and>
    jget out ''params'' = JObj params' \<and> jget params' ''arguments'' = JObj arguments' \<and>
    map_of arguments' =
      (if map_of arguments OWNER_ARGUMENT = None then map_of arguments
       else (map_of arguments)(OWNER_ARGUMENT \<mapsto> JStr (dc_principal_email c))) \<and>
    (map_of arguments OWNER_ARGUMENT \<noteq> None \<longrightarrow> dc_principal_email c \<noteq> []) \<and>
    (\<forall>k. k \<notin> {''arguments'', ''_meta''} \<longrightarrow> map_of params' k = map_of params k) \<and>
    (\<forall>metadata. map_of params' ''_meta'' = Some metadata \<longrightarrow>
       (\<exists>entries. metadata = JObj entries \<and> set (map fst entries) \<subseteq> {''progressToken''})) \<and>
    (\<forall>k. k \<noteq> ''params'' \<longrightarrow> map_of out k = map_of kvs k)"
proof -
  from assms obtain c client params tool arguments rewritten
    where v: "validate_call env s headers = Inr (c, client)"
      and r: "requested_tool kvs = Some (params, tool, arguments)"
      and o: "rewrite_owner c arguments = Inr rewritten"
      and out: "out = sanitize_request_metadata (rewritten_body kvs params rewritten)"
    by (auto simp: transform_tools_call bind_res_Inr_iff authorize_tool_Inr_iff)
  have "jget (rewritten_body kvs params rewritten) ''params'' =
      JObj (dput ''arguments'' (JObj rewritten) params)"
    by (simp add: rewritten_body_def jget_def)
  then obtain params' where p: "jget out ''params'' = JObj params'"
    and other: "\<And>k. k \<noteq> ''_meta'' \<Longrightarrow>
       map_of params' k = map_of (dput ''arguments'' (JObj rewritten) params) k"
    and meta: "\<And>metadata. map_of params' ''_meta'' = Some metadata \<Longrightarrow>
       \<exists>entries. metadata = JObj entries \<and> set (map fst entries) \<subseteq> {''progressToken''}"
    and frame: "\<And>k. k \<noteq> ''params'' \<Longrightarrow>
       map_of out k = map_of (rewritten_body kvs params rewritten) k"
    unfolding out by (rule sanitize_frame) auto
  have "jget params' ''arguments'' = JObj rewritten" by (simp add: jget_def other)
  moreover have "map_of rewritten =
      (if map_of arguments OWNER_ARGUMENT = None then map_of arguments
       else (map_of arguments)(OWNER_ARGUMENT \<mapsto> JStr (dc_principal_email c)))"
    "map_of arguments OWNER_ARGUMENT \<noteq> None \<longrightarrow> dc_principal_email c \<noteq> []"
    using o by (auto simp: rewrite_owner_Inr_iff update_conv)
  moreover have "\<forall>k. k \<notin> {''arguments'', ''_meta''} \<longrightarrow> map_of params' k = map_of params k"
    by (auto simp: other)
  moreover have "\<forall>k. k \<noteq> ''params'' \<longrightarrow> map_of out k = map_of kvs k"
    by (auto simp: frame rewritten_body_def)
  ultimately show ?thesis using v r p meta by blast
qed

lemma sample_forwarded:
  "authorize_and_transform sample_env sample_store (JObj sample_call) sample_headers =
     Inr [(''method'', JStr ''tools/call''), (''id'', JInt 7),
          (''params'', JObj [(''name'', JStr ''t___read''),
             (''arguments'', JObj [(''q'', JInt 1), (OWNER_ARGUMENT, JStr ''ann@x'')]),
             (''_meta'', JObj [(''progressToken'', JInt 3)])])]"
proof -
  have "holds_grant sample_store (ie_now sample_env) sample_context sample_binding"
    by (simp add: holds_grant_person_or_group sample_binding_def sample_context_def
        sample_grant_def live_grant_def sample_env_def)
  moreover have "layer4 sample_store sample_context ''t___read'' = Inr sample_binding"
    using sample_opens by (simp add: layer4_Inr_iff sample_context_def sample_binding_def
        sample_version_def)
  moreover have "rewrite_owner sample_context [(''q'', JInt 1), (OWNER_ARGUMENT, JStr ''eve@x'')] =
      Inr [(''q'', JInt 1), (OWNER_ARGUMENT, JStr ''ann@x'')]"
    by (simp add: rewrite_owner_def sample_context_def OWNER_ARGUMENT_def)
  ultimately have t: "authorize_tool sample_env sample_store sample_call sample_context =
      Inr (rewritten_body sample_call
        [(''name'', JStr ''t___read''),
         (''arguments'', JObj [(''q'', JInt 1), (OWNER_ARGUMENT, JStr ''eve@x'')]),
         (''_meta'', JObj [(''progressToken'', JInt 3), (''trace'', JInt 4)])]
        [(''q'', JInt 1), (OWNER_ARGUMENT, JStr ''ann@x'')])"
    by (simp add: authorize_tool_Inr_iff sample_requested)
  then have "authorize_and_transform sample_env sample_store (JObj sample_call) sample_headers =
      Inr (sanitize_request_metadata (rewritten_body sample_call
        [(''name'', JStr ''t___read''),
         (''arguments'', JObj [(''q'', JInt 1), (OWNER_ARGUMENT, JStr ''eve@x'')]),
         (''_meta'', JObj [(''progressToken'', JInt 3), (''trace'', JInt 4)])]
        [(''q'', JInt 1), (OWNER_ARGUMENT, JStr ''ann@x'')]))"
    by (simp only: transform_tools_call [OF sample_requested(1)] sample_validated
        bind_res_simps split_conv)
  then show ?thesis
    by (simp add: rewritten_body_def sample_call_def sanitize_request_metadata_def jget_def
        GATEWAY_META_PREFIX_def ALLOWED_META_KEYS_def)
qed

theorem forwarded_call_content_witness:
  "\<exists>out params' arguments'.
     authorize_and_transform sample_env sample_store (JObj sample_call) sample_headers = Inr out \<and>
     jget out ''params'' = JObj params' \<and> jget params' ''arguments'' = JObj arguments' \<and>
     map_of arguments' OWNER_ARGUMENT = Some (JStr ''ann@x'')"
proof -
  obtain out where out: "authorize_and_transform sample_env sample_store (JObj sample_call)
      sample_headers = Inr out"
    by (simp add: sample_forwarded)
  from forwarded_call_content [OF out sample_requested(1)]
  obtain c client params tool arguments params' arguments'
    where v: "validate_call sample_env sample_store sample_headers = Inr (c, client)"
      and r: "requested_tool sample_call = Some (params, tool, arguments)"
      and p: "jget out ''params'' = JObj params'" "jget params' ''arguments'' = JObj arguments'"
      and a: "map_of arguments' =
        (if map_of arguments OWNER_ARGUMENT = None then map_of arguments
         else (map_of arguments)(OWNER_ARGUMENT \<mapsto> JStr (dc_principal_email c)))"
    by (elim exE conjE) (rule that)
  from v r have "c = sample_context"
    "arguments = [(''q'', JInt 1), (OWNER_ARGUMENT, JStr ''eve@x'')]"
    by (simp_all add: sample_validated sample_requested)
  with a have "map_of arguments' OWNER_ARGUMENT = Some (JStr ''ann@x'')"
    by (simp add: OWNER_ARGUMENT_def sample_context_def)
  with out p show ?thesis by blast
qed

text \<open>Which other methods pass. Without a tool, a request is forwarded iff its caller is
  authenticated and its method is \<open>initialize\<close>, \<open>ping\<close>, \<open>tools/list\<close> or a notification;
  prompts, resources and every unknown method are refused, whatever the ledger says.\<close>

theorem other_methods_forwarded_iff:
  assumes "jget kvs ''method'' = JStr m" "m \<noteq> ''tools/call''"
  shows "authorize_and_transform env s (JObj kvs) headers = Inr out \<longleftrightarrow>
    (m \<in> {''initialize'', ''ping'', ''tools/list''} \<or> prefix ''notifications/'' m) \<and>
    (\<exists>c client. validate_call env s headers = Inr (c, client)) \<and>
    out = sanitize_request_metadata kvs"
proof -
  have "m \<noteq> []" if "m \<in> {''initialize'', ''ping'', ''tools/list''} \<or> prefix ''notifications/'' m"
    using that by auto
  moreover have "\<not> (prefix ''prompts/'' m \<or> prefix ''resources/'' m)"
    if "m \<in> {''initialize'', ''ping'', ''tools/list''} \<or> prefix ''notifications/'' m"
    using that by (auto simp: prefix_def)
  ultimately show ?thesis
    using assms
    by (auto simp: authorize_and_transform_def bind_res_Inr_iff PASSTHROUGH_METHODS_def)
qed

theorem other_methods_forwarded_iff_witness:
  "authorize_and_transform sample_env sample_store (JObj [(''method'', JStr ''tools/list'')])
     sample_headers = Inr [(''method'', JStr ''tools/list'')]"
proof -
  have "sanitize_request_metadata [(''method'', JStr ''tools/list'')] =
      [(''method'', JStr ''tools/list'')]"
    by (simp add: sanitize_request_metadata_def jget_def)
  then show ?thesis
    using other_methods_forwarded_iff [of "[(''method'', JStr ''tools/list'')]" "''tools/list''"
        sample_env sample_store sample_headers "[(''method'', JStr ''tools/list'')]"]
    by (simp add: jget_def sample_validated)
qed

text \<open>When the caller is told that a tool waits for approval. On a well-formed table the
  reason is \<open>tool_pending_approval\<close> iff the agent has no approved row for the action and
  exactly one requested row: two requested rows, or an approved one beside it, never report a
  pending approval, and no fault of a later layer is reported as one.\<close>

theorem pending_approval_reported_iff:
  assumes "bindings_wf s" "requested_tool kvs = Some (params, tool, arguments)"
  shows "authorize_tool env s kvs c = Inl (Denied Deny_tool_pending_approval) \<longleftrightarrow>
    {b. opens_tool s (dc_agent_id c) tool b} = {} \<and>
    (\<exists>b. {x. awaits_approval s (dc_agent_id c) tool x} = {b})"
proof -
  have none: "approved_bindings s a t = [] \<longleftrightarrow> {b. opens_tool s a t b} = {}" for a t
    using approved_bindings_mem [OF assms(1), of _ a t]
    by (metis (no_types, lifting) Collect_empty_eq empty_iff equals0I set_empty2)
  have "authorize_tool env s kvs c = Inl (Denied Deny_tool_pending_approval) \<longleftrightarrow>
      layer4 s c tool = Inl Deny_tool_pending_approval"
    using assms(2) by (auto simp: authorize_tool_stages rewrite_owner_def split: sum.splits)
  also have "\<dots> \<longleftrightarrow> resolve_binding s (dc_agent_id c) tool = Inl Deny_tool_pending_approval"
  proof (cases "resolve_binding s (dc_agent_id c) tool")
    case (Inr b)
    then show ?thesis
      by (cases "get_asset_version s (atb_asset_id b)") (auto simp: layer4_def)
  qed (simp add: layer4_def)
  finally show ?thesis
    by (simp only: resolve_binding_pending_iff none pending_singleton_iff [OF assms(1)])
qed

definition requested_store :: identity_store where
  "requested_store = sample_store\<lparr>st_agent_tool_bindings :=
     [((''bot'', ''mcp'', ''1'', ''read''),
       sample_binding\<lparr>atb_approval_state := Approval_REQUESTED\<rparr>)]\<rparr>"

theorem pending_approval_reported_iff_witness:
  "authorize_tool sample_env requested_store sample_call sample_context =
     Inl (Denied Deny_tool_pending_approval)"
proof -
  let ?b = "sample_binding\<lparr>atb_approval_state := Approval_REQUESTED\<rparr>"
  have wf: "bindings_wf requested_store"
    by (simp add: bindings_wf_def wf_dict_def keyed_by_def requested_store_def sample_binding_def
        binding_key_def)
  have "list_agent_tool_bindings requested_store ''bot'' = [?b]"
    by (simp add: requested_store_def list_agent_tool_bindings_def)
  then have "approved_bindings requested_store ''bot'' ''t___read'' = []"
    "length (pending_bindings requested_store ''bot'' ''t___read'') = 1"
    by (simp_all add: approved_bindings_def pending_bindings_def candidate_bindings_def
        sample_binding_def)
  then have "{b. opens_tool requested_store ''bot'' ''t___read'' b} = {}"
    "\<exists>b. {x. awaits_approval requested_store ''bot'' ''t___read'' x} = {b}"
    using approved_bindings_mem [OF wf, of _ "''bot''" "''t___read''"]
      pending_singleton_iff [OF wf] by auto
  then show ?thesis
    using pending_approval_reported_iff [OF wf sample_requested(2), of sample_env sample_context]
    by (simp add: sample_context_def)
qed

text \<open>Unapproved callers learn nothing about grants. Whether a request is refused for any
  reason before layer 7, and for which, does not depend on the grant table: replacing it by
  any other leaves every such refusal as it was.\<close>

theorem refusals_before_grants_independent:
  assumes "r \<notin> {Deny_human_grant_missing, Deny_owner_identity_missing}"
  shows "authorize_and_transform env (s\<lparr>st_grants := gs\<rparr>) body headers = Inl (Denied r) \<longleftrightarrow>
    authorize_and_transform env s body headers = Inl (Denied r)"
proof (cases "\<exists>kvs. body = JObj kvs \<and> jget kvs ''method'' = JStr ''tools/call''")
  case True
  then obtain kvs where kvs: "body = JObj kvs" "jget kvs ''method'' = JStr ''tools/call''" by auto
  show ?thesis
    by (auto simp: kvs transform_tools_call [OF kvs(2)] validate_call_grants bind_res_Inl_iff
        authorize_tool_denied_grants [OF assms])
next
  case False
  then show ?thesis
    by (auto simp: authorize_and_transform_def validate_call_grants split: json.split)
qed

theorem refusals_before_grants_independent_witness:
  "authorize_and_transform sample_env (sample_store\<lparr>st_grants := []\<rparr>) (JObj []) sample_headers =
     Inl (Denied Deny_invalid_request)"
  using refusals_before_grants_independent [of Deny_invalid_request sample_env "[]" sample_store
      "JObj []" sample_headers]
  by (simp add: authorize_and_transform_def jget_def)

text \<open>What the Lambda forwards. Whatever the event, a body handed on to the Gateway target
  is the authorized rewriting of the event's request, or the constant no-op notification that
  stands for a refused notification: a refused request never reaches the target.\<close>

theorem refused_request_never_forwarded:
  "process_event message env s event = Inr output \<Longrightarrow>
     sub_obj (sub_obj (sub_obj output ''mcp'') ''transformedGatewayRequest'') ''body'' = JObj b \<Longrightarrow>
     authorize_and_transform env s (fst (event_request event)) (snd (event_request event)) = Inr b
     \<or> b = NOTIFICATION_NOOP \<and> prefix ''notifications/'' (event_method event)"
  by (cases "event_request event")
    (auto simp: process_event_def pass_output_def deny_output_def sub_obj_def jget_def
      split: sum.splits interceptor_error.splits if_splits)

definition sample_event_input :: json where
  "sample_event_input = JObj [(''interceptorInputVersion'', JStr ''1.0''),
     (''mcp'', JObj [(''gatewayRequest'',
        JObj [(''headers'', sample_headers), (''body'', JObj sample_call)])])]"

theorem refused_request_never_forwarded_witness:
  "\<exists>output b. process_event (\<lambda>_. []) sample_env sample_store sample_event_input = Inr output \<and>
     sub_obj (sub_obj (sub_obj output ''mcp'') ''transformedGatewayRequest'') ''body'' = JObj b \<and>
     (authorize_and_transform sample_env sample_store (JObj sample_call) sample_headers = Inr b
      \<or> b = NOTIFICATION_NOOP \<and> prefix ''notifications/'' (event_method sample_event_input))"
proof -
  have r: "event_request sample_event_input = (JObj sample_call, sample_headers)"
    by (simp add: event_request_def gateway_request_of_def sample_event_input_def sub_obj_def
        jget_def)
  obtain b where b: "authorize_and_transform sample_env sample_store (JObj sample_call)
      sample_headers = Inr b"
    by (simp add: sample_forwarded)
  have p: "process_event (\<lambda>_. []) sample_env sample_store sample_event_input = Inr (pass_output b)"
    by (simp add: process_event_def r b)
  have "sub_obj (sub_obj (sub_obj (pass_output b) ''mcp'') ''transformedGatewayRequest'') ''body''
      = JObj b"
    by (simp add: pass_output_def sub_obj_def jget_def)
  with refused_request_never_forwarded [OF p this] p show ?thesis by (auto simp: r)
qed

text \<open>How a refusal is answered. A refused request that is not a notification gets an HTTP
  200 JSON-RPC error -32001 under the request's own id with the machine-readable reason.\<close>

theorem refusal_answered_with_reason:
  assumes "authorize_and_transform env s (fst (event_request event)) (snd (event_request event))
     = Inl (Denied r)"
    and "\<not> prefix ''notifications/'' (event_method event)"
  shows "\<exists>output body. process_event message env s event = Inr output \<and>
    sub_obj (sub_obj output ''mcp'') ''transformedGatewayRequest'' = JNull \<and>
    sub_obj (sub_obj (sub_obj output ''mcp'') ''transformedGatewayResponse'') ''statusCode'' =
      JInt 200 \<and>
    sub_obj (sub_obj (sub_obj output ''mcp'') ''transformedGatewayResponse'') ''body'' = body \<and>
    sub_obj body ''id'' = sub_obj (fst (event_request event)) ''id'' \<and>
    sub_obj (sub_obj body ''error'') ''code'' = JInt (- 32001) \<and>
    sub_obj (sub_obj (sub_obj body ''error'') ''data'') ''reason'' = JStr (denial_value r)"
  using assms
  by (cases "event_request event")
    (simp add: process_event_def deny_output_def sub_obj_def jget_def)

theorem refusal_answered_with_reason_witness:
  "\<exists>output. process_event (\<lambda>_. []) sample_env empty_store (JObj []) = Inr output \<and>
     sub_obj (sub_obj (sub_obj (sub_obj (sub_obj output ''mcp'') ''transformedGatewayResponse'')
       ''body'') ''error'') ''code'' = JInt (- 32001)"
proof -
  have r: "event_request (JObj []) = (JNull, JNull)"
    by (simp add: event_request_def sub_obj_def jget_def)
  have m: "event_method (JObj []) = ''unknown''"
    by (simp add: event_method_def gateway_request_of_def sub_obj_def jget_def)
  have d: "authorize_and_transform sample_env empty_store (fst (event_request (JObj [])))
      (snd (event_request (JObj []))) = Inl (Denied Deny_invalid_request)"
    by (simp add: authorize_and_transform_def r)
  from refusal_answered_with_reason [OF d, of "\<lambda>_. []"] show ?thesis by (auto simp: m)
qed

end
