(* ===== verification/Authorization_Chain.thy ===== *)
theory Authorization_Chain
  imports Gateway_Interceptor
begin

text \<open>
  The layer-by-layer diagnosis of one tool row (\<open>identity/authorization_chain.py\<close>) that the
  administrator's screen shows beside the interceptor's single denial reason: layer 4, the
  tool binding, and layer 7, the grant of the person or of a group. Details are JSON objects.
  A \<open>ValueError\<close> of the ledger's key builder escapes the diagnosis as an \<open>identity_error\<close>.
\<close>

definition CONNECTION_BY_SENSITIVITY :: "(string, string) dict" where
  "CONNECTION_BY_SENSITIVITY = [(''READ'', ''preset-viewer''), (''CREATE'', ''preset-editor''),
     (''UPDATE'', ''preset-editor''), (''DELETE'', ''preset-manager'')]"

definition connection_for_sensitivity :: "string \<Rightarrow> string" where
  "connection_for_sensitivity sensitivity =
     (case dget CONNECTION_BY_SENSITIVITY (upper (strip sensitivity)) of
        None \<Rightarrow> [] | Some c \<Rightarrow> c)"

datatype chain_layer = Layer_TOOL_BINDING | Layer_HUMAN_GRANT

datatype layer_state = SATISFIED | MISSING | BLOCKED | UNKNOWN

datatype requester_observation = RESOLVED | NOT_IN_DIRECTORY | UNOBSERVED

fun observation_value :: "requester_observation \<Rightarrow> string" where
  "observation_value RESOLVED = ''RESOLVED''"
| "observation_value NOT_IN_DIRECTORY = ''NOT_IN_DIRECTORY''"
| "observation_value UNOBSERVED = ''UNOBSERVED''"

record layer_diagnosis =
  ld_layer :: chain_layer
  ld_state :: layer_state
  ld_reason :: string
  ld_detail :: "(string \<times> json) list"

abbreviation diagnosis :: "chain_layer \<Rightarrow> layer_state \<Rightarrow> string \<Rightarrow> (string \<times> json) list
    \<Rightarrow> layer_diagnosis" where
  "diagnosis l st r d \<equiv> \<lparr>ld_layer = l, ld_state = st, ld_reason = r, ld_detail = d\<rparr>"

definition satisfied :: "layer_diagnosis \<Rightarrow> bool" where
  "satisfied d \<longleftrightarrow> ld_state d = SATISFIED"

definition chain_ready :: "layer_diagnosis list \<Rightarrow> bool" where
  "chain_ready layers \<longleftrightarrow> list_all satisfied layers"

definition blocking_layer :: "layer_diagnosis list \<Rightarrow> layer_diagnosis option" where
  "blocking_layer layers = find (\<lambda>d. \<not> satisfied d) layers"

fun binding_state_reason :: "approval_state \<Rightarrow> string" where
  "binding_state_reason Approval_REQUESTED = ''binding_requested''"
| "binding_state_reason Approval_APPROVED = ''binding_approved''"
| "binding_state_reason Approval_REJECTED = ''binding_rejected''"

definition binding_siblings ::
  "identity_store \<Rightarrow> agent_tool_binding \<Rightarrow> agent_tool_binding list" where
  "binding_siblings s b =
     filter (\<lambda>x. atb_gateway_action x = atb_gateway_action b \<and>
               atb_approval_state x = Approval_APPROVED \<and> atb_desired_state x = Desired_ALLOWED)
       (list_agent_tool_bindings s (atb_agent_record_id b))"

definition diagnose_tool_binding ::
  "identity_store \<Rightarrow> agent_tool_binding \<Rightarrow> string \<Rightarrow> layer_diagnosis" where
  "diagnose_tool_binding s b current_asset_version =
     (if atb_approval_state b \<noteq> Approval_APPROVED
      then diagnosis Layer_TOOL_BINDING MISSING (binding_state_reason (atb_approval_state b)) []
      else if atb_desired_state b \<noteq> Desired_ALLOWED
      then diagnosis Layer_TOOL_BINDING BLOCKED ''binding_revoked'' []
      else (let siblings = binding_siblings s b in
        if length siblings \<noteq> 1
        then diagnosis Layer_TOOL_BINDING BLOCKED ''duplicate_gateway_action''
               [(''gatewayAction'', JStr (atb_gateway_action b)),
                (''approvedRowCount'', JInt (int (length siblings))),
                (''assetVersions'',
                   JArr (map JStr (sort (remdups (map atb_asset_version siblings)))))]
        else (let detail = [(''bindingAssetVersion'', JStr (atb_asset_version b))] @
                    (if current_asset_version \<noteq> []
                     then [(''registryAssetVersion'', JStr current_asset_version)] else [])
              in case get_asset_version s (atb_asset_id b) of
                   Inl _ \<Rightarrow> diagnosis Layer_TOOL_BINDING UNKNOWN ''asset_version_unknown'' detail
                 | Inr v \<Rightarrow>
                     (let detail = dput ''currentAssetVersion'' (JStr (av_asset_version v)) detail
                      in if av_asset_version v \<noteq> atb_asset_version b
                         then diagnosis Layer_TOOL_BINDING BLOCKED ''asset_version_mismatch'' detail
                         else diagnosis Layer_TOOL_BINDING SATISFIED [] detail))))"

text \<open>\<open>active_grant\<close>: the label of a live row of this subject, empty when there is none.\<close>

definition active_grant ::
  "identity_store \<Rightarrow> agent_tool_binding \<Rightarrow> int \<Rightarrow> grant_subject \<Rightarrow> identity_error + string" where
  "active_grant s b now x =
     (case lookup_tool_grant s (atb_asset_id b) (atb_operation_id b) x of
        Inl RecordNotFound \<Rightarrow> Inr []
      | Inl e \<Rightarrow> Inl e
      | Inr g \<Rightarrow>
          if \<not> live_grant now g then Inr []
          else if ag_subject_group g \<noteq> [] then Inr (''group:'' @ ag_subject_group g)
          else Inr (''principal:'' @ ag_grant_id g))"

fun active_sources ::
  "identity_store \<Rightarrow> agent_tool_binding \<Rightarrow> int \<Rightarrow> grant_subject list
     \<Rightarrow> identity_error + string list" where
  "active_sources s b now [] = Inr []"
| "active_sources s b now (x # xs) =
     bind_res (active_grant s b now x) (\<lambda>l.
       bind_res (active_sources s b now xs) (\<lambda>ls. Inr (if l \<noteq> [] then l # ls else ls)))"

definition diagnose_human_grant ::
  "identity_store \<Rightarrow> agent_tool_binding \<Rightarrow> string \<Rightarrow> string list \<Rightarrow> requester_observation \<Rightarrow> int
     \<Rightarrow> identity_error + layer_diagnosis" where
  "diagnose_human_grant s b principal_id principal_groups requester now =
     (let detail = [(''principalId'', JStr principal_id),
                    (''subjectGroups'', JArr (map JStr (sort principal_groups))),
                    (''requesterObservation'', JStr (observation_value requester)),
                    (''assetId'', JStr (atb_asset_id b)),
                    (''operationId'', JStr (atb_operation_id b))]
      in bind_res (if principal_id \<noteq> [] then active_grant s b now (Person principal_id) else Inr [])
        (\<lambda>personal.
          if personal \<noteq> []
          then Inr (diagnosis Layer_HUMAN_GRANT SATISFIED []
                      (dput ''grantSources'' (JArr [JStr personal]) detail))
          else bind_res
            (active_sources s b now (map Member (fromkeys (stripped_nonempty principal_groups))))
            (\<lambda>sources.
              let detail = dput ''grantSources'' (JArr (map JStr sources)) detail in
              Inr (if sources \<noteq> [] then diagnosis Layer_HUMAN_GRANT SATISFIED [] detail
                   else case requester of
                     UNOBSERVED \<Rightarrow>
                       diagnosis Layer_HUMAN_GRANT UNKNOWN ''subject_groups_unobserved'' detail
                   | NOT_IN_DIRECTORY \<Rightarrow>
                       diagnosis Layer_HUMAN_GRANT UNKNOWN ''requester_not_in_directory'' detail
                   | RESOLVED \<Rightarrow>
                       diagnosis Layer_HUMAN_GRANT MISSING ''human_grant_missing'' detail))))"

definition diagnose_chain ::
  "identity_store \<Rightarrow> agent_tool_binding \<Rightarrow> string \<Rightarrow> string list \<Rightarrow> requester_observation
     \<Rightarrow> string \<Rightarrow> int \<Rightarrow> identity_error + layer_diagnosis list" where
  "diagnose_chain s b principal_id principal_groups requester current_asset_version now =
     bind_res (diagnose_human_grant s b principal_id principal_groups requester now)
       (\<lambda>layer7. Inr [diagnose_tool_binding s b current_asset_version, layer7])"

definition connection_reach :: "identity_store \<Rightarrow> string \<Rightarrow> (string \<times> string) list" where
  "connection_reach s connection_id =
     (if connection_id = [] then []
      else sort (map (\<lambda>c. (ac_asset_id c, ac_operation_id c))
             (filter (\<lambda>c. ac_connection_id c = connection_id \<and> ac_status c = AssetCap_APPROVED)
               (list_all_asset_capabilities s))))"

section \<open>Lemmas\<close>

lemma siblings_approved:
  "binding_siblings s b = approved_bindings s (atb_agent_record_id b) (atb_gateway_action b)"
  by (simp add: binding_siblings_def approved_bindings_def candidate_bindings_def conj_comms
      cong: conj_cong)

lemma tool_binding_satisfied_iff:
  assumes "bindings_wf s" "stored_binding s b"
  shows "satisfied (diagnose_tool_binding s b ver) \<longleftrightarrow>
    {x. opens_tool s (atb_agent_record_id b) (atb_gateway_action b) x} = {b} \<and>
    (\<exists>v. get_asset_version s (atb_asset_id b) = Inr v \<and> av_asset_version v = atb_asset_version b)"
proof -
  let ?O = "{x. opens_tool s (atb_agent_record_id b) (atb_gateway_action b) x}"
  have open_b: "b \<in> ?O \<longleftrightarrow>
      atb_approval_state b = Approval_APPROVED \<and> atb_desired_state b = Desired_ALLOWED"
    using assms(2) by (auto simp: opens_tool_def)
  have O: "?O = set (binding_siblings s b)"
    by (auto simp: siblings_approved approved_bindings_mem [OF assms(1)])
  have "distinct (binding_siblings s b)" by (simp add: siblings_approved assms(1))
  then have one: "b \<in> ?O \<Longrightarrow> length (binding_siblings s b) = 1 \<longleftrightarrow> ?O = {b}"
    unfolding O distinct_singleton_iff [OF \<open>distinct (binding_siblings s b)\<close>, symmetric]
    by (cases "binding_siblings s b") auto
  show ?thesis
  proof (cases "b \<in> ?O \<and> length (binding_siblings s b) = 1")
    case True
    then have "?O = {b}" using one by blast
    moreover have "atb_approval_state b = Approval_APPROVED" "atb_desired_state b = Desired_ALLOWED"
      using True open_b by auto
    ultimately show ?thesis
      using True by (auto simp: diagnose_tool_binding_def satisfied_def Let_def split: sum.splits)
  next
    case False
    then have "?O \<noteq> {b}" using one by auto
    moreover have "\<not> satisfied (diagnose_tool_binding s b ver)"
      using False open_b by (auto simp: diagnose_tool_binding_def satisfied_def Let_def)
    ultimately show ?thesis by blast
  qed
qed

text \<open>The labels are nonempty, so a label is there iff a live row is.\<close>

lemma active_grant_any:
  "bind_res (active_grant s b now x) (\<lambda>l. Inr (l \<noteq> [])) =
     any_live_grant (lookup_tool_grant s (atb_asset_id b) (atb_operation_id b)) now [x]"
  by (auto simp: active_grant_def split: sum.splits identity_error.splits)

lemma active_sources_live:
  "active_sources s b now xs = Inr ls \<Longrightarrow>
     ls \<noteq> [] \<longleftrightarrow> (\<exists>x \<in> set xs. \<exists>g.
       lookup_tool_grant s (atb_asset_id b) (atb_operation_id b) x = Inr g \<and> live_grant now g)"
  by (induction xs arbitrary: ls)
    (auto simp: bind_res_Inr_iff active_grant_def split: sum.splits identity_error.splits if_splits)

lemma active_sources_total:
  "strip (atb_asset_id b) \<noteq> [] \<Longrightarrow> strip (atb_operation_id b) \<noteq> [] \<Longrightarrow>
     \<exists>ls. active_sources s b now xs = Inr ls"
proof (induction xs)
  case (Cons x xs)
  have "\<exists>l. active_grant s b now x = Inr l"
    using Cons.prems
      tool_grants.lookup_addressed [of "(atb_asset_id b, atb_operation_id b)" s x]
    by (auto simp: active_grant_def split: sum.splits identity_error.splits)
  with Cons show ?case by auto
qed simp


lemma human_grant_satisfied_iff:
  assumes "dc_principal_id c \<noteq> []"
  shows "(\<exists>d. diagnose_human_grant s b (dc_principal_id c) (dc_principal_groups c) obs now = Inr d
      \<and> satisfied d) \<longleftrightarrow> holds_grant s now c b"
    (is "?L \<longleftrightarrow> _")
proof
  let ?groups = "map Member (fromkeys (stripped_nonempty (dc_principal_groups c)))"
  let ?look = "lookup_tool_grant s (atb_asset_id b) (atb_operation_id b)"
  {
    assume ?L
    then obtain d personal where d: "satisfied d"
      and p: "active_grant s b now (Person (dc_principal_id c)) = Inr personal"
      and r: "personal \<noteq> [] \<or> (\<exists>ls. active_sources s b now ?groups = Inr ls \<and> ls \<noteq> [])"
      using assms
      by (cases obs) (auto simp: diagnose_human_grant_def bind_res_Inr_iff satisfied_def Let_def
          split: if_splits)
    from r show "holds_grant s now c b"
    proof
      assume "personal \<noteq> []"
      with p have "\<exists>g. ?look (Person (dc_principal_id c)) = Inr g \<and> live_grant now g"
        by (auto simp: active_grant_def split: sum.splits identity_error.splits if_splits)
      then show ?thesis by (auto simp: holds_grant_def grant_subjects_def)
    next
      assume "\<exists>ls. active_sources s b now ?groups = Inr ls \<and> ls \<noteq> []"
      then show ?thesis
        using active_sources_live by (fastforce simp: holds_grant_def grant_subjects_def)
    qed
  next
    assume h: "holds_grant s now c b"
    then have addressed: "strip (atb_asset_id b) \<noteq> []" "strip (atb_operation_id b) \<noteq> []"
      using tool_grants.lookup_unaddressed [of "(atb_asset_id b, atb_operation_id b)" s]
      by (force simp: holds_grant_def)+
    from active_sources_total [OF this] obtain ls
      where ls: "active_sources s b now ?groups = Inr ls" by blast
    from active_sources_total [OF addressed] obtain ls'
      where "active_sources s b now [Person (dc_principal_id c)] = Inr ls'" by blast
    then obtain personal where p: "active_grant s b now (Person (dc_principal_id c)) = Inr personal"
      and ls': "active_sources s b now [Person (dc_principal_id c)] =
        Inr (if personal \<noteq> [] then [personal] else [])"
      by (auto simp: bind_res_Inr_iff)
    from h have "personal \<noteq> [] \<or> ls \<noteq> []"
      using active_sources_live [OF ls] active_sources_live [OF ls']
      by (auto simp: holds_grant_def grant_subjects_def split: if_splits)
    then show ?L
      using assms ls p by (auto simp: diagnose_human_grant_def satisfied_def Let_def)
  }
qed

section \<open>Properties\<close>

text \<open>C36: The diagnosis and the Gateway agree. For a stored tool row, a delegation to its agent
  that names its asset and has a principal: the diagnosis of that row for that principal and
  those groups comes back ready, whatever was observed of the requester and whatever version
  the registry shows, iff the interceptor resolves the action to that row in layer 4 and finds
  a live grant in layer 7.\<close>

theorem chain_ready_iff_interceptor_passes:
  assumes "bindings_wf s" "stored_binding s b" "dc_agent_id c = atb_agent_record_id b"
    and "atb_asset_id b \<in> set (dc_allowed_asset_ids c)" "dc_principal_id c \<noteq> []"
  shows "(\<exists>layers. diagnose_chain s b (dc_principal_id c) (dc_principal_groups c) obs ver now
        = Inr layers \<and> chain_ready layers) \<longleftrightarrow>
    layer4 s c (atb_gateway_action b) = Inr b \<and> has_tool_grant s now c b = Inr True"
proof -
  have "(\<exists>layers. diagnose_chain s b (dc_principal_id c) (dc_principal_groups c) obs ver now
        = Inr layers \<and> chain_ready layers) \<longleftrightarrow>
      satisfied (diagnose_tool_binding s b ver) \<and>
      (\<exists>d. diagnose_human_grant s b (dc_principal_id c) (dc_principal_groups c) obs now = Inr d
        \<and> satisfied d)"
    by (auto simp: diagnose_chain_def bind_res_Inr_iff chain_ready_def)
  then show ?thesis
    unfolding human_grant_satisfied_iff [OF assms(5)] has_tool_grant_iff
      tool_binding_satisfied_iff [OF assms(1,2)] layer4_Inr_iff [OF assms(1)]
    using assms(3,4) by auto
qed

theorem chain_ready_iff_interceptor_passes_witness:
  "\<exists>layers. diagnose_chain sample_store sample_binding ''ann'' [''user''] UNOBSERVED ''9'' 200 =
     Inr layers \<and> chain_ready layers"
proof -
  have l4: "layer4 sample_store sample_context ''t___read'' = Inr sample_binding"
    using sample_opens by (simp add: layer4_Inr_iff sample_context_def sample_binding_def
        sample_version_def)
  have h: "has_tool_grant sample_store 200 sample_context sample_binding = Inr True"
    by (simp add: has_tool_grant_iff holds_grant_person_or_group sample_binding_def
        sample_context_def sample_grant_def live_grant_def)
  have st: "stored_binding sample_store sample_binding"
    using sample_opens by (auto simp: opens_tool_def)
  have "dc_agent_id sample_context = atb_agent_record_id sample_binding"
    "atb_asset_id sample_binding \<in> set (dc_allowed_asset_ids sample_context)"
    "dc_principal_id sample_context \<noteq> []"
    by (simp_all add: sample_context_def sample_binding_def)
  from chain_ready_iff_interceptor_passes [OF sample_bindings_wf st this, of UNOBSERVED "''9''" 200]
    l4 h
  show ?thesis by (simp add: sample_context_def sample_binding_def)
qed

definition requested_twin :: agent_tool_binding where
  "requested_twin = sample_binding\<lparr>atb_asset_version := ''2'',
     atb_approval_state := Approval_REQUESTED\<rparr>"

definition twin_store :: identity_store where
  "twin_store = sample_store\<lparr>st_agent_tool_bindings :=
     [((''bot'', ''mcp'', ''1'', ''read''), sample_binding),
      ((''bot'', ''mcp'', ''2'', ''read''), requested_twin)]\<rparr>"

text \<open>A row shown as blocked may still be called. The module's own claim that a layer shown
  as blocked is really blocked fails for a row that waits for approval beside an approved row
  of another version for the same action: the diagnosis of the waiting row is MISSING in layer
  4, and the interceptor passes the call on the approved one.\<close>

theorem blocked_row_may_still_pass:
  "stored_binding twin_store requested_twin \<and>
   ld_state (diagnose_tool_binding twin_store requested_twin []) = MISSING \<and>
   layer4 twin_store sample_context (atb_gateway_action requested_twin) = Inr sample_binding \<and>
   has_tool_grant twin_store 200 sample_context sample_binding = Inr True"
proof -
  have "approved_bindings twin_store ''bot'' ''t___read'' = [sample_binding]"
    by (simp add: approved_bindings_def candidate_bindings_def list_agent_tool_bindings_def
        twin_store_def sample_binding_def requested_twin_def)
  moreover have "get_asset_version twin_store ''mcp'' = Inr sample_version"
    by (simp add: get_asset_version_def twin_store_def sample_store_def)
  ultimately have "layer4 twin_store sample_context ''t___read'' = Inr sample_binding"
    by (simp add: layer4_def resolve_binding_def sample_context_def sample_binding_def
        sample_version_def)
  moreover have "get_tool_grant twin_store ''mcp'' ''read'' ''ann'' [] = Inr sample_grant"
    by (simp add: twin_store_def sample_store_def get_tool_grant_def grant_key_def)
  then have "has_tool_grant twin_store 200 sample_context sample_binding = Inr True"
    by (simp add: has_tool_grant_iff holds_grant_person_or_group sample_binding_def
        sample_context_def sample_grant_def live_grant_def)
  ultimately show ?thesis
    by (simp add: stored_binding_def twin_store_def requested_twin_def sample_binding_def
        binding_key_def diagnose_tool_binding_def)
qed

text \<open>The registry's version is for display only. The diagnosed state and reason of layer 4
  do not depend on the \<open>current_asset_version\<close> passed in, although the docstring of
  \<open>diagnose_chain\<close> calls it the expected value of the version check.\<close>

lemma registry_version_never_decides:
  "ld_state (diagnose_tool_binding s b v) = ld_state (diagnose_tool_binding s b w) \<and>
   ld_reason (diagnose_tool_binding s b v) = ld_reason (diagnose_tool_binding s b w)"
  by (auto simp: diagnose_tool_binding_def Let_def split: sum.split)

end
