(* ===== verification/Audit_Log.thy ===== *)
theory Audit_Log
  imports Identity_Store
begin

text \<open>
  The audit part of the identity ledger: appending events (once per idempotency key),
  evidence chunks, usage reports and their per-event summaries, and the paged audit timeline
  (\<open>InMemoryIdentityStore\<close> and the helpers at the top of \<open>identity/store.py\<close>,
  \<open>identity/audit_timeline.py\<close>). Instants are microseconds; \<open>parse\<close> and \<open>fmt\<close> stand for the
  ISO-8601 functions of \<open>datetime\<close> and are arguments of the definitions that use them.
\<close>

section \<open>Appending\<close>

definition append_audit :: "audit_event \<Rightarrow> identity_store \<Rightarrow> identity_store" where
  "append_audit e s = s\<lparr>st_audit_events := st_audit_events s @ [e]\<rparr>"

definition append_audit_once ::
  "audit_event \<Rightarrow> string \<Rightarrow> identity_store \<Rightarrow> identity_store \<times> bool" where
  "append_audit_once e idempotency_key s =
     (let key = (ae_invocation_id e, idempotency_key) in
      if key \<in> set (st_audit_idempotency_keys s) then (s, False)
      else (s\<lparr>st_audit_events := st_audit_events s @ [e],
              st_audit_idempotency_keys := key # st_audit_idempotency_keys s\<rparr>, True))"

definition put_audit_evidence_chunks ::
  "string \<Rightarrow> string \<Rightarrow> string list \<Rightarrow> identity_store \<Rightarrow> identity_error + identity_store" where
  "put_audit_evidence_chunks invocation_id evidence_id chunks s =
     (if invocation_id = [] \<or> evidence_id = [] \<or> chunks = [] then Inl InvalidValue
      else
        (let key = (invocation_id, evidence_id);
             existing = dget (st_audit_evidence_chunks s) key
         in if existing \<noteq> None \<and> existing \<noteq> Some chunks then Inl VersionConflict
            else Inr (s\<lparr>st_audit_evidence_chunks :=
                          dput key chunks (st_audit_evidence_chunks s)\<rparr>)))"

definition get_audit_evidence_chunks ::
  "identity_store \<Rightarrow> string \<Rightarrow> string \<Rightarrow> int \<Rightarrow> identity_error + string list" where
  "get_audit_evidence_chunks s invocation_id evidence_id chunk_count =
     (if chunk_count < 1 then Inl InvalidValue
      else bind_res
        (of_option RecordNotFound
           (dget (st_audit_evidence_chunks s) (invocation_id, evidence_id)))
        (\<lambda>chunks. if int (length chunks) \<noteq> chunk_count then Inl VersionConflict
                  else Inr chunks))"

definition put_invocation_usage :: "invocation_usage \<Rightarrow> identity_store \<Rightarrow> identity_store" where
  "put_invocation_usage u s =
     s\<lparr>st_invocation_usage := dput (iu_invocation_id u) u (st_invocation_usage s)\<rparr>"

definition get_invocation_usage ::
  "identity_store \<Rightarrow> string \<Rightarrow> identity_error + invocation_usage" where
  "get_invocation_usage s i = of_option RecordNotFound (dget (st_invocation_usage s) i)"

definition list_audit :: "identity_store \<Rightarrow> string \<Rightarrow> audit_event list" where
  "list_audit s invocation_id =
     sort_key (\<lambda>e. (ae_timestamp e, ae_event_id e))
       (filter (\<lambda>e. ae_invocation_id e = invocation_id) (st_audit_events s))"

section \<open>Tool usage summaries\<close>

datatype usage_summary_status = Usage_observed | Usage_unknown | Usage_not_recorded

record audit_tool_call =
  atc_name :: string
  atc_call_count :: int
  atc_success_count :: int
  atc_error_count :: int

record audit_tool_usage =
  atu_event_id :: string
  atu_invocation_id :: string
  atu_status :: usage_summary_status
  atu_source :: string
  atu_reason :: string
  atu_discarded_count :: int
  atu_tools :: "audit_tool_call list"

definition bare_usage ::
  "string \<Rightarrow> string \<Rightarrow> usage_summary_status \<Rightarrow> string \<Rightarrow> audit_tool_usage" where
  "bare_usage event_id invocation_id status reason =
     \<lparr>atu_event_id = event_id, atu_invocation_id = invocation_id, atu_status = status,
      atu_source = [], atu_reason = reason, atu_discarded_count = 0, atu_tools = []\<rparr>"

definition audit_tool_usage_for ::
  "audit_event \<Rightarrow> invocation_usage option \<Rightarrow> audit_tool_usage" where
  "audit_tool_usage_for e usage =
     (case usage of
        None \<Rightarrow> bare_usage (ae_event_id e) (ae_invocation_id e) Usage_not_recorded []
      | Some u \<Rightarrow>
          (let tools = map (\<lambda>m. \<lparr>atc_name = tu_name m, atc_call_count = tu_call_count m,
                                 atc_success_count = tu_success_count m,
                                 atc_error_count = tu_error_count m\<rparr>) (iu_tool_metrics u);
               (status, reason) =
                 (if iu_status u \<noteq> ''observed'' then
                    (Usage_unknown,
                     if iu_reason u \<noteq> [] then iu_reason u
                     else ''usage_status_'' @
                       (if iu_status u \<noteq> [] then iu_status u else ''missing''))
                  else if iu_tool_metrics_status u \<noteq> [] \<and>
                          iu_tool_metrics_status u \<noteq> ''observed'' then
                    (Usage_unknown,
                     if iu_tool_metrics_reason u \<noteq> [] then iu_tool_metrics_reason u
                     else ''tool_metrics_status_'' @ iu_tool_metrics_status u)
                  else (Usage_observed, []))
           in \<lparr>atu_event_id = ae_event_id e, atu_invocation_id = ae_invocation_id e,
               atu_status = status, atu_source = iu_source u, atu_reason = reason,
               atu_discarded_count = iu_tool_metrics_discarded_count u, atu_tools = tools\<rparr>))"

definition is_invoke_row :: "audit_event \<Rightarrow> bool" where
  "is_invoke_row e \<longleftrightarrow> ae_event_type e = ''AGENT_INVOKE''"

definition audit_tool_usage_invocation_ids :: "audit_event list \<Rightarrow> string list" where
  "audit_tool_usage_invocation_ids es =
     fromkeys (map ae_invocation_id
       (filter (\<lambda>e. is_invoke_row e \<and> ae_invocation_id e \<noteq> []) es))"

definition collect_audit_tool_usage ::
  "audit_event list \<Rightarrow> (string, invocation_usage) dict \<Rightarrow> string list \<Rightarrow> string
     \<Rightarrow> audit_tool_usage list" where
  "collect_audit_tool_usage es found unobserved unobserved_reason =
     map (\<lambda>e.
        if ae_invocation_id e = [] then
          bare_usage (ae_event_id e) [] Usage_unknown ''invocation_id_missing''
        else if ae_invocation_id e \<in> set unobserved then
          bare_usage (ae_event_id e) (ae_invocation_id e) Usage_unknown
            (if unobserved_reason \<noteq> [] then unobserved_reason else ''tool_usage_unavailable'')
        else audit_tool_usage_for e (dget found (ae_invocation_id e)))
       (filter is_invoke_row es)"

section \<open>The timeline\<close>

definition AUDIT_TIMELINE_MAX_RANGE :: int where
  "AUDIT_TIMELINE_MAX_RANGE = 31 * 24 * 3600 * 1000000"

definition day_micros :: int where
  "day_micros = 24 * 3600 * 1000000"

text \<open>An optional instant; \<open>None\<close> and the empty string are absent.\<close>

definition parse_if_given ::
  "(string \<Rightarrow> int option) \<Rightarrow> string option \<Rightarrow> int \<Rightarrow> identity_error + int" where
  "parse_if_given parse t dflt =
     (case t of None \<Rightarrow> Inr dflt
      | Some x \<Rightarrow> if x = [] then Inr dflt else of_option InvalidValue (parse x))"

definition resolve_audit_range ::
  "(string \<Rightarrow> int option) \<Rightarrow> string option \<Rightarrow> string option \<Rightarrow> int \<Rightarrow> identity_error + int \<times> int"
  where
  "resolve_audit_range parse from_time to_time now =
     bind_res (parse_if_given parse to_time now) (\<lambda>hi.
     bind_res (parse_if_given parse from_time (hi - day_micros)) (\<lambda>lo.
       if lo \<ge> hi then Inl InvalidValue
       else if hi - lo > AUDIT_TIMELINE_MAX_RANGE then Inl InvalidValue
       else Inr (lo, hi)))"

record timeline_request =
  tr_from_time :: "string option"
  tr_to_time :: "string option"
  tr_decision :: "authorization_outcome option"
  tr_agent_id :: "string option"
  tr_principal_id :: "string option"
  tr_limit :: "int option"
  tr_cursor :: "string option"

record audit_timeline_page =
  atp_items :: "audit_event list"
  atp_next_cursor :: "string option"
  atp_tool_usage :: "audit_tool_usage list"

definition given :: "string option \<Rightarrow> string" where
  "given x = (case x of None \<Rightarrow> [] | Some v \<Rightarrow> v)"

text \<open>The matching events, newest first; ties by event id, then by order of arrival.\<close>

definition timeline_matches ::
  "(string \<Rightarrow> int option) \<Rightarrow> int \<Rightarrow> int \<Rightarrow> authorization_outcome option \<Rightarrow> string \<Rightarrow> string
     \<Rightarrow> audit_event list \<Rightarrow> audit_event list" where
  "timeline_matches parse lo hi decision agent_id principal_id es =
     (let at = (\<lambda>e. the (parse (ae_timestamp e)));
          matching = filter (\<lambda>e. lo \<le> at e \<and> at e < hi
              \<and> (decision = None \<or> Some (ae_decision e) = decision)
              \<and> (agent_id = [] \<or> ae_agent_id e = agent_id)
              \<and> (principal_id = [] \<or> ae_principal_id e = principal_id)) es
      in rev (sort_key (\<lambda>e. (at e, ae_event_id e)) (rev matching)))"

definition start_timeline ::
  "(string \<Rightarrow> int option) \<Rightarrow> (int \<Rightarrow> string) \<Rightarrow> int \<Rightarrow> timeline_request \<Rightarrow> identity_store
     \<Rightarrow> identity_error + timeline_cursor" where
  "start_timeline parse fmt now r s =
     (let page_limit = (case tr_limit r of None \<Rightarrow> 50 | Some n \<Rightarrow> n) in
      if page_limit < 1 \<or> page_limit > 200 then Inl InvalidValue
      else bind_res (resolve_audit_range parse (tr_from_time r) (tr_to_time r) now)
        (\<lambda>(lo, hi).
          if list_ex (\<lambda>e. parse (ae_timestamp e) = None) (st_audit_events s)
          then Inl InvalidValue
          else Inr \<lparr>tc_query = \<lparr>tq_from_time = fmt lo, tq_to_time = fmt hi,
                      tq_decision = tr_decision r, tq_agent_id = given (tr_agent_id r),
                      tq_principal_id = given (tr_principal_id r), tq_limit = page_limit\<rparr>,
                    tc_items = timeline_matches parse lo hi (tr_decision r)
                      (given (tr_agent_id r)) (given (tr_principal_id r)) (st_audit_events s),
                    tc_offset = 0\<rparr>))"

definition resupplied ::
  "(string \<Rightarrow> int option) \<Rightarrow> (int \<Rightarrow> string) \<Rightarrow> string option \<Rightarrow> identity_error + string option" where
  "resupplied parse fmt t =
     (case t of None \<Rightarrow> Inr None
      | Some x \<Rightarrow> if x = [] then Inr None
                  else bind_res (of_option InvalidValue (parse x)) (\<lambda>i. Inr (Some (fmt i))))"

definition resume_timeline ::
  "(string \<Rightarrow> int option) \<Rightarrow> (int \<Rightarrow> string) \<Rightarrow> int \<Rightarrow> timeline_request \<Rightarrow> timeline_cursor
     \<Rightarrow> identity_error + timeline_cursor" where
  "resume_timeline parse fmt now r c =
     bind_res (resupplied parse fmt (tr_from_time r)) (\<lambda>from_time.
     bind_res (resupplied parse fmt (tr_to_time r)) (\<lambda>to_time.
       let q = tc_query c in
       if from_time \<noteq> None \<and> from_time \<noteq> Some (tq_from_time q)
          \<or> to_time \<noteq> None \<and> to_time \<noteq> Some (tq_to_time q)
          \<or> tr_decision r \<noteq> None \<and> tr_decision r \<noteq> tq_decision q
          \<or> tr_agent_id r \<noteq> None \<and> tr_agent_id r \<noteq> Some (tq_agent_id q)
          \<or> tr_principal_id r \<noteq> None \<and> tr_principal_id r \<noteq> Some (tq_principal_id q)
          \<or> tr_limit r \<noteq> None \<and> tr_limit r \<noteq> Some (tq_limit q)
       then Inl InvalidValue
       else bind_res
         (resolve_audit_range parse (Some (tq_from_time q)) (Some (tq_to_time q)) now)
         (\<lambda>_. Inr c)))"

definition list_audit_timeline ::
  "(string \<Rightarrow> int option) \<Rightarrow> (int \<Rightarrow> string) \<Rightarrow> int \<Rightarrow> string \<Rightarrow> timeline_request
     \<Rightarrow> identity_store \<Rightarrow> identity_error + identity_store \<times> audit_timeline_page" where
  "list_audit_timeline parse fmt now new_cursor r s =
     bind_res
       (case tr_cursor r of
          None \<Rightarrow> start_timeline parse fmt now r s
        | Some token \<Rightarrow>
            bind_res (of_option InvalidValue (dget (st_audit_timeline_cursors s) token))
              (resume_timeline parse fmt now r))
       (\<lambda>c.
          let start = tc_offset c;
              stop = start + nat (tq_limit (tc_query c));
              items = take (nat (tq_limit (tc_query c))) (drop start (tc_items c));
              more = (stop < length (tc_items c))
          in Inr (if more
                  then s\<lparr>st_audit_timeline_cursors :=
                           dput new_cursor (c\<lparr>tc_offset := stop\<rparr>) (st_audit_timeline_cursors s)\<rparr>
                  else s,
                  \<lparr>atp_items = items,
                   atp_next_cursor = (if more then Some new_cursor else None),
                   atp_tool_usage = collect_audit_tool_usage items
                     (filter (\<lambda>(i, _). i \<in> set (audit_tool_usage_invocation_ids items))
                       (st_invocation_usage s)) [] []\<rparr>))"

section \<open>Interpretations and lemmas\<close>

interpretation usage_rows: row_table
  "\<lambda>s i. dget (st_invocation_usage s) i" put_invocation_usage iu_invocation_id
  by unfold_locales (simp add: put_invocation_usage_def)

text \<open>Idempotent appends: \<open>ev\<close> is the event a caller builds for an invocation and a key.\<close>

definition append_event_for ::
  "(string \<times> string \<Rightarrow> audit_event) \<Rightarrow> string \<times> string \<Rightarrow> identity_store
     \<Rightarrow> identity_store \<times> bool" where
  "append_event_for ev k s = append_audit_once ((ev k)\<lparr>ae_invocation_id := fst k\<rparr>) (snd k) s"

interpretation idempotent_appends: claim_register
  "append_event_for ev" "\<lambda>s. set (st_audit_idempotency_keys s)" for ev
  by unfold_locales (auto simp: append_event_for_def append_audit_once_def Let_def)

text \<open>The events written by a run of claims, in order.\<close>

fun first_of :: "'k set \<Rightarrow> 'k list \<Rightarrow> 'k list" where
  "first_of seen [] = []"
| "first_of seen (k # ks) =
     (if k \<in> seen then first_of seen ks else k # first_of (insert k seen) ks)"

lemma events_of_claims:
  "st_audit_events (fst (run_claims (append_event_for ev) ks s)) =
     st_audit_events s @
     map (\<lambda>k. (ev k)\<lparr>ae_invocation_id := fst k\<rparr>) (first_of (set (st_audit_idempotency_keys s)) ks)"
  by (induction ks arbitrary: s) (auto simp: append_event_for_def append_audit_once_def Let_def)

lemma collect_length:
  "map atu_event_id (collect_audit_tool_usage es found un r) = map ae_event_id (filter is_invoke_row es)"
  by (induction es) (auto simp: collect_audit_tool_usage_def bare_usage_def audit_tool_usage_for_def
      Let_def split: option.splits prod.splits)

section \<open>Paging\<close>

definition next_page_request :: "string \<Rightarrow> timeline_request" where
  "next_page_request token = \<lparr>tr_from_time = None, tr_to_time = None, tr_decision = None,
     tr_agent_id = None, tr_principal_id = None, tr_limit = None, tr_cursor = Some token\<rparr>"

text \<open>
  A client that follows \<open>next_cursor\<close>; the fresh token of each page is \<open>tokens\<close> of the number
  of pages left to fetch. \<open>None\<close> is a refused request, or no end within the given pages.
\<close>

fun follow_pages ::
  "(string \<Rightarrow> int option) \<Rightarrow> (int \<Rightarrow> string) \<Rightarrow> int \<Rightarrow> (nat \<Rightarrow> string) \<Rightarrow> nat \<Rightarrow> timeline_request
     \<Rightarrow> identity_store \<Rightarrow> audit_event list list option" where
  "follow_pages parse fmt now tokens 0 r s = None"
| "follow_pages parse fmt now tokens (Suc n) r s =
     (case list_audit_timeline parse fmt now (tokens n) r s of
        Inl _ \<Rightarrow> None
      | Inr (s', page) \<Rightarrow>
          (case atp_next_cursor page of
             None \<Rightarrow> Some [atp_items page]
           | Some token \<Rightarrow>
               map_option (Cons (atp_items page))
                 (follow_pages parse fmt now tokens n (next_page_request token) s')))"

lemma resume_next_page:
  assumes "\<And>t. parse (fmt t) = Some t" "\<And>t. fmt t \<noteq> []"
    and "tq_from_time (tc_query c) = fmt a" "tq_to_time (tc_query c) = fmt b"
    and "a < b" "b - a \<le> AUDIT_TIMELINE_MAX_RANGE"
  shows "resume_timeline parse fmt now (next_page_request token) c = Inr c"
  using assms by (simp add: resume_timeline_def next_page_request_def resupplied_def
      resolve_audit_range_def parse_if_given_def Let_def)

lemma resolve_audit_range_Inr:
  "resolve_audit_range parse f t now = Inr (a, b) \<Longrightarrow> a < b \<and> b - a \<le> AUDIT_TIMELINE_MAX_RANGE"
  by (auto simp: resolve_audit_range_def bind_res_Inr_iff split: if_splits)

text \<open>The invariant of a query in progress.\<close>

definition valid_cursor :: "(int \<Rightarrow> string) \<Rightarrow> timeline_cursor \<Rightarrow> bool" where
  "valid_cursor fmt c \<longleftrightarrow>
     (\<exists>a b. tq_from_time (tc_query c) = fmt a \<and> tq_to_time (tc_query c) = fmt b \<and> a < b
        \<and> b - a \<le> AUDIT_TIMELINE_MAX_RANGE)
     \<and> 1 \<le> tq_limit (tc_query c) \<and> tc_offset c \<le> length (tc_items c)"

lemma start_timeline_valid:
  "start_timeline parse fmt now r s = Inr c \<Longrightarrow> valid_cursor fmt c"
  by (auto simp: start_timeline_def valid_cursor_def bind_res_Inr_iff Let_def
      split: if_splits prod.splits) (blast dest: resolve_audit_range_Inr)

lemma follow_pages_from_cursor:
  assumes fmt: "\<And>t. parse (fmt t) = Some t" "\<And>t. fmt t \<noteq> []"
    and "dget (st_audit_timeline_cursors s) token = Some c" "valid_cursor fmt c"
    and "length (tc_items c) - tc_offset c < n"
  shows "\<exists>pages. follow_pages parse fmt now tokens n (next_page_request token) s = Some pages
    \<and> concat pages = drop (tc_offset c) (tc_items c)
    \<and> (\<forall>page \<in> set pages. int (length page) \<le> tq_limit (tc_query c))"
  using assms(3-)
proof (induction n arbitrary: s token c)
  case (Suc n)
  let ?l = "nat (tq_limit (tc_query c))"
  let ?c = "c\<lparr>tc_offset := tc_offset c + ?l\<rparr>"
  let ?s = "s\<lparr>st_audit_timeline_cursors := dput (tokens n) ?c (st_audit_timeline_cursors s)\<rparr>"
  from Suc.prems(2) obtain a b where
    "tq_from_time (tc_query c) = fmt a" "tq_to_time (tc_query c) = fmt b" "a < b"
    "b - a \<le> AUDIT_TIMELINE_MAX_RANGE"
    by (auto simp: valid_cursor_def)
  note resume = resume_next_page [of parse fmt, OF fmt this, of now token]
  from Suc.prems(2) have l: "1 \<le> ?l" by (auto simp: valid_cursor_def)
  show ?case
  proof (cases "tc_offset c + ?l < length (tc_items c)")
    case True
    then have "valid_cursor fmt ?c"
      using Suc.prems(2) by (simp add: valid_cursor_def)
    moreover have "length (tc_items ?c) - tc_offset ?c < n"
      using Suc.prems(3) l True by simp
    moreover have "dget (st_audit_timeline_cursors ?s) (tokens n) = Some ?c"
      by simp
    ultimately obtain pages where pages:
      "follow_pages parse fmt now tokens n (next_page_request (tokens n)) ?s = Some pages"
      "concat pages = drop (tc_offset ?c) (tc_items ?c)"
      "\<forall>page \<in> set pages. int (length page) \<le> tq_limit (tc_query ?c)"
      using Suc.IH by blast
    have "take ?l (drop (tc_offset c) (tc_items c)) @ drop (tc_offset ?c) (tc_items ?c) =
        drop (tc_offset c) (tc_items c)"
      using append_take_drop_id [of ?l "drop (tc_offset c) (tc_items c)"]
      by (simp add: add.commute)
    with pages True Suc.prems(1) resume l show ?thesis
      by (auto simp: list_audit_timeline_def next_page_request_def Let_def)
  next
    case False
    then show ?thesis
      using Suc.prems(1) resume l
      by (auto simp: list_audit_timeline_def next_page_request_def Let_def)
  qed
qed simp

section \<open>Properties\<close>

text \<open>Retried audit writes leave exactly one row per idempotency key. Whatever sequence of
  appends is attempted for pairs of an invocation and a key, in any order and with any
  repetitions, an attempt reports success iff its pair was not recorded before, and the log
  grows by exactly the events of the first attempt of each new pair, in order.\<close>

theorem audit_appended_once_per_key:
  "snd (run_claims (append_event_for ev) ks s) =
     first_seen (set (st_audit_idempotency_keys s)) ks \<and>
   st_audit_events (fst (run_claims (append_event_for ev) ks s)) =
     st_audit_events s @
     map (\<lambda>k. (ev k)\<lparr>ae_invocation_id := fst k\<rparr>)
       (first_of (set (st_audit_idempotency_keys s)) ks)"
  by (simp add: idempotent_appends.run_claims_results events_of_claims)

text \<open>C38: Paging the audit timeline loses and repeats nothing. For an accepted first request,
  a client that follows \<open>next_cursor\<close> always reaches the last page, within as many pages as there
  are matching events plus one; the pages concatenate to all matching events, newest first,
  and no page is longer than the requested limit.\<close>

theorem timeline_pages_complete:
  assumes "\<And>t. parse (fmt t) = Some t" "\<And>t. fmt t \<noteq> []"
    and "tr_cursor r = None" "start_timeline parse fmt now r s = Inr c"
    and "length (tc_items c) < n"
  shows "\<exists>pages. follow_pages parse fmt now tokens n r s = Some pages
    \<and> concat pages = tc_items c
    \<and> (\<forall>page \<in> set pages. int (length page) \<le> tq_limit (tc_query c))"
proof -
  let ?l = "nat (tq_limit (tc_query c))"
  let ?c = "c\<lparr>tc_offset := ?l\<rparr>"
  from assms(5) obtain m where n: "n = Suc m" by (cases n) auto
  let ?s = "s\<lparr>st_audit_timeline_cursors := dput (tokens m) ?c (st_audit_timeline_cursors s)\<rparr>"
  have valid: "valid_cursor fmt c" using assms(4) by (rule start_timeline_valid)
  then have l: "1 \<le> ?l" by (auto simp: valid_cursor_def)
  have offset: "tc_offset c = 0"
    using assms(4) by (auto simp: start_timeline_def bind_res_Inr_iff Let_def split: if_splits)
  show ?thesis
  proof (cases "?l < length (tc_items c)")
    case True
    then have "valid_cursor fmt ?c" using valid by (simp add: valid_cursor_def)
    moreover have "length (tc_items ?c) - tc_offset ?c < m" using assms(5) n l True by simp
    moreover have "dget (st_audit_timeline_cursors ?s) (tokens m) = Some ?c" by simp
    ultimately obtain pages where
      "follow_pages parse fmt now tokens m (next_page_request (tokens m)) ?s = Some pages"
      "concat pages = drop ?l (tc_items c)"
      "\<forall>page \<in> set pages. int (length page) \<le> tq_limit (tc_query c)"
      using follow_pages_from_cursor [of parse fmt ?s "tokens m" ?c m now tokens] assms(1,2)
      by auto
    with True assms(3,4) l offset n show ?thesis
      by (auto simp: list_audit_timeline_def Let_def)
  next
    case False
    with assms(3,4) l offset n show ?thesis
      by (auto simp: list_audit_timeline_def Let_def)
  qed
qed

text \<open>A concrete clock format for the witness: a sign and a unary count.\<close>

definition unary_fmt :: "int \<Rightarrow> string" where
  "unary_fmt t = (if 0 \<le> t then CHR ''+'' # replicate (nat t) (CHR ''x'')
                  else CHR ''-'' # replicate (nat (- t)) (CHR ''x''))"

fun unary_parse :: "string \<Rightarrow> int option" where
  "unary_parse [] = None"
| "unary_parse (c # xs) =
     (if c = CHR ''+'' then Some (int (length xs))
      else if c = CHR ''-'' then Some (- int (length xs)) else None)"

lemma unary_roundtrip: "unary_parse (unary_fmt t) = Some t"
  by (simp add: unary_fmt_def)

lemma unary_fmt_nonempty: "unary_fmt t \<noteq> []"
  by (simp add: unary_fmt_def)

definition sample_event :: "string \<Rightarrow> string \<Rightarrow> audit_event" where
  "sample_event event_id timestamp = \<lparr>ae_event_id = event_id, ae_invocation_id = ''i'',
     ae_principal_id = ''p'', ae_agent_id = ''a'', ae_asset_id = [], ae_operation_id = [],
     ae_connection_id = [], ae_capabilities = [], ae_decision = ALLOW, ae_reason = ALLOWED,
     ae_target = [], ae_timestamp = timestamp, ae_workload_id = [],
     ae_event_type = ''AGENT_INVOKE'', ae_severity = ''INFO'', ae_failure_type = [],
     ae_mode = [], ae_policy_deployment_outcome = [], ae_policy_revision = 0,
     ae_policy_hash = [], ae_validation_findings = [], ae_request_justification = [],
     ae_trace_id = [], ae_span_id = [], ae_invocation_outcome = []\<rparr>"

definition sample_request :: timeline_request where
  "sample_request = \<lparr>tr_from_time = Some ''+'', tr_to_time = Some ''+xxxx'',
     tr_decision = None, tr_agent_id = None, tr_principal_id = None, tr_limit = Some 2,
     tr_cursor = None\<rparr>"

definition sample_log :: identity_store where
  "sample_log = empty_store\<lparr>st_audit_events :=
     [sample_event ''e1'' ''+x'', sample_event ''e2'' ''+xxx'', sample_event ''e3'' ''+xx'']\<rparr>"

theorem timeline_pages_complete_witness:
  "\<exists>pages. follow_pages unary_parse unary_fmt 9 (\<lambda>_. ''t'') 4 sample_request sample_log = Some pages
    \<and> map ae_event_id (concat pages) = [''e2'', ''e3'', ''e1'']"
proof -
  let ?items = "timeline_matches unary_parse 0 4 None [] [] (st_audit_events sample_log)"
  have items: "map ae_event_id ?items = [''e2'', ''e3'', ''e1'']"
    by code_simp
  let ?c = "\<lparr>tc_query = \<lparr>tq_from_time = unary_fmt 0, tq_to_time = unary_fmt 4, tq_decision = None,
      tq_agent_id = [], tq_principal_id = [], tq_limit = 2\<rparr>, tc_items = ?items, tc_offset = 0\<rparr>"
  have start: "start_timeline unary_parse unary_fmt 9 sample_request sample_log = Inr ?c"
    by (simp add: start_timeline_def sample_request_def sample_log_def sample_event_def
        resolve_audit_range_def parse_if_given_def AUDIT_TIMELINE_MAX_RANGE_def given_def)
  have n: "length (tc_items ?c) < 4"
    using arg_cong [OF items, of length] by simp
  have "tr_cursor sample_request = None" by (simp add: sample_request_def)
  then obtain pages where
    "follow_pages unary_parse unary_fmt 9 (\<lambda>_. ''t'') 4 sample_request sample_log = Some pages"
    "concat pages = tc_items ?c"
    using timeline_pages_complete [OF unary_roundtrip unary_fmt_nonempty _ start n] by blast
  with items show ?thesis by auto
qed

end
