(* ===== verification/Authorization.thy ===== *)
theory Authorization
  imports Sample_Ledger Audit_Log
begin

text \<open>
  The advisory decision service (\<open>identity/authorization.py\<close>): one decision about an asset
  operation of a delegation, in the agent-policy mode (an approved tool binding of the current
  version) or the legacy mode (asset capability, connection, ceiling and grant), and the one
  audit event every decision writes. The clock, the fresh event id, the current-version
  lookup, the time formatter and the audit writer (which may fail) are the environment; the
  two loggers are lists in the service state.
\<close>

section \<open>State and environment\<close>

record authorization_env =
  ze_asset_version :: "string \<Rightarrow> string"
  ze_now :: int
  ze_new_id :: string
  ze_event_clock :: int
  ze_format_seconds :: "int \<Rightarrow> string"
  ze_append_audit :: "audit_event \<Rightarrow> identity_store \<Rightarrow> identity_store option"

record decision_log_entry =
  dl_decision :: authorization_outcome
  dl_invocation_id :: string
  dl_reason :: decision_reason
  dl_span_id :: string
  dl_trace_id :: string

record authorization_service =
  zs_store :: identity_store
  zs_last_event_ns :: int
  zs_security_log :: "security_rejection_event list"
  zs_decision_log :: "decision_log_entry list"

text \<open>\<open>AuditWriteError\<close>, or an error of the ledger that escapes the service.\<close>

datatype authorization_error = AuditWriteError | LedgerError identity_error

fun mode_value :: "authorization_mode \<Rightarrow> string" where
  "mode_value LEGACY_DELEGATED = ''LEGACY_DELEGATED''"
| "mode_value AGENT_POLICY = ''AGENT_POLICY''"

section \<open>Event timestamps\<close>

definition zero_pad :: "nat \<Rightarrow> string \<Rightarrow> string" where
  "zero_pad n ds = replicate (n - length ds) (CHR ''0'') @ ds"

definition format_event_timestamp :: "(int \<Rightarrow> string) \<Rightarrow> int \<Rightarrow> string" where
  "format_event_timestamp fmt ns =
     fmt (ns div 1000000000) @ ''.'' @ zero_pad 9 (int_digits (ns mod 1000000000)) @ ''Z''"

definition next_event_ns :: "authorization_env \<Rightarrow> authorization_service \<Rightarrow> int" where
  "next_event_ns env z = max (ze_event_clock env) (zs_last_event_ns z + 1)"

section \<open>The verdict\<close>

record verdict =
  vd_outcome :: authorization_outcome
  vd_reason :: decision_reason
  vd_connection_id :: string
  vd_capabilities :: "string list"
  vd_target :: string

abbreviation deny :: "decision_reason \<Rightarrow> string \<Rightarrow> string list \<Rightarrow> string \<Rightarrow> verdict" where
  "deny r cid caps t \<equiv> \<lparr>vd_outcome = DENY, vd_reason = r, vd_connection_id = cid,
     vd_capabilities = caps, vd_target = t\<rparr>"

abbreviation allow :: "string \<Rightarrow> string list \<Rightarrow> string \<Rightarrow> verdict" where
  "allow cid caps t \<equiv> \<lparr>vd_outcome = ALLOW, vd_reason = ALLOWED, vd_connection_id = cid,
     vd_capabilities = caps, vd_target = t\<rparr>"

definition agent_policy_verdict ::
  "identity_store \<Rightarrow> string \<Rightarrow> delegation_context \<Rightarrow> string \<Rightarrow> string \<Rightarrow> verdict" where
  "agent_policy_verdict s version c asset_id operation_id =
     (case get_agent_tool_binding s (dc_agent_id c) asset_id version operation_id of
        Inl _ \<Rightarrow> deny AGENT_TOOL_NOT_BOUND [] [] []
      | Inr b \<Rightarrow>
          if atb_approval_state b \<noteq> Approval_APPROVED \<or> atb_desired_state b \<noteq> Desired_ALLOWED
          then deny AGENT_TOOL_NOT_BOUND [] [] []
          else allow [] [] [])"

definition granted_capabilities :: "identity_store \<Rightarrow> int \<Rightarrow> string \<Rightarrow> string \<Rightarrow> string list" where
  "granted_capabilities s now principal_id connection_id =
     concat (map ag_capabilities
       (filter (\<lambda>g. ag_status g = Grant_ACTIVE \<and>
                 (case ag_expires_at g of None \<Rightarrow> True | Some e \<Rightarrow> now < e))
         (list_grants s (Some principal_id) (Some connection_id) [])))"

definition active_capability_names :: "connection_capability list \<Rightarrow> string list" where
  "active_capability_names caps = map cc_name (filter (\<lambda>c. cc_status c = Capability_ACTIVE) caps)"

definition legacy_verdict ::
  "identity_store \<Rightarrow> int \<Rightarrow> string \<Rightarrow> delegation_context \<Rightarrow> string \<Rightarrow> string
     \<Rightarrow> identity_error + verdict" where
  "legacy_verdict s now version c asset_id operation_id =
     (case get_asset_capability s asset_id operation_id of
        Inl _ \<Rightarrow> Inr (deny ASSET_CAPABILITY_NOT_FOUND [] [] [])
      | Inr ac \<Rightarrow>
          (let cid = ac_connection_id ac; caps = sort (remdups (ac_required_capabilities ac)) in
           if ac_asset_version ac \<noteq> version then Inr (deny ASSET_VERSION_MISMATCH cid caps [])
           else if ac_status ac \<noteq> AssetCap_APPROVED
           then Inr (deny ASSET_CAPABILITY_NOT_APPROVED cid caps [])
           else (case get_connection s cid of
             Inl _ \<Rightarrow> Inr (deny CONNECTION_INACTIVE cid caps [])
           | Inr cn \<Rightarrow>
               if cn_status cn \<noteq> Connection_ACTIVE then Inr (deny CONNECTION_INACTIVE cid caps [])
               else bind_res (list_connection_capabilities s cid) (\<lambda>listed.
                 if caps = [] \<or> \<not> set caps \<subseteq> set (active_capability_names listed)
                 then Inr (deny CAPABILITY_INACTIVE cid caps (cn_target cn))
                 else if \<not> set caps \<subseteq> set (cn_ceiling cn)
                 then Inr (deny CAPABILITY_OUTSIDE_CEILING cid caps (cn_target cn))
                 else if \<not> set caps \<subseteq>
                            set (granted_capabilities s now (dc_principal_id c) cid)
                 then Inr (deny CAPABILITY_NOT_GRANTED cid caps (cn_target cn))
                 else Inr (allow cid caps (cn_target cn))))))"

definition authorization_verdict ::
  "authorization_env \<Rightarrow> identity_store \<Rightarrow> delegation_context \<Rightarrow> string \<Rightarrow> string
     \<Rightarrow> authorization_mode \<Rightarrow> identity_error + verdict" where
  "authorization_verdict env s c asset_id operation_id mode =
     (if asset_id \<notin> set (dc_allowed_asset_ids c) then Inr (deny ASSET_NOT_DELEGATED [] [] [])
      else (let version = ze_asset_version env asset_id in
        if version = [] then Inr (deny ASSET_INACTIVE [] [] [])
        else case mode of
          AGENT_POLICY \<Rightarrow> Inr (agent_policy_verdict s version c asset_id operation_id)
        | LEGACY_DELEGATED \<Rightarrow> legacy_verdict s (ze_now env) version c asset_id operation_id))"

section \<open>Recording\<close>

definition decision_event ::
  "authorization_env \<Rightarrow> string \<Rightarrow> delegation_context \<Rightarrow> string \<Rightarrow> string \<Rightarrow> verdict
     \<Rightarrow> authorization_mode \<Rightarrow> string \<Rightarrow> string \<Rightarrow> audit_event" where
  "decision_event env timestamp c asset_id operation_id v mode trace_id span_id =
     (let security = (vd_reason v = ASSET_NOT_DELEGATED) in
      \<lparr>ae_event_id = ze_new_id env, ae_invocation_id = dc_invocation_id c,
       ae_principal_id = dc_principal_id c, ae_agent_id = dc_agent_id c,
       ae_asset_id = asset_id, ae_operation_id = operation_id,
       ae_connection_id = vd_connection_id v, ae_capabilities = vd_capabilities v,
       ae_decision = vd_outcome v, ae_reason = vd_reason v, ae_target = vd_target v,
       ae_timestamp = timestamp, ae_workload_id = dc_workload_id c,
       ae_event_type = (if security then ''SECURITY_REJECTION'' else ''AUTHORIZATION_DECISION''),
       ae_severity = (if security then ''WARNING'' else ''INFO''),
       ae_failure_type = (if security then ''DELEGATION_ASSET_NOT_ALLOWED'' else []),
       ae_mode = mode_value mode, ae_policy_deployment_outcome = [], ae_policy_revision = 0,
       ae_policy_hash = [], ae_validation_findings = [], ae_request_justification = [],
       ae_trace_id = trace_id, ae_span_id = span_id, ae_invocation_outcome = []\<rparr>)"

definition security_rejection ::
  "string \<Rightarrow> delegation_context \<Rightarrow> string \<Rightarrow> string \<Rightarrow> decision_reason \<Rightarrow> security_rejection_event"
  where
  "security_rejection timestamp c asset_id operation_id reason =
     \<lparr>sr_event_type = ''SECURITY_REJECTION'', sr_severity = ''WARNING'', sr_reason_code = reason,
      sr_failure_type = DELEGATION_ASSET_NOT_ALLOWED, sr_timestamp = timestamp,
      sr_invocation_id = dc_invocation_id c, sr_workload_id = dc_workload_id c,
      sr_principal_id = dc_principal_id c, sr_agent_id = dc_agent_id c,
      sr_asset_id = asset_id, sr_operation_id = operation_id\<rparr>"

definition decision_of :: "delegation_context \<Rightarrow> string \<Rightarrow> verdict \<Rightarrow> authorization_decision" where
  "decision_of c trace_id v =
     \<lparr>ad_decision = vd_outcome v, ad_reason = vd_reason v, ad_invocation_id = dc_invocation_id c,
      ad_principal_id = dc_principal_id c, ad_connection_id = vd_connection_id v,
      ad_capabilities = vd_capabilities v, ad_trace_id = trace_id\<rparr>"

definition record_decision ::
  "authorization_env \<Rightarrow> delegation_context \<Rightarrow> string \<Rightarrow> string \<Rightarrow> verdict \<Rightarrow> authorization_mode
     \<Rightarrow> string \<Rightarrow> string \<Rightarrow> authorization_service
     \<Rightarrow> authorization_service \<times> (authorization_error + authorization_decision)" where
  "record_decision env c asset_id operation_id v mode trace_id span_id z =
     (let ns = next_event_ns env z;
          timestamp = format_event_timestamp (ze_format_seconds env) ns;
          event = decision_event env timestamp c asset_id operation_id v mode trace_id span_id;
          z1 = z\<lparr>zs_last_event_ns := ns\<rparr>;
          z2 = (if vd_reason v = ASSET_NOT_DELEGATED
                then z1\<lparr>zs_security_log := zs_security_log z1 @
                         [security_rejection timestamp c asset_id operation_id (vd_reason v)]\<rparr>
                else z1)
      in case ze_append_audit env event (zs_store z2) of
           None \<Rightarrow> (z2, Inl AuditWriteError)
         | Some s \<Rightarrow>
             (z2\<lparr>zs_store := s, zs_decision_log := zs_decision_log z2 @
                [\<lparr>dl_decision = vd_outcome v, dl_invocation_id = dc_invocation_id c,
                  dl_reason = vd_reason v, dl_span_id = span_id, dl_trace_id = trace_id\<rparr>]\<rparr>,
              Inr (decision_of c trace_id v)))"

definition decide ::
  "authorization_env \<Rightarrow> delegation_context \<Rightarrow> string \<Rightarrow> string \<Rightarrow> authorization_mode
     \<Rightarrow> string \<Rightarrow> string \<Rightarrow> authorization_service
     \<Rightarrow> authorization_service \<times> (authorization_error + authorization_decision)" where
  "decide env c asset_id operation_id mode trace_id span_id z =
     (case authorization_verdict env (zs_store z) c asset_id operation_id mode of
        Inl e \<Rightarrow> (z, Inl (LedgerError e))
      | Inr v \<Rightarrow> record_decision env c asset_id operation_id v mode trace_id span_id z)"


section \<open>Order of event timestamps\<close>

lemma append_less_append:
  fixes xs ys us vs :: "'a::linorder list"
  assumes "length xs = length ys"
  shows "xs @ us < ys @ vs \<longleftrightarrow> xs < ys \<or> xs = ys \<and> us < vs"
  using assms by (induction xs ys rule: list_induct2) auto

text \<open>The last \<open>n\<close> decimal digits of a number, zero-padded.\<close>

fun padded :: "nat \<Rightarrow> nat \<Rightarrow> string" where
  "padded 0 k = []"
| "padded (Suc n) k = padded n (k div 10) @ [char_of (48 + k mod 10)]"

lemma length_padded [simp]: "length (padded n k) = n"
  by (induction n arbitrary: k) auto

lemma padded_zero: "padded n 0 = replicate n (CHR ''0'')"
proof (induction n)
  case (Suc n)
  have "(char_of (48 :: nat) :: char) = CHR ''0''" by code_simp
  with Suc show ?case by (simp add: replicate_append_same)
qed simp

lemma padded_digits:
  "k < 10 ^ Suc n \<Longrightarrow>
     length (nat_digits k) \<le> Suc n \<and> zero_pad (Suc n) (nat_digits k) = padded (Suc n) k"
proof (induction n arbitrary: k)
  case 0
  then show ?case by (simp add: nat_digits.simps [of k] zero_pad_def)
next
  case (Suc n)
  show ?case
  proof (cases "k < 10")
    case True
    then show ?thesis
      by (simp add: nat_digits.simps [of k] zero_pad_def padded_zero
          replicate_append_same [symmetric])
  next
    case False
    with Suc.prems have "k div 10 < 10 ^ Suc n" by (simp add: less_mult_imp_div_less)
    from Suc.IH [OF this] False show ?thesis
      by (simp add: nat_digits.simps [of k] zero_pad_def)
  qed
qed

lemma digit_less: "a < 10 \<Longrightarrow> b < 10 \<Longrightarrow> (char_of (48 + a) :: char) < char_of (48 + b) \<longleftrightarrow> a < (b::nat)"
  by (simp add: less_char_def)

lemma padded_less: "a < b \<Longrightarrow> b < 10 ^ n \<Longrightarrow> padded n a < padded n b"
proof (induction n arbitrary: a b)
  case (Suc n)
  from Suc.prems have "b div 10 < 10 ^ n" by (simp add: less_mult_imp_div_less)
  show ?case
  proof (cases "a div 10 < b div 10")
    case True
    with Suc.IH \<open>b div 10 < 10 ^ n\<close> show ?thesis by (simp add: append_less_append)
  next
    case False
    with Suc.prems(1) have "a div 10 = b div 10" by (simp add: div_le_mono order_antisym)
    moreover from this Suc.prems(1) have "a mod 10 < b mod 10"
      by (metis add_less_cancel_left mult_div_mod_eq)
    ultimately show ?thesis by (simp add: append_less_append digit_less)
  qed
qed simp

text \<open>
  What the decision order needs of \<open>strftime\<close>: on the seconds in use it is monotone and of
  constant width (\<open>YYYY-MM-DDTHH:MM:SS\<close>).
\<close>

definition orders_seconds :: "(int \<Rightarrow> string) \<Rightarrow> int \<Rightarrow> bool" where
  "orders_seconds fmt n \<longleftrightarrow>
     (\<forall>i j. 0 \<le> i \<and> i < j \<and> j < n \<longrightarrow> fmt i < fmt j \<and> length (fmt i) = length (fmt j))"

lemma format_event_timestamp_less:
  assumes "orders_seconds fmt n" "0 \<le> x" "x < y" "y < n * 1000000000"
  shows "format_event_timestamp fmt x < format_event_timestamp fmt y"
proof -
  let ?g = "1000000000 :: int"
  have pad: "zero_pad 9 (int_digits (z mod ?g)) = padded 9 (nat (z mod ?g))" for z
  proof -
    have "\<not> z mod ?g < 0" by (simp add: not_less)
    moreover have "nat (z mod ?g) < 10 ^ Suc 8" by (simp add: nat_less_iff)
    ultimately show ?thesis
      using padded_digits [of "nat (z mod ?g)" 8] by (simp only: int_digits_def if_False) simp
  qed
  show ?thesis
  proof (cases "x div ?g < y div ?g")
    case True
    have "y div ?g < n" using assms(4) by linarith
    with assms(1,2) True have "fmt (x div ?g) < fmt (y div ?g)"
      "length (fmt (x div ?g)) = length (fmt (y div ?g))"
      unfolding orders_seconds_def by (metis pos_imp_zdiv_nonneg_iff zero_less_numeral)+
    then show ?thesis by (simp add: format_event_timestamp_def append_less_append)
  next
    case False
    have "x div ?g \<le> y div ?g" using assms(3) by (intro zdiv_mono1) simp_all
    with False have eq: "x div ?g = y div ?g" by simp
    with assms(3) have "x mod ?g < y mod ?g"
      by (metis add_less_cancel_left mult_div_mod_eq)
    then have "padded 9 (nat (x mod ?g)) < padded 9 (nat (y mod ?g))"
      by (intro padded_less) (simp_all add: nat_less_iff)
    with eq show ?thesis
      by (simp add: format_event_timestamp_def append_less_append pad)
  qed
qed

section \<open>Verdicts\<close>

lemma connection_listing:
  "get_connection s cid = Inr cn \<Longrightarrow> \<exists>listed. list_connection_capabilities s cid = Inr listed"
  by (simp add: list_connection_capabilities_def)

lemma verdict_total: "\<exists>v. authorization_verdict env s c a op mode = Inr v"
  by (auto simp: authorization_verdict_def legacy_verdict_def Let_def
      dest: connection_listing split: sum.split authorization_mode.split)

lemma granted_capabilities_mem:
  assumes "wf_dict (st_grants s)"
  shows "x \<in> set (granted_capabilities s now p cid) \<longleftrightarrow>
    (\<exists>k g. dget (st_grants s) k = Some g \<and> ag_principal_id g = p \<and> ag_connection_id g = cid \<and>
       ag_status g = Grant_ACTIVE \<and> (\<forall>e. ag_expires_at g = Some e \<longrightarrow> now < e) \<and>
       x \<in> set (ag_capabilities g))"
proof -
  have "x \<in> set (granted_capabilities s now p cid) \<longleftrightarrow>
      (\<exists>g \<in> set (dvalues (st_grants s)). ag_principal_id g = p \<and> ag_connection_id g = cid \<and>
         ag_status g = Grant_ACTIVE \<and> (\<forall>e. ag_expires_at g = Some e \<longrightarrow> now < e) \<and>
         x \<in> set (ag_capabilities g))"
    by (auto simp: granted_capabilities_def list_grants_def stripped_nonempty_def
        split: option.splits)
  then show ?thesis unfolding Bex_def dvalues_iff [OF assms] by blast
qed

lemma agent_policy_verdict_allow:
  "vd_outcome (agent_policy_verdict s version c a op) = ALLOW \<longleftrightarrow>
     (\<exists>b. get_agent_tool_binding s (dc_agent_id c) a version op = Inr b \<and>
        atb_approval_state b = Approval_APPROVED \<and> atb_desired_state b = Desired_ALLOWED)"
  by (auto simp: agent_policy_verdict_def split: sum.splits)

lemma legacy_verdict_allow:
  "(\<exists>v. legacy_verdict s now version c a op = Inr v \<and> vd_outcome v = ALLOW) \<longleftrightarrow>
     (\<exists>ac cn listed. get_asset_capability s a op = Inr ac \<and>
        ac_asset_version ac = version \<and> ac_status ac = AssetCap_APPROVED \<and>
        get_connection s (ac_connection_id ac) = Inr cn \<and> cn_status cn = Connection_ACTIVE \<and>
        list_connection_capabilities s (ac_connection_id ac) = Inr listed \<and>
        ac_required_capabilities ac \<noteq> [] \<and>
        set (ac_required_capabilities ac) \<subseteq> set (active_capability_names listed)
          \<inter> set (cn_ceiling cn)
          \<inter> set (granted_capabilities s now (dc_principal_id c) (ac_connection_id ac)))"
proof (cases "get_asset_capability s a op")
  case ac: (Inr ac)
  have nil: "sort (remdups xs) = [] \<longleftrightarrow> xs = []" for xs :: "string list"
    by (metis remdups_eq_nil_iff set_empty set_sort)
  show ?thesis
  proof (cases "get_connection s (ac_connection_id ac)")
    case cn: (Inr cn)
    obtain listed where "list_connection_capabilities s (ac_connection_id ac) = Inr listed"
      using connection_listing [OF cn] by blast
    with ac cn show ?thesis by (auto simp: legacy_verdict_def Let_def nil)
  qed (use ac in \<open>auto simp: legacy_verdict_def Let_def\<close>)
qed (simp add: legacy_verdict_def)

lemma verdict_allowed_iff_reason:
  "authorization_verdict env s c a op mode = Inr v \<Longrightarrow> vd_outcome v = ALLOW \<longleftrightarrow> vd_reason v = ALLOWED"
  by (auto simp: authorization_verdict_def agent_policy_verdict_def legacy_verdict_def Let_def
      bind_res_Inr_iff split: if_splits authorization_mode.splits sum.splits)

text \<open>The effect of one decision whose verdict is known.\<close>

definition event_of ::
  "authorization_env \<Rightarrow> delegation_context \<Rightarrow> string \<Rightarrow> string \<Rightarrow> authorization_mode \<Rightarrow> string \<Rightarrow> string
     \<Rightarrow> authorization_service \<Rightarrow> verdict \<Rightarrow> audit_event" where
  "event_of env c a op mode t sp z v =
     decision_event env (format_event_timestamp (ze_format_seconds env) (next_event_ns env z))
       c a op v mode t sp"

lemma decide_effect:
  assumes "authorization_verdict env (zs_store z) c a op mode = Inr v"
  shows "zs_last_event_ns (fst (decide env c a op mode t sp z)) = next_event_ns env z"
    and "zs_store (fst (decide env c a op mode t sp z)) =
      (case ze_append_audit env (event_of env c a op mode t sp z v) (zs_store z) of
         None \<Rightarrow> zs_store z | Some s \<Rightarrow> s)"
    and "snd (decide env c a op mode t sp z) =
      (case ze_append_audit env (event_of env c a op mode t sp z v) (zs_store z) of
         None \<Rightarrow> Inl AuditWriteError | Some s \<Rightarrow> Inr (decision_of c t v))"
  using assms
  by (simp_all add: decide_def record_decision_def event_of_def Let_def split: option.split)

lemma decide_Inr_iff:
  assumes "authorization_verdict env (zs_store z) c a op mode = Inr v"
  shows "decide env c a op mode t sp z = (z', Inr d) \<longleftrightarrow>
    z' = fst (decide env c a op mode t sp z) \<and> d = decision_of c t v \<and>
    (\<exists>s. ze_append_audit env (event_of env c a op mode t sp z v) (zs_store z) = Some s)"
  using decide_effect(3) [OF assms, of t sp]
  by (cases "decide env c a op mode t sp z") (auto split: option.splits)

lemma decide_advances: "zs_last_event_ns z < zs_last_event_ns (fst (decide env c a op mode t sp z))"
proof -
  obtain v where "authorization_verdict env (zs_store z) c a op mode = Inr v"
    using verdict_total by blast
  from decide_effect(1) [OF this] show ?thesis by (simp add: next_event_ns_def)
qed

section \<open>Decisions in a row\<close>

record decision_request =
  rq_env :: authorization_env
  rq_context :: delegation_context
  rq_asset_id :: string
  rq_operation_id :: string
  rq_mode :: authorization_mode
  rq_trace_id :: string
  rq_span_id :: string

definition decide_request ::
  "decision_request \<Rightarrow> authorization_service
     \<Rightarrow> authorization_service \<times> (authorization_error + authorization_decision)" where
  "decide_request r z =
     decide (rq_env r) (rq_context r) (rq_asset_id r) (rq_operation_id r) (rq_mode r)
       (rq_trace_id r) (rq_span_id r) z"

fun run_decisions ::
  "decision_request list \<Rightarrow> authorization_service
     \<Rightarrow> authorization_service \<times> (authorization_error + authorization_decision) list" where
  "run_decisions [] z = (z, [])"
| "run_decisions (r # rs) z =
     map_prod id (Cons (snd (decide_request r z))) (run_decisions rs (fst (decide_request r z)))"

interpretation decision_service: monotone_system
  "\<lambda>r z. fst (decide_request r z)" "\<lambda>z. 0 \<le> zs_last_event_ns z" zs_last_event_ns
proof
  fix r z
  have "zs_last_event_ns z < zs_last_event_ns (fst (decide_request r z))"
    by (simp add: decide_request_def decide_advances)
  then show "0 \<le> zs_last_event_ns z \<Longrightarrow> 0 \<le> zs_last_event_ns (fst (decide_request r z))"
    "0 \<le> zs_last_event_ns z \<Longrightarrow>
       zs_last_event_ns z \<le> zs_last_event_ns (fst (decide_request r z))"
    by simp_all
qed

lemma fst_run_decisions: "fst (run_decisions rs z) = fold (\<lambda>r z. fst (decide_request r z)) rs z"
  by (induction rs arbitrary: z) simp_all

text \<open>The in-memory ledger's audit writer, with one formatter for the whole run.\<close>

definition in_memory_request :: "(int \<Rightarrow> string) \<Rightarrow> decision_request \<Rightarrow> bool" where
  "in_memory_request fmt r \<longleftrightarrow>
     ze_append_audit (rq_env r) = (\<lambda>e s. Some (append_audit e s)) \<and>
     ze_format_seconds (rq_env r) = fmt"

lemma decide_in_memory:
  assumes "in_memory_request fmt r"
  obtains d e where "snd (decide_request r z) = Inr d"
    "st_audit_events (zs_store (fst (decide_request r z))) = st_audit_events (zs_store z) @ [e]"
    "ae_timestamp e = format_event_timestamp fmt (zs_last_event_ns (fst (decide_request r z)))"
    "ae_decision e = ad_decision d" "ae_reason e = ad_reason d"
    "ae_invocation_id e = ad_invocation_id d"
proof -
  obtain v where "authorization_verdict (rq_env r) (zs_store z) (rq_context r) (rq_asset_id r)
      (rq_operation_id r) (rq_mode r) = Inr v"
    using verdict_total by blast
  note eff = decide_effect [OF this, of "rq_trace_id r" "rq_span_id r"]
  show ?thesis
    by (rule that [of "decision_of (rq_context r) (rq_trace_id r) v"])
      (use assms eff in \<open>auto simp: in_memory_request_def decide_request_def append_audit_def
        event_of_def decision_event_def decision_of_def prod_eq_iff Let_def\<close>)
qed

text \<open>The events of a run: one per decision, in step with it, at increasing instants.\<close>

lemma run_decisions_events:
  assumes "\<forall>r \<in> set rs. in_memory_request fmt r" "0 \<le> zs_last_event_ns z"
  shows "\<exists>new ds.
    st_audit_events (zs_store (fst (run_decisions rs z))) = st_audit_events (zs_store z) @ new \<and>
    snd (run_decisions rs z) = map Inr ds \<and>
    map ae_decision new = map ad_decision ds \<and> map ae_reason new = map ad_reason ds \<and>
    map ae_invocation_id new = map ad_invocation_id ds \<and>
    (\<exists>nss. map ae_timestamp new = map (format_event_timestamp fmt) nss \<and>
       sorted_wrt (<) (zs_last_event_ns z # nss) \<and>
       (\<forall>n \<in> set nss. n \<le> zs_last_event_ns (fst (run_decisions rs z))))"
  using assms
proof (induction rs arbitrary: z)
  case (Cons r rs)
  let ?z = "fst (decide_request r z)"
  have r: "in_memory_request fmt r" using Cons.prems(1) by simp
  have adv: "zs_last_event_ns z < zs_last_event_ns ?z"
    by (simp add: decide_request_def decide_advances)
  from r obtain d e where d: "snd (decide_request r z) = Inr d"
    and e: "st_audit_events (zs_store ?z) = st_audit_events (zs_store z) @ [e]"
      "ae_timestamp e = format_event_timestamp fmt (zs_last_event_ns ?z)"
      "ae_decision e = ad_decision d" "ae_reason e = ad_reason d"
      "ae_invocation_id e = ad_invocation_id d"
    by (rule decide_in_memory)
  from Cons.IH [of ?z] Cons.prems adv obtain new ds nss
    where IH: "st_audit_events (zs_store (fst (run_decisions rs ?z))) =
        st_audit_events (zs_store ?z) @ new"
      "snd (run_decisions rs ?z) = map Inr ds" "map ae_decision new = map ad_decision ds"
      "map ae_reason new = map ad_reason ds"
      "map ae_invocation_id new = map ad_invocation_id ds"
      "map ae_timestamp new = map (format_event_timestamp fmt) nss"
      "sorted_wrt (<) (zs_last_event_ns ?z # nss)"
      "\<forall>n \<in> set nss. n \<le> zs_last_event_ns (fst (run_decisions rs ?z))"
    by auto
  have "zs_last_event_ns ?z \<le> zs_last_event_ns (fst (run_decisions rs ?z))"
    unfolding fst_run_decisions
    by (rule decision_service.rank_run) (use adv Cons.prems(2) in linarith)
  then show ?case
    using IH d e adv
    by (intro exI [of _ "e # new"] exI [of _ "d # ds"] conjI exI [of _ "zs_last_event_ns ?z # nss"])
      auto
qed simp

lemma sorted_wrt_map_less:
  assumes "sorted_wrt (<) (x # xs)" "\<And>a b. a < b \<Longrightarrow> x < a \<Longrightarrow> b \<in> set xs \<Longrightarrow> f a < f b"
  shows "sorted_wrt (<) (map f xs)"
proof -
  have "sorted_wrt (\<lambda>a b. f a < f b) xs"
    by (rule sorted_wrt_mono_rel [of xs "(<)"]) (use assms in auto)
  then show ?thesis by (simp only: sorted_wrt_map)
qed

section \<open>Properties\<close>

text \<open>C29: When the agent-policy decision allows. A decision comes back ALLOW iff its audit
  event could be written, the asset is one the delegation names, it has a current version, and
  the agent's tool row for exactly that version and operation is approved and not withdrawn.\<close>

theorem agent_policy_allow_iff:
  "(\<exists>z' d. decide env c a op AGENT_POLICY t sp z = (z', Inr d) \<and> ad_decision d = ALLOW) \<longleftrightarrow>
     a \<in> set (dc_allowed_asset_ids c) \<and> ze_asset_version env a \<noteq> [] \<and>
     (\<exists>b. get_agent_tool_binding (zs_store z) (dc_agent_id c) a (ze_asset_version env a) op = Inr b
        \<and> atb_approval_state b = Approval_APPROVED \<and> atb_desired_state b = Desired_ALLOWED) \<and>
     (\<exists>s. ze_append_audit env (decision_event env
         (format_event_timestamp (ze_format_seconds env) (next_event_ns env z)) c a op
         (allow [] [] []) AGENT_POLICY t sp) (zs_store z) = Some s)"
proof -
  obtain v where v: "authorization_verdict env (zs_store z) c a op AGENT_POLICY = Inr v"
    using verdict_total by blast
  have "(vd_outcome v = ALLOW \<longleftrightarrow> v = allow [] [] []) \<and> (v = allow [] [] [] \<longleftrightarrow>
      a \<in> set (dc_allowed_asset_ids c) \<and> ze_asset_version env a \<noteq> [] \<and>
      (\<exists>b. get_agent_tool_binding (zs_store z) (dc_agent_id c) a (ze_asset_version env a) op
          = Inr b
        \<and> atb_approval_state b = Approval_APPROVED \<and> atb_desired_state b = Desired_ALLOWED))"
    using v by (auto simp: authorization_verdict_def agent_policy_verdict_def Let_def
        split: if_splits sum.splits)
  then show ?thesis
    by (auto simp: decide_Inr_iff [OF v] decision_of_def event_of_def)
qed

text \<open>When the legacy decision allows. On a ledger with unique grant rows it comes back
  ALLOW iff the asset is delegated and current, its capability row is approved for the current
  version, its connection is active, and each of its required capabilities - at least one - is
  active on the connection, inside the ceiling, and named by a live grant of the principal on
  that connection; a group grant does not count.\<close>

theorem legacy_allow_iff:
  assumes "wf_dict (st_grants (zs_store z))"
    and "\<And>e s. ze_append_audit env e s \<noteq> None"
  shows "(\<exists>z' d. decide env c a op LEGACY_DELEGATED t sp z = (z', Inr d) \<and> ad_decision d = ALLOW)
    \<longleftrightarrow>
    a \<in> set (dc_allowed_asset_ids c) \<and> ze_asset_version env a \<noteq> [] \<and>
    (\<exists>ac cn listed. get_asset_capability (zs_store z) a op = Inr ac \<and>
       ac_asset_version ac = ze_asset_version env a \<and> ac_status ac = AssetCap_APPROVED \<and>
       get_connection (zs_store z) (ac_connection_id ac) = Inr cn \<and>
       cn_status cn = Connection_ACTIVE \<and>
       list_connection_capabilities (zs_store z) (ac_connection_id ac) = Inr listed \<and>
       ac_required_capabilities ac \<noteq> [] \<and>
       (\<forall>x \<in> set (ac_required_capabilities ac).
          x \<in> set (active_capability_names listed) \<and> x \<in> set (cn_ceiling cn) \<and>
          (\<exists>k g. dget (st_grants (zs_store z)) k = Some g \<and>
             ag_principal_id g = dc_principal_id c \<and> ag_connection_id g = ac_connection_id ac \<and>
             ag_status g = Grant_ACTIVE \<and> (\<forall>e. ag_expires_at g = Some e \<longrightarrow> ze_now env < e) \<and>
             x \<in> set (ag_capabilities g))))"
    (is "?L \<longleftrightarrow> ?D \<and> ?V \<and> ?R")
proof -
  have "?L \<longleftrightarrow> (\<exists>v. authorization_verdict env (zs_store z) c a op LEGACY_DELEGATED = Inr v \<and>
      vd_outcome v = ALLOW)"
  proof -
    obtain v where v: "authorization_verdict env (zs_store z) c a op LEGACY_DELEGATED = Inr v"
      using verdict_total by blast
    show ?thesis using assms(2) by (auto simp: v decide_Inr_iff [OF v] decision_of_def)
  qed
  also have "\<dots> \<longleftrightarrow> ?D \<and> ?V \<and> (\<exists>v. legacy_verdict (zs_store z) (ze_now env)
      (ze_asset_version env a) c a op = Inr v \<and> vd_outcome v = ALLOW)"
    by (auto simp: authorization_verdict_def Let_def)
  finally show ?thesis
    unfolding legacy_verdict_allow subset_iff Int_iff granted_capabilities_mem [OF assms(1)]
      Ball_def conj_assoc .
qed

definition sample_authorization_env :: authorization_env where
  "sample_authorization_env = \<lparr>ze_asset_version = (\<lambda>_. ''1''), ze_now = 200, ze_new_id = ''e'',
     ze_event_clock = 5, ze_format_seconds = (\<lambda>n. padded 1 (nat n)),
     ze_append_audit = (\<lambda>e s. Some (append_audit e s))\<rparr>"

definition sample_legacy_store :: identity_store where
  "sample_legacy_store = empty_store\<lparr>
     st_asset_capabilities := [((''mcp'', ''read''),
       \<lparr>ac_asset_id = ''mcp'', ac_asset_version = ''1'', ac_operation_id = ''read'',
        ac_connection_id = ''db'', ac_required_capabilities = [''query''],
        ac_status = AssetCap_APPROVED, ac_version = 1, ac_updated_at = [], ac_approved_by = None\<rparr>)],
     st_connections := [(''db'',
       \<lparr>cn_connection_id = ''db'', cn_name = ''db'', cn_kind = [], cn_target = ''t'',
        cn_credential_mode = [], cn_ceiling = [''query''], cn_status = Connection_ACTIVE,
        cn_enforcement = [], cn_created_by = [], cn_created_at = [], cn_updated_at = [],
        cn_role_arn = None, cn_external_id_ref = None, cn_resource = None,
        cn_schema_version = 1\<rparr>)],
     st_connection_capabilities := [(''db'', [(''query'',
       \<lparr>cc_name = ''query'', cc_description = [], cc_operations = [], cc_status = Capability_ACTIVE\<rparr>)])],
     st_grants := [((''PRINCIPAL#ann'', ''GRANT#mcp#read''),
       sample_grant\<lparr>ag_connection_id := ''db'', ag_capabilities := [''query'']\<rparr>)]\<rparr>"

definition sample_service :: "identity_store \<Rightarrow> authorization_service" where
  "sample_service s = \<lparr>zs_store = s, zs_last_event_ns = 0, zs_security_log = [],
     zs_decision_log = []\<rparr>"

theorem legacy_allow_iff_witness:
  "\<exists>z' d. decide sample_authorization_env sample_context ''mcp'' ''read'' LEGACY_DELEGATED [] []
     (sample_service sample_legacy_store) = (z', Inr d) \<and> ad_decision d = ALLOW"
proof -
  have "wf_dict (st_grants (zs_store (sample_service sample_legacy_store)))"
    "\<And>e s. ze_append_audit sample_authorization_env e s \<noteq> None"
    by (simp_all add: sample_service_def sample_legacy_store_def wf_dict_def
        sample_authorization_env_def)
  from legacy_allow_iff [OF this, of sample_context "''mcp''" "''read''" "[]" "[]"] show ?thesis
    by (auto simp: sample_authorization_env_def sample_context_def sample_service_def
        sample_legacy_store_def get_asset_capability_def get_connection_def
        list_connection_capabilities_def active_capability_names_def dvalues_def
        sample_grant_def)
qed

text \<open>No decision without its audit event. A decision is returned iff the writer stored one
  event for it, which carries the decision, its reason and its subject and is marked as a
  security rejection exactly when the asset was not delegated; ALLOW goes with the reason
  ALLOWED only. If the event cannot be written there is no decision and the ledger is as it was.\<close>

theorem every_decision_audited:
  "case decide env c a op mode t sp z of
     (z', Inl err) \<Rightarrow> err = AuditWriteError \<and> zs_store z' = zs_store z
   | (z', Inr d) \<Rightarrow>
       (\<exists>e. ze_append_audit env e (zs_store z) = Some (zs_store z') \<and>
          ae_decision e = ad_decision d \<and> ae_reason e = ad_reason d \<and>
          ae_invocation_id e = ad_invocation_id d \<and> ae_principal_id e = ad_principal_id d \<and>
          ae_agent_id e = dc_agent_id c \<and> ae_asset_id e = a \<and> ae_operation_id e = op \<and>
          (ae_event_type e = ''SECURITY_REJECTION'') = (ad_reason d = ASSET_NOT_DELEGATED)) \<and>
       (ad_decision d = ALLOW) = (ad_reason d = ALLOWED)"
proof -
  obtain v where v: "authorization_verdict env (zs_store z) c a op mode = Inr v"
    using verdict_total by blast
  note eff = decide_effect [OF v, of t sp]
  show ?thesis
  proof (cases "ze_append_audit env (event_of env c a op mode t sp z v) (zs_store z)")
    case None
    with eff show ?thesis by (cases "decide env c a op mode t sp z") simp
  next
    case (Some s)
    with eff have "snd (decide env c a op mode t sp z) = Inr (decision_of c t v)"
      "zs_store (fst (decide env c a op mode t sp z)) = s" by simp_all
    with Some verdict_allowed_iff_reason [OF v] show ?thesis
      by (cases "decide env c a op mode t sp z")
        (auto simp: decision_of_def event_of_def decision_event_def Let_def
          intro!: exI [of _ "event_of env c a op mode t sp z v"] split: if_splits)
  qed
qed

text \<open>The audit trail replays the decisions in order. Decisions taken in a row on the
  in-memory ledger append exactly one event each, in step with them, and the timestamps of
  these events increase strictly as strings, even when the clock stands still or goes back; so
  the timeline, which sorts by timestamp, lists them in the order they were taken.\<close>

theorem decisions_audited_in_order:
  assumes "\<forall>r \<in> set rs. in_memory_request fmt r" "orders_seconds fmt n"
    and "0 \<le> zs_last_event_ns z"
    and "zs_last_event_ns (fst (run_decisions rs z)) < n * 1000000000"
  shows "\<exists>new ds.
    st_audit_events (zs_store (fst (run_decisions rs z))) = st_audit_events (zs_store z) @ new \<and>
    snd (run_decisions rs z) = map Inr ds \<and>
    map ae_decision new = map ad_decision ds \<and> map ae_reason new = map ad_reason ds \<and>
    map ae_invocation_id new = map ad_invocation_id ds \<and>
    sorted_wrt (<) (map ae_timestamp new)"
proof -
  from run_decisions_events [OF assms(1,3)] obtain new ds nss where
    r: "st_audit_events (zs_store (fst (run_decisions rs z))) = st_audit_events (zs_store z) @ new"
      "snd (run_decisions rs z) = map Inr ds" "map ae_decision new = map ad_decision ds"
      "map ae_reason new = map ad_reason ds" "map ae_invocation_id new = map ad_invocation_id ds"
    and ts: "map ae_timestamp new = map (format_event_timestamp fmt) nss"
      "sorted_wrt (<) (zs_last_event_ns z # nss)"
      "\<forall>k \<in> set nss. k \<le> zs_last_event_ns (fst (run_decisions rs z))"
    by blast
  have "sorted_wrt (<) (map (format_event_timestamp fmt) nss)"
    by (rule sorted_wrt_map_less [OF ts(2)], rule format_event_timestamp_less [OF assms(2)])
      (use assms(3,4) ts(3) in \<open>auto intro: le_less_trans\<close>)
  with r ts(1) show ?thesis by auto
qed

definition sample_decision :: decision_request where
  "sample_decision = \<lparr>rq_env = sample_authorization_env, rq_context = sample_context,
     rq_asset_id = ''other'', rq_operation_id = ''read'', rq_mode = AGENT_POLICY,
     rq_trace_id = [], rq_span_id = []\<rparr>"

theorem decisions_audited_in_order_witness:
  "\<exists>new ds. snd (run_decisions [sample_decision, sample_decision] (sample_service empty_store)) =
       map Inr ds \<and> length ds = 2 \<and>
     st_audit_events (zs_store (fst (run_decisions [sample_decision, sample_decision]
       (sample_service empty_store)))) = new \<and>
     map ae_decision new = [DENY, DENY] \<and> sorted_wrt (<) (map ae_timestamp new)"
proof -
  let ?fmt = "\<lambda>n. padded 1 (nat n)" and ?rs = "[sample_decision, sample_decision]"
  have v: "authorization_verdict sample_authorization_env s sample_context ''other'' ''read''
      AGENT_POLICY = Inr (deny ASSET_NOT_DELEGATED [] [] [])" for s
    by (simp add: authorization_verdict_def sample_context_def)
  have ns: "zs_last_event_ns (fst (decide_request sample_decision z)) = max 5 (zs_last_event_ns z + 1)"
    "\<exists>d. snd (decide_request sample_decision z) = Inr d \<and> ad_decision d = DENY" for z
    using decide_effect [OF v, of "[]" "[]" z]
    by (simp_all add: decide_request_def sample_decision_def next_event_ns_def decision_of_def
        sample_authorization_env_def)
  have h1: "\<forall>r \<in> set ?rs. in_memory_request ?fmt r"
    by (simp add: in_memory_request_def sample_decision_def sample_authorization_env_def)
  have h2: "orders_seconds ?fmt 10"
    unfolding orders_seconds_def by (auto intro!: padded_less simp: nat_less_iff simp del: padded.simps)
  have h3: "0 \<le> zs_last_event_ns (sample_service empty_store)"
    and nil: "st_audit_events (zs_store (sample_service empty_store)) = []"
    by (simp_all add: sample_service_def empty_store_def)
  have h4: "zs_last_event_ns (fst (run_decisions ?rs (sample_service empty_store)))
      < 10 * 1000000000"
    by (simp add: ns sample_service_def)
  from decisions_audited_in_order [OF h1 h2 h3 h4] obtain new ds where
    "st_audit_events (zs_store (fst (run_decisions ?rs (sample_service empty_store)))) = new"
    and d: "snd (run_decisions ?rs (sample_service empty_store)) = map Inr ds"
    and n: "map ae_decision new = map ad_decision ds" "sorted_wrt (<) (map ae_timestamp new)"
    unfolding nil append_Nil by blast
  moreover obtain d1 d2 where "snd (run_decisions ?rs (sample_service empty_store)) = [Inr d1, Inr d2]"
    "ad_decision d1 = DENY" "ad_decision d2 = DENY"
    using ns(2) [of "sample_service empty_store"]
      ns(2) [of "fst (decide_request sample_decision (sample_service empty_store))"] by auto
  with d have "ds = [d1, d2]" "ad_decision d1 = DENY" "ad_decision d2 = DENY" by auto
  then have "map ad_decision ds = [DENY, DENY]" "length ds = 2" by simp_all
  ultimately show ?thesis by metis
qed

end
