(* ===== verification/Ledger_Operations.thy ===== *)
theory Ledger_Operations
  imports Delegation Audit_Log Agent_Ledger
begin

text \<open>
  The identity ledger as one transition system: every state-changing operation of
  \<open>InMemoryIdentityStore\<close>, in groups by the table it writes, and the invariant that any
  sequence of them keeps. Each method holds its lock for its whole body, so a concurrent
  history of the ledger is a sequence of these operations; one that raises changes nothing
  but the empty revision table it may have created.
\<close>

section \<open>Operations\<close>

datatype connection_op =
    Put_connection connection
  | Put_connection_capabilities string "connection_capability list" "int option"

fun apply_connection_op :: "connection_op \<Rightarrow> identity_store \<Rightarrow> identity_store" where
  "apply_connection_op (Put_connection c) s = put_connection c s"
| "apply_connection_op (Put_connection_capabilities cid caps n) s =
     keep_state s (put_connection_capabilities cid caps n s)"

datatype grant_op =
    Put_grant access_grant
  | Delete_grant string string string string int audit_event
  | Revoke_grant string string

definition drop_result :: "'e + 's \<times> 'a \<Rightarrow> 'e + 's" where
  "drop_result r = (case r of Inl e \<Rightarrow> Inl e | Inr (s, _) \<Rightarrow> Inr s)"

fun apply_grant_op :: "grant_op \<Rightarrow> identity_store \<Rightarrow> identity_store" where
  "apply_grant_op (Put_grant g) s = keep_state s (put_grant g s)"
| "apply_grant_op (Delete_grant a op p grp n e) s =
     keep_state s (drop_result (delete_grant_with_audit a op p grp n e s))"
| "apply_grant_op (Revoke_grant gid at) s = keep_state s (drop_result (revoke_grant gid at s))"

datatype asset_op =
    Put_asset_version asset_version_record
  | Delete_asset_version string
  | Put_asset_capability asset_capability "int option" "int option"
  | Delete_asset_capability string string int audit_event
  | Approve_asset_capability string string int string string
  | Reject_asset_capability string string int string "int option"

fun apply_asset_op :: "asset_op \<Rightarrow> identity_store \<Rightarrow> identity_store" where
  "apply_asset_op (Put_asset_version r) s = put_asset_version r s"
| "apply_asset_op (Delete_asset_version a) s = fst (delete_asset_version a s)"
| "apply_asset_op (Put_asset_capability c n m) s = keep_state s (put_asset_capability c n m s)"
| "apply_asset_op (Delete_asset_capability a op n e) s =
     keep_state s (drop_result (delete_asset_capability_with_audit a op n e s))"
| "apply_asset_op (Approve_asset_capability a op n by at) s =
     keep_state s (drop_result (approve_asset_capability a op n by at s))"
| "apply_asset_op (Reject_asset_capability a op n at m) s =
     keep_state s (drop_result (reject_asset_capability a op n at m s))"

datatype delegation_op =
    Put_delegation delegation_context
  | Claim_nonce string string int
  | Put_external external_workload_identity
  | Delete_external string
  | Put_external_with_audit external_workload_identity audit_event
  | Delete_external_with_audit string audit_event

fun apply_delegation_op :: "delegation_op \<Rightarrow> identity_store \<Rightarrow> identity_store" where
  "apply_delegation_op (Put_delegation c) s = put_delegation c s"
| "apply_delegation_op (Claim_nonce w n t) s = fst (claim_workload_nonce w n t s)"
| "apply_delegation_op (Put_external i) s = put_external_workload_identity i s"
| "apply_delegation_op (Delete_external a) s = fst (delete_external_workload_identity a s)"
| "apply_delegation_op (Put_external_with_audit i e) s =
     put_external_workload_identity_with_audit i e s"
| "apply_delegation_op (Delete_external_with_audit a e) s =
     fst (delete_external_workload_identity_with_audit a e s)"

datatype binding_op =
    Put_binding agent_tool_binding
  | Set_effective agent_tool_binding effective_state int
  | Approve_binding string string string string string string
  | Reject_binding string string string string string
  | Approve_binding_with_audit string string string string string string "string option" audit_event
  | Reject_binding_with_audit string string string string string audit_event

fun apply_binding_op :: "binding_op \<Rightarrow> identity_store \<Rightarrow> identity_store" where
  "apply_binding_op (Put_binding b) s = put_agent_tool_binding b s"
| "apply_binding_op (Set_effective b eff r) s =
     keep_state s (drop_result (set_agent_tool_binding_effective_state b eff r s))"
| "apply_binding_op (Approve_binding rid a v op by at) s =
     keep_state s (drop_result (approve_agent_tool_binding rid a v op by at s))"
| "apply_binding_op (Reject_binding rid a v op by) s =
     keep_state s (drop_result (reject_agent_tool_binding rid a v op by s))"
| "apply_binding_op (Approve_binding_with_audit rid a v op by at sens e) s =
     keep_state s (drop_result
       (approve_agent_tool_binding_with_audit rid a v op by at sens e s))"
| "apply_binding_op (Reject_binding_with_audit rid a v op by e) s =
     keep_state s (drop_result (reject_agent_tool_binding_with_audit rid a v op by e s))"

datatype policy_op =
    Put_policy_deployment agent_policy_deployment int
  | Mark_policy_deployment string int policy_deployment_status string string string "string list"
  | Put_cutover gateway_policy_cutover int
  | Update_cutover gateway_policy_cutover int
  | Put_invoke_authorization agent_invoke_authorization
  | Put_domain_rule domain_policy_rule
  | Delete_domain_rule string

fun apply_policy_op :: "policy_op \<Rightarrow> identity_store \<Rightarrow> identity_store" where
  "apply_policy_op (Put_policy_deployment d n) s = fst (put_agent_policy_deployment d n s)"
| "apply_policy_op (Mark_policy_deployment rid n st pid h at fs) s =
     keep_state s (drop_result (mark_agent_policy_deployment rid n st pid h at fs s))"
| "apply_policy_op (Put_cutover c n) s = fst (put_gateway_policy_cutover c n s)"
| "apply_policy_op (Update_cutover c n) s = keep_state s (update_gateway_policy_cutover c n s)"
| "apply_policy_op (Put_invoke_authorization a) s = put_agent_invoke_authorization a s"
| "apply_policy_op (Put_domain_rule r) s = put_domain_policy_rule r s"
| "apply_policy_op (Delete_domain_rule i) s = fst (delete_domain_policy_rule i s)"

datatype audit_op =
    Append_audit audit_event
  | Append_audit_once audit_event string
  | Put_evidence string string "string list"
  | Put_usage invocation_usage

fun apply_audit_op :: "audit_op \<Rightarrow> identity_store \<Rightarrow> identity_store" where
  "apply_audit_op (Append_audit e) s = append_audit e s"
| "apply_audit_op (Append_audit_once e k) s = fst (append_audit_once e k s)"
| "apply_audit_op (Put_evidence i e cs) s = keep_state s (put_audit_evidence_chunks i e cs s)"
| "apply_audit_op (Put_usage u) s = put_invocation_usage u s"

datatype ledger_op =
    On_connections connection_op
  | On_grants grant_op
  | On_assets asset_op
  | On_delegations delegation_op
  | On_bindings binding_op
  | Put_identity agent_identity_binding
  | On_reservations reservation_op
  | On_policies policy_op
  | On_audit audit_op
  | Rollback_provisioning string "(string \<times> string \<times> string) list" "int option"

fun apply_ledger_op :: "ledger_op \<Rightarrow> identity_store \<Rightarrow> identity_store" where
  "apply_ledger_op (On_connections op) s = apply_connection_op op s"
| "apply_ledger_op (On_grants op) s = apply_grant_op op s"
| "apply_ledger_op (On_assets op) s = apply_asset_op op s"
| "apply_ledger_op (On_delegations op) s = apply_delegation_op op s"
| "apply_ledger_op (On_bindings op) s = apply_binding_op op s"
| "apply_ledger_op (Put_identity b) s = keep_state s (put_agent_identity_binding b s)"
| "apply_ledger_op (On_reservations op) s = apply_reservation_op op s"
| "apply_ledger_op (On_policies op) s = apply_policy_op op s"
| "apply_ledger_op (On_audit op) s = apply_audit_op op s"
| "apply_ledger_op (Rollback_provisioning rid created r) s = rollback_agent_provisioning rid created r s"

section \<open>The invariant\<close>

definition grants_wf :: "identity_store \<Rightarrow> bool" where
  "grants_wf s \<longleftrightarrow> wf_dict (st_grants s) \<and>
     (\<forall>(k, g) \<in> set (st_grants s). grant_key_for g = Inr k)"

definition assets_wf :: "identity_store \<Rightarrow> bool" where
  "assets_wf s \<longleftrightarrow>
     wf_dict (st_asset_versions s) \<and> keyed_by av_asset_id (st_asset_versions s) \<and>
     wf_dict (st_asset_capabilities s) \<and>
     keyed_by (\<lambda>c. (ac_asset_id c, ac_operation_id c)) (st_asset_capabilities s)"

definition delegations_wf :: "identity_store \<Rightarrow> bool" where
  "delegations_wf s \<longleftrightarrow> wf_dict (st_delegations s) \<and> delegations_keyed s"

text \<open>Every client id of an agent is claimed by that agent, so no two agents share one.\<close>

definition identities_wf :: "identity_store \<Rightarrow> bool" where
  "identities_wf s \<longleftrightarrow>
     wf_dict (st_agent_identity_bindings s) \<and>
     keyed_by aib_agent_record_id (st_agent_identity_bindings s) \<and>
     (\<forall>(rid, b) \<in> set (st_agent_identity_bindings s).
        aib_client_id b \<noteq> [] \<longrightarrow> dget (st_agent_client_claims s) (aib_client_id b) = Some rid)"

text \<open>The cutover revisions of a gateway are numbered from 1 without gaps.\<close>

definition revisions_wf :: "string \<Rightarrow> (int, gateway_policy_cutover) dict \<Rightarrow> bool" where
  "revisions_wf arn d \<longleftrightarrow> wf_dict d \<and> set (dkeys d) = {1..int (length d)} \<and>
     (\<forall>(r, c) \<in> set d. gpc_revision c = r \<and> gpc_gateway_arn c = arn \<and> 1 \<le> gpc_version c)"

definition cutovers_wf :: "identity_store \<Rightarrow> bool" where
  "cutovers_wf s \<longleftrightarrow> (\<forall>arn. revisions_wf arn (revisions_of (st_gateway_policy_cutovers s) arn))"

definition ledger_wf :: "identity_store \<Rightarrow> bool" where
  "ledger_wf s \<longleftrightarrow> grants_wf s \<and> assets_wf s \<and> delegations_wf s \<and> bindings_wf s \<and>
     identities_wf s \<and> cutovers_wf s"

section \<open>What each group leaves alone\<close>

lemmas result_simps = keep_state_def drop_result_def bind_res_def Let_def

lemma connection_op_frame [simp]:
  "st_grants (apply_connection_op op s) = st_grants s"
  "st_asset_versions (apply_connection_op op s) = st_asset_versions s"
  "st_asset_capabilities (apply_connection_op op s) = st_asset_capabilities s"
  "st_delegations (apply_connection_op op s) = st_delegations s"
  "st_agent_tool_bindings (apply_connection_op op s) = st_agent_tool_bindings s"
  "st_agent_identity_bindings (apply_connection_op op s) = st_agent_identity_bindings s"
  "st_agent_client_claims (apply_connection_op op s) = st_agent_client_claims s"
  "st_gateway_policy_cutovers (apply_connection_op op s) = st_gateway_policy_cutovers s"
  "st_audit_events (apply_connection_op op s) = st_audit_events s"
  by (cases op; simp add: put_connection_def put_connection_capabilities_def result_simps
      split: sum.split if_splits)+

lemma grant_op_frame [simp]:
  "st_asset_versions (apply_grant_op op s) = st_asset_versions s"
  "st_asset_capabilities (apply_grant_op op s) = st_asset_capabilities s"
  "st_delegations (apply_grant_op op s) = st_delegations s"
  "st_agent_tool_bindings (apply_grant_op op s) = st_agent_tool_bindings s"
  "st_agent_identity_bindings (apply_grant_op op s) = st_agent_identity_bindings s"
  "st_agent_client_claims (apply_grant_op op s) = st_agent_client_claims s"
  "st_gateway_policy_cutovers (apply_grant_op op s) = st_gateway_policy_cutovers s"
  by (cases op; simp add: put_grant_def delete_grant_with_audit_def revoke_grant_def result_simps
      split: sum.split option.split if_splits)+

lemmas asset_op_defs =
  put_asset_version_def delete_asset_version_def put_asset_capability_def
  delete_asset_capability_with_audit_def approve_asset_capability_def reject_asset_capability_def

lemma asset_op_frame [simp]:
  "st_grants (apply_asset_op op s) = st_grants s"
  "st_delegations (apply_asset_op op s) = st_delegations s"
  "st_agent_tool_bindings (apply_asset_op op s) = st_agent_tool_bindings s"
  "st_agent_identity_bindings (apply_asset_op op s) = st_agent_identity_bindings s"
  "st_agent_client_claims (apply_asset_op op s) = st_agent_client_claims s"
  "st_gateway_policy_cutovers (apply_asset_op op s) = st_gateway_policy_cutovers s"
  by (cases op; simp add: asset_op_defs result_simps split: sum.split option.split if_splits)+

lemmas delegation_op_defs =
  put_delegation_def claim_workload_nonce_def put_external_workload_identity_def
  delete_external_workload_identity_def put_external_workload_identity_with_audit_def
  delete_external_workload_identity_with_audit_def

lemma delegation_op_frame [simp]:
  "st_grants (apply_delegation_op op s) = st_grants s"
  "st_asset_versions (apply_delegation_op op s) = st_asset_versions s"
  "st_asset_capabilities (apply_delegation_op op s) = st_asset_capabilities s"
  "st_agent_tool_bindings (apply_delegation_op op s) = st_agent_tool_bindings s"
  "st_agent_identity_bindings (apply_delegation_op op s) = st_agent_identity_bindings s"
  "st_agent_client_claims (apply_delegation_op op s) = st_agent_client_claims s"
  "st_gateway_policy_cutovers (apply_delegation_op op s) = st_gateway_policy_cutovers s"
  by (cases op; simp add: delegation_op_defs Let_def)+

lemmas binding_op_defs =
  put_agent_tool_binding_def set_agent_tool_binding_effective_state_def
  approve_agent_tool_binding_def reject_agent_tool_binding_def
  approve_agent_tool_binding_with_audit_def reject_agent_tool_binding_with_audit_def

lemma binding_op_frame [simp]:
  "st_grants (apply_binding_op op s) = st_grants s"
  "st_asset_versions (apply_binding_op op s) = st_asset_versions s"
  "st_asset_capabilities (apply_binding_op op s) = st_asset_capabilities s"
  "st_delegations (apply_binding_op op s) = st_delegations s"
  "st_agent_identity_bindings (apply_binding_op op s) = st_agent_identity_bindings s"
  "st_agent_client_claims (apply_binding_op op s) = st_agent_client_claims s"
  "st_gateway_policy_cutovers (apply_binding_op op s) = st_gateway_policy_cutovers s"
  by (cases op; simp add: binding_op_defs result_simps split: sum.split if_splits)+

lemma reservation_op_frame [simp]:
  "st_grants (apply_reservation_op op s) = st_grants s"
  "st_asset_versions (apply_reservation_op op s) = st_asset_versions s"
  "st_asset_capabilities (apply_reservation_op op s) = st_asset_capabilities s"
  "st_delegations (apply_reservation_op op s) = st_delegations s"
  "st_gateway_policy_cutovers (apply_reservation_op op s) = st_gateway_policy_cutovers s"
  "st_audit_events (apply_reservation_op op s) = st_audit_events s"
  by (cases op; simp add: reservation_op_defs split: option.split if_splits)+

lemma identity_op_frame [simp]:
  "st_grants (keep_state s (put_agent_identity_binding b s)) = st_grants s"
  "st_asset_versions (keep_state s (put_agent_identity_binding b s)) = st_asset_versions s"
  "st_asset_capabilities (keep_state s (put_agent_identity_binding b s)) = st_asset_capabilities s"
  "st_delegations (keep_state s (put_agent_identity_binding b s)) = st_delegations s"
  "st_agent_tool_bindings (keep_state s (put_agent_identity_binding b s)) =
     st_agent_tool_bindings s"
  "st_gateway_policy_cutovers (keep_state s (put_agent_identity_binding b s)) =
     st_gateway_policy_cutovers s"
  "st_audit_events (keep_state s (put_agent_identity_binding b s)) = st_audit_events s"
  by (simp_all add: put_agent_identity_binding_def result_simps)

lemmas policy_op_defs =
  put_agent_policy_deployment_def mark_agent_policy_deployment_def put_gateway_policy_cutover_def
  update_gateway_policy_cutover_def put_agent_invoke_authorization_def put_domain_policy_rule_def
  delete_domain_policy_rule_def

lemma policy_op_frame [simp]:
  "st_grants (apply_policy_op op s) = st_grants s"
  "st_asset_versions (apply_policy_op op s) = st_asset_versions s"
  "st_asset_capabilities (apply_policy_op op s) = st_asset_capabilities s"
  "st_delegations (apply_policy_op op s) = st_delegations s"
  "st_agent_tool_bindings (apply_policy_op op s) = st_agent_tool_bindings s"
  "st_agent_identity_bindings (apply_policy_op op s) = st_agent_identity_bindings s"
  "st_agent_client_claims (apply_policy_op op s) = st_agent_client_claims s"
  "st_audit_events (apply_policy_op op s) = st_audit_events s"
  by (cases op; simp add: policy_op_defs result_simps split: sum.split option.split if_splits)+

lemmas audit_op_defs =
  append_audit_def append_audit_once_def put_audit_evidence_chunks_def put_invocation_usage_def

lemma audit_op_frame [simp]:
  "st_grants (apply_audit_op op s) = st_grants s"
  "st_asset_versions (apply_audit_op op s) = st_asset_versions s"
  "st_asset_capabilities (apply_audit_op op s) = st_asset_capabilities s"
  "st_delegations (apply_audit_op op s) = st_delegations s"
  "st_agent_tool_bindings (apply_audit_op op s) = st_agent_tool_bindings s"
  "st_agent_identity_bindings (apply_audit_op op s) = st_agent_identity_bindings s"
  "st_agent_client_claims (apply_audit_op op s) = st_agent_client_claims s"
  "st_gateway_policy_cutovers (apply_audit_op op s) = st_gateway_policy_cutovers s"
  by (cases op; simp add: audit_op_defs result_simps split: if_splits)+

lemma rollback_frame [simp]:
  "st_grants (rollback_agent_provisioning rid created r s) = st_grants s"
  "st_asset_versions (rollback_agent_provisioning rid created r s) = st_asset_versions s"
  "st_asset_capabilities (rollback_agent_provisioning rid created r s) = st_asset_capabilities s"
  "st_delegations (rollback_agent_provisioning rid created r s) = st_delegations s"
  "st_agent_identity_bindings (rollback_agent_provisioning rid created r s) =
     st_agent_identity_bindings s"
  "st_agent_client_claims (rollback_agent_provisioning rid created r s) =
     st_agent_client_claims s"
  "st_gateway_policy_cutovers (rollback_agent_provisioning rid created r s) =
     st_gateway_policy_cutovers s"
  "st_audit_events (rollback_agent_provisioning rid created r s) = st_audit_events s"
  by (simp_all add: rollback_agent_provisioning_def Let_def split: option.split)


section \<open>Preservation\<close>

lemma grants_wf_cong: "st_grants t = st_grants s \<Longrightarrow> grants_wf t = grants_wf s"
  by (simp add: grants_wf_def)

lemma assets_wf_cong:
  "st_asset_versions t = st_asset_versions s \<Longrightarrow>
   st_asset_capabilities t = st_asset_capabilities s \<Longrightarrow> assets_wf t = assets_wf s"
  by (simp add: assets_wf_def)

lemma delegations_wf_cong: "st_delegations t = st_delegations s \<Longrightarrow> delegations_wf t = delegations_wf s"
  by (simp add: delegations_wf_def delegations_keyed_def)

lemma bindings_wf_cong:
  "st_agent_tool_bindings t = st_agent_tool_bindings s \<Longrightarrow> bindings_wf t = bindings_wf s"
  by (simp add: bindings_wf_def)

lemma identities_wf_cong:
  "st_agent_identity_bindings t = st_agent_identity_bindings s \<Longrightarrow>
   st_agent_client_claims t = st_agent_client_claims s \<Longrightarrow> identities_wf t = identities_wf s"
  by (simp add: identities_wf_def)

lemma cutovers_wf_cong:
  "st_gateway_policy_cutovers t = st_gateway_policy_cutovers s \<Longrightarrow> cutovers_wf t = cutovers_wf s"
  by (simp add: cutovers_wf_def)

lemmas wf_congs = grants_wf_cong assets_wf_cong delegations_wf_cong bindings_wf_cong
  identities_wf_cong cutovers_wf_cong

text \<open>Rows stored under a key that is a partial function of the row, as grants are.\<close>

lemma set_dput_row: "(k', v') \<in> set (dput k v d) \<Longrightarrow> (k', v') = (k, v) \<or> (k', v') \<in> set d"
  using set_dput_subset [of k v d] by auto

lemma set_ddel_row: "(k', v') \<in> set (ddel k d) \<Longrightarrow> (k', v') \<in> set d"
  using set_ddel_subset [of k d] by auto

lemma grants_wf_put:
  "grants_wf s \<Longrightarrow> grant_key_for g = Inr k \<Longrightarrow> grants_wf (s\<lparr>st_grants := dput k g (st_grants s)\<rparr>)"
  by (auto simp: grants_wf_def dest!: set_dput_row)

lemma grants_wf_get: "grants_wf s \<Longrightarrow> dget (st_grants s) k = Some g \<Longrightarrow> grant_key_for g = Inr k"
  by (auto simp: grants_wf_def dest!: map_of_SomeD)

lemma grants_wf_grant_op:
  assumes "grants_wf s" shows "grants_wf (apply_grant_op op s)"
proof (cases op)
  case (Put_grant g)
  with assms show ?thesis
    by (auto simp: put_grant_def keep_state_def bind_res_def grants_wf_put split: sum.split)
next
  case (Delete_grant a op p grp n e)
  have "grants_wf (s\<lparr>st_grants := ddel k (st_grants s), st_audit_events := es\<rparr>)" for k es
    using assms by (auto simp: grants_wf_def dest!: set_ddel_row)
  with Delete_grant assms show ?thesis
    by (auto simp: delete_grant_with_audit_def result_simps split: sum.split option.split)
next
  case (Revoke_grant gid at)
  with assms show ?thesis
    by (auto simp: revoke_grant_def put_grant_def result_simps grants_wf_put split: sum.split)
qed

lemma keyed_dput_current:
  "keyed_by key d \<Longrightarrow> dget d k = Some v \<Longrightarrow> key v' = key v \<Longrightarrow> keyed_by key (dput k v' d)"
  by (auto intro!: keyed_by_dput dest: keyed_by_get)

lemma assets_wf_asset_op:
  assumes "assets_wf s" shows "assets_wf (apply_asset_op op s)"
proof -
  have upd: "dget (st_asset_capabilities s) (a, op) = Some c \<Longrightarrow>
      ac_asset_id c' = ac_asset_id c \<Longrightarrow> ac_operation_id c' = ac_operation_id c \<Longrightarrow>
      keyed_by (\<lambda>c. (ac_asset_id c, ac_operation_id c)) (dput (a, op) c' (st_asset_capabilities s))"
    for a op c c'
    using assms by (auto simp: assets_wf_def intro!: keyed_dput_current)
  show ?thesis
    using assms upd
    by (cases op) (auto simp: assets_wf_def asset_op_defs get_asset_capability_def of_option_def
        result_simps inv_intros split: sum.splits option.splits if_splits)
qed

lemma delegations_wf_delegation_op:
  "delegations_wf s \<Longrightarrow> delegations_wf (apply_delegation_op op s)"
  by (cases op) (auto simp: delegations_wf_def delegations_keyed_def delegation_op_defs Let_def
      intro: keyed_by_dput)

lemma bindings_wf_put:
  "bindings_wf s \<Longrightarrow> binding_key b = k \<Longrightarrow>
     bindings_wf (s\<lparr>st_agent_tool_bindings := dput k b (st_agent_tool_bindings s)\<rparr>)"
  by (auto simp: bindings_wf_def intro: keyed_by_dput)

lemma binding_key_update [simp]:
  "binding_key (b\<lparr>atb_approval_state := x1\<rparr>) = binding_key b"
  "binding_key (b\<lparr>atb_desired_state := x2\<rparr>) = binding_key b"
  "binding_key (b\<lparr>atb_effective_state := x3\<rparr>) = binding_key b"
  "binding_key (b\<lparr>atb_policy_revision := x4\<rparr>) = binding_key b"
  "binding_key (b\<lparr>atb_approved_by := x5\<rparr>) = binding_key b"
  "binding_key (b\<lparr>atb_approved_at := x6\<rparr>) = binding_key b"
  "binding_key (b\<lparr>atb_updated_by := x7\<rparr>) = binding_key b"
  "binding_key (b\<lparr>atb_sensitivity := x8\<rparr>) = binding_key b"
  by (simp_all add: binding_key_def)

lemma bindings_wf_binding_op:
  assumes "bindings_wf s" shows "bindings_wf (apply_binding_op op s)"
proof -
  have key: "get_agent_tool_binding s rid a v op = Inr b \<Longrightarrow> binding_key b = (rid, a, v, op)"
    "dget (st_agent_tool_bindings s) k = Some b \<Longrightarrow> binding_key b = k" for rid a v op b k
    using assms by (auto simp: bindings_wf_def get_agent_tool_binding_def dest!: keyed_by_get)
  have audit: "bindings_wf (s\<lparr>st_audit_events := es, st_agent_tool_bindings := d\<rparr>) =
      bindings_wf (s\<lparr>st_agent_tool_bindings := d\<rparr>)" for es d
    by (simp add: bindings_wf_def)
  show ?thesis
  proof (cases op)
    case (Set_effective b eff r)
    with assms show ?thesis
      by (auto simp: set_agent_tool_binding_effective_state_def result_simps
          intro!: bindings_wf_put split: sum.split)
  qed (use assms in \<open>auto simp: binding_op_defs rejected_binding_def audit result_simps
      intro!: bindings_wf_put dest!: key split: sum.splits\<close>)
qed

lemma bindings_wf_filter:
  "bindings_wf s \<Longrightarrow> bindings_wf (s\<lparr>st_agent_tool_bindings := filter P (st_agent_tool_bindings s)\<rparr>)"
  by (simp add: bindings_wf_def keyed_by_filter)

lemma bindings_wf_reservation_op:
  assumes "bindings_wf s" shows "bindings_wf (apply_reservation_op op s)"
proof (cases op)
  case (Purge_agent rid)
  have "st_agent_tool_bindings (delete_agent_authorization_artifacts rid s) =
      filter (\<lambda>((r, _, _, _), _). r \<noteq> rid) (st_agent_tool_bindings s)"
    by (simp add: delete_agent_authorization_artifacts_def)
  with Purge_agent assms show ?thesis by (simp add: bindings_wf_def keyed_by_filter)
qed (use assms in \<open>simp_all add: bindings_wf_def reservation_op_defs split: option.split if_splits\<close>)

lemma bindings_wf_rollback:
  assumes "bindings_wf s" shows "bindings_wf (rollback_agent_provisioning rid created r s)"
proof -
  have "wf_dict d \<Longrightarrow> keyed_by binding_key d \<Longrightarrow>
      wf_dict (foldl (\<lambda>d (a, v, op). ddel (rid, a, v, op) d) d created) \<and>
      keyed_by binding_key (foldl (\<lambda>d (a, v, op). ddel (rid, a, v, op) d) d created)" for d
    by (induction created arbitrary: d) (auto simp: keyed_by_ddel)
  then show ?thesis
    using assms by (auto simp: bindings_wf_def rollback_agent_provisioning_def Let_def
        split: option.split)
qed

lemma identities_wf_put:
  assumes "identities_wf s"
  shows "identities_wf (keep_state s (put_agent_identity_binding b s))"
proof (cases "list_ex (identity_conflict b) (st_agent_identity_bindings s)")
  case True
  with assms show ?thesis by (simp add: put_agent_identity_binding_def keep_state_def)
next
  case False
  then have free: "(rid, x) \<in> set (st_agent_identity_bindings s) \<Longrightarrow>
      rid \<noteq> aib_agent_record_id b \<Longrightarrow> aib_client_id b \<noteq> [] \<Longrightarrow>
      aib_client_id x \<noteq> aib_client_id b" for rid x
    by (auto simp: identity_conflict_def list_ex_iff)
  have mem: "(rid, x) \<in> set (dput (aib_agent_record_id b) b (st_agent_identity_bindings s)) \<Longrightarrow>
      (rid, x) = (aib_agent_record_id b, b) \<or>
      rid \<noteq> aib_agent_record_id b \<and> (rid, x) \<in> set (st_agent_identity_bindings s)" for rid x
  proof -
    assume m: "(rid, x) \<in> set (dput (aib_agent_record_id b) b (st_agent_identity_bindings s))"
    have "wf_dict (dput (aib_agent_record_id b) b (st_agent_identity_bindings s))"
      "wf_dict (st_agent_identity_bindings s)"
      using assms by (auto simp: identities_wf_def)
    with m show ?thesis
      by (auto simp: wf_dict_get split: if_splits)
  qed
  show ?thesis
    using False assms free
    by (auto simp: identities_wf_def put_agent_identity_binding_def result_simps keyed_by_dput
        dest!: mem)
qed

lemma identities_wf_reservation_op:
  assumes "identities_wf s" shows "identities_wf (apply_reservation_op op s)"
proof (cases op)
  case (Purge_agent rid)
  let ?d = "st_agent_identity_bindings s"
  have row: "(r, x) \<in> set ?d \<longleftrightarrow> dget ?d r = Some x" for r x
    using assms by (auto simp: identities_wf_def wf_dict_get)
  have mem: "(r, x) \<in> set (ddel rid ?d) \<longleftrightarrow> r \<noteq> rid \<and> dget ?d r = Some x" for r x
    using assms by (auto simp: identities_wf_def wf_dict_get split: if_splits)
  have claim: "dget ?d r = Some x \<Longrightarrow> aib_client_id x \<noteq> [] \<Longrightarrow>
      dget (st_agent_client_claims s) (aib_client_id x) = Some r" for r x
    using assms row [of r x] unfolding identities_wf_def by blast
  have "dget (st_agent_client_claims (delete_agent_authorization_artifacts rid s))
      (aib_client_id x) = Some r" if "r \<noteq> rid" "dget ?d r = Some x" "aib_client_id x \<noteq> []" for r x
  proof -
    have "aib_client_id i \<noteq> aib_client_id x" if "dget ?d rid = Some i" for i
      using claim [OF that] claim [OF \<open>dget ?d r = Some x\<close>] \<open>r \<noteq> rid\<close> \<open>aib_client_id x \<noteq> []\<close>
      by auto
    with that claim show ?thesis
      by (auto simp: delete_agent_authorization_artifacts_def split: option.split)
  qed
  then show ?thesis
    using assms Purge_agent
    by (auto simp: identities_wf_def mem keyed_by_ddel delete_agent_authorization_artifacts_def)
qed (use assms in \<open>simp_all add: identities_wf_def reservation_op_defs
      split: option.split if_splits\<close>)

lemma latest_revision_wf: "revisions_wf arn d \<Longrightarrow> latest_revision d = int (length d)"
proof (cases "dkeys d")
  case Nil
  then show ?thesis by (simp add: latest_revision_def dkeys_def)
next
  case (Cons r rs)
  assume wf: "revisions_wf arn d"
  then have keys: "set (r # rs) = {1..int (length d)}" by (simp add: revisions_wf_def flip: Cons)
  have "fold max rs r = Max (set (r # rs))" by (rule Max.set_eq_fold [symmetric])
  also have "\<dots> = int (length d)"
    unfolding keys
  proof (rule Max_eqI)
    have "r \<in> {1..int (length d)}" using keys by (metis list.set_intros(1))
    then show "int (length d) \<in> {1..int (length d)}" by simp
  qed auto
  finally show ?thesis by (simp only: latest_revision_def Cons list.case)
qed

lemma dkeys_dput: "set (dkeys (dput k v d)) = insert k (set (dkeys d))"
  by (auto simp: dkeys_def update_keys)

lemma length_dput: "length (dput k v d) = (if dget d k = None then Suc (length d) else length d)"
  by (induction d) auto

lemma revisions_of_dput: "revisions_of (dput k d ds) k' = (if k' = k then d else revisions_of ds k')"
  by (simp add: revisions_of_def)

lemma cutovers_wf_policy_op:
  assumes "cutovers_wf s" shows "cutovers_wf (apply_policy_op op s)"
proof (cases op)
  case (Put_cutover c n)
  let ?d = "revisions_of (st_gateway_policy_cutovers s) (gpc_gateway_arn c)"
  have d: "revisions_wf (gpc_gateway_arn c) ?d" using assms by (simp add: cutovers_wf_def)
  have "revisions_wf (gpc_gateway_arn c) (dput (gpc_revision c) c ?d)"
    if "latest_revision ?d = n" "gpc_revision c = n + 1" "gpc_version c = 1"
  proof -
    have n: "n = int (length ?d)" using latest_revision_wf [OF d] that(1) by simp
    then have "gpc_revision c \<notin> set (dkeys ?d)" using d that(2) by (simp add: revisions_wf_def)
    then have "dget ?d (gpc_revision c) = None" by (simp add: dkeys_def map_of_eq_None_iff)
    then show ?thesis
      using d that n
      by (auto simp: revisions_wf_def dkeys_dput length_dput dest!: set_dput_row)
  qed
  with assms d show ?thesis
    by (auto simp: Put_cutover put_gateway_policy_cutover_def Let_def cutovers_wf_def
        revisions_of_dput)
next
  case (Update_cutover c n)
  let ?d = "revisions_of (st_gateway_policy_cutovers s) (gpc_gateway_arn c)"
  have d: "revisions_wf (gpc_gateway_arn c) ?d" using assms by (simp add: cutovers_wf_def)
  have "revisions_wf (gpc_gateway_arn c) (dput (gpc_revision c) c ?d)"
    if "dget ?d (gpc_revision c) = Some x" "gpc_version x = n" "gpc_version c = n + 1" for x
  proof -
    have "(gpc_revision c, x) \<in> set ?d" using that(1) by (rule map_of_SomeD)
    then have "gpc_revision c \<in> set (dkeys ?d)" "1 \<le> gpc_version x"
      using d by (force simp: dkeys_def, force simp: revisions_wf_def)
    then have "set (dkeys (dput (gpc_revision c) c ?d)) = set (dkeys ?d)"
      "length (dput (gpc_revision c) c ?d) = length ?d"
      using that(1) by (auto simp: dkeys_dput length_dput)
    with \<open>1 \<le> gpc_version x\<close> show ?thesis
      using d that by (auto simp: revisions_wf_def dest!: set_dput_row)
  qed
  with assms d show ?thesis
    by (auto simp: Update_cutover update_gateway_policy_cutover_def keep_state_def Let_def
        cutovers_wf_def revisions_of_dput split: option.splits)
qed (use assms in \<open>simp_all add: cutovers_wf_def policy_op_defs result_simps
      split: sum.split option.split\<close>)

lemma ledger_wf_empty [simp]: "ledger_wf empty_store"
  by (simp add: ledger_wf_def empty_store_def grants_wf_def assets_wf_def delegations_wf_def
      delegations_keyed_def bindings_wf_def identities_wf_def cutovers_wf_def revisions_of_def
      revisions_wf_def dkeys_def)

lemma ledger_wf_op:
  assumes "ledger_wf s" shows "ledger_wf (apply_ledger_op op s)"
proof -
  have "grants_wf (apply_ledger_op op s)"
    using assms by (cases op) (auto simp: ledger_wf_def grants_wf_grant_op cong: grants_wf_cong)
  moreover have "assets_wf (apply_ledger_op op s)"
    using assms by (cases op) (auto simp: ledger_wf_def assets_wf_asset_op cong: assets_wf_cong)
  moreover have "delegations_wf (apply_ledger_op op s)"
    using assms by (cases op)
      (auto simp: ledger_wf_def delegations_wf_delegation_op cong: delegations_wf_cong)
  moreover have "bindings_wf (apply_ledger_op op s)"
    using assms by (cases op)
      (auto simp: ledger_wf_def bindings_wf_binding_op bindings_wf_reservation_op
        bindings_wf_rollback cong: bindings_wf_cong)
  moreover have "identities_wf (apply_ledger_op op s)"
    using assms by (cases op)
      (auto simp: ledger_wf_def identities_wf_put identities_wf_reservation_op
        cong: identities_wf_cong)
  moreover have "cutovers_wf (apply_ledger_op op s)"
    using assms by (cases op)
      (auto simp: ledger_wf_def cutovers_wf_policy_op cong: cutovers_wf_cong)
  ultimately show ?thesis by (simp add: ledger_wf_def)
qed

interpretation ledger: transition_system apply_ledger_op ledger_wf
  by unfold_locales (rule ledger_wf_op)


section \<open>The audit log only grows\<close>

lemma append_trans: "\<exists>n. ys = xs @ n \<Longrightarrow> \<exists>n. zs = ys @ n \<Longrightarrow> \<exists>n. zs = xs @ n"
  by auto

lemma audit_op_appends:
  "\<exists>new. st_audit_events (apply_ledger_op op s) = st_audit_events s @ new"
proof (cases op)
  case (On_grants g)
  then show ?thesis
    by (cases g) (auto simp: put_grant_def delete_grant_with_audit_def revoke_grant_def result_simps
        split: sum.split option.split)
next
  case (On_assets a)
  then show ?thesis
    by (cases a) (auto simp: asset_op_defs result_simps split: sum.split option.split)
next
  case (On_delegations d)
  then show ?thesis by (cases d) (auto simp: delegation_op_defs Let_def)
next
  case (On_bindings b)
  then show ?thesis
    by (cases b) (auto simp: binding_op_defs result_simps split: sum.split)
next
  case (On_audit a)
  then show ?thesis by (cases a) (auto simp: audit_op_defs result_simps)
qed simp_all

section \<open>Nonces and delegations over time\<close>

lemma nonces_kept:
  "dget (st_workload_nonces s) k \<noteq> None \<Longrightarrow>
     dget (st_workload_nonces (apply_ledger_op op s)) k \<noteq> None"
proof -
  have "st_workload_nonces (apply_ledger_op op s) = st_workload_nonces s \<or>
      (\<exists>k' v. st_workload_nonces (apply_ledger_op op s) = dput k' v (st_workload_nonces s))"
  proof (cases op)
    case (On_connections x)
    then show ?thesis
      by (cases x) (simp_all add: put_connection_def put_connection_capabilities_def result_simps
          split: sum.split)
  next
    case (On_grants x)
    then show ?thesis
      by (cases x) (simp_all add: put_grant_def delete_grant_with_audit_def revoke_grant_def
          result_simps split: sum.split option.split)
  next
    case (On_assets x)
    then show ?thesis
      by (cases x) (simp_all add: asset_op_defs result_simps split: sum.split option.split)
  next
    case (On_delegations x)
    then show ?thesis by (cases x) (auto simp: delegation_op_defs Let_def)
  next
    case (On_bindings x)
    then show ?thesis
      by (cases x) (simp_all add: binding_op_defs result_simps split: sum.split)
  next
    case (On_reservations x)
    then show ?thesis
      by (cases x) (simp_all add: reservation_op_defs split: option.split)
  next
    case (On_policies x)
    then show ?thesis
      by (cases x) (simp_all add: policy_op_defs result_simps split: sum.split option.split)
  next
    case (On_audit x)
    then show ?thesis by (cases x) (simp_all add: audit_op_defs result_simps)
  qed (simp_all add: put_agent_identity_binding_def rollback_agent_provisioning_def result_simps
      split: option.split)
  then show "dget (st_workload_nonces s) k \<noteq> None \<Longrightarrow> ?thesis" by auto
qed

definition writes_delegation :: "string \<Rightarrow> ledger_op \<Rightarrow> bool" where
  "writes_delegation h op \<longleftrightarrow>
     (case op of On_delegations (Put_delegation c) \<Rightarrow> dc_handle_hash c = h | _ \<Rightarrow> False)"

lemma delegation_kept:
  "\<not> writes_delegation h op \<Longrightarrow> get_delegation (apply_ledger_op op s) h = get_delegation s h"
proof (cases op)
  case (On_delegations x)
  then show "\<not> writes_delegation h op \<Longrightarrow> ?thesis"
    by (cases x) (auto simp: writes_delegation_def get_delegation_def delegation_op_defs Let_def)
qed (simp_all add: get_delegation_def)

lemma delegation_kept_run:
  "\<forall>op \<in> set ops. \<not> writes_delegation h op \<Longrightarrow>
     get_delegation (fold apply_ledger_op ops s) h = get_delegation s h"
  by (induction ops arbitrary: s) (simp_all add: delegation_kept)

lemma nonces_kept_run:
  "dget (st_workload_nonces s) k \<noteq> None \<Longrightarrow>
     dget (st_workload_nonces (fold apply_ledger_op ops s)) k \<noteq> None"
  by (induction ops arbitrary: s) (simp_all add: nonces_kept del: not_None_eq)

section \<open>Properties\<close>

text \<open>C6: Every reachable ledger is well formed. Whatever operations run in whatever order,
  each grant, asset version, capability, delegation, tool row and identity sits in one row
  under the key it carries, every client id of an agent is claimed by that agent, and the
  cutover revisions of each Gateway are numbered from 1 without gaps.\<close>

theorem reachable_ledger_wf: "ledger_wf (fold apply_ledger_op ops empty_store)"
  by (rule ledger.inv_run) simp

text \<open>One agent per client. In every reachable ledger two identities with the same client id
  are the same agent's, and the client index names that agent: the interceptor, which
  recognises an agent by its client id, never takes one agent for another.\<close>

theorem one_agent_per_client:
  assumes "s = fold apply_ledger_op ops empty_store"
    and "get_agent_identity_binding s r1 = Inr b1" "get_agent_identity_binding s r2 = Inr b2"
    and "aib_client_id b1 = aib_client_id b2" "aib_client_id b1 \<noteq> []"
  shows "r1 = r2 \<and> dget (st_agent_client_claims s) (aib_client_id b1) = Some r1"
proof -
  have "identities_wf s"
    using ledger.inv_run [OF ledger_wf_empty, of ops] by (simp add: assms(1) ledger_wf_def)
  then have "dget (st_agent_client_claims s) (aib_client_id b) = Some r"
    if "get_agent_identity_binding s r = Inr b" "aib_client_id b \<noteq> []" for r b
    using that by (auto simp: identities_wf_def get_agent_identity_binding_def dest!: map_of_SomeD)
  from this [OF assms(2)] this [OF assms(3)] assms(4,5) show ?thesis by simp
qed

definition sample_agent :: "string \<Rightarrow> string \<Rightarrow> agent_identity_binding" where
  "sample_agent rid client = \<lparr>aib_agent_record_id = rid, aib_identity_type = OAUTH_CLIENT,
     aib_status = Identity_ACTIVE, aib_workload_identity_name = [], aib_runtime_role_arn = [],
     aib_external_source_role_arn = [], aib_gateway_role_arn = [], aib_policy_principal_id = [],
     aib_client_id = client, aib_verified_at = []\<rparr>"

theorem one_agent_per_client_witness:
  "\<exists>s b. s = fold apply_ledger_op
       [Put_identity (sample_agent ''a'' ''c''), Put_identity (sample_agent ''b'' ''c'')] empty_store \<and>
     get_agent_identity_binding s ''a'' = Inr b \<and>
     dget (st_agent_client_claims s) (aib_client_id b) = Some ''a''"
proof -
  let ?s = "fold apply_ledger_op
    [Put_identity (sample_agent ''a'' ''c''), Put_identity (sample_agent ''b'' ''c'')] empty_store"
  have g: "get_agent_identity_binding ?s ''a'' = Inr (sample_agent ''a'' ''c'')"
    by (simp add: put_agent_identity_binding_def identity_conflict_def sample_agent_def
        result_simps empty_store_def get_agent_identity_binding_def)
  from one_agent_per_client [OF refl g g] g show ?thesis by (auto simp: sample_agent_def)
qed

text \<open>Audit history is append-only. No operation of the ledger, in any order, removes,
  rewrites or reorders an audit event: the log before is a prefix of the log after.\<close>

theorem audit_log_append_only:
  "\<exists>new. st_audit_events (fold apply_ledger_op ops s) = st_audit_events s @ new"
proof (induction ops arbitrary: s)
  case (Cons op ops)
  from append_trans [OF audit_op_appends Cons.IH] show ?case by simp
qed simp

text \<open>A workload nonce is good once. After a nonce was accepted it is refused for ever, with
  any expiry and whatever other operations ran in between.\<close>

theorem nonce_accepted_once:
  assumes "claim_workload_nonce w n expires s = (t, True)"
  shows "snd (claim_workload_nonce w n later (fold apply_ledger_op ops t)) = False"
proof -
  from assms have "dget (st_workload_nonces t) (w, n) \<noteq> None"
    by (auto simp: claim_workload_nonce_def Let_def split: if_splits)
  from nonces_kept_run [OF this, of ops] show ?thesis
    by (simp add: claim_workload_nonce_def)
qed

theorem nonce_accepted_once_witness:
  "\<exists>t. claim_workload_nonce ''w'' ''n'' 60 empty_store = (t, True) \<and>
     snd (claim_workload_nonce ''w'' ''n'' 90
       (apply_ledger_op (On_delegations (Claim_nonce ''w'' ''m'' 60)) t)) = False"
proof -
  obtain t where t: "claim_workload_nonce ''w'' ''n'' 60 empty_store = (t, True)"
    by (simp add: claim_workload_nonce_def empty_store_def)
  from nonce_accepted_once [OF t, of 90 "[On_delegations (Claim_nonce ''w'' ''m'' 60)]"] t
  show ?thesis by auto
qed

text \<open>One reviewer wins. Of any number of approvals, rejections and deletions of one asset
  capability that all saw the same version, in any order, at most one takes effect.\<close>

theorem capability_review_single_winner:
  "length (filter id (snd (run_attempts (map (\<lambda>u. apply_capability_update u k n) us) s))) \<le> 1"
  by (rule capability_rows.at_most_one_writer)

end
