(* ===== verification/Scan_Gate.thy ===== *)
theory Scan_Gate
  imports Prelude
begin

text \<open>
  The scan gate (\<open>governance/gate.py\<close>, \<open>scan_orchestration.py\<close>, the records of
  \<open>governance/models.py\<close>, \<open>tool_catalog.py\<close> and the seeded matrix of \<open>seed.py\<close>): from the
  latest scan and the tier's tool matrix to the state of each gate stage, the verdict over
  all stages, and the merge of a partial rescan. Findings are the JSON objects that scanners
  return; \<open>repr\<close> is Python's \<open>repr\<close> of a JSON container.
\<close>

section \<open>Records\<close>

record gov_tool =
  gv_tool_id :: string
  gv_name :: string
  gv_area :: string
  gv_repo :: string
  gv_license :: string
  gv_exec_kind :: string
  gv_invoke_cmd :: string
  gv_timeout :: int
  gv_finding_risk_map :: "(string \<times> string) list"
  gv_target_asset_types :: "string list"
  gv_status :: string
  gv_current_version :: string
  gv_compute :: string
  gv_compute_rationale :: string
  gv_image_uri :: string
  gv_needs_source :: bool

record tier_cell =
  tc_tier :: string
  tc_tool_id :: string
  tc_enforcement :: string
  tc_threshold :: string
  tc_asset_type_scope :: string

type_synonym finding = "(string \<times> json) list"

record scan_record =
  sc_ts :: string
  sc_risk :: string
  sc_findings :: "finding list"
  sc_trigger :: string
  sc_principal :: string
  sc_status :: string
  sc_scanned_areas :: "string list"
  sc_scanner_kind :: string
  sc_scan_id :: string
  sc_version :: string
  sc_rescan_area :: string

datatype stage_state =
    Stage_pending | Stage_running | Stage_pass | Stage_fail | Stage_not_run
  | Stage_not_applicable | Stage_unknown

record gate_stage =
  gs_tool_id :: string
  gs_tool_name :: string
  gs_area :: string
  gs_enforcement :: string
  gs_state :: stage_state
  gs_findings_count :: nat

text \<open>\<open>ScanApplicability.state\<close>.\<close>

datatype applicability = Applicable | Not_applicable | Applicability_unknown

section \<open>Findings\<close>

definition CODE_PREFIX_TO_AREA :: "(string \<times> string) list" where
  "CODE_PREFIX_TO_AREA =
     [(''SECRET_'', ''secret''), (''SAST_'', ''sast''), (''MCP_'', ''mcp_poison''),
      (''CVE_'', ''sbom_cve''), (''SBOM_'', ''sbom_cve''), (''PII_'', ''pii''),
      (''SIGN_'', ''signing''), (''REDTEAM_'', ''llm_redteam''), (''THREAT_'', ''agent_intent'')]"

definition area_of_finding :: "string \<Rightarrow> string option" where
  "area_of_finding code = map_option snd (find (\<lambda>(p, _). prefix p code) CODE_PREFIX_TO_AREA)"

definition finding_code :: "(json \<Rightarrow> string) \<Rightarrow> finding \<Rightarrow> string" where
  "finding_code repr f = py_str repr (jget_or f ''code'' (JStr []))"

definition active_findings ::
  "(json \<Rightarrow> string) \<Rightarrow> finding list \<Rightarrow> gate_stage list \<Rightarrow> finding list" where
  "active_findings repr findings stages =
     filter (\<lambda>f. case area_of_finding (finding_code repr f) of
                   None \<Rightarrow> True
                 | Some area \<Rightarrow> area \<in> set (map gs_area stages)) findings"

definition risk_rank :: "string \<Rightarrow> nat" where
  "risk_rank severity =
     (if severity = ''low'' then 1 else if severity = ''medium'' then 2
      else if severity = ''high'' then 3 else 0)"

definition rank_risk :: "nat \<Rightarrow> string" where
  "rank_risk n = [''none'', ''low'', ''medium'', ''high''] ! n"

definition risk_of_findings :: "(json \<Rightarrow> string) \<Rightarrow> finding list \<Rightarrow> string" where
  "risk_of_findings repr findings =
     rank_risk (fold (\<lambda>f worst. max worst
       (risk_rank (py_str repr (jget_or f ''severity'' (JStr ''none''))))) findings 0)"

definition asset_key_of :: "string option \<Rightarrow> string option" where
  "asset_key_of descriptor_type =
     map_of [(''MCP'', ''mcp''), (''Agent'', ''agent''), (''Agent Skills'', ''skill'')]
       (case descriptor_type of None \<Rightarrow> [] | Some t \<Rightarrow> t)"

section \<open>The stages\<close>

text \<open>The area a finding counts for: by its code, else by the area it names.\<close>

definition finding_area :: "(json \<Rightarrow> string) \<Rightarrow> finding \<Rightarrow> string option" where
  "finding_area repr f =
     (case area_of_finding (finding_code repr f) of
        Some a \<Rightarrow> Some a
      | None \<Rightarrow> if truthy (jget f ''area'') then Some (py_str repr (jget f ''area'')) else None)"

fun tally_findings ::
  "(json \<Rightarrow> string) \<Rightarrow> finding list \<Rightarrow> (string, nat) dict \<Rightarrow> (string, nat) dict" where
  "tally_findings repr [] d = d"
| "tally_findings repr (f # fs) d =
     tally_findings repr fs
       (case finding_area repr f of
          None \<Rightarrow> d
        | Some a \<Rightarrow> dput a ((case dget d a of None \<Rightarrow> 0 | Some n \<Rightarrow> n) + 1) d)"

text \<open>A failure of the scan as a whole: no tool examined anything.\<close>

definition scan_level_failure :: "(json \<Rightarrow> string) \<Rightarrow> finding \<Rightarrow> bool" where
  "scan_level_failure repr f \<longleftrightarrow>
     finding_code repr f \<in> {''SOURCE_MISSING'', ''SCANNER_ERROR''} \<and> finding_area repr f = None"

definition findings_in :: "(string, nat) dict \<Rightarrow> string \<Rightarrow> nat" where
  "findings_in d area = (case dget d area of None \<Rightarrow> 0 | Some n \<Rightarrow> n)"

definition settled_state ::
  "scan_record \<Rightarrow> string \<Rightarrow> (string, nat) dict \<Rightarrow> stage_state \<times> nat" where
  "settled_state scan area by_area =
     (let count = findings_in by_area area in
      if count > 0 then (Stage_fail, count)
      else if area \<in> set (sc_scanned_areas scan) then (Stage_pass, count)
      else if sc_scanned_areas scan \<noteq> [] \<or> sc_scanner_kind scan \<noteq> [] then (Stage_not_run, count)
      else (Stage_pass, count))"

definition scan_tally :: "(json \<Rightarrow> string) \<Rightarrow> scan_record option \<Rightarrow> (string, nat) dict" where
  "scan_tally repr scan =
     (case scan of None \<Rightarrow> [] | Some s \<Rightarrow> tally_findings repr (sc_findings s) [])"

definition scan_failed :: "(json \<Rightarrow> string) \<Rightarrow> scan_record option \<Rightarrow> bool" where
  "scan_failed repr scan =
     (case scan of None \<Rightarrow> False | Some s \<Rightarrow> list_ex (scan_level_failure repr) (sc_findings s))"

text \<open>The state of a stage whose tool applies to the asset.\<close>

definition scanned_stage ::
  "(json \<Rightarrow> string) \<Rightarrow> scan_record option \<Rightarrow> string \<Rightarrow> stage_state \<times> nat" where
  "scanned_stage repr scan area =
     (case scan of
        None \<Rightarrow> (Stage_pending, 0)
      | Some s \<Rightarrow>
          if sc_status s = ''running'' \<and> sc_rescan_area s \<noteq> [] then
            (if area = sc_rescan_area s then (Stage_running, 0)
             else settled_state s area (scan_tally repr scan))
          else if sc_status s \<noteq> ''done'' then (Stage_pending, 0)
          else if scan_failed repr scan then (Stage_not_run, 0)
          else settled_state s area (scan_tally repr scan))"

definition applicability_state :: "applicability \<Rightarrow> bool \<Rightarrow> stage_state option" where
  "applicability_state applicability needs_source =
     (if \<not> needs_source then None
      else case applicability of
        Applicable \<Rightarrow> None
      | Not_applicable \<Rightarrow> Some Stage_not_applicable
      | Applicability_unknown \<Rightarrow> Some Stage_unknown)"

definition tool_of :: "gov_tool list \<Rightarrow> string \<Rightarrow> gov_tool option" where
  "tool_of tools tool_id = find (\<lambda>t. gv_tool_id t = tool_id) (rev tools)"

text \<open>Whether a cell of the matrix is a stage for this asset, and its state.\<close>

definition cell_shown :: "gov_tool list \<Rightarrow> string option \<Rightarrow> tier_cell \<Rightarrow> bool" where
  "cell_shown tools asset_type cell \<longleftrightarrow>
     tc_enforcement cell \<noteq> ''off'' \<and>
     (case (asset_type, tool_of tools (tc_tool_id cell)) of
        (Some t, Some tool) \<Rightarrow> t = [] \<or> t \<in> set (gv_target_asset_types tool)
      | _ \<Rightarrow> True)"

definition cell_stage ::
  "(json \<Rightarrow> string) \<Rightarrow> gov_tool list \<Rightarrow> scan_record option \<Rightarrow> bool \<Rightarrow> applicability
     \<Rightarrow> tier_cell \<Rightarrow> gate_stage" where
  "cell_stage repr tools scan has_source applicability cell =
     (let tool = tool_of tools (tc_tool_id cell);
          area = (case tool of None \<Rightarrow> tc_tool_id cell | Some t \<Rightarrow> gv_area t);
          name = (case tool of None \<Rightarrow> tc_tool_id cell | Some t \<Rightarrow> gv_name t);
          needs_source = (case tool of None \<Rightarrow> False | Some t \<Rightarrow> gv_needs_source t);
          stage = (\<lambda>(state, n). \<lparr>gs_tool_id = tc_tool_id cell, gs_tool_name = name,
            gs_area = area, gs_enforcement = tc_enforcement cell, gs_state = state,
            gs_findings_count = n\<rparr>);
          observed = 0 < findings_in (scan_tally repr scan) area
      in case applicability_state applicability needs_source of
           Some state \<Rightarrow>
             if \<not> (state = Stage_unknown \<and> observed) then stage (state, 0)
             else if \<not> has_source \<and> needs_source then stage (Stage_not_applicable, 0)
             else stage (scanned_stage repr scan area)
         | None \<Rightarrow>
             if \<not> has_source \<and> needs_source then stage (Stage_not_applicable, 0)
             else stage (scanned_stage repr scan area))"

definition compute_gates ::
  "(json \<Rightarrow> string) \<Rightarrow> tier_cell list \<Rightarrow> gov_tool list \<Rightarrow> scan_record option \<Rightarrow> string option
     \<Rightarrow> bool \<Rightarrow> applicability \<Rightarrow> gate_stage list" where
  "compute_gates repr cells tools scan asset_type has_source applicability =
     map (cell_stage repr tools scan has_source applicability)
       (filter (cell_shown tools asset_type) cells)"

section \<open>The verdict\<close>

datatype gate_verdict = No_verdict | Auto_reject | Verdict_pending | Auto_approve

record gate_progress =
  gp_passed :: nat
  gp_total :: nat
  gp_verdict :: gate_verdict

definition countable_stages :: "gate_stage list \<Rightarrow> gate_stage list" where
  "countable_stages stages = filter (\<lambda>s. gs_state s \<noteq> Stage_not_applicable) stages"

definition gate_summary :: "gate_stage list \<Rightarrow> gate_progress" where
  "gate_summary stages =
     (let countable = countable_stages stages;
          required = filter (\<lambda>s. gs_enforcement s = ''required'') countable;
          required_fail = list_ex (\<lambda>s. gs_state s = Stage_fail) required;
          required_incomplete = list_ex (\<lambda>s. gs_state s \<in>
            {Stage_pending, Stage_not_run, Stage_running, Stage_unknown}) required;
          has_unknown = list_ex (\<lambda>s. gs_state s = Stage_unknown) countable;
          warn_fail = list_ex (\<lambda>s. gs_state s = Stage_fail)
            (filter (\<lambda>s. gs_enforcement s = ''warn'') countable)
      in \<lparr>gp_passed = length (filter (\<lambda>s. gs_state s = Stage_pass) countable),
          gp_total = length countable,
          gp_verdict =
            (if countable = [] then No_verdict
             else if required_fail then Auto_reject
             else if required_incomplete \<or> warn_fail \<or> has_unknown then Verdict_pending
             else Auto_approve)\<rparr>)"

datatype progress_verdict =
    Human_approved | Human_approved_override | Human_rejected | Human_deprecated
  | Undecided gate_verdict

definition effective_verdict :: "gate_verdict \<Rightarrow> string \<Rightarrow> progress_verdict" where
  "effective_verdict scan_verdict status =
     (if status = ''APPROVED'' then
        (if scan_verdict \<in> {Auto_reject, Verdict_pending} then Human_approved_override
         else Human_approved)
      else if status = ''REJECTED'' then Human_rejected
      else if status = ''DEPRECATED'' then Human_deprecated
      else Undecided scan_verdict)"

section \<open>What is run, and the merge of results\<close>

record tool_job =
  tj_tool_id :: string
  tj_area :: string
  tj_compute :: string
  tj_image_ref :: string
  tj_model_alias :: string

definition runs_cell :: "gov_tool list \<Rightarrow> string option \<Rightarrow> bool \<Rightarrow> tier_cell \<Rightarrow> bool" where
  "runs_cell tools asset_type has_source cell \<longleftrightarrow>
     tc_enforcement cell \<noteq> ''off'' \<and>
     (case tool_of tools (tc_tool_id cell) of
        None \<Rightarrow> False
      | Some tool \<Rightarrow>
          (case asset_type of None \<Rightarrow> True
           | Some t \<Rightarrow> t = [] \<or> t \<in> set (gv_target_asset_types tool)) \<and>
          (has_source \<or> \<not> gv_needs_source tool))"

definition job_of :: "gov_tool list \<Rightarrow> string \<Rightarrow> tier_cell \<Rightarrow> tool_job option" where
  "job_of tools judge_model cell =
     map_option (\<lambda>t. \<lparr>tj_tool_id = gv_tool_id t, tj_area = gv_area t, tj_compute = gv_compute t,
       tj_image_ref = gv_image_uri t,
       tj_model_alias = (if gv_tool_id t = ''llm-judge'' then judge_model else [])\<rparr>)
       (tool_of tools (tc_tool_id cell))"

definition resolve_tools ::
  "tier_cell list \<Rightarrow> gov_tool list \<Rightarrow> string option \<Rightarrow> string \<Rightarrow> bool \<Rightarrow> tool_job list" where
  "resolve_tools cells tools asset_type judge_model has_source =
     List.map_filter (job_of tools judge_model)
       (filter (runs_cell tools asset_type has_source) cells)"

fun add_areas :: "string list \<Rightarrow> string list \<Rightarrow> string list" where
  "add_areas areas [] = areas"
| "add_areas areas (a # as) = add_areas (if a \<in> set areas then areas else areas @ [a]) as"

record scan_merge =
  sm_risk :: string
  sm_findings :: "finding list"
  sm_scanned_areas :: "string list"

definition merge_partial_scan ::
  "(json \<Rightarrow> string) \<Rightarrow> finding list \<Rightarrow> string list \<Rightarrow> string \<Rightarrow> finding list \<Rightarrow> string list
     \<Rightarrow> scan_merge" where
  "merge_partial_scan repr base_findings base_areas rescan_area new_findings new_areas =
     (let findings = filter (\<lambda>f. area_of_finding (finding_code repr f) \<noteq> Some rescan_area)
                       base_findings @ new_findings;
          areas = add_areas (filter (\<lambda>a. a \<noteq> rescan_area) base_areas) new_areas
      in \<lparr>sm_risk = risk_of_findings repr findings, sm_findings = findings,
          sm_scanned_areas = areas\<rparr>)"

record tool_result =
  rs_risk :: string
  rs_findings :: "finding list"
  rs_scanned_areas :: "string list"

fun aggregate_from :: "scan_merge \<Rightarrow> tool_result list \<Rightarrow> scan_merge" where
  "aggregate_from m [] = m"
| "aggregate_from m (r # rs) =
     aggregate_from \<lparr>sm_risk = (if risk_rank (sm_risk m) < risk_rank (rs_risk r) then rs_risk r
                                else sm_risk m),
       sm_findings = sm_findings m @ rs_findings r,
       sm_scanned_areas = add_areas (sm_scanned_areas m) (rs_scanned_areas r)\<rparr> rs"

definition aggregate_results :: "tool_result list \<Rightarrow> scan_merge" where
  "aggregate_results rs =
     aggregate_from \<lparr>sm_risk = ''none'', sm_findings = [], sm_scanned_areas = []\<rparr> rs"

section \<open>The tool catalog and the seeded matrix\<close>

definition catalog_tool ::
  "string \<Rightarrow> string \<Rightarrow> string \<Rightarrow> string \<Rightarrow> string \<Rightarrow> string \<Rightarrow> string \<Rightarrow> string list \<Rightarrow> string
     \<Rightarrow> string \<Rightarrow> bool \<Rightarrow> gov_tool" where
  "catalog_tool tid name area lic kind cmd ver targets compute img needs_source = \<lparr>
     gv_tool_id = tid, gv_name = name, gv_area = area, gv_repo = ''github.com/'' @ tid,
     gv_license = lic, gv_exec_kind = kind, gv_invoke_cmd = cmd, gv_timeout = 60,
     gv_finding_risk_map = [], gv_target_asset_types = targets,
     gv_status = (if tid \<in> {''gitleaks'', ''semgrep'', ''trivy'', ''llm-judge''} then ''active''
                  else ''staged''),
     gv_current_version = ver, gv_compute = compute, gv_compute_rationale = [],
     gv_image_uri = img, gv_needs_source = needs_source\<rparr>"

definition list_catalog_tools :: "gov_tool list" where
  "list_catalog_tools =
     [catalog_tool ''gitleaks'' ''Gitleaks'' ''secret'' ''MIT'' ''offline'' ''gitleaks detect''
        ''v8.30.0'' [''mcp'', ''skill'', ''agent''] ''lambda'' ''agora-tool-gitleaks'' True,
      catalog_tool ''semgrep'' ''Semgrep'' ''sast'' ''LGPL-2.1'' ''offline''
        ''semgrep --config auto'' ''v1.16.0'' [''mcp'', ''skill'', ''agent''] ''fargate''
        ''agora-tool-semgrep'' True,
      catalog_tool ''trivy'' ''Trivy'' ''sbom_cve'' ''Apache-2.0'' ''cli'' ''trivy fs .''
        ''v0.72.0'' [''mcp'', ''agent''] ''lambda'' ''agora-tool-trivy'' True,
      catalog_tool ''llm-judge'' ''LLM Judge'' ''agent_intent'' ''proprietary'' ''service''
        ''bedrock converse'' ''v1'' [''agent'', ''mcp'', ''skill''] ''lambda''
        ''agora-tool-llm-judge'' False]"

definition TIER_MATRIX :: "(string \<times> (string \<times> string) list) list" where
  "TIER_MATRIX =
     [(''minimal'', [(''gitleaks'', ''required''), (''semgrep'', ''required''),
        (''llm-judge'', ''warn'')]),
      (''standard'', [(''gitleaks'', ''required''), (''semgrep'', ''required''),
        (''trivy'', ''required''), (''llm-judge'', ''warn'')]),
      (''strong'', [(''gitleaks'', ''required''), (''semgrep'', ''required''),
        (''trivy'', ''required''), (''llm-judge'', ''required'')])]"

definition seeded_cell :: "string \<Rightarrow> string \<times> string \<Rightarrow> tier_cell" where
  "seeded_cell tier c = \<lparr>tc_tier = tier, tc_tool_id = fst c, tc_enforcement = snd c,
     tc_threshold = [], tc_asset_type_scope = ''*''\<rparr>"

definition promoted :: "tier_cell \<Rightarrow> tier_cell" where
  "promoted c = (if tc_enforcement c = ''recommend'' then c\<lparr>tc_enforcement := ''warn''\<rparr> else c)"

text \<open>The cells of one tier after \<open>seed_tiers\<close>; the write is skipped when nothing changed.\<close>

definition keyed_cells :: "tier_cell list \<Rightarrow> (string, tier_cell) dict" where
  "keyed_cells cells = fold (\<lambda>c. dput (tc_tool_id c) c) cells []"

definition seed_tier :: "string \<Rightarrow> (string \<times> string) list \<Rightarrow> tier_cell list \<Rightarrow> tier_cell list" where
  "seed_tier tier code_cells cells =
     (let existing = map (\<lambda>(k, c). (k, promoted c)) (keyed_cells cells);
          added = filter (\<lambda>c. fst c \<notin> set (dkeys existing)) code_cells
      in if added = [] \<and> list_all (\<lambda>c. tc_enforcement c \<noteq> ''recommend'')
                           (dvalues (keyed_cells cells))
         then cells
         else dvalues existing @ map (seeded_cell tier) added)"

section \<open>Lemmas\<close>

lemma findings_in_dput [simp]:
  "findings_in (dput a n d) b = (if b = a then n else findings_in d b)"
  by (simp add: findings_in_def)

lemma findings_in_tally:
  "findings_in (tally_findings repr fs d) a =
     findings_in d a + length (filter (\<lambda>f. finding_area repr f = Some a) fs)"
proof (induction fs arbitrary: d)
  case (Cons f fs)
  then show ?case
    by (cases "finding_area repr f") (auto simp: findings_in_def split: option.splits)
qed simp

lemma findings_in_scan:
  "findings_in (scan_tally repr (Some s)) a =
     length (filter (\<lambda>f. finding_area repr f = Some a) (sc_findings s))"
  by (simp add: scan_tally_def findings_in_tally) (simp add: findings_in_def)

lemma settled_state_simps:
  "fst (settled_state s area d) = Stage_pass \<longleftrightarrow>
     findings_in d area = 0 \<and>
     (area \<in> set (sc_scanned_areas s) \<or> sc_scanned_areas s = [] \<and> sc_scanner_kind s = [])"
  "fst (settled_state s area d) \<noteq> Stage_not_applicable"
  "fst (settled_state s area d) \<noteq> Stage_unknown"
  by (auto simp: settled_state_def Let_def)

lemma scanned_stage_applicable [simp]:
  "fst (scanned_stage repr scan area) \<noteq> Stage_not_applicable"
  "fst (scanned_stage repr scan area) \<noteq> Stage_unknown"
  by (auto simp: scanned_stage_def settled_state_simps split: option.split)

definition cell_area :: "gov_tool list \<Rightarrow> tier_cell \<Rightarrow> string" where
  "cell_area tools cell =
     (case tool_of tools (tc_tool_id cell) of None \<Rightarrow> tc_tool_id cell | Some t \<Rightarrow> gv_area t)"

lemma cell_stage_shape:
  "\<exists>name state n. cell_stage repr tools scan hs ap cell = \<lparr>gs_tool_id = tc_tool_id cell, gs_tool_name = name,
     gs_area = cell_area tools cell, gs_enforcement = tc_enforcement cell, gs_state = state, gs_findings_count = n\<rparr>"
proof -
  obtain state n where s: "scanned_stage repr scan (cell_area tools cell) = (state, n)" by fastforce
  show ?thesis
  proof (cases "tool_of tools (tc_tool_id cell)")
    case None
    with s show ?thesis
      by (cases "applicability_state ap False") (simp_all add: cell_stage_def cell_area_def Let_def)
  next
    case (Some t)
    with s show ?thesis
      by (cases "applicability_state ap (gv_needs_source t)") (simp_all add: cell_stage_def cell_area_def Let_def)
  qed
qed

lemma cell_stage_fields [simp]:
  "gs_tool_id (cell_stage repr tools scan hs ap cell) = tc_tool_id cell"
  "gs_enforcement (cell_stage repr tools scan hs ap cell) = tc_enforcement cell"
  "gs_area (cell_stage repr tools scan hs ap cell) = cell_area tools cell"
  by (metis cell_stage_shape gate_stage.select_convs)+

definition needs_source :: "gov_tool list \<Rightarrow> tier_cell \<Rightarrow> bool" where
  "needs_source tools cell =
     (case tool_of tools (tc_tool_id cell) of None \<Rightarrow> False | Some t \<Rightarrow> gv_needs_source t)"

text \<open>The state of a stage comes from the scan, or from what is known of the asset.\<close>

lemma cell_stage_state:
  "gs_state (cell_stage repr tools scan hs ap cell) =
     (case applicability_state ap (needs_source tools cell) of
        Some st \<Rightarrow>
          if \<not> (st = Stage_unknown \<and> 0 < findings_in (scan_tally repr scan) (cell_area tools cell))
          then st
          else if \<not> hs then Stage_not_applicable
          else fst (scanned_stage repr scan (cell_area tools cell))
      | None \<Rightarrow>
          if \<not> hs \<and> needs_source tools cell then Stage_not_applicable
          else fst (scanned_stage repr scan (cell_area tools cell)))"
  by (auto simp: cell_stage_def cell_area_def needs_source_def applicability_state_def Let_def
      split: option.split prod.split applicability.split)

lemma map_of_map_filter:
  "\<forall>x \<in> set xs. map_option f (g x) = Some (h x) \<Longrightarrow> map f (List.map_filter g xs) = map h xs"
  by (induction xs) (auto simp: List.map_filter_simps split: option.split)

lemma tool_of_id: "tool_of tools i = Some t \<Longrightarrow> gv_tool_id t = i"
  by (auto simp: tool_of_def find_Some_iff)

lemma countable_nonempty:
  "countable_stages stages \<noteq> [] \<longleftrightarrow> (\<exists>s \<in> set stages. gs_state s \<noteq> Stage_not_applicable)"
  by (auto simp: countable_stages_def filter_empty_conv)

lemma verdict_approve:
  "(if a then No_verdict else if b then Auto_reject else if c then Verdict_pending
    else Auto_approve) = Auto_approve \<longleftrightarrow> \<not> a \<and> \<not> b \<and> \<not> c"
  by simp

lemma no_obstacle:
  "N \<and> \<not> (\<exists>s \<in> A. R s \<and> F s) \<and>
     \<not> ((\<exists>s \<in> A. R s \<and> I s) \<or> (\<exists>s \<in> A. W s \<and> F s) \<or> (\<exists>s \<in> A. U s)) \<longleftrightarrow>
   N \<and> (\<forall>s \<in> A. (R s \<longrightarrow> \<not> F s \<and> \<not> I s) \<and> (W s \<longrightarrow> \<not> F s) \<and> \<not> U s)"
proof (cases N)
  case True
  then show ?thesis by (meson True)
qed simp

lemma bex_filter: "(\<exists>x \<in> set (filter P xs). Q x) \<longleftrightarrow> (\<exists>x \<in> set xs. P x \<and> Q x)"
  by auto

lemma stage_settled:
  "(st \<noteq> Stage_not_applicable \<longrightarrow>
      (R \<longrightarrow> st \<noteq> Stage_fail \<and> st \<notin> {Stage_pending, Stage_not_run, Stage_running, Stage_unknown}) \<and>
      (W \<longrightarrow> st \<noteq> Stage_fail) \<and> st \<noteq> Stage_unknown) \<longleftrightarrow>
   st \<noteq> Stage_unknown \<and> (R \<longrightarrow> st \<in> {Stage_pass, Stage_not_applicable}) \<and>
      (W \<longrightarrow> st \<noteq> Stage_fail)"
  by (cases st) auto

lemma ball_countable:
  "(\<forall>s \<in> set (countable_stages stages). P s) \<longleftrightarrow>
     (\<forall>s \<in> set stages. gs_state s \<noteq> Stage_not_applicable \<longrightarrow> P s)"
  by (auto simp: countable_stages_def)

lemma cell_stage_cong:
  assumes "scanned_stage repr scan (cell_area tools c) = scanned_stage repr scan' (cell_area tools c)"
    and "findings_in (scan_tally repr scan) (cell_area tools c) =
      findings_in (scan_tally repr scan') (cell_area tools c)"
  shows "cell_stage repr tools scan hs ap c = cell_stage repr tools scan' hs ap c"
  by (simp only: cell_stage_def Let_def assms [unfolded cell_area_def])

lemma set_add_areas: "set (add_areas areas as) = set areas \<union> set as"
  by (induction as arbitrary: areas) auto

section \<open>A partial rescan\<close>

lemma merge_other_findings:
  assumes "\<forall>f \<in> set fs. finding_area repr f = Some a" "b \<noteq> a"
  shows "filter (\<lambda>f. finding_area repr f = Some b)
      (sm_findings (merge_partial_scan repr base areas a fs as)) =
    filter (\<lambda>f. finding_area repr f = Some b) base"
proof -
  have "filter (\<lambda>f. finding_area repr f = Some b) fs = []"
    using assms by (auto simp: filter_empty_conv)
  moreover have "filter (\<lambda>f. area_of_finding (finding_code repr f) \<noteq> Some a \<and>
      finding_area repr f = Some b) base = filter (\<lambda>f. finding_area repr f = Some b) base"
    using assms(2) by (intro filter_cong) (auto simp: finding_area_def)
  ultimately show ?thesis by (simp add: merge_partial_scan_def Let_def)
qed

lemma merge_scan_level_failure:
  assumes "\<forall>f \<in> set fs. finding_area repr f = Some a"
    and "\<not> list_ex (scan_level_failure repr) base"
  shows "\<not> list_ex (scan_level_failure repr)
    (sm_findings (merge_partial_scan repr base areas a fs as))"
  using assms by (auto simp: merge_partial_scan_def Let_def list_ex_iff scan_level_failure_def)

section \<open>Properties\<close>

text \<open>When a scan approves by itself. The verdict is \<open>auto-approve\<close> iff some stage applies to
  the asset, every applicable required stage passed, no warning stage failed, and the
  applicability of no stage is unobserved. A required stage that was not run, is running or
  waits is never taken for a pass.\<close>

theorem auto_approve_iff:
  "gp_verdict (gate_summary stages) = Auto_approve \<longleftrightarrow>
     (\<exists>s \<in> set stages. gs_state s \<noteq> Stage_not_applicable) \<and>
     (\<forall>s \<in> set stages.
        gs_state s \<noteq> Stage_unknown \<and>
        (gs_enforcement s = ''required'' \<longrightarrow> gs_state s \<in> {Stage_pass, Stage_not_applicable}) \<and>
        (gs_enforcement s = ''warn'' \<longrightarrow> gs_state s \<noteq> Stage_fail))"
proof -
  let ?c = "countable_stages stages"
  have "gp_verdict (gate_summary stages) = Auto_approve \<longleftrightarrow> ?c \<noteq> [] \<and>
      \<not> (\<exists>s \<in> set ?c. gs_enforcement s = ''required'' \<and> gs_state s = Stage_fail) \<and>
      \<not> ((\<exists>s \<in> set ?c. gs_enforcement s = ''required'' \<and>
            gs_state s \<in> {Stage_pending, Stage_not_run, Stage_running, Stage_unknown}) \<or>
         (\<exists>s \<in> set ?c. gs_enforcement s = ''warn'' \<and> gs_state s = Stage_fail) \<or>
         (\<exists>s \<in> set ?c. gs_state s = Stage_unknown))"
    by (simp only: gate_summary_def Let_def gate_progress.select_convs verdict_approve
        list_ex_iff bex_filter)
  also have "\<dots> \<longleftrightarrow> ?c \<noteq> [] \<and> (\<forall>s \<in> set ?c.
      (gs_enforcement s = ''required'' \<longrightarrow> gs_state s \<noteq> Stage_fail \<and>
         gs_state s \<notin> {Stage_pending, Stage_not_run, Stage_running, Stage_unknown}) \<and>
      (gs_enforcement s = ''warn'' \<longrightarrow> gs_state s \<noteq> Stage_fail) \<and> gs_state s \<noteq> Stage_unknown)"
    by (rule no_obstacle)
  finally show ?thesis
    unfolding countable_nonempty ball_countable stage_settled .
qed

definition sample_stage :: "string \<Rightarrow> stage_state \<Rightarrow> gate_stage" where
  "sample_stage enforcement st = \<lparr>gs_tool_id = ''t'', gs_tool_name = ''T'', gs_area = ''a'',
     gs_enforcement = enforcement, gs_state = st, gs_findings_count = 0\<rparr>"

theorem auto_approve_iff_witness:
  "gp_verdict (gate_summary [sample_stage ''required'' Stage_pass,
     sample_stage ''warn'' Stage_not_run, sample_stage ''required'' Stage_not_applicable]) =
     Auto_approve"
  unfolding auto_approve_iff by (simp add: sample_stage_def)

text \<open>A pass was examined. Unless the scan is of the oldest kind, which names no scanner, a
  stage is shown as passed only if the scan examined its area and found nothing there, and
  the scan is complete and did not fail as a whole, or is a rescan of another area.\<close>

theorem pass_means_examined:
  assumes "st \<in> set (compute_gates repr cells tools (Some scan) asset_type has_source ap)"
    and "gs_state st = Stage_pass" "sc_scanner_kind scan \<noteq> []"
  shows "gs_area st \<in> set (sc_scanned_areas scan) \<and>
    (\<forall>f \<in> set (sc_findings scan). finding_area repr f \<noteq> Some (gs_area st)) \<and>
    (sc_status scan = ''done'' \<and> \<not> scan_failed repr (Some scan) \<or>
     sc_status scan = ''running'' \<and> sc_rescan_area scan \<notin> {[], gs_area st})"
proof -
  from assms(1) obtain cell where "st = cell_stage repr tools (Some scan) has_source ap cell"
    by (auto simp: compute_gates_def)
  with assms(2) have "fst (scanned_stage repr (Some scan) (gs_area st)) = Stage_pass"
    by (auto simp: cell_stage_state applicability_state_def
        split: option.splits if_splits applicability.splits)
  with assms(3) show ?thesis
    by (auto simp: scanned_stage_def settled_state_simps findings_in_scan filter_empty_conv
        split: if_splits)
qed

definition sample_scan :: scan_record where
  "sample_scan = \<lparr>sc_ts = ''t1'', sc_risk = ''none'', sc_findings = [], sc_trigger = ''auto'',
     sc_principal = [], sc_status = ''done'', sc_scanned_areas = [''secret'', ''sast''],
     sc_scanner_kind = ''static'', sc_scan_id = [], sc_version = ''1'', sc_rescan_area = []\<rparr>"

lemma sample_gates:
  "compute_gates (\<lambda>_. []) [seeded_cell ''minimal'' (''gitleaks'', ''required'')]
     list_catalog_tools (Some sample_scan) (Some ''skill'') True Applicable =
   [\<lparr>gs_tool_id = ''gitleaks'', gs_tool_name = ''Gitleaks'', gs_area = ''secret'',
     gs_enforcement = ''required'', gs_state = Stage_pass, gs_findings_count = 0\<rparr>]"
  by code_simp

theorem pass_means_examined_witness:
  "''secret'' \<in> set (sc_scanned_areas sample_scan) \<and> sc_status sample_scan = ''done''"
proof -
  have k: "sc_scanner_kind sample_scan \<noteq> []" "sc_status sample_scan = ''done''"
    by (simp_all add: sample_scan_def)
  have "gs_area \<lparr>gs_tool_id = ''gitleaks'', gs_tool_name = ''Gitleaks'', gs_area = ''secret'',
     gs_enforcement = ''required'', gs_state = Stage_pass, gs_findings_count = 0\<rparr> \<in>
     set (sc_scanned_areas sample_scan)"
    using pass_means_examined [of _ "\<lambda>_. []" "[seeded_cell ''minimal'' (''gitleaks'', ''required'')]"
        list_catalog_tools sample_scan "Some ''skill''" True Applicable] k(1)
    unfolding sample_gates by (metis gate_stage.select_convs(5) list.set_intros(1))
  with k(2) show ?thesis by simp
qed

text \<open>
  While one area is scanned again, and after its result is merged into a complete scan, the
  stages of every other area are what they were.
\<close>

lemma stages_of_other_areas:
  assumes "\<And>b. b \<noteq> a \<Longrightarrow> scanned_stage repr (Some s) b = scanned_stage repr (Some base) b"
    and "\<And>b. b \<noteq> a \<Longrightarrow> findings_in (scan_tally repr (Some s)) b =
      findings_in (scan_tally repr (Some base)) b"
  shows "filter (\<lambda>st. gs_area st \<noteq> a) (compute_gates repr cells tools (Some s) t hs ap) =
    filter (\<lambda>st. gs_area st \<noteq> a) (compute_gates repr cells tools (Some base) t hs ap)"
proof -
  have "cell_stage repr tools (Some s) hs ap c = cell_stage repr tools (Some base) hs ap c"
    if "cell_area tools c \<noteq> a" for c
    using assms [OF that] by (rule cell_stage_cong)
  then show ?thesis
    by (auto simp: compute_gates_def filter_map o_def intro!: map_cong filter_cong)
qed

lemma running_rescan_other_areas:
  assumes "sc_status base = ''done''" "\<not> scan_failed repr (Some base)" "a \<noteq> []"
    and "sc_status s = ''running''" "sc_rescan_area s = a"
    and "sc_findings s = sc_findings base" "sc_scanned_areas s = sc_scanned_areas base"
      "sc_scanner_kind s = sc_scanner_kind base" "b \<noteq> a"
  shows "scanned_stage repr (Some s) b = scanned_stage repr (Some base) b"
    and "findings_in (scan_tally repr (Some s)) b = findings_in (scan_tally repr (Some base)) b"
  using assms
  by (simp_all add: scanned_stage_def settled_state_def scan_tally_def Let_def cong: if_cong)

lemma merged_scan_other_areas:
  assumes "sc_status base = ''done''" "\<not> scan_failed repr (Some base)"
    and "\<forall>f \<in> set fs. finding_area repr f = Some a" "set as \<subseteq> {a}"
    and "m = merge_partial_scan repr (sc_findings base) (sc_scanned_areas base) a fs as"
    and "sc_status s = ''done''" "sc_findings s = sm_findings m"
      "sc_scanned_areas s = sm_scanned_areas m" "sc_scanner_kind s \<noteq> []" "sc_scanner_kind base \<noteq> []"
    and "b \<noteq> a"
  shows "scanned_stage repr (Some s) b = scanned_stage repr (Some base) b"
    and "findings_in (scan_tally repr (Some s)) b = findings_in (scan_tally repr (Some base)) b"
proof -
  show n: "findings_in (scan_tally repr (Some s)) b = findings_in (scan_tally repr (Some base)) b"
    using merge_other_findings [OF assms(3,11)] by (simp add: findings_in_scan assms(5,7))
  have "\<not> scan_failed repr (Some s)"
    using merge_scan_level_failure [OF assms(3)] assms(2)
    by (simp add: scan_failed_def assms(5,7))
  moreover have "b \<in> set (sc_scanned_areas s) \<longleftrightarrow> b \<in> set (sc_scanned_areas base)"
    using assms(4,11) by (auto simp: assms(5,8) merge_partial_scan_def Let_def set_add_areas)
  ultimately show "scanned_stage repr (Some s) b = scanned_stage repr (Some base) b"
    using assms(1,2,6,9,10) by (simp add: scanned_stage_def settled_state_def n cong: if_cong)
qed

text \<open>What is run is what is waited for. When every tool of the matrix is in the catalog and
  the asset's sources are observed, the tools started for a scan are, in order, exactly those
  whose stage the gate does not call not applicable: nothing is run for nothing, and no gate
  waits for a tool that never runs.\<close>

theorem run_tools_match_gates:
  assumes "\<forall>c \<in> set cells. tool_of tools (tc_tool_id c) \<noteq> None"
  shows "map tj_tool_id (resolve_tools cells tools asset_type judge has_source) =
    map gs_tool_id (filter (\<lambda>st. gs_state st \<noteq> Stage_not_applicable)
      (compute_gates repr cells tools scan asset_type has_source Applicable))"
proof -
  have "gs_state (cell_stage repr tools scan has_source Applicable c) \<noteq> Stage_not_applicable \<longleftrightarrow>
      has_source \<or> \<not> needs_source tools c" for c
    by (auto simp: cell_stage_state applicability_state_def)
  moreover have "cell_shown tools asset_type c \<and> (has_source \<or> \<not> needs_source tools c) \<longleftrightarrow>
      runs_cell tools asset_type has_source c" if "c \<in> set cells" for c
    using assms that
    by (auto simp: cell_shown_def runs_cell_def needs_source_def split: option.splits)
  ultimately have "filter (\<lambda>c. cell_shown tools asset_type c \<and>
      gs_state (cell_stage repr tools scan has_source Applicable c) \<noteq> Stage_not_applicable) cells =
      filter (runs_cell tools asset_type has_source) cells"
    by (intro filter_cong) simp_all
  then have "filter (\<lambda>st. gs_state st \<noteq> Stage_not_applicable)
      (compute_gates repr cells tools scan asset_type has_source Applicable) =
    map (cell_stage repr tools scan has_source Applicable)
      (filter (runs_cell tools asset_type has_source) cells)"
    by (simp add: compute_gates_def filter_map o_def)
  moreover have "map_option tj_tool_id (job_of tools judge c) = Some (tc_tool_id c)"
    if "c \<in> set cells" for c
    using assms that
    by (cases "tool_of tools (tc_tool_id c)") (auto simp: job_of_def tool_of_id simp del: map_option_eq_Some)
  then have "map tj_tool_id (List.map_filter (job_of tools judge)
        (filter (runs_cell tools asset_type has_source) cells)) =
      map tc_tool_id (filter (runs_cell tools asset_type has_source) cells)"
    by (intro map_of_map_filter) simp
  ultimately show ?thesis by (simp add: resolve_tools_def o_def)
qed

theorem run_tools_match_gates_witness:
  "map tj_tool_id (resolve_tools (map (seeded_cell ''standard'')
       (the (map_of TIER_MATRIX ''standard''))) list_catalog_tools (Some ''mcp'') ''judge'' False) =
     [''llm-judge''] \<and>
   map gs_tool_id (filter (\<lambda>st. gs_state st \<noteq> Stage_not_applicable)
     (compute_gates (\<lambda>_. []) (map (seeded_cell ''standard'') (the (map_of TIER_MATRIX ''standard'')))
       list_catalog_tools None (Some ''mcp'') False Applicable)) = [''llm-judge'']"
proof -
  have c: "\<forall>c \<in> set (map (seeded_cell ''standard'') (the (map_of TIER_MATRIX ''standard''))).
      tool_of list_catalog_tools (tc_tool_id c) \<noteq> None"
    by code_simp
  have r: "map tj_tool_id (resolve_tools (map (seeded_cell ''standard'')
       (the (map_of TIER_MATRIX ''standard''))) list_catalog_tools (Some ''mcp'') ''judge'' False) =
     [''llm-judge'']"
    by code_simp
  with run_tools_match_gates [OF c] show ?thesis by metis
qed

text \<open>What the gate makes of a connected MCP: its \<open>standard\<close> matrix, no source bundle.\<close>

definition connected_mcp_gate :: "scan_record option \<Rightarrow> gate_progress" where
  "connected_mcp_gate scan = gate_summary (compute_gates (\<lambda>_. [])
     (map (seeded_cell ''standard'') (the (map_of TIER_MATRIX ''standard'')))
     list_catalog_tools scan (Some ''mcp'') False Applicable)"

definition scanner_error :: finding where
  "scanner_error = [(''code'', JStr ''SCANNER_ERROR''), (''severity'', JStr ''high'')]"

text \<open>On the seeded \<open>standard\<close> tier a connected MCP, which has no source to examine, is
  approved by the gate without any examination: before its first scan, after a scan that
  failed as a whole, and after a scan that examined nothing. Its only applicable stage is a
  warning stage, and a warning stage that was not run does not hold the verdict back.\<close>

theorem connected_mcp_approved_unexamined:
  "map (\<lambda>scan. (gp_verdict (connected_mcp_gate scan), gp_passed (connected_mcp_gate scan)))
     [None,
      Some (sample_scan\<lparr>sc_scanner_kind := ''stepfn'', sc_findings := [scanner_error],
        sc_scanned_areas := []\<rparr>),
      Some (sample_scan\<lparr>sc_scanned_areas := []\<rparr>)] =
   replicate 3 (Auto_approve, 0)"
  by code_simp

end
