(* ===== verification/Gov_Store.thy ===== *)
theory Gov_Store
  imports Scan_Gate Interfaces
begin

text \<open>
  The governance store (\<open>governance/store.py\<close>, the records of \<open>governance/models.py\<close>): the tier
  matrices, the console settings, the category master, the scans and overlap reviews of every
  asset, the decisions of reviewers, the reasons why an automatic approval did not happen, and
  the report tiers. The in-memory state is modelled; the JSON file it is written to is not.
\<close>

section \<open>Records\<close>

record console_settings =
  cs_auto_scan :: bool
  cs_auto_overlap_review :: bool
  cs_auto_detect_rate :: string
  cs_updated_by :: string
  cs_updated_at :: string
  cs_asset_tier_map :: "(string, string) dict"
  cs_judge_model_map :: "(string, string) dict"

definition seeded_tier_map :: "(string, string) dict" where
  "seeded_tier_map =
     [(''skill'', ''minimal''), (''mcp'', ''standard''), (''agent'', ''strong'')]"

definition seeded_judge_map :: "(string, string) dict" where
  "seeded_judge_map =
     [(''minimal'', ''haiku-4-5''), (''standard'', ''sonnet-4-6''), (''strong'', ''sonnet-5'')]"

definition initial_settings :: console_settings where
  "initial_settings = \<lparr>cs_auto_scan = False, cs_auto_overlap_review = True,
     cs_auto_detect_rate = ''P1W'', cs_updated_by = [], cs_updated_at = [],
     cs_asset_tier_map = seeded_tier_map, cs_judge_model_map = seeded_judge_map\<rparr>"

record overlap_candidate =
  oc_record_id :: string
  oc_name :: string
  oc_asset_type :: string
  oc_version :: string
  oc_score :: int
  oc_band :: string
  oc_reasons :: "string list"

record overlap_record =
  ov_ts :: string
  ov_status :: string
  ov_trigger :: string
  ov_principal :: string
  ov_candidates :: "overlap_candidate list"
  ov_version :: string
  ov_compared :: int
  ov_error :: string

definition top_band :: "overlap_record \<Rightarrow> string" where
  "top_band r =
     (case find (\<lambda>band. list_ex (\<lambda>c. oc_band c = band) (ov_candidates r))
             [''high'', ''medium'', ''low''] of
        Some band \<Rightarrow> band
      | None \<Rightarrow> ''none'')"

record decision_record =
  dr_ts :: string
  dr_principal :: string
  dr_decision :: string
  dr_reason :: string
  dr_override :: bool

record approval_block_record =
  ab_ts :: string
  ab_reason :: string
  ab_detail :: string
  ab_remediation :: string
  ab_missing_contacts :: "string list"
  ab_incomplete_stages :: "string list"
  ab_verdict :: string

record monitoring_projection =
  mp_ts :: string
  mp_risk :: string
  mp_status :: string
  mp_version :: string

record gov_store =
  go_tiers :: "(string, tier_cell list) dict"
  go_settings :: console_settings
  go_categories :: "string list"
  go_scans :: "(string, scan_record list) dict"
  go_overlaps :: "(string, overlap_record list) dict"
  go_decisions :: "(string, decision_record list) dict"
  go_target_tiers :: "(string, string) dict"
  go_approval_blocks :: "(string, approval_block_record) dict"

definition DEFAULT_TIER :: string where
  "DEFAULT_TIER = ''minimal''"

definition empty_gov_store :: gov_store where
  "empty_gov_store = \<lparr>go_tiers = [], go_settings = initial_settings, go_categories = [],
     go_scans = [], go_overlaps = [], go_decisions = [], go_target_tiers = [],
     go_approval_blocks = []\<rparr>"

text \<open>A dictionary of lists: \<open>d.setdefault(k, []).append(x)\<close>, \<open>d.get(k) or []\<close>, and the last item.\<close>

definition rows_of :: "'k \<Rightarrow> ('k, 'v list) dict \<Rightarrow> 'v list" where
  "rows_of k d = (case dget d k of None \<Rightarrow> [] | Some xs \<Rightarrow> xs)"

definition append_row :: "'k \<Rightarrow> 'v \<Rightarrow> ('k, 'v list) dict \<Rightarrow> ('k, 'v list) dict" where
  "append_row k x d = dput k (rows_of k d @ [x]) d"

definition latest_row :: "'k \<Rightarrow> ('k, 'v list) dict \<Rightarrow> 'v option" where
  "latest_row k d = (if rows_of k d = [] then None else Some (last (rows_of k d)))"

section \<open>Tiers, settings, categories\<close>

definition get_tier :: "string \<Rightarrow> gov_store \<Rightarrow> tier_cell list" where
  "get_tier tier s = rows_of tier (go_tiers s)"

definition put_tier :: "string \<Rightarrow> tier_cell list \<Rightarrow> gov_store \<Rightarrow> gov_store" where
  "put_tier tier cells s = s\<lparr>go_tiers := dput tier cells (go_tiers s)\<rparr>"

text \<open>Every tier of the code's matrix is reconciled; an unchanged tier is not written.\<close>

definition seed_step :: "string \<times> (string \<times> string) list \<Rightarrow> gov_store \<Rightarrow> gov_store" where
  "seed_step tc s =
     (let cells = seed_tier (fst tc) (snd tc) (get_tier (fst tc) s)
      in if cells = get_tier (fst tc) s then s else put_tier (fst tc) cells s)"

definition seed_tiers :: "gov_store \<Rightarrow> gov_store" where
  "seed_tiers s = fold seed_step TIER_MATRIX s"

definition get_settings :: "gov_store \<Rightarrow> console_settings" where
  "get_settings s =
     (let t = go_settings s;
          t1 = (if cs_asset_tier_map t = [] then t\<lparr>cs_asset_tier_map := seeded_tier_map\<rparr> else t)
      in if cs_judge_model_map t1 = [] then t1\<lparr>cs_judge_model_map := seeded_judge_map\<rparr> else t1)"

definition put_settings :: "console_settings \<Rightarrow> gov_store \<Rightarrow> gov_store" where
  "put_settings settings s = s\<lparr>go_settings := settings\<rparr>"

fun normalize_from :: "string list \<Rightarrow> json list \<Rightarrow> string list" where
  "normalize_from seen [] = []"
| "normalize_from seen (JStr item # items) =
     (let v = strip item in
      if v = [] \<or> v \<in> set seen then normalize_from seen items
      else v # normalize_from (v # seen) items)"
| "normalize_from seen (_ # items) = normalize_from seen items"

definition normalize_categories :: "json list \<Rightarrow> string list" where
  "normalize_categories items = normalize_from [] items"

definition get_categories :: "gov_store \<Rightarrow> string list" where
  "get_categories s = go_categories s"

definition put_categories :: "json list \<Rightarrow> gov_store \<Rightarrow> gov_store" where
  "put_categories items s = s\<lparr>go_categories := normalize_categories items\<rparr>"

section \<open>Scans and overlap reviews\<close>

definition add_scan :: "string \<Rightarrow> scan_record \<Rightarrow> gov_store \<Rightarrow> gov_store" where
  "add_scan rid scan s = s\<lparr>go_scans := append_row rid scan (go_scans s)\<rparr>"

definition latest_scan :: "string \<Rightarrow> gov_store \<Rightarrow> scan_record option" where
  "latest_scan rid s = latest_row rid (go_scans s)"

definition monitoring_latest_scans ::
  "string list \<Rightarrow> gov_store \<Rightarrow> (string \<times> monitoring_projection) list" where
  "monitoring_latest_scans rids s =
     List.map_filter (\<lambda>rid. map_option (\<lambda>scan. (rid, \<lparr>mp_ts = sc_ts scan, mp_risk = sc_risk scan,
       mp_status = sc_status scan, mp_version = sc_version scan\<rparr>)) (latest_scan rid s))
     (fromkeys rids)"

definition ids_with_status :: "string \<Rightarrow> gov_store \<Rightarrow> string list" where
  "ids_with_status status s =
     map fst (filter (\<lambda>(rid, items). items \<noteq> [] \<and> sc_status (last items) = status) (go_scans s))"

definition running_record_ids :: "gov_store \<Rightarrow> string list" where
  "running_record_ids s = ids_with_status ''running'' s"

definition done_record_ids :: "gov_store \<Rightarrow> string list" where
  "done_record_ids s = ids_with_status ''done'' s"

definition add_overlap :: "string \<Rightarrow> overlap_record \<Rightarrow> gov_store \<Rightarrow> gov_store" where
  "add_overlap rid r s = s\<lparr>go_overlaps := append_row rid r (go_overlaps s)\<rparr>"

definition latest_overlap :: "string \<Rightarrow> gov_store \<Rightarrow> overlap_record option" where
  "latest_overlap rid s = latest_row rid (go_overlaps s)"

definition all_overlaps :: "gov_store \<Rightarrow> (string \<times> overlap_record) list" where
  "all_overlaps s =
     List.map_filter (\<lambda>(rid, items). if items = [] then None else Some (rid, last items))
       (go_overlaps s)"

section \<open>Decisions, approval blocks, report tiers\<close>

definition add_decision :: "string \<Rightarrow> decision_record \<Rightarrow> gov_store \<Rightarrow> gov_store" where
  "add_decision rid d s = s\<lparr>go_decisions := append_row rid d (go_decisions s)\<rparr>"

definition list_decisions :: "string \<Rightarrow> gov_store \<Rightarrow> decision_record list" where
  "list_decisions rid s = rows_of rid (go_decisions s)"

definition all_decisions :: "gov_store \<Rightarrow> (string \<times> decision_record) list" where
  "all_decisions s = concat (map (\<lambda>(rid, items). map (Pair rid) items) (go_decisions s))"

definition put_approval_block :: "string \<Rightarrow> approval_block_record \<Rightarrow> gov_store \<Rightarrow> gov_store" where
  "put_approval_block rid b s = s\<lparr>go_approval_blocks := dput rid b (go_approval_blocks s)\<rparr>"

definition get_approval_block :: "string \<Rightarrow> gov_store \<Rightarrow> approval_block_record option" where
  "get_approval_block rid s = dget (go_approval_blocks s) rid"

definition clear_approval_block :: "string \<Rightarrow> gov_store \<Rightarrow> gov_store" where
  "clear_approval_block rid s = s\<lparr>go_approval_blocks := ddel rid (go_approval_blocks s)\<rparr>"

definition get_target_tier :: "string \<Rightarrow> gov_store \<Rightarrow> string" where
  "get_target_tier rid s =
     (case dget (go_target_tiers s) rid of None \<Rightarrow> DEFAULT_TIER | Some t \<Rightarrow> t)"

definition set_target_tier :: "string \<Rightarrow> string \<Rightarrow> gov_store \<Rightarrow> gov_store" where
  "set_target_tier rid tier s = s\<lparr>go_target_tiers := dput rid tier (go_target_tiers s)\<rparr>"

definition purge_record :: "string \<Rightarrow> gov_store \<Rightarrow> gov_store" where
  "purge_record rid s = s\<lparr>go_scans := ddel rid (go_scans s),
     go_overlaps := ddel rid (go_overlaps s), go_decisions := ddel rid (go_decisions s),
     go_target_tiers := ddel rid (go_target_tiers s),
     go_approval_blocks := ddel rid (go_approval_blocks s)\<rparr>"

section \<open>Histories\<close>

text \<open>Records are appended per asset and the last one is the current one.\<close>

locale history =
  fixes add :: "'k \<Rightarrow> 'v \<Rightarrow> 's \<Rightarrow> 's"
    and latest :: "'k \<Rightarrow> 's \<Rightarrow> 'v option"
  assumes latest_add: "latest k (add k' v s) = (if k = k' then Some v else latest k s)"
begin

lemma latest_add_same [simp]: "latest k (add k v s) = Some v"
  by (simp add: latest_add)

lemma latest_add_other: "k \<noteq> k' \<Longrightarrow> latest k (add k' v s) = latest k s"
  by (simp add: latest_add)

lemma latest_fold:
  "latest k (fold (\<lambda>(k, v). add k v) kvs s) =
     (case find (\<lambda>(k', v). k' = k) (rev kvs) of None \<Rightarrow> latest k s | Some (_, v) \<Rightarrow> Some v)"
  by (induction kvs rule: rev_induct) (auto simp: latest_add split: prod.split)

end

lemma rows_of_append_row [simp]:
  "rows_of k (append_row k' x d) = (if k = k' then rows_of k d @ [x] else rows_of k d)"
  by (simp add: rows_of_def append_row_def)

lemma rows_of_ddel [simp]: "rows_of k (ddel k' d) = (if k = k' then [] else rows_of k d)"
  by (simp add: rows_of_def)

lemma rows_of_dput [simp]: "rows_of k (dput k' xs d) = (if k = k' then xs else rows_of k d)"
  by (simp add: rows_of_def)

lemma latest_append_row [simp]:
  "latest_row k (append_row k' x d) = (if k = k' then Some x else latest_row k d)"
  by (simp add: latest_row_def)

interpretation scans: history add_scan latest_scan
  by unfold_locales (simp add: add_scan_def latest_scan_def)

interpretation overlaps: history add_overlap latest_overlap
  by unfold_locales (simp add: add_overlap_def latest_overlap_def)

lemma list_decisions_add [simp]:
  "list_decisions rid (add_decision rid' d s) =
     (if rid = rid' then list_decisions rid s @ [d] else list_decisions rid s)"
  by (simp add: list_decisions_def add_decision_def)

lemma approval_block_simps [simp]:
  "get_approval_block rid (put_approval_block rid' b s) =
     (if rid = rid' then Some b else get_approval_block rid s)"
  "get_approval_block rid (clear_approval_block rid' s) =
     (if rid = rid' then None else get_approval_block rid s)"
  by (simp_all add: get_approval_block_def put_approval_block_def clear_approval_block_def)

text \<open>Operations on one table do not show in the readings of the others.\<close>

lemma gov_frames [simp]:
  "latest_scan rid (put_approval_block r b s) = latest_scan rid s"
  "latest_scan rid (clear_approval_block r s) = latest_scan rid s"
  "latest_scan rid (add_decision r d s) = latest_scan rid s"
  "get_tier t (put_approval_block r b s) = get_tier t s"
  "get_tier t (clear_approval_block r s) = get_tier t s"
  "get_tier t (add_decision r d s) = get_tier t s"
  "get_tier t (add_scan r sc s) = get_tier t s"
  "get_settings (put_approval_block r b s) = get_settings s"
  "get_settings (clear_approval_block r s) = get_settings s"
  "get_settings (add_decision r d s) = get_settings s"
  "get_settings (add_scan r sc s) = get_settings s"
  "get_approval_block rid (add_scan r sc s) = get_approval_block rid s"
  "get_approval_block rid (add_decision r d s) = get_approval_block rid s"
  "list_decisions rid (put_approval_block r b s) = list_decisions rid s"
  "list_decisions rid (clear_approval_block r s) = list_decisions rid s"
  "list_decisions rid (add_scan r sc s) = list_decisions rid s"
  by (simp_all add: latest_scan_def get_tier_def get_settings_def get_approval_block_def
      list_decisions_def add_scan_def add_decision_def put_approval_block_def
      clear_approval_block_def)

section \<open>The store as a transition system\<close>

datatype gov_op =
    Put_tier string "tier_cell list"
  | Seed_tiers
  | Put_settings console_settings
  | Put_categories "json list"
  | Add_scan string scan_record
  | Add_overlap string overlap_record
  | Add_decision string decision_record
  | Put_block string approval_block_record
  | Clear_block string
  | Set_target_tier string string
  | Purge_record string

fun gov_step :: "gov_op \<Rightarrow> gov_store \<Rightarrow> gov_store" where
  "gov_step (Put_tier t cells) = put_tier t cells"
| "gov_step Seed_tiers = seed_tiers"
| "gov_step (Put_settings c) = put_settings c"
| "gov_step (Put_categories items) = put_categories items"
| "gov_step (Add_scan r sc) = add_scan r sc"
| "gov_step (Add_overlap r ov) = add_overlap r ov"
| "gov_step (Add_decision r d) = add_decision r d"
| "gov_step (Put_block r b) = put_approval_block r b"
| "gov_step (Clear_block r) = clear_approval_block r"
| "gov_step (Set_target_tier r t) = set_target_tier r t"
| "gov_step (Purge_record r) = purge_record r"

text \<open>Every table is a dictionary, and no asset has an empty history.\<close>

definition wf_history :: "('k, 'v list) dict \<Rightarrow> bool" where
  "wf_history d \<longleftrightarrow> wf_dict d \<and> [] \<notin> snd ` set d"

definition gov_wf :: "gov_store \<Rightarrow> bool" where
  "gov_wf s \<longleftrightarrow> wf_dict (go_tiers s) \<and> wf_history (go_scans s) \<and> wf_history (go_overlaps s) \<and>
     wf_history (go_decisions s) \<and> wf_dict (go_target_tiers s) \<and> wf_dict (go_approval_blocks s) \<and>
     distinct (go_categories s) \<and> [] \<notin> set (go_categories s)"

lemma wf_history_append [simp, inv_intros]: "wf_history d \<Longrightarrow> wf_history (append_row k x d)"
  using set_dput_subset [of k "rows_of k d @ [x]" d]
  by (fastforce simp: wf_history_def append_row_def)

lemma wf_history_ddel [simp, inv_intros]: "wf_history d \<Longrightarrow> wf_history (ddel k d)"
  using set_ddel_subset [of k d] by (auto simp: wf_history_def)

lemma wf_history_Nil [simp]: "wf_history []"
  by (simp add: wf_history_def)

lemma set_normalize_from: "v \<in> set (normalize_from seen items) \<Longrightarrow> v \<notin> set seen \<and> v \<noteq> []"
  by (induction seen items rule: normalize_from.induct) (auto simp: Let_def split: if_splits)

lemma distinct_normalize_from: "distinct (normalize_from seen items)"
  by (induction seen items rule: normalize_from.induct)
    (auto simp: Let_def dest: set_normalize_from)

lemma seed_step_frame:
  "go_scans (seed_step tc s) = go_scans s" "go_overlaps (seed_step tc s) = go_overlaps s"
  "go_decisions (seed_step tc s) = go_decisions s"
  "go_target_tiers (seed_step tc s) = go_target_tiers s"
  "go_approval_blocks (seed_step tc s) = go_approval_blocks s"
  "go_categories (seed_step tc s) = go_categories s"
  by (simp_all add: seed_step_def put_tier_def Let_def)

lemma gov_wf_seed_step: "gov_wf s \<Longrightarrow> gov_wf (seed_step tc s)"
  by (simp add: gov_wf_def seed_step_frame) (simp add: seed_step_def put_tier_def Let_def)

lemma gov_wf_seed_fold: "gov_wf s \<Longrightarrow> gov_wf (fold seed_step tcs s)"
  by (induction tcs arbitrary: s) (simp_all add: gov_wf_seed_step)

lemma gov_wf_empty: "gov_wf empty_gov_store"
  by (simp add: gov_wf_def empty_gov_store_def)

lemma gov_wf_step: "gov_wf s \<Longrightarrow> gov_wf (gov_step op s)"
proof (cases op)
  case Seed_tiers
  then show "gov_wf s \<Longrightarrow> gov_wf (gov_step op s)"
    by (simp add: seed_tiers_def gov_wf_seed_fold)
qed (auto simp: gov_wf_def put_tier_def put_settings_def put_categories_def add_scan_def
    add_overlap_def add_decision_def put_approval_block_def clear_approval_block_def
    set_target_tier_def purge_record_def normalize_categories_def distinct_normalize_from
    dest: set_normalize_from)

interpretation gov: transition_system gov_step gov_wf
  by unfold_locales (rule gov_wf_step)

lemma ids_with_status_iff:
  assumes "wf_history (go_scans s)"
  shows "rid \<in> set (ids_with_status status s) \<longleftrightarrow>
    (\<exists>scan. latest_scan rid s = Some scan \<and> sc_status scan = status)"
proof -
  have "(rid, items) \<in> set (go_scans s) \<longleftrightarrow> dget (go_scans s) rid = Some items" for items
    using assms by (simp add: wf_history_def wf_dict_get)
  then show ?thesis
    by (auto simp: ids_with_status_def latest_scan_def latest_row_def rows_of_def image_iff
        split: option.splits)
qed

lemma distinct_ids_with_status:
  "wf_history (go_scans s) \<Longrightarrow> distinct (ids_with_status status s)"
  by (simp add: ids_with_status_def wf_history_def wf_dict_def distinct_map_filter)

section \<open>Reconciling the seeded matrix\<close>

text \<open>The enforcement the store has for a tool on a tier: the last cell stored for it.\<close>

definition cell_of :: "string \<Rightarrow> string \<Rightarrow> gov_store \<Rightarrow> tier_cell option" where
  "cell_of tier tool s = dget (keyed_cells (get_tier tier s)) tool"

lemma dget_fold_dput:
  "dget (fold (\<lambda>c. dput (key c) c) cs d) k =
     (case find (\<lambda>c. key c = k) (rev cs) of None \<Rightarrow> dget d k | Some c \<Rightarrow> Some c)"
  by (induction cs rule: rev_induct) simp_all

lemma dget_keyed_cells: "dget (keyed_cells cs) k = find (\<lambda>c. tc_tool_id c = k) (rev cs)"
  by (simp add: keyed_cells_def dget_fold_dput split: option.split)

lemma wf_fold_dput: "wf_dict d \<Longrightarrow> wf_dict (fold (\<lambda>c. dput (key c) c) cs d)"
  by (induction cs arbitrary: d) simp_all

lemma wf_keyed_cells [simp]: "wf_dict (keyed_cells cs)"
  by (simp add: keyed_cells_def wf_fold_dput)

lemma keyed_fold_dput: "keyed_by key d \<Longrightarrow> keyed_by key (fold (\<lambda>c. dput (key c) c) cs d)"
  by (induction cs arbitrary: d) (simp_all add: keyed_by_dput)

lemma keyed_keyed_cells [simp]: "keyed_by tc_tool_id (keyed_cells cs)"
  by (simp add: keyed_cells_def keyed_fold_dput)

lemma map_of_rev_wf: "wf_dict d \<Longrightarrow> map_of (rev d) = map_of d"
  by (simp add: wf_dict_def map_of_inject_set rev_map [symmetric])

lemma find_map_of: "find (\<lambda>x. key x = k) xs = map_of (map (\<lambda>x. (key x, x)) xs) k"
  by (induction xs) simp_all

lemma find_rev_distinct:
  assumes "distinct (map key xs)"
  shows "find (\<lambda>x. key x = k) (rev xs) = find (\<lambda>x. key x = k) xs"
  using map_of_rev_wf [of "map (\<lambda>x. (key x, x)) xs"] assms
  by (simp add: find_map_of wf_dict_def rev_map o_def)

lemma keyed_zip: "keyed_by key d \<Longrightarrow> map (\<lambda>x. (key x, x)) (dvalues d) = d"
  by (induction d) (auto simp: keyed_by_def dvalues_def)

lemma find_dvalues: "keyed_by key d \<Longrightarrow> find (\<lambda>x. key x = k) (dvalues d) = dget d k"
  by (simp add: find_map_of keyed_zip)

lemma promoted_id [simp]: "tc_tool_id (promoted c) = tc_tool_id c"
  by (simp add: promoted_def)

lemma seeded_cell_id [simp]: "tc_tool_id (seeded_cell t c) = fst c"
  by (simp add: seeded_cell_def)

lemma keyed_promoted:
  "keyed_by tc_tool_id d \<Longrightarrow> keyed_by tc_tool_id (map (\<lambda>(k, c). (k, promoted c)) d)"
  by (auto simp: keyed_by_def)

lemma map_of_seeded:
  "map_of (map (\<lambda>c. (fst c, f c)) (filter (\<lambda>c. fst c \<notin> K) cc)) k =
     (if k \<in> K then None else map_option (\<lambda>e. f (k, e)) (map_of cc k))"
  by (induction cc) auto

lemma dget_None_keys: "dget d k = None \<longleftrightarrow> k \<notin> set (dkeys d)"
  by (simp add: dkeys_def map_of_eq_None_iff)

text \<open>What the tier holds for a tool after seeding.\<close>

lemma seed_tier_cell:
  assumes "wf_dict cc"
  shows "dget (keyed_cells (seed_tier t cc cells)) k =
    (case dget (keyed_cells cells) k of
       Some c \<Rightarrow> Some (promoted c)
     | None \<Rightarrow> map_option (\<lambda>e. seeded_cell t (k, e)) (dget cc k))"
proof -
  let ?kc = "keyed_cells cells"
  let ?ex = "map (\<lambda>(k, c). (k, promoted c)) ?kc"
  let ?added = "filter (\<lambda>c. fst c \<notin> set (dkeys ?ex)) cc"
  have keys: "dkeys ?ex = dkeys ?kc" by (auto simp: dkeys_def)
  have ex: "keyed_by tc_tool_id ?ex" by (rule keyed_promoted [OF keyed_keyed_cells])
  have getex: "dget ?ex k = map_option promoted (dget ?kc k)" for k
    by (simp add: map_of_map)
  show ?thesis
  proof (cases "?added = [] \<and> list_all (\<lambda>c. tc_enforcement c \<noteq> ''recommend'') (dvalues ?kc)")
    case True
    then have "seed_tier t cc cells = cells" by (simp add: seed_tier_def Let_def)
    moreover have "promoted c = c" if "dget ?kc k = Some c" for c
      using True that by (auto simp: promoted_def list_all_iff dvalues_iff)
    moreover have sub: "\<forall>c \<in> set cc. fst c \<in> set (dkeys ?kc)"
      using True by (simp add: filter_empty_conv keys)
    have "dget cc k = None" if "dget ?kc k = None"
      using sub that by (auto simp: dkeys_def map_of_eq_None_iff)
    ultimately show ?thesis by (auto split: option.split)
  next
    case False
    let ?n = "dvalues ?ex @ map (seeded_cell t) ?added"
    have "seed_tier t cc cells = ?n"
      unfolding seed_tier_def Let_def by (rule if_not_P [OF False])
    moreover have "map tc_tool_id (dvalues ?ex) = dkeys ?ex"
      using ex by (auto simp: keyed_by_def dvalues_def dkeys_def)
    then have "map tc_tool_id ?n = dkeys ?ex @ map fst ?added"
      by (simp add: o_def)
    moreover have "distinct (dkeys ?ex @ map fst ?added)"
      using assms wf_keyed_cells [of cells]
      by (auto simp: keys distinct_map_filter wf_dict_def) (auto simp: dkeys_def)
    ultimately have "dget (keyed_cells (seed_tier t cc cells)) k =
        find (\<lambda>c. tc_tool_id c = k) ?n"
      by (metis dget_keyed_cells find_rev_distinct)
    also have "\<dots> = map_of (?ex @ map (\<lambda>c. (fst c, seeded_cell t c)) ?added) k"
      by (simp add: find_map_of keyed_zip [OF ex] o_def)
    finally have seeded: "dget (keyed_cells (seed_tier t cc cells)) k =
      map_of (?ex @ map (\<lambda>c. (fst c, seeded_cell t c)) ?added) k" .
    have mem: "k \<in> set (dkeys ?ex) \<longleftrightarrow> dget ?kc k \<noteq> None"
      by (simp add: keys dget_None_keys)
    show ?thesis
      unfolding seeded
      by (cases "dget ?kc k") (simp_all add: map_add_def getex map_of_seeded mem)
  qed
qed

lemma seed_tier_idem:
  assumes "wf_dict cc" "list_all (\<lambda>c. snd c \<noteq> ''recommend'') cc"
  shows "seed_tier t cc (seed_tier t cc cells) = seed_tier t cc cells"
proof -
  let ?n = "seed_tier t cc cells"
  let ?ex = "map (\<lambda>(k, c). (k, promoted c)) (keyed_cells ?n)"
  have cell: "dget (keyed_cells ?n) k = (case dget (keyed_cells cells) k of
      Some c \<Rightarrow> Some (promoted c)
    | None \<Rightarrow> map_option (\<lambda>e. seeded_cell t (k, e)) (dget cc k))" for k
    by (rule seed_tier_cell [OF assms(1)])
  have "fst c \<in> set (dkeys (keyed_cells ?n))" if "c \<in> set cc" for c
  proof -
    from that have "dget cc (fst c) \<noteq> None" by (auto simp: map_of_eq_None_iff)
    then have "dget (keyed_cells ?n) (fst c) \<noteq> None" unfolding cell by (auto split: option.split)
    then show ?thesis by (auto simp: dkeys_def map_of_eq_None_iff)
  qed
  moreover have "dkeys ?ex = dkeys (keyed_cells ?n)" by (auto simp: dkeys_def)
  ultimately have "filter (\<lambda>c. fst c \<notin> set (dkeys ?ex)) cc = []"
    by (simp add: filter_empty_conv)
  moreover have "tc_enforcement c \<noteq> ''recommend''" if "dget (keyed_cells ?n) k = Some c" for k c
  proof -
    have "e \<noteq> ''recommend''" if "dget cc k = Some e" for e
      using assms(2) that by (fastforce simp: list_all_iff dest: map_of_SomeD)
    with that show ?thesis
      by (auto simp: cell promoted_def seeded_cell_def split: option.splits if_splits)
  qed
  then have "list_all (\<lambda>c. tc_enforcement c \<noteq> ''recommend'') (dvalues (keyed_cells ?n))"
    by (auto simp: list_all_iff dvalues_iff)
  ultimately show ?thesis by (simp add: seed_tier_def [of t cc "?n"] Let_def)
qed

lemma get_tier_seed_step:
  "get_tier t (seed_step tc s) =
     (if t = fst tc then seed_tier t (snd tc) (get_tier t s) else get_tier t s)"
  by (simp add: seed_step_def put_tier_def get_tier_def Let_def)

lemma get_tier_seed_fold:
  "distinct (map fst tcs) \<Longrightarrow> get_tier t (fold seed_step tcs s) =
     (case map_of tcs t of None \<Rightarrow> get_tier t s | Some cc \<Rightarrow> seed_tier t cc (get_tier t s))"
proof (induction tcs arbitrary: s)
  case (Cons tc tcs)
  have "map_of tcs t = None" if "t = fst tc"
    using Cons.prems that by (simp add: map_of_eq_None_iff)
  with Cons show ?case
    by (cases "t = fst tc") (simp_all add: get_tier_seed_step split: option.split)
qed simp

lemma seed_fold_id:
  "\<forall>tc \<in> set tcs. seed_tier (fst tc) (snd tc) (get_tier (fst tc) s) = get_tier (fst tc) s \<Longrightarrow>
     fold seed_step tcs s = s"
  by (induction tcs) (simp_all add: seed_step_def Let_def)

lemma tier_matrix_wf:
  "distinct (map fst TIER_MATRIX)"
  "\<forall>tc \<in> set TIER_MATRIX. wf_dict (snd tc) \<and> list_all (\<lambda>c. snd c \<noteq> ''recommend'') (snd tc)"
  by (simp_all add: TIER_MATRIX_def wf_dict_def)

text \<open>Reconciling the seeded matrix respects what an admin edited. After seeding, a tool of a
  tier has the enforcement the store had for it (the retired value \<open>recommend\<close> became \<open>warn\<close>),
  and otherwise the code's; seeding once more, as every start does, changes nothing.\<close>

theorem seeding_respects_edits:
  "cell_of tier tool (seed_tiers s) =
     (case map_of TIER_MATRIX tier of
        None \<Rightarrow> cell_of tier tool s
      | Some code_cells \<Rightarrow>
          (case cell_of tier tool s of
             Some c \<Rightarrow> Some (promoted c)
           | None \<Rightarrow> map_option (\<lambda>e. seeded_cell tier (tool, e)) (dget code_cells tool))) \<and>
   seed_tiers (seed_tiers s) = seed_tiers s"
proof
  have get: "get_tier t (seed_tiers s) =
      (case map_of TIER_MATRIX t of None \<Rightarrow> get_tier t s
       | Some cc \<Rightarrow> seed_tier t cc (get_tier t s))" for t
    unfolding seed_tiers_def by (rule get_tier_seed_fold [OF tier_matrix_wf(1)])
  show "cell_of tier tool (seed_tiers s) = (case map_of TIER_MATRIX tier of
        None \<Rightarrow> cell_of tier tool s
      | Some code_cells \<Rightarrow>
          (case cell_of tier tool s of
             Some c \<Rightarrow> Some (promoted c)
           | None \<Rightarrow> map_option (\<lambda>e. seeded_cell tier (tool, e)) (dget code_cells tool)))"
  proof (cases "map_of TIER_MATRIX tier")
    case (Some cc)
    then have "wf_dict cc" using tier_matrix_wf(2) by (fastforce dest: map_of_SomeD)
    with Some show ?thesis by (simp add: cell_of_def get seed_tier_cell)
  qed (simp add: cell_of_def get)
  have "seed_tier (fst tc) (snd tc) (get_tier (fst tc) (seed_tiers s)) =
      get_tier (fst tc) (seed_tiers s)" if "tc \<in> set TIER_MATRIX" for tc
  proof -
    have "map_of TIER_MATRIX (fst tc) = Some (snd tc)"
      using that tier_matrix_wf(1) by (simp add: map_of_eq_Some_iff)
    with that tier_matrix_wf(2) show ?thesis by (simp add: get seed_tier_idem)
  qed
  then show "seed_tiers (seed_tiers s) = seed_tiers s"
    unfolding seed_tiers_def [of "seed_tiers s"] by (intro seed_fold_id) blast
qed

text \<open>The poller sees exactly the scans in flight. After any sequence of operations on the
  store, the assets it lists as running (or done) are those whose latest scan has that status,
  each once; and purging an asset leaves no trace of it.\<close>

theorem listed_by_latest_scan:
  assumes "s = fold gov_step ops empty_gov_store"
  shows "distinct (ids_with_status status s) \<and>
    set (ids_with_status status s) =
      {rid. \<exists>scan. latest_scan rid s = Some scan \<and> sc_status scan = status} \<and>
    latest_scan rid (purge_record rid s) = None \<and> latest_overlap rid (purge_record rid s) = None \<and>
    list_decisions rid (purge_record rid s) = [] \<and> get_approval_block rid (purge_record rid s) = None \<and>
    rid \<notin> set (ids_with_status status (purge_record rid s))"
proof -
  have "gov_wf s" unfolding assms by (rule gov.inv_run [OF gov_wf_empty])
  moreover from this have "gov_wf (purge_record rid s)"
    using gov_wf_step [of s "Purge_record rid"] by simp
  ultimately have wf: "wf_history (go_scans s)" "wf_history (go_scans (purge_record rid s))"
    by (simp_all add: gov_wf_def)
  have none: "latest_scan rid (purge_record rid s) = None"
    by (simp add: latest_scan_def latest_row_def purge_record_def)
  then have "rid \<notin> set (ids_with_status status (purge_record rid s))"
    by (simp add: ids_with_status_iff [OF wf(2)])
  with none show ?thesis
    by (auto simp: distinct_ids_with_status [OF wf(1)] ids_with_status_iff [OF wf(1)]
        latest_overlap_def latest_row_def list_decisions_def get_approval_block_def
        purge_record_def)
qed

theorem listed_by_latest_scan_witness:
  "get_approval_block ''r'' (purge_record ''r'' (fold gov_step [Add_scan ''r'' sample_scan,
     Add_scan ''r'' (sample_scan\<lparr>sc_status := ''running''\<rparr>)] empty_gov_store)) = None"
  using listed_by_latest_scan [OF refl, of "''r''" "[Add_scan ''r'' sample_scan,
     Add_scan ''r'' (sample_scan\<lparr>sc_status := ''running''\<rparr>)]"] by blast

end
