(* ===== verification/Catalog_Records.thy ===== *)
theory Catalog_Records
  imports Scan_Gate
begin

text \<open>
  Catalog records and what is kept beside them: the records of \<open>catalog/registry/models.py\<close>, the
  auxiliary store of \<open>catalog/aux_store.py\<close> (views, extended metadata, contact history) and the
  contact contract of \<open>catalog/responsibility.py\<close>, which an asset must fulfil before it is
  approved. The JSON file of the auxiliary store is not modelled.
\<close>

section \<open>Registry records\<close>

datatype descriptor_type = DT_MCP | DT_Agent | DT_Skill | DT_App | DT_Model | DT_Custom

fun descriptor_value :: "descriptor_type \<Rightarrow> string" where
  "descriptor_value DT_MCP = ''MCP''"
| "descriptor_value DT_Agent = ''Agent''"
| "descriptor_value DT_Skill = ''Agent Skills''"
| "descriptor_value DT_App = ''App''"
| "descriptor_value DT_Model = ''Model''"
| "descriptor_value DT_Custom = ''Custom''"

datatype sensitivity_tag = Tag_READ | Tag_CREATE | Tag_UPDATE | Tag_DELETE

fun sensitivity_rank :: "sensitivity_tag \<Rightarrow> nat" where
  "sensitivity_rank Tag_READ = 0"
| "sensitivity_rank Tag_CREATE = 1"
| "sensitivity_rank Tag_UPDATE = 2"
| "sensitivity_rank Tag_DELETE = 3"

datatype record_status =
    RS_Creating | RS_Updating | RS_Draft | RS_Pending_approval | RS_Approved | RS_Rejected
  | RS_Deprecated

fun status_value :: "record_status \<Rightarrow> string" where
  "status_value RS_Creating = ''CREATING''"
| "status_value RS_Updating = ''UPDATING''"
| "status_value RS_Draft = ''DRAFT''"
| "status_value RS_Pending_approval = ''PENDING_APPROVAL''"
| "status_value RS_Approved = ''APPROVED''"
| "status_value RS_Rejected = ''REJECTED''"
| "status_value RS_Deprecated = ''DEPRECATED''"

definition all_statuses :: "record_status list" where
  "all_statuses = [RS_Creating, RS_Updating, RS_Draft, RS_Pending_approval, RS_Approved,
     RS_Rejected, RS_Deprecated]"

text \<open>\<open>RecordStatus(s)\<close>, which raises on an unknown value.\<close>

definition status_of_value :: "string \<Rightarrow> record_status option" where
  "status_of_value s = find (\<lambda>st. status_value st = s) all_statuses"

lemma status_of_value_value [simp]: "status_of_value (status_value st) = Some st"
  by (cases st) (simp_all add: status_of_value_def all_statuses_def)

definition is_discoverable :: "record_status \<Rightarrow> bool" where
  "is_discoverable st \<longleftrightarrow> st = RS_Approved"

type_synonym descriptors = "(string \<times> json) list"

record registry_record =
  rr_record_id :: string
  rr_registry_id :: string
  rr_name :: string
  rr_descriptor_type :: descriptor_type
  rr_version :: string
  rr_status :: record_status
  rr_description :: string
  rr_descriptors :: descriptors
  rr_owner_team :: string
  rr_owner_user :: string
  rr_owner_contact :: string
  rr_tags :: "string list"
  rr_category :: string
  rr_search_visible :: bool
  rr_changelog :: string
  rr_escalation_contact :: string
  rr_updated_at :: string

definition str_at :: "json \<Rightarrow> string \<Rightarrow> string option" where
  "str_at node k = (case node of JObj kvs \<Rightarrow> as_str (jget kvs k) | _ \<Rightarrow> None)"

definition source_prefix_of_descriptors :: "descriptors \<Rightarrow> string" where
  "source_prefix_of_descriptors ds =
     (case List.map_filter (\<lambda>k. str_at (jget ds k) ''sourcePrefix'') [''skill'', ''mcp'', ''agent''] of
        [] \<Rightarrow> []
      | p # _ \<Rightarrow> p)"

definition source_prefix :: "registry_record \<Rightarrow> string" where
  "source_prefix r = source_prefix_of_descriptors (rr_descriptors r)"

definition path_parts :: "string \<Rightarrow> string list" where
  "path_parts p = filter (\<lambda>s. s \<noteq> []) (split_on (CHR ''/'') p)"

section \<open>Merging descriptors\<close>

definition REGISTRY_AGENT_FIELDS :: "string list" where
  "REGISTRY_AGENT_FIELDS = [''sourcePrefix'', ''runtimeArn'', ''endpoint'', ''agoraDependencies'',
     ''workloadIdentity'', ''model'', ''bedrockModelId'', ''executionBinding'']"

text \<open>\<open>{**a, **b}\<close>, and the assignment of the fields that the first dictionary has.\<close>

definition merge_dicts :: "('k, 'v) dict \<Rightarrow> ('k, 'v) dict \<Rightarrow> ('k, 'v) dict" where
  "merge_dicts a b = fold (\<lambda>(k, v). dput k v) b a"

definition copy_fields :: "'k list \<Rightarrow> ('k, 'v) dict \<Rightarrow> ('k, 'v) dict \<Rightarrow> ('k, 'v) dict" where
  "copy_fields names from to =
     fold (\<lambda>f d. case dget from f of None \<Rightarrow> d | Some v \<Rightarrow> dput f v d) names to"

definition merge_agent_descriptors :: "descriptors \<Rightarrow> descriptors \<Rightarrow> descriptors" where
  "merge_agent_descriptors registry aux =
     (case (as_obj (jget registry ''agent''), as_obj (jget aux ''agent'')) of
        (None, _) \<Rightarrow> aux
      | (Some ra, None) \<Rightarrow> dput ''agent'' (JObj ra) (merge_dicts registry aux)
      | (Some ra, Some aa) \<Rightarrow>
          dput ''agent'' (JObj (copy_fields REGISTRY_AGENT_FIELDS ra (merge_dicts ra aa)))
            (merge_dicts registry aux))"

section \<open>The auxiliary store\<close>

record aux_fields =
  ax_owner_team :: "string option"
  ax_owner_user :: "string option"
  ax_owner_email :: "string option"
  ax_owner_contact :: "string option"
  ax_tags :: "string list option"
  ax_category :: "string option"
  ax_changelog :: "string option"
  ax_search_visible :: "bool option"
  ax_descriptors :: "descriptors option"
  ax_description :: "string option"
  ax_escalation_contact :: "string option"

definition no_fields :: aux_fields where
  "no_fields = \<lparr>ax_owner_team = None, ax_owner_user = None, ax_owner_email = None,
     ax_owner_contact = None, ax_tags = None, ax_category = None, ax_changelog = None,
     ax_search_visible = None, ax_descriptors = None, ax_description = None,
     ax_escalation_contact = None\<rparr>"

definition given :: "'a option \<Rightarrow> 'a option \<Rightarrow> 'a option" where
  "given x y = (case x of None \<Rightarrow> y | Some _ \<Rightarrow> x)"

text \<open>The fields of the first record that are given, over those of the second.\<close>

definition over_fields :: "aux_fields \<Rightarrow> aux_fields \<Rightarrow> aux_fields" where
  "over_fields a b = \<lparr>
     ax_owner_team = given (ax_owner_team a) (ax_owner_team b),
     ax_owner_user = given (ax_owner_user a) (ax_owner_user b),
     ax_owner_email = given (ax_owner_email a) (ax_owner_email b),
     ax_owner_contact = given (ax_owner_contact a) (ax_owner_contact b),
     ax_tags = given (ax_tags a) (ax_tags b),
     ax_category = given (ax_category a) (ax_category b),
     ax_changelog = given (ax_changelog a) (ax_changelog b),
     ax_search_visible = given (ax_search_visible a) (ax_search_visible b),
     ax_descriptors = given (ax_descriptors a) (ax_descriptors b),
     ax_description = given (ax_description a) (ax_description b),
     ax_escalation_contact = given (ax_escalation_contact a) (ax_escalation_contact b)\<rparr>"

record contacts =
  ct_owner :: string
  ct_escalation :: string

record responsibility_change =
  rc_event_id :: string
  rc_record_id :: string
  rc_changed_at :: string
  rc_changed_by :: string
  rc_reason :: string
  rc_before :: contacts
  rc_after :: contacts

record aux_store =
  au_views :: "(string, nat) dict"
  au_ext :: "(string, aux_fields) dict"
  au_history :: "(string, responsibility_change list) dict"

definition views_of :: "string \<Rightarrow> aux_store \<Rightarrow> nat" where
  "views_of rid s = (case dget (au_views s) rid of None \<Rightarrow> 0 | Some n \<Rightarrow> n)"

definition increment_views :: "string \<Rightarrow> aux_store \<Rightarrow> nat \<times> aux_store" where
  "increment_views rid s =
     (let n = views_of rid s + 1 in (n, s\<lparr>au_views := dput rid n (au_views s)\<rparr>))"

definition stored_ext :: "string \<Rightarrow> aux_store \<Rightarrow> aux_fields" where
  "stored_ext rid s = (case dget (au_ext s) rid of None \<Rightarrow> no_fields | Some x \<Rightarrow> x)"

definition set_meta :: "string \<Rightarrow> aux_fields \<Rightarrow> aux_store \<Rightarrow> aux_store" where
  "set_meta rid given_fields s =
     s\<lparr>au_ext := dput rid (over_fields given_fields (stored_ext rid s)) (au_ext s)\<rparr>"

definition str_field :: "string option \<Rightarrow> string" where
  "str_field x = (case x of None \<Rightarrow> [] | Some v \<Rightarrow> v)"

definition current_contacts :: "string \<Rightarrow> aux_store \<Rightarrow> contacts" where
  "current_contacts rid s =
     \<lparr>ct_owner = str_field (ax_owner_contact (stored_ext rid s)),
      ct_escalation = str_field (ax_escalation_contact (stored_ext rid s))\<rparr>"

definition merge_into :: "aux_store \<Rightarrow> registry_record \<Rightarrow> registry_record" where
  "merge_into s r =
     (let x = stored_ext (rr_record_id r) s;
          ds = (case ax_descriptors x of
                  None \<Rightarrow> rr_descriptors r
                | Some d \<Rightarrow> if rr_descriptor_type r = DT_Agent
                            then merge_agent_descriptors (rr_descriptors r) d else d)
      in r\<lparr>rr_owner_team := str_field (ax_owner_team x), rr_owner_user := str_field (ax_owner_user x),
           rr_owner_contact := str_field (ax_owner_contact x),
           rr_tags := (case ax_tags x of None \<Rightarrow> [] | Some ts \<Rightarrow> ts),
           rr_category := str_field (ax_category x), rr_changelog := str_field (ax_changelog x),
           rr_search_visible := (case ax_search_visible x of None \<Rightarrow> True | Some v \<Rightarrow> v),
           rr_escalation_contact := str_field (ax_escalation_contact x),
           rr_descriptors := ds,
           rr_description := (if rr_description r \<noteq> [] then rr_description r
                              else str_field (ax_description x))\<rparr>)"

definition purge_aux :: "string \<Rightarrow> aux_store \<Rightarrow> aux_store" where
  "purge_aux rid s = s\<lparr>au_views := ddel rid (au_views s), au_ext := ddel rid (au_ext s)\<rparr>"

section \<open>Contacts\<close>

datatype responsibility_error =
    Invalid_route | Same_contact | Actor_required | Reason_required
  | Changed_concurrently | Event_exists | Record_unreadable string

text \<open>\<open>[^@\s]+@[^@\s]+\.[^@\s]+\<close>, over the whole string.\<close>

definition email_route :: "string \<Rightarrow> bool" where
  "email_route s \<longleftrightarrow>
     (case partition_at (CHR ''@'') s of (local, found, domain) \<Rightarrow>
        found \<and> local \<noteq> [] \<and> CHR ''@'' \<notin> set domain \<and> list_all (\<lambda>c. \<not> is_space c) s \<and>
        CHR ''.'' \<in> set (butlast (tl domain)))"

definition valid_route :: "string \<Rightarrow> bool" where
  "valid_route s \<longleftrightarrow> length s \<le> 254 \<and> email_route s"

definition route_of :: "string \<Rightarrow> string" where
  "route_of s = map ascii_lower (strip s)"

definition normalise_email :: "string \<Rightarrow> responsibility_error + string" where
  "normalise_email s =
     (if valid_route (route_of s) then Inr (route_of s) else Inl Invalid_route)"

record responsibility_status =
  rp_record_id :: string
  rp_contacts :: contacts
  rp_blocking_reasons :: "string list"

definition blocking_reasons :: "string \<Rightarrow> string \<Rightarrow> string list" where
  "blocking_reasons owner escalation =
     (if owner = [] then [''owner_contact_required'']
      else if \<not> valid_route owner then [''owner_contact_invalid''] else []) @
     (if escalation = [] then [''escalation_contact_required'']
      else if \<not> valid_route escalation then [''escalation_contact_invalid''] else []) @
     (if owner \<noteq> [] \<and> escalation \<noteq> [] \<and> owner = escalation
      then [''distinct_escalation_contact_required''] else [])"

definition responsibility_status_of :: "string \<Rightarrow> string \<Rightarrow> string \<Rightarrow> responsibility_status" where
  "responsibility_status_of rid owner escalation =
     \<lparr>rp_record_id = rid,
      rp_contacts = \<lparr>ct_owner = route_of owner, ct_escalation = route_of escalation\<rparr>,
      rp_blocking_reasons = blocking_reasons (route_of owner) (route_of escalation)\<rparr>"

definition is_complete :: "responsibility_status \<Rightarrow> bool" where
  "is_complete st \<longleftrightarrow> rp_blocking_reasons st = []"

definition get_responsibility :: "string \<Rightarrow> aux_store \<Rightarrow> responsibility_status" where
  "get_responsibility rid s =
     responsibility_status_of rid (ct_owner (current_contacts rid s))
       (ct_escalation (current_contacts rid s))"

definition contact_history :: "string \<Rightarrow> aux_store \<Rightarrow> responsibility_change list" where
  "contact_history rid s = (case dget (au_history s) rid of None \<Rightarrow> [] | Some evs \<Rightarrow> evs)"

text \<open>Replacing the contacts: only if they are still what the event saw, and once per event.\<close>

definition apply_responsibility_change ::
  "responsibility_change \<Rightarrow> aux_store \<Rightarrow> responsibility_error + aux_store" where
  "apply_responsibility_change ev s =
     (let rid = rc_record_id ev in
      if current_contacts rid s \<noteq> rc_before ev then Inl Changed_concurrently
      else if rc_event_id ev \<in> set (map rc_event_id (contact_history rid s)) then Inl Event_exists
      else Inr (s\<lparr>au_ext := dput rid
                    (over_fields (no_fields\<lparr>ax_owner_contact := Some (ct_owner (rc_after ev)),
                       ax_escalation_contact := Some (ct_escalation (rc_after ev))\<rparr>)
                     (stored_ext rid s)) (au_ext s),
                 au_history := dput rid (contact_history rid s @ [ev]) (au_history s)\<rparr>))"

text \<open>\<open>readable\<close> is the answer of the Registry when the asset's record is read first.\<close>

definition change_contacts ::
  "string + unit \<Rightarrow> string \<Rightarrow> string \<Rightarrow> string \<Rightarrow> string \<Rightarrow> string \<Rightarrow> string \<Rightarrow> string
     \<Rightarrow> aux_store \<Rightarrow> responsibility_error + responsibility_status \<times> aux_store" where
  "change_contacts readable rid owner_contact escalation_contact changed_by reason event_id now s =
     (case readable of
        Inl e \<Rightarrow> Inl (Record_unreadable e)
      | Inr _ \<Rightarrow>
     bind_res (normalise_email owner_contact) (\<lambda>owner.
     bind_res (normalise_email escalation_contact) (\<lambda>escalation.
     bind_res (raise_unless (owner \<noteq> escalation) Same_contact) (\<lambda>_.
     bind_res (raise_unless (strip changed_by \<noteq> []) Actor_required) (\<lambda>_.
     bind_res (raise_unless (strip reason \<noteq> []) Reason_required) (\<lambda>_.
     bind_res (apply_responsibility_change
       \<lparr>rc_event_id = event_id, rc_record_id = rid, rc_changed_at = now,
        rc_changed_by = strip changed_by, rc_reason = strip reason,
        rc_before = current_contacts rid s,
        rc_after = \<lparr>ct_owner = owner, ct_escalation = escalation\<rparr>\<rparr> s) (\<lambda>t.
     Inr (responsibility_status_of rid owner escalation, t))))))))"

section \<open>Lemmas\<close>

lemma dget_merge_dicts:
  "dget (merge_dicts a b) k = (case dget (rev b) k of None \<Rightarrow> dget a k | Some v \<Rightarrow> Some v)"
  by (induction b arbitrary: a) (auto simp: merge_dicts_def map_add_def split: option.split)

lemma wf_merge_dicts [simp]: "wf_dict a \<Longrightarrow> wf_dict (merge_dicts a b)"
  by (induction b arbitrary: a) (auto simp: merge_dicts_def)

lemma dget_copy_fields:
  "dget (copy_fields names from to) k =
     (if k \<in> set names \<and> dget from k \<noteq> None then dget from k else dget to k)"
  by (induction names arbitrary: to) (auto simp: copy_fields_def split: option.split)

lemma stored_ext_set [simp]:
  "stored_ext rid (s\<lparr>au_ext := dput rid' x (au_ext s)\<rparr>) =
     (if rid = rid' then x else stored_ext rid s)"
  by (simp add: stored_ext_def)

lemma current_contacts_history [simp]:
  "current_contacts rid (s\<lparr>au_history := h\<rparr>) = current_contacts rid s"
  by (simp add: current_contacts_def stored_ext_def)

lemma over_contacts [simp]:
  "ax_owner_contact (over_fields (no_fields\<lparr>ax_owner_contact := Some a,
     ax_escalation_contact := Some b\<rparr>) x) = Some a"
  "ax_escalation_contact (over_fields (no_fields\<lparr>ax_owner_contact := Some a,
     ax_escalation_contact := Some b\<rparr>) x) = Some b"
  by (simp_all add: over_fields_def no_fields_def given_def)

lemma applied_change:
  assumes "apply_responsibility_change ev s = Inr t"
  shows "current_contacts rid t =
      (if rid = rc_record_id ev then rc_after ev else current_contacts rid s)"
    and "contact_history rid t =
      contact_history rid s @ (if rid = rc_record_id ev then [ev] else [])"
    and "current_contacts (rc_record_id ev) s = rc_before ev"
    and "rc_event_id ev \<notin> set (map rc_event_id (contact_history (rc_record_id ev) s))"
  using assms
  by (auto simp: apply_responsibility_change_def Let_def current_contacts_def contact_history_def
      stored_ext_def str_field_def split: if_splits)

lemma lower_lower: "ascii_lower (ascii_lower c) = ascii_lower c"
  by (simp add: ascii_lower_def Let_def)

lemma no_space_strip: "list_all (\<lambda>c. \<not> is_space c) s \<Longrightarrow> strip s = s"
  by (rule strip_id) (auto simp: list_all_iff)

lemma route_of_valid: "valid_route (route_of s) \<Longrightarrow> route_of (route_of s) = route_of s"
  unfolding route_of_def [of "route_of s"]
  by (subst no_space_strip)
    (auto simp: valid_route_def email_route_def route_of_def lower_lower split: prod.splits)

lemma valid_route_nonempty: "valid_route s \<Longrightarrow> s \<noteq> []"
  by (auto simp: valid_route_def email_route_def partition_at_def)

lemma blocking_reasons_empty:
  "blocking_reasons a b = [] \<longleftrightarrow> valid_route a \<and> valid_route b \<and> a \<noteq> b"
  by (auto simp: blocking_reasons_def valid_route_nonempty)

text \<open>A change of contacts ends in a complete contract. Whatever was stored before, a change
  that is accepted leaves the asset with the two normalised, valid and different routes it
  asked for, eligible for approval, and appends one event to the asset's history, which
  records who changed what; no other asset's contacts or history change.\<close>

theorem contact_change_completes:
  assumes "change_contacts readable rid owner esc actor reason event now s = Inr (st, t)"
  shows "is_complete st \<and> get_responsibility rid t = st \<and>
    current_contacts rid t = \<lparr>ct_owner = route_of owner, ct_escalation = route_of esc\<rparr> \<and>
    contact_history rid t = contact_history rid s @
      [\<lparr>rc_event_id = event, rc_record_id = rid, rc_changed_at = now, rc_changed_by = strip actor,
        rc_reason = strip reason, rc_before = current_contacts rid s,
        rc_after = current_contacts rid t\<rparr>] \<and>
    (\<forall>other. other \<noteq> rid \<longrightarrow> get_responsibility other t = get_responsibility other s \<and>
       contact_history other t = contact_history other s)"
proof -
  define ev where "ev = \<lparr>rc_event_id = event, rc_record_id = rid, rc_changed_at = now,
    rc_changed_by = strip actor, rc_reason = strip reason, rc_before = current_contacts rid s,
    rc_after = \<lparr>ct_owner = route_of owner, ct_escalation = route_of esc\<rparr>\<rparr>"
  have v: "valid_route (route_of owner)" "valid_route (route_of esc)" "route_of owner \<noteq> route_of esc"
    and st: "st = responsibility_status_of rid (route_of owner) (route_of esc)"
    and ap: "apply_responsibility_change ev s = Inr t"
    using assms
    by (auto simp: change_contacts_def bind_res_Inr_iff normalise_email_def ev_def
        split: sum.splits if_splits)
  have c: "current_contacts r t = (if r = rid then rc_after ev else current_contacts r s)" for r
    using applied_change(1) [OF ap, of r] by (simp add: ev_def)
  have h: "contact_history r t = contact_history r s @ (if r = rid then [ev] else [])" for r
    using applied_change(2) [OF ap, of r] by (simp add: ev_def)
  have "is_complete st"
    using v by (simp add: st is_complete_def responsibility_status_of_def blocking_reasons_empty
        route_of_valid)
  moreover have "get_responsibility rid t = st"
    by (simp add: get_responsibility_def c st ev_def)
  ultimately show ?thesis
    by (simp add: c h get_responsibility_def) (simp add: ev_def)
qed

definition sample_aux :: aux_store where
  "sample_aux = \<lparr>au_views = [], au_ext = [], au_history = []\<rparr>"

theorem contact_change_completes_witness:
  "map_sum id (\<lambda>(st, t). is_complete st \<and> is_complete (get_responsibility ''r'' t))
     (change_contacts (Inr ()) ''r'' '' Ann@corp.io'' ''ops@corp.io'' ''ann'' ''handover'' ''e1''
        ''t1'' sample_aux) = Inr True"
proof -
  obtain st t where c: "change_contacts (Inr ()) ''r'' '' Ann@corp.io'' ''ops@corp.io'' ''ann''
      ''handover'' ''e1'' ''t1'' sample_aux = Inr (st, t)"
  proof -
    have "case change_contacts (Inr ()) ''r'' '' Ann@corp.io'' ''ops@corp.io'' ''ann''
      ''handover'' ''e1'' ''t1'' sample_aux of Inl _ \<Rightarrow> False | Inr _ \<Rightarrow> True"
      by code_simp
    then show ?thesis using that by (auto split: sum.splits)
  qed
  show ?thesis
    unfolding c using contact_change_completes [OF c] by simp
qed

text \<open>The runtime binding of an agent comes from the Registry. When the auxiliary store holds
  its own copy of an agent's descriptors, every binding field that the Registry has is read
  from the Registry, and every other field from the copy, or from the Registry if the copy
  lacks it.\<close>

theorem registry_binding_wins:
  assumes "jget registry ''agent'' = JObj ra" "jget aux ''agent'' = JObj aa" "wf_dict aa"
    and "jget (merge_agent_descriptors registry aux) ''agent'' = JObj merged"
  shows "dget merged f =
    (if f \<in> set REGISTRY_AGENT_FIELDS \<and> dget ra f \<noteq> None then dget ra f
     else case dget aa f of None \<Rightarrow> dget ra f | Some v \<Rightarrow> Some v)"
proof -
  have "map_of (rev aa) = map_of aa"
    using assms(3) by (simp add: wf_dict_def map_of_inject_set rev_map [symmetric])
  moreover have "merged = copy_fields REGISTRY_AGENT_FIELDS ra (merge_dicts ra aa)"
    using assms(1,2,4) by (simp add: merge_agent_descriptors_def jget_def split: option.splits)
  ultimately show ?thesis
    by (auto simp: dget_copy_fields dget_merge_dicts)
qed

theorem registry_binding_wins_witness:
  "dget (copy_fields REGISTRY_AGENT_FIELDS
       [(''runtimeArn'', JStr ''new''), (''name'', JStr ''a'')]
       (merge_dicts [(''runtimeArn'', JStr ''new''), (''name'', JStr ''a'')]
          [(''runtimeArn'', JStr ''old''), (''card'', JStr ''c'')])) ''runtimeArn'' =
     Some (JStr ''new'')"
proof -
  let ?ra = "[(''runtimeArn'', JStr ''new''), (''name'', JStr ''a'')]"
  let ?aa = "[(''runtimeArn'', JStr ''old''), (''card'', JStr ''c'')]"
  have "jget (merge_agent_descriptors [(''agent'', JObj ?ra)] [(''agent'', JObj ?aa)]) ''agent'' =
      JObj (copy_fields REGISTRY_AGENT_FIELDS ?ra (merge_dicts ?ra ?aa))"
    by (simp add: merge_agent_descriptors_def jget_def)
  from registry_binding_wins [OF _ _ _ this, where f = "''runtimeArn''"] show ?thesis
    by (simp add: jget_def wf_dict_def REGISTRY_AGENT_FIELDS_def)
qed

end
