(* ===== verification/Governance_Env.thy ===== *)
theory Governance_Env
  imports Gov_Store Catalog_Records Effects
begin

text \<open>
  What the governance services run on: the governance store, the auxiliary store and the
  services outside the repository, and the calls that go through the Registry adapter
  (\<open>catalog/registry/aws_adapter.py\<close>). The Registry's control plane, the source store, the
  scanners' execution service and the clock are functions of an arbitrary world \<open>'w\<close>, which
  every call may change: nothing is assumed of what they answer. The state carries a trace of
  the calls made and of their answers; no operation reads it.
\<close>

section \<open>Services\<close>

text \<open>
  Why an automatic approval did not happen, with what the explanation quotes. The Korean
  sentences that the code builds of it are the parameter \<open>ge_prose\<close> (detail, remediation).
\<close>

datatype block_cause =
    No_gate_applies
  | Gate_waits "(string \<times> stage_state) list" "string list" gate_verdict
  | Gate_rejected "string list"
  | Contacts_missing "string list"
  | Contacts_unobservable string
  | Transition_failed gate_verdict record_status string

text \<open>
  What a scanner is given. The document that replaces the sources of an asset without any is
  represented by what it is built from (descriptors, name, asset type).
\<close>

record scan_request =
  sq_scan_id :: string
  sq_record_id :: string
  sq_asset_type :: "string option"
  sq_has_source :: bool
  sq_cells :: "(string \<times> string \<times> string) list"
  sq_judge_model :: string
  sq_document :: "(descriptors \<times> string \<times> string option) option"
  sq_files :: "(string \<times> string) list"

record scan_outcome =
  so_risk :: string
  so_findings :: "finding list"
  so_scanned_areas :: "string list"
  so_scanner_kind :: string
  so_pending :: bool

record execution =
  ex_status :: string
  ex_findings :: "finding list"
  ex_scanned_areas :: "string list"
  ex_risk :: string

record 'w gov_env =
  ge_repr :: "json \<Rightarrow> string"
  cp_get :: "string \<Rightarrow> 'w \<Rightarrow> (string + registry_record) \<times> 'w"
  cp_submit :: "string \<Rightarrow> 'w \<Rightarrow> (string + string) \<times> 'w"
  cp_set_status :: "string \<Rightarrow> string \<Rightarrow> string \<Rightarrow> 'w \<Rightarrow> (string + string) \<times> 'w"
  src_versions :: "string \<Rightarrow> 'w \<Rightarrow> (string + (string \<times> (string \<times> json) list) list) \<times> 'w"
  src_manifest :: "string \<Rightarrow> string \<Rightarrow> 'w \<Rightarrow> (string + string list) \<times> 'w"
  src_read :: "string \<Rightarrow> string \<Rightarrow> string \<Rightarrow> 'w \<Rightarrow> (string + string) \<times> 'w"
  ge_scan :: "scan_request \<Rightarrow> 'w \<Rightarrow> scan_outcome \<times> 'w"
  ge_describe :: "string \<Rightarrow> 'w \<Rightarrow> (string + execution) \<times> 'w"
  ge_now :: "'w \<Rightarrow> string"
  ge_stamp :: "'w \<Rightarrow> string"
  ge_monotonic :: "'w \<Rightarrow> int"
  ge_sleep :: "int \<Rightarrow> 'w \<Rightarrow> 'w"
  ge_prose :: "block_cause \<Rightarrow> string \<times> string"

datatype gov_call =
    Got string "string + record_status"
  | Submitted string "string + record_status"
  | Status_set string record_status "string + record_status"
  | Contacts_checked string "string list"
  | Slept int
  | Scanned string bool

record 'w gov_state =
  gs_store :: gov_store
  gs_aux :: aux_store
  gs_origins :: "(string \<times> string \<times> string, string) dict"
  gs_world :: 'w
  gs_calls :: "gov_call list"

type_synonym ('w, 'a) act = "('w gov_state, 'a) state"

section \<open>Actions\<close>

text \<open>A call to a service, without and with a mark in the trace.\<close>

definition call_world :: "('w \<Rightarrow> 'a \<times> 'w) \<Rightarrow> ('w, 'a) act" where
  "call_world f = State (\<lambda>s. case f (gs_world s) of (a, w) \<Rightarrow> (a, s\<lparr>gs_world := w\<rparr>))"

definition trace :: "gov_call \<Rightarrow> ('w, unit) act" where
  "trace c = modify (\<lambda>s. s\<lparr>gs_calls := gs_calls s @ [c]\<rparr>)"

definition on_store :: "(gov_store \<Rightarrow> gov_store) \<Rightarrow> ('w, unit) act" where
  "on_store f = modify (\<lambda>s. s\<lparr>gs_store := f (gs_store s)\<rparr>)"

lemma wp_call_world [wp_simps]:
  "wp (call_world f) Q =
     (\<lambda>s. Q (fst (f (gs_world s))) (s\<lparr>gs_world := snd (f (gs_world s))\<rparr>))"
  by (simp add: wp_def call_world_def fun_eq_iff split: prod.split)

lemma wp_trace [wp_simps]: "wp (trace c) Q = (\<lambda>s. Q () (s\<lparr>gs_calls := gs_calls s @ [c]\<rparr>))"
  by (simp add: trace_def)

lemma wp_on_store [wp_simps]:
  "wp (on_store f) Q = (\<lambda>s. Q () (s\<lparr>gs_store := f (gs_store s)\<rparr>))"
  by (simp add: on_store_def)

section \<open>The Registry adapter\<close>

definition get_record :: "'w gov_env \<Rightarrow> string \<Rightarrow> ('w, string + registry_record) act" where
  "get_record env rid = do {
     r \<leftarrow> call_world (cp_get env rid);
     trace (Got rid (map_sum id rr_status r));
     aux \<leftarrow> gets gs_aux;
     State_Monad.return (map_sum id (merge_into aux) r)
   }"

text \<open>\<open>RecordStatus(resp["status"])\<close> raises \<open>ValueError\<close> on an unknown value.\<close>

definition parse_status :: "string + string \<Rightarrow> string + record_status" where
  "parse_status r = bind_res r (\<lambda>v. of_option ''ValueError'' (status_of_value v))"

definition submit_for_approval :: "'w gov_env \<Rightarrow> string \<Rightarrow> ('w, string + record_status) act" where
  "submit_for_approval env rid = do {
     r \<leftarrow> call_world (cp_submit env rid);
     trace (Submitted rid (parse_status r));
     State_Monad.return (parse_status r)
   }"

definition update_status ::
  "'w gov_env \<Rightarrow> string \<Rightarrow> record_status \<Rightarrow> string \<Rightarrow> ('w, string + record_status) act" where
  "update_status env rid status reason =
     (if status = RS_Pending_approval then submit_for_approval env rid
      else do {
        r \<leftarrow> call_world (cp_set_status env rid (status_value status)
               (if reason = [] then ''updated'' else reason));
        trace (Status_set rid status (parse_status r));
        State_Monad.return (parse_status r)
      })"

text \<open>The adapter does not look siblings up: the Registry does not store source prefixes.\<close>

definition find_by_source_asset_id :: "string \<Rightarrow> ('w, registry_record list) act" where
  "find_by_source_asset_id asset_id = State_Monad.return []"

definition set_search_visible ::
  "'w gov_env \<Rightarrow> string \<Rightarrow> bool \<Rightarrow> ('w, string + registry_record) act" where
  "set_search_visible env rid visible = do {
     modify (\<lambda>s. s\<lparr>gs_aux := set_meta rid (no_fields\<lparr>ax_search_visible := Some visible\<rparr>) (gs_aux s)\<rparr>);
     get_record env rid
   }"

datatype contact_answer =
    Contacts_complete
  | Contacts_incomplete "string list"
  | Contacts_failed string

text \<open>\<open>CatalogAssetResponsibility.require_for_approval\<close>.\<close>

definition require_for_approval :: "'w gov_env \<Rightarrow> string \<Rightarrow> ('w, contact_answer) act" where
  "require_for_approval env rid = do {
     r \<leftarrow> get_record env rid;
     case r of
       Inl e \<Rightarrow> State_Monad.return (Contacts_failed e)
     | Inr _ \<Rightarrow> do {
         aux \<leftarrow> gets gs_aux;
         trace (Contacts_checked rid (rp_blocking_reasons (get_responsibility rid aux)));
         State_Monad.return
           (if is_complete (get_responsibility rid aux) then Contacts_complete
            else Contacts_incomplete (rp_blocking_reasons (get_responsibility rid aux)))
       }
   }"

section \<open>The asset as the gate sees it\<close>

definition inline_source_files :: "descriptors \<Rightarrow> (string \<times> string) list" where
  "inline_source_files ds =
     (case filter (\<lambda>s. strip s \<noteq> []) (List.map_filter id
             [str_at (jget ds ''skill'') ''markdown'',
              (case jget ds ''agentSkills'' of
                 JObj node \<Rightarrow> str_at (jget node ''skillMd'') ''inlineContent''
               | _ \<Rightarrow> None)]) of
        [] \<Rightarrow> []
      | body # _ \<Rightarrow> [(''SKILL.md'', body)])"

definition has_source_bundle :: "string \<Rightarrow> string option \<Rightarrow> descriptors \<Rightarrow> bool" where
  "has_source_bundle src key ds \<longleftrightarrow>
     4 \<le> length (path_parts src) \<or> key = Some ''skill'' \<or> inline_source_files ds \<noteq> []"

definition record_asset_key :: "registry_record \<Rightarrow> string option" where
  "record_asset_key r = asset_key_of (Some (descriptor_value (rr_descriptor_type r)))"

definition record_has_source :: "registry_record \<Rightarrow> bool" where
  "record_has_source r = has_source_bundle (source_prefix r) (record_asset_key r) (rr_descriptors r)"

definition asset_key :: "'w gov_env \<Rightarrow> string \<Rightarrow> ('w, string option) act" where
  "asset_key env rid = do {
     r \<leftarrow> get_record env rid;
     State_Monad.return (case r of Inl _ \<Rightarrow> None | Inr x \<Rightarrow> record_asset_key x)
   }"

definition has_source :: "'w gov_env \<Rightarrow> string \<Rightarrow> ('w, bool) act" where
  "has_source env rid = do {
     r \<leftarrow> get_record env rid;
     State_Monad.return (case r of Inl _ \<Rightarrow> True | Inr x \<Rightarrow> record_has_source x)
   }"

definition tier_of_key :: "string option \<Rightarrow> gov_store \<Rightarrow> string" where
  "tier_of_key key s =
     (case dget (cs_asset_tier_map (get_settings s)) (str_field key) of
        None \<Rightarrow> ''minimal''
      | Some t \<Rightarrow> t)"

definition tier_for_record :: "'w gov_env \<Rightarrow> string \<Rightarrow> ('w, string) act" where
  "tier_for_record env rid = do {
     key \<leftarrow> asset_key env rid;
     store \<leftarrow> gets gs_store;
     State_Monad.return (tier_of_key key store)
   }"

section \<open>Applicability of the source scan\<close>

text \<open>
  The least recently used cache of observed origins, keyed by asset, version and the
  Registry's generation of the record. Failures are not cached.
\<close>

definition ORIGIN_CACHE_SIZE :: nat where
  "ORIGIN_CACHE_SIZE = 512"

definition cache_put :: "'k \<Rightarrow> 'v \<Rightarrow> ('k, 'v) dict \<Rightarrow> ('k, 'v) dict" where
  "cache_put k v d = take ORIGIN_CACHE_SIZE ((k, v) # ddel k d)"

definition source_deployment_source ::
  "'w gov_env \<Rightarrow> string \<Rightarrow> string \<Rightarrow> string \<Rightarrow> ('w, string option) act" where
  "source_deployment_source env asset_id version generation = do {
     cache \<leftarrow> gets gs_origins;
     let key = (asset_id, version, generation);
     case dget cache key of
       Some origin \<Rightarrow> do {
         modify (\<lambda>s. s\<lparr>gs_origins := cache_put key origin (gs_origins s)\<rparr>);
         State_Monad.return (Some origin)
       }
     | None \<Rightarrow> do {
         vs \<leftarrow> call_world (src_versions env asset_id);
         case vs of
           Inl _ \<Rightarrow> State_Monad.return None
         | Inr versions \<Rightarrow>
             let meta = (case find (\<lambda>(v, _). v = version) versions of None \<Rightarrow> [] | Some (_, m) \<Rightarrow> m);
                 origin = py_str (ge_repr env) (j_or (jget meta ''deployment_source'') (JStr []))
             in if origin = [] then State_Monad.return None
                else do {
                  modify (\<lambda>s. s\<lparr>gs_origins := cache_put key origin (gs_origins s)\<rparr>);
                  State_Monad.return (Some origin)
                }
       }
   }"

fun join_path :: "string list \<Rightarrow> string" where
  "join_path [] = []"
| "join_path [p] = p"
| "join_path (p # ps) = p @ ''/'' @ join_path ps"

text \<open>What the record's own declaration says, before any look at the source store.\<close>

datatype declared_origin =
    Declared applicability
  | Look_up string string

definition declared_applicability :: "(json \<Rightarrow> string) \<Rightarrow> registry_record \<Rightarrow> declared_origin" where
  "declared_applicability repr r =
     (let agent = as_obj (jget (rr_descriptors r) ''agent'');
          node = (case agent of None \<Rightarrow> [] | Some kvs \<Rightarrow> kvs);
          blueprint = (case jget node ''executionBinding'' of
                         JObj b \<Rightarrow> truthy (jget b ''blueprintId'') | _ \<Rightarrow> False);
          parts = path_parts (py_str repr (j_or (jget node ''sourcePrefix'') (JStr (source_prefix r))))
      in if agent = None \<and> rr_descriptor_type r \<noteq> DT_Agent then Declared Applicable
         else if blueprint then Declared Not_applicable
         else if jget node ''deploymentSource'' = JStr ''initializr'' then Declared Not_applicable
         else if length parts < 4 then Declared Applicable
         else Look_up (join_path (butlast (tl parts))) (last parts))"

definition origin_applicability :: "string option \<Rightarrow> applicability" where
  "origin_applicability origin =
     (if origin = Some ''initializr'' then Not_applicable
      else if origin = Some ''catalog'' then Applicable
      else Applicability_unknown)"

definition scan_applicability ::
  "'w gov_env \<Rightarrow> registry_record \<Rightarrow> ('w, applicability) act" where
  "scan_applicability env r =
     (case declared_applicability (ge_repr env) r of
        Declared a \<Rightarrow> State_Monad.return a
      | Look_up asset_id version \<Rightarrow> do {
          origin \<leftarrow> source_deployment_source env asset_id version
                     (rr_record_id r @ '':'' @ rr_updated_at r);
          State_Monad.return (origin_applicability origin)
        })"

definition scan_applicability_for_record ::
  "'w gov_env \<Rightarrow> string \<Rightarrow> ('w, applicability) act" where
  "scan_applicability_for_record env rid = do {
     r \<leftarrow> get_record env rid;
     case r of
       Inl _ \<Rightarrow> State_Monad.return Applicability_unknown
     | Inr x \<Rightarrow> scan_applicability env x
   }"

end
