(* ===== verification/Scan_Service.thy ===== *)
theory Scan_Service
  imports Governance_Env
begin

text \<open>
  The scan service (\<open>governance/scan_service.py\<close>), the execution of a scan by the step function
  runner (\<open>stepfn_runner.py\<close>), and the recorded reasons for a held approval
  (\<open>approval_block.py\<close>, \<open>shared/trust.py\<close>): a scan is started, its result is recorded, and the
  verdict of the gate over it is carried to the Registry.
\<close>

section \<open>Why an approval is held\<close>

datatype block_reason =
    Responsibility_incomplete | Responsibility_unobservable | Gate_pending | Gate_rejected_reason
  | Status_transition_failed | Block_unobservable

fun reason_value :: "block_reason \<Rightarrow> string" where
  "reason_value Responsibility_incomplete = ''responsibility_incomplete''"
| "reason_value Responsibility_unobservable = ''responsibility_unobservable''"
| "reason_value Gate_pending = ''gate_pending''"
| "reason_value Gate_rejected_reason = ''gate_rejected''"
| "reason_value Status_transition_failed = ''status_transition_failed''"
| "reason_value Block_unobservable = ''block_unobservable''"

definition reason_of_value :: "string \<Rightarrow> block_reason option" where
  "reason_of_value s = find (\<lambda>r. reason_value r = s)
     [Responsibility_incomplete, Responsibility_unobservable, Gate_pending, Gate_rejected_reason,
      Status_transition_failed, Block_unobservable]"

fun verdict_value :: "gate_verdict \<Rightarrow> string" where
  "verdict_value No_verdict = ''none''"
| "verdict_value Auto_reject = ''auto-reject''"
| "verdict_value Verdict_pending = ''pending''"
| "verdict_value Auto_approve = ''auto-approve''"

definition incomplete_state :: "stage_state \<Rightarrow> bool" where
  "incomplete_state st \<longleftrightarrow> st \<in> {Stage_pending, Stage_not_run, Stage_running, Stage_unknown}"

definition describe_gate_wait ::
  "gate_stage list \<Rightarrow> gate_verdict \<Rightarrow> block_cause \<times> string list" where
  "describe_gate_wait stages verdict =
     (let countable = countable_stages stages;
          waiting = filter (\<lambda>s. incomplete_state (gs_state s)) countable;
          warn_fail = filter (\<lambda>s. gs_state s = Stage_fail \<and> gs_enforcement s = ''warn'') countable
      in if countable = [] then (No_gate_applies, [])
         else (Gate_waits (map (\<lambda>s. (gs_tool_name s, gs_state s)) waiting)
                 (map gs_tool_name warn_fail) verdict,
               map gs_tool_id (waiting @ warn_fail)))"

definition describe_gate_reject :: "gate_stage list \<Rightarrow> block_cause \<times> string list" where
  "describe_gate_reject stages =
     (let failed = filter (\<lambda>s. gs_state s = Stage_fail \<and> gs_enforcement s = ''required'') stages
      in (Gate_rejected (map gs_tool_name failed), map gs_tool_id failed))"

definition record_block ::
  "'w gov_env \<Rightarrow> string \<Rightarrow> block_reason \<Rightarrow> block_cause \<Rightarrow> string list \<Rightarrow> string list \<Rightarrow> gate_verdict
     \<Rightarrow> ('w, unit) act" where
  "record_block env rid reason cause missing incomplete verdict = do {
     w \<leftarrow> gets gs_world;
     on_store (put_approval_block rid
       \<lparr>ab_ts = ge_now env w, ab_reason = reason_value reason, ab_detail = fst (ge_prose env cause),
        ab_remediation = snd (ge_prose env cause), ab_missing_contacts = missing,
        ab_incomplete_stages = incomplete, ab_verdict = verdict_value verdict\<rparr>)
   }"

text \<open>
  The recorded reason as it is shown. An unreadable store and a reason that the code no longer
  knows are shown as such, never as \<open>no reason\<close>.
\<close>

record approval_block =
  bl_reason :: block_reason
  bl_observed_at :: string
  bl_missing_contacts :: "string list"
  bl_incomplete_stages :: "string list"

definition as_summary ::
  "string \<Rightarrow> string + approval_block_record option \<Rightarrow> approval_block option" where
  "as_summary now loaded =
     (case loaded of
        Inl _ \<Rightarrow> Some \<lparr>bl_reason = Block_unobservable, bl_observed_at = now,
          bl_missing_contacts = [], bl_incomplete_stages = []\<rparr>
      | Inr None \<Rightarrow> None
      | Inr (Some b) \<Rightarrow>
          Some (case reason_of_value (ab_reason b) of
             None \<Rightarrow> \<lparr>bl_reason = Responsibility_unobservable, bl_observed_at = ab_ts b,
               bl_missing_contacts = [], bl_incomplete_stages = []\<rparr>
           | Some r \<Rightarrow> \<lparr>bl_reason = r, bl_observed_at = ab_ts b,
               bl_missing_contacts = ab_missing_contacts b,
               bl_incomplete_stages = ab_incomplete_stages b\<rparr>))"

section \<open>The verdict reaches the Registry\<close>

definition ensure_pending_before_verdict :: "'w gov_env \<Rightarrow> string \<Rightarrow> ('w, unit) act" where
  "ensure_pending_before_verdict env rid = do {
     r \<leftarrow> get_record env rid;
     case r of
       Inl _ \<Rightarrow> State_Monad.return ()
     | Inr x \<Rightarrow>
         if rr_status x = RS_Draft then do {
           _ \<leftarrow> update_status env rid RS_Pending_approval ''verdict'';
           State_Monad.return ()
         } else State_Monad.return ()
   }"

definition source_asset_id_of :: "registry_record \<Rightarrow> string" where
  "source_asset_id_of r =
     (let parts = path_parts (source_prefix r)
      in if 3 \<le> length parts then parts ! 1 @ ''/'' @ parts ! 2 else [])"

definition hide_sibling :: "'w gov_env \<Rightarrow> string \<Rightarrow> registry_record \<Rightarrow> ('w, unit) act" where
  "hide_sibling env rid sib =
     (if rr_record_id sib \<noteq> rid \<and> rr_search_visible sib then do {
        _ \<leftarrow> set_search_visible env (rr_record_id sib) False;
        State_Monad.return ()
      } else State_Monad.return ())"

definition hide_sibling_versions :: "'w gov_env \<Rightarrow> string \<Rightarrow> ('w, unit) act" where
  "hide_sibling_versions env rid = do {
     r \<leftarrow> get_record env rid;
     case r of
       Inl _ \<Rightarrow> State_Monad.return ()
     | Inr approved \<Rightarrow>
         if source_asset_id_of approved = [] then State_Monad.return ()
         else do {
           siblings \<leftarrow> find_by_source_asset_id (source_asset_id_of approved);
           for_each (hide_sibling env rid) siblings
         }
   }"

definition gate_stages ::
  "'w gov_env \<Rightarrow> string \<Rightarrow> string \<Rightarrow> scan_record option \<Rightarrow> ('w, gate_stage list) act" where
  "gate_stages env rid tier scan = do {
     applicability \<leftarrow> scan_applicability_for_record env rid;
     key \<leftarrow> asset_key env rid;
     source \<leftarrow> has_source env rid;
     store \<leftarrow> gets gs_store;
     State_Monad.return (compute_gates (ge_repr env) (get_tier tier store) list_catalog_tools scan
       key source applicability)
   }"

definition verdict_target :: "gate_verdict \<Rightarrow> record_status option" where
  "verdict_target v =
     (if v = Auto_approve then Some RS_Approved
      else if v = Auto_reject then Some RS_Rejected else None)"

text \<open>The contract on contacts, for an approval only; a refusal is recorded.\<close>

definition contacts_allow ::
  "'w gov_env \<Rightarrow> string \<Rightarrow> gate_verdict \<Rightarrow> ('w, bool) act" where
  "contacts_allow env rid verdict = do {
     answer \<leftarrow> require_for_approval env rid;
     case answer of
       Contacts_complete \<Rightarrow> State_Monad.return True
     | Contacts_incomplete missing \<Rightarrow> do {
         record_block env rid Responsibility_incomplete (Contacts_missing missing) missing [] verdict;
         State_Monad.return False
       }
     | Contacts_failed e \<Rightarrow> do {
         record_block env rid Responsibility_unobservable (Contacts_unobservable e) [] [] verdict;
         State_Monad.return False
       }
   }"

definition verdict_note :: "gate_verdict \<Rightarrow> string" where
  "verdict_note v = ''governance verdict: '' @ verdict_value v"

definition set_verdict_status ::
  "'w gov_env \<Rightarrow> string \<Rightarrow> gate_verdict \<Rightarrow> record_status \<Rightarrow> ('w, unit) act" where
  "set_verdict_status env rid verdict target = do {
     r \<leftarrow> update_status env rid target (verdict_note verdict);
     case r of
       Inl e \<Rightarrow> record_block env rid Status_transition_failed
         (Transition_failed verdict target e) [] [] verdict
     | Inr _ \<Rightarrow>
         if target = RS_Approved then do {
           on_store (clear_approval_block rid);
           hide_sibling_versions env rid
         } else State_Monad.return ()
   }"

definition carry_verdict ::
  "'w gov_env \<Rightarrow> string \<Rightarrow> gate_stage list \<Rightarrow> ('w, unit) act" where
  "carry_verdict env rid stages =
     (let verdict = gp_verdict (gate_summary stages) in
      case verdict_target verdict of
        None \<Rightarrow> record_block env rid Gate_pending (fst (describe_gate_wait stages verdict)) []
          (snd (describe_gate_wait stages verdict)) verdict
      | Some target \<Rightarrow> do {
          ensure_pending_before_verdict env rid;
          allowed \<leftarrow> (if target = RS_Approved then contacts_allow env rid verdict
                     else State_Monad.return True);
          if \<not> allowed then State_Monad.return ()
          else do {
            _ \<leftarrow> (if target = RS_Rejected then
                   record_block env rid Gate_rejected_reason (fst (describe_gate_reject stages)) []
                     (snd (describe_gate_reject stages)) verdict
                 else State_Monad.return ());
            set_verdict_status env rid verdict target
          }
        })"

definition apply_verdict_to_registry :: "'w gov_env \<Rightarrow> string \<Rightarrow> ('w, unit) act" where
  "apply_verdict_to_registry env rid = do {
     store \<leftarrow> gets gs_store;
     case latest_scan rid store of
       None \<Rightarrow> State_Monad.return ()
     | Some scan \<Rightarrow>
         if sc_status scan \<noteq> ''done'' then State_Monad.return ()
         else do {
           tier \<leftarrow> tier_for_record env rid;
           stages \<leftarrow> gate_stages env rid tier (Some scan);
           carry_verdict env rid stages
         }
   }"

section \<open>Actions that only observe\<close>

text \<open>
  An action changes neither store, and adds to the trace only calls that satisfy \<open>C\<close>.
\<close>

definition only_calls :: "(gov_call \<Rightarrow> bool) \<Rightarrow> ('w, 'a) act \<Rightarrow> bool" where
  "only_calls C m \<longleftrightarrow> (\<forall>s. wp m (\<lambda>_ t. gs_store t = gs_store s \<and> gs_aux t = gs_aux s \<and>
     (\<exists>cs. gs_calls t = gs_calls s @ cs \<and> list_all C cs)) s)"

lemma only_callsD:
  assumes "only_calls C m"
    and "\<And>a t cs. gs_store t = gs_store s \<Longrightarrow> gs_aux t = gs_aux s \<Longrightarrow>
      gs_calls t = gs_calls s @ cs \<Longrightarrow> list_all C cs \<Longrightarrow> Q a t"
  shows "wp m Q s"
proof -
  from assms(1) have "wp m (\<lambda>_ t. gs_store t = gs_store s \<and> gs_aux t = gs_aux s \<and>
      (\<exists>cs. gs_calls t = gs_calls s @ cs \<and> list_all C cs)) s"
    by (simp add: only_calls_def)
  then show ?thesis by (rule wp_mono) (use assms(2) in blast)
qed

lemma only_calls_mono: "only_calls C m \<Longrightarrow> (\<And>c. C c \<Longrightarrow> D c) \<Longrightarrow> only_calls D m"
  unfolding only_calls_def by (blast intro: wp_mono list.pred_mono_strong)

named_theorems observing \<open>actions that change no store\<close>

lemma only_calls_return [observing]: "only_calls C (State_Monad.return a)"
  by (simp add: only_calls_def)

lemma only_calls_gets [observing]: "only_calls C (gets f)"
  by (simp add: only_calls_def)

lemma only_calls_world [observing]: "only_calls C (call_world f)"
  by (simp add: only_calls_def wp_simps)

lemma only_calls_origins [observing]: "only_calls C (modify (\<lambda>s. s\<lparr>gs_origins := f s\<rparr>))"
  by (simp add: only_calls_def)

lemma only_calls_trace [observing]: "C c \<Longrightarrow> only_calls C (trace c)"
  by (simp add: only_calls_def wp_simps)

lemma only_calls_bind [observing]:
  assumes "only_calls C m" "\<And>a. only_calls C (f a)"
  shows "only_calls C (State_Monad.bind m f)"
  unfolding only_calls_def wp_bind
proof (intro allI only_callsD [OF assms(1)] only_callsD [OF assms(2)])
  fix s t u :: "'a gov_state" and cs ds
  assume "gs_calls t = gs_calls s @ cs" "list_all C cs" "gs_calls u = gs_calls t @ ds" "list_all C ds"
    "gs_store t = gs_store s" "gs_aux t = gs_aux s" "gs_store u = gs_store t" "gs_aux u = gs_aux t"
  then show "gs_store u = gs_store s \<and> gs_aux u = gs_aux s \<and>
      (\<exists>cs. gs_calls u = gs_calls s @ cs \<and> list_all C cs)"
    by simp
qed

lemma only_calls_if [observing]:
  "only_calls C m \<Longrightarrow> only_calls C n \<Longrightarrow> only_calls C (if b then m else n)"
  by simp

lemma only_calls_option [observing]:
  "only_calls C m \<Longrightarrow> (\<And>a. only_calls C (f a)) \<Longrightarrow>
     only_calls C (case x of None \<Rightarrow> m | Some a \<Rightarrow> f a)"
  by (simp split: option.split)

lemma only_calls_sum [observing]:
  "(\<And>a. only_calls C (f a)) \<Longrightarrow> (\<And>b. only_calls C (g b)) \<Longrightarrow>
     only_calls C (case x of Inl a \<Rightarrow> f a | Inr b \<Rightarrow> g b)"
  by (simp split: sum.split)

fun is_read :: "gov_call \<Rightarrow> bool" where
  "is_read (Got _ _) = True"
| "is_read (Contacts_checked _ _) = True"
| "is_read _ = False"

text \<open>Reads, and the submission of a draft for review.\<close>

fun no_status_set :: "gov_call \<Rightarrow> bool" where
  "no_status_set (Status_set _ _ _) = False"
| "no_status_set _ = True"

lemma is_read_no_status: "is_read c \<Longrightarrow> no_status_set c"
  by (cases c) auto

lemma get_record_reads [observing]: "only_calls is_read (get_record env rid)"
  unfolding get_record_def by (intro observing) simp

lemma asset_key_reads [observing]: "only_calls is_read (asset_key env rid)"
  unfolding asset_key_def by (intro observing)

lemma has_source_reads [observing]: "only_calls is_read (has_source env rid)"
  unfolding has_source_def by (intro observing)

lemma tier_for_record_reads [observing]: "only_calls is_read (tier_for_record env rid)"
  unfolding tier_for_record_def by (intro observing)

lemma source_origin_reads [observing]:
  "only_calls is_read (source_deployment_source env a v g)"
  unfolding source_deployment_source_def Let_def by (intro observing)

lemma scan_applicability_reads [observing]: "only_calls is_read (scan_applicability env r)"
  unfolding scan_applicability_def
  by (cases "declared_applicability (ge_repr env) r") (auto intro!: observing)

lemma scan_applicability_for_record_reads [observing]:
  "only_calls is_read (scan_applicability_for_record env rid)"
  unfolding scan_applicability_for_record_def by (intro observing)

lemma gate_stages_reads [observing]: "only_calls is_read (gate_stages env rid tier scan)"
  unfolding gate_stages_def by (intro observing)

lemma require_for_approval_reads [observing]: "only_calls is_read (require_for_approval env rid)"
  unfolding require_for_approval_def by (intro observing) simp

lemma submit_no_status [observing]: "only_calls no_status_set (submit_for_approval env rid)"
  unfolding submit_for_approval_def by (intro observing) simp

lemma ensure_pending_no_status [observing]:
  "only_calls no_status_set (ensure_pending_before_verdict env rid)"
  unfolding ensure_pending_before_verdict_def update_status_def
  by (auto intro!: observing only_calls_mono [OF get_record_reads] is_read_no_status)

lemma hide_sibling_versions_reads [observing]:
  "only_calls is_read (hide_sibling_versions env rid)"
  unfolding hide_sibling_versions_def find_by_source_asset_id_def bind_left_identity
    for_each.simps by (intro observing)

section \<open>What carrying a verdict does\<close>

definition block_of :: "string \<Rightarrow> 'w gov_state \<Rightarrow> approval_block_record option" where
  "block_of rid s = get_approval_block rid (gs_store s)"

text \<open>A hold is recorded: the asset has a block with one of the reasons.\<close>

definition held_for :: "block_reason set \<Rightarrow> string \<Rightarrow> 'w gov_state \<Rightarrow> bool" where
  "held_for rs rid s \<longleftrightarrow> (\<exists>b r. block_of rid s = Some b \<and> r \<in> rs \<and> ab_reason b = reason_value r)"

lemma wp_record_block [wp_simps]:
  "wp (record_block env rid r cause ms is v) Q =
     (\<lambda>s. Q () (s\<lparr>gs_store := put_approval_block rid \<lparr>ab_ts = ge_now env (gs_world s),
       ab_reason = reason_value r, ab_detail = fst (ge_prose env cause),
       ab_remediation = snd (ge_prose env cause), ab_missing_contacts = ms,
       ab_incomplete_stages = is, ab_verdict = verdict_value v\<rparr> (gs_store s)\<rparr>))"
  by (simp add: record_block_def wp_simps)

lemma held_put [simp]:
  "held_for rs rid (s\<lparr>gs_store := put_approval_block rid b st\<rparr>) \<longleftrightarrow>
     (\<exists>r \<in> rs. ab_reason b = reason_value r)"
  by (auto simp: held_for_def block_of_def)

text \<open>The store changes only in the block of one asset.\<close>

definition only_block :: "string \<Rightarrow> gov_store \<Rightarrow> gov_store \<Rightarrow> bool" where
  "only_block rid s t \<longleftrightarrow>
     t = s \<or> (\<exists>b. t = put_approval_block rid b s) \<or> t = clear_approval_block rid s \<or>
     (\<exists>b. t = clear_approval_block rid (put_approval_block rid b s)) \<or>
     (\<exists>b c. t = put_approval_block rid c (put_approval_block rid b s))"

lemma require_for_approval_spec:
  "wp (require_for_approval env rid) (\<lambda>answer t. gs_store t = gs_store s \<and> gs_aux t = gs_aux s \<and>
     (\<exists>cs. gs_calls t = gs_calls s @ cs \<and> list_all is_read cs) \<and>
     (answer = Contacts_complete \<longrightarrow> is_complete (get_responsibility rid (gs_aux s)))) s"
  by (simp add: require_for_approval_def get_record_def wp_simps split: sum.split)

lemma contacts_allow_spec:
  fixes env :: "'w gov_env"
  shows "wp (contacts_allow env rid v) (\<lambda>ok t. gs_aux t = gs_aux s \<and>
     (\<exists>cs. gs_calls t = gs_calls s @ cs \<and> list_all is_read cs) \<and>
     (if ok then is_complete (get_responsibility rid (gs_aux s)) \<and> gs_store t = gs_store s
      else held_for {Responsibility_incomplete, Responsibility_unobservable} rid t \<and>
        (\<exists>b. gs_store t = put_approval_block rid b (gs_store s)))) s"
  unfolding contacts_allow_def wp_bind
proof (rule wp_mono [OF require_for_approval_spec])
  fix answer and t :: "'w gov_state"
  assume "gs_store t = gs_store s \<and> gs_aux t = gs_aux s \<and>
    (\<exists>cs. gs_calls t = gs_calls s @ cs \<and> list_all is_read cs) \<and>
    (answer = Contacts_complete \<longrightarrow> is_complete (get_responsibility rid (gs_aux s)))"
  then show "wp (case answer of Contacts_complete \<Rightarrow> State_Monad.return True
     | Contacts_incomplete missing \<Rightarrow> do {
         record_block env rid Responsibility_incomplete (Contacts_missing missing) missing [] v;
         State_Monad.return False
       }
     | Contacts_failed e \<Rightarrow> do {
         record_block env rid Responsibility_unobservable (Contacts_unobservable e) [] [] v;
         State_Monad.return False
       }) (\<lambda>ok t. gs_aux t = gs_aux s \<and>
     (\<exists>cs. gs_calls t = gs_calls s @ cs \<and> list_all is_read cs) \<and>
     (if ok then is_complete (get_responsibility rid (gs_aux s)) \<and> gs_store t = gs_store s
      else held_for {Responsibility_incomplete, Responsibility_unobservable} rid t \<and>
        (\<exists>b. gs_store t = put_approval_block rid b (gs_store s)))) t"
    by (cases answer) (auto simp: wp_record_block simp flip: ex_simps)
qed

fun allowed_call :: "string \<Rightarrow> gate_verdict \<Rightarrow> aux_store \<Rightarrow> gov_call \<Rightarrow> bool" where
  "allowed_call rid v aux (Status_set r st _) \<longleftrightarrow>
     r = rid \<and> verdict_target v = Some st \<and>
     (st = RS_Approved \<longrightarrow> is_complete (get_responsibility rid aux))"
| "allowed_call rid v aux _ \<longleftrightarrow> True"

lemma no_status_allowed: "no_status_set c \<Longrightarrow> allowed_call rid v aux c"
  by (cases c) auto

lemma list_all_allowed:
  "list_all no_status_set cs \<Longrightarrow> list_all (allowed_call rid v aux) cs"
  "list_all is_read cs \<Longrightarrow> list_all (allowed_call rid v aux) cs"
  by (auto simp: list_all_iff intro: no_status_allowed is_read_no_status)

definition accepted :: "string \<Rightarrow> record_status \<Rightarrow> gov_call list \<Rightarrow> bool" where
  "accepted rid st cs \<longleftrightarrow> (\<exists>x. Status_set rid st (Inr x) \<in> set cs)"

lemma accepted_append [simp]: "accepted rid st (xs @ ys) \<longleftrightarrow> accepted rid st xs \<or> accepted rid st ys"
  by (auto simp: accepted_def)

lemma accepted_none:
  "list_all no_status_set cs \<Longrightarrow> \<not> accepted rid st cs"
  "list_all is_read cs \<Longrightarrow> \<not> accepted rid st cs"
  by (auto simp: accepted_def list_all_iff)

lemma verdict_target_not_pending: "verdict_target v = Some st \<Longrightarrow> st \<in> {RS_Approved, RS_Rejected}"
  by (auto simp: verdict_target_def split: if_splits)

text \<open>What happens between two states of the service, for an asset and a verdict.\<close>

definition carried :: "string \<Rightarrow> gate_verdict \<Rightarrow> 'w gov_state \<Rightarrow> 'w gov_state \<Rightarrow> bool" where
  "carried rid v s t \<longleftrightarrow> gs_aux t = gs_aux s \<and> only_block rid (gs_store s) (gs_store t) \<and>
     (\<exists>cs. gs_calls t = gs_calls s @ cs \<and> list_all (allowed_call rid v (gs_aux s)) cs \<and>
        (accepted rid RS_Approved cs \<longrightarrow> block_of rid t = None) \<and>
        (\<not> accepted rid RS_Approved cs \<longrightarrow>
           held_for (if accepted rid RS_Rejected cs then {Gate_rejected_reason}
             else {Gate_pending, Responsibility_incomplete, Responsibility_unobservable,
                   Status_transition_failed}) rid t))"

text \<open>The last step: the status was tried, and its answer decides what the block says.\<close>

definition status_tried :: "string \<Rightarrow> gate_verdict \<Rightarrow> 'w gov_state \<Rightarrow> 'w gov_state \<Rightarrow> bool" where
  "status_tried rid v s t \<longleftrightarrow> gs_aux t = gs_aux s \<and>
     (gs_store t = gs_store s \<or> (\<exists>b. gs_store t = put_approval_block rid b (gs_store s)) \<or>
        gs_store t = clear_approval_block rid (gs_store s)) \<and>
     (\<exists>cs. gs_calls t = gs_calls s @ cs \<and> list_all (allowed_call rid v (gs_aux s)) cs \<and>
        (accepted rid RS_Approved cs \<longrightarrow> block_of rid t = None) \<and>
        (\<not> accepted rid RS_Approved cs \<longrightarrow>
           held_for (if accepted rid RS_Rejected cs then {Gate_rejected_reason}
             else {Status_transition_failed}) rid t))"

lemma status_triedI:
  assumes "gs_aux t = gs_aux s"
    and "gs_store t = gs_store s \<or> (\<exists>b. gs_store t = put_approval_block rid b (gs_store s)) \<or>
        gs_store t = clear_approval_block rid (gs_store s)"
    and "gs_calls t = gs_calls s @ cs" "list_all (allowed_call rid v (gs_aux s)) cs"
    and "accepted rid RS_Approved cs \<Longrightarrow> block_of rid t = None"
    and "\<not> accepted rid RS_Approved cs \<Longrightarrow>
           held_for (if accepted rid RS_Rejected cs then {Gate_rejected_reason}
             else {Status_transition_failed}) rid t"
  shows "status_tried rid v s t"
  using assms unfolding status_tried_def by blast

lemma held_mono: "held_for rs rid t \<Longrightarrow> rs \<subseteq> rs' \<Longrightarrow> held_for rs' rid t"
  by (auto simp: held_for_def)

lemma carried_after:
  assumes "gs_aux u = gs_aux s" "gs_calls u = gs_calls s @ cs" "list_all no_status_set cs"
    and "gs_store u = gs_store s \<or> (\<exists>b. gs_store u = put_approval_block rid b (gs_store s))"
    and "status_tried rid v u t"
  shows "carried rid v s t"
proof -
  from assms(5) obtain ds where d: "gs_aux t = gs_aux u" "gs_calls t = gs_calls u @ ds"
    "list_all (allowed_call rid v (gs_aux u)) ds"
    "accepted rid RS_Approved ds \<longrightarrow> block_of rid t = None"
    "\<not> accepted rid RS_Approved ds \<longrightarrow>
       held_for (if accepted rid RS_Rejected ds then {Gate_rejected_reason}
         else {Status_transition_failed}) rid t"
    and st: "gs_store t = gs_store u \<or> (\<exists>b. gs_store t = put_approval_block rid b (gs_store u)) \<or>
        gs_store t = clear_approval_block rid (gs_store u)"
    by (auto simp: status_tried_def)
  have "only_block rid (gs_store s) (gs_store t)"
    using assms(4) st unfolding only_block_def by metis
  moreover have "accepted rid x (cs @ ds) \<longleftrightarrow> accepted rid x ds" for x
    using accepted_none(1) [OF assms(3)] by simp
  moreover have "list_all (allowed_call rid v (gs_aux s)) (cs @ ds)"
    using d(3) assms(1) list_all_allowed(1) [OF assms(3)] by simp
  moreover have "\<not> accepted rid RS_Approved ds \<longrightarrow>
      held_for (if accepted rid RS_Rejected ds then {Gate_rejected_reason}
        else {Gate_pending, Responsibility_incomplete, Responsibility_unobservable,
              Status_transition_failed}) rid t"
    using d(5) held_mono [of "{Status_transition_failed}" rid t] by auto
  moreover have "gs_calls t = gs_calls s @ cs @ ds" "gs_aux t = gs_aux s"
    using d(1,2) assms(1,2) by simp_all
  ultimately show ?thesis unfolding carried_def using d(4) by metis
qed

lemma carried_held:
  assumes "gs_aux t = gs_aux s" "gs_calls t = gs_calls s @ cs" "list_all no_status_set cs"
    and "gs_store t = put_approval_block rid b (gs_store s)"
    and "held_for {Gate_pending, Responsibility_incomplete, Responsibility_unobservable} rid t"
  shows "carried rid v s t"
  using assms held_mono [OF assms(5)] list_all_allowed(1) [OF assms(3)] accepted_none(1) [OF assms(3)]
  by (auto simp: carried_def only_block_def)

lemma set_verdict_status_spec:
  fixes env :: "'w gov_env"
  assumes "verdict_target v = Some target"
    and "target = RS_Approved \<longrightarrow> is_complete (get_responsibility rid (gs_aux s))"
    and "target = RS_Rejected \<longrightarrow> held_for {Gate_rejected_reason} rid s"
  shows "wp (set_verdict_status env rid v target) (\<lambda>_. status_tried rid v s) s"
proof -
  have t: "target \<noteq> RS_Pending_approval" "target = RS_Rejected \<or> target = RS_Approved"
    using verdict_target_not_pending [OF assms(1)] by auto
  obtain r w where c: "cp_set_status env rid (status_value target) (verdict_note v) (gs_world s) = (r, w)"
    by (cases "cp_set_status env rid (status_value target) (verdict_note v) (gs_world s)")
  have n: "verdict_note v \<noteq> []" by (simp add: verdict_note_def)
  let ?s = "s\<lparr>gs_world := w, gs_calls := gs_calls s @ [Status_set rid target (parse_status r)]\<rparr>"
  note [simp] = set_verdict_status_def update_status_def wp_simps c n t(1) assms(1)
  show ?thesis
  proof (cases "parse_status r")
    case (Inl e)
    then show ?thesis using assms(2) by (auto simp: accepted_def status_tried_def)
  next
    case (Inr x)
    show ?thesis
    proof (cases "target = RS_Approved")
      case True
      have "wp (hide_sibling_versions env rid) (\<lambda>_. status_tried rid v s)
        (?s\<lparr>gs_store := clear_approval_block rid (gs_store s)\<rparr>)"
      proof (rule only_callsD [OF hide_sibling_versions_reads])
        fix t :: "'w gov_state" and cs
        assume h: "gs_store t = gs_store (?s\<lparr>gs_store := clear_approval_block rid (gs_store s)\<rparr>)"
          "gs_aux t = gs_aux (?s\<lparr>gs_store := clear_approval_block rid (gs_store s)\<rparr>)"
          "gs_calls t = gs_calls (?s\<lparr>gs_store := clear_approval_block rid (gs_store s)\<rparr>) @ cs"
          "list_all is_read cs"
        show "status_tried rid v s t"
          by (rule status_triedI [of _ _ _ "Status_set rid target (Inr x) # cs"])
            (use h True Inr assms(1,2) in \<open>auto simp: list_all_allowed accepted_def block_of_def\<close>)
      qed
      moreover have "cp_set_status env rid ''APPROVED'' (verdict_note v) (gs_world s) = (r, w)"
        using c True by simp
      ultimately show ?thesis
        using True Inr assms(2) by simp
    next
      case False
      then have tr: "target = RS_Rejected" using t(2) by simp
      have "status_tried rid v s ?s"
        by (rule status_triedI [of _ _ _ "[Status_set rid target (Inr x)]"])
          (use tr Inr assms(1,3) in \<open>auto simp: accepted_def held_for_def block_of_def\<close>)
      moreover have "cp_set_status env rid ''REJECTED'' (verdict_note v) (gs_world s) = (r, w)"
        using c tr by simp
      ultimately show ?thesis using tr Inr by simp
    qed
  qed
qed

lemma carry_verdict_spec:
  fixes env :: "'w gov_env"
  assumes v: "v = gp_verdict (gate_summary stages)"
  shows "wp (carry_verdict env rid stages) (\<lambda>_ t. carried rid v s t) s"
proof (cases "verdict_target v")
  case None
  then show ?thesis
    by (auto simp: carry_verdict_def v [symmetric] wp_simps carried_def only_block_def accepted_def
        Let_def)
next
  case (Some target)
  have t: "target = RS_Approved \<or> target = RS_Rejected"
    using verdict_target_not_pending [OF Some] by auto
  have pending: "wp (ensure_pending_before_verdict env rid) Q s"
    if "\<And>t cs. gs_store t = gs_store s \<Longrightarrow> gs_aux t = gs_aux s \<Longrightarrow>
      gs_calls t = gs_calls s @ cs \<Longrightarrow> list_all no_status_set cs \<Longrightarrow> Q () t" for Q
    using that by (intro only_callsD [OF ensure_pending_no_status]) auto
  show ?thesis
  proof (cases "target = RS_Approved")
    case True
    show ?thesis
      unfolding carry_verdict_def v [symmetric] Let_def Some option.case wp_bind
    proof (rule pending)
      fix t :: "'w gov_state" and cs
      assume p: "gs_store t = gs_store s" "gs_aux t = gs_aux s" "gs_calls t = gs_calls s @ cs"
        "list_all no_status_set cs"
      show "wp (if target = RS_Approved then contacts_allow env rid v
            else State_Monad.return True)
          (\<lambda>ok. wp (if \<not> ok then State_Monad.return () else do {
              _ \<leftarrow> (if target = RS_Rejected then
                     record_block env rid Gate_rejected_reason (fst (describe_gate_reject stages)) []
                       (snd (describe_gate_reject stages)) v
                   else State_Monad.return ());
              set_verdict_status env rid v target
            }) (\<lambda>_. carried rid v s)) t"
        unfolding if_P [OF True]
      proof (rule wp_mono [OF contacts_allow_spec], elim conjE exE)
        fix ok and u :: "'w gov_state" and ds
        assume q: "gs_aux u = gs_aux t" "gs_calls u = gs_calls t @ ds" "list_all is_read ds"
          "if ok then is_complete (get_responsibility rid (gs_aux t)) \<and> gs_store u = gs_store t
           else held_for {Responsibility_incomplete, Responsibility_unobservable} rid u \<and>
             (\<exists>b. gs_store u = put_approval_block rid b (gs_store t))"
        show "wp (if \<not> ok then State_Monad.return () else do {
              _ \<leftarrow> (if target = RS_Rejected then
                     record_block env rid Gate_rejected_reason (fst (describe_gate_reject stages)) []
                       (snd (describe_gate_reject stages)) v
                   else State_Monad.return ());
              set_verdict_status env rid v target
            }) (\<lambda>_. carried rid v s) u"
        proof (cases ok)
          case False
          then obtain b where "gs_store u = put_approval_block rid b (gs_store s)"
            and h: "held_for {Responsibility_incomplete, Responsibility_unobservable} rid u"
            using p(1) q(4) by auto
          moreover have "list_all no_status_set (cs @ ds)"
            using p(4) q(3) by (auto simp: list_all_iff intro: is_read_no_status)
          ultimately have "carried rid v s u"
            using p q by (intro carried_held [of _ _ "cs @ ds"] held_mono [OF h]) auto
          with False show ?thesis by simp
        next
          case ok: True
          then have c: "is_complete (get_responsibility rid (gs_aux u))" "gs_store u = gs_store s"
            using p q by simp_all
          moreover have "list_all no_status_set (cs @ ds)"
            using p(4) q(3) by (auto simp: list_all_iff intro: is_read_no_status)
          ultimately have "wp (set_verdict_status env rid v target) (\<lambda>_. carried rid v s) u"
            using p q True
            by (intro wp_mono [OF set_verdict_status_spec [OF Some]] carried_after [of u s "cs @ ds"])
              auto
          with ok True show ?thesis by simp
        qed
      qed
    qed
  next
    case False
    then have tr: "target = RS_Rejected" using t by simp
    show ?thesis
      unfolding carry_verdict_def v [symmetric] Let_def Some option.case wp_bind
    proof (rule pending)
      fix t :: "'w gov_state" and cs
      assume p: "gs_store t = gs_store s" "gs_aux t = gs_aux s" "gs_calls t = gs_calls s @ cs"
        "list_all no_status_set cs"
      define u where "u = snd (run_state (record_block env rid Gate_rejected_reason
        (fst (describe_gate_reject stages)) [] (snd (describe_gate_reject stages)) v) t)"
      have u: "gs_aux u = gs_aux s" "gs_calls u = gs_calls s @ cs"
        "\<exists>b. gs_store u = put_approval_block rid b (gs_store s)" "held_for {Gate_rejected_reason} rid u"
        by (auto simp: u_def record_block_def p on_store_def)
      have "wp (set_verdict_status env rid v target) (\<lambda>_. carried rid v s) u"
        using tr u p
        by (intro wp_mono [OF set_verdict_status_spec [OF Some]] carried_after [of u s cs]) auto
      moreover have "wp (record_block env rid Gate_rejected_reason
          (fst (describe_gate_reject stages)) [] (snd (describe_gate_reject stages)) v) (\<lambda>_ t. t = u) t"
        by (simp add: wp_run u_def)
      ultimately have "wp (record_block env rid Gate_rejected_reason
          (fst (describe_gate_reject stages)) [] (snd (describe_gate_reject stages)) v)
          (\<lambda>_. wp (set_verdict_status env rid v target) (\<lambda>_. carried rid v s)) t"
        by (auto elim: wp_mono)
      then show "wp (if target = RS_Approved then contacts_allow env rid v
            else State_Monad.return True)
          (\<lambda>ok. wp (if \<not> ok then State_Monad.return () else do {
              _ \<leftarrow> (if target = RS_Rejected then
                     record_block env rid Gate_rejected_reason (fst (describe_gate_reject stages)) []
                       (snd (describe_gate_reject stages)) v
                   else State_Monad.return ());
              set_verdict_status env rid v target
            }) (\<lambda>_. carried rid v s)) t"
        by (simp add: tr)
    qed
  qed
qed

section \<open>Applying the verdict\<close>

definition new_calls :: "'w gov_state \<Rightarrow> 'w gov_state \<Rightarrow> gov_call list" where
  "new_calls s t = drop (length (gs_calls s)) (gs_calls t)"

lemma new_calls_append [simp]: "gs_calls t = gs_calls s @ cs \<Longrightarrow> new_calls s t = cs"
  by (simp add: new_calls_def)

lemma carried_after_reads:
  assumes "gs_aux u = gs_aux s" "gs_calls u = gs_calls s @ cs" "list_all is_read cs"
    and "gs_store u = gs_store s" "carried rid v u t"
  shows "carried rid v s t"
proof -
  from assms(5) obtain ds where d: "gs_calls t = gs_calls u @ ds"
    "list_all (allowed_call rid v (gs_aux u)) ds"
    "accepted rid RS_Approved ds \<longrightarrow> block_of rid t = None"
    "\<not> accepted rid RS_Approved ds \<longrightarrow>
       held_for (if accepted rid RS_Rejected ds then {Gate_rejected_reason}
         else {Gate_pending, Responsibility_incomplete, Responsibility_unobservable,
               Status_transition_failed}) rid t"
    by (auto simp: carried_def)
  have acc: "accepted rid st (cs @ ds) \<longleftrightarrow> accepted rid st ds" for st
    using accepted_none(2) [OF assms(3)] by simp
  have "gs_calls t = gs_calls s @ (cs @ ds)" using d(1) assms(2) by simp
  moreover have "list_all (allowed_call rid v (gs_aux s)) (cs @ ds)"
    using d(2) assms(1) list_all_allowed(2) [OF assms(3)] by simp
  moreover have "gs_aux t = gs_aux s" "only_block rid (gs_store s) (gs_store t)"
    using assms(1,4,5) by (simp_all add: carried_def)
  ultimately show ?thesis
    unfolding carried_def using d(3,4) by (intro conjI exI [of _ "cs @ ds"]) (simp_all only: acc)
qed

text \<open>What the gate would say of an asset whose record the Registry keeps showing.\<close>

definition verdict_on ::
  "'w gov_env \<Rightarrow> registry_record \<Rightarrow> applicability \<Rightarrow> gov_store \<Rightarrow> scan_record \<Rightarrow> gate_verdict" where
  "verdict_on env r ap store scan =
     gp_verdict (gate_summary (compute_gates (ge_repr env)
       (get_tier (tier_of_key (record_asset_key r) store) store) list_catalog_tools (Some scan)
       (record_asset_key r) (record_has_source r) ap))"

text \<open>The Registry shows the same record throughout, up to its status.\<close>

definition steady :: "'w gov_env \<Rightarrow> string \<Rightarrow> registry_record \<Rightarrow> bool" where
  "steady env rid r \<longleftrightarrow> (\<forall>w. \<exists>st. fst (cp_get env rid w) = Inr (r\<lparr>rr_status := st\<rparr>))"

definition fits_declaration :: "'w gov_env \<Rightarrow> registry_record \<Rightarrow> applicability \<Rightarrow> bool" where
  "fits_declaration env r ap \<longleftrightarrow>
     (case declared_applicability (ge_repr env) r of Declared a \<Rightarrow> ap = a | Look_up _ _ \<Rightarrow> True)"

lemma status_irrelevant [simp]:
  "record_asset_key (r\<lparr>rr_status := st\<rparr>) = record_asset_key r"
  "record_has_source (r\<lparr>rr_status := st\<rparr>) = record_has_source r"
  "declared_applicability repr (r\<lparr>rr_status := st\<rparr>) = declared_applicability repr r"
  by (simp_all add: record_asset_key_def record_has_source_def source_prefix_def
      declared_applicability_def Let_def)

lemma merge_into_status [simp]:
  "merge_into aux (r\<lparr>rr_status := st\<rparr>) = (merge_into aux r)\<lparr>rr_status := st\<rparr>"
  by (simp add: merge_into_def Let_def split: option.split)

lemma steady_get:
  assumes "steady env rid r"
    and "\<And>t st c. gs_store t = gs_store s \<Longrightarrow> gs_aux t = gs_aux s \<Longrightarrow>
      gs_calls t = gs_calls s @ [c] \<Longrightarrow> is_read c \<Longrightarrow>
      Q (Inr ((merge_into (gs_aux s) r)\<lparr>rr_status := st\<rparr>)) t"
  shows "wp (get_record env rid) Q s"
proof -
  obtain st where "fst (cp_get env rid (gs_world s)) = Inr (r\<lparr>rr_status := st\<rparr>)"
    using assms(1) by (auto simp: steady_def)
  then show ?thesis
    unfolding get_record_def by (simp add: wp_simps) (rule assms(2), simp, simp, simp, simp)
qed

lemma scan_applicability_fits:
  "wp (scan_applicability env r) (\<lambda>ap _. fits_declaration env r ap) s"
proof (cases "declared_applicability (ge_repr env) r")
  case (Look_up a v)
  then show ?thesis by (simp add: scan_applicability_def fits_declaration_def wp_run)
qed (simp add: scan_applicability_def fits_declaration_def)

text \<open>The observations of one pass of the gate, on a steady Registry.\<close>

lemma gate_stages_steady:
  fixes env :: "'w gov_env" and s :: "'w gov_state"
  assumes st: "steady env rid r"
  defines "x \<equiv> merge_into (gs_aux s) r"
  shows "wp (gate_stages env rid tier scan) (\<lambda>stages t.
     (gs_store t = gs_store s \<and> gs_aux t = gs_aux s \<and>
      (\<exists>cs. gs_calls t = gs_calls s @ cs \<and> list_all is_read cs)) \<and>
     (\<exists>ap. fits_declaration env x ap \<and>
        stages = compute_gates (ge_repr env) (get_tier tier (gs_store s)) list_catalog_tools scan
          (record_asset_key x) (record_has_source x) ap)) s"
proof (rule wp_conjI)
  show "wp (gate_stages env rid tier scan) (\<lambda>_ t. gs_store t = gs_store s \<and> gs_aux t = gs_aux s \<and>
      (\<exists>cs. gs_calls t = gs_calls s @ cs \<and> list_all is_read cs)) s"
    using gate_stages_reads [of env rid tier scan, unfolded only_calls_def] by blast
  have key: "wp (asset_key env rid) (\<lambda>k u. k = record_asset_key x \<and> gs_store u = gs_store s \<and>
      gs_aux u = gs_aux s) t" if "gs_store t = gs_store s" "gs_aux t = gs_aux s" for t
    unfolding asset_key_def wp_bind
    by (rule steady_get [OF st]) (simp add: that x_def)
  have src: "wp (has_source env rid) (\<lambda>k u. k = record_has_source x \<and> gs_store u = gs_store s \<and>
      gs_aux u = gs_aux s) t" if "gs_store t = gs_store s" "gs_aux t = gs_aux s" for t
    unfolding has_source_def wp_bind
    by (rule steady_get [OF st]) (simp add: that x_def)
  have ap: "wp (scan_applicability_for_record env rid) (\<lambda>ap u. fits_declaration env x ap \<and>
      gs_store u = gs_store s \<and> gs_aux u = gs_aux s) s"
    unfolding scan_applicability_for_record_def wp_bind
  proof (rule steady_get [OF st])
    fix t :: "'w gov_state" and c st'
    assume t: "gs_store t = gs_store s" "gs_aux t = gs_aux s"
    let ?r = "(merge_into (gs_aux s) r)\<lparr>rr_status := st'\<rparr>"
    have "wp (scan_applicability env ?r) (\<lambda>ap u. fits_declaration env ?r ap \<and>
        gs_store u = gs_store s \<and> gs_aux u = gs_aux s) t"
      by (rule wp_conjI [OF scan_applicability_fits only_callsD [OF scan_applicability_reads]])
        (simp add: t)
    then show "wp (case Inr ?r of Inl _ \<Rightarrow> State_Monad.return Applicability_unknown
        | Inr x \<Rightarrow> scan_applicability env x)
      (\<lambda>ap u. fits_declaration env x ap \<and> gs_store u = gs_store s \<and> gs_aux u = gs_aux s) t"
      by (simp add: x_def fits_declaration_def)
  qed
  show "wp (gate_stages env rid tier scan) (\<lambda>stages t. \<exists>ap. fits_declaration env x ap \<and>
        stages = compute_gates (ge_repr env) (get_tier tier (gs_store s)) list_catalog_tools scan
          (record_asset_key x) (record_has_source x) ap) s"
    unfolding gate_stages_def wp_bind
    by (rule wp_mono [OF ap], elim conjE, rule wp_mono [OF key], assumption, assumption,
        elim conjE, rule wp_mono [OF src], assumption, assumption) auto
qed

lemma apply_verdict_spec:
  fixes env :: "'w gov_env"
  assumes "latest_scan rid (gs_store s) = Some scan" "sc_status scan = ''done''"
  shows "wp (apply_verdict_to_registry env rid) (\<lambda>_ t. \<exists>v. carried rid v s t) s"
proof -
  have "only_calls is_read (do {
      tier \<leftarrow> tier_for_record env rid;
      gate_stages env rid tier (Some scan)
    })"
    by (intro observing)
  then have "wp (do {
      tier \<leftarrow> tier_for_record env rid;
      gate_stages env rid tier (Some scan)
    }) (\<lambda>stages. wp (carry_verdict env rid stages) (\<lambda>_ t. \<exists>v. carried rid v s t)) s"
  proof (rule only_callsD)
    fix stages and t :: "'w gov_state" and cs
    assume "gs_store t = gs_store s" "gs_aux t = gs_aux s" "gs_calls t = gs_calls s @ cs"
      "list_all is_read cs"
    then show "wp (carry_verdict env rid stages) (\<lambda>_ t. \<exists>v. carried rid v s t) t"
      using wp_mono [OF carry_verdict_spec [OF refl]] carried_after_reads
      by (metis (mono_tags, lifting))
  qed
  then show ?thesis
    using assms by (simp add: apply_verdict_to_registry_def)
qed

text \<open>On a steady Registry the carried verdict is the gate's.\<close>

lemma apply_verdict_steady:
  fixes env :: "'w gov_env" and s :: "'w gov_state"
  assumes st: "steady env rid r"
    and scan: "latest_scan rid (gs_store s) = Some scan" "sc_status scan = ''done''"
  defines "x \<equiv> merge_into (gs_aux s) r"
  shows "wp (apply_verdict_to_registry env rid) (\<lambda>_ t. \<exists>ap. fits_declaration env x ap \<and>
     carried rid (verdict_on env x ap (gs_store s) scan) s t) s"
proof -
  let ?tier = "tier_of_key (record_asset_key x) (gs_store s)"
  have tier: "wp (tier_for_record env rid) (\<lambda>tier u. tier = ?tier \<and>
      gs_store u = gs_store s \<and> gs_aux u = gs_aux s \<and>
      (\<exists>cs. gs_calls u = gs_calls s @ cs \<and> list_all is_read cs)) s"
    unfolding tier_for_record_def asset_key_def wp_bind
    by (rule steady_get [OF st]) (simp add: x_def)
  have "wp (carry_verdict env rid (compute_gates (ge_repr env) (get_tier ?tier (gs_store s))
        list_catalog_tools (Some scan) (record_asset_key x) (record_has_source x) ap))
      (\<lambda>_ t. \<exists>ap. fits_declaration env x ap \<and>
         carried rid (verdict_on env x ap (gs_store s) scan) s t) u"
    if "fits_declaration env x ap" "gs_store u = gs_store s" "gs_aux u = gs_aux s"
      "gs_calls u = gs_calls s @ cs" "list_all is_read cs" for u :: "'w gov_state" and cs ap
  proof (rule wp_mono [OF carry_verdict_spec [OF refl]])
    fix a and t :: "'w gov_state"
    assume "carried rid (gp_verdict (gate_summary (compute_gates (ge_repr env)
        (get_tier ?tier (gs_store s)) list_catalog_tools (Some scan) (record_asset_key x)
        (record_has_source x) ap))) u t"
    then have "carried rid (verdict_on env x ap (gs_store s) scan) s t"
      using that unfolding verdict_on_def by (intro carried_after_reads [of u s cs])
    with that(1) show "\<exists>ap. fits_declaration env x ap \<and>
        carried rid (verdict_on env x ap (gs_store s) scan) s t" by blast
  qed
  note carry = this
  have "wp (gate_stages env rid ?tier (Some scan))
      (\<lambda>stages. wp (carry_verdict env rid stages) (\<lambda>_ t. \<exists>ap. fits_declaration env x ap \<and>
         carried rid (verdict_on env x ap (gs_store s) scan) s t)) u"
    if u: "gs_store u = gs_store s" "gs_aux u = gs_aux s" "gs_calls u = gs_calls s @ cs"
      "list_all is_read cs" for u :: "'w gov_state" and cs
  proof (rule wp_mono [OF gate_stages_steady [OF st]], elim conjE exE)
    fix stages and t :: "'w gov_state" and ds ap
    assume "gs_store t = gs_store u" "gs_aux t = gs_aux u" "gs_calls t = gs_calls u @ ds"
      "list_all is_read ds" "fits_declaration env (merge_into (gs_aux u) r) ap"
      "stages = compute_gates (ge_repr env) (get_tier ?tier (gs_store u)) list_catalog_tools
        (Some scan) (record_asset_key (merge_into (gs_aux u) r))
        (record_has_source (merge_into (gs_aux u) r)) ap"
    then show "wp (carry_verdict env rid stages) (\<lambda>_ t. \<exists>ap. fits_declaration env x ap \<and>
         carried rid (verdict_on env x ap (gs_store s) scan) s t) t"
      using u by (simp add: x_def [symmetric]) (rule carry [where cs = "cs @ ds"], simp_all)
  qed
  then show ?thesis
    unfolding apply_verdict_to_registry_def using scan
    by (simp add: scan) (rule wp_mono [OF tier], auto)
qed

section \<open>Properties\<close>

text \<open>C3: What an automatic verdict may do to the Registry. While the Registry keeps showing the same
  asset, applying the verdict sets the status of no other asset, and sets this one's only to
  what the gate says of a completed scan on the asset's own tier, type and sources; it approves
  only if the contacts of the asset are complete as well.\<close>

theorem status_follows_gate_and_contacts:
  assumes "steady env rid r" "x = merge_into (gs_aux s) r"
    and "run_state (apply_verdict_to_registry env rid) s = (u, t)"
    and "Status_set i st a \<in> set (new_calls s t)"
  shows "i = rid \<and>
    (\<exists>scan ap. latest_scan rid (gs_store s) = Some scan \<and> sc_status scan = ''done'' \<and>
       fits_declaration env x ap \<and>
       verdict_target (verdict_on env x ap (gs_store s) scan) = Some st) \<and>
    (st = RS_Approved \<longrightarrow> is_complete (get_responsibility rid (gs_aux s)))"
proof -
  obtain scan where scan: "latest_scan rid (gs_store s) = Some scan" "sc_status scan = ''done''"
  proof (rule ccontr)
    assume "\<not> thesis"
    then have "run_state (apply_verdict_to_registry env rid) s = ((), s)"
      using that by (auto simp: apply_verdict_to_registry_def split: option.split)
    then show False using assms(3,4) by (simp add: new_calls_def)
  qed
  from wp_result [OF apply_verdict_steady [OF assms(1) scan] assms(3)]
  obtain ap cs where "fits_declaration env x ap" "gs_calls t = gs_calls s @ cs"
    "list_all (allowed_call rid (verdict_on env x ap (gs_store s) scan) (gs_aux s)) cs"
    unfolding assms(2) carried_def by blast
  moreover from this assms(4)
  have "allowed_call rid (verdict_on env x ap (gs_store s) scan) (gs_aux s) (Status_set i st a)"
    by (auto simp: list_all_iff)
  ultimately show ?thesis using scan by (auto simp: assms(2))
qed

definition constant_env :: "registry_record \<Rightarrow> unit gov_env" where
  "constant_env r = \<lparr>ge_repr = (\<lambda>_. []), cp_get = (\<lambda>_ w. (Inr r, w)),
     cp_submit = (\<lambda>_ w. (Inr ''PENDING_APPROVAL'', w)), cp_set_status = (\<lambda>_ v _ w. (Inr v, w)),
     src_versions = (\<lambda>_ w. (Inl ''down'', w)), src_manifest = (\<lambda>_ _ w. (Inl ''down'', w)),
     src_read = (\<lambda>_ _ _ w. (Inl ''down'', w)),
     ge_scan = (\<lambda>_ w. (\<lparr>so_risk = ''none'', so_findings = [], so_scanned_areas = [],
       so_scanner_kind = ''static'', so_pending = False\<rparr>, w)),
     ge_describe = (\<lambda>_ w. (Inl ''down'', w)), ge_now = (\<lambda>_. ''now''), ge_stamp = (\<lambda>_. ''0''),
     ge_monotonic = (\<lambda>_. 0), ge_sleep = (\<lambda>_ w. w), ge_prose = (\<lambda>_. ([], []))\<rparr>"

definition sample_skill :: registry_record where
  "sample_skill = \<lparr>rr_record_id = ''r'', rr_registry_id = ''reg'', rr_name = ''s'',
     rr_descriptor_type = DT_Skill, rr_version = ''1'', rr_status = RS_Draft, rr_description = [],
     rr_descriptors = [], rr_owner_team = [], rr_owner_user = [], rr_owner_contact = [],
     rr_tags = [], rr_category = [], rr_search_visible = True, rr_changelog = [],
     rr_escalation_contact = [], rr_updated_at = []\<rparr>"

definition sample_contacts :: aux_store where
  "sample_contacts = set_meta ''r'' (no_fields\<lparr>ax_owner_contact := Some ''a@c.io'',
     ax_escalation_contact := Some ''b@c.io''\<rparr>) sample_aux"

definition sample_gov :: "unit gov_state" where
  "sample_gov = \<lparr>gs_store = add_scan ''r'' sample_scan (seed_tiers empty_gov_store),
     gs_aux = sample_contacts, gs_origins = [], gs_world = (), gs_calls = []\<rparr>"

lemma steady_constant: "steady (constant_env r) rid r"
  by (cases r) (auto simp: steady_def constant_env_def)

theorem status_follows_gate_and_contacts_witness:
  "is_complete (get_responsibility ''r'' (gs_aux sample_gov)) \<and>
   accepted ''r'' RS_Approved (new_calls sample_gov
     (snd (run_state (apply_verdict_to_registry (constant_env sample_skill) ''r'') sample_gov)))"
proof -
  have c: "Status_set ''r'' RS_Approved (Inr RS_Approved) \<in> set (new_calls sample_gov
     (snd (run_state (apply_verdict_to_registry (constant_env sample_skill) ''r'') sample_gov)))"
  proof -
    have "list_ex (\<lambda>c. c = Status_set ''r'' RS_Approved (Inr RS_Approved)) (new_calls sample_gov
       (snd (run_state (apply_verdict_to_registry (constant_env sample_skill) ''r'') sample_gov)))"
      by code_simp
    then show ?thesis by (auto simp: list_ex_iff)
  qed
  with status_follows_gate_and_contacts [OF steady_constant refl surjective_pairing c]
  show ?thesis by (auto simp: accepted_def)
qed

text \<open>C9: No approval is held in silence. Whatever the Registry, the source store and the contacts
  answer, applying the verdict of a completed scan ends in one of two ways: the Registry
  accepted the approval, and no reason for a hold remains; or a reason is on record, which is
  the rejection by the gate exactly if the Registry accepted the rejection, and otherwise an
  undecided gate, missing or unreadable contacts, or a refused transition.\<close>

theorem no_silent_hold:
  assumes "latest_scan rid (gs_store s) = Some scan" "sc_status scan = ''done''"
    and "run_state (apply_verdict_to_registry env rid) s = (u, t)"
  shows "if accepted rid RS_Approved (new_calls s t) then block_of rid t = None
    else held_for (if accepted rid RS_Rejected (new_calls s t) then {Gate_rejected_reason}
      else {Gate_pending, Responsibility_incomplete, Responsibility_unobservable,
            Status_transition_failed}) rid t"
proof -
  obtain v cs where "gs_calls t = gs_calls s @ cs"
    "accepted rid RS_Approved cs \<longrightarrow> block_of rid t = None"
    "\<not> accepted rid RS_Approved cs \<longrightarrow>
       held_for (if accepted rid RS_Rejected cs then {Gate_rejected_reason}
         else {Gate_pending, Responsibility_incomplete, Responsibility_unobservable,
               Status_transition_failed}) rid t"
    using wp_result [OF apply_verdict_spec [OF assms(1,2)] assms(3)] unfolding carried_def by blast
  then show ?thesis by simp
qed

definition sample_uncontacted :: "unit gov_state" where
  "sample_uncontacted = sample_gov\<lparr>gs_aux := sample_aux\<rparr>"

theorem no_silent_hold_witness:
  "block_of ''r'' (snd (run_state
     (apply_verdict_to_registry (constant_env sample_skill) ''r'') sample_uncontacted)) \<noteq> None"
proof -
  have scan: "latest_scan ''r'' (gs_store sample_uncontacted) = Some sample_scan"
    by (simp add: sample_uncontacted_def sample_gov_def)
  have none: "\<not> accepted ''r'' RS_Approved (new_calls sample_uncontacted (snd (run_state
      (apply_verdict_to_registry (constant_env sample_skill) ''r'') sample_uncontacted)))"
  proof -
    have "list_all (\<lambda>c. case c of Status_set i st (Inr x) \<Rightarrow> st \<noteq> RS_Approved | _ \<Rightarrow> True)
      (new_calls sample_uncontacted (snd (run_state
        (apply_verdict_to_registry (constant_env sample_skill) ''r'') sample_uncontacted)))"
      by code_simp
    then show ?thesis by (fastforce simp: accepted_def list_all_iff)
  qed
  show ?thesis
    using no_silent_hold [OF scan _ surjective_pairing, of "constant_env sample_skill"] none
    by (auto simp: sample_scan_def held_for_def split: if_splits)
qed

text \<open>An approval hides no earlier version. The service means to hide the other versions of an
  asset whose new version it approved, but the Registry adapter never finds any: applying a
  verdict leaves the visibility of every asset as it was.\<close>

theorem approval_hides_no_version:
  "gs_aux (snd (run_state (apply_verdict_to_registry env rid) s)) = gs_aux s"
proof (cases "\<exists>scan. latest_scan rid (gs_store s) = Some scan \<and> sc_status scan = ''done''")
  case True
  then obtain scan where scan: "latest_scan rid (gs_store s) = Some scan" "sc_status scan = ''done''"
    by blast
  show ?thesis
    using wp_result [OF apply_verdict_spec [OF scan] surjective_pairing]
    by (auto simp: carried_def)
next
  case False
  then show ?thesis
    by (auto simp: apply_verdict_to_registry_def split: option.split)
qed

end
