(* ===== verification/Scan_Runs.thy ===== *)
theory Scan_Runs
  imports Scan_Service
begin

text \<open>
  Running scans (\<open>ScanService\<close> of \<open>governance/scan_service.py\<close>) and following their execution
  (\<open>sync_execution\<close> of \<open>governance/stepfn_runner.py\<close>, \<open>sync_running_stepfn\<close>): loading the sources
  of an asset, a full scan, the rescan of one tool, and what becomes of a running scan when its
  execution ends. The texts of findings (\<open>detail\<close>) are left empty. The threads that
  \<open>run_async\<close> and \<open>rescan_tool\<close> start are actions of their own.
\<close>

section \<open>Sources\<close>

datatype source_status = Src_loaded | Src_none | Src_error

fun read_files ::
  "'w gov_env \<Rightarrow> string \<Rightarrow> string \<Rightarrow> string list \<Rightarrow> ('w, (string \<times> string) list) act" where
  "read_files env asset_id version [] = State_Monad.return []"
| "read_files env asset_id version (p # ps) = do {
     body \<leftarrow> call_world (src_read env asset_id version p);
     rest \<leftarrow> read_files env asset_id version ps;
     State_Monad.return (case body of Inl _ \<Rightarrow> rest | Inr b \<Rightarrow> (p, b) # rest)
   }"

definition load_source ::
  "'w gov_env \<Rightarrow> string \<Rightarrow> ('w, string option \<times> (string \<times> string) list \<times> source_status) act" where
  "load_source env rid = do {
     type \<leftarrow> asset_key env rid;
     r \<leftarrow> get_record env rid;
     case r of
       Inl _ \<Rightarrow> State_Monad.return (type, [], Src_none)
     | Inr x \<Rightarrow>
         let parts = path_parts (source_prefix x); inline = inline_source_files (rr_descriptors x) in
         if length parts < 4 then
           State_Monad.return
             (if inline \<noteq> [] then (type, inline, Src_loaded) else (type, [], Src_none))
         else do {
           manifest \<leftarrow> call_world (src_manifest env (parts ! 1 @ ''/'' @ parts ! 2) (parts ! 3));
           case manifest of
             Inl _ \<Rightarrow> State_Monad.return (type, [], Src_error)
           | Inr paths \<Rightarrow> do {
               files \<leftarrow> read_files env (parts ! 1 @ ''/'' @ parts ! 2) (parts ! 3) paths;
               State_Monad.return
                 (if files = [] then (type, [], Src_error) else (type, files, Src_loaded))
             }
         }
   }"

definition record_version :: "'w gov_env \<Rightarrow> string \<Rightarrow> ('w, string) act" where
  "record_version env rid = do {
     r \<leftarrow> get_record env rid;
     State_Monad.return (case r of Inl _ \<Rightarrow> [] | Inr x \<Rightarrow> rr_version x)
   }"

definition judge_document ::
  "'w gov_env \<Rightarrow> string \<Rightarrow> string option \<Rightarrow> ('w, (descriptors \<times> string \<times> string option) option) act"
  where
  "judge_document env rid type = do {
     r \<leftarrow> get_record env rid;
     State_Monad.return (case r of
       Inl _ \<Rightarrow> None
     | Inr x \<Rightarrow> Some (rr_descriptors x, if rr_name x = [] then rid else rr_name x, type))
   }"

text \<open>The name of an execution: every run of other characters is one dash.\<close>

definition is_alnum :: "char \<Rightarrow> bool" where
  "is_alnum c = (let n = (of_char c :: nat) in
     (48 \<le> n \<and> n \<le> 57) \<or> (65 \<le> n \<and> n \<le> 90) \<or> (97 \<le> n \<and> n \<le> 122))"

fun dash_runs :: "bool \<Rightarrow> string \<Rightarrow> string" where
  "dash_runs in_run [] = []"
| "dash_runs in_run (c # cs) =
     (if is_alnum c then c # dash_runs False cs
      else if in_run then dash_runs True cs else CHR ''-'' # dash_runs True cs)"

definition strip_dashes :: "string \<Rightarrow> string" where
  "strip_dashes s =
     rev (dropWhile (\<lambda>c. c = CHR ''-'') (rev (dropWhile (\<lambda>c. c = CHR ''-'') s)))"

definition scan_id_for :: "string \<Rightarrow> string \<Rightarrow> string" where
  "scan_id_for rid stamp =
     (let s = take 80 (strip_dashes (dash_runs False (rid @ ''-'' @ stamp)))
      in if s = [] then ''scan-'' @ stamp else s)"

section \<open>A full scan\<close>

datatype scan_error =
    Scan_not_applicable | No_completed_scan | Base_scan_failed | Tool_not_in_gate
  | Tool_not_applicable | Tool_has_no_cell

definition error_finding :: "string \<Rightarrow> string option \<Rightarrow> finding" where
  "error_finding code area =
     [(''code'', JStr code), (''severity'', JStr ''high'')] @
     (case area of None \<Rightarrow> [] | Some a \<Rightarrow> [(''area'', JStr a)]) @
     [(''detail'', JStr []), (''location'', JStr [])]"

definition new_scan :: "string \<Rightarrow> string \<Rightarrow> string \<Rightarrow> scan_record" where
  "new_scan ts trigger who = \<lparr>sc_ts = ts, sc_risk = ''none'', sc_findings = [],
     sc_trigger = trigger, sc_principal = who, sc_status = ''done'', sc_scanned_areas = [],
     sc_scanner_kind = [], sc_scan_id = [], sc_version = [], sc_rescan_area = []\<rparr>"

text \<open>The records of a scan whose sources could not be read, and of one that ended at once.\<close>

definition missing_source :: "string \<Rightarrow> string \<Rightarrow> string \<Rightarrow> string \<Rightarrow> scan_record" where
  "missing_source ts trigger who version = (new_scan ts trigger who)\<lparr>sc_risk := ''high'',
     sc_findings := [error_finding ''SOURCE_MISSING'' None], sc_version := version\<rparr>"

definition finished_scan ::
  "string \<Rightarrow> string \<Rightarrow> string \<Rightarrow> string \<Rightarrow> scan_outcome \<Rightarrow> scan_record" where
  "finished_scan ts trigger who version outcome =
     (new_scan ts trigger who)\<lparr>sc_risk := so_risk outcome, sc_findings := so_findings outcome,
       sc_scanned_areas := so_scanned_areas outcome, sc_scanner_kind := so_scanner_kind outcome,
       sc_version := version\<rparr>"

definition now_of :: "'w gov_env \<Rightarrow> ('w, string) act" where
  "now_of env = do { w \<leftarrow> gets gs_world; State_Monad.return (ge_now env w) }"

definition judge_model_of :: "string \<Rightarrow> gov_store \<Rightarrow> string" where
  "judge_model_of tier s =
     (case dget (cs_judge_model_map (get_settings s)) tier of
        None \<Rightarrow> ''haiku-4-5''
      | Some m \<Rightarrow> m)"

definition start_review :: "'w gov_env \<Rightarrow> string \<Rightarrow> ('w, unit) act" where
  "start_review env rid = do {
     _ \<leftarrow> update_status env rid RS_Pending_approval [];
     State_Monad.return ()
   }"

definition store_and_apply :: "'w gov_env \<Rightarrow> string \<Rightarrow> scan_record \<Rightarrow> ('w, scan_error + scan_record) act" where
  "store_and_apply env rid scan = do {
     on_store (add_scan rid scan);
     apply_verdict_to_registry env rid;
     State_Monad.return (Inr scan)
   }"

definition call_scanner ::
  "'w gov_env \<Rightarrow> string \<Rightarrow> string option \<Rightarrow> (string \<times> string) list \<Rightarrow> bool \<Rightarrow> string
     \<Rightarrow> ('w, string \<times> scan_outcome) act" where
  "call_scanner env rid type files loaded stamp = do {
     tier \<leftarrow> tier_for_record env rid;
     store \<leftarrow> gets gs_store;
     document \<leftarrow> (if loaded then State_Monad.return None else judge_document env rid type);
     outcome \<leftarrow> call_world (ge_scan env
       \<lparr>sq_scan_id = scan_id_for rid stamp, sq_record_id = rid, sq_asset_type = type,
        sq_has_source = loaded,
        sq_cells = map (\<lambda>c. (tc_tier c, tc_tool_id c, tc_enforcement c)) (get_tier tier store),
        sq_judge_model = judge_model_of tier store, sq_document = document, sq_files = files\<rparr>);
     trace (Scanned rid (so_pending outcome));
     State_Monad.return (scan_id_for rid stamp, outcome)
   }"

text \<open>What is made of the scanner's answer.\<close>

definition finish_scan ::
  "'w gov_env \<Rightarrow> string \<Rightarrow> string \<Rightarrow> string \<Rightarrow> string \<Rightarrow> string \<times> scan_outcome
     \<Rightarrow> ('w, scan_error + scan_record) act" where
  "finish_scan env rid trigger who version answer = do {
     ts \<leftarrow> now_of env;
     if so_pending (snd answer) then do {
       let rec = (new_scan ts trigger who)\<lparr>sc_status := ''running'', sc_scan_id := fst answer,
         sc_version := version\<rparr>;
       on_store (add_scan rid rec);
       State_Monad.return (Inr rec)
     } else store_and_apply env rid (finished_scan ts trigger who version (snd answer))
   }"

text \<open>Sources that cannot be read are recorded as missing; the scanner does not run.\<close>

definition scan_sources ::
  "'w gov_env \<Rightarrow> string \<Rightarrow> string \<Rightarrow> string \<Rightarrow> string
     \<Rightarrow> string option \<times> (string \<times> string) list \<times> source_status
     \<Rightarrow> ('w, scan_error + scan_record) act" where
  "scan_sources env rid trigger who version src =
     (case src of (type, files, status) \<Rightarrow>
        if status = Src_error then do {
          ts \<leftarrow> now_of env;
          store_and_apply env rid (missing_source ts trigger who version)
        } else do {
          w \<leftarrow> gets gs_world;
          answer \<leftarrow> call_scanner env rid type files (status = Src_loaded) (ge_stamp env w);
          finish_scan env rid trigger who version answer
        })"

definition run_scan ::
  "'w gov_env \<Rightarrow> string \<Rightarrow> string \<Rightarrow> string \<Rightarrow> ('w, scan_error + scan_record) act" where
  "run_scan env rid trigger who = do {
     applicability \<leftarrow> scan_applicability_for_record env rid;
     if applicability = Not_applicable then State_Monad.return (Inl Scan_not_applicable)
     else do {
       start_review env rid;
       version \<leftarrow> record_version env rid;
       src \<leftarrow> load_source env rid;
       scan_sources env rid trigger who version src
     }
   }"

text \<open>\<open>run_async\<close>: what is done at once, and the work that a thread does later.\<close>

definition start_async ::
  "'w gov_env \<Rightarrow> string \<Rightarrow> string \<Rightarrow> string \<Rightarrow> ('w, scan_error + scan_record \<times> bool) act" where
  "start_async env rid trigger who = do {
     applicability \<leftarrow> scan_applicability_for_record env rid;
     if applicability = Not_applicable then State_Monad.return (Inl Scan_not_applicable)
     else do {
       store \<leftarrow> gets gs_store;
       ts \<leftarrow> now_of env;
       let running = (new_scan ts trigger who)\<lparr>sc_status := ''running''\<rparr>;
       case latest_scan rid store of
         Some existing \<Rightarrow>
           if sc_status existing = ''running'' then State_Monad.return (Inr (existing, False))
           else do {
             on_store (add_scan rid running);
             start_review env rid;
             State_Monad.return (Inr (running, True))
           }
       | None \<Rightarrow> do {
           on_store (add_scan rid running);
           start_review env rid;
           State_Monad.return (Inr (running, True))
         }
     }
   }"

definition async_work :: "'w gov_env \<Rightarrow> string \<Rightarrow> string \<Rightarrow> string \<Rightarrow> ('w, unit) act" where
  "async_work env rid trigger who = do {
     r \<leftarrow> run_scan env rid trigger who;
     case r of
       Inr _ \<Rightarrow> State_Monad.return ()
     | Inl _ \<Rightarrow> do {
         ts \<leftarrow> now_of env;
         on_store (add_scan rid ((new_scan ts trigger who)\<lparr>sc_risk := ''high'',
           sc_findings := [error_finding ''SCANNER_ERROR'' None]\<rparr>))
       }
   }"

section \<open>The rescan of one tool\<close>

definition failed_base :: "(json \<Rightarrow> string) \<Rightarrow> scan_record \<Rightarrow> bool" where
  "failed_base repr base \<longleftrightarrow>
     list_ex (\<lambda>f. finding_code repr f \<in> {''SOURCE_MISSING'', ''SCANNER_ERROR''}) (sc_findings base)"

text \<open>The checks before a rescan, which find the tool's area and its cell.\<close>

definition rescan_checks ::
  "'w gov_env \<Rightarrow> string \<Rightarrow> string \<Rightarrow> ('w, scan_error + scan_record \<times> string \<times> tier_cell \<times> string) act"
  where
  "rescan_checks env rid tool_id = do {
     store \<leftarrow> gets gs_store;
     case latest_scan rid store of
       None \<Rightarrow> State_Monad.return (Inl No_completed_scan)
     | Some base \<Rightarrow>
         if sc_status base \<noteq> ''done'' then State_Monad.return (Inl No_completed_scan)
         else if failed_base (ge_repr env) base then State_Monad.return (Inl Base_scan_failed)
         else do {
           tier \<leftarrow> tier_for_record env rid;
           key \<leftarrow> asset_key env rid;
           source \<leftarrow> has_source env rid;
           applicability \<leftarrow> scan_applicability_for_record env rid;
           let cells = get_tier tier store;
           let stages = compute_gates (ge_repr env) cells list_catalog_tools (Some base) key source
             applicability;
           State_Monad.return
             (case find (\<lambda>s. gs_tool_id s = tool_id) stages of
                None \<Rightarrow> Inl Tool_not_in_gate
              | Some stage \<Rightarrow>
                  if gs_state stage = Stage_not_applicable then Inl Tool_not_applicable
                  else let area = (case find (\<lambda>t. gv_tool_id t = tool_id) list_catalog_tools of
                                     None \<Rightarrow> gs_area stage | Some t \<Rightarrow> gv_area t)
                       in case find (\<lambda>c. tc_tool_id c = tool_id) cells of
                            None \<Rightarrow> Inl Tool_has_no_cell
                          | Some cell \<Rightarrow> Inr (base, area, cell, tier))
         }
   }"

definition rescan_running ::
  "scan_record \<Rightarrow> string \<Rightarrow> string \<Rightarrow> string \<Rightarrow> string \<Rightarrow> string \<Rightarrow> string \<Rightarrow> scan_record" where
  "rescan_running base area ts trigger who scan_id version =
     base\<lparr>sc_ts := ts, sc_trigger := trigger, sc_principal := who, sc_status := ''running'',
       sc_scan_id := scan_id, sc_version := version, sc_rescan_area := area\<rparr>"

definition start_rescan ::
  "'w gov_env \<Rightarrow> string \<Rightarrow> string \<Rightarrow> string \<Rightarrow> string
     \<Rightarrow> ('w, scan_error + scan_record \<times> scan_record \<times> scan_request) act" where
  "start_rescan env rid tool_id trigger who = do {
     checked \<leftarrow> rescan_checks env rid tool_id;
     case checked of
       Inl e \<Rightarrow> State_Monad.return (Inl e)
     | Inr (base, area, cell, tier) \<Rightarrow> do {
         w \<leftarrow> gets gs_world;
         version \<leftarrow> record_version env rid;
         ts \<leftarrow> now_of env;
         let running = rescan_running base area ts trigger who
           (scan_id_for rid (ge_stamp env w)) version;
         on_store (add_scan rid running);
         start_review env rid;
         (type, files, status) \<leftarrow> load_source env rid;
         store \<leftarrow> gets gs_store;
         document \<leftarrow> (if status = Src_loaded then State_Monad.return None
                      else judge_document env rid type);
         State_Monad.return (Inr (running, base,
           \<lparr>sq_scan_id = sc_scan_id running, sq_record_id = rid, sq_asset_type = type,
            sq_has_source = (status = Src_loaded),
            sq_cells = [(tc_tier cell, tc_tool_id cell, tc_enforcement cell)],
            sq_judge_model = judge_model_of tier store, sq_document = document,
            sq_files = files\<rparr>))
       }
   }"

definition merged_rescan ::
  "(json \<Rightarrow> string) \<Rightarrow> scan_record \<Rightarrow> scan_record \<Rightarrow> string \<Rightarrow> scan_outcome \<Rightarrow> scan_record" where
  "merged_rescan repr running base ts outcome =
     (let m = merge_partial_scan repr (sc_findings base) (sc_scanned_areas base)
                (sc_rescan_area running) (so_findings outcome) (so_scanned_areas outcome)
      in running\<lparr>sc_ts := ts, sc_risk := sm_risk m, sc_findings := sm_findings m,
           sc_status := ''done'', sc_scanned_areas := sm_scanned_areas m,
           sc_scanner_kind := (if so_scanner_kind outcome = [] then sc_scanner_kind base
                               else so_scanner_kind outcome),
           sc_rescan_area := []\<rparr>)"

definition rescan_work ::
  "'w gov_env \<Rightarrow> string \<Rightarrow> scan_record \<Rightarrow> scan_record \<Rightarrow> scan_request \<Rightarrow> ('w, unit) act" where
  "rescan_work env rid running base request = do {
     outcome \<leftarrow> call_world (ge_scan env request);
     trace (Scanned rid (so_pending outcome));
     if so_pending outcome then State_Monad.return ()
     else do {
       ts \<leftarrow> now_of env;
       on_store (add_scan rid (merged_rescan (ge_repr env) running base ts outcome));
       apply_verdict_to_registry env rid
     }
   }"

text \<open>What the Step Functions runner answers when it cannot start an execution.\<close>

definition start_failure :: scan_outcome where
  "start_failure = \<lparr>so_risk = ''high'', so_findings = [error_finding ''SCANNER_ERROR'' None],
     so_scanned_areas = [], so_scanner_kind = [], so_pending = False\<rparr>"

section \<open>The end of an execution\<close>

definition terminal_execution :: "string \<Rightarrow> bool" where
  "terminal_execution status \<longleftrightarrow> status \<in> {''SUCCEEDED'', ''FAILED'', ''TIMED_OUT'', ''ABORTED''}"

text \<open>The record of an execution that ended, beside the latest scan of the asset.\<close>

definition ended_scan ::
  "(json \<Rightarrow> string) \<Rightarrow> scan_record option \<Rightarrow> execution \<Rightarrow> string \<Rightarrow> string \<Rightarrow> scan_record" where
  "ended_scan repr latest ex scan_id now =
     (let area = (case latest of None \<Rightarrow> [] | Some s \<Rightarrow> sc_rescan_area s);
          base_findings = (case latest of None \<Rightarrow> [] | Some s \<Rightarrow> sc_findings s);
          base_areas = (case latest of None \<Rightarrow> [] | Some s \<Rightarrow> sc_scanned_areas s);
          blank = (new_scan now ''stepfn'' [])\<lparr>sc_scanner_kind := ''stepfn'', sc_scan_id := scan_id\<rparr>;
          of_merge = (\<lambda>m. blank\<lparr>sc_risk := sm_risk m, sc_findings := sm_findings m,
            sc_scanned_areas := sm_scanned_areas m\<rparr>)
      in if ex_status ex = ''SUCCEEDED'' then
           (if area \<noteq> [] then
              of_merge (merge_partial_scan repr base_findings base_areas area (ex_findings ex)
                (ex_scanned_areas ex))
            else blank\<lparr>sc_risk := ex_risk ex, sc_findings := ex_findings ex,
                   sc_scanned_areas := ex_scanned_areas ex\<rparr>)
         else if area \<noteq> [] then
           of_merge (merge_partial_scan repr base_findings base_areas area
             [error_finding ''SCANNER_ERROR'' (Some area)] [])
         else blank\<lparr>sc_risk := ''high'', sc_findings := [error_finding ''SCANNER_ERROR'' None]\<rparr>)"

definition sync_execution ::
  "'w gov_env \<Rightarrow> string \<Rightarrow> string \<Rightarrow> ('w, scan_record option) act" where
  "sync_execution env rid scan_id = do {
     r \<leftarrow> call_world (ge_describe env scan_id);
     case r of
       Inl _ \<Rightarrow> State_Monad.return None
     | Inr ex \<Rightarrow>
         if \<not> terminal_execution (ex_status ex) then State_Monad.return None
         else do {
           now \<leftarrow> now_of env;
           store \<leftarrow> gets gs_store;
           let rec = ended_scan (ge_repr env) (latest_scan rid store) ex scan_id now;
           on_store (add_scan rid rec);
           State_Monad.return (Some rec)
         }
   }"

definition sync_running_stepfn :: "'w gov_env \<Rightarrow> string \<Rightarrow> ('w, unit) act" where
  "sync_running_stepfn env rid = do {
     store \<leftarrow> gets gs_store;
     case latest_scan rid store of
       None \<Rightarrow> State_Monad.return ()
     | Some rec \<Rightarrow>
         if sc_status rec \<noteq> ''running'' then State_Monad.return ()
         else do {
           _ \<leftarrow> sync_execution env rid (if sc_scan_id rec = [] then rid else sc_scan_id rec);
           apply_verdict_to_registry env rid
         }
   }"

section \<open>A rescan and the other stages\<close>



definition failed_execution :: execution where
  "failed_execution = \<lparr>ex_status = ''FAILED'', ex_findings = [], ex_scanned_areas = [],
     ex_risk = ''high''\<rparr>"


section \<open>A rescan that fails\<close>

lemma error_finding_code [simp]:
  "finding_code repr (error_finding ''SCANNER_ERROR'' area) = ''SCANNER_ERROR''"
  by (simp add: error_finding_def finding_code_def jget_or_def jget_def)

lemma start_failure_scan_level [simp]:
  "scan_level_failure repr (error_finding ''SCANNER_ERROR'' None)"
  by (simp add: scan_level_failure_def finding_area_def area_of_finding_def CODE_PREFIX_TO_AREA_def
      error_finding_def finding_code_def jget_or_def jget_def)

lemma stage_of_failed_scan:
  assumes "sc_status s = ''done''" "scan_failed repr (Some s)"
    and "st \<in> set (compute_gates repr cells tools (Some s) t hs ap)"
  shows "gs_state st \<in> {Stage_not_run, Stage_not_applicable, Stage_unknown}"
proof -
  have scanned: "scanned_stage repr (Some s) area = (Stage_not_run, 0)" for area
   using assms(1,2) by (simp add: scanned_stage_def)
  have app: "applicability_state ap b = Some x \<Longrightarrow> x = Stage_not_applicable \<or> x = Stage_unknown" for b x
    by (auto simp: applicability_state_def split: applicability.splits if_splits)
  from assms(3) obtain cell where st: "st = cell_stage repr tools (Some s) hs ap cell"
    by (auto simp: compute_gates_def)
  define need where "need = (case tool_of tools (tc_tool_id cell) of None \<Rightarrow> False | Some t \<Rightarrow> gv_needs_source t)"
  show ?thesis unfolding st cell_stage_def Let_def need_def [symmetric] scanned
   by (cases "applicability_state ap need") (auto dest: app)
qed

lemma failed_base_merged:
  "failed_base repr (merged_rescan repr running base ts start_failure)"
  by (simp add: failed_base_def merged_rescan_def merge_partial_scan_def start_failure_def Let_def)

lemma failed_base_ended:
  "ex_status ex \<noteq> ''SUCCEEDED'' \<Longrightarrow> failed_base repr (ended_scan repr latest ex i now)"
  by (simp add: failed_base_def ended_scan_def merge_partial_scan_def Let_def)

text \<open>A rescan of one tool that fails costs more than the tool. When the execution of a partial
  rescan ended in failure, or could not be started, every further rescan of a single tool is
  refused, whichever tool it is for, although the failure is recorded for one area only. When it
  could not be started, no stage of any area passes or fails any more: the results of the tools
  that were not run again are gone.\<close>

theorem failed_rescan_needs_full_scan:
  assumes "latest_scan rid (gs_store s) = Some failed" "sc_status failed = ''done''"
    and "failed \<in> {merged_rescan (ge_repr env) running base ts start_failure,
      ended_scan (ge_repr env) (Some running) ex i now}"
    and "ex_status ex \<noteq> ''SUCCEEDED''"
  shows "fst (run_state (rescan_checks env rid tool) s) = Inl Base_scan_failed \<and>
    filter (\<lambda>st. gs_state st \<notin> {Stage_not_run, Stage_not_applicable, Stage_unknown})
      (compute_gates repr cells tools
        (Some (merged_rescan repr running base ts start_failure)) t hs ap) = []"
proof
  have "failed_base (ge_repr env) failed"
    using assms(3) by (auto simp: failed_base_merged failed_base_ended [OF assms(4)])
  then have "wp (rescan_checks env rid tool) (\<lambda>r _. r = Inl Base_scan_failed) s"
    using assms(1,2) by (simp add: rescan_checks_def wp_simps)
  then show "fst (run_state (rescan_checks env rid tool) s) = Inl Base_scan_failed"
    by (simp add: wp_def split: prod.splits)
  let ?m = "merged_rescan repr running base ts start_failure"
  have "sc_status ?m = ''done''" "scan_failed repr (Some ?m)"
    by (simp_all add: merged_rescan_def scan_failed_def merge_partial_scan_def start_failure_def
        Let_def)
  from stage_of_failed_scan [OF this]
  show "filter (\<lambda>st. gs_state st \<notin> {Stage_not_run, Stage_not_applicable, Stage_unknown})
      (compute_gates repr cells tools (Some ?m) t hs ap) = []"
    unfolding filter_empty_conv by blast
qed

section \<open>What a run records\<close>

text \<open>\<open>carried\<close> leaves the scans of all assets alone.\<close>

lemma only_block_scans: "only_block rid s t \<Longrightarrow> latest_scan i t = latest_scan i s"
  by (auto simp: only_block_def)

lemma apply_verdict_scans:
  "wp (apply_verdict_to_registry env rid) (\<lambda>_ t. \<forall>i. latest_scan i (gs_store t) =
     latest_scan i (gs_store s)) s"
proof (cases "\<exists>scan. latest_scan rid (gs_store s) = Some scan \<and> sc_status scan = ''done''")
  case True
  then obtain scan where scan: "latest_scan rid (gs_store s) = Some scan" "sc_status scan = ''done''"
    by blast
  show ?thesis
    by (rule wp_mono [OF apply_verdict_spec [OF scan]])
      (auto simp: carried_def dest: only_block_scans)
next
  case False
  then show ?thesis
    by (auto simp: apply_verdict_to_registry_def wp_simps split: option.split)
qed

lemma start_review_no_status [observing]: "only_calls no_status_set (start_review env rid)"
  unfolding start_review_def update_status_def by (simp, intro observing)

lemma read_files_reads [observing]: "only_calls is_read (read_files env a v ps)"
  by (induction ps) (auto intro!: observing)

lemma only_calls_case_prod [observing]:
  "(\<And>a b. only_calls C (f a b)) \<Longrightarrow> only_calls C (case x of (a, b) \<Rightarrow> f a b)"
  by (simp split: prod.split)

lemma load_source_reads [observing]: "only_calls is_read (load_source env rid)"
  unfolding load_source_def Let_def by (intro observing)

lemma record_version_reads [observing]: "only_calls is_read (record_version env rid)"
  unfolding record_version_def by (intro observing)

lemma judge_document_reads [observing]: "only_calls is_read (judge_document env rid type)"
  unfolding judge_document_def by (intro observing)

lemma now_of_reads [observing]: "only_calls is_read (now_of env)"
  unfolding now_of_def by (intro observing)

lemma call_scanner_no_status [observing]:
  "only_calls no_status_set (call_scanner env rid type files loaded stamp)"
  unfolding call_scanner_def
  by (intro only_calls_bind only_calls_if only_calls_return only_calls_gets only_calls_world
      only_calls_trace only_calls_mono [OF tier_for_record_reads is_read_no_status]
      only_calls_mono [OF judge_document_reads is_read_no_status]) simp_all

text \<open>The scan is the asset's latest; if it is not done, no status was set.\<close>

definition recorded :: "string \<Rightarrow> 'w gov_state \<Rightarrow> scan_error + scan_record \<Rightarrow> 'w gov_state \<Rightarrow> bool" where
  "recorded rid s r t \<longleftrightarrow>
     (case r of
        Inl _ \<Rightarrow> gs_store t = gs_store s \<and> (\<exists>cs. gs_calls t = gs_calls s @ cs \<and> list_all no_status_set cs)
      | Inr scan \<Rightarrow> latest_scan rid (gs_store t) = Some scan \<and>
          (\<forall>i. i \<noteq> rid \<longrightarrow> latest_scan i (gs_store t) = latest_scan i (gs_store s)) \<and>
          (sc_status scan = ''done'' \<or> sc_status scan = ''running'' \<and>
             (\<exists>cs. gs_calls t = gs_calls s @ cs \<and> list_all no_status_set cs)))"

lemma store_and_apply_recorded:
  assumes "sc_status scan = ''done''" "gs_store u = gs_store s"
  shows "wp (store_and_apply env rid scan) (recorded rid s) u"
  unfolding store_and_apply_def
  by (simp add: wp_simps)
    (rule wp_mono [OF apply_verdict_scans], simp add: recorded_def assms scans.latest_add)

lemmas reads_no_status = only_calls_mono [OF _ is_read_no_status]

lemma finish_scan_recorded:
  assumes "gs_store u = gs_store s" "gs_calls u = gs_calls s @ cs" "list_all no_status_set cs"
  shows "wp (finish_scan env rid trigger who version answer) (recorded rid s) u"
  using assms store_and_apply_recorded [OF _ assms(1)]
  by (auto simp: finish_scan_def now_of_def wp_simps Let_def recorded_def scans.latest_add
      new_scan_def finished_scan_def)

lemma scan_sources_recorded:
  fixes env :: "'w gov_env"
  assumes "gs_store u = gs_store s" "gs_calls u = gs_calls s @ cs" "list_all no_status_set cs"
  shows "wp (scan_sources env rid trigger who version src) (recorded rid s) u"
proof -
  obtain type files status where src: "src = (type, files, status)" by (cases src)
  have "wp (call_scanner env rid type files loaded stamp)
      (\<lambda>answer. wp (finish_scan env rid trigger who version answer) (recorded rid s)) u"
    for loaded stamp
  proof (rule only_callsD [OF call_scanner_no_status])
    fix answer and v :: "'w gov_state" and ds
    assume "gs_store v = gs_store u" "gs_calls v = gs_calls u @ ds" "list_all no_status_set ds"
    with assms show "wp (finish_scan env rid trigger who version answer) (recorded rid s) v"
      by (intro finish_scan_recorded [of _ _ "cs @ ds"]) simp_all
  qed
  then show ?thesis
    using store_and_apply_recorded [OF _ assms(1)]
    by (auto simp: scan_sources_def src now_of_def wp_simps missing_source_def new_scan_def)
qed

lemma prepare_scan_no_status:
  "only_calls no_status_set (do {
     start_review env rid;
     version \<leftarrow> record_version env rid;
     src \<leftarrow> load_source env rid;
     State_Monad.return (version, src)
   })"
  by (intro observing reads_no_status [OF record_version_reads] reads_no_status [OF load_source_reads])

lemma run_scan_recorded:
  fixes env :: "'w gov_env"
  shows "wp (run_scan env rid trigger who) (recorded rid s) s"
  unfolding run_scan_def wp_bind
proof (rule only_callsD [OF scan_applicability_for_record_reads])
  fix ap and u :: "'w gov_state" and cs
  assume u: "gs_store u = gs_store s" "gs_calls u = gs_calls s @ cs" "list_all is_read cs"
  then have u3: "list_all no_status_set cs"
    by (auto simp: list_all_iff intro: is_read_no_status)
  have "wp (do {
       start_review env rid;
       version \<leftarrow> record_version env rid;
       src \<leftarrow> load_source env rid;
       State_Monad.return (version, src)
     }) (\<lambda>x. wp (scan_sources env rid trigger who (fst x) (snd x)) (recorded rid s)) u"
  proof (rule only_callsD [OF prepare_scan_no_status])
    fix x and v :: "'w gov_state" and ds
    assume "gs_store v = gs_store u" "gs_calls v = gs_calls u @ ds" "list_all no_status_set ds"
    with u u3 show "wp (scan_sources env rid trigger who (fst x) (snd x)) (recorded rid s) v"
      by (intro scan_sources_recorded [of _ _ "cs @ ds"]) simp_all
  qed
  then show "wp (if ap = Not_applicable then State_Monad.return (Inl Scan_not_applicable)
     else do {
       start_review env rid;
       version \<leftarrow> record_version env rid;
       src \<leftarrow> load_source env rid;
       scan_sources env rid trigger who version src
     }) (recorded rid s) u"
    using u(1,2) u3 by (auto simp: recorded_def)
qed

text \<open>A run leaves its result on record. A run that is refused, because sources do not apply to
  the asset, records nothing and sets no status. Otherwise the scan it returns is the asset's
  latest, no other asset's latest scan changes, and the scan is done, or it is running and no
  status has been set: a scan whose result is not known yet is never taken for a verdict.\<close>

theorem run_records_its_result:
  assumes "run_state (run_scan env rid trigger who) s = (r, t)"
  shows "case r of
      Inl _ \<Rightarrow> gs_store t = gs_store s \<and> list_all no_status_set (new_calls s t)
    | Inr scan \<Rightarrow> latest_scan rid (gs_store t) = Some scan \<and>
        (\<forall>i. i \<noteq> rid \<longrightarrow> latest_scan i (gs_store t) = latest_scan i (gs_store s)) \<and>
        (sc_status scan = ''done'' \<or>
         sc_status scan = ''running'' \<and> list_all no_status_set (new_calls s t))"
  using wp_result [OF run_scan_recorded assms] by (auto simp: recorded_def split: sum.splits)

definition sample_initializr :: registry_record where
  "sample_initializr = sample_skill\<lparr>rr_descriptor_type := DT_Agent, rr_descriptors :=
     [(''agent'', JObj [(''deploymentSource'', JStr ''initializr'')])]\<rparr>"

theorem run_records_its_result_witness:
  "gs_store (snd (run_state
     (run_scan (constant_env sample_initializr) ''r'' ''auto'' ''system'') sample_gov)) =
     gs_store sample_gov"
proof -
  have r: "fst (run_state (run_scan (constant_env sample_initializr) ''r'' ''auto'' ''system'')
      sample_gov) = Inl Scan_not_applicable"
  proof -
    have "case fst (run_state (run_scan (constant_env sample_initializr) ''r'' ''auto'' ''system'')
        sample_gov) of Inl Scan_not_applicable \<Rightarrow> True | _ \<Rightarrow> False"
      by code_simp
    then show ?thesis by (auto split: sum.splits scan_error.splits)
  qed
  show ?thesis
    using run_records_its_result [OF surjective_pairing, of "constant_env sample_initializr" "''r''"
        "''auto''" "''system''" sample_gov] by (simp add: r)
qed

section \<open>The end of an execution\<close>

lemma ended_scan_fields [simp]:
  "sc_status (ended_scan repr latest ex i now) = ''done''"
  "sc_version (ended_scan repr latest ex i now) = []"
  by (simp_all add: ended_scan_def new_scan_def Let_def)

lemma sync_ended:
  assumes "latest_scan rid (gs_store s) = Some scan" "sc_status scan = ''running''"
    and "fst (ge_describe env (if sc_scan_id scan = [] then rid else sc_scan_id scan) (gs_world s)) =
      Inr ex" "terminal_execution (ex_status ex)"
  shows "\<exists>w rec. sc_status rec = ''done'' \<and> sc_version rec = [] \<and>
    run_state (sync_running_stepfn env rid) s =
    run_state (apply_verdict_to_registry env rid)
      (s\<lparr>gs_world := w, gs_store := add_scan rid rec (gs_store s)\<rparr>)"
  using assms
  by (cases "ge_describe env (if sc_scan_id scan = [] then rid else sc_scan_id scan) (gs_world s)")
    (auto simp: sync_running_stepfn_def sync_execution_def call_world_def on_store_def now_of_def
      Let_def intro!: exI)

text \<open>A scan whose execution ended is not left running. One pass of the poller over such a scan
  leaves the asset with a completed scan, and either the Registry accepted the approval or the
  reason for the hold, or the rejection, is on record.\<close>

theorem ended_execution_settles:
  assumes "latest_scan rid (gs_store s) = Some scan" "sc_status scan = ''running''"
    and "fst (ge_describe env (if sc_scan_id scan = [] then rid else sc_scan_id scan) (gs_world s)) =
      Inr ex" "terminal_execution (ex_status ex)"
    and "run_state (sync_running_stepfn env rid) s = (u, t)"
  shows "(\<exists>rec. latest_scan rid (gs_store t) = Some rec \<and> sc_status rec = ''done'') \<and>
    (if accepted rid RS_Approved (new_calls s t) then block_of rid t = None
     else held_for (if accepted rid RS_Rejected (new_calls s t) then {Gate_rejected_reason}
       else {Gate_pending, Responsibility_incomplete, Responsibility_unobservable,
             Status_transition_failed}) rid t)"
proof -
  from sync_ended [OF assms(1-4)] obtain w rec where r: "sc_status rec = ''done''"
    "run_state (apply_verdict_to_registry env rid)
      (s\<lparr>gs_world := w, gs_store := add_scan rid rec (gs_store s)\<rparr>) = (u, t)"
    using assms(5) by metis
  let ?s = "s\<lparr>gs_world := w, gs_store := add_scan rid rec (gs_store s)\<rparr>"
  have latest: "latest_scan rid (gs_store ?s) = Some rec" by simp
  from wp_result [OF apply_verdict_scans r(2)] latest have "latest_scan rid (gs_store t) = Some rec"
    by simp
  moreover obtain v where "carried rid v ?s t"
    using wp_result [OF apply_verdict_spec [OF latest r(1)] r(2)] by blast
  then obtain cs where "gs_calls t = gs_calls s @ cs"
    "accepted rid RS_Approved cs \<longrightarrow> block_of rid t = None"
    "\<not> accepted rid RS_Approved cs \<longrightarrow>
       held_for (if accepted rid RS_Rejected cs then {Gate_rejected_reason}
         else {Gate_pending, Responsibility_incomplete, Responsibility_unobservable,
               Status_transition_failed}) rid t"
    unfolding carried_def by auto
  ultimately show ?thesis using r(1) by simp
qed

definition ended_env :: "unit gov_env" where
  "ended_env = (constant_env sample_skill)\<lparr>ge_describe := (\<lambda>_ w. (Inr failed_execution, w))\<rparr>"

definition sample_in_flight :: "unit gov_state" where
  "sample_in_flight = sample_gov\<lparr>gs_store := add_scan ''r'' (sample_scan\<lparr>sc_status := ''running'',
     sc_scan_id := ''r-1''\<rparr>) (gs_store sample_gov)\<rparr>"

theorem ended_execution_settles_witness:
  "\<exists>rec. latest_scan ''r'' (gs_store (snd (run_state (sync_running_stepfn ended_env ''r'')
     sample_in_flight))) = Some rec \<and> sc_status rec = ''done''"
proof (rule ended_execution_settles [OF _ _ _ _ surjective_pairing, THEN conjunct1])
  show "latest_scan ''r'' (gs_store sample_in_flight) =
      Some (sample_scan\<lparr>sc_status := ''running'', sc_scan_id := ''r-1''\<rparr>)"
    by (simp add: sample_in_flight_def)
  show "terminal_execution (ex_status failed_execution)"
    by (simp add: failed_execution_def terminal_execution_def)
qed (simp_all add: sample_scan_def ended_env_def)

text \<open>The scan of the skill was started again for one tool and could not be started.\<close>

definition sample_failed_rescan :: scan_record where
  "sample_failed_rescan = merged_rescan (\<lambda>_. [])
     (rescan_running sample_scan ''sast'' ''t2'' ''manual'' ''u'' ''s2'' ''1'') sample_scan ''t3''
     start_failure"

theorem failed_rescan_needs_full_scan_witness:
  "fst (run_state (rescan_checks (constant_env sample_skill) ''r'' ''gitleaks'')
     (sample_gov\<lparr>gs_store := add_scan ''r'' sample_failed_rescan empty_gov_store\<rparr>)) =
     Inl Base_scan_failed"
proof -
  have r: "ge_repr (constant_env sample_skill) = (\<lambda>_. [])" by (simp add: constant_env_def)
  have ended: "sc_status sample_failed_rescan = ''done''"
    by (simp add: sample_failed_rescan_def merged_rescan_def Let_def)
  show ?thesis
    by (rule conjunct1 [OF failed_rescan_needs_full_scan [OF _ ended, where ex = failed_execution
          and running = "rescan_running sample_scan ''sast'' ''t2'' ''manual'' ''u'' ''s2'' ''1''"
          and base = sample_scan and ts = "''t3''"]])
      (simp_all add: r scans.latest_add sample_failed_rescan_def failed_execution_def)
qed

end
