(* ===== verification/Registration_Gate.thy ===== *)
theory Registration_Gate
  imports Scan_Runs
begin

text \<open>
  The registration gate (\<open>governance/registration_gate.py\<close>, \<open>catalog/registration_hook.py\<close>,
  \<open>shared/governance.py\<close>), the automatic scan and the approval of generated agents
  (\<open>auto_scan.py\<close>), the decision of a reviewer (\<open>queue_router.py\<close>, the status route of
  \<open>governance/router.py\<close>) and the poller's choice of assets whose verdict is still to be carried
  (\<open>poller.py\<close>). Times are in milliseconds.
\<close>

section \<open>The registration hook\<close>

datatype governance_decision = Decision_approved | Decision_rejected | Decision_pending_review

text \<open>The outcome: a decision and the confirmed status, empty if none was confirmed.\<close>

type_synonym registration_outcome = "governance_decision \<times> string"

definition SUBMIT_ATTEMPTS :: nat where
  "SUBMIT_ATTEMPTS = 3"

definition SUBMIT_BACKOFF_MS :: int where
  "SUBMIT_BACKOFF_MS = 50"

definition SUBMIT_DEADLINE_MS :: int where
  "SUBMIT_DEADLINE_MS = 5000"

definition sleep_ms :: "'w gov_env \<Rightarrow> int \<Rightarrow> ('w, unit) act" where
  "sleep_ms env n = do {
     _ \<leftarrow> call_world (\<lambda>w. ((), ge_sleep env n w));
     trace (Slept n)
   }"

definition monotonic_ms :: "'w gov_env \<Rightarrow> ('w, int) act" where
  "monotonic_ms env = do { w \<leftarrow> gets gs_world; State_Monad.return (ge_monotonic env w) }"

text \<open>The loop over the attempts; the first attempt is made whatever the time.\<close>

fun try_pending ::
  "'w gov_env \<Rightarrow> string \<Rightarrow> int \<Rightarrow> nat list \<Rightarrow> ('w, record_status option) act" where
  "try_pending env rid deadline [] = State_Monad.return None"
| "try_pending env rid deadline (attempt # attempts) = do {
     now \<leftarrow> monotonic_ms env;
     if 0 < attempt \<and> deadline \<le> now then State_Monad.return None
     else do {
       r \<leftarrow> get_record env rid;
       case r of
         Inl _ \<Rightarrow> do {
           sleep_ms env (SUBMIT_BACKOFF_MS * (int attempt + 1));
           try_pending env rid deadline attempts
         }
       | Inr x \<Rightarrow>
           if rr_status x \<noteq> RS_Draft then State_Monad.return (Some (rr_status x))
           else do {
             submitted \<leftarrow> submit_for_approval env rid;
             case submitted of
               Inr st \<Rightarrow> State_Monad.return (Some st)
             | Inl _ \<Rightarrow> do {
                 sleep_ms env (SUBMIT_BACKOFF_MS * (int attempt + 1));
                 try_pending env rid deadline attempts
               }
           }
     }
   }"

definition ensure_pending :: "'w gov_env \<Rightarrow> string \<Rightarrow> ('w, record_status option) act" where
  "ensure_pending env rid = do {
     now \<leftarrow> monotonic_ms env;
     try_pending env rid (now + SUBMIT_DEADLINE_MS) [0..<SUBMIT_ATTEMPTS]
   }"

definition apply_settled_verdict ::
  "'w gov_env \<Rightarrow> string \<Rightarrow> record_status \<Rightarrow> ('w, record_status) act" where
  "apply_settled_verdict env rid status =
     (if status = RS_Approved \<or> status = RS_Rejected then State_Monad.return status
      else do {
        store \<leftarrow> gets gs_store;
        case latest_scan rid store of
          None \<Rightarrow> State_Monad.return status
        | Some scan \<Rightarrow>
            if sc_status scan \<noteq> ''done'' then State_Monad.return status
            else do {
              apply_verdict_to_registry env rid;
              r \<leftarrow> get_record env rid;
              State_Monad.return (case r of Inl _ \<Rightarrow> status | Inr x \<Rightarrow> rr_status x)
            }
      })"

definition decision_of_status :: "record_status \<Rightarrow> governance_decision" where
  "decision_of_status st =
     (if st = RS_Approved then Decision_approved
      else if st = RS_Rejected then Decision_rejected else Decision_pending_review)"

definition on_registered :: "'w gov_env \<Rightarrow> string \<Rightarrow> ('w, registration_outcome) act" where
  "on_registered env request_id =
     (let rid = strip request_id in
      if rid = [] then State_Monad.return (Decision_pending_review, [])
      else do {
        status \<leftarrow> ensure_pending env rid;
        case status of
          None \<Rightarrow> State_Monad.return (Decision_pending_review, [])
        | Some st \<Rightarrow> do {
            final \<leftarrow> apply_settled_verdict env rid st;
            State_Monad.return (decision_of_status final, status_value final)
          }
      })"

datatype hook_refusal = Status_unconfirmed | Registration_rejected

definition run_registration_hook ::
  "'w gov_env \<Rightarrow> string \<Rightarrow> bool \<Rightarrow> ('w, hook_refusal + string) act" where
  "run_registration_hook env rid raise_on_rejected = do {
     outcome \<leftarrow> on_registered env rid;
     State_Monad.return
       (if snd outcome = [] \<and> raise_on_rejected then Inl Status_unconfirmed
        else if fst outcome = Decision_rejected \<and> raise_on_rejected then Inl Registration_rejected
        else Inr (snd outcome))
   }"

section \<open>After the registration\<close>

definition should_scan :: "scan_record option \<Rightarrow> string \<Rightarrow> bool" where
  "should_scan latest for_version =
     (case latest of
        None \<Rightarrow> True
      | Some scan \<Rightarrow> for_version \<noteq> [] \<and> sc_version scan \<noteq> for_version)"

definition maybe_auto_scan :: "'w gov_env \<Rightarrow> string \<Rightarrow> string \<Rightarrow> ('w, bool) act" where
  "maybe_auto_scan env rid for_version = do {
     store \<leftarrow> gets gs_store;
     if \<not> cs_auto_scan (get_settings store) then State_Monad.return False
     else if \<not> should_scan (latest_scan rid store) for_version then State_Monad.return False
     else do {
       r \<leftarrow> run_scan env rid ''auto'' ''system'';
       State_Monad.return (case r of Inl _ \<Rightarrow> False | Inr _ \<Rightarrow> True)
     }
   }"

definition approve_pending_initializr ::
  "'w gov_env \<Rightarrow> string \<Rightarrow> string + record_status \<Rightarrow> ('w, bool) act" where
  "approve_pending_initializr env rid status =
     (if status \<noteq> Inr RS_Pending_approval then State_Monad.return False
      else do {
        answer \<leftarrow> require_for_approval env rid;
        if answer \<noteq> Contacts_complete then State_Monad.return False
        else do {
          r \<leftarrow> update_status env rid RS_Approved ''exempt'';
          State_Monad.return (case r of Inl _ \<Rightarrow> False | Inr _ \<Rightarrow> True)
        }
      })"

definition approve_initializr_without_scan :: "'w gov_env \<Rightarrow> string \<Rightarrow> ('w, bool) act" where
  "approve_initializr_without_scan env rid = do {
     r \<leftarrow> get_record env rid;
     case r of
       Inl _ \<Rightarrow> State_Monad.return False
     | Inr x \<Rightarrow>
         if rr_status x = RS_Approved then State_Monad.return False
         else if rr_status x = RS_Draft then do {
           submitted \<leftarrow> submit_for_approval env rid;
           approve_pending_initializr env rid submitted
         } else approve_pending_initializr env rid (Inr (rr_status x))
   }"

section \<open>The decision of a reviewer\<close>

datatype reviewer_decision = Approve | Reject

fun decision_value :: "reviewer_decision \<Rightarrow> string" where
  "decision_value Approve = ''APPROVE''"
| "decision_value Reject = ''REJECT''"

datatype decision_refusal =
    Reject_needs_reason | Override_needs_reason | Contacts_required "string list"
  | Contacts_unreadable string

definition decision_target :: "reviewer_decision \<Rightarrow> record_status" where
  "decision_target d = (case d of Approve \<Rightarrow> RS_Approved | Reject \<Rightarrow> RS_Rejected)"

definition contacts_for_decision ::
  "'w gov_env \<Rightarrow> string \<Rightarrow> reviewer_decision \<Rightarrow> ('w, decision_refusal + unit) act" where
  "contacts_for_decision env rid d =
     (case d of
        Reject \<Rightarrow> State_Monad.return (Inr ())
      | Approve \<Rightarrow> do {
          answer \<leftarrow> require_for_approval env rid;
          State_Monad.return (case answer of
              Contacts_complete \<Rightarrow> Inr ()
            | Contacts_incomplete missing \<Rightarrow> Inl (Contacts_required missing)
            | Contacts_failed e \<Rightarrow> Inl (Contacts_unreadable e))
        })"

definition record_decision ::
  "'w gov_env \<Rightarrow> string \<Rightarrow> reviewer_decision \<Rightarrow> string \<Rightarrow> string \<Rightarrow> bool \<Rightarrow> ('w, unit) act" where
  "record_decision env rid d reason who override = do {
     ts \<leftarrow> now_of env;
     on_store (add_decision rid \<lparr>dr_ts = ts, dr_principal = who, dr_decision = decision_value d,
       dr_reason = reason, dr_override = override\<rparr>);
     ensure_pending_before_verdict env rid;
     r \<leftarrow> update_status env rid (decision_target d)
       (if reason = [] then ''reviewer '' @ decision_value d else reason);
     case r of
       Inl _ \<Rightarrow> State_Monad.return ()
     | Inr _ \<Rightarrow>
         if d = Approve then do {
           on_store (clear_approval_block rid);
           hide_sibling_versions env rid
         } else State_Monad.return ()
   }"

definition conclude_decision ::
  "'w gov_env \<Rightarrow> string \<Rightarrow> reviewer_decision \<Rightarrow> string \<Rightarrow> string \<Rightarrow> bool
     \<Rightarrow> ('w, decision_refusal + bool) act" where
  "conclude_decision env rid d reason who override = do {
     allowed \<leftarrow> contacts_for_decision env rid d;
     case allowed of
       Inl e \<Rightarrow> State_Monad.return (Inl e)
     | Inr _ \<Rightarrow> do {
         record_decision env rid d reason who override;
         State_Monad.return (Inr override)
       }
   }"

definition decide ::
  "'w gov_env \<Rightarrow> string \<Rightarrow> reviewer_decision \<Rightarrow> string \<Rightarrow> string
     \<Rightarrow> ('w, decision_refusal + bool) act" where
  "decide env rid d body_reason who =
     (let reason = strip body_reason in
      if d = Reject \<and> reason = [] then State_Monad.return (Inl Reject_needs_reason)
      else do {
        store \<leftarrow> gets gs_store;
        tier \<leftarrow> tier_for_record env rid;
        stages \<leftarrow> gate_stages env rid tier (latest_scan rid store);
        let override = (d = Approve \<and>
          gp_verdict (gate_summary stages) \<in> {Auto_reject, Verdict_pending});
        if override \<and> reason = [] then State_Monad.return (Inl Override_needs_reason)
        else conclude_decision env rid d reason who override
      })"

section \<open>The poller's backstop\<close>

text \<open>
  The assets whose scan is done and whose status is not final, and the assets that need not be
  looked at again. \<open>status_of\<close> raises, knows no such asset, or answers.
\<close>

fun pending_verdicts ::
  "(string \<Rightarrow> 'e + record_status option) \<Rightarrow> (record_status \<Rightarrow> bool) \<Rightarrow> string set \<Rightarrow> string list
     \<Rightarrow> string list \<times> string set" where
  "pending_verdicts status_of is_terminal settled [] = ([], settled)"
| "pending_verdicts status_of is_terminal settled (rid # rids) =
     (if rid \<in> settled then pending_verdicts status_of is_terminal settled rids
      else case status_of rid of
        Inl _ \<Rightarrow> pending_verdicts status_of is_terminal settled rids
      | Inr None \<Rightarrow> pending_verdicts status_of is_terminal (insert rid settled) rids
      | Inr (Some st) \<Rightarrow>
          if is_terminal st then pending_verdicts status_of is_terminal (insert rid settled) rids
          else map_prod (Cons rid) id (pending_verdicts status_of is_terminal settled rids))"

definition pending_verdict_record_ids ::
  "string list \<Rightarrow> (string \<Rightarrow> 'e + record_status option) \<Rightarrow> (record_status \<Rightarrow> bool) \<Rightarrow> string set
     \<Rightarrow> string list \<Rightarrow> string list \<times> string set" where
  "pending_verdict_record_ids done_ids status_of is_terminal settled running_ids =
     pending_verdicts status_of is_terminal (settled - set running_ids) done_ids"

section \<open>Properties of the hook\<close>

definition reported :: "string \<Rightarrow> record_status \<Rightarrow> gov_call list \<Rightarrow> bool" where
  "reported rid st cs \<longleftrightarrow> Got rid (Inr st) \<in> set cs \<or> Submitted rid (Inr st) \<in> set cs"

fun slept_ms :: "gov_call \<Rightarrow> int" where
  "slept_ms (Slept n) = n"
| "slept_ms _ = 0"

fun is_got :: "gov_call \<Rightarrow> bool" where
  "is_got (Got _ _) = True"
| "is_got _ = False"

fun is_submitted :: "gov_call \<Rightarrow> bool" where
  "is_submitted (Submitted _ _) = True"
| "is_submitted _ = False"

lemma reported_append [simp]: "reported rid st (xs @ ys) \<longleftrightarrow> reported rid st xs \<or> reported rid st ys"
  by (auto simp: reported_def)

text \<open>The calls of the loop over attempts, and its result.\<close>

definition within_budget :: "string \<Rightarrow> nat list \<Rightarrow> gov_call list \<Rightarrow> record_status option \<Rightarrow> bool" where
  "within_budget rid attempts cs r \<longleftrightarrow>
     length (filter is_got cs) \<le> length attempts \<and>
     length (filter is_submitted cs) \<le> length attempts \<and>
     sum_list (map slept_ms cs) \<le> (\<Sum>a\<leftarrow>attempts. SUBMIT_BACKOFF_MS * (int a + 1)) \<and>
     list_all no_status_set cs \<and>
     (case r of None \<Rightarrow> \<forall>st. reported rid st cs \<longrightarrow> st = RS_Draft | Some st \<Rightarrow> reported rid st cs)"

lemma within_budget_Cons:
  assumes "within_budget rid attempts cs r"
    and "pre = [Got rid (Inl e)] \<or> pre = [Got rid (Inr RS_Draft), Submitted rid (Inl e)]"
  shows "within_budget rid (a # attempts) (pre @ Slept (SUBMIT_BACKOFF_MS * (int a + 1)) # cs) r"
  using assms by (auto simp: within_budget_def reported_def split: option.splits)

lemma backoffs_nonneg: "0 \<le> (\<Sum>a\<leftarrow>attempts. SUBMIT_BACKOFF_MS * (int a + 1))"
  by (rule sum_list_nonneg) (auto simp: SUBMIT_BACKOFF_MS_def)

lemma within_budget_last:
  assumes "cs = [] \<and> r = None \<or> cs = [Got rid (Inr st)] \<and> r = Some st \<or>
    cs = [Got rid (Inr RS_Draft), Submitted rid (Inr st)] \<and> r = Some st"
  shows "within_budget rid (a # attempts) cs r" and "within_budget rid [] [] None"
  using assms backoffs_nonneg [of "a # attempts"] by (auto simp: within_budget_def reported_def)

lemma try_pending_budget:
  fixes env :: "'w gov_env"
  shows "wp (try_pending env rid deadline attempts) (\<lambda>r t. gs_store t = gs_store s \<and>
     gs_aux t = gs_aux s \<and> (\<exists>cs. gs_calls t = gs_calls s @ cs \<and> within_budget rid attempts cs r)) s"
proof (induction attempts arbitrary: s)
  case (Cons a attempts)
  let ?post = "\<lambda>s r (t :: 'w gov_state). gs_store t = gs_store s \<and> gs_aux t = gs_aux s \<and>
    (\<exists>cs. gs_calls t = gs_calls s @ cs \<and> within_budget rid (a # attempts) cs r)"
  have again: "wp (try_pending env rid deadline attempts) (?post s) u"
    if "gs_store u = gs_store s" "gs_aux u = gs_aux s"
      "gs_calls u = gs_calls s @ pre @ [Slept (SUBMIT_BACKOFF_MS * (int a + 1))]"
      "pre = [Got rid (Inl e)] \<or> pre = [Got rid (Inr RS_Draft), Submitted rid (Inl e)]"
    for u pre e
  proof (rule wp_mono [OF Cons.IH], elim conjE exE)
    fix r and t :: "'w gov_state" and cs
    assume "gs_store t = gs_store u" "gs_aux t = gs_aux u" "gs_calls t = gs_calls u @ cs"
      "within_budget rid attempts cs r"
    then show "?post s r t"
      using that within_budget_Cons [OF _ that(4), of attempts cs r a]
      by (intro conjI exI [of _ "pre @ Slept (SUBMIT_BACKOFF_MS * (int a + 1)) # cs"]) simp_all
  qed
  have none [simp]: "within_budget rid (a # attempts) [] None"
    by (rule within_budget_last(1)) simp
  obtain g w where g: "cp_get env rid (gs_world s) = (g, w)"
    by (cases "cp_get env rid (gs_world s)")
  obtain sub w' where sub: "cp_submit env rid w = (sub, w')"
    by (cases "cp_submit env rid w")
  show ?case
  proof (cases "0 < a \<and> deadline \<le> ge_monotonic env (gs_world s)")
    case True
    then show ?thesis by (simp add: monotonic_ms_def)
  next
    case no_time: False
    show ?thesis
    proof (cases g)
      case (Inl e)
      with no_time show ?thesis
        by (simp add: monotonic_ms_def get_record_def sleep_ms_def wp_simps g)
          (rule again [of _ "[Got rid (Inl e)]" e], simp_all)
    next
      case (Inr x)
      have st: "rr_status (merge_into aux x) = rr_status x" for aux
        by (simp add: merge_into_def Let_def)
      show ?thesis
      proof (cases "rr_status x = RS_Draft")
        case False
        with no_time Inr show ?thesis
          using within_budget_last(1) [of "[Got rid (Inr (rr_status x))]" "Some (rr_status x)"]
          by (simp add: monotonic_ms_def get_record_def wp_simps g st)
      next
        case draft: True
        show ?thesis
        proof (cases "parse_status sub")
          case (Inl e)
          with no_time Inr draft \<open>g = Inr x\<close> show ?thesis
            by (simp add: monotonic_ms_def get_record_def submit_for_approval_def sleep_ms_def
                wp_simps g st sub)
              (rule again [of _ "[Got rid (Inr RS_Draft), Submitted rid (Inl e)]" e], simp_all)
        next
          case ok: (Inr y)
          with no_time Inr draft show ?thesis
            using within_budget_last(1)
              [of "[Got rid (Inr RS_Draft), Submitted rid (Inr y)]" "Some y" rid y]
            by (simp add: monotonic_ms_def get_record_def submit_for_approval_def
                wp_simps g st sub)
        qed
      qed
    qed
  qed
qed (simp add: within_budget_def reported_def)

text \<open>The hook answers within a budget. Whatever the Registry does, confirming the status of a
  registered asset reads it at most three times, submits it at most three times, sleeps at
  most 300 ms in all, changes no store and sets no status. It gives up only if the Registry
  reported nothing but a draft, and a status it confirms is one the Registry reported.\<close>

theorem registration_within_budget:
  assumes "run_state (ensure_pending env rid) s = (r, t)"
  shows "length (filter is_got (new_calls s t)) \<le> 3 \<and>
    length (filter is_submitted (new_calls s t)) \<le> 3 \<and>
    sum_list (map slept_ms (new_calls s t)) \<le> 300 \<and>
    list_all no_status_set (new_calls s t) \<and> gs_store t = gs_store s \<and> gs_aux t = gs_aux s \<and>
    (case r of None \<Rightarrow> \<forall>st. reported rid st (new_calls s t) \<longrightarrow> st = RS_Draft
     | Some st \<Rightarrow> reported rid st (new_calls s t))"
proof -
  have "wp (ensure_pending env rid) (\<lambda>r t. gs_store t = gs_store s \<and> gs_aux t = gs_aux s \<and>
      (\<exists>cs. gs_calls t = gs_calls s @ cs \<and> within_budget rid [0..<SUBMIT_ATTEMPTS] cs r)) s"
    by (simp add: ensure_pending_def monotonic_ms_def try_pending_budget)
  from wp_result [OF this assms] obtain cs where cs: "gs_calls t = gs_calls s @ cs"
    "within_budget rid [0..<SUBMIT_ATTEMPTS] cs r" "gs_store t = gs_store s" "gs_aux t = gs_aux s"
    by blast
  show ?thesis
    using cs(2) unfolding new_calls_append [OF cs(1)]
    by (simp add: within_budget_def SUBMIT_ATTEMPTS_def SUBMIT_BACKOFF_MS_def numeral_3_eq_3 cs(3,4))
qed

definition deaf_env :: "unit gov_env" where
  "deaf_env = (constant_env sample_skill)\<lparr>cp_submit := (\<lambda>_ w. (Inl ''throttled'', w))\<rparr>"

theorem registration_within_budget_witness:
  "sum_list (map slept_ms (new_calls sample_gov
     (snd (run_state (ensure_pending deaf_env ''r'') sample_gov)))) \<le> 300"
  using registration_within_budget [OF surjective_pairing] by blast

lemma settled_verdict_reported:
  fixes env :: "'w gov_env"
  shows "wp (apply_settled_verdict env rid st) (\<lambda>final t. \<exists>cs. gs_calls t = gs_calls s @ cs \<and>
     (final = st \<or> reported rid final cs)) s"
proof (cases "st \<notin> {RS_Approved, RS_Rejected} \<and>
    (\<exists>scan. latest_scan rid (gs_store s) = Some scan \<and> sc_status scan = ''done'')")
  case True
  then obtain scan where scan: "latest_scan rid (gs_store s) = Some scan" "sc_status scan = ''done''"
    by blast
  have get: "wp (get_record env rid) (\<lambda>r t. \<exists>cs. gs_calls t = gs_calls s @ cs \<and>
      ((case r of Inl _ \<Rightarrow> st | Inr x \<Rightarrow> rr_status x) = st \<or>
       reported rid (case r of Inl _ \<Rightarrow> st | Inr x \<Rightarrow> rr_status x) cs)) u"
    if "gs_calls u = gs_calls s @ ds" for u :: "'w gov_state" and ds
    using that by (cases "fst (cp_get env rid (gs_world u))")
      (simp_all add: get_record_def wp_simps reported_def merge_into_def Let_def)
  have "wp (apply_verdict_to_registry env rid) (\<lambda>_. wp (get_record env rid) (\<lambda>r t.
      \<exists>cs. gs_calls t = gs_calls s @ cs \<and>
      ((case r of Inl _ \<Rightarrow> st | Inr x \<Rightarrow> rr_status x) = st \<or>
       reported rid (case r of Inl _ \<Rightarrow> st | Inr x \<Rightarrow> rr_status x) cs))) s"
    by (rule wp_mono [OF apply_verdict_spec [OF scan]]) (use get in \<open>auto simp: carried_def\<close>)
  then show ?thesis
    using True scan by (simp add: apply_settled_verdict_def)
next
  case False
  then show ?thesis
    by (auto simp: apply_settled_verdict_def wp_simps split: option.split intro: exI [of _ "[]"])
qed

lemma status_value_nonempty [simp]: "status_value st \<noteq> []"
  by (cases st) simp_all

text \<open>C8: A failure is never an approval. The registration hook either confirms no status, and then
  it asks for a review and the Registry reported nothing but a draft; or its decision is that
  of a status which the Registry itself reported for the asset during the call.\<close>

theorem registration_decides_as_reported:
  fixes env :: "'w gov_env"
  assumes "run_state (on_registered env request) s = ((d, v), t)"
  shows "v = [] \<and> d = Decision_pending_review \<and>
      (\<forall>st. reported (strip request) st (new_calls s t) \<longrightarrow> st = RS_Draft) \<or>
    (\<exists>st. v = status_value st \<and> d = decision_of_status st \<and>
      reported (strip request) st (new_calls s t))"
proof -
  let ?rid = "strip request"
  let ?post = "\<lambda>(d, v) (t :: 'w gov_state). \<exists>cs. gs_calls t = gs_calls s @ cs \<and>
    (v = [] \<and> d = Decision_pending_review \<and> (\<forall>st. reported ?rid st cs \<longrightarrow> st = RS_Draft) \<or>
     (\<exists>st. v = status_value st \<and> d = decision_of_status st \<and> reported ?rid st cs))"
  have settled: "wp (apply_settled_verdict env ?rid st)
      (\<lambda>final. ?post (decision_of_status final, status_value final)) u"
    if "gs_calls u = gs_calls s @ cs" "reported ?rid st cs" for u :: "'w gov_state" and st cs
    by (rule wp_mono [OF settled_verdict_reported]) (use that in auto)
  have "wp (ensure_pending env ?rid) (\<lambda>status. wp (case status of
        None \<Rightarrow> State_Monad.return (Decision_pending_review, [])
      | Some st \<Rightarrow> do {
          final \<leftarrow> apply_settled_verdict env ?rid st;
          State_Monad.return (decision_of_status final, status_value final)
        }) ?post) s"
    unfolding ensure_pending_def monotonic_ms_def
  proof (simp, rule wp_mono [OF try_pending_budget], elim conjE exE)
    fix r and u :: "'w gov_state" and cs
    assume u: "gs_calls u = gs_calls s @ cs" "within_budget ?rid [0..<SUBMIT_ATTEMPTS] cs r"
    then show "wp (case r of
        None \<Rightarrow> State_Monad.return (Decision_pending_review, [])
      | Some st \<Rightarrow> do {
          final \<leftarrow> apply_settled_verdict env ?rid st;
          State_Monad.return (decision_of_status final, status_value final)
        }) ?post u"
    proof (cases r)
      case (Some st)
      with u(2) have "reported ?rid st cs" by (simp add: within_budget_def)
      from settled [OF u(1) this] show ?thesis by (simp add: Some)
    qed (auto simp: within_budget_def)
  qed
  then have "wp (on_registered env request) ?post s"
    by (auto simp: on_registered_def Let_def reported_def intro: exI [of _ "[]"])
  from wp_result [OF this assms] show ?thesis by auto
qed

theorem registration_decides_as_reported_witness:
  "fst (run_state (on_registered (constant_env (sample_skill\<lparr>rr_status := RS_Rejected\<rparr>)) '' r '')
     sample_gov) = (Decision_rejected, ''REJECTED'') \<and>
   reported ''r'' RS_Rejected (new_calls sample_gov (snd (run_state
     (on_registered (constant_env (sample_skill\<lparr>rr_status := RS_Rejected\<rparr>)) '' r '') sample_gov)))"
proof -
  have r: "fst (run_state (on_registered (constant_env (sample_skill\<lparr>rr_status := RS_Rejected\<rparr>))
      '' r '') sample_gov) = (Decision_rejected, ''REJECTED'')" (is "fst ?run = _")
    by code_simp
  have strip: "strip '' r '' = ''r''" by code_simp
  have "?run = ((Decision_rejected, ''REJECTED''), snd ?run)"
    by (metis r surjective_pairing)
  from registration_decides_as_reported [OF this] obtain st
    where "''REJECTED'' = status_value st" "reported ''r'' st (new_calls sample_gov (snd ?run))"
    unfolding strip by auto
  then have "reported ''r'' RS_Rejected (new_calls sample_gov (snd ?run))"
    by (cases st) simp_all
  with r show ?thesis by blast
qed

section \<open>Redeployments\<close>

text \<open>The guard against repeated scans forgets what was scanned. While the scan of a redeployed
  version runs, the guard holds a second scan of that version back; as soon as its execution
  has ended and the poller has recorded the result, the guard asks for the same version to be
  scanned again, because the recorded result names no version.\<close>

theorem redeploy_guard_forgets_version:
  assumes "latest_scan rid (gs_store s) = Some scan" "sc_status scan = ''running''"
    and "sc_version scan = v" "v \<noteq> []"
    and "fst (ge_describe env (if sc_scan_id scan = [] then rid else sc_scan_id scan) (gs_world s)) =
      Inr ex" "terminal_execution (ex_status ex)"
    and "run_state (sync_running_stepfn env rid) s = (u, t)"
  shows "\<not> should_scan (latest_scan rid (gs_store s)) v \<and> should_scan (latest_scan rid (gs_store t)) v"
proof -
  from sync_ended [OF assms(1,2,5,6)] obtain w rec where r: "sc_version rec = []"
    "run_state (apply_verdict_to_registry env rid)
      (s\<lparr>gs_world := w, gs_store := add_scan rid rec (gs_store s)\<rparr>) = (u, t)"
    using assms(7) by metis
  from wp_result [OF apply_verdict_scans r(2)] have "latest_scan rid (gs_store t) = Some rec"
    by simp
  with r(1) assms(1,3,4) show ?thesis by (auto simp: should_scan_def)
qed

theorem redeploy_guard_forgets_version_witness:
  "should_scan (latest_scan ''r'' (gs_store (snd (run_state (sync_running_stepfn ended_env ''r'')
     sample_in_flight)))) ''1''"
proof (rule redeploy_guard_forgets_version [OF _ _ _ _ _ _ surjective_pairing, THEN conjunct2])
  show "latest_scan ''r'' (gs_store sample_in_flight) =
      Some (sample_scan\<lparr>sc_status := ''running'', sc_scan_id := ''r-1''\<rparr>)"
    by (simp add: sample_in_flight_def)
  show "terminal_execution (ex_status failed_execution)"
    by (simp add: failed_execution_def terminal_execution_def)
qed (simp_all add: sample_scan_def ended_env_def)

section \<open>The poller\<close>

lemma pending_verdicts_result:
  "fst (pending_verdicts status_of is_terminal settled rids) =
     filter (\<lambda>rid. rid \<notin> settled \<and>
       (\<exists>st. status_of rid = Inr (Some st) \<and> \<not> is_terminal st)) rids \<and>
   snd (pending_verdicts status_of is_terminal settled rids) =
     settled \<union> {rid \<in> set rids. status_of rid = Inr None \<or>
       (\<exists>st. status_of rid = Inr (Some st) \<and> is_terminal st)}"
  by (induction status_of is_terminal settled rids rule: pending_verdicts.induct)
    (auto split: sum.splits option.splits intro!: filter_cong)

text \<open>C40: The backstop finds what is stuck. One cycle returns, in order, exactly the assets with a
  completed scan whose status is known and not final, leaving out only those that were settled
  before and have not been scanned again since; and it settles exactly those whose status is
  final or which no longer exist. A status that cannot be read settles nothing.\<close>

theorem backstop_finds_stuck_verdicts:
  "pending_verdict_record_ids done_ids status_of is_terminal settled running_ids =
     (filter (\<lambda>rid. rid \<notin> settled - set running_ids \<and>
        (\<exists>st. status_of rid = Inr (Some st) \<and> \<not> is_terminal st)) done_ids,
      (settled - set running_ids) \<union> {rid \<in> set done_ids. status_of rid = Inr None \<or>
        (\<exists>st. status_of rid = Inr (Some st) \<and> is_terminal st)})"
  using pending_verdicts_result [of status_of is_terminal "settled - set running_ids" done_ids]
  by (auto simp: pending_verdict_record_ids_def prod_eq_iff)

section \<open>Decisions\<close>

lemma contacts_for_decision_spec:
  "wp (contacts_for_decision env rid d) (\<lambda>answer t. gs_store t = gs_store s \<and> gs_aux t = gs_aux s \<and>
     (\<exists>cs. gs_calls t = gs_calls s @ cs \<and> list_all is_read cs) \<and>
     (answer = Inr () \<longrightarrow> d = Approve \<longrightarrow> is_complete (get_responsibility rid (gs_aux s)))) s"
proof (cases d)
  case Approve
  show ?thesis
    unfolding contacts_for_decision_def Approve reviewer_decision.case wp_bind wp_return
    by (rule wp_mono [OF require_for_approval_spec]) (auto split: contact_answer.splits)
qed (auto simp: contacts_for_decision_def)

fun decided_call :: "string \<Rightarrow> record_status \<Rightarrow> gov_call \<Rightarrow> bool" where
  "decided_call rid target (Status_set i st _) \<longleftrightarrow> i = rid \<and> st = target"
| "decided_call rid target _ \<longleftrightarrow> True"

lemma no_status_decided: "no_status_set c \<Longrightarrow> decided_call rid target c"
  by (cases c) simp_all

lemma decided_calls:
  "list_all no_status_set cs \<Longrightarrow> list_all (decided_call rid target) cs"
  "list_all is_read cs \<Longrightarrow> list_all (decided_call rid target) cs"
  by (auto simp: list_all_iff intro: no_status_decided is_read_no_status)

lemma update_status_calls:
  "only_calls (decided_call rid target) (update_status env rid target reason)"
proof (cases "target = RS_Pending_approval")
  case True
  show ?thesis
    unfolding update_status_def if_P [OF True]
    by (rule only_calls_mono [OF submit_no_status no_status_decided])
next
  case False
  show ?thesis
    unfolding update_status_def if_not_P [OF False] by (intro observing) simp
qed

lemma record_decision_spec:
  fixes env :: "'w gov_env"
  shows "wp (record_decision env rid d reason who override) (\<lambda>_ t.
     list_decisions rid (gs_store t) = list_decisions rid (gs_store s) @
       [\<lparr>dr_ts = ge_now env (gs_world s), dr_principal = who, dr_decision = decision_value d,
         dr_reason = reason, dr_override = override\<rparr>] \<and>
     (\<exists>cs. gs_calls t = gs_calls s @ cs \<and> list_all (decided_call rid (decision_target d)) cs)) s"
proof -
  let ?note = "if reason = [] then ''reviewer '' @ decision_value d else reason"
  let ?d = "\<lparr>dr_ts = ge_now env (gs_world s), dr_principal = who, dr_decision = decision_value d,
     dr_reason = reason, dr_override = override\<rparr>"
  let ?post = "\<lambda>_ (t :: 'w gov_state). list_decisions rid (gs_store t) =
      list_decisions rid (gs_store s) @ [?d] \<and>
     (\<exists>cs. gs_calls t = gs_calls s @ cs \<and> list_all (decided_call rid (decision_target d)) cs)"
  have finish: "wp (if d = Approve then do {
           on_store (clear_approval_block rid);
           hide_sibling_versions env rid
         } else State_Monad.return ()) ?post u"
    if "gs_store u = add_decision rid ?d (gs_store s)" "gs_calls u = gs_calls s @ cs"
      "list_all (decided_call rid (decision_target d)) cs" for u :: "'w gov_state" and cs
  proof -
    have "wp (hide_sibling_versions env rid) ?post
        (u\<lparr>gs_store := clear_approval_block rid (gs_store u)\<rparr>)"
      by (rule only_callsD [OF hide_sibling_versions_reads])
        (use that decided_calls(2) in \<open>auto simp: that(1)\<close>)
    then show ?thesis using that by (cases d) (simp_all add: wp_on_store)
  qed
  have "wp (do { ensure_pending_before_verdict env rid;
         update_status env rid (decision_target d) ?note })
      (\<lambda>r. wp (case r of Inl _ \<Rightarrow> State_Monad.return ()
        | Inr _ \<Rightarrow> if d = Approve then do {
           on_store (clear_approval_block rid);
           hide_sibling_versions env rid
         } else State_Monad.return ()) ?post) (s\<lparr>gs_store := add_decision rid ?d (gs_store s)\<rparr>)"
  proof (rule only_callsD [where C = "decided_call rid (decision_target d)"])
    show "only_calls (decided_call rid (decision_target d))
      (do { ensure_pending_before_verdict env rid;
         update_status env rid (decision_target d) ?note })"
      by (intro observing update_status_calls only_calls_mono [OF ensure_pending_no_status]
          no_status_decided)
  next
    fix r and t :: "'w gov_state" and cs
    assume "gs_store t = gs_store (s\<lparr>gs_store := add_decision rid ?d (gs_store s)\<rparr>)"
      "gs_calls t = gs_calls (s\<lparr>gs_store := add_decision rid ?d (gs_store s)\<rparr>) @ cs"
      "list_all (decided_call rid (decision_target d)) cs"
    then show "wp (case r of Inl _ \<Rightarrow> State_Monad.return ()
        | Inr _ \<Rightarrow> if d = Approve then do {
           on_store (clear_approval_block rid);
           hide_sibling_versions env rid
         } else State_Monad.return ()) ?post t"
      using finish [of t cs] by (cases r) auto
  qed
  then show ?thesis by (simp add: record_decision_def now_of_def wp_on_store)
qed

text \<open>What a decision leaves behind.\<close>

definition accountable ::
  "string \<Rightarrow> reviewer_decision \<Rightarrow> string \<Rightarrow> string \<Rightarrow> 'w gov_state \<Rightarrow> decision_refusal + bool
     \<Rightarrow> 'w gov_state \<Rightarrow> bool" where
  "accountable rid d reason who s r t \<longleftrightarrow>
     (\<exists>cs. gs_calls t = gs_calls s @ cs \<and>
       (case r of
          Inl _ \<Rightarrow> gs_store t = gs_store s \<and> list_all no_status_set cs
        | Inr override \<Rightarrow>
            list_all (decided_call rid (decision_target d)) cs \<and>
            (\<exists>ts. list_decisions rid (gs_store t) = list_decisions rid (gs_store s) @
              [\<lparr>dr_ts = ts, dr_principal = who, dr_decision = decision_value d,
                dr_reason = reason, dr_override = override\<rparr>]) \<and>
            (d = Reject \<or> override \<longrightarrow> reason \<noteq> []) \<and> (override \<longrightarrow> d = Approve) \<and>
            (d = Approve \<longrightarrow> is_complete (get_responsibility rid (gs_aux s)))))"

lemma conclude_decision_spec:
  fixes env :: "'w gov_env"
  assumes u: "gs_store u = gs_store s" "gs_aux u = gs_aux s" "gs_calls u = gs_calls s @ cs"
      "list_all is_read cs"
    and ov: "d = Reject \<or> override \<longrightarrow> reason \<noteq> []" "override \<longrightarrow> d = Approve"
  shows "wp (conclude_decision env rid d reason who override)
    (accountable rid d reason who s) u"
  unfolding conclude_decision_def wp_bind
proof (rule wp_mono [OF contacts_for_decision_spec], elim conjE exE)
  fix allowed :: "decision_refusal + unit" and v :: "'w gov_state" and ds
  assume v: "gs_store v = gs_store u" "gs_aux v = gs_aux u" "gs_calls v = gs_calls u @ ds"
    "list_all is_read ds"
    "allowed = Inr () \<longrightarrow> d = Approve \<longrightarrow> is_complete (get_responsibility rid (gs_aux u))"
  have reads: "list_all is_read (cs @ ds)" "gs_calls v = gs_calls s @ (cs @ ds)"
    using u v by simp_all
  show "wp (case allowed of
       Inl e \<Rightarrow> State_Monad.return (Inl e)
     | Inr _ \<Rightarrow> do {
         record_decision env rid d reason who override;
         State_Monad.return (Inr override)
       }) (accountable rid d reason who s) v"
  proof (cases allowed)
    case (Inl e)
    have "list_all no_status_set (cs @ ds)"
      using reads(1) by (auto simp: list_all_iff intro: is_read_no_status)
    with Inl show ?thesis using u v reads(2) by (auto simp: accountable_def)
  next
    case (Inr x)
    have "wp (record_decision env rid d reason who override)
        (\<lambda>_. accountable rid d reason who s (Inr override)) v"
    proof (rule wp_mono [OF record_decision_spec], elim conjE exE)
      fix a and t :: "'w gov_state" and es
      assume t: "list_decisions rid (gs_store t) = list_decisions rid (gs_store v) @
         [\<lparr>dr_ts = ge_now env (gs_world v), dr_principal = who, dr_decision = decision_value d,
           dr_reason = reason, dr_override = override\<rparr>]"
        "gs_calls t = gs_calls v @ es" "list_all (decided_call rid (decision_target d)) es"
      then show "accountable rid d reason who s (Inr override) t"
        using u v ov reads(2) decided_calls(2) [OF reads(1)] Inr
        by (auto simp: accountable_def intro!: exI [of _ "cs @ ds @ es"])
    qed
    then show ?thesis by (simp add: Inr)
  qed
qed

lemma decide_spec:
  fixes env :: "'w gov_env"
  shows "wp (decide env rid d reason who) (accountable rid d (strip reason) who s) s"
proof -
  have "only_calls is_read (do {
      tier \<leftarrow> tier_for_record env rid;
      gate_stages env rid tier (latest_scan rid (gs_store s))
    })"
    by (intro observing)
  then have "wp (do {
      tier \<leftarrow> tier_for_record env rid;
      gate_stages env rid tier (latest_scan rid (gs_store s))
    }) (\<lambda>stages. wp (let override = (d = Approve \<and>
          gp_verdict (gate_summary stages) \<in> {Auto_reject, Verdict_pending}) in
       if override \<and> strip reason = [] then State_Monad.return (Inl Override_needs_reason)
       else conclude_decision env rid d (strip reason) who override)
      (accountable rid d (strip reason) who s)) s" if "d = Reject \<longrightarrow> strip reason \<noteq> []"
  proof (rule only_callsD)
    fix stages and u :: "'w gov_state" and cs
    assume u: "gs_store u = gs_store s" "gs_aux u = gs_aux s" "gs_calls u = gs_calls s @ cs"
      "list_all is_read cs"
    then have "list_all no_status_set cs" by (auto simp: list_all_iff intro: is_read_no_status)
    with u that conclude_decision_spec [OF u] show "wp (let override = (d = Approve \<and>
          gp_verdict (gate_summary stages) \<in> {Auto_reject, Verdict_pending}) in
       if override \<and> strip reason = [] then State_Monad.return (Inl Override_needs_reason)
       else conclude_decision env rid d (strip reason) who override)
      (accountable rid d (strip reason) who s) u"
      by (auto simp: Let_def accountable_def)
  qed
  then show ?thesis
    by (auto simp: decide_def Let_def accountable_def)
qed

text \<open>C33: A reviewer's decision is accountable. A refused decision records nothing and sets no
  status. A decision that is taken sets the status of no other asset and of this one only to
  what was decided, and adds exactly one entry to the asset's decisions, with the reviewer, the
  reason and the override flag. A rejection has a reason; an approval needs complete contacts,
  and a reason too when it overrides the gate.\<close>

theorem decision_is_accountable:
  assumes "run_state (decide env rid d reason who) s = (r, t)"
  shows "case r of
      Inl _ \<Rightarrow> gs_store t = gs_store s \<and> list_all no_status_set (new_calls s t)
    | Inr override \<Rightarrow>
        list_all (decided_call rid (decision_target d)) (new_calls s t) \<and>
        (\<exists>ts. list_decisions rid (gs_store t) = list_decisions rid (gs_store s) @
          [\<lparr>dr_ts = ts, dr_principal = who, dr_decision = decision_value d,
            dr_reason = strip reason, dr_override = override\<rparr>]) \<and>
        (d = Reject \<or> override \<longrightarrow> strip reason \<noteq> []) \<and>
        (override \<longrightarrow> d = Approve) \<and>
        (d = Approve \<longrightarrow> is_complete (get_responsibility rid (gs_aux s)))"
  using wp_result [OF decide_spec assms]
  by (auto simp: accountable_def split: sum.splits)

theorem decision_is_accountable_witness:
  "length (list_decisions ''r'' (gs_store (snd (run_state
     (decide (constant_env sample_skill) ''r'' Reject '' unsafe '' ''ann'') sample_gov)))) = 1"
proof -
  let ?run = "run_state (decide (constant_env sample_skill) ''r'' Reject '' unsafe '' ''ann'') sample_gov"
  obtain ov where r: "fst ?run = Inr ov"
  proof -
    have "case fst ?run of Inl _ \<Rightarrow> False | Inr _ \<Rightarrow> True" by code_simp
    then show ?thesis using that by (auto split: sum.splits)
  qed
  have none: "list_decisions ''r'' (gs_store sample_gov) = []"
  proof -
    have "case list_decisions ''r'' (gs_store sample_gov) of [] \<Rightarrow> True | _ \<Rightarrow> False" by code_simp
    then show ?thesis by (auto split: list.splits)
  qed
  from decision_is_accountable [OF surjective_pairing, of "constant_env sample_skill" "''r''" Reject
      "'' unsafe ''" "''ann''" sample_gov]
  show ?thesis unfolding r by (auto simp: none)
qed

end
