(* ===== verification/Tool_Drift.thy ===== *)
theory Tool_Drift
  imports Catalog_Records Gateway_Targets Interfaces
begin

text \<open>
  The tools of an MCP asset as the platform last saw them: \<open>catalog/mcp/drift.py\<close> (comparison and
  transitions), the tool records of \<open>catalog/mcp/drift_models.py\<close> with their stored form, and
  \<open>catalog/mcp/sensitivity_admin.py\<close> (the plan of a change of tag). From
  \<open>catalog/mcp/drift_service.py\<close> the places where a ledger's entries change otherwise: the seeding
  from the descriptors of a record, the confirmation of a tag and the retirement of tools after a
  synchronisation.
\<close>

section \<open>Records\<close>

datatype drift_state =
    Drift_discovered | Drift_active | Drift_changed | Drift_missing | Drift_retired

fun drift_value :: "drift_state \<Rightarrow> string" where
  "drift_value Drift_discovered = ''DISCOVERED''"
| "drift_value Drift_active = ''ACTIVE''"
| "drift_value Drift_changed = ''CHANGED''"
| "drift_value Drift_missing = ''MISSING''"
| "drift_value Drift_retired = ''RETIRED''"

definition drift_states :: "drift_state list" where
  "drift_states = [Drift_discovered, Drift_active, Drift_changed, Drift_missing, Drift_retired]"

definition drift_of_value :: "string \<Rightarrow> drift_state option" where
  "drift_of_value v = find (\<lambda>st. drift_value st = v) drift_states"

definition CALLABLE_STATES :: "drift_state set" where
  "CALLABLE_STATES = {Drift_active, Drift_changed}"

text \<open>Where a tag comes from; kept as its text.\<close>

definition source_values :: "string list" where
  "source_values = [''descriptor'', ''name_guess'', ''auto'', ''admin'', ''unknown'']"

definition normalize_source :: "string option \<Rightarrow> string option" where
  "normalize_source raw =
     (case raw of
        None \<Rightarrow> None
      | Some r \<Rightarrow>
          let t = casefold (strip r) in
          if t = [] then None else if t \<in> set source_values then Some t else Some ''unknown'')"

record tool_shape =
  sh_description :: string
  sh_fields :: "(string, string) dict"
  sh_required :: "string list"

definition no_shape :: tool_shape where
  "no_shape = \<lparr>sh_description = [], sh_fields = [], sh_required = []\<rparr>"

record schema_diff =
  sd_added :: "string list"
  sd_removed :: "string list"
  sd_renamed :: "(string \<times> string) list"
  sd_type_changed :: "(string \<times> string \<times> string) list"
  sd_required_added :: "string list"
  sd_required_removed :: "string list"

definition diff_is_empty :: "schema_diff \<Rightarrow> bool" where
  "diff_is_empty d \<longleftrightarrow> sd_added d = [] \<and> sd_removed d = [] \<and> sd_renamed d = [] \<and>
     sd_type_changed d = [] \<and> sd_required_added d = [] \<and> sd_required_removed d = []"

record tool_entry =
  te_name :: string
  te_state :: drift_state
  te_sensitivity :: "string option"
  te_source :: "string option"
  te_previous :: "string option"
  te_baseline :: tool_shape
  te_observed :: tool_shape
  te_diff :: "schema_diff option"
  te_description_changed :: bool
  te_reappeared :: bool
  te_first_seen_at :: string
  te_last_seen_at :: string
  te_state_since :: string

text \<open>\<open>None\<close> where the code says that it is not known whether the tool can be called.\<close>

definition callable_now :: "tool_entry \<Rightarrow> bool option" where
  "callable_now e =
     (if te_reappeared e \<or> te_state e = Drift_missing then None
      else Some (te_state e \<in> CALLABLE_STATES \<and> te_sensitivity e \<notin> {None, Some []}))"

definition permission_groups :: "permission_group list" where
  "permission_groups = [READ_ONLY, READ_CREATE, READ_WRITE, FULL_ACCESS]"

definition callable_groups :: "tool_entry \<Rightarrow> permission_group list option" where
  "callable_groups e =
     map_option (\<lambda>c. if c then filter (\<lambda>g. group_allows g (str_field (te_sensitivity e)))
                             permission_groups else []) (callable_now e)"

definition with_state :: "drift_state \<Rightarrow> string \<Rightarrow> tool_entry \<Rightarrow> tool_entry" where
  "with_state st now e =
     (if st = te_state e then e else e\<lparr>te_state := st, te_state_since := now\<rparr>)"

section \<open>Shapes and their difference\<close>

definition join_with :: "char \<Rightarrow> string list \<Rightarrow> string" where
  "join_with c xs = (case xs of [] \<Rightarrow> [] | x # ys \<Rightarrow> x @ concat (map (Cons c) ys))"

definition type_of_spec :: "(json \<Rightarrow> string) \<Rightarrow> json \<Rightarrow> string" where
  "type_of_spec repr spec =
     (case spec of
        JObj kvs \<Rightarrow>
          (case jget kvs ''type'' of
             JStr t \<Rightarrow> t
           | JArr ts \<Rightarrow> join_with CHR ''|'' (sort (map (py_str repr) ts))
           | _ \<Rightarrow>
               (case filter (\<lambda>k. map_of kvs k \<noteq> None)
                       [''anyOf'', ''oneOf'', ''allOf'', ''$ref'', ''enum''] of
                  [] \<Rightarrow> []
                | k # _ \<Rightarrow> k))
      | _ \<Rightarrow> [])"

definition obj_of :: "json \<Rightarrow> (string \<times> json) list" where
  "obj_of j = (case j of JObj kvs \<Rightarrow> kvs | _ \<Rightarrow> [])"

definition arr_of :: "json \<Rightarrow> json list" where
  "arr_of j = (case j of JArr xs \<Rightarrow> xs | _ \<Rightarrow> [])"

text \<open>A dict built key by key, a later value replacing an earlier one in place.\<close>

definition dict_of :: "('k \<times> 'v) list \<Rightarrow> ('k, 'v) dict" where
  "dict_of kvs = fold (\<lambda>(k, v). dput k v) kvs []"

definition shape_of :: "(json \<Rightarrow> string) \<Rightarrow> string \<Rightarrow> json \<Rightarrow> tool_shape" where
  "shape_of repr description input_schema =
     (let schema = obj_of input_schema in
      \<lparr>sh_description = description,
       sh_fields = dict_of (map (\<lambda>(k, spec). (k, type_of_spec repr spec))
                             (obj_of (jget schema ''properties''))),
       sh_required = sort (map (py_str repr) (arr_of (jget schema ''required'')))\<rparr>)"

definition field_type :: "(string, string) dict \<Rightarrow> string \<Rightarrow> string" where
  "field_type fs n = (case dget fs n of None \<Rightarrow> [] | Some t \<Rightarrow> t)"

text \<open>\<open>sorted(set(xs) - set(ys))\<close>\<close>

definition sorted_minus :: "string list \<Rightarrow> string list \<Rightarrow> string list" where
  "sorted_minus xs ys = sort (remdups (filter (\<lambda>x. x \<notin> set ys) xs))"

definition rename_of_type ::
  "(string, string) dict \<Rightarrow> (string, string) dict \<Rightarrow> string list \<Rightarrow> string list \<Rightarrow> string
     \<Rightarrow> (string \<times> string) list" where
  "rename_of_type old new removed added t =
     (case (filter (\<lambda>n. field_type old n = t) removed, filter (\<lambda>n. field_type new n = t) added) of
        ([gone], [fresh]) \<Rightarrow> [(gone, fresh)]
      | _ \<Rightarrow> [])"

definition diff_shapes :: "tool_shape \<Rightarrow> tool_shape \<Rightarrow> schema_diff" where
  "diff_shapes baseline observed =
     (let old = sh_fields baseline; new = sh_fields observed;
          added = sorted_minus (dkeys new) (dkeys old);
          removed = sorted_minus (dkeys old) (dkeys new);
          common = sort (remdups (filter (\<lambda>n. n \<in> set (dkeys new)) (dkeys old)));
          renamed = concat (map (rename_of_type old new removed added)
            (sort (remdups (map (field_type old) removed))))
      in \<lparr>sd_added = filter (\<lambda>n. n \<notin> snd ` set renamed) added,
          sd_removed = filter (\<lambda>n. n \<notin> fst ` set renamed) removed,
          sd_renamed = renamed,
          sd_type_changed = map (\<lambda>n. (n, field_type old n, field_type new n))
            (filter (\<lambda>n. field_type old n \<noteq> field_type new n) common),
          sd_required_added = sorted_minus (sh_required observed) (sh_required baseline),
          sd_required_removed = sorted_minus (sh_required baseline) (sh_required observed)\<rparr>)"

section \<open>Observations\<close>

definition new_tool :: "string \<Rightarrow> tool_shape \<Rightarrow> string \<Rightarrow> tool_entry" where
  "new_tool n shape now = \<lparr>te_name = n, te_state = Drift_discovered, te_sensitivity = None,
     te_source = None, te_previous = None, te_baseline = no_shape, te_observed = shape,
     te_diff = None, te_description_changed = False, te_reappeared = False,
     te_first_seen_at = now, te_last_seen_at = now, te_state_since = now\<rparr>"

definition observed_again :: "tool_entry \<Rightarrow> tool_shape \<Rightarrow> string \<Rightarrow> tool_entry" where
  "observed_again prior shape now =
     (let e = prior\<lparr>te_observed := shape, te_last_seen_at := now\<rparr> in
      if te_state prior \<in> {Drift_missing, Drift_retired} then
        e\<lparr>te_state := Drift_discovered, te_state_since := now, te_sensitivity := None,
          te_source := None,
          te_previous := (if te_previous prior \<notin> {None, Some []} then te_previous prior
                          else te_sensitivity prior),
          te_reappeared := True, te_diff := None, te_description_changed := False\<rparr>
      else if te_state prior = Drift_discovered then
        e\<lparr>te_diff := None, te_description_changed := False\<rparr>
      else let diff = diff_shapes (te_baseline prior) shape;
               described = sh_description (te_baseline prior) \<noteq> sh_description shape
           in if diff_is_empty diff \<and> \<not> described then
                e\<lparr>te_state := Drift_active,
                  te_state_since := (if te_state prior = Drift_active then te_state_since prior
                                     else now),
                  te_diff := None, te_description_changed := False\<rparr>
              else
                e\<lparr>te_state := Drift_changed,
                  te_state_since := (if te_state prior = Drift_changed then te_state_since prior
                                     else now),
                  te_diff := Some diff, te_description_changed := described\<rparr>)"

definition absent_tool :: "string \<Rightarrow> tool_entry \<Rightarrow> tool_entry" where
  "absent_tool now prior =
     (if te_state prior \<in> {Drift_retired, Drift_missing} then prior
      else prior\<lparr>te_state := Drift_missing, te_state_since := now, te_sensitivity := None,
        te_source := None,
        te_previous := (if te_sensitivity prior \<notin> {None, Some []} then te_sensitivity prior
                        else te_previous prior),
        te_diff := None, te_description_changed := False, te_reappeared := False\<rparr>)"

definition entry_named :: "string \<Rightarrow> tool_entry list \<Rightarrow> tool_entry option" where
  "entry_named n es = find (\<lambda>e. te_name e = n) (rev es)"

definition observe_tool :: "tool_entry list \<Rightarrow> string \<Rightarrow> string \<times> tool_shape \<Rightarrow> tool_entry" where
  "observe_tool previous now x =
     (case x of (n, shape) \<Rightarrow>
        case entry_named n previous of
          None \<Rightarrow> new_tool n shape now
        | Some prior \<Rightarrow> observed_again prior shape now)"

text \<open>The observed items that make an entry: named, and the first of their name.\<close>

fun first_named :: "string set \<Rightarrow> (string \<times> 'a) list \<Rightarrow> (string \<times> 'a) list" where
  "first_named seen [] = []"
| "first_named seen (x # xs) =
     (if fst x = [] \<or> fst x \<in> seen then first_named seen xs
      else x # first_named (insert (fst x) seen) xs)"

definition reconcile ::
  "tool_entry list \<Rightarrow> (string \<times> tool_shape) list \<Rightarrow> string \<Rightarrow> tool_entry list" where
  "reconcile previous observed now =
     (let found = first_named {} observed in
      sort_key te_name
        (map (observe_tool previous now) found @
         map (absent_tool now) (filter (\<lambda>e. te_name e \<notin> fst ` set found) previous)))"

text \<open>\<open>(sensitivity or "").strip().upper() or None\<close>\<close>

definition tag_of :: "string option \<Rightarrow> string option" where
  "tag_of raw = (let t = upper (strip (str_field raw)) in if t = [] then None else Some t)"

definition source_of_tag :: "string option \<Rightarrow> string option \<Rightarrow> string option" where
  "source_of_tag tag source =
     (case tag of
        None \<Rightarrow> None
      | Some _ \<Rightarrow> (case normalize_source source of None \<Rightarrow> Some ''unknown'' | Some s \<Rightarrow> Some s))"

definition seed_tool ::
  "(string, string option) dict \<Rightarrow> string \<Rightarrow> string \<times> tool_shape \<times> string option \<Rightarrow> tool_entry" where
  "seed_tool sources now x =
     (case x of (n, shape, sensitivity) \<Rightarrow>
        let tag = tag_of sensitivity in
        (new_tool n shape now)\<lparr>
          te_state := (if tag \<noteq> None then Drift_active else Drift_discovered),
          te_sensitivity := tag,
          te_source := source_of_tag tag (case dget sources n of None \<Rightarrow> None | Some s \<Rightarrow> s),
          te_baseline := (if tag \<noteq> None then shape else no_shape)\<rparr>)"

definition seed ::
  "(string \<times> tool_shape \<times> string option) list \<Rightarrow> string \<Rightarrow> (string, string option) dict
     \<Rightarrow> tool_entry list" where
  "seed tools now sources = sort_key te_name (map (seed_tool sources now) (first_named {} tools))"

text \<open>The confirmation of a tag by an administrator; \<open>Inl\<close> is \<open>ValueError\<close>.\<close>

definition confirm_sensitivity ::
  "tool_entry \<Rightarrow> string option \<Rightarrow> string \<Rightarrow> string \<Rightarrow> drift_state + tool_entry" where
  "confirm_sensitivity e tag source now =
     (if te_state e \<in> {Drift_missing, Drift_retired} then Inl (te_state e)
      else let t = tag_of tag;
               st = (if t \<noteq> None then Drift_active else Drift_discovered)
           in Inr (e\<lparr>te_state := st,
                te_state_since := (if st = te_state e then te_state_since e else now),
                te_sensitivity := t, te_source := source_of_tag t (Some source),
                te_baseline := (if t \<noteq> None then te_observed e else no_shape),
                te_diff := None, te_description_changed := False, te_reappeared := False,
                te_previous := (if t \<noteq> None then te_previous e else te_sensitivity e)\<rparr>))"

section \<open>The stored form\<close>

definition opt_json :: "string option \<Rightarrow> json" where
  "opt_json x = (case x of None \<Rightarrow> JNull | Some s \<Rightarrow> JStr s)"

definition strs_json :: "string list \<Rightarrow> json" where
  "strs_json xs = JArr (map JStr xs)"

definition text_at :: "(json \<Rightarrow> string) \<Rightarrow> (string \<times> json) list \<Rightarrow> string \<Rightarrow> string" where
  "text_at repr kvs k = py_str repr (j_or (jget kvs k) (JStr []))"

text \<open>\<open>data.get(k) or None\<close>; what is stored there is text.\<close>

definition opt_at :: "(json \<Rightarrow> string) \<Rightarrow> (string \<times> json) list \<Rightarrow> string \<Rightarrow> string option" where
  "opt_at repr kvs k = (if truthy (jget kvs k) then Some (py_str repr (jget kvs k)) else None)"

definition strs_at :: "(json \<Rightarrow> string) \<Rightarrow> (string \<times> json) list \<Rightarrow> string \<Rightarrow> string list" where
  "strs_at repr kvs k = map (py_str repr) (arr_of (jget kvs k))"

definition shape_to_json :: "tool_shape \<Rightarrow> json" where
  "shape_to_json s = JObj [(''description'', JStr (sh_description s)),
     (''fields'', JObj (map (map_prod id JStr) (sh_fields s))),
     (''required'', strs_json (sh_required s))]"

definition shape_from_json :: "(json \<Rightarrow> string) \<Rightarrow> json \<Rightarrow> tool_shape" where
  "shape_from_json repr j =
     (case j of
        JObj kvs \<Rightarrow> \<lparr>sh_description = text_at repr kvs ''description'',
          sh_fields = dict_of (map (map_prod id (py_str repr)) (obj_of (jget kvs ''fields''))),
          sh_required = strs_at repr kvs ''required''\<rparr>
      | _ \<Rightarrow> no_shape)"

definition diff_to_json :: "schema_diff \<Rightarrow> json" where
  "diff_to_json d = JObj [(''added'', strs_json (sd_added d)), (''removed'', strs_json (sd_removed d)),
     (''renamed'', JArr (map (\<lambda>(a, b). strs_json [a, b]) (sd_renamed d))),
     (''type_changed'', JArr (map (\<lambda>(n, a, b). strs_json [n, a, b]) (sd_type_changed d))),
     (''required_added'', strs_json (sd_required_added d)),
     (''required_removed'', strs_json (sd_required_removed d))]"

definition pair_from_json :: "(json \<Rightarrow> string) \<Rightarrow> json \<Rightarrow> (string \<times> string) option" where
  "pair_from_json repr j =
     (case j of JArr [a, b] \<Rightarrow> Some (py_str repr a, py_str repr b) | _ \<Rightarrow> None)"

definition triple_from_json :: "(json \<Rightarrow> string) \<Rightarrow> json \<Rightarrow> (string \<times> string \<times> string) option" where
  "triple_from_json repr j =
     (case j of JArr [a, b, c] \<Rightarrow> Some (py_str repr a, py_str repr b, py_str repr c) | _ \<Rightarrow> None)"

definition diff_from_json :: "(json \<Rightarrow> string) \<Rightarrow> json \<Rightarrow> schema_diff option" where
  "diff_from_json repr j =
     (case j of
        JObj kvs \<Rightarrow> Some \<lparr>sd_added = strs_at repr kvs ''added'',
          sd_removed = strs_at repr kvs ''removed'',
          sd_renamed = List.map_filter (pair_from_json repr) (arr_of (jget kvs ''renamed'')),
          sd_type_changed = List.map_filter (triple_from_json repr) (arr_of (jget kvs ''type_changed'')),
          sd_required_added = strs_at repr kvs ''required_added'',
          sd_required_removed = strs_at repr kvs ''required_removed''\<rparr>
      | _ \<Rightarrow> None)"

definition entry_to_json :: "tool_entry \<Rightarrow> (string \<times> json) list" where
  "entry_to_json e = [(''tool_name'', JStr (te_name e)),
     (''state'', JStr (drift_value (te_state e))),
     (''sensitivity'', opt_json (te_sensitivity e)),
     (''sensitivity_source'', opt_json (te_source e)),
     (''previous_sensitivity'', opt_json (te_previous e)),
     (''baseline'', shape_to_json (te_baseline e)), (''observed'', shape_to_json (te_observed e)),
     (''diff'', case te_diff e of None \<Rightarrow> JNull | Some d \<Rightarrow> diff_to_json d),
     (''description_changed'', JBool (te_description_changed e)),
     (''reappeared'', JBool (te_reappeared e)),
     (''first_seen_at'', JStr (te_first_seen_at e)), (''last_seen_at'', JStr (te_last_seen_at e)),
     (''state_since'', JStr (te_state_since e))]"

text \<open>\<open>None\<close> is the \<open>ValueError\<close> of an unknown state. An old row of a missing tool may still
  have its tag; it is read as the previous one.\<close>

definition entry_from_json :: "(json \<Rightarrow> string) \<Rightarrow> (string \<times> json) list \<Rightarrow> tool_entry option" where
  "entry_from_json repr kvs =
     map_option (\<lambda>st.
       let stored = opt_at repr kvs ''sensitivity'';
           stale = (st = Drift_missing \<and> stored \<noteq> None);
           tag = (if stale then None else stored);
           raw_source = jget kvs ''sensitivity_source''
       in \<lparr>te_name = text_at repr kvs ''tool_name'', te_state = st, te_sensitivity = tag,
            te_source = source_of_tag tag
              (if raw_source = JNull then None else Some (py_str repr raw_source)),
            te_previous = (if stale then stored else opt_at repr kvs ''previous_sensitivity''),
            te_baseline = shape_from_json repr (jget kvs ''baseline''),
            te_observed = shape_from_json repr (jget kvs ''observed''),
            te_diff = diff_from_json repr (jget kvs ''diff''),
            te_description_changed = truthy (jget kvs ''description_changed''),
            te_reappeared = truthy (jget kvs ''reappeared''),
            te_first_seen_at = text_at repr kvs ''first_seen_at'',
            te_last_seen_at = text_at repr kvs ''last_seen_at'',
            te_state_since = text_at repr kvs ''state_since''\<rparr>)
       (drift_of_value (py_str repr (j_or (jget kvs ''state'') (JStr ''DISCOVERED''))))"

section \<open>The plan of a change of tag\<close>

fun tag_value :: "sensitivity_tag \<Rightarrow> string" where
  "tag_value Tag_READ = ''READ''"
| "tag_value Tag_CREATE = ''CREATE''"
| "tag_value Tag_UPDATE = ''UPDATE''"
| "tag_value Tag_DELETE = ''DELETE''"

definition sensitivity_tags :: "sensitivity_tag list" where
  "sensitivity_tags = [Tag_READ, Tag_CREATE, Tag_UPDATE, Tag_DELETE]"

definition SENSITIVITY_CHOICES :: "string list" where
  "SENSITIVITY_CHOICES = map tag_value sensitivity_tags"

datatype change_rejection = Invalid_sensitivity | Tool_not_present | Reason_required

definition normalize_tag :: "string option \<Rightarrow> change_rejection + string option" where
  "normalize_tag raw =
     (case raw of
        None \<Rightarrow> Inr None
      | Some r \<Rightarrow>
          let t = upper (strip r) in
          if t = [] then Inr None
          else if t \<notin> set SENSITIVITY_CHOICES then Inl Invalid_sensitivity else Inr (Some t))"

definition groups_allowing :: "string option \<Rightarrow> permission_group list" where
  "groups_allowing tag =
     (if str_field tag = [] then []
      else filter (\<lambda>g. group_allows g (str_field tag)) permission_groups)"

definition tag_rank :: "string option \<Rightarrow> nat option" where
  "tag_rank tag =
     (if str_field tag = [] then None
      else map_option sensitivity_rank
             (find (\<lambda>t. tag_value t = str_field tag) sensitivity_tags))"

definition is_downgrade :: "string option \<Rightarrow> string option \<Rightarrow> bool" where
  "is_downgrade before after =
     (case (tag_rank before, tag_rank after) of
        (Some b, Some a) \<Rightarrow> a < b
      | _ \<Rightarrow> False)"

definition next_state :: "string option \<Rightarrow> drift_state" where
  "next_state tag = (if str_field tag \<noteq> [] then Drift_active else Drift_discovered)"

record change_plan =
  cp_tool_name :: string
  cp_before :: "string option"
  cp_after :: "string option"
  cp_before_source :: "string option"
  cp_after_source :: string
  cp_state_before :: drift_state
  cp_state_after :: drift_state
  cp_groups_before :: "permission_group list"
  cp_groups_after :: "permission_group list"
  cp_groups_gained :: "permission_group list"
  cp_groups_lost :: "permission_group list"
  cp_downgrade :: bool
  cp_reason_required :: bool
  cp_no_op :: bool

definition plan_change :: "tool_entry \<Rightarrow> string option \<Rightarrow> change_rejection + change_plan" where
  "plan_change e tag =
     (if te_state e \<in> {Drift_missing, Drift_retired} then Inl Tool_not_present
      else let before = te_sensitivity e;
               groups_before = (if te_state e \<in> CALLABLE_STATES then groups_allowing before else []);
               groups_after = groups_allowing tag;
               downgrade = is_downgrade before tag
           in Inr \<lparr>cp_tool_name = te_name e, cp_before = before, cp_after = tag,
                cp_before_source = te_source e, cp_after_source = ''admin'',
                cp_state_before = te_state e, cp_state_after = next_state tag,
                cp_groups_before = groups_before, cp_groups_after = groups_after,
                cp_groups_gained = filter (\<lambda>g. g \<notin> set groups_before) groups_after,
                cp_groups_lost = filter (\<lambda>g. g \<notin> set groups_after) groups_before,
                cp_downgrade = downgrade, cp_reason_required = downgrade,
                cp_no_op = (before = tag \<and> te_state e = next_state tag)\<rparr>)"

definition require_reason :: "change_plan \<Rightarrow> string \<Rightarrow> change_rejection + string" where
  "require_reason plan reason =
     (let text = strip reason in
      if cp_reason_required plan \<and> length text < 5 then Inl Reason_required
      else Inr (take 1000 text))"

section \<open>The ledger of one asset\<close>

text \<open>The writes of \<open>drift_service.py\<close> that are no observation: an applied change of tag, and the
  retirement of tools that stayed away after a synchronisation was requested for them. A movement
  that only split a legacy Target leaves the entry of the tool as it was. The change is planned from
  an entry of the ledger, so a missing name writes nothing.\<close>

definition confirm_in_ledger ::
  "bool \<Rightarrow> string \<Rightarrow> string option \<Rightarrow> string \<Rightarrow> tool_entry list \<Rightarrow> tool_entry list" where
  "confirm_in_ledger legacy_split name tag now es =
     (case entry_named name es of
        None \<Rightarrow> es
      | Some e \<Rightarrow>
          (case (if legacy_split then Inr e else confirm_sensitivity e tag ''admin'' now) of
             Inl _ \<Rightarrow> es
           | Inr updated \<Rightarrow>
               sort_key te_name (map (\<lambda>x. if te_name x = name then updated else x) es)))"

definition retire_synchronized ::
  "string set \<Rightarrow> (string \<times> tool_shape) list \<Rightarrow> string \<Rightarrow> tool_entry list \<Rightarrow> tool_entry list" where
  "retire_synchronized missing observed now base =
     (let candidates = filter (\<lambda>e. te_name e \<in> missing \<and> te_state e = Drift_missing) base;
          retired = te_name ` set candidates - fst ` set observed
      in map (\<lambda>e. if te_name e \<in> retired then with_state Drift_retired now e else e)
           (reconcile base observed now))"

text \<open>The seeding of \<open>_seed\<close> from the descriptors of a record and the tools they declare. The descriptor
  of a deployed server is no evidence that a missing tool is back: an entry stays \<open>MISSING\<close> where the
  declared tag and that of the Target with the tool are both the tag it had.\<close>

definition mcp_node :: "json \<Rightarrow> (string \<times> json) list" where
  "mcp_node descriptors =
     (case descriptors of JObj d \<Rightarrow> (case jget d ''mcp'' of JObj mcp \<Rightarrow> mcp | _ \<Rightarrow> []) | _ \<Rightarrow> [])"

definition is_deployed :: "json \<Rightarrow> bool" where
  "is_deployed descriptors \<longleftrightarrow>
     (let mcp = mcp_node descriptors in
      truthy (jget mcp ''sourcePrefix'') \<or> (case jget mcp ''gatewayTargets'' of JArr _ \<Rightarrow> True | _ \<Rightarrow> False))"

definition target_memberships :: "mcp_gateway_target list \<Rightarrow> (string, string) dict" where
  "target_memberships targets =
     dict_of (concat (map (\<lambda>t. map (\<lambda>operation. (operation, mt_sensitivity t)) (mt_operations t)) targets))"

definition preserve_deployed_missing_membership ::
  "json \<Rightarrow> tool_entry list \<Rightarrow> (string, string option) dict \<Rightarrow> tool_entry list \<Rightarrow> tool_entry list" where
  "preserve_deployed_missing_membership descriptors previous declared_sensitivities reconciled =
     (case mcp_gateway_target_index descriptors of
        Inl _ \<Rightarrow> reconciled
      | Inr index \<Rightarrow>
          if \<not> ti_split index then reconciled
          else
            let memberships = target_memberships (ti_targets index) in
            map (\<lambda>e. case entry_named (te_name e) previous of
                None \<Rightarrow> e
              | Some prior \<Rightarrow>
                  if te_state prior = Drift_missing \<and> str_field (te_previous prior) \<noteq> [] \<and>
                     dget memberships (te_name e) = te_previous prior \<and>
                     dget declared_sensitivities (te_name e) = Some (te_previous prior)
                  then prior else e) reconciled)"

definition seed_ledger ::
  "json \<Rightarrow> (string \<times> tool_shape \<times> string option) list \<Rightarrow> string \<Rightarrow> (string, string option) dict
     \<Rightarrow> tool_entry list \<Rightarrow> tool_entry list" where
  "seed_ledger descriptors tools now sources es =
     (if tools = [] then es
      else if es = [] then seed tools now sources
      else
        let entries = reconcile es (map (\<lambda>(n, shape, _). (n, shape)) tools) now in
        if is_deployed descriptors
        then preserve_deployed_missing_membership descriptors es
          (dict_of (map (\<lambda>(n, _, tag). (n, tag)) tools)) entries
        else entries)"

text \<open>Tools as they are declared or listed: name, description, input schema.\<close>

type_synonym listed_tool = "string \<times> string \<times> json"

definition shapes_of :: "(json \<Rightarrow> string) \<Rightarrow> listed_tool list \<Rightarrow> (string \<times> tool_shape) list" where
  "shapes_of repr tools = map (\<lambda>(n, description, schema). (n, shape_of repr description schema)) tools"

datatype drift_op =
    Seed json "(listed_tool \<times> string option) list" string "(string, string option) dict"
  | Observe "listed_tool list" string
  | Confirm bool string "string option" string
  | Retire "string set" "listed_tool list" string

fun drift_step :: "(json \<Rightarrow> string) \<Rightarrow> drift_op \<Rightarrow> tool_entry list \<Rightarrow> tool_entry list" where
  "drift_step repr (Seed descriptors tools now sources) es =
     seed_ledger descriptors (map (\<lambda>((n, description, schema), tag). (n, shape_of repr description schema, tag))
                    tools) now sources es"
| "drift_step repr (Observe tools now) es = reconcile es (shapes_of repr tools) now"
| "drift_step repr (Confirm legacy_split name tag now) es = confirm_in_ledger legacy_split name tag now es"
| "drift_step repr (Retire missing tools now) es =
     retire_synchronized missing (shapes_of repr tools) now es"

end
