(* ===== verification/Drift_Ledger.thy ===== *)
theory Drift_Ledger
  imports Tool_Drift
begin

text \<open>
  What holds of the ledger of tools: its invariant, the transition table of \<open>drift.py\<close>, that an
  observation never gives a tag, that the stored form is read back, and that a plan announces
  what its confirmation does.
\<close>

section \<open>Shapes\<close>

lemma wf_dict_of [simp]: "wf_dict (dict_of kvs)"
proof -
  have "wf_dict d \<Longrightarrow> wf_dict (fold (\<lambda>(k, v). dput k v) kvs d)" for d
    by (induction kvs arbitrary: d) auto
  then show ?thesis by (simp add: dict_of_def)
qed

lemma dput_new: "k \<notin> fst ` set d \<Longrightarrow> dput k v d = d @ [(k, v)]"
  by (induction d) auto

lemma fold_dput_distinct:
  "distinct (map fst kvs) \<Longrightarrow> fst ` set kvs \<inter> fst ` set d = {} \<Longrightarrow>
   fold (\<lambda>(k, v). dput k v) kvs d = d @ kvs"
proof (induction kvs arbitrary: d)
  case (Cons kv kvs)
  obtain k v where [simp]: "kv = (k, v)" by (cases kv)
  from Cons.prems have k: "k \<notin> fst ` set d" "k \<notin> fst ` set kvs" by auto
  have "fold (\<lambda>(k, v). dput k v) kvs (d @ [(k, v)]) = (d @ [(k, v)]) @ kvs"
    using Cons.prems k by (intro Cons.IH) auto
  then show ?case by (simp add: dput_new k)
qed simp

lemma dict_of_wf [simp]: "wf_dict d \<Longrightarrow> dict_of d = d"
  by (simp add: dict_of_def wf_dict_def fold_dput_distinct)

lemma set_sorted_minus [simp]: "set (sorted_minus xs ys) = set xs - set ys"
  by (auto simp: sorted_minus_def)

lemma sorted_minus_Nil_iff [simp]: "sorted_minus xs ys = [] \<longleftrightarrow> set xs \<subseteq> set ys"
  using arg_cong [OF set_sorted_minus [of xs ys], of "\<lambda>s. s = {}"] by (simp only: set_empty) blast

lemma rename_of_type_Nil [simp]: "rename_of_type old new [] added t = []"
  "rename_of_type old new removed [] t = []"
  by (simp_all add: rename_of_type_def split: list.splits)

text \<open>The difference is empty exactly when the fields, their types and what is required agree.\<close>

lemma diff_is_empty_iff:
  "diff_is_empty (diff_shapes b s) \<longleftrightarrow>
     dget (sh_fields b) = dget (sh_fields s) \<and> set (sh_required b) = set (sh_required s)"
proof -
  let ?old = "sh_fields b" let ?new = "sh_fields s"
  let ?added = "sorted_minus (dkeys ?new) (dkeys ?old)"
  let ?removed = "sorted_minus (dkeys ?old) (dkeys ?new)"
  let ?d = "diff_shapes b s"
  have keys: "n \<in> set (dkeys d) \<longleftrightarrow> dget d n \<noteq> None" for n and d :: "(string, string) dict"
    by (simp add: dkeys_def map_of_eq_None_iff)
  have ren: "sd_renamed ?d = [] \<and> sd_added ?d = [] \<and> sd_removed ?d = [] \<longleftrightarrow>
      ?added = [] \<and> ?removed = []"
    by (auto simp: diff_shapes_def Let_def)
  have same: "?added = [] \<and> ?removed = [] \<longleftrightarrow> set (dkeys ?old) = set (dkeys ?new)"
    by auto
  have types: "sd_type_changed ?d = [] \<longleftrightarrow>
      (\<forall>n. n \<in> set (dkeys ?old) \<longrightarrow> n \<in> set (dkeys ?new) \<longrightarrow> field_type ?old n = field_type ?new n)"
    by (auto simp: diff_shapes_def Let_def filter_empty_conv)
  have eq: "set (dkeys ?old) = set (dkeys ?new) \<and>
      (\<forall>n. n \<in> set (dkeys ?old) \<longrightarrow> n \<in> set (dkeys ?new) \<longrightarrow> field_type ?old n = field_type ?new n) \<longleftrightarrow>
      dget ?old = dget ?new"
    (is "?l \<longleftrightarrow> ?r")
  proof
    assume l: ?l
    show ?r
    proof
      fix n
      from l have "dget ?old n \<noteq> None \<longleftrightarrow> dget ?new n \<noteq> None" unfolding keys [symmetric] by blast
      moreover from l have "dget ?old n \<noteq> None \<Longrightarrow> dget ?new n \<noteq> None \<Longrightarrow>
          field_type ?old n = field_type ?new n" unfolding keys [symmetric] by blast
      ultimately show "dget ?old n = dget ?new n"
        by (auto simp: field_type_def split: option.splits)
    qed
  qed (auto simp: keys field_type_def set_eq_iff)
  have req: "sd_required_added ?d = [] \<and> sd_required_removed ?d = [] \<longleftrightarrow>
      set (sh_required b) = set (sh_required s)"
    by (auto simp: diff_shapes_def Let_def)
  show ?thesis
    unfolding diff_is_empty_def using ren same types eq req by blast
qed

definition same_shape :: "tool_shape \<Rightarrow> tool_shape \<Rightarrow> bool" where
  "same_shape b s \<longleftrightarrow> diff_is_empty (diff_shapes b s) \<and> sh_description b = sh_description s"

lemma same_shape_iff:
  "same_shape b s \<longleftrightarrow> dget (sh_fields b) = dget (sh_fields s) \<and>
     set (sh_required b) = set (sh_required s) \<and> sh_description b = sh_description s"
  by (auto simp: same_shape_def diff_is_empty_iff)

lemma same_shape_refl [simp]: "same_shape s s"
  by (simp add: same_shape_iff)

section \<open>Entries\<close>

definition entry_ok :: "tool_entry \<Rightarrow> bool" where
  "entry_ok e \<longleftrightarrow> te_name e \<noteq> [] \<and>
     (te_sensitivity e \<noteq> None \<longleftrightarrow> te_state e \<in> CALLABLE_STATES) \<and>
     te_sensitivity e \<noteq> Some [] \<and> te_previous e \<noteq> Some [] \<and>
     (te_source e \<noteq> None \<longleftrightarrow> te_sensitivity e \<noteq> None) \<and>
     set_option (te_source e) \<subseteq> set source_values \<and>
     (te_reappeared e \<longrightarrow> te_state e = Drift_discovered) \<and>
     (te_state e \<in> CALLABLE_STATES \<longrightarrow>
        (te_state e = Drift_active \<longleftrightarrow> same_shape (te_baseline e) (te_observed e))) \<and>
     te_diff e = (if te_state e = Drift_changed
                  then Some (diff_shapes (te_baseline e) (te_observed e)) else None) \<and>
     te_description_changed e = (te_state e = Drift_changed \<and>
       sh_description (te_baseline e) \<noteq> sh_description (te_observed e)) \<and>
     wf_dict (sh_fields (te_baseline e)) \<and> wf_dict (sh_fields (te_observed e))"

lemma wf_no_shape [simp]: "wf_dict (sh_fields no_shape)"
  by (simp add: no_shape_def)

lemma source_of_tag_ok [simp]:
  "source_of_tag tag source = None \<longleftrightarrow> tag = None"
  "set_option (source_of_tag tag source) \<subseteq> set source_values"
  by (auto simp: source_of_tag_def normalize_source_def source_values_def Let_def
      split: option.splits if_splits)

lemma tag_of_nonempty [simp]: "tag_of raw \<noteq> Some []"
  by (simp add: tag_of_def Let_def)

lemma new_tool_ok: "n \<noteq> [] \<Longrightarrow> wf_dict (sh_fields shape) \<Longrightarrow> entry_ok (new_tool n shape now)"
  by (simp add: entry_ok_def new_tool_def CALLABLE_STATES_def)

lemma observed_again_approved:
  "te_state e \<in> CALLABLE_STATES \<Longrightarrow> observed_again e shape now =
     (let e' = e\<lparr>te_observed := shape, te_last_seen_at := now\<rparr>;
          st = (if same_shape (te_baseline e) shape then Drift_active else Drift_changed)
      in e'\<lparr>te_state := st, te_state_since := (if te_state e = st then te_state_since e else now),
           te_diff := (if st = Drift_changed then Some (diff_shapes (te_baseline e) shape) else None),
           te_description_changed := (sh_description (te_baseline e) \<noteq> sh_description shape)\<rparr>)"
  by (auto simp: observed_again_def same_shape_def CALLABLE_STATES_def Let_def)

lemma observed_again_ok:
  assumes "entry_ok e" "wf_dict (sh_fields shape)"
  shows "entry_ok (observed_again e shape now)"
proof (cases "te_state e \<in> CALLABLE_STATES")
  case True
  have ok: "te_name e \<noteq> []" "te_sensitivity e \<noteq> None" "te_sensitivity e \<noteq> Some []"
    "te_previous e \<noteq> Some []" "te_source e \<noteq> None" "set_option (te_source e) \<subseteq> set source_values"
    "\<not> te_reappeared e" "wf_dict (sh_fields (te_baseline e))"
    using assms(1) True by (auto simp: entry_ok_def CALLABLE_STATES_def)
  show ?thesis
  proof (cases "same_shape (te_baseline e) shape")
    case same: True
    then have "sh_description (te_baseline e) = sh_description shape" by (simp add: same_shape_iff)
    with same ok assms(2) show ?thesis
      by (simp add: observed_again_approved [OF True] entry_ok_def CALLABLE_STATES_def Let_def)
  next
    case False
    with ok assms(2) show ?thesis
      by (simp add: observed_again_approved [OF True] entry_ok_def CALLABLE_STATES_def Let_def)
  qed
next
  case False
  then consider "te_state e = Drift_discovered" | "te_state e \<in> {Drift_missing, Drift_retired}"
    by (cases "te_state e") (auto simp: CALLABLE_STATES_def)
  then show ?thesis
    using assms
    by cases (simp_all add: entry_ok_def observed_again_def CALLABLE_STATES_def Let_def)
qed

lemma absent_tool_ok: "entry_ok e \<Longrightarrow> entry_ok (absent_tool now e)"
  by (cases "te_state e") (auto simp: entry_ok_def absent_tool_def CALLABLE_STATES_def)

lemma seed_tool_ok:
  assumes "n \<noteq> []" "wf_dict (sh_fields shape)"
  shows "entry_ok (seed_tool sources now (n, shape, t))"
  using assms tag_of_nonempty [of t]
  by (cases "tag_of t") (simp_all add: entry_ok_def seed_tool_def new_tool_def
      CALLABLE_STATES_def Let_def)

lemma confirm_ok:
  assumes "entry_ok e" "confirm_sensitivity e tag source now = Inr e'"
  shows "entry_ok e'"
proof -
  from assms(2) have "te_state e \<notin> {Drift_missing, Drift_retired}"
    by (auto simp: confirm_sensitivity_def)
  moreover from assms(1) have "te_name e \<noteq> []" "te_sensitivity e \<noteq> Some []" "te_previous e \<noteq> Some []"
    "wf_dict (sh_fields (te_baseline e))" "wf_dict (sh_fields (te_observed e))"
    by (simp_all add: entry_ok_def)
  moreover note tag_of_nonempty [of tag]
  ultimately show ?thesis
    using assms(2)
    by (cases "tag_of tag") (clarsimp simp: confirm_sensitivity_def entry_ok_def
        CALLABLE_STATES_def Let_def simp del: not_None_eq)+
qed

lemma retired_ok: "entry_ok e \<Longrightarrow> te_state e = Drift_missing \<Longrightarrow> entry_ok (with_state Drift_retired now e)"
  by (auto simp: entry_ok_def with_state_def CALLABLE_STATES_def)

section \<open>The ledger\<close>

definition drift_wf :: "tool_entry list \<Rightarrow> bool" where
  "drift_wf es \<longleftrightarrow> sorted (map te_name es) \<and> distinct (map te_name es) \<and> list_all entry_ok es"

lemma entry_namedD: "entry_named n es = Some e \<Longrightarrow> e \<in> set es \<and> te_name e = n"
  unfolding entry_named_def by (auto simp: find_Some_iff) (metis nth_mem set_rev length_rev)

lemma entry_named_iff:
  assumes "distinct (map te_name es)"
  shows "entry_named n es = Some e \<longleftrightarrow> e \<in> set es \<and> te_name e = n"
proof
  assume "entry_named n es = Some e"
  then show "e \<in> set es \<and> te_name e = n" by (rule entry_namedD)
next
  assume e: "e \<in> set es \<and> te_name e = n"
  then obtain e' where e': "entry_named n es = Some e'"
    unfolding entry_named_def by (metis (mono_tags) find_None_iff not_None_eq set_rev)
  then have "e' \<in> set es" "te_name e' = n" by (simp_all add: entry_namedD)
  with e assms have "e' = e" by (auto simp: distinct_map inj_on_def)
  with e' show "entry_named n es = Some e" by simp
qed

lemma first_named_names: "fst ` set (first_named seen xs) = fst ` set xs - seen - {[]}"
  by (induction xs arbitrary: seen) auto

lemma first_named_distinct: "distinct (map fst (first_named seen xs))"
  by (induction xs arbitrary: seen) (auto simp: first_named_names)

lemma first_named_mem: "x \<in> set (first_named seen xs) \<Longrightarrow> x \<in> set xs"
  by (induction xs arbitrary: seen) (auto split: if_splits)

lemma first_named_get:
  "dget (first_named seen xs) n = (if n = [] \<or> n \<in> seen then None else dget xs n)"
  by (induction xs arbitrary: seen) auto

lemma te_name_step [simp]:
  "te_name (new_tool n shape now) = n" "te_name (observed_again e shape now) = te_name e"
  "te_name (absent_tool now e) = te_name e" "te_name (with_state st now e) = te_name e"
  "te_name (seed_tool sources now x) = fst x"
  by (simp_all add: new_tool_def observed_again_def absent_tool_def with_state_def seed_tool_def
      Let_def split: prod.split)

lemma te_name_observe [simp]: "te_name (observe_tool es now x) = fst x"
  by (auto simp: observe_tool_def dest: entry_namedD split: prod.split option.split)

lemma distinct_map_sort: "distinct (map f (sort_key f xs)) = distinct (map f xs)"
  by (simp add: distinct_map)

lemma names_reconcile:
  assumes "distinct (map te_name es)"
  shows "distinct (map te_name (reconcile es obs now))" "sorted (map te_name (reconcile es obs now))"
proof -
  have "distinct (map te_name (map (observe_tool es now) (first_named {} obs) @
      map (absent_tool now) (filter (\<lambda>e. te_name e \<notin> fst ` set (first_named {} obs)) es)))"
    using assms first_named_distinct [of "{}" obs]
    by (auto simp: comp_def distinct_map_filter) force
  then show "distinct (map te_name (reconcile es obs now))"
    by (simp only: reconcile_def Let_def distinct_map_sort)
  show "sorted (map te_name (reconcile es obs now))"
    by (simp add: reconcile_def Let_def)
qed

text \<open>What a name stands for after an observation.\<close>

definition seen_shape :: "(string \<times> tool_shape) list \<Rightarrow> string \<Rightarrow> tool_shape option" where
  "seen_shape obs n = (if n = [] then None else dget obs n)"

lemma reconcile_named:
  assumes "distinct (map te_name es)"
  shows "entry_named n (reconcile es obs now) =
    (case seen_shape obs n of
       Some shape \<Rightarrow> Some (observe_tool es now (n, shape))
     | None \<Rightarrow> map_option (absent_tool now) (entry_named n es))"
proof -
  let ?found = "first_named {} obs"
  have found: "(n, shape) \<in> set ?found \<longleftrightarrow> seen_shape obs n = Some shape" for shape
    unfolding map_of_eq_Some_iff [OF first_named_distinct, symmetric] first_named_get
    by (simp add: seen_shape_def)
  have name: "n \<in> fst ` set ?found \<longleftrightarrow> seen_shape obs n \<noteq> None"
    using found by force
  have mem: "e \<in> set (reconcile es obs now) \<and> te_name e = n \<longleftrightarrow>
      (\<exists>shape. seen_shape obs n = Some shape \<and> e = observe_tool es now (n, shape)) \<or>
      (seen_shape obs n = None \<and> (\<exists>e0 \<in> set es. te_name e0 = n \<and> e = absent_tool now e0))" for e
    using found name by (auto simp: reconcile_def Let_def image_iff)
  note iff = entry_named_iff [OF names_reconcile(1) [OF assms]]
  show ?thesis
  proof (cases "seen_shape obs n")
    case (Some shape)
    then have "entry_named n (reconcile es obs now) = Some (observe_tool es now (n, shape))"
      unfolding iff mem by simp
    with Some show ?thesis by simp
  next
    case None
    show ?thesis
    proof (cases "entry_named n es")
      case N: None
      then have "\<not> (\<exists>e0 \<in> set es. te_name e0 = n)"
        using entry_named_iff [OF assms, of n] by (metis not_Some_eq)
      then have "entry_named n (reconcile es obs now) = None"
        using iff [of n] mem None by (metis not_Some_eq option.distinct(1))
      with None N show ?thesis by simp
    next
      case (Some e0)
      then have "entry_named n (reconcile es obs now) = Some (absent_tool now e0)"
        unfolding iff mem using None entry_named_iff [OF assms, of n e0] by auto
      with None Some show ?thesis by simp
    qed
  qed
qed

definition shapes_wf :: "(string \<times> tool_shape) list \<Rightarrow> bool" where
  "shapes_wf obs \<longleftrightarrow> (\<forall>x \<in> set obs. wf_dict (sh_fields (snd x)))"

lemma shape_of_wf [simp]: "wf_dict (sh_fields (shape_of repr d j))"
  by (simp add: shape_of_def Let_def)

lemma shapes_of_wf [simp]: "shapes_wf (shapes_of repr tools)"
  by (auto simp: shapes_wf_def shapes_of_def)

lemma drift_wfD:
  "drift_wf es \<Longrightarrow> distinct (map te_name es)" "drift_wf es \<Longrightarrow> e \<in> set es \<Longrightarrow> entry_ok e"
  by (simp_all add: drift_wf_def list_all_iff)

lemma observe_tool_ok:
  assumes "drift_wf es" "n \<noteq> []" "wf_dict (sh_fields shape)"
  shows "entry_ok (observe_tool es now (n, shape))"
proof (cases "entry_named n es")
  case None
  with assms show ?thesis by (simp add: observe_tool_def new_tool_ok)
next
  case (Some e)
  with assms show ?thesis
    by (simp add: observe_tool_def observed_again_ok drift_wfD(2) entry_namedD)
qed

lemma reconcile_wf:
  assumes "drift_wf es" "shapes_wf obs"
  shows "drift_wf (reconcile es obs now)"
proof -
  have "entry_ok e" if "e \<in> set (reconcile es obs now)" for e
  proof -
    from that consider n shape where "e = observe_tool es now (n, shape)"
        "(n, shape) \<in> set (first_named {} obs)"
      | e0 where "e = absent_tool now e0" "e0 \<in> set es"
      by (auto simp: reconcile_def Let_def)
    then show ?thesis
    proof cases
      case 1
      then have "(n, shape) \<in> set obs" "n \<noteq> []"
        using first_named_mem first_named_names [of "{}" obs] by (force simp: image_iff)+
      with 1 assms show ?thesis by (auto simp: shapes_wf_def intro!: observe_tool_ok)
    next
      case 2
      with assms show ?thesis by (simp add: absent_tool_ok drift_wfD(2))
    qed
  qed
  with names_reconcile [OF drift_wfD(1) [OF assms(1)], of obs now] show ?thesis
    by (simp add: drift_wf_def list_all_iff)
qed

lemma seed_wf:
  assumes "\<forall>x \<in> set tools. wf_dict (sh_fields (fst (snd x)))"
  shows "drift_wf (seed tools now sources)"
proof -
  have "entry_ok (seed_tool sources now x)" if "x \<in> set (first_named {} tools)" for x
  proof -
    obtain n shape t where x: "x = (n, shape, t)" by (cases x)
    with that have "n \<noteq> []" "x \<in> set tools"
      using first_named_mem [OF that] first_named_names [of "{}" tools] by (force simp: image_iff)+
    with x assms show ?thesis by (auto intro!: seed_tool_ok)
  qed
  moreover have "distinct (map te_name (map (seed_tool sources now) (first_named {} tools)))"
    using first_named_distinct [of "{}" tools] by (simp add: comp_def)
  ultimately show ?thesis
    by (auto simp: drift_wf_def list_all_iff seed_def distinct_map_sort simp del: map_map)
qed

lemma confirm_name: "confirm_sensitivity e tag source now = Inr e' \<Longrightarrow> te_name e' = te_name e"
  by (auto simp: confirm_sensitivity_def Let_def split: if_splits)

lemma confirm_in_ledger_wf:
  assumes "drift_wf es"
  shows "drift_wf (confirm_in_ledger legacy_split n tag now es)"
proof -
  { fix e e'
    assume e: "entry_named n es = Some e"
      and e': "(if legacy_split then Inr e else confirm_sensitivity e tag ''admin'' now) = Inr e'"
    let ?f = "\<lambda>x. if te_name x = n then e' else x"
    have ok: "entry_ok e'" "te_name e' = n"
      using e' confirm_ok [of e tag "''admin''" now e'] confirm_name [of e tag "''admin''" now e']
        entry_namedD [OF e] drift_wfD(2) [OF assms]
      by (simp_all split: if_splits)
    then have "map te_name (map ?f es) = map te_name es" by simp
    then have "distinct (map te_name (map ?f es))" using assms by (simp only: drift_wfD(1))
    with ok(1) have "drift_wf (sort_key te_name (map ?f es))"
      using drift_wfD(2) [OF assms]
      by (auto simp: drift_wf_def list_all_iff distinct_map_sort simp del: map_map) }
  with assms show ?thesis
    by (auto simp: confirm_in_ledger_def split: option.split sum.split)
qed

lemma retire_synchronized_wf:
  assumes "drift_wf es" "shapes_wf obs"
  shows "drift_wf (retire_synchronized missing obs now es)"
proof -
  let ?es = "reconcile es obs now"
  note wf = reconcile_wf [OF assms, of now]
  have "te_state e = Drift_missing"
    if "e \<in> set ?es" "e0 \<in> set es" "te_name e0 = te_name e" "te_state e0 = Drift_missing"
      "te_name e \<notin> fst ` set obs" for e e0
  proof -
    have "seen_shape obs (te_name e) = None"
      using that(5) by (auto simp: seen_shape_def map_of_eq_None_iff)
    moreover have "entry_named (te_name e) es = Some e0"
      using that by (simp add: entry_named_iff [OF drift_wfD(1) [OF assms(1)]])
    moreover have "entry_named (te_name e) ?es = Some e"
      using that by (simp add: entry_named_iff [OF drift_wfD(1) [OF wf]])
    ultimately have "e = absent_tool now e0"
      by (simp add: reconcile_named [OF drift_wfD(1) [OF assms(1)]])
    with that(4) show ?thesis by (simp add: absent_tool_def)
  qed
  then have "entry_ok e" if "e \<in> set (retire_synchronized missing obs now es)" for e
    using that drift_wfD(2) [OF wf]
    by (auto simp: retire_synchronized_def Let_def intro!: retired_ok split: if_splits)
  moreover have "map te_name (retire_synchronized missing obs now es) = map te_name ?es"
    by (simp add: retire_synchronized_def Let_def)
  ultimately show ?thesis
    using wf by (simp add: drift_wf_def list_all_iff)
qed

lemma preserve_wf:
  assumes "drift_wf es" "drift_wf es'"
  shows "drift_wf (preserve_deployed_missing_membership descriptors es declared es')"
proof (cases "\<exists>index. mcp_gateway_target_index descriptors = Inr index \<and> ti_split index")
  case True
  then obtain index where index: "mcp_gateway_target_index descriptors = Inr index" "ti_split index" by blast
  define kept where "kept = (\<lambda>e. case entry_named (te_name e) es of None \<Rightarrow> e | Some prior \<Rightarrow>
      if te_state prior = Drift_missing \<and> str_field (te_previous prior) \<noteq> [] \<and>
         dget (target_memberships (ti_targets index)) (te_name e) = te_previous prior \<and>
         dget declared (te_name e) = Some (te_previous prior) then prior else e)"
  have prior: "te_name p = te_name e \<and> entry_ok p" if "entry_named (te_name e) es = Some p" for e p
    using entry_namedD [OF that] drift_wfD(2) [OF assms(1)] by blast
  have kept: "te_name (kept e) = te_name e" "entry_ok e \<Longrightarrow> entry_ok (kept e)" for e
    by (cases "entry_named (te_name e) es"; simp add: kept_def prior)+
  have eq: "preserve_deployed_missing_membership descriptors es declared es' = map kept es'"
    using index by (simp add: preserve_deployed_missing_membership_def kept_def)
  have "map te_name (map kept es') = map te_name es'" using kept(1) by simp
  moreover have "list_all entry_ok (map kept es')"
    using kept(2) drift_wfD(2) [OF assms(2)] by (auto simp: list_all_iff)
  ultimately show ?thesis
    using assms(2) unfolding eq by (simp add: drift_wf_def del: map_map)
qed (use assms in \<open>auto simp: preserve_deployed_missing_membership_def split: sum.split\<close>)

lemma seed_ledger_wf:
  assumes "drift_wf es" "\<forall>x \<in> set tools. wf_dict (sh_fields (fst (snd x)))"
  shows "drift_wf (seed_ledger descriptors tools now sources es)"
proof -
  have "shapes_wf (map (\<lambda>(n, shape, _). (n, shape)) tools)"
    using assms(2) by (auto simp: shapes_wf_def)
  note again = reconcile_wf [OF assms(1) this, of now]
  show ?thesis
  proof (cases "tools = [] \<or> es = []")
    case True
    then show ?thesis using assms seed_wf [OF assms(2)] by (auto simp: seed_ledger_def)
  next
    case False
    then show ?thesis using again preserve_wf [OF assms(1) again] by (simp add: seed_ledger_def Let_def)
  qed
qed

lemma drift_wf_step: "drift_wf es \<Longrightarrow> drift_wf (drift_step repr op es)"
  by (cases op)
    (auto intro!: seed_ledger_wf reconcile_wf confirm_in_ledger_wf retire_synchronized_wf)

interpretation drift: transition_system "drift_step repr" drift_wf for repr
  by unfold_locales (rule drift_wf_step)

lemma drift_wf_Nil [simp]: "drift_wf []"
  by (simp add: drift_wf_def)

section \<open>Observations\<close>

text \<open>The table at the head of \<open>drift.py\<close>: the state before, whether the tool was listed, and whether
  its shape is the approved one.\<close>

fun documented_state :: "drift_state option \<Rightarrow> bool \<Rightarrow> bool \<Rightarrow> drift_state option" where
  "documented_state None seen same = (if seen then Some Drift_discovered else None)"
| "documented_state (Some Drift_active) seen same =
     Some (if \<not> seen then Drift_missing else if same then Drift_active else Drift_changed)"
| "documented_state (Some Drift_discovered) seen same =
     Some (if seen then Drift_discovered else Drift_missing)"
| "documented_state (Some Drift_changed) seen same =
     Some (if seen then Drift_changed else Drift_missing)"
| "documented_state (Some Drift_missing) seen same =
     Some (if seen then Drift_discovered else Drift_missing)"
| "documented_state (Some Drift_retired) seen same =
     Some (if seen then Drift_discovered else Drift_retired)"

lemma observed_again_state:
  "te_state (observed_again e shape now) =
     (if te_state e \<in> CALLABLE_STATES then
        (if same_shape (te_baseline e) shape then Drift_active else Drift_changed)
      else Drift_discovered)"
  by (cases "te_state e")
    (simp_all add: observed_again_def same_shape_def CALLABLE_STATES_def Let_def)

lemma entry_ok_tag: "entry_ok e \<Longrightarrow> te_sensitivity e = Some t \<Longrightarrow> te_state e \<in> CALLABLE_STATES"
  by (simp add: entry_ok_def)

lemma observed_again_tag:
  "te_sensitivity (observed_again e shape now) = Some t \<longleftrightarrow>
     te_sensitivity e = Some t \<and> te_state e \<notin> {Drift_missing, Drift_retired}"
  "te_state e \<notin> {Drift_missing, Drift_retired} \<Longrightarrow> te_source (observed_again e shape now) = te_source e"
  "te_baseline (observed_again e shape now) = te_baseline e"
  by (simp_all add: observed_again_def Let_def)

lemma absent_tool_state:
  "te_state (absent_tool now e) = (if te_state e = Drift_retired then Drift_retired else Drift_missing)"
  by (simp add: absent_tool_def)

text \<open>An observation follows the documented table, for every name, with one exception: a
  changed tool whose approved shape is back becomes active again by itself, where the table says
  that it stays changed until an administrator confirms it.\<close>

theorem reconcile_follows_table:
  assumes "drift_wf es"
    and "same = (\<exists>e s. entry_named n es = Some e \<and> seen_shape obs n = Some s \<and>
      same_shape (te_baseline e) s)"
  shows "map_option te_state (entry_named n (reconcile es obs now)) =
    (if map_option te_state (entry_named n es) = Some Drift_changed \<and> same then Some Drift_active
     else documented_state (map_option te_state (entry_named n es)) (seen_shape obs n \<noteq> None) same)"
proof (cases "entry_named n es")
  case None
  then show ?thesis
    by (simp add: reconcile_named [OF drift_wfD(1) [OF assms(1)]] observe_tool_def new_tool_def
        split: option.split)
next
  case (Some e)
  then show ?thesis
    by (cases "te_state e"; cases "seen_shape obs n")
      (simp_all add: reconcile_named [OF drift_wfD(1) [OF assms(1)]] observe_tool_def assms(2)
        observed_again_state absent_tool_state CALLABLE_STATES_def)
qed

definition sample_schema :: json where
  "sample_schema = JObj [(''properties'', JObj [(''id'', JObj [(''type'', JStr ''string'')])])]"

definition sample_tools :: "tool_entry list" where
  "sample_tools = fold (drift_step (\<lambda>_. []))
     [Seed (JObj []) [((''read'', ''d'', sample_schema), Some ''READ'')] ''t0'' [],
      Observe [(''read'', ''new'', sample_schema)] ''t1''] []"

theorem reconcile_follows_table_witness:
  "map_option te_state (entry_named ''read'' sample_tools) = Some Drift_changed \<and>
   map_option te_state (entry_named ''read''
     (reconcile sample_tools (shapes_of (\<lambda>_. []) [(''read'', ''d'', sample_schema)]) ''t2'')) =
   Some Drift_active"
proof -
  let ?obs = "shapes_of (\<lambda>_. []) [(''read'', ''d'', sample_schema)]"
  have wf: "drift_wf sample_tools"
    unfolding sample_tools_def by (rule drift.inv_run) simp
  have c: "map_option te_state (entry_named ''read'' sample_tools) = Some Drift_changed"
    by code_simp
  have "(case (entry_named ''read'' sample_tools, seen_shape ?obs ''read'') of
      (Some e, Some s) \<Rightarrow> diff_is_empty (diff_shapes (te_baseline e) s) \<and>
        sh_description (te_baseline e) = sh_description s
    | _ \<Rightarrow> False)"
    by code_simp
  then have "\<exists>e s. entry_named ''read'' sample_tools = Some e \<and> seen_shape ?obs ''read'' = Some s \<and>
      same_shape (te_baseline e) s"
    by (auto simp: same_shape_def split: option.splits)
  with reconcile_follows_table [OF wf refl, of "''read''" ?obs "''t2''"] c show ?thesis by simp
qed

lemma tag_kept_by_observation:
  assumes "drift_wf es" "e \<in> set (reconcile es obs now)" "te_sensitivity e = Some t"
  shows "te_name e \<in> fst ` set obs \<and>
    (\<exists>e0 \<in> set es. te_name e0 = te_name e \<and> te_sensitivity e0 = Some t \<and>
       te_source e0 = te_source e \<and> te_baseline e0 = te_baseline e)"
proof -
  note d = drift_wfD(1) [OF assms(1)]
  let ?n = "te_name e"
  have n: "entry_named ?n (reconcile es obs now) = Some e"
    using assms(2) by (simp add: entry_named_iff [OF names_reconcile(1) [OF d]])
  show ?thesis
  proof (cases "seen_shape obs ?n")
    case None
    with n obtain e0 where e0: "entry_named ?n es = Some e0" "e = absent_tool now e0"
      by (auto simp: reconcile_named [OF d])
    with assms(3) have "te_sensitivity e0 = Some t" "te_state e0 \<in> {Drift_missing, Drift_retired}"
      by (auto simp: absent_tool_def split: if_splits)
    moreover have "entry_ok e0" using entry_namedD [OF e0(1)] drift_wfD(2) [OF assms(1)] by blast
    ultimately have "te_state e0 \<in> CALLABLE_STATES" "te_state e0 \<in> {Drift_missing, Drift_retired}"
      by (simp_all add: entry_ok_tag)
    then have False by (auto simp: CALLABLE_STATES_def)
    then show ?thesis ..
  next
    case (Some shape)
    then have "?n \<in> fst ` set obs"
      by (auto simp: seen_shape_def dest: map_of_SomeD split: if_splits) (force dest: map_of_SomeD)
    moreover from Some n have e: "e = observe_tool es now (?n, shape)"
      by (simp add: reconcile_named [OF d])
    have "te_sensitivity (observe_tool es now (?n, shape)) = Some t"
      using assms(3) e by simp
    then obtain e0 where e0: "entry_named ?n es = Some e0"
      by (cases "entry_named ?n es") (simp_all add: observe_tool_def new_tool_def)
    moreover have "te_sensitivity (observed_again e0 shape now) = Some t"
      "te_source e = te_source (observed_again e0 shape now)"
      "te_baseline e = te_baseline (observed_again e0 shape now)"
      using assms(3) e e0 by (simp_all add: observe_tool_def)
    then have "te_sensitivity e0 = Some t" "te_source e0 = te_source e"
      "te_baseline e0 = te_baseline e"
      by (simp_all add: observed_again_tag)
    ultimately show ?thesis using entry_namedD [OF e0] by blast
  qed
qed

lemma fst_shapes_of [simp]: "fst ` set (shapes_of repr tools) = fst ` set tools"
  by (force simp: shapes_of_def)

text \<open>C34: An observation never opens a tool. However often the list of tools is read, a tool that
  has a tag afterwards had the same tag, from the same source and for the same approved shape,
  before, and was listed every time in between: a tool that was away once has no tag until an
  administrator gives one.\<close>

theorem tag_needs_unbroken_presence:
  assumes "drift_wf es"
    and "e \<in> set (fold (drift_step repr) (map (\<lambda>(tools, now). Observe tools now) history) es)"
    and "te_sensitivity e = Some t"
  shows "list_all (\<lambda>(tools, now). te_name e \<in> fst ` set tools) history \<and>
    (\<exists>e0 \<in> set es. te_name e0 = te_name e \<and> te_sensitivity e0 = Some t \<and>
       te_source e0 = te_source e \<and> te_baseline e0 = te_baseline e)"
  using assms
proof (induction history arbitrary: es)
  case (Cons x history)
  obtain tools now where x: "x = (tools, now)" by (cases x)
  let ?es = "reconcile es (shapes_of repr tools) now"
  have "drift_wf ?es" using Cons.prems(1) by (simp add: reconcile_wf)
  with Cons obtain e1 where "list_all (\<lambda>(tools, now). te_name e \<in> fst ` set tools) history"
    "e1 \<in> set ?es" "te_name e1 = te_name e" "te_sensitivity e1 = Some t"
    "te_source e1 = te_source e" "te_baseline e1 = te_baseline e"
    by (auto simp: x)
  with tag_kept_by_observation [OF Cons.prems(1), of e1 "shapes_of repr tools" now t]
  show ?case by (auto simp: x)
qed auto

definition sample_tool_list :: "listed_tool list" where
  "sample_tool_list = [(''read'', ''d'', sample_schema)]"

theorem tag_needs_unbroken_presence_witness:
  "\<exists>e. entry_named ''read'' (fold (drift_step (\<lambda>_. []))
       (map (\<lambda>(tools, now). Observe tools now) [(sample_tool_list, ''t2'')]) sample_tools) = Some e \<and>
     te_sensitivity e = Some ''READ'' \<and>
     (\<exists>e0. e0 \<in> set sample_tools \<and> te_sensitivity e0 = Some ''READ'' \<and>
        te_baseline e0 = te_baseline e)"
proof -
  let ?es = "fold (drift_step (\<lambda>_. []))
      (map (\<lambda>(tools, now). Observe tools now) [(sample_tool_list, ''t2'')]) sample_tools"
  have wf: "drift_wf sample_tools"
    unfolding sample_tools_def by (rule drift.inv_run) simp
  have "map_option te_sensitivity (entry_named ''read'' ?es) = Some (Some ''READ'')"
    by code_simp
  then obtain e where e: "entry_named ''read'' ?es = Some e" "te_sensitivity e = Some ''READ''"
    by auto
  with tag_needs_unbroken_presence [OF wf conjunct1 [OF entry_namedD [OF e(1)]] e(2)]
  show ?thesis by blast
qed

text \<open>A tool that is missing from a deployed server stays so when the server is seeded again from
  descriptors that still name it under its tag; a connected server's would bring it back.\<close>

lemma missing_survives_redeclaration:
  "map te_state (seed_ledger (JObj [(''mcp'', JObj [(''gatewayTargets'', JArr [JObj
       [(''gatewayTargetName'', JStr ''t-read''), (''gatewayTargetId'', JStr ''1''),
        (''gatewayTargetState'', JStr ''ready''), (''sensitivity'', JStr ''READ''),
        (''operations'', JArr [JStr ''read''])]])])])
     [(''read'', no_shape, Some ''READ'')] ''t2'' [] (reconcile (seed [(''read'', no_shape, Some ''READ'')] ''t0'' []) [] ''t1'')) =
     [Drift_missing] \<and>
   map te_state (seed_ledger (JObj [])
     [(''read'', no_shape, Some ''READ'')] ''t2'' [] (reconcile (seed [(''read'', no_shape, Some ''READ'')] ''t0'' []) [] ''t1'')) =
     [Drift_discovered]"
  by (intro conjI; code_simp)

text \<open>C7: The ledger of an asset's tools is well formed after any sequence of seedings, readings,
  confirmations, legacy splits and retirements, of connected and of deployed servers: one entry per named tool, in order; a tag, and a source of it,
  exactly where the tool was approved; \<open>ACTIVE\<close> exactly when the approved shape is the one last
  seen, and for a changed tool the recorded difference is that between the two.\<close>

theorem reachable_tool_ledger_wf: "drift_wf (fold (drift_step repr) ops [])"
  by (rule drift.inv_run) simp

section \<open>The stored form\<close>

lemma drift_of_drift_value [simp]: "drift_of_value (drift_value st) = Some st"
  by (cases st) (simp_all add: drift_of_value_def drift_states_def)

lemma drift_value_nonempty [simp]: "drift_value st \<noteq> []"
  by (cases st) simp_all

lemma py_str_JStr [simp]: "py_str repr \<circ> JStr = id"
  by (simp add: fun_eq_iff)

lemma py_str_or_empty [simp]: "py_str repr (j_or (JStr s) (JStr [])) = s"
  by (simp add: j_or_def)

lemma strs_json_back [simp]: "map (py_str repr) (arr_of (strs_json xs)) = xs"
  by (simp add: arr_of_def strs_json_def)

lemma field_json_back [simp]: "map_prod id (py_str repr) \<circ> map_prod id JStr = id"
  by (auto simp: fun_eq_iff)

lemma shape_json_back [simp]:
  "wf_dict (sh_fields s) \<Longrightarrow> shape_from_json repr (shape_to_json s) = s"
  by (simp add: shape_from_json_def shape_to_json_def text_at_def strs_at_def jget_def obj_of_def
      prod.map_comp)

lemma pairs_back [simp]:
  "List.map_filter (pair_from_json repr) (map (\<lambda>(a, b). strs_json [a, b]) xs) = xs"
  by (induction xs) (auto simp: pair_from_json_def strs_json_def List.map_filter_simps)

lemma triples_back [simp]:
  "List.map_filter (triple_from_json repr) (map (\<lambda>(n, a, b). strs_json [n, a, b]) xs) = xs"
  by (induction xs) (auto simp: triple_from_json_def strs_json_def List.map_filter_simps)

lemma diff_json_back [simp]: "diff_from_json repr (diff_to_json d) = Some d"
  by (simp add: diff_from_json_def diff_to_json_def strs_at_def jget_def arr_of_def [of "JArr xs" for xs])

lemma normalize_source_value: "s \<in> set source_values \<Longrightarrow> normalize_source (Some s) = Some s"
proof -
  have "list_all (\<lambda>s. normalize_source (Some s) = Some s) source_values" by code_simp
  then show "s \<in> set source_values \<Longrightarrow> normalize_source (Some s) = Some s"
    by (simp add: list_all_iff)
qed

text \<open>A tool's entry is read back as it was stored. For every entry a ledger can hold, what
  \<open>to_dict\<close> writes is what \<open>from_dict\<close> reads.\<close>

theorem stored_entry_roundtrip:
  assumes "entry_ok e"
  shows "entry_from_json repr (entry_to_json e) = Some e"
proof -
  from assms have ok: "te_state e = Drift_missing \<Longrightarrow> te_sensitivity e = None"
    "te_sensitivity e \<noteq> Some []" "te_previous e \<noteq> Some []"
    "te_source e \<noteq> None \<longleftrightarrow> te_sensitivity e \<noteq> None"
    "set_option (te_source e) \<subseteq> set source_values"
    "wf_dict (sh_fields (te_baseline e))" "wf_dict (sh_fields (te_observed e))"
    by (auto simp: entry_ok_def CALLABLE_STATES_def)
  let ?kvs = "entry_to_json e"
  have opt: "opt_at repr ?kvs ''sensitivity'' = te_sensitivity e"
    "opt_at repr ?kvs ''previous_sensitivity'' = te_previous e"
    using ok(2,3) by (auto simp: opt_at_def entry_to_json_def jget_def opt_json_def split: option.split)
  have source: "source_of_tag (te_sensitivity e)
      (if jget ?kvs ''sensitivity_source'' = JNull then None
       else Some (py_str repr (jget ?kvs ''sensitivity_source''))) = te_source e"
    using ok(4,5) by (cases "te_source e")
      (auto simp: entry_to_json_def jget_def opt_json_def source_of_tag_def normalize_source_value)
  have texts: "text_at repr ?kvs ''tool_name'' = te_name e"
    "text_at repr ?kvs ''first_seen_at'' = te_first_seen_at e"
    "text_at repr ?kvs ''last_seen_at'' = te_last_seen_at e"
    "text_at repr ?kvs ''state_since'' = te_state_since e"
    by (simp_all add: text_at_def entry_to_json_def jget_def)
  have rest: "shape_from_json repr (jget ?kvs ''baseline'') = te_baseline e"
    "shape_from_json repr (jget ?kvs ''observed'') = te_observed e"
    "diff_from_json repr (jget ?kvs ''diff'') = te_diff e"
    "truthy (jget ?kvs ''description_changed'') = te_description_changed e"
    "truthy (jget ?kvs ''reappeared'') = te_reappeared e"
    "drift_of_value (py_str repr (j_or (jget ?kvs ''state'') (JStr ''DISCOVERED''))) =
      Some (te_state e)"
    using ok(6,7)
    by (simp_all add: entry_to_json_def jget_def j_or_def diff_from_json_def [of repr JNull]
        split: option.split)
  have stale: "\<not> (te_state e = Drift_missing \<and> te_sensitivity e \<noteq> None)"
    using ok(1) by auto
  show ?thesis
    unfolding entry_from_json_def rest option.map Let_def opt if_not_P [OF stale] source texts
    by simp
qed

theorem stored_entry_roundtrip_witness:
  "map_option (\<lambda>e. entry_from_json (\<lambda>_. []) (entry_to_json e)) (entry_named ''read'' sample_tools) =
   map_option Some (entry_named ''read'' sample_tools)"
proof -
  have wf: "drift_wf sample_tools"
    unfolding sample_tools_def by (rule drift.inv_run) simp
  have "entry_named ''read'' sample_tools \<noteq> None" by code_simp
  then obtain e where e: "entry_named ''read'' sample_tools = Some e" by blast
  then have "entry_ok e" using drift_wfD(2) [OF wf] entry_namedD [OF e] by blast
  with e stored_entry_roundtrip [of e] show ?thesis by simp
qed

section \<open>What a change of tag announces\<close>

lemma upper_Nil [simp]: "upper [] = []"
  by code_simp

lemma tag_of_plan: "normalize_tag raw = Inr tag \<Longrightarrow> tag_of raw = tag"
  by (cases raw) (auto simp: normalize_tag_def tag_of_def Let_def str_field_def split: if_splits)

lemma normalize_tag_choice:
  "normalize_tag raw = Inr tag \<Longrightarrow> tag = None \<or> (\<exists>t. tag = Some t \<and> t \<in> set SENSITIVITY_CHOICES)"
  by (cases raw) (auto simp: normalize_tag_def Let_def split: if_splits)

lemma choice_nonempty: "t \<in> set SENSITIVITY_CHOICES \<Longrightarrow> t \<noteq> []"
  by (auto simp: SENSITIVITY_CHOICES_def sensitivity_tags_def)

lemma choice_upper: "t \<in> set SENSITIVITY_CHOICES \<Longrightarrow> upper (strip t) = t"
proof -
  have "list_all (\<lambda>t. upper (strip t) = t) SENSITIVITY_CHOICES" by code_simp
  then show "t \<in> set SENSITIVITY_CHOICES \<Longrightarrow> upper (strip t) = t"
    by (simp add: list_all_iff)
qed

lemma tag_of_choice:
  "tag = None \<or> (\<exists>t. tag = Some t \<and> t \<in> set SENSITIVITY_CHOICES) \<Longrightarrow> tag_of tag = tag"
  by (auto simp: tag_of_def choice_upper choice_nonempty str_field_def Let_def)

text \<open>The four tags, and what a group may call with each of them.\<close>

lemma plan_table:
  "list_all (\<lambda>b. list_all (\<lambda>a.
     (is_downgrade (Some b) a \<longleftrightarrow>
        filter (\<lambda>g. g \<notin> set (groups_allowing (Some b))) (groups_allowing a) \<noteq> []))
     (None # map Some SENSITIVITY_CHOICES)) SENSITIVITY_CHOICES"
  by code_simp

lemma downgrade_gains:
  assumes "b \<in> set SENSITIVITY_CHOICES" "a = None \<or> (\<exists>t. a = Some t \<and> t \<in> set SENSITIVITY_CHOICES)"
  shows "is_downgrade (Some b) a \<longleftrightarrow>
    filter (\<lambda>g. g \<notin> set (groups_allowing (Some b))) (groups_allowing a) \<noteq> []"
proof -
  have "a \<in> set (None # map Some SENSITIVITY_CHOICES)" using assms(2) by auto
  with plan_table assms(1) show ?thesis unfolding list_all_iff by blast
qed

text \<open>A change of tag does what its plan announced. For every entry and every tag an
  administrator may choose, the plan and the confirmation are refused for the same tools (those
  that are missing or retired), and otherwise the entry gets the state, the tag and the source the
  plan names, the groups that may call the tool are exactly the announced ones, and the shape last
  seen becomes the approved one.\<close>

theorem confirmation_does_what_plan_says:
  assumes "normalize_tag raw = Inr tag"
  shows "(case (plan_change e tag, confirm_sensitivity e tag ''admin'' now) of
      (Inl refused, Inl _) \<Rightarrow> refused = Tool_not_present \<and> te_state e \<in> {Drift_missing, Drift_retired}
    | (Inr plan, Inr e') \<Rightarrow> te_name e' = cp_tool_name plan \<and> te_state e' = cp_state_after plan \<and>
        te_sensitivity e' = cp_after plan \<and>
        te_source e' = map_option (\<lambda>_. cp_after_source plan) tag \<and>
        callable_groups e' = Some (cp_groups_after plan) \<and>
        te_baseline e' = (if tag = None then no_shape else te_observed e) \<and> te_diff e' = None
    | _ \<Rightarrow> False)"
proof -
  note choice = normalize_tag_choice [OF assms]
  have admin: "normalize_source (Some ''admin'') = Some ''admin''" by code_simp
  have "tag \<noteq> Some []" using choice choice_nonempty by auto
  with tag_of_choice [OF choice] show ?thesis
    by (cases tag) (simp_all add: plan_change_def confirm_sensitivity_def
        Let_def source_of_tag_def admin next_state_def str_field_def callable_groups_def
        callable_now_def CALLABLE_STATES_def groups_allowing_def)
qed

theorem confirmation_does_what_plan_says_witness:
  "\<exists>e'. confirm_sensitivity (new_tool ''read'' no_shape ''t0'') (Some ''UPDATE'') ''admin'' ''t1'' = Inr e' \<and>
     te_state e' = Drift_active \<and>
     callable_groups e' = Some (groups_allowing (Some ''UPDATE''))"
proof -
  have n: "normalize_tag (Some '' update '') = Inr (Some ''UPDATE'')" by code_simp
  from confirmation_does_what_plan_says [OF n, of "new_tool ''read'' no_shape ''t0''" "''t1''"]
  show ?thesis
    by (auto simp: plan_change_def confirm_sensitivity_def new_tool_def next_state_def
        str_field_def Let_def split: sum.splits)
qed

text \<open>The groups are ordered, so those that a tag admits include those of another or the other way
  round; and a tag that is not one of the four has no rank.\<close>

lemma groups_nested:
  "filter (\<lambda>g. g \<notin> set (groups_allowing a)) (groups_allowing b) = [] \<or>
   filter (\<lambda>g. g \<notin> set (groups_allowing b)) (groups_allowing a) = []"
proof (rule ccontr)
  assume "\<not> ?thesis"
  then obtain g h where "g \<in> set (groups_allowing b)" "g \<notin> set (groups_allowing a)"
      "h \<in> set (groups_allowing a)" "h \<notin> set (groups_allowing b)"
    by (auto simp: filter_empty_conv)
  then have "g \<in> set permission_groups" "h \<in> set permission_groups"
    "group_allows g (str_field b)" "\<not> group_allows g (str_field a)"
    "group_allows h (str_field a)" "\<not> group_allows h (str_field b)"
    by (auto simp: groups_allowing_def split: if_splits)
  then show False using group_allows_mono [of g h] group_allows_mono [of h g] linear [of g h] by blast
qed

lemma no_rank_no_downgrade:
  "\<not> list_ex (\<lambda>t. tag = Some t) SENSITIVITY_CHOICES \<Longrightarrow> \<not> is_downgrade tag after"
  by (cases tag) (auto simp: is_downgrade_def tag_rank_def str_field_def SENSITIVITY_CHOICES_def list_ex_iff
      find_Some_iff image_iff split: option.splits)

text \<open>C35: A reason is asked for exactly when a change of a tag lets more groups call the tool. A change
  is planned unless the tool is away; it never both gains and loses groups; and it is refused for want
  of a reason of five characters exactly if the tool had one of the four tags and some permission group
  gains it. So the first tag of a tool, which opens it, needs no reason.\<close>

theorem reason_needed_iff_access_widens:
  assumes "entry_ok e" "normalize_tag raw = Inr tag"
  shows "case plan_change e tag of
      Inl _ \<Rightarrow> te_state e \<in> {Drift_missing, Drift_retired}
    | Inr plan \<Rightarrow>
        cp_groups_before plan = groups_allowing (te_sensitivity e) \<and>
        (cp_groups_gained plan = [] \<or> cp_groups_lost plan = []) \<and>
        (require_reason plan reason = Inl Reason_required \<longleftrightarrow>
           list_ex (\<lambda>t. te_sensitivity e = Some t) SENSITIVITY_CHOICES \<and>
           cp_groups_gained plan \<noteq> [] \<and> length (strip reason) < 5)"
proof (cases "te_state e \<in> {Drift_missing, Drift_retired}")
  case True
  then show ?thesis by (simp add: plan_change_def)
next
  case False
  have before: "(if te_state e \<in> CALLABLE_STATES then groups_allowing (te_sensitivity e) else []) =
      groups_allowing (te_sensitivity e)"
  proof (cases "te_sensitivity e")
    case None
    then show ?thesis by (simp add: groups_allowing_def str_field_def)
  qed (simp add: entry_ok_tag [OF assms(1)])
  have "is_downgrade (te_sensitivity e) tag \<longleftrightarrow>
      list_ex (\<lambda>t. te_sensitivity e = Some t) SENSITIVITY_CHOICES \<and>
      filter (\<lambda>g. g \<notin> set (groups_allowing (te_sensitivity e))) (groups_allowing tag) \<noteq> []"
  proof (cases "list_ex (\<lambda>t. te_sensitivity e = Some t) SENSITIVITY_CHOICES")
    case True
    then show ?thesis
      using downgrade_gains [OF _ normalize_tag_choice [OF assms(2)]] by (auto simp: list_ex_iff)
  qed (simp add: no_rank_no_downgrade)
  note facts = this False before groups_nested [of "te_sensitivity e" tag]
  show ?thesis
  proof (cases "te_state e \<in> CALLABLE_STATES")
    case True
    with facts show ?thesis by (simp add: plan_change_def require_reason_def Let_def)
  next
    case False
    with before have "groups_allowing (te_sensitivity e) = []" by simp
    with facts False show ?thesis by (simp add: plan_change_def require_reason_def Let_def)
  qed
qed

theorem reason_needed_iff_access_widens_witness:
  "\<exists>plan. plan_change (seed_tool [] ''t0'' (''drop'', no_shape, Some ''DELETE'')) (Some ''READ'') = Inr plan \<and>
     require_reason plan '' ok '' = Inl Reason_required"
proof -
  let ?e = "seed_tool [] ''t0'' (''drop'', no_shape, Some ''DELETE'')"
  have ok: "entry_ok ?e" by (rule seed_tool_ok) simp_all
  have tag: "list_ex (\<lambda>t. te_sensitivity ?e = Some t) SENSITIVITY_CHOICES" by code_simp
  have raw: "normalize_tag (Some ''read'') = Inr (Some ''READ'')" by code_simp
  have "(case plan_change ?e (Some ''READ'') of Inl _ \<Rightarrow> False
      | Inr p \<Rightarrow> cp_groups_gained p = [READ_ONLY, READ_CREATE, READ_WRITE])"
    by code_simp
  then obtain plan where plan: "plan_change ?e (Some ''READ'') = Inr plan" "cp_groups_gained plan \<noteq> []"
    by (auto split: sum.splits)
  with tag reason_needed_iff_access_widens [OF ok raw, of "'' ok ''"]
  have refused: "require_reason plan '' ok '' = Inl Reason_required \<longleftrightarrow> length (strip '' ok '') < 5"
    by simp
  have "length (strip '' ok '') < 5" by code_simp
  with plan refused show ?thesis by blast
qed

end
