(* ===== verification/Ledger_Cleanup.thy ===== *)
theory Ledger_Cleanup
  imports Ledger_Operations Effects
begin

text \<open>
  The cleaning of the ledger when assets are purged: \<open>identity/access_grant_cleanup.py\<close> and
  \<open>identity/asset_capability_cleanup.py\<close> with the reports of \<open>shared/access_grant_cleanup.py\<close> and
  \<open>shared/asset_capability_cleanup.py\<close>, and the right to call an agent,
  \<open>identity/agent_invoke.py\<close>.

  A cleaner is a client of the ledger that others use at the same time. Its environment says, per
  call to the store, which operations others do before it, and whether the call fails, before it
  took effect or after. So a property about all environments holds under every interleaving and
  every outage of the store.
\<close>

section \<open>Calls of the store\<close>

datatype call_fate =
    Answers
  | Fails string        \<comment> \<open>an exception of that type, nothing done\<close>
  | Loses_answer string \<comment> \<open>done, and then an exception of that type\<close>

record cleaner_env =
  ce_others :: "nat \<Rightarrow> ledger_op list"
  ce_fate :: "nat \<Rightarrow> call_fate"
  ce_new_id :: "nat \<Rightarrow> string"
  ce_now :: "nat \<Rightarrow> string"

record cleaner_state =
  cs_store :: identity_store
  cs_calls :: nat
  cs_events :: nat

datatype call_error = Refused identity_error | Outage string | Still_readable

text \<open>\<open>type(exc).__name__\<close>\<close>

fun error_type_name :: "call_error \<Rightarrow> string" where
  "error_type_name (Refused RecordNotFound) = ''IdentityRecordNotFound''"
| "error_type_name (Refused VersionConflict) = ''IdentityVersionConflict''"
| "error_type_name (Refused InvalidValue) = ''ValueError''"
| "error_type_name (Outage name) = name"
| "error_type_name Still_readable = ''RuntimeError''"

type_synonym 'a cleaning = "(cleaner_state, 'a) state"

definition others_then ::
  "cleaner_env \<Rightarrow> cleaner_state \<Rightarrow> cleaner_state" where
  "others_then env st =
     st\<lparr>cs_store := fold apply_ledger_op (ce_others env (cs_calls st)) (cs_store st),
        cs_calls := Suc (cs_calls st)\<rparr>"

definition call_store ::
  "cleaner_env \<Rightarrow> (identity_store \<Rightarrow> identity_error + identity_store \<times> 'a)
     \<Rightarrow> (call_error + 'a) cleaning" where
  "call_store env f = do {
     n \<leftarrow> gets cs_calls;
     modify (others_then env);
     s \<leftarrow> gets cs_store;
     case ce_fate env n of
       Fails name \<Rightarrow> State_Monad.return (Inl (Outage name))
     | fate \<Rightarrow>
         (case f s of
            Inl e \<Rightarrow> State_Monad.return (Inl (Refused e))
          | Inr (s', a) \<Rightarrow> do {
              modify (\<lambda>st. st\<lparr>cs_store := s'\<rparr>);
              State_Monad.return
                (case fate of Loses_answer name \<Rightarrow> Inl (Outage name) | _ \<Rightarrow> Inr a)
            })
   }"

definition reading :: "(identity_store \<Rightarrow> 'a) \<Rightarrow> identity_store \<Rightarrow> identity_error + identity_store \<times> 'a" where
  "reading f s = Inr (s, f s)"

definition looking_up ::
  "(identity_store \<Rightarrow> identity_error + 'a) \<Rightarrow> identity_store \<Rightarrow> identity_error + identity_store \<times> 'a" where
  "looking_up f s = bind_res (f s) (\<lambda>a. Inr (s, a))"

text \<open>The fields an event of a cleaner leaves at their defaults.\<close>

definition cleanup_event ::
  "string \<Rightarrow> string \<Rightarrow> string \<Rightarrow> string \<Rightarrow> string \<Rightarrow> string \<Rightarrow> string \<Rightarrow> string list \<Rightarrow> decision_reason
     \<Rightarrow> string \<Rightarrow> string \<Rightarrow> string \<Rightarrow> string \<Rightarrow> audit_event" where
  "cleanup_event eid invocation actor agent asset op connection caps reason target now kind failure =
     \<lparr>ae_event_id = eid, ae_invocation_id = invocation, ae_principal_id = actor,
      ae_agent_id = agent, ae_asset_id = asset, ae_operation_id = op,
      ae_connection_id = connection, ae_capabilities = caps, ae_decision = DENY,
      ae_reason = reason, ae_target = target, ae_timestamp = now, ae_workload_id = [],
      ae_event_type = kind, ae_severity = ''INFO'', ae_failure_type = failure, ae_mode = [],
      ae_policy_deployment_outcome = [], ae_policy_revision = 0, ae_policy_hash = [],
      ae_validation_findings = [], ae_request_justification = [], ae_trace_id = [],
      ae_span_id = [], ae_invocation_outcome = []\<rparr>"

definition next_event :: "cleaner_env \<Rightarrow> (string \<Rightarrow> string \<Rightarrow> audit_event) \<Rightarrow> audit_event cleaning" where
  "next_event env mk = do {
     n \<leftarrow> gets cs_events;
     modify (\<lambda>st. st\<lparr>cs_events := Suc n\<rparr>);
     State_Monad.return (mk (ce_new_id env n) (ce_now env n))
   }"

definition append_audit_call :: "cleaner_env \<Rightarrow> audit_event \<Rightarrow> (call_error + unit) cleaning" where
  "append_audit_call env e = call_store env (\<lambda>s. Inr (append_audit e s, ()))"

section \<open>Grants of purged assets\<close>

type_synonym raw_grant_key = "string \<times> string \<times> string \<times> string"
type_synonym grant_coordinate = "string \<times> string \<times> string"

definition raw_grant_key :: "access_grant \<Rightarrow> raw_grant_key" where
  "raw_grant_key g = (ag_principal_id g, ag_subject_group g, ag_asset_id g, ag_operation_id g)"

definition subject_label :: "access_grant \<Rightarrow> string" where
  "subject_label g =
     (if ag_subject_group g \<noteq> [] then ''group:'' @ ag_subject_group g
      else ''principal:'' @ ag_principal_id g)"

definition coordinate :: "access_grant \<Rightarrow> grant_coordinate" where
  "coordinate g = (subject_label g, ag_asset_id g, ag_operation_id g)"

record grant_cleanup_report =
  gr_observed :: bool
  gr_deleted :: "grant_coordinate list"
  gr_unknown :: "grant_coordinate list"
  gr_reason :: string

text \<open>The event of a deletion and of a deletion that could not be confirmed.\<close>

definition grant_event ::
  "string \<Rightarrow> string \<Rightarrow> string \<Rightarrow> string \<Rightarrow> string \<Rightarrow> string \<Rightarrow> string list \<Rightarrow> string \<Rightarrow> string
     \<Rightarrow> audit_event" where
  "grant_event asset op actor kind failure connection caps eid now =
     cleanup_event eid (''asset-purge:'' @ asset) actor [] asset op connection caps
       CAPABILITY_NOT_GRANTED [] now kind failure"

definition deleted_event :: "access_grant \<Rightarrow> string \<Rightarrow> string \<Rightarrow> string \<Rightarrow> audit_event" where
  "deleted_event g actor =
     grant_event (ag_asset_id g) (ag_operation_id g) actor ''ACCESS_GRANT_ASSET_PURGE_DELETED''
       (''ASSET_PURGE_REVOKES_ACCESS_GRANT:'' @ subject_label g) (ag_connection_id g)
       (ag_capabilities g)"

definition record_unknown_grant ::
  "cleaner_env \<Rightarrow> string \<Rightarrow> string \<Rightarrow> string \<Rightarrow> (call_error + unit) cleaning" where
  "record_unknown_grant env rid actor reason = do {
     e \<leftarrow> next_event env
       (grant_event rid [] actor ''ACCESS_GRANT_ASSET_PURGE_CLEANUP_UNKNOWN'' reason [] []);
     append_audit_call env e
   }"

definition record_unknown_quietly ::
  "cleaner_env \<Rightarrow> string \<Rightarrow> string \<Rightarrow> string \<Rightarrow> unit cleaning" where
  "record_unknown_quietly env rid actor reason = do {
     _ \<leftarrow> record_unknown_grant env rid actor reason;
     State_Monad.return ()
   }"

text \<open>The rows of the wanted assets, first by group, then everywhere; \<open>Inl\<close> is
  \<open>_ObservationFailed\<close> with its text.\<close>

fun discover_groups ::
  "cleaner_env \<Rightarrow> string list \<Rightarrow> string list \<Rightarrow> (raw_grant_key, access_grant) dict
     \<Rightarrow> (string + (raw_grant_key, access_grant) dict) cleaning" where
  "discover_groups env wanted [] found = State_Monad.return (Inr found)"
| "discover_groups env wanted (grp # groups) found = do {
     rows \<leftarrow> call_store env (reading (\<lambda>s. list_group_grants s grp));
     case rows of
       Inl e \<Rightarrow>
         State_Monad.return (Inl (''group_query_failed:'' @ grp @ '':'' @ error_type_name e))
     | Inr gs \<Rightarrow>
         discover_groups env wanted groups
           (fold (\<lambda>g. dput (raw_grant_key g) g) (filter (\<lambda>g. ag_asset_id g \<in> set wanted) gs) found)
   }"

definition set_default :: "'k \<Rightarrow> 'v \<Rightarrow> ('k, 'v) dict \<Rightarrow> ('k, 'v) dict" where
  "set_default k v d = (if dget d k = None then dput k v d else d)"

definition discover ::
  "cleaner_env \<Rightarrow> string list \<Rightarrow> (string + (raw_grant_key, access_grant) dict) cleaning" where
  "discover env wanted = do {
     found \<leftarrow> discover_groups env wanted PLATFORM_ROLES [];
     case found of
       Inl reason \<Rightarrow> State_Monad.return (Inl reason)
     | Inr d \<Rightarrow> do {
         everywhere \<leftarrow> call_store env (reading (\<lambda>s. list_grants s None None []));
         State_Monad.return
           (case everywhere of
              Inl e \<Rightarrow> Inl (''principal_scan_failed:'' @ error_type_name e)
            | Inr gs \<Rightarrow>
                Inr (fold (\<lambda>g. set_default (raw_grant_key g) g)
                       (filter (\<lambda>g. ag_asset_id g \<in> set wanted) gs) d))
       }
   }"

definition read_grant :: "cleaner_env \<Rightarrow> access_grant \<Rightarrow> (call_error + access_grant) cleaning" where
  "read_grant env g = call_store env (looking_up (\<lambda>s.
     get_tool_grant s (ag_asset_id g) (ag_operation_id g) (ag_principal_id g) (ag_subject_group g)))"

definition delete_one ::
  "cleaner_env \<Rightarrow> string \<Rightarrow> access_grant \<Rightarrow> (call_error + unit) cleaning" where
  "delete_one env actor g = do {
     confirmed \<leftarrow> read_grant env g;
     case confirmed of
       Inl e \<Rightarrow> State_Monad.return (Inl e)
     | Inr c \<Rightarrow> do {
         event \<leftarrow> next_event env (deleted_event g actor);
         removed \<leftarrow> call_store env (delete_grant_with_audit (ag_asset_id g) (ag_operation_id g)
           (ag_principal_id g) (ag_subject_group g) (ag_version c) event);
         case removed of
           Inl e \<Rightarrow> State_Monad.return (Inl e)
         | Inr _ \<Rightarrow> do {
             again \<leftarrow> read_grant env g;
             State_Monad.return
               (case again of
                  Inl (Refused RecordNotFound) \<Rightarrow> Inr ()
                | Inl e \<Rightarrow> Inl e
                | Inr _ \<Rightarrow> Inl Still_readable)
           }
       }
   }"

fun delete_found ::
  "cleaner_env \<Rightarrow> string \<Rightarrow> (raw_grant_key \<times> access_grant) list \<Rightarrow> grant_coordinate list
     \<Rightarrow> (raw_grant_key, grant_coordinate) dict
     \<Rightarrow> (grant_coordinate list \<times> (raw_grant_key, grant_coordinate) dict) cleaning" where
  "delete_found env actor [] deleted unknown = State_Monad.return (deleted, unknown)"
| "delete_found env actor ((key, g) # rest) deleted unknown = do {
     result \<leftarrow> delete_one env actor g;
     case result of
       Inl e \<Rightarrow> do {
         record_unknown_quietly env (ag_asset_id g) actor
           (''delete_failed:'' @ error_type_name e @ '':'' @ fst (coordinate g));
         delete_found env actor rest deleted (dput key (coordinate g) unknown)
       }
     | Inr _ \<Rightarrow> delete_found env actor rest (deleted @ [coordinate g]) unknown
   }"

text \<open>A dict in the order of its sorted keys.\<close>

definition sorted_items :: "('k::linorder, 'v) dict \<Rightarrow> ('k \<times> 'v) list" where
  "sorted_items d = map (\<lambda>k. (k, the (dget d k))) (sort (dkeys d))"

text \<open>The report of a second discovery: what it still finds is added to what is not known.\<close>

definition concluded ::
  "grant_coordinate list \<Rightarrow> (raw_grant_key, grant_coordinate) dict
     \<Rightarrow> string + (raw_grant_key, access_grant) dict \<Rightarrow> grant_cleanup_report" where
  "concluded deleted unknown leftover =
     (case leftover of
        Inl reason \<Rightarrow> \<lparr>gr_observed = False, gr_deleted = deleted, gr_unknown = dvalues unknown,
          gr_reason = reason\<rparr>
      | Inr left \<Rightarrow>
          let unknown = fold (\<lambda>(k, g). set_default k (coordinate g)) (sorted_items left) unknown
          in \<lparr>gr_observed = True, gr_deleted = deleted,
              gr_unknown = map snd (sorted_items unknown), gr_reason = []\<rparr>)"

definition delete_record_grants ::
  "cleaner_env \<Rightarrow> string list \<Rightarrow> string \<Rightarrow> grant_cleanup_report cleaning" where
  "delete_record_grants env record_ids actor =
     (let wanted = filter (\<lambda>r. r \<noteq> []) record_ids in
      if wanted = [] then State_Monad.return \<lparr>gr_observed = True, gr_deleted = [], gr_unknown = [], gr_reason = []\<rparr>
      else do {
        candidates \<leftarrow> discover env wanted;
        case candidates of
          Inl reason \<Rightarrow> State_Monad.return \<lparr>gr_observed = False, gr_deleted = [], gr_unknown = [], gr_reason = reason\<rparr>
        | Inr found \<Rightarrow> do {
            (deleted, unknown) \<leftarrow> delete_found env actor (sorted_items found) [] [];
            leftover \<leftarrow> discover env wanted;
            State_Monad.return (concluded deleted unknown leftover)
          }
      })"

section \<open>Approvals of purged or registered again assets\<close>

record capability_cleanup_report =
  cr_deleted :: "(string \<times> string) list"
  cr_unknown :: "(string \<times> string) list"

definition capability_event ::
  "string \<Rightarrow> string \<Rightarrow> string \<Rightarrow> string \<Rightarrow> string \<Rightarrow> string \<Rightarrow> string \<Rightarrow> string list \<Rightarrow> string \<Rightarrow> string
     \<Rightarrow> audit_event" where
  "capability_event rid op replacement actor kind failure connection caps eid now =
     (let purge = (replacement = []) in
      cleanup_event eid
        (if purge then ''asset-purge:'' @ rid else ''mcp-reregistration:'' @ replacement)
        actor (if purge then [] else replacement) rid op connection caps
        ASSET_CAPABILITY_NOT_APPROVED (if purge then [] else replacement) now kind failure)"

definition record_unknown_capability ::
  "cleaner_env \<Rightarrow> string \<Rightarrow> string \<Rightarrow> string \<Rightarrow> string \<Rightarrow> (call_error + unit) cleaning" where
  "record_unknown_capability env rid replacement actor reason = do {
     e \<leftarrow> next_event env (capability_event rid [] replacement actor
       (if replacement = [] then ''ASSET_CAPABILITY_ASSET_PURGE_CLEANUP_UNKNOWN''
        else ''ASSET_CAPABILITY_REREGISTRATION_CLEANUP_UNKNOWN'') reason [] []);
     append_audit_call env e
   }"

definition capability_deleted_event ::
  "string \<Rightarrow> string \<Rightarrow> string \<Rightarrow> asset_capability \<Rightarrow> string \<Rightarrow> string \<Rightarrow> audit_event" where
  "capability_deleted_event rid replacement actor c =
     capability_event rid (ac_operation_id c) replacement actor
       (if replacement = [] then ''ASSET_CAPABILITY_ASSET_PURGE_DELETED''
        else ''ASSET_CAPABILITY_REREGISTRATION_DELETED'')
       (if replacement = [] then ''ASSET_PURGE_REVOKES_APPROVAL''
        else ''MCP_REREGISTRATION_RESETS_APPROVAL'')
       (ac_connection_id c) (ac_required_capabilities c)"

fun delete_approvals ::
  "cleaner_env \<Rightarrow> string \<Rightarrow> string \<Rightarrow> string \<Rightarrow> asset_capability list \<Rightarrow> capability_cleanup_report
     \<Rightarrow> capability_cleanup_report cleaning" where
  "delete_approvals env rid replacement actor [] report = State_Monad.return report"
| "delete_approvals env rid replacement actor (c # cs) report = do {
     event \<leftarrow> next_event env (capability_deleted_event rid replacement actor c);
     removed \<leftarrow> call_store env
       (delete_asset_capability_with_audit rid (ac_operation_id c) (ac_version c) event);
     case removed of
       Inl e \<Rightarrow> do {
         record_unknown_capability env rid replacement actor
           (''delete_failed:'' @ error_type_name e @ '':'' @ ac_operation_id c);
         delete_approvals env rid replacement actor cs
           (report\<lparr>cr_unknown := cr_unknown report @ [(rid, ac_operation_id c)]\<rparr>)
       }
     | Inr r \<Rightarrow>
         delete_approvals env rid replacement actor cs
           (if r then report\<lparr>cr_deleted := cr_deleted report @ [(rid, ac_operation_id c)]\<rparr>
            else report)
   }"

text \<open>A failure of the first listing is raised to the caller.\<close>

definition delete_record_approvals ::
  "cleaner_env \<Rightarrow> string \<Rightarrow> string \<Rightarrow> string \<Rightarrow> (call_error + capability_cleanup_report) cleaning" where
  "delete_record_approvals env rid replacement actor = do {
     listed \<leftarrow> call_store env (reading (\<lambda>s. list_asset_capabilities s rid));
     case listed of
       Inl e \<Rightarrow> State_Monad.return (Inl e)
     | Inr cs \<Rightarrow> do {
         report \<leftarrow> delete_approvals env rid replacement actor cs \<lparr>cr_deleted = [], cr_unknown = []\<rparr>;
         State_Monad.return (Inr report)
       }
   }"

section \<open>The right to call an agent\<close>

definition authorize_agent_invoke ::
  "agent_invoke_authorization \<Rightarrow> string \<Rightarrow> string list \<Rightarrow> agent_invoke_decision" where
  "authorize_agent_invoke authz caller groups =
     (let decided = (\<lambda>outcome reason. \<lparr>aid_decision = outcome, aid_reason = reason,
            aid_agent_id = aia_agent_id authz, aid_caller_principal_id = caller\<rparr>) in
      if caller \<noteq> [] \<and> caller = aia_owner_principal_id authz then decided ALLOW OWNER
      else if caller \<in> set (aia_allowed_principals authz) then decided ALLOW PRINCIPAL_ALLOWED
      else if set groups \<inter> set (aia_allowed_groups authz) \<noteq> {} then decided ALLOW GROUP_ALLOWED
      else decided DENY NOT_AUTHORIZED)"

end
