(* ===== verification/Cleaning_Laws.thy ===== *)
theory Cleaning_Laws
  imports Ledger_Cleanup
begin

text \<open>
  What holds of the cleaners of Ledger_Cleanup: under any interference and any outage the report
  of a cleaning names every row it left; a cleaner alone on the ledger deletes rows of the wanted
  assets only, each with its event; and a cleaning that nothing disturbs leaves none.
\<close>

section \<open>One call\<close>

lemma wp_call_store:
  "wp (call_store env f) Q st =
    (let st' = others_then env st in
     case ce_fate env (cs_calls st) of
       Fails name \<Rightarrow> Q (Inl (Outage name)) st'
     | Answers \<Rightarrow>
         (case f (cs_store st') of
            Inl e \<Rightarrow> Q (Inl (Refused e)) st'
          | Inr (s', a) \<Rightarrow> Q (Inr a) (st'\<lparr>cs_store := s'\<rparr>))
     | Loses_answer name \<Rightarrow>
         (case f (cs_store st') of
            Inl e \<Rightarrow> Q (Inl (Refused e)) st'
          | Inr (s', a) \<Rightarrow> Q (Inl (Outage name)) (st'\<lparr>cs_store := s'\<rparr>)))"
  by (simp add: call_store_def wp_simps Let_def split: call_fate.split sum.split prod.split)

text \<open>Whatever happens to a call, it ends in an error or with what the store did.\<close>

lemma wp_call_any:
  assumes "\<And>e st'. cs_store st' = cs_store (others_then env st) \<or>
      (\<exists>a. f (cs_store (others_then env st)) = Inr (cs_store st', a)) \<Longrightarrow> Q (Inl e) st'"
    and "\<And>a st'. f (cs_store (others_then env st)) = Inr (cs_store st', a) \<Longrightarrow> Q (Inr a) st'"
  shows "wp (call_store env f) Q st"
  using assms
  by (auto simp: wp_call_store Let_def split: call_fate.split sum.split prod.split)

lemma wp_next_event [simp]:
  "wp (next_event env mk) Q st =
     Q (mk (ce_new_id env (cs_events st)) (ce_now env (cs_events st))) (st\<lparr>cs_events := Suc (cs_events st)\<rparr>)"
  by (simp add: next_event_def)

section \<open>What a discovery finds\<close>

lemma raw_key_asset: "raw_grant_key g = raw_grant_key h \<Longrightarrow> ag_asset_id g = ag_asset_id h"
  by (simp add: raw_grant_key_def)

fun key_coordinate :: "raw_grant_key \<Rightarrow> grant_coordinate" where
  "key_coordinate (p, grp, a, op) =
     ((if grp \<noteq> [] then ''group:'' @ grp else ''principal:'' @ p), a, op)"

lemma key_coordinate [simp]: "key_coordinate (raw_grant_key g) = coordinate g"
  by (simp add: raw_grant_key_def coordinate_def subject_label_def)

text \<open>A dict of found rows: every row under its own key, and all of them of wanted assets.\<close>

definition found_of :: "access_grant set \<Rightarrow> (raw_grant_key, access_grant) dict \<Rightarrow> bool" where
  "found_of rows d \<longleftrightarrow> wf_dict d \<and> (\<forall>k g. dget d k = Some g \<longrightarrow> k = raw_grant_key g \<and> g \<in> rows)"

lemma found_of_dput: "found_of rows d \<Longrightarrow> g \<in> rows \<Longrightarrow> found_of rows (dput (raw_grant_key g) g d)"
  by (simp add: found_of_def)

lemma found_of_put:
  "found_of rows d \<Longrightarrow> set gs \<subseteq> rows \<Longrightarrow> found_of rows (fold (\<lambda>g. dput (raw_grant_key g) g) gs d)"
  by (induction gs arbitrary: d) (simp_all add: found_of_dput)

lemma found_of_default:
  "found_of rows d \<Longrightarrow> set gs \<subseteq> rows \<Longrightarrow>
   found_of rows (fold (\<lambda>g. set_default (raw_grant_key g) g) gs d)"
  by (induction gs arbitrary: d) (simp_all add: found_of_dput set_default_def)

lemma fold_default_dom:
  "dom (dget (fold (\<lambda>x. set_default (key x) (val x)) xs d)) = dom (dget d) \<union> key ` set xs"
proof (induction xs arbitrary: d)
  case (Cons x xs)
  have "dom (dget (set_default (key x) (val x) d)) = insert (key x) (dom (dget d))"
    by (auto simp: set_default_def dom_def)
  then show ?case by (simp add: Cons.IH)
qed simp

lemma set_list_grants_all [simp]: "set (list_grants s None None []) = set (dvalues (st_grants s))"
  by (simp add: list_grants_def)

lemma set_list_group_grants: "set (list_group_grants s grp) \<subseteq> set (dvalues (st_grants s))"
  by (auto simp: list_group_grants_def Let_def)

text \<open>\<open>rows\<close> bounds the rows of wanted assets in every ledger the calls may see.\<close>

definition wanted_rows :: "string list \<Rightarrow> identity_store \<Rightarrow> access_grant set" where
  "wanted_rows wanted s = {g \<in> set (dvalues (st_grants s)). ag_asset_id g \<in> set wanted}"

lemma discover_groups_found:
  assumes "\<And>st. I st \<Longrightarrow> I (others_then env st) \<and> wanted_rows wanted (cs_store (others_then env st)) \<subseteq> rows"
    and "found_of rows d" "I st"
  shows "wp (discover_groups env wanted groups d) (\<lambda>r st'. I st' \<and> (\<forall>d'. r = Inr d' \<longrightarrow> found_of rows d')) st"
  using assms(2,3)
proof (induction groups arbitrary: d st)
  case (Cons grp groups)
  let ?st = "others_then env st"
  let ?gs = "filter (\<lambda>g. ag_asset_id g \<in> set wanted) (list_group_grants (cs_store ?st) grp)"
  have I: "I ?st" "wanted_rows wanted (cs_store ?st) \<subseteq> rows"
    using assms(1) Cons.prems(2) by blast+
  have "set ?gs \<subseteq> rows"
    using I(2) set_list_group_grants [of "cs_store ?st" grp] by (auto simp: wanted_rows_def)
  with Cons I(1) show ?case
    by (simp add: wp_call_store wp_simps reading_def Let_def found_of_put split: call_fate.split)
qed simp


lemma discover_found:
  assumes "\<And>st. I st \<Longrightarrow> I (others_then env st) \<and> wanted_rows wanted (cs_store (others_then env st)) \<subseteq> rows"
    and "I st"
  shows "wp (discover env wanted) (\<lambda>r st'. I st' \<and> (\<forall>d. r = Inr d \<longrightarrow> found_of rows d \<and>
    raw_grant_key ` wanted_rows wanted (cs_store st') \<subseteq> dom (dget d))) st"
  unfolding discover_def wp_bind
proof (rule wp_mono [OF discover_groups_found [OF assms(1) _ assms(2)]])
  show "found_of rows []" by (simp add: found_of_def)
next
  fix r :: "string + (raw_grant_key, access_grant) dict" and st'
  assume r: "I st' \<and> (\<forall>d. r = Inr d \<longrightarrow> found_of rows d)"
  let ?st = "others_then env st'"
  let ?gs = "filter (\<lambda>g. ag_asset_id g \<in> set wanted) (list_grants (cs_store ?st) None None [])"
  have I: "I ?st" "wanted_rows wanted (cs_store ?st) \<subseteq> rows" using assms(1) r by blast+
  have gs: "set ?gs = wanted_rows wanted (cs_store ?st)" by (auto simp: wanted_rows_def)
  then have "found_of rows d \<Longrightarrow> found_of rows (fold (\<lambda>g. set_default (raw_grant_key g) g) ?gs d)" for d
    using I(2) by (intro found_of_default) simp_all
  with r I(1) gs show "wp (case r of Inl reason \<Rightarrow> State_Monad.return (Inl reason)
      | Inr d \<Rightarrow> State_Monad.bind (call_store env (reading (\<lambda>s. list_grants s None None [])))
          (\<lambda>everywhere. State_Monad.return
            (case everywhere of
               Inl e \<Rightarrow> Inl (''principal_scan_failed:'' @ error_type_name e)
             | Inr gs \<Rightarrow> Inr (fold (\<lambda>g. set_default (raw_grant_key g) g)
                 (filter (\<lambda>g. ag_asset_id g \<in> set wanted) gs) d))))
      (\<lambda>r st'. I st' \<and> (\<forall>d. r = Inr d \<longrightarrow> found_of rows d \<and>
         raw_grant_key ` wanted_rows wanted (cs_store st') \<subseteq> dom (dget d))) st'"
    by (cases r)
      (simp_all add: wp_call_store wp_simps reading_def Let_def fold_default_dom split: call_fate.split)
qed

section \<open>The report under interference\<close>

text \<open>The coordinates of unconfirmed rows, each under the key of its row.\<close>

definition unknown_of :: "string list \<Rightarrow> (raw_grant_key, grant_coordinate) dict \<Rightarrow> bool" where
  "unknown_of wanted d \<longleftrightarrow> wf_dict d \<and>
     (\<forall>k c. dget d k = Some c \<longrightarrow> c = key_coordinate k \<and> fst (snd c) \<in> set wanted)"

lemma sorted_items_mem [simp]: "(k, v) \<in> set (sorted_items d) \<longleftrightarrow> dget d k = Some v"
proof -
  have "k \<in> set (dkeys d) \<longleftrightarrow> dget d k \<noteq> None" by (simp add: dkeys_def map_of_eq_None_iff)
  then show ?thesis by (auto simp: sorted_items_def image_iff simp del: not_None_eq)
qed

lemma unknown_of_put:
  assumes "unknown_of wanted d" "ag_asset_id g \<in> set wanted"
  shows "unknown_of wanted (dput (raw_grant_key g) (coordinate g) d)"
  unfolding unknown_of_def
proof (intro conjI allI impI)
  show "wf_dict (dput (raw_grant_key g) (coordinate g) d)" using assms(1) by (simp add: unknown_of_def)
next
  fix k c
  assume "dget (dput (raw_grant_key g) (coordinate g) d) k = Some c"
  with assms have "c = key_coordinate k \<and> fst (snd c) \<in> set wanted"
    by (cases "k = raw_grant_key g")
      (auto simp: unknown_of_def coordinate_def simp del: split_paired_All)
  then show "c = key_coordinate k" "fst (snd c) \<in> set wanted" by blast+
qed

lemma unknown_of_default:
  "unknown_of wanted d \<Longrightarrow> (\<forall>(k, g) \<in> set xs. k = raw_grant_key g \<and> ag_asset_id g \<in> set wanted) \<Longrightarrow>
   unknown_of wanted (fold (\<lambda>(k, g). set_default k (coordinate g)) xs d)"
proof (induction xs arbitrary: d)
  case (Cons x xs)
  then have "unknown_of wanted (set_default (fst x) (coordinate (snd x)) d)"
    by (cases x) (simp add: set_default_def unknown_of_put)
  with Cons show ?case by (cases x) simp
qed simp

lemma wp_top [simp]: "wp m (\<lambda>a t. True) st"
  by (simp add: wp_run)

text \<open>Every coordinate a run of deletions adds is one of its rows'.\<close>

lemma delete_found_coordinates:
  "(\<forall>(k, g) \<in> set xs. k = raw_grant_key g \<and> ag_asset_id g \<in> set wanted) \<Longrightarrow>
   unknown_of wanted unknown \<Longrightarrow> (\<forall>c \<in> set deleted. fst (snd c) \<in> set wanted) \<Longrightarrow>
   wp (delete_found env actor xs deleted unknown)
     (\<lambda>r _. unknown_of wanted (snd r) \<and> (\<forall>c \<in> set (fst r). fst (snd c) \<in> set wanted)) st"
proof (induction env actor xs deleted unknown arbitrary: st rule: delete_found.induct)
  case (2 env actor k g rest deleted unknown)
  then have g: "k = raw_grant_key g" "ag_asset_id g \<in> set wanted" by auto
  then have "unknown_of wanted (dput k (coordinate g) unknown)"
    using 2 by (simp add: unknown_of_put)
  moreover have "fst (snd (coordinate g)) \<in> set wanted" using g by (simp add: coordinate_def)
  ultimately have "wp (delete_found env actor rest deleted (dput k (coordinate g) unknown))
        (\<lambda>r _. unknown_of wanted (snd r) \<and> (\<forall>c \<in> set (fst r). fst (snd c) \<in> set wanted)) st'"
      "wp (delete_found env actor rest (deleted @ [coordinate g]) unknown)
        (\<lambda>r _. unknown_of wanted (snd r) \<and> (\<forall>c \<in> set (fst r). fst (snd c) \<in> set wanted)) st'" for st'
    using 2 by simp_all
  then show ?case by (simp add: wp_run split: sum.split prod.split)
qed simp


lemma fold_default_pairs_dom:
  "dom (dget (fold (\<lambda>(k, g). set_default k (val g)) xs d)) = dom (dget d) \<union> fst ` set xs"
  using fold_default_dom [of fst "\<lambda>x. val (snd x)" xs d] by (simp add: case_prod_beta')

text \<open>The report of a cleaning that was observed names every row that is left.\<close>

definition names_leftovers :: "string list \<Rightarrow> grant_cleanup_report \<Rightarrow> cleaner_state \<Rightarrow> bool" where
  "names_leftovers wanted r st \<longleftrightarrow>
     (gr_observed r \<longrightarrow> coordinate ` wanted_rows wanted (cs_store st) \<subseteq> set (gr_unknown r)) \<and>
     (\<forall>c \<in> set (gr_deleted r) \<union> set (gr_unknown r). fst (snd c) \<in> set wanted)"

lemma leftovers_named:
  assumes "unknown_of wanted unknown" "found_of {g. ag_asset_id g \<in> set wanted} left"
    and "raw_grant_key ` wanted_rows wanted s \<subseteq> dom (dget left)"
    and "u = fold (\<lambda>(k, g). set_default k (coordinate g)) (sorted_items left) unknown"
  shows "coordinate ` wanted_rows wanted s \<subseteq> set (map snd (sorted_items u))"
    and "unknown_of wanted u"
proof -
  show u: "unknown_of wanted u"
    unfolding assms(4) using assms(2)
    by (intro unknown_of_default assms(1)) (auto simp: found_of_def simp del: split_paired_All)
  have "raw_grant_key g \<in> dom (dget u)" if "g \<in> wanted_rows wanted s" for g
  proof -
    from that assms(3) obtain g' where "dget left (raw_grant_key g) = Some g'" by blast
    then have "(raw_grant_key g, g') \<in> set (sorted_items left)" by simp
    from imageI [OF this, of fst] have "raw_grant_key g \<in> fst ` set (sorted_items left)"
      unfolding fst_conv .
    then show ?thesis unfolding assms(4) fold_default_pairs_dom by blast
  qed
  then have "dget u (raw_grant_key g) = Some (coordinate g)" if "g \<in> wanted_rows wanted s" for g
    using u that unfolding unknown_of_def by fastforce
  then show "coordinate ` wanted_rows wanted s \<subseteq> set (map snd (sorted_items u))"
    by (force simp flip: sorted_items_mem)
qed

lemma unknown_of_values: "unknown_of wanted d \<Longrightarrow> c \<in> set (dvalues d) \<Longrightarrow> fst (snd c) \<in> set wanted"
  using dvalues_iff [of d c] unfolding unknown_of_def by blast

lemma unknown_of_items:
  assumes "unknown_of wanted d" "c \<in> snd ` set (sorted_items d)"
  shows "fst (snd c) \<in> set wanted"
proof -
  from assms(2) obtain k where "(k, c) \<in> set (sorted_items d)" by auto
  with assms(1) show ?thesis unfolding unknown_of_def sorted_items_mem by blast
qed

lemma concluded_names_leftovers:
  assumes "unknown_of wanted unknown" "\<forall>c \<in> set deleted. fst (snd c) \<in> set wanted"
    and "\<And>d. leftover = Inr d \<Longrightarrow> found_of {g. ag_asset_id g \<in> set wanted} d \<and>
      raw_grant_key ` wanted_rows wanted (cs_store st) \<subseteq> dom (dget d)"
  shows "names_leftovers wanted (concluded deleted unknown leftover) st"
proof (cases leftover)
  case (Inl reason)
  with assms(1,2) show ?thesis
    by (auto simp: names_leftovers_def concluded_def dest: unknown_of_values [OF assms(1)])
next
  case (Inr left)
  note u = leftovers_named [OF assms(1) _ _ refl, of left "cs_store st"]
  from assms(3) [OF Inr] u assms(2) Inr unknown_of_items [OF u(2)] show ?thesis
    by (simp add: names_leftovers_def concluded_def Let_def ball_Un)
qed

lemma failed_names_leftovers:
  "names_leftovers wanted \<lparr>gr_observed = False, gr_deleted = [], gr_unknown = [], gr_reason = r\<rparr> st"
  by (simp add: names_leftovers_def)

lemma cleaning_names_leftovers:
  "wp (delete_record_grants env ids actor) (names_leftovers (filter (\<lambda>r. r \<noteq> []) ids)) st"
proof -
  let ?w = "filter (\<lambda>r. r \<noteq> []) ids"
  let ?rows = "{g. ag_asset_id g \<in> set ?w}"
  have any: "\<And>st. True \<Longrightarrow> True \<and> wanted_rows ?w (cs_store (others_then env st)) \<subseteq> ?rows"
    by (auto simp: wanted_rows_def)
  note disc = discover_found [where I = "\<lambda>_. True", OF any TrueI]
  show ?thesis
  proof (cases "?w = []")
    case True
    then show ?thesis
      by (simp add: delete_record_grants_def names_leftovers_def wanted_rows_def Let_def del: filter_empty_conv)
  next
    case False
    have last: "wp (discover env ?w) (\<lambda>l. names_leftovers ?w (concluded deleted unknown l)) st"
      if "unknown_of ?w unknown" "\<forall>c \<in> set deleted. fst (snd c) \<in> set ?w"
      for deleted unknown st
    proof (rule wp_mono [OF disc])
      fix l :: "string + (raw_grant_key, access_grant) dict" and t :: cleaner_state
      assume "True \<and> (\<forall>d. l = Inr d \<longrightarrow> found_of ?rows d \<and>
          raw_grant_key ` wanted_rows ?w (cs_store t) \<subseteq> dom (dget d))"
      then show "names_leftovers ?w (concluded deleted unknown l) t"
        by (intro concluded_names_leftovers that) blast
    qed
    have del: "wp (delete_found env actor (sorted_items found) [] [])
        (\<lambda>r. wp (discover env ?w) (\<lambda>l. names_leftovers ?w (concluded (fst r) (snd r) l))) st"
      if "found_of ?rows found" for found st
    proof (rule wp_mono [OF delete_found_coordinates [where wanted = ?w]])
      show "\<forall>(k, g) \<in> set (sorted_items found). k = raw_grant_key g \<and> ag_asset_id g \<in> set ?w"
        using that by (auto simp: found_of_def simp del: split_paired_All)
    qed (simp_all add: unknown_of_def last del: set_filter split_paired_All)
    show ?thesis
      unfolding delete_record_grants_def Let_def if_not_P [OF False] wp_bind
      by (rule wp_mono [OF disc]) (auto simp: wp_simps case_prod_beta' failed_names_leftovers
          simp del: set_filter split: sum.split intro: del)
  qed
qed


text \<open>C31: A cleaning never hides what it left. Whatever others write to the ledger between any two
  calls of the cleaner, and whichever calls fail or lose their answer: if the report says that the
  ledger was observed, every grant of a purged asset that is still there when it returns is named
  in it as unknown, so that a report without unknown rows means that none is left.\<close>

theorem cleaning_hides_nothing:
  assumes "run_state (delete_record_grants env record_ids actor) st = (report, st')"
    and "gr_observed report"
    and "g \<in> set (dvalues (st_grants (cs_store st')))" "ag_asset_id g \<in> set record_ids" "ag_asset_id g \<noteq> []"
  shows "coordinate g \<in> set (gr_unknown report)"
  using wp_result [OF cleaning_names_leftovers assms(1)] assms(2-5)
  by (auto simp: names_leftovers_def wanted_rows_def)

section \<open>A cleaning of its own\<close>

text \<open>What a cleaner alone may have done to a table of the ledger: some rows are gone, each with
  its event in the log, and nothing else.\<close>

definition audited_deletions ::
  "(identity_store \<Rightarrow> ('k, 'v) dict) \<Rightarrow> ('k \<Rightarrow> 'v \<Rightarrow> bool) \<Rightarrow> ('v \<Rightarrow> string \<Rightarrow> string \<Rightarrow> audit_event)
     \<Rightarrow> identity_store \<Rightarrow> identity_store \<Rightarrow> bool" where
  "audited_deletions rows may_go event_of s0 s \<longleftrightarrow>
     (\<exists>es. st_audit_events s = st_audit_events s0 @ es \<and>
       (\<forall>k. dget (rows s) k = dget (rows s0) k \<or>
          (dget (rows s) k = None \<and> (\<exists>v eid now. dget (rows s0) k = Some v \<and> may_go k v \<and>
             event_of v eid now \<in> set es))))"

locale audited_table =
  fixes rows :: "identity_store \<Rightarrow> ('k, 'v) dict"
    and may_go :: "'k \<Rightarrow> 'v \<Rightarrow> bool"
    and event_of :: "'v \<Rightarrow> string \<Rightarrow> string \<Rightarrow> audit_event"
  assumes rows_append: "rows (append_audit e s) = rows s"
begin

lemma nothing_deleted: "audited_deletions rows may_go event_of s s"
  by (auto simp: audited_deletions_def)

lemma event_appended:
  "audited_deletions rows may_go event_of s0 s \<Longrightarrow>
   audited_deletions rows may_go event_of s0 (append_audit e s)"
  unfolding audited_deletions_def rows_append by (fastforce simp: append_audit_def)

lemma row_before:
  "audited_deletions rows may_go event_of s0 s \<Longrightarrow> dget (rows s) k = Some v \<Longrightarrow>
   dget (rows s0) k = Some v"
  unfolding audited_deletions_def by (metis option.distinct(1))

lemma row_deleted:
  assumes "audited_deletions rows may_go event_of s0 s" "dget (rows s0) k = Some v" "may_go k v"
    and "rows s' = ddel k (rows s)" "st_audit_events s' = st_audit_events s @ [event_of v eid now]"
  shows "audited_deletions rows may_go event_of s0 s'"
proof -
  obtain es where es: "st_audit_events s = st_audit_events s0 @ es"
    "\<And>k. dget (rows s) k = dget (rows s0) k \<or>
        (dget (rows s) k = None \<and> (\<exists>v eid now. dget (rows s0) k = Some v \<and> may_go k v \<and>
           event_of v eid now \<in> set es))"
    using assms(1) unfolding audited_deletions_def by blast
  show ?thesis
    unfolding audited_deletions_def
  proof (intro exI [of _ "es @ [event_of v eid now]"] conjI allI)
    show "st_audit_events s' = st_audit_events s0 @ es @ [event_of v eid now]"
      by (simp add: assms(5) es)
    show "dget (rows s') k' = dget (rows s0) k' \<or>
        (dget (rows s') k' = None \<and> (\<exists>w eid' now'. dget (rows s0) k' = Some w \<and> may_go k' w \<and>
           event_of w eid' now' \<in> set (es @ [event_of v eid now])))" for k'
      using es(2) [of k'] assms(2,3) by (cases "k' = k") (auto simp: assms(4))
  qed
qed

end

interpretation purged_grants: audited_table st_grants "\<lambda>_ g. ag_asset_id g \<in> set wanted"
    "\<lambda>g. deleted_event g actor" for wanted actor
  by unfold_locales (simp add: append_audit_def)

interpretation withdrawn_approvals: audited_table st_asset_capabilities "\<lambda>k _. fst k = rid"
    "capability_deleted_event rid replacement actor" for rid replacement actor
  by unfold_locales (simp add: append_audit_def)

definition cleaned :: "string list \<Rightarrow> string \<Rightarrow> identity_store \<Rightarrow> identity_store \<Rightarrow> bool" where
  "cleaned wanted actor s0 s \<longleftrightarrow> grants_wf s \<and>
     audited_deletions st_grants (\<lambda>_ g. ag_asset_id g \<in> set wanted) (\<lambda>g. deleted_event g actor) s0 s"

lemma cleaned_refl: "grants_wf s \<Longrightarrow> cleaned wanted actor s s"
  by (simp add: cleaned_def purged_grants.nothing_deleted)

lemma cleaned_event: "cleaned wanted actor s0 s \<Longrightarrow> cleaned wanted actor s0 (append_audit e s)"
  using purged_grants.event_appended by (auto simp: cleaned_def grants_wf_def append_audit_def)

lemma cleaned_rows:
  assumes "cleaned wanted actor s0 s" "grants_wf s0"
  shows "wanted_rows wanted s \<subseteq> wanted_rows wanted s0"
proof -
  have "dget (st_grants s) k = Some g \<Longrightarrow> dget (st_grants s0) k = Some g" for k g
    using assms(1) purged_grants.row_before unfolding cleaned_def by blast
  then show ?thesis
    using assms
    by (auto simp: cleaned_def wanted_rows_def grants_wf_def dvalues_iff simp del: split_paired_Ex)
qed

lemma cleaned_delete:
  assumes "cleaned wanted actor s0 s" "grants_wf s0" "g \<in> wanted_rows wanted s0"
    and "delete_grant_with_audit (ag_asset_id g) (ag_operation_id g) (ag_principal_id g)
      (ag_subject_group g) n (deleted_event g actor eid now) s = Inr (s', removed)"
  shows "cleaned wanted actor s0 s'"
proof -
  obtain k where k: "dget (st_grants s0) k = Some g"
    using assms(2,3) by (auto simp: wanted_rows_def grants_wf_def dvalues_iff)
  then have key: "grant_key (ag_principal_id g) (ag_subject_group g) (ag_asset_id g) (ag_operation_id g) = Inr k"
    using grants_wf_get [OF assms(2) k] by (simp add: grant_key_for_def)
  then consider "s' = s" | "s' = s\<lparr>st_grants := ddel k (st_grants s),
      st_audit_events := st_audit_events s @ [deleted_event g actor eid now]\<rparr>"
    using assms(4) by (auto simp: delete_grant_with_audit_def split: option.splits if_splits)
  then show ?thesis
  proof cases
    case 2
    moreover from this have "grants_wf s'"
      using assms(1) by (auto simp: cleaned_def grants_wf_def dest!: set_ddel_row)
    ultimately show ?thesis
      using assms(1,3) purged_grants.row_deleted [OF _ k, of wanted actor s s' eid now]
      by (auto simp: cleaned_def wanted_rows_def)
  qed (simp add: assms(1))
qed

definition alone :: "cleaner_env \<Rightarrow> bool" where
  "alone env \<longleftrightarrow> ce_others env = (\<lambda>_. [])"

lemma others_alone [simp]: "alone env \<Longrightarrow> cs_store (others_then env st) = cs_store st"
  by (simp add: alone_def others_then_def)

lemma keeps_call:
  assumes "alone env" "\<And>s s' a. J s \<Longrightarrow> f s = Inr (s', a) \<Longrightarrow> J s'"
  shows "keeps (\<lambda>st. J (cs_store st)) (call_store env f)"
  unfolding keeps_def
  by (intro allI impI wp_call_any) (auto simp: assms(1) dest: assms(2))

lemma keeps_next_event:
  "(\<And>eid now. keeps (\<lambda>st. J (cs_store st)) (f (mk eid now))) \<Longrightarrow>
   keeps (\<lambda>st. J (cs_store st)) (State_Monad.bind (next_event env mk) f)"
  by (simp add: keeps_def)

lemma keeps_record_unknown:
  assumes "alone env"
  shows "keeps (\<lambda>st. cleaned wanted actor' s0 (cs_store st)) (record_unknown_quietly env rid actor reason)"
  unfolding record_unknown_quietly_def record_unknown_grant_def append_audit_call_def
  by (intro keeps_bind keeps_next_event keeps_call assms keeps_return) (auto intro: cleaned_event)

lemma keeps_delete_one:
  assumes "alone env" "grants_wf s0" "g \<in> wanted_rows wanted s0"
  shows "keeps (\<lambda>st. cleaned wanted actor s0 (cs_store st)) (delete_one env actor g)"
  unfolding delete_one_def read_grant_def
  by (intro keeps_bind keeps_next_event keeps_sum keeps_call keeps_return assms(1))
    (auto simp: looking_up_def bind_res_def split: sum.splits intro: cleaned_delete [OF _ assms(2,3)])

lemma keeps_delete_found:
  assumes "grants_wf s0"
  shows "alone env \<Longrightarrow> snd ` set xs \<subseteq> wanted_rows wanted s0 \<Longrightarrow>
    keeps (\<lambda>st. cleaned wanted actor s0 (cs_store st)) (delete_found env actor xs deleted unknown)"
  by (induction env actor xs deleted unknown rule: delete_found.induct)
    (auto simp: assms intro!: keeps_bind keeps_sum keeps_return keeps_record_unknown keeps_delete_one)

lemma discover_cleaned:
  assumes "alone env" "grants_wf s0" "cleaned wanted actor s0 (cs_store st)"
  shows "wp (discover env wanted) (\<lambda>r st'. cleaned wanted actor s0 (cs_store st') \<and>
    (\<forall>d. r = Inr d \<longrightarrow> found_of (wanted_rows wanted s0) d \<and>
       raw_grant_key ` wanted_rows wanted (cs_store st') \<subseteq> dom (dget d))) st"
  by (rule discover_found) (simp_all add: assms cleaned_rows [OF _ assms(2)])

lemma found_items: "found_of rows d \<Longrightarrow> snd ` set (sorted_items d) \<subseteq> rows"
  by (auto simp: found_of_def simp del: split_paired_All)

lemma cleaning_alone:
  assumes "alone env" "grants_wf s0" "cs_store st = s0"
  shows "wp (delete_record_grants env ids actor)
    (\<lambda>_ st'. cleaned (filter (\<lambda>r. r \<noteq> []) ids) actor s0 (cs_store st')) st"
proof -
  let ?w = "filter (\<lambda>r. r \<noteq> []) ids"
  let ?I = "\<lambda>st. cleaned ?w actor s0 (cs_store st)"
  have start: "?I st" using assms by (simp add: cleaned_refl)
  have last: "?I st \<Longrightarrow> wp (discover env ?w) (\<lambda>_. ?I) st" for st
    by (rule wp_mono [OF discover_cleaned [OF assms(1,2)]], assumption) blast
  have del: "wp (delete_found env actor (sorted_items d) [] []) (\<lambda>r. wp (discover env ?w) (\<lambda>_. ?I)) st"
    if "?I st" "found_of (wanted_rows ?w s0) d" for d st
    by (rule wp_mono [OF keepsD [OF keeps_delete_found [OF assms(2,1) found_items] that(1)]])
      (use that last in auto)
  show ?thesis
  proof (cases "?w = []")
    case True
    with start show ?thesis by (simp add: delete_record_grants_def Let_def)
  next
    case False
    show ?thesis
      unfolding delete_record_grants_def Let_def if_not_P [OF False] wp_bind
      by (rule wp_mono [OF discover_cleaned [OF assms(1,2) start]])
        (auto simp: wp_simps case_prod_beta' simp del: set_filter split: sum.split intro: del)
  qed
qed

section \<open>A cleaning that nothing disturbs\<close>

definition undisturbed :: "cleaner_env \<Rightarrow> bool" where
  "undisturbed env \<longleftrightarrow> alone env \<and> ce_fate env = (\<lambda>_. Answers)"

lemma wp_undisturbed:
  "undisturbed env \<Longrightarrow> wp (call_store env f) Q st =
    (case f (cs_store st) of
       Inl e \<Rightarrow> Q (Inl (Refused e)) (others_then env st)
     | Inr (s', a) \<Rightarrow> Q (Inr a) ((others_then env st)\<lparr>cs_store := s'\<rparr>))"
  by (simp add: undisturbed_def wp_call_store Let_def split: sum.split prod.split)

lemma undisturbed_alone [simp]: "undisturbed env \<Longrightarrow> alone env"
  by (simp add: undisturbed_def)

lemma delete_one_undisturbed:
  assumes "undisturbed env" "dget (st_grants (cs_store st)) k = Some g" "grant_key_for g = Inr k"
  shows "wp (delete_one env actor g) (\<lambda>r st'. r = Inr () \<and>
    st_grants (cs_store st') = ddel k (st_grants (cs_store st))) st"
  using assms
  by (simp add: delete_one_def read_grant_def wp_simps wp_undisturbed looking_up_def
      get_tool_grant_def grant_key_for_def delete_grant_with_audit_def)

text \<open>The rows of a list are deleted one after the other, and no other row.\<close>

definition row_at :: "(string \<times> string, access_grant) dict \<Rightarrow> access_grant \<Rightarrow> bool" where
  "row_at d g \<longleftrightarrow> (\<exists>k. grant_key_for g = Inr k \<and> dget d k = Some g)"

lemma row_at_ddel:
  assumes "row_at d g" "dget d k = Some g'" "raw_grant_key g \<noteq> raw_grant_key g'"
  shows "row_at (ddel k d) g"
proof -
  from assms(1) obtain k' where k': "grant_key_for g = Inr k'" "dget d k' = Some g"
    unfolding row_at_def by blast
  with assms(2,3) have "k' \<noteq> k" by auto
  with k' show ?thesis unfolding row_at_def by auto
qed

lemma delete_found_undisturbed:
  "undisturbed env \<Longrightarrow> distinct (map (raw_grant_key \<circ> snd) xs) \<Longrightarrow>
   (\<forall>g \<in> snd ` set xs. row_at (st_grants (cs_store st)) g) \<Longrightarrow>
   wp (delete_found env actor xs deleted unknown) (\<lambda>r st'.
     r = (deleted @ map (coordinate \<circ> snd) xs, unknown) \<and>
     (\<forall>k. dget (st_grants (cs_store st')) k =
        (if Inr k \<in> grant_key_for ` snd ` set xs then None else dget (st_grants (cs_store st)) k))) st"
proof (induction env actor xs deleted unknown arbitrary: st rule: delete_found.induct)
  case (2 env actor key g rest deleted unknown)
  from "2.prems"(3) obtain k where k: "grant_key_for g = Inr k" "dget (st_grants (cs_store st)) k = Some g"
    by (auto simp: row_at_def)
  have "raw_grant_key g \<notin> raw_grant_key ` snd ` set rest"
    using "2.prems"(2) by (simp add: image_image)
  then have rest: "\<forall>h \<in> snd ` set rest. row_at (ddel k (st_grants (cs_store st))) h"
    using "2.prems"(3) by (auto intro!: row_at_ddel [OF _ k(2)] simp: image_image) (metis image_eqI snd_conv)
  show ?case
    unfolding delete_found.simps wp_bind
  proof (rule wp_mono [OF delete_one_undisturbed [OF "2.prems"(1) k(2,1)]])
    fix r :: "call_error + unit" and t :: cleaner_state
    assume r: "r = Inr () \<and> st_grants (cs_store t) = ddel k (st_grants (cs_store st))"
    have "wp (delete_found env actor rest (deleted @ [coordinate g]) unknown) (\<lambda>r st'.
        r = ((deleted @ [coordinate g]) @ map (coordinate \<circ> snd) rest, unknown) \<and>
        (\<forall>k. dget (st_grants (cs_store st')) k =
          (if Inr k \<in> grant_key_for ` snd ` set rest then None else dget (st_grants (cs_store t)) k))) t"
      using "2.prems" rest r by (intro "2.IH"(2)) simp_all
    then show "wp (case r of Inl e \<Rightarrow> State_Monad.bind
          (record_unknown_quietly env (ag_asset_id g) actor
            (''delete_failed:'' @ error_type_name e @ '':'' @ fst (coordinate g)))
          (\<lambda>_. delete_found env actor rest deleted (dput key (coordinate g) unknown))
        | Inr _ \<Rightarrow> delete_found env actor rest (deleted @ [coordinate g]) unknown)
      (\<lambda>r st'. r = (deleted @ map (coordinate \<circ> snd) ((key, g) # rest), unknown) \<and>
        (\<forall>ka. dget (st_grants (cs_store st')) ka =
          (if Inr ka \<in> grant_key_for ` snd ` set ((key, g) # rest) then None
           else dget (st_grants (cs_store st)) ka))) t"
      using r k(1) by (auto elim!: wp_mono split: if_splits)
  qed
qed simp


lemma discover_undisturbed:
  assumes "undisturbed env" "grants_wf (cs_store st)"
  shows "wp (discover env wanted) (\<lambda>r st'. cs_store st' = cs_store st \<and> (\<exists>d. r = Inr d \<and>
    found_of (wanted_rows wanted (cs_store st)) d \<and>
    raw_grant_key ` wanted_rows wanted (cs_store st) \<subseteq> dom (dget d))) st"
proof -
  let ?s = "cs_store st"
  have groups: "wp (discover_groups env wanted groups d) (\<lambda>r _. \<exists>d. r = Inr d) st'" for groups d st'
    using assms(1) by (induction groups arbitrary: d st') (simp_all add: wp_simps wp_undisturbed reading_def)
  have "wp (discover env wanted) (\<lambda>r _. \<exists>d. r = Inr d) st"
    unfolding discover_def wp_bind
    by (rule wp_mono [OF groups]) (auto simp: wp_simps wp_undisturbed [OF assms(1)] reading_def)
  moreover have "wp (discover env wanted) (\<lambda>r st'. cs_store st' = ?s \<and> (\<forall>d. r = Inr d \<longrightarrow>
      found_of (wanted_rows wanted ?s) d \<and> raw_grant_key ` wanted_rows wanted (cs_store st') \<subseteq> dom (dget d))) st"
    by (rule discover_found) (simp_all add: assms(1))
  ultimately show ?thesis by (auto simp: wp_run)
qed

lemma wanted_row_at:
  assumes "grants_wf s" "g \<in> wanted_rows wanted s" shows "row_at (st_grants s) g"
  using assms(2) grants_wf_get [OF assms(1)] assms(1)
  by (auto simp: wanted_rows_def row_at_def grants_wf_def dvalues_iff simp del: split_paired_Ex)

lemma found_of_none: "found_of {} d \<Longrightarrow> d = []"
  by (cases d) (auto simp: found_of_def simp del: split_paired_All split: if_splits)

lemma distinct_sorted_items:
  assumes "found_of rows d"
  shows "distinct (map (raw_grant_key \<circ> snd) (sorted_items d))"
proof -
  have "map (raw_grant_key \<circ> snd) (sorted_items d) = map fst (sorted_items d)"
    using assms(1) by (auto simp: found_of_def simp del: split_paired_All)
  also have "\<dots> = sort (dkeys d)" by (simp add: sorted_items_def comp_def)
  finally show ?thesis using assms by (simp add: found_of_def dkeys_def wf_dict_def)
qed


lemma wanted_rows_found:
  assumes "grants_wf s" "found_of (wanted_rows wanted s) d"
    and "raw_grant_key ` wanted_rows wanted s \<subseteq> dom (dget d)"
  shows "snd ` set (sorted_items d) = wanted_rows wanted s"
proof
  show "snd ` set (sorted_items d) \<subseteq> wanted_rows wanted s" by (rule found_items [OF assms(2)])
  show "wanted_rows wanted s \<subseteq> snd ` set (sorted_items d)"
  proof
    fix g assume g: "g \<in> wanted_rows wanted s"
    with assms(3) obtain h where h: "dget d (raw_grant_key g) = Some h" by blast
    then have "h \<in> wanted_rows wanted s" "raw_grant_key h = raw_grant_key g"
      using assms(2) unfolding found_of_def by metis+
    then have "row_at (st_grants s) h" "grant_key_for h = grant_key_for g"
      by (simp_all add: wanted_row_at [OF assms(1)] raw_grant_key_def grant_key_for_def)
    moreover have "row_at (st_grants s) g" by (rule wanted_row_at [OF assms(1) g])
    ultimately have "h = g" by (auto simp: row_at_def)
    with h show "g \<in> snd ` set (sorted_items d)"
      by (metis image_eqI snd_conv sorted_items_mem)
  qed
qed

lemma cleaning_undisturbed:
  fixes ids :: "string list"
  assumes "undisturbed env" "grants_wf (cs_store st)"
  defines "w \<equiv> filter (\<lambda>r. r \<noteq> []) ids"
  shows "wp (delete_record_grants env ids actor) (\<lambda>r st'. gr_observed r \<and> gr_unknown r = [] \<and>
    set (gr_deleted r) = coordinate ` wanted_rows w (cs_store st) \<and>
    wanted_rows w (cs_store st') = {}) st"
proof (cases "w = []")
  case True
  then show ?thesis by (simp add: delete_record_grants_def wanted_rows_def Let_def flip: w_def)
next
  case False
  let ?s = "cs_store st"
  let ?Q = "\<lambda>r st'. gr_observed r \<and> gr_unknown r = [] \<and>
    set (gr_deleted r) = coordinate ` wanted_rows w ?s \<and> wanted_rows w (cs_store st') = {}"
  have last: "wp (discover env w) (\<lambda>l. ?Q (concluded deleted [] l)) t"
    if "grants_wf (cs_store t)" "wanted_rows w (cs_store t) = {}" "set deleted = coordinate ` wanted_rows w ?s"
    for t deleted
    by (rule wp_mono [OF discover_undisturbed [OF assms(1) that(1)]])
      (use that in \<open>auto simp: concluded_def sorted_items_def dkeys_def dest!: found_of_none\<close>)
  have del: "wp (delete_found env actor (sorted_items d) [] [])
      (\<lambda>r. wp (discover env w) (\<lambda>l. ?Q (concluded (fst r) (snd r) l))) t"
    if t: "cs_store t = ?s" and d: "found_of (wanted_rows w ?s) d"
      "raw_grant_key ` wanted_rows w ?s \<subseteq> dom (dget d)" for d t
  proof -
    note rows = wanted_rows_found [OF assms(2) d]
    have "wp (delete_found env actor (sorted_items d) [] []) (\<lambda>r t'.
        r = ([] @ map (coordinate \<circ> snd) (sorted_items d), []) \<and>
        (\<forall>k. dget (st_grants (cs_store t')) k =
          (if Inr k \<in> grant_key_for ` snd ` set (sorted_items d) then None
           else dget (st_grants (cs_store t)) k))) t"
      by (rule delete_found_undisturbed [OF assms(1) distinct_sorted_items [OF d(1)]])
        (simp add: rows t wanted_row_at [OF assms(2)])
    moreover have "wp (delete_found env actor (sorted_items d) [] [])
        (\<lambda>_ t'. cleaned w actor ?s (cs_store t')) t"
      by (rule keepsD [OF keeps_delete_found]) (simp_all add: assms(1,2) rows t cleaned_refl)
    ultimately show ?thesis
    proof (rule wp_mono [OF wp_conjI])
      fix r :: "grant_coordinate list \<times> (raw_grant_key, grant_coordinate) dict" and t' :: cleaner_state
      assume r: "(r = ([] @ map (coordinate \<circ> snd) (sorted_items d), []) \<and>
        (\<forall>k. dget (st_grants (cs_store t')) k =
          (if Inr k \<in> grant_key_for ` snd ` set (sorted_items d) then None
           else dget (st_grants (cs_store t)) k))) \<and> cleaned w actor ?s (cs_store t')"
      then have wf: "grants_wf (cs_store t')" by (simp add: cleaned_def)
      have "g \<notin> wanted_rows w (cs_store t')" for g
      proof
        assume g: "g \<in> wanted_rows w (cs_store t')"
        then have "g \<in> wanted_rows w ?s" using r cleaned_rows [OF _ assms(2)] by blast
        moreover obtain k where "grant_key_for g = Inr k" "dget (st_grants (cs_store t')) k = Some g"
          using wanted_row_at [OF wf g] by (auto simp: row_at_def)
        ultimately show False using r rows by (metis image_eqI option.distinct(1))
      qed
      then have none: "wanted_rows w (cs_store t') = {}" by blast
      have deleted: "set (fst r) = coordinate ` wanted_rows w ?s" and nil: "snd r = []"
        using r by (simp_all add: image_comp flip: rows)
      show "wp (discover env w) (\<lambda>l. ?Q (concluded (fst r) (snd r) l)) t'"
        unfolding nil by (rule last [OF wf none deleted])
    qed
  qed
  show ?thesis
    unfolding delete_record_grants_def Let_def w_def [symmetric] if_not_P [OF False] wp_bind
    by (rule wp_mono [OF discover_undisturbed [OF assms(1,2)]])
      (auto simp: wp_simps case_prod_beta' intro: del)
qed

lemma reachable_grants_wf: "grants_wf (fold apply_ledger_op ops empty_store)"
  using ledger.inv_run [OF ledger_wf_empty] by (simp add: ledger_wf_def)

text \<open>C32: A cleaning takes the grants of the purged assets and nothing else. On every reachable
  ledger that nobody else writes meanwhile, even if calls fail or lose their answers: each grant
  is unchanged, or it is gone, was a grant of a purged asset, and the log has the event of its
  deletion by this actor. If no call fails, no grant of a purged asset is left, the report says
  so, and it names exactly the grants there were.\<close>

theorem cleaning_takes_only_purged:
  assumes "cs_store st = fold apply_ledger_op ops empty_store" "alone env"
    and "run_state (delete_record_grants env record_ids actor) st = (report, st')"
  shows "(\<exists>events. st_audit_events (cs_store st') = st_audit_events (cs_store st) @ events \<and>
      (\<forall>k. dget (st_grants (cs_store st')) k = dget (st_grants (cs_store st)) k \<or>
        (dget (st_grants (cs_store st')) k = None \<and>
         (\<exists>g eid now. dget (st_grants (cs_store st)) k = Some g \<and> ag_asset_id g \<in> set record_ids \<and>
            deleted_event g actor eid now \<in> set events)))) \<and>
    ((\<forall>n. ce_fate env n = Answers) \<longrightarrow> gr_observed report \<and> gr_unknown report = [] \<and>
      set (gr_deleted report) = coordinate ` {g \<in> set (dvalues (st_grants (cs_store st))).
        ag_asset_id g \<in> set record_ids \<and> ag_asset_id g \<noteq> []} \<and>
      (\<forall>g \<in> set (dvalues (st_grants (cs_store st'))). ag_asset_id g \<in> set record_ids \<longrightarrow> ag_asset_id g = []))"
proof -
  have wf: "grants_wf (cs_store st)" by (simp add: assms(1) reachable_grants_wf)
  have clean: "cleaned (filter (\<lambda>r. r \<noteq> []) record_ids) actor (cs_store st) (cs_store st')"
    by (rule wp_result [OF cleaning_alone [OF assms(2) wf refl] assms(3)])
  have "undisturbed env" if "\<forall>n. ce_fate env n = Answers"
    using that assms(2) by (auto simp: undisturbed_def)
  then have "gr_observed report \<and> gr_unknown report = [] \<and>
      set (gr_deleted report) = coordinate ` wanted_rows (filter (\<lambda>r. r \<noteq> []) record_ids) (cs_store st) \<and>
      wanted_rows (filter (\<lambda>r. r \<noteq> []) record_ids) (cs_store st') = {}"
    if "\<forall>n. ce_fate env n = Answers"
    using that wp_result [OF cleaning_undisturbed [OF _ wf] assms(3)] by blast
  moreover from clean obtain es where "st_audit_events (cs_store st') = st_audit_events (cs_store st) @ es"
    "\<And>k. dget (st_grants (cs_store st')) k = dget (st_grants (cs_store st)) k \<or>
        (dget (st_grants (cs_store st')) k = None \<and>
         (\<exists>g eid now. dget (st_grants (cs_store st)) k = Some g \<and>
            ag_asset_id g \<in> set (filter (\<lambda>r. r \<noteq> []) record_ids) \<and> deleted_event g actor eid now \<in> set es))"
    unfolding cleaned_def audited_deletions_def by blast
  ultimately show ?thesis
    unfolding wanted_rows_def by (intro conjI) (fastforce, auto)
qed


section \<open>Cleaning approvals\<close>

abbreviation caps_of :: "cleaner_state \<Rightarrow> (string \<times> string, asset_capability) dict" where
  "caps_of st \<equiv> st_asset_capabilities (cs_store st)"

abbreviation approvals_cleaned ::
  "string \<Rightarrow> string \<Rightarrow> string \<Rightarrow> identity_store \<Rightarrow> identity_store \<Rightarrow> bool" where
  "approvals_cleaned rid replacement actor \<equiv>
     audited_deletions st_asset_capabilities (\<lambda>k _. fst k = rid)
       (capability_deleted_event rid replacement actor)"

lemma approvals_cleaned_delete:
  assumes "approvals_cleaned rid replacement actor s0 s"
    and "dget (st_asset_capabilities s0) (rid, ac_operation_id c) = Some c"
    and "delete_asset_capability_with_audit rid (ac_operation_id c) n
      (capability_deleted_event rid replacement actor c eid now) s = Inr (s', removed)"
  shows "approvals_cleaned rid replacement actor s0 s'"
proof -
  from assms(3) consider "s' = s" | "s' = s\<lparr>st_asset_capabilities := ddel (rid, ac_operation_id c) (st_asset_capabilities s),
      st_audit_events := st_audit_events s @ [capability_deleted_event rid replacement actor c eid now]\<rparr>"
    by (auto simp: delete_asset_capability_with_audit_def split: option.splits if_splits)
  then show ?thesis
    by cases (simp_all add: assms(1) withdrawn_approvals.row_deleted [OF assms(1,2)])
qed

lemma keeps_record_unknown_capability:
  assumes "alone env" "\<And>s e. J s \<Longrightarrow> J (append_audit e s)"
  shows "keeps (\<lambda>st. J (cs_store st)) (record_unknown_capability env rid replacement actor reason)"
  unfolding record_unknown_capability_def append_audit_call_def
  by (intro keeps_next_event keeps_call assms(1)) (auto intro: assms(2))

lemma keeps_delete_approvals:
  assumes "alone env" "\<And>s e. J s \<Longrightarrow> J (append_audit e s)"
    and "\<And>s s' c n eid now r. J s \<Longrightarrow> c \<in> set cs \<Longrightarrow> delete_asset_capability_with_audit rid (ac_operation_id c) n
      (capability_deleted_event rid replacement actor c eid now) s = Inr (s', r) \<Longrightarrow> J s'"
  shows "keeps (\<lambda>st. J (cs_store st)) (delete_approvals env rid replacement actor cs report)"
  using assms(3)
proof (induction cs arbitrary: report)
  case (Cons c cs)
  have IH: "keeps (\<lambda>st. J (cs_store st)) (delete_approvals env rid replacement actor cs report')" for report'
    using Cons by (meson list.set_intros(2))
  show ?case
    unfolding delete_approvals.simps
    by (intro keeps_next_event keeps_bind keeps_sum keeps_call keeps_record_unknown_capability IH
        assms(1,2)) (auto intro: Cons.prems)
qed (simp add: keeps_return)

lemma delete_keeps_None:
  assumes "dget (st_asset_capabilities s) k = None"
    "delete_asset_capability_with_audit rid op n e s = Inr (s', r)"
  shows "dget (st_asset_capabilities s') k = None"
  using assms by (auto simp: delete_asset_capability_with_audit_def split: option.splits if_splits)

lemma delete_gives_None:
  "delete_asset_capability_with_audit rid op n e s = Inr (s', r) \<Longrightarrow>
   dget (st_asset_capabilities s') (rid, op) = None"
  by (auto simp: delete_asset_capability_with_audit_def split: option.splits if_splits)

text \<open>Each listed row is gone in the end or reported.\<close>

lemma approvals_gone_or_unknown:
  assumes "alone env"
  shows "wp (delete_approvals env rid replacement actor cs report) (\<lambda>r st'.
    set (cr_unknown report) \<subseteq> set (cr_unknown r) \<and>
    (\<forall>c \<in> set cs. dget (caps_of st') (rid, ac_operation_id c) = None \<or>
       (rid, ac_operation_id c) \<in> set (cr_unknown r))) st"
proof (induction cs arbitrary: report st)
  case (Cons c cs)
  let ?k = "(rid, ac_operation_id c)"
  have stays: "wp (delete_approvals env rid replacement actor cs report')
      (\<lambda>_ st'. dget (caps_of st') ?k = None) t" if "dget (caps_of t) ?k = None" for report' t
    by (rule keepsD [OF keeps_delete_approvals [where J = "\<lambda>s. dget (st_asset_capabilities s) ?k = None"]])
      (use that assms in \<open>auto simp: append_audit_def dest: delete_keeps_None\<close>)
  have done_or: "wp (delete_approvals env rid replacement actor cs report') (\<lambda>r st'.
      set (cr_unknown report) \<subseteq> set (cr_unknown r) \<and>
      (\<forall>c \<in> set (c # cs). dget (caps_of st') (rid, ac_operation_id c) = None \<or>
         (rid, ac_operation_id c) \<in> set (cr_unknown r))) t"
    if "set (cr_unknown report) \<subseteq> set (cr_unknown report')"
      "dget (caps_of t) ?k = None \<or> ?k \<in> set (cr_unknown report')" for report' t
    using that(2)
  proof
    assume "dget (caps_of t) ?k = None"
    from wp_conjI [OF Cons.IH stays [OF this]] show ?thesis by (rule wp_mono) (use that(1) in auto)
  next
    assume "?k \<in> set (cr_unknown report')"
    then show ?thesis by (intro wp_mono [OF Cons.IH]) (use that(1) in auto)
  qed
  have deletes: "wp (call_store env (delete_asset_capability_with_audit rid (ac_operation_id c) n e))
      (\<lambda>r t. \<forall>removed. r = Inr removed \<longrightarrow> dget (caps_of t) ?k = None) t" for n e t
    by (rule wp_call_any) (auto dest: delete_gives_None)
  show ?case
    unfolding delete_approvals.simps wp_bind wp_next_event
  proof (rule wp_mono [OF deletes])
    fix r :: "call_error + bool" and t :: cleaner_state
    assume r: "\<forall>removed. r = Inr removed \<longrightarrow> dget (caps_of t) ?k = None"
    show "wp (case r of
        Inl e \<Rightarrow> State_Monad.bind (record_unknown_capability env rid replacement actor
            (''delete_failed:'' @ error_type_name e @ '':'' @ ac_operation_id c))
          (\<lambda>_. delete_approvals env rid replacement actor cs
            (report\<lparr>cr_unknown := cr_unknown report @ [?k]\<rparr>))
      | Inr removed \<Rightarrow> delete_approvals env rid replacement actor cs
          (if removed then report\<lparr>cr_deleted := cr_deleted report @ [?k]\<rparr> else report))
      (\<lambda>r st'. set (cr_unknown report) \<subseteq> set (cr_unknown r) \<and>
        (\<forall>c \<in> set (c # cs). dget (caps_of st') (rid, ac_operation_id c) = None \<or>
           (rid, ac_operation_id c) \<in> set (cr_unknown r))) t"
    proof (cases r)
      case (Inl e)
      then show ?thesis unfolding sum.case wp_bind
        by (simp only: Inl sum.case wp_bind) (subst wp_run, rule done_or, auto)
    next
      case (Inr removed)
      with r show ?thesis by (simp only: sum.case) (intro done_or, auto)
    qed
  qed
qed simp

text \<open>Undisturbed, every row has the version it was listed with, or is gone.\<close>

lemma approvals_undisturbed:
  assumes "undisturbed env"
  shows "\<forall>c \<in> set cs. dget (st_asset_capabilities base) (rid, ac_operation_id c) = Some c \<Longrightarrow>
    approvals_cleaned rid replacement actor base (cs_store st) \<Longrightarrow>
    wp (delete_approvals env rid replacement actor cs report) (\<lambda>r _. cr_unknown r = cr_unknown report) st"
proof (induction cs arbitrary: report st)
  case (Cons c cs)
  let ?e = "capability_deleted_event rid replacement actor c (ce_new_id env (cs_events st)) (ce_now env (cs_events st))"
  have c: "dget (st_asset_capabilities base) (rid, ac_operation_id c) = Some c" using Cons.prems(1) by simp
  have "dget (caps_of st) (rid, ac_operation_id c) \<in> {None, Some c}"
    using Cons.prems(2) c unfolding audited_deletions_def by (metis insertCI)
  then have "\<exists>x. delete_asset_capability_with_audit rid (ac_operation_id c) (ac_version c) ?e (cs_store st) = Inr x"
    by (auto simp: delete_asset_capability_with_audit_def)
  then obtain s' r where del: "delete_asset_capability_with_audit rid (ac_operation_id c) (ac_version c) ?e
      (cs_store st) = Inr (s', r)"
    by fastforce
  have "approvals_cleaned rid replacement actor base s'"
    by (rule approvals_cleaned_delete [OF Cons.prems(2) c del])
  with Cons.prems(1) have IH: "wp (delete_approvals env rid replacement actor cs report')
      (\<lambda>r _. cr_unknown r = cr_unknown report') t" if "cs_store t = s'" for report' t
    using that by (intro Cons.IH) simp_all
  from IH [where report' = "report\<lparr>cr_deleted := cr_deleted report @ [(rid, ac_operation_id c)]\<rparr>"]
  have "wp (delete_approvals env rid replacement actor cs
      (report\<lparr>cr_deleted := cr_deleted report @ [(rid, ac_operation_id c)]\<rparr>))
      (\<lambda>r _. cr_unknown r = cr_unknown report) t" if "cs_store t = s'" for t
    using that by simp
  then show ?case
    using assms del IH by (auto simp: wp_simps wp_undisturbed)
qed simp

lemma listed_capabilities:
  assumes "assets_wf s"
  shows "c \<in> set (list_asset_capabilities s rid) \<longleftrightarrow>
    dget (st_asset_capabilities s) (rid, ac_operation_id c) = Some c"
proof -
  have wf: "wf_dict (st_asset_capabilities s)"
    and keyed: "keyed_by (\<lambda>c. (ac_asset_id c, ac_operation_id c)) (st_asset_capabilities s)"
    using assms by (simp_all add: assets_wf_def)
  have "c \<in> set (list_asset_capabilities s rid) \<longleftrightarrow> (\<exists>op. ((rid, op), c) \<in> set (st_asset_capabilities s))"
    by (force simp: list_asset_capabilities_def)
  also have "\<dots> \<longleftrightarrow> (\<exists>op. dget (st_asset_capabilities s) (rid, op) = Some c)"
    by (simp add: wf_dict_get [OF wf])
  finally show ?thesis using keyed_by_get [OF keyed] by blast
qed

lemma reachable_assets_wf: "assets_wf (fold apply_ledger_op ops empty_store)"
  using ledger.inv_run [OF ledger_wf_empty] by (simp add: ledger_wf_def)

text \<open>When an asset is purged or registered again, its approvals are withdrawn and no others.
  On every reachable ledger that nobody else writes meanwhile, even if calls fail or lose their
  answers: each approval is unchanged, or it is gone, was one of this asset, and the log has the
  event of its deletion; each approval of the asset that is left is reported as unknown. If no
  call fails none is left.\<close>

theorem approvals_withdrawn:
  assumes "cs_store st = fold apply_ledger_op ops empty_store" "alone env"
    and "run_state (delete_record_approvals env rid replacement actor) st = (Inr report, st')"
  shows "(\<exists>events. st_audit_events (cs_store st') = st_audit_events (cs_store st) @ events \<and>
      (\<forall>k. dget (caps_of st') k = dget (caps_of st) k \<or>
        (dget (caps_of st') k = None \<and>
         (\<exists>c eid now. dget (caps_of st) k = Some c \<and> fst k = rid \<and>
            capability_deleted_event rid replacement actor c eid now \<in> set events)))) \<and>
    (\<forall>op c. dget (caps_of st') (rid, op) = Some c \<longrightarrow> (rid, op) \<in> set (cr_unknown report)) \<and>
    ((\<forall>n. ce_fate env n = Answers) \<longrightarrow> cr_unknown report = [])"
proof -
  let ?s = "cs_store st" and ?empty = "\<lparr>cr_deleted = [], cr_unknown = []\<rparr>"
  let ?cs = "list_asset_capabilities ?s rid"
  have wf: "assets_wf ?s" by (simp add: assms(1) reachable_assets_wf)
  note listed = listed_capabilities [OF wf]
  obtain t where t: "cs_store t = ?s"
    and run: "run_state (delete_approvals env rid replacement actor ?cs ?empty) t = (report, st')"
  proof -
    from assms(2) have "wp (call_store env (reading (\<lambda>s. list_asset_capabilities s rid)))
        (\<lambda>r t. cs_store t = ?s \<and> (\<forall>cs. r = Inr cs \<longrightarrow> cs = ?cs)) st"
      by (simp add: wp_call_store reading_def Let_def split: call_fate.split)
    then show thesis
      using assms(3) that
      by (auto simp: delete_record_approvals_def wp_def split: prod.splits sum.splits
          simp del: split_paired_All)
  qed
  have clean: "approvals_cleaned rid replacement actor ?s (cs_store st')"
    by (rule wp_result [OF keepsD [OF keeps_delete_approvals [where J = "approvals_cleaned rid replacement actor ?s"]] run])
      (auto simp: assms(2) t listed withdrawn_approvals.nothing_deleted
        intro: withdrawn_approvals.event_appended approvals_cleaned_delete)
  have left: "(rid, op) \<in> set (cr_unknown report)" if "dget (caps_of st') (rid, op) = Some c" for op c
  proof -
    have "dget (caps_of st) (rid, op) = Some c"
      using clean that unfolding audited_deletions_def by (metis option.distinct(1))
    then have "c \<in> set ?cs" "ac_operation_id c = op"
      using wf by (auto simp: listed assets_wf_def dest!: keyed_by_get)
    with that wp_result [OF approvals_gone_or_unknown [OF assms(2)] run] show ?thesis by auto
  qed
  have "cr_unknown report = []" if "\<forall>n. ce_fate env n = Answers"
  proof -
    have "undisturbed env" using that assms(2) by (auto simp: undisturbed_def)
    from wp_result [OF approvals_undisturbed [OF this, where base = ?s] run] show ?thesis
      by (simp add: listed t withdrawn_approvals.nothing_deleted)
  qed
  with left clean show ?thesis unfolding audited_deletions_def by blast
qed

section \<open>One cleaning\<close>

definition quiet_env :: cleaner_env where
  "quiet_env = \<lparr>ce_others = (\<lambda>_. []), ce_fate = (\<lambda>_. Answers), ce_new_id = (\<lambda>n. replicate n CHR ''e''),
     ce_now = (\<lambda>n. replicate n CHR ''t'')\<rparr>"

definition stale_grant :: access_grant where
  "stale_grant = \<lparr>ag_grant_id = ''g'', ag_principal_id = ''ann'', ag_status = Grant_ACTIVE,
     ag_version = 1, ag_granted_by = ''admin'', ag_created_at = ''t0'', ag_updated_at = ''t0'',
     ag_expires_at = None, ag_subject_group = [], ag_asset_id = ''mcp'', ag_operation_id = ''read'',
     ag_asset_version = ''1'', ag_connection_id = [], ag_capabilities = []\<rparr>"

definition stale_approval :: asset_capability where
  "stale_approval = \<lparr>ac_asset_id = ''mcp'', ac_asset_version = ''1'', ac_operation_id = ''read'',
     ac_connection_id = ''c'', ac_required_capabilities = [''orders.read''],
     ac_status = AssetCap_APPROVED, ac_version = 3, ac_updated_at = ''t0'', ac_approved_by = Some ''admin''\<rparr>"

definition stale_state :: cleaner_state where
  "stale_state = \<lparr>cs_store = fold apply_ledger_op
       [On_grants (Put_grant stale_grant), On_assets (Put_asset_capability stale_approval None None)]
       empty_store, cs_calls = 0, cs_events = 0\<rparr>"

text \<open>The fourth call, the confirmation of the row, fails.\<close>

definition failing_env :: cleaner_env where
  "failing_env = quiet_env\<lparr>ce_fate := (\<lambda>n. if n = 3 then Fails ''ClientError'' else Answers)\<rparr>"

theorem cleaning_hides_nothing_witness:
  "\<exists>report st'. run_state (delete_record_grants failing_env [''mcp''] ''admin'') stale_state = (report, st') \<and>
     coordinate stale_grant \<in> set (gr_unknown report)"
proof -
  obtain report st' where run: "run_state (delete_record_grants failing_env [''mcp''] ''admin'') stale_state = (report, st')"
    by (cases "run_state (delete_record_grants failing_env [''mcp''] ''admin'') stale_state")
  have "case run_state (delete_record_grants failing_env [''mcp''] ''admin'') stale_state of (report, st') \<Rightarrow>
      gr_observed report \<and> stale_grant \<in> set (dvalues (st_grants (cs_store st')))"
    by code_simp
  then have "gr_observed report" "stale_grant \<in> set (dvalues (st_grants (cs_store st')))"
    by (simp_all add: run)
  moreover have "ag_asset_id stale_grant \<in> set [''mcp'']" "ag_asset_id stale_grant \<noteq> []"
    by (simp_all add: stale_grant_def)
  ultimately show ?thesis using cleaning_hides_nothing [OF run] run by blast
qed

theorem cleaning_takes_only_purged_witness:
  "\<exists>report st'. run_state (delete_record_grants quiet_env [''mcp''] ''admin'') stale_state = (report, st') \<and>
     gr_unknown report = [] \<and> set (gr_deleted report) = {(''principal:ann'', ''mcp'', ''read'')}"
proof -
  obtain report st' where run: "run_state (delete_record_grants quiet_env [''mcp''] ''admin'') stale_state = (report, st')"
    by (cases "run_state (delete_record_grants quiet_env [''mcp''] ''admin'') stale_state")
  have st: "cs_store stale_state = fold apply_ledger_op
      [On_grants (Put_grant stale_grant), On_assets (Put_asset_capability stale_approval None None)] empty_store"
    by (simp add: stale_state_def)
  have alone: "alone quiet_env" and quiet: "\<forall>n. ce_fate quiet_env n = Answers"
    by (simp_all add: alone_def quiet_env_def)
  have "dvalues (st_grants (cs_store stale_state)) = [stale_grant]"
    by code_simp
  then have "{g \<in> set (dvalues (st_grants (cs_store stale_state))). ag_asset_id g \<in> set [''mcp''] \<and> ag_asset_id g \<noteq> []}
      = {stale_grant}"
    by (auto simp: stale_grant_def)
  with cleaning_takes_only_purged [OF st alone run] quiet run show ?thesis
    by (auto simp: coordinate_def subject_label_def stale_grant_def)
qed

theorem approvals_withdrawn_witness:
  "\<exists>report st'. run_state (delete_record_approvals quiet_env ''mcp'' [] ''admin'') stale_state = (Inr report, st') \<and>
     cr_unknown report = [] \<and> dget (caps_of st') (''mcp'', ''read'') = None"
proof -
  have "case run_state (delete_record_approvals quiet_env ''mcp'' [] ''admin'') stale_state of
      (r, st') \<Rightarrow> (case r of Inl _ \<Rightarrow> False | Inr _ \<Rightarrow> True)"
    by code_simp
  then obtain report st' where
    run: "run_state (delete_record_approvals quiet_env ''mcp'' [] ''admin'') stale_state = (Inr report, st')"
    by (auto split: prod.splits sum.splits)
  have st: "cs_store stale_state = fold apply_ledger_op
      [On_grants (Put_grant stale_grant), On_assets (Put_asset_capability stale_approval None None)] empty_store"
    by (simp add: stale_state_def)
  have alone: "alone quiet_env" and quiet: "\<forall>n. ce_fate quiet_env n = Answers"
    by (simp_all add: alone_def quiet_env_def)
  have w: "cr_unknown report = []"
    "\<forall>op c. dget (caps_of st') (''mcp'', op) = Some c \<longrightarrow> (''mcp'', op) \<in> set (cr_unknown report)"
    using approvals_withdrawn [OF st alone run] quiet by blast+
  then have "dget (caps_of st') (''mcp'', ''read'') = None" by (metis empty_iff empty_set option.exhaust)
  with run w(1) show ?thesis by blast
qed

section \<open>The right to call an agent\<close>

text \<open>A person is let through exactly as owner, as named, or through a group; the default effect
  of the row and its permission group have no part in it.\<close>

lemma agent_invoke_allow_iff:
  "aid_decision (authorize_agent_invoke authz caller groups) = ALLOW \<longleftrightarrow>
     (caller \<noteq> [] \<and> caller = aia_owner_principal_id authz) \<or>
     caller \<in> set (aia_allowed_principals authz) \<or>
     (\<exists>grp \<in> set groups. grp \<in> set (aia_allowed_groups authz))"
  by (auto simp: authorize_agent_invoke_def Let_def)

end
