(* ===== verification/Domain_Rules.thy ===== *)
theory Domain_Rules
  imports Policy_Compiler Gateway_Interceptor
begin

text \<open>
  Domain rules, the conditions on arguments that Cedar decides: the pure half of
  \<open>identity/domain_policy.py\<close>. A form becomes a draft, a draft a Cedar \<open>permit\<close> with a guard, and
  the text is read again by a check of its own; the texts of live policies are searched for
  permits that make a rule pointless; the tools of an asset become the choices of the form.
  SHA-256 is the parameter \<open>hash\<close>. Messages are dropped: an \<open>InvalidDomainRule\<close> is the
  constructor of its cause.
\<close>

section \<open>Constants and records\<close>

definition NAME_PREFIX :: string where
  "NAME_PREFIX = ''DomainRule_''"

definition CEDAR_RESERVED :: "string list" where
  "CEDAR_RESERVED = [''action'', ''context'', ''else'', ''false'', ''forbid'', ''has'', ''if'', ''in'',
     ''is'', ''like'', ''permit'', ''principal'', ''resource'', ''then'', ''true'', ''unless'', ''when'']"

definition DESCRIPTION_MAX :: nat where
  "DESCRIPTION_MAX = 300"

definition NUMERIC_OPERATORS :: "string list" where
  "NUMERIC_OPERATORS = [''<='', ''<'', ''=='', ''>='', ''>'']"

definition STRING_OPERATORS :: "string list" where
  "STRING_OPERATORS = [''=='']"

definition INT_MAX :: int where
  "INT_MAX = 2 ^ 53"

record rule_draft =
  rd_gateway_arn :: string
  rd_asset_id :: string
  rd_asset_version :: string
  rd_target_name :: string
  rd_tool_name :: string
  rd_argument :: string
  rd_operator :: string
  rd_value_kind :: string
  rd_value :: string
  rd_description :: string

definition draft_action :: "rule_draft \<Rightarrow> string" where
  "draft_action d = gateway_tool_name (rd_target_name d) (rd_tool_name d)"

record compiled_rule =
  cr_action :: string
  cr_cedar_policy :: string
  cr_policy_hash :: string
  cr_size_bytes :: nat

datatype shape_error =
  Has_forbid | Has_unless | Other_shape | Other_action | Other_gateway | No_guard | Other_comparison

datatype rule_error =
    Unexpected_items "string list"
  | Not_an_identifier
  | Reserved_word
  | Owner_argument_used
  | Bad_operator
  | Not_an_integer
  | Out_of_range int
  | Bad_string_value
  | Unknown_value_kind
  | No_gateway
  | Bad_target_name
  | Bad_action_name
  | Description_too_long
  | Rule_too_large
  | Bad_shape shape_error

section \<open>The draft\<close>

definition DRAFT_KEYS :: "string list" where
  "DRAFT_KEYS = [''asset_id'', ''asset_version'', ''target_name'', ''tool_name'', ''argument'',
     ''operator'', ''value_kind'', ''value'', ''description'']"

text \<open>\<open>str(payload.get(k) or "").strip()\<close>\<close>

definition form_text :: "(json \<Rightarrow> string) \<Rightarrow> (string \<times> json) list \<Rightarrow> string \<Rightarrow> string" where
  "form_text repr payload k = strip (py_str repr (j_or (jget payload k) (JStr [])))"

definition normalize_draft ::
  "(json \<Rightarrow> string) \<Rightarrow> (string \<times> json) list \<Rightarrow> rule_error + rule_draft" where
  "normalize_draft repr payload =
     (let unexpected = sort (remdups (filter (\<lambda>k. k \<notin> set DRAFT_KEYS) (map fst payload)));
          text = form_text repr payload in
      if unexpected \<noteq> [] then Inl (Unexpected_items unexpected)
      else Inr \<lparr>rd_gateway_arn = [], rd_asset_id = text ''asset_id'',
        rd_asset_version = text ''asset_version'', rd_target_name = text ''target_name'',
        rd_tool_name = text ''tool_name'', rd_argument = text ''argument'',
        rd_operator = text ''operator'', rd_value_kind = text ''value_kind'',
        rd_value = text ''value'', rd_description = text ''description''\<rparr>)"

section \<open>Validation\<close>

definition is_digit :: "char \<Rightarrow> bool" where
  "is_digit c = (let n = (of_char c :: nat) in 48 \<le> n \<and> n \<le> 57)"

definition ident_char :: "char \<Rightarrow> bool" where
  "ident_char c \<longleftrightarrow> is_alnum c \<or> c = CHR ''_''"

text \<open>\<open>_ARGUMENT_RE\<close>\<close>

definition is_argument :: "string \<Rightarrow> bool" where
  "is_argument a \<longleftrightarrow> a \<noteq> [] \<and> \<not> is_digit (hd a) \<and> list_all ident_char a \<and> length a \<le> 64"

definition validated_argument :: "string \<Rightarrow> rule_error + string" where
  "validated_argument a =
     (if \<not> is_argument a then Inl Not_an_identifier
      else if a \<in> set CEDAR_RESERVED then Inl Reserved_word
      else if a = OWNER_ARGUMENT then Inl Owner_argument_used
      else Inr a)"

text \<open>
  Python's \<open>int(text)\<close> on ASCII: outer spaces, a sign, digits in groups separated by single
  underscores, at most 4300 of them. \<open>None\<close> is \<open>ValueError\<close>.
\<close>

definition digit_value :: "char \<Rightarrow> int" where
  "digit_value c = of_char c - 48"

definition unsigned_of_text :: "string \<Rightarrow> int option" where
  "unsigned_of_text s =
     (let groups = split_on CHR ''_'' s; digits = concat groups in
      if list_all (\<lambda>g. g \<noteq> [] \<and> list_all is_digit g) groups \<and> length digits \<le> 4300
      then Some (foldl (\<lambda>n c. 10 * n + digit_value c) 0 digits) else None)"

definition int_of_text :: "string \<Rightarrow> int option" where
  "int_of_text s =
     (case strip s of
        [] \<Rightarrow> None
      | c # cs \<Rightarrow>
          if c = CHR ''-'' then map_option uminus (unsigned_of_text cs)
          else if c = CHR ''+'' then unsigned_of_text cs
          else unsigned_of_text (c # cs))"

text \<open>\<open>_STRING_VALUE_RE\<close>\<close>

definition value_char :: "char \<Rightarrow> bool" where
  "value_char c \<longleftrightarrow> is_alnum c \<or> c \<in> set '' _.:@/+=-''"

definition is_string_value :: "string \<Rightarrow> bool" where
  "is_string_value v \<longleftrightarrow> list_all value_char v \<and> 1 \<le> length v \<and> length v \<le> 128"

text \<open>The literal for the Cedar text.\<close>

definition validated_value :: "string \<Rightarrow> string \<Rightarrow> string \<Rightarrow> rule_error + string" where
  "validated_value operator kind v =
     (if kind = ''number'' then
        (if operator \<notin> set NUMERIC_OPERATORS then Inl Bad_operator
         else case int_of_text v of
           None \<Rightarrow> Inl Not_an_integer
         | Some n \<Rightarrow> if \<bar>n\<bar> \<le> INT_MAX then Inr (int_digits n) else Inl (Out_of_range n))
      else if kind = ''string'' then
        (if operator \<notin> set STRING_OPERATORS then Inl Bad_operator
         else if \<not> is_string_value v then Inl Bad_string_value
         else Inr (quoted (cedar_string_literal v)))
      else Inl Unknown_value_kind)"

section \<open>The text\<close>

definition has_guard :: "string \<Rightarrow> string" where
  "has_guard argument = ''context.input has '' @ argument"

definition compared :: "string \<Rightarrow> string" where
  "compared argument = ''context.input.'' @ argument @ '' ''"

definition build_when_clause :: "string \<Rightarrow> string \<Rightarrow> string \<Rightarrow> string" where
  "build_when_clause argument operator literal =
     has_guard argument @ '' && '' @ compared argument @ operator @ '' '' @ literal"

definition rule_head :: "string \<Rightarrow> string" where
  "rule_head action =
     ''permit('' @ newline @ ''  principal is AgentCore::OAuthUser,'' @ newline @
     ''  action == AgentCore::Action::'' @ quoted (cedar_string_literal action)"

definition rule_text :: "string \<Rightarrow> string \<Rightarrow> string \<Rightarrow> string" where
  "rule_text action gateway when_clause =
     rule_head action @ '','' @ newline @
     ''  resource == AgentCore::Gateway::'' @ quoted (cedar_string_literal gateway) @ newline @
     '')'' @ newline @ ''when { '' @ when_clause @ '' };''"

section \<open>The check of the text\<close>

text \<open>\<open>p in s\<close> on strings.\<close>

fun contains :: "string \<Rightarrow> string \<Rightarrow> bool" where
  "contains p [] = (p = [])"
| "contains p (c # cs) = (prefix p (c # cs) \<or> contains p cs)"

text \<open>\<open>" ".join(text.split())\<close>\<close>

fun words_from :: "string \<Rightarrow> string \<Rightarrow> string list" where
  "words_from w [] = (if w = [] then [] else [w])"
| "words_from w (c # cs) =
     (if is_space c then (if w = [] then words_from [] cs else w # words_from [] cs)
      else words_from (w @ [c]) cs)"

definition fold_spaces :: "string \<Rightarrow> string" where
  "fold_spaces s =
     (case words_from [] s of [] \<Rightarrow> [] | w # ws \<Rightarrow> w @ concat (map (Cons CHR '' '') ws))"

text \<open>Parts of \<open>_SHAPE_RE\<close>: a literal, then spaces; and a run up to the closing quote.\<close>

definition after_literal :: "string \<Rightarrow> string \<Rightarrow> string option" where
  "after_literal p s = (if prefix p s then Some (dropWhile is_space (drop (length p) s)) else None)"

definition quoted_run :: "string \<Rightarrow> (string \<times> string) option" where
  "quoted_run s =
     (let run = takeWhile (\<lambda>c. c \<noteq> CHR 0x22) s in
      case dropWhile (\<lambda>c. c \<noteq> CHR 0x22) s of
        [] \<Rightarrow> None
      | _ # rest \<Rightarrow> if run = [] then None else Some (run, rest))"

text \<open>\<open>(?P<body>.+)\}\s*;\s*$\<close>: the body ends at the last brace.\<close>

definition braced_body :: "string \<Rightarrow> string option" where
  "braced_body s =
     (let after = rev (takeWhile (\<lambda>c. c \<noteq> CHR ''}'') (rev s)) in
      case dropWhile (\<lambda>c. c \<noteq> CHR ''}'') (rev s) of
        [] \<Rightarrow> None
      | _ # body \<Rightarrow> if body \<noteq> [] \<and> strip after = '';'' then Some (rev body) else None)"

definition parse_shape :: "string \<Rightarrow> (string \<times> string \<times> string) option" where
  "parse_shape text =
     Option.bind (after_literal ''permit('' text) (\<lambda>s.
     Option.bind (after_literal ''principal is AgentCore::OAuthUser,'' s) (\<lambda>s.
     Option.bind (if prefix (''action == '' @ ACTION_MARKER) s
                  then quoted_run (drop (length (''action == '' @ ACTION_MARKER)) s) else None) (\<lambda>(action, s).
     Option.bind (after_literal '','' s) (\<lambda>s.
     Option.bind (if prefix (''resource == AgentCore::Gateway::'' @ [CHR 0x22]) s
                  then quoted_run (drop (length (''resource == AgentCore::Gateway::'' @ [CHR 0x22])) s)
                  else None) (\<lambda>(gateway, s).
     Option.bind (after_literal '')'' (dropWhile is_space s)) (\<lambda>s.
     Option.bind (after_literal ''when'' s) (\<lambda>s.
     case s of
       [] \<Rightarrow> None
     | c # s \<Rightarrow>
         if c = CHR ''{'' then map_option (\<lambda>body. (action, gateway, body)) (braced_body s)
         else None)))))))"

definition assert_fail_closed_shape ::
  "string \<Rightarrow> string \<Rightarrow> string \<Rightarrow> string \<Rightarrow> shape_error + unit" where
  "assert_fail_closed_shape statement argument action gateway =
     (let text = strip statement in
      if contains ''forbid'' text then Inl Has_forbid
      else if contains ''unless'' text then Inl Has_unless
      else case parse_shape text of
        None \<Rightarrow> Inl Other_shape
      | Some (a, g, b) \<Rightarrow>
          if a \<noteq> action then Inl Other_action
          else if g \<noteq> gateway then Inl Other_gateway
          else let body = fold_spaces b; guard = has_guard argument in
            if \<not> prefix (guard @ '' &&'') body then Inl No_guard
            else if \<not> prefix (compared argument) (strip (drop (length guard + 3) body))
            then Inl Other_comparison
            else Inr ())"

definition compile_domain_rule ::
  "(string \<Rightarrow> string) \<Rightarrow> rule_draft \<Rightarrow> rule_error + compiled_rule" where
  "compile_domain_rule hash d =
     (let gateway = strip (rd_gateway_arn d); action = draft_action d in
      if \<not> prefix ''arn:'' gateway \<or> \<not> safe_gateway gateway then Inl No_gateway
      else if \<not> safe_target (rd_target_name d) \<or> rd_target_name d = ''CallTool''
      then Inl Bad_target_name
      else if \<not> safe_action action then Inl Bad_action_name
      else
        bind_res (validated_argument (rd_argument d)) (\<lambda>argument.
        bind_res (validated_value (rd_operator d) (rd_value_kind d) (rd_value d)) (\<lambda>literal.
          if DESCRIPTION_MAX < length (rd_description d) then Inl Description_too_long
          else
            let cedar = rule_text action gateway (build_when_clause argument (rd_operator d) literal)
            in if MAX_CEDAR_POLICY_BYTES < length cedar then Inl Rule_too_large
               else case assert_fail_closed_shape cedar argument action gateway of
                 Inl e \<Rightarrow> Inl (Bad_shape e)
               | Inr _ \<Rightarrow> Inr \<lparr>cr_action = action, cr_cedar_policy = cedar,
                   cr_policy_hash = hash cedar, cr_size_bytes = length cedar\<rparr>)))"

section \<open>Permits that make a rule pointless\<close>

record live_policy =
  lv_policy_id :: string
  lv_name :: string
  lv_status :: string
  lv_cedar :: string

datatype conflict_kind = Action_unrestricted | Action_listed | Target_listed | Duplicate_domain_rule

fun conflict_value :: "conflict_kind \<Rightarrow> string" where
  "conflict_value Action_unrestricted = ''action_unrestricted''"
| "conflict_value Action_listed = ''action_listed''"
| "conflict_value Target_listed = ''target_listed''"
| "conflict_value Duplicate_domain_rule = ''duplicate_domain_rule''"

record coarse_conflict =
  cf_policy_id :: string
  cf_policy_name :: string
  cf_kind :: conflict_kind

text \<open>What is left after a comment's end, if it ends.\<close>

fun after_close :: "string \<Rightarrow> string option" where
  "after_close (c # d # cs) = (if c = CHR ''*'' \<and> d = CHR ''/'' then Some cs else after_close (d # cs))"
| "after_close _ = None"

lemma after_close_shorter: "after_close s = Some r \<Longrightarrow> length r < length s"
  by (induction s arbitrary: r rule: after_close.induct) (auto split: if_splits)

text \<open>\<open>_COMMENT_RE.sub(" ", text)\<close>: the first alternative that matches, from the left.\<close>

function strip_comments :: "string \<Rightarrow> string" where
  "strip_comments s =
     (case s of
        [] \<Rightarrow> []
      | c # cs \<Rightarrow>
          (case (if prefix ''/*'' s then after_close (drop 2 s) else None) of
             Some rest \<Rightarrow> CHR '' '' # strip_comments rest
           | None \<Rightarrow>
               if prefix ''//'' s
               then CHR '' '' # strip_comments (dropWhile (\<lambda>c. c \<noteq> CHR 0x0A) (drop 2 s))
               else c # strip_comments cs))"
  by pat_completeness auto
termination
  using length_dropWhile_le [of "\<lambda>c. c \<noteq> CHR 0x0A"]
  by (relation "measure length")
    (auto dest!: after_close_shorter split: if_splits simp: prefix_def less_Suc_eq_le
      intro: le_trans less_imp_le)

declare strip_comments.simps [simp del]

text \<open>\<open>_CEDAR_ACTION_NAME_RE.findall\<close>\<close>

definition name_at :: "string \<Rightarrow> (string \<times> string) option" where
  "name_at s =
     (if prefix ACTION_MARKER s then quoted_run (drop (length ACTION_MARKER) s) else None)"

lemma quoted_run_shorter: "quoted_run s = Some (a, r) \<Longrightarrow> length r < length s"
  using length_dropWhile_le [of "\<lambda>c. c \<noteq> CHR 0x22" s]
  by (auto simp: quoted_run_def Let_def split: list.splits if_splits)

function action_names :: "string \<Rightarrow> string list" where
  "action_names s =
     (case name_at s of
        Some (a, rest) \<Rightarrow> a # action_names rest
      | None \<Rightarrow> (case s of [] \<Rightarrow> [] | _ # cs \<Rightarrow> action_names cs))"
  by pat_completeness auto
termination
  by (relation "measure length")
    (auto simp: name_at_def dest!: quoted_run_shorter split: if_splits)

declare action_names.simps [simp del]

text \<open>\<open>_BARE_ACTION_RE.search\<close>: a line that says \<open>action,\<close> and nothing else.\<close>

definition bare_action_at :: "string \<Rightarrow> bool" where
  "bare_action_at s =
     (case after_literal ''action'' (dropWhile is_space s) of
        None \<Rightarrow> False
      | Some r \<Rightarrow>
          (case r of
             [] \<Rightarrow> False
           | c # r' \<Rightarrow> c = CHR '','' \<and>
               (CHR 0x0A \<in> set (takeWhile is_space r') \<or> dropWhile is_space r' = [])))"

fun bare_action_after :: "string \<Rightarrow> bool" where
  "bare_action_after [] = False"
| "bare_action_after (c # cs) = ((c = CHR 0x0A \<and> bare_action_at cs) \<or> bare_action_after cs)"

definition bare_action :: "string \<Rightarrow> bool" where
  "bare_action s \<longleftrightarrow> bare_action_at s \<or> bare_action_after s"

definition overlap_kind :: "string \<Rightarrow> string \<Rightarrow> live_policy \<Rightarrow> conflict_kind option" where
  "overlap_kind action target p =
     (let text = strip_comments (lv_cedar p); listed = action_names text in
      if lv_status p \<noteq> ''ACTIVE'' then None
      else if \<not> prefix ''permit'' (dropWhile is_space text) then None
      else if listed = [] \<and> bare_action text then Some Action_unrestricted
      else if action \<in> set listed then
        Some (if prefix NAME_PREFIX (lv_name p) then Duplicate_domain_rule else Action_listed)
      else if target \<in> set listed then Some Target_listed
      else None)"

definition detect_permit_overlap ::
  "string \<Rightarrow> string \<Rightarrow> live_policy list \<Rightarrow> string list \<Rightarrow> coarse_conflict list" where
  "detect_permit_overlap action target policies exclude =
     List.map_filter (\<lambda>p.
       if lv_policy_id p \<in> set exclude then None
       else map_option (\<lambda>k. \<lparr>cf_policy_id = lv_policy_id p, cf_policy_name = lv_name p, cf_kind = k\<rparr>)
              (overlap_kind action target p)) policies"

section \<open>What a rule does now\<close>

datatype rule_effect =
  Observing_no_impact | Observing_tool_closed | Enforcing | Enforcing_shadowed | Effect_unknown

definition enforcement_effect :: "string \<Rightarrow> bool option \<Rightarrow> rule_effect" where
  "enforcement_effect mode coarse_permits =
     (case coarse_permits of
        None \<Rightarrow> Effect_unknown
      | Some p \<Rightarrow>
          if mode = ''ACTIVE'' then (if p then Enforcing_shadowed else Enforcing)
          else if mode = ''LOG_ONLY'' then (if p then Observing_no_impact else Observing_tool_closed)
          else Effect_unknown)"

definition policy_name :: "(string \<Rightarrow> string) \<Rightarrow> string \<Rightarrow> string \<Rightarrow> int \<Rightarrow> string" where
  "policy_name hash gateway policy_hash revision =
     take 48 (NAME_PREFIX @ take 10 (hash gateway) @ ''_'' @ take 8 policy_hash @ ''_r'' @ int_digits revision)"

section \<open>The choices of the form\<close>

record tool_argument =
  ta_name :: string
  ta_json_type :: string
  ta_required :: bool
  ta_reason :: "rule_error option"

definition ta_usable :: "tool_argument \<Rightarrow> bool" where
  "ta_usable a \<longleftrightarrow> ta_reason a = None"

record tool_option =
  to_tool_name :: string
  to_target_name :: string
  to_sensitivity :: string
  to_description :: string
  to_arguments :: "tool_argument list"
  to_schema_reason :: string

datatype asset_reason =
  No_reason | Targets_unreadable target_error | Not_split | Tools_unreadable string

record asset_option =
  ao_asset_id :: string
  ao_asset_version :: string
  ao_name :: string
  ao_tools :: "tool_option list"
  ao_reason :: asset_reason

definition declared_tool_list ::
  "(string \<Rightarrow> json option) \<Rightarrow> json \<Rightarrow> (string \<times> json) list list \<times> string" where
  "declared_tool_list parse_json descriptors =
     (case (case descriptors of JObj d \<Rightarrow> jget d ''mcp'' | _ \<Rightarrow> JNull) of
        JObj mcp \<Rightarrow>
          (case jget mcp ''tools'' of
             JObj node \<Rightarrow>
               (case jget node ''inlineContent'' of
                  JStr inline \<Rightarrow>
                    if strip inline = [] then ([], ''descriptor_tools_empty'')
                    else case parse_json inline of
                      None \<Rightarrow> ([], ''descriptor_json_invalid'')
                    | Some parsed \<Rightarrow>
                        (case (case parsed of JObj p \<Rightarrow> jget p ''tools'' | _ \<Rightarrow> JNull) of
                           JArr tools \<Rightarrow> (List.map_filter as_obj tools, [])
                         | _ \<Rightarrow> ([], ''descriptor_tools_invalid''))
                | _ \<Rightarrow> ([], ''descriptor_tools_empty''))
           | _ \<Rightarrow> ([], ''descriptor_tools_invalid''))
      | _ \<Rightarrow> ([], ''descriptor_mcp_missing''))"

definition tool_argument_of :: "string list \<Rightarrow> string \<times> json \<Rightarrow> tool_argument option" where
  "tool_argument_of required x =
     (case x of (name, spec) \<Rightarrow>
        if name = [] then None
        else Some \<lparr>ta_name = name,
          ta_json_type = (case spec of
             JObj kvs \<Rightarrow> (case jget kvs ''type'' of JStr t \<Rightarrow> t | _ \<Rightarrow> []) | _ \<Rightarrow> []),
          ta_required = (name \<in> set required),
          ta_reason = (case validated_argument name of Inl e \<Rightarrow> Some e | Inr _ \<Rightarrow> None)\<rparr>)"

definition schema_arguments :: "json \<Rightarrow> tool_argument list \<times> string" where
  "schema_arguments schema =
     (case schema of
        JObj kvs \<Rightarrow>
          (case jget kvs ''properties'' of
             JObj props \<Rightarrow>
               (let required = (case jget kvs ''required'' of
                                  JArr xs \<Rightarrow> List.map_filter as_str xs | _ \<Rightarrow> [])
                in (sort_key ta_name (List.map_filter (tool_argument_of required) props), []))
           | _ \<Rightarrow> ([], ''input_schema_properties_missing''))
      | _ \<Rightarrow> ([], ''input_schema_missing''))"

definition sensitivity_by_target :: "mcp_gateway_target_index \<Rightarrow> (string, string) dict" where
  "sensitivity_by_target index =
     fold (\<lambda>t. dput (mt_name t) (mt_sensitivity t)) (ti_targets index) []"

definition tool_option_of ::
  "(json \<Rightarrow> string) \<Rightarrow> mcp_gateway_target_index \<Rightarrow> (string \<times> json) list \<Rightarrow> tool_option option" where
  "tool_option_of repr index tool =
     (case jget tool ''name'' of
        JStr raw \<Rightarrow>
          (let name = strip raw in
           if name = [] then None
           else case index_target_name index name of
             None \<Rightarrow> None
           | Some target \<Rightarrow>
               if target = [] then None
               else case schema_arguments (jget tool ''inputSchema'') of (arguments, reason) \<Rightarrow>
                 Some \<lparr>to_tool_name = name, to_target_name = target,
                   to_sensitivity = (case dget (sensitivity_by_target index) target of None \<Rightarrow> [] | Some s \<Rightarrow> s),
                   to_description = take 200 (py_str repr (j_or (jget tool ''description'') (JStr []))),
                   to_arguments = arguments, to_schema_reason = reason\<rparr>)
      | _ \<Rightarrow> None)"


definition asset_option_of ::
  "(json \<Rightarrow> string) \<Rightarrow> (string \<Rightarrow> json option) \<Rightarrow> string \<times> string \<times> string \<times> json \<Rightarrow> asset_option" where
  "asset_option_of repr parse_json x =
     (case x of (aid, version, name, descriptors) \<Rightarrow>
        case mcp_gateway_target_index descriptors of
          Inl e \<Rightarrow> \<lparr>ao_asset_id = aid, ao_asset_version = version, ao_name = name, ao_tools = [],
            ao_reason = Targets_unreadable e\<rparr>
        | Inr index \<Rightarrow>
            if \<not> ti_split index
            then \<lparr>ao_asset_id = aid, ao_asset_version = version, ao_name = name, ao_tools = [],
              ao_reason = Not_split\<rparr>
            else case declared_tool_list parse_json descriptors of (tools, reason) \<Rightarrow>
              \<lparr>ao_asset_id = aid, ao_asset_version = version, ao_name = name,
               ao_tools = sort_key to_tool_name (List.map_filter (tool_option_of repr index) tools),
               ao_reason = (if reason = [] then No_reason else Tools_unreadable reason)\<rparr>)"

text \<open>The names of the assets the page warns about: those whose targets or tools are unreadable.\<close>

record policy_options =
  po_gateway_arn :: string
  po_assets :: "asset_option list"
  po_warnings :: "string list"

definition warned :: "asset_option \<Rightarrow> bool" where
  "warned a \<longleftrightarrow> (case ao_reason a of Targets_unreadable _ \<Rightarrow> True | Tools_unreadable _ \<Rightarrow> True | _ \<Rightarrow> False)"

definition build_options ::
  "(json \<Rightarrow> string) \<Rightarrow> (string \<Rightarrow> json option) \<Rightarrow> string \<Rightarrow> (string \<times> string \<times> string \<times> json) list
     \<Rightarrow> policy_options" where
  "build_options repr parse_json gateway assets =
     (let options = map (asset_option_of repr parse_json) assets in
      \<lparr>po_gateway_arn = gateway, po_assets = sort_key ao_name options,
       po_warnings = map ao_name (filter warned options)\<rparr>)"

end
