(* ===== verification/Policy_Engine.thy ===== *)
theory Policy_Engine
  imports Domain_Rules Agent_Ledger Effects
begin

text \<open>
  What the clients of the policy engine share: \<open>DomainPolicyService\<close> in
  \<open>identity/domain_policy.py\<close> and \<open>SharedPolicyProvisioner\<close> in
  \<open>identity/shared_policy_provisioner.py\<close>.

  The policy engine and the Gateway are remote services: each of their calls is a function of a
  world \<open>'w\<close> that answers or raises and leaves another world, so that whatever others do to the
  engine between two calls is part of the world. The ledger is the model's identity store. The
  writes sent to the engine are kept in order, and so are the details of policies it answered, each
  with the number of writes sent before it, so that properties can speak about both.

  A run ends in three ways: it returns, it raises, or it does not end, since the pages of a list
  are read in a loop without a bound.
\<close>

section \<open>Runs that raise or do not end\<close>

datatype service_exc =
    Remote_failed string            \<comment> \<open>of the engine's client, as \<open>type: message\<close>\<close>
  | No_list_key
  | Token_repeated
  | No_policy_id
  | Invalid_rule rule_error
  | Rule_ineffective "coarse_conflict list"
  | Conflict_unobservable service_exc
  | Raw_state_unobservable service_exc
  | Statement_drifted
  | Rule_missing
  | Activation_pending             \<comment> \<open>\<open>PolicyActivationPending\<close>\<close>
  | Activation_failed string       \<comment> \<open>a settled status that is not \<open>ACTIVE\<close>\<close>

datatype 'a ending = Returned 'a | Raised service_exc | Hangs

definition try_bind ::
  "('s, 'a ending) state \<Rightarrow> ('a \<Rightarrow> ('s, 'b ending) state) \<Rightarrow> ('s, 'b ending) state" where
  "try_bind m f = State_Monad.bind m (\<lambda>r.
     case r of Returned a \<Rightarrow> f a
     | Raised e \<Rightarrow> State_Monad.return (Raised e)
     | Hangs \<Rightarrow> State_Monad.return Hangs)"

definition handled ::
  "('s, 'a ending) state \<Rightarrow> (service_exc \<Rightarrow> ('s, 'a ending) state) \<Rightarrow> ('s, 'a ending) state" where
  "handled m h = State_Monad.bind m (\<lambda>r.
     case r of Raised e \<Rightarrow> h e | Returned a \<Rightarrow> State_Monad.return (Returned a)
     | Hangs \<Rightarrow> State_Monad.return Hangs)"

definition give :: "'a \<Rightarrow> ('s, 'a ending) state" where
  "give a = State_Monad.return (Returned a)"

definition throw :: "service_exc \<Rightarrow> ('s, 'a ending) state" where
  "throw e = State_Monad.return (Raised e)"

text \<open>An exception as an answer.\<close>

definition attempt :: "('s, 'a ending) state \<Rightarrow> ('s, (service_exc + 'a) ending) state" where
  "attempt m = handled (try_bind m (\<lambda>a. give (Inr a))) (\<lambda>e. give (Inl e))"

definition of_result :: "('e \<Rightarrow> service_exc) \<Rightarrow> 'e + 'a \<Rightarrow> ('s, 'a ending) state" where
  "of_result wrap r = (case r of Inl e \<Rightarrow> throw (wrap e) | Inr a \<Rightarrow> give a)"

lemma wp_ending [wp_simps]:
  "wp (case r of Returned a \<Rightarrow> f a | Raised e \<Rightarrow> g e | Hangs \<Rightarrow> m) Q =
     (case r of Returned a \<Rightarrow> wp (f a) Q | Raised e \<Rightarrow> wp (g e) Q | Hangs \<Rightarrow> wp m Q)"
  by (simp split: ending.split)

lemma wp_try_bind [wp_simps]:
  "wp (try_bind m f) Q =
     wp m (\<lambda>r. case r of Returned a \<Rightarrow> wp (f a) Q | Raised e \<Rightarrow> Q (Raised e) | Hangs \<Rightarrow> Q Hangs)"
  by (simp add: try_bind_def wp_ending cong: ending.case_cong)

lemma wp_handled [wp_simps]:
  "wp (handled m h) Q =
     wp m (\<lambda>r. case r of Raised e \<Rightarrow> wp (h e) Q | Returned a \<Rightarrow> Q (Returned a) | Hangs \<Rightarrow> Q Hangs)"
  by (simp add: handled_def wp_ending cong: ending.case_cong)

lemma wp_give [wp_simps]: "wp (give a) Q = Q (Returned a)"
  by (simp add: give_def)

lemma wp_throw [wp_simps]: "wp (throw e) Q = Q (Raised e)"
  by (simp add: throw_def)

lemma wp_of_result [wp_simps]:
  "wp (of_result wrap r) Q = (case r of Inl e \<Rightarrow> Q (Raised (wrap e)) | Inr a \<Rightarrow> Q (Returned a))"
  by (simp add: of_result_def wp_give wp_throw split: sum.split)

section \<open>The engine and the ledger\<close>

text \<open>Answers of the engine, an absent field read as an empty text; \<open>pg_items\<close> is \<open>None\<close> where
  the key of the list is absent.\<close>

record listed_policy =
  lp_id :: string
  lp_name :: string
  lp_status :: string

record 'p page =
  pg_items :: "'p list option"
  pg_next :: string

record policy_detail =
  pd_name :: string
  pd_status :: string
  pd_reasons :: "string list"
  pd_mode :: string
  pd_statement :: string

record listed_target =
  lt_id :: string
  lt_name :: string

text \<open>What is sent: to create a policy its engine, name, text and mode (empty where none is given);
  to update it its engine, id, text and mode; every one with the validation
  \<open>FAIL_ON_ANY_FINDINGS\<close>.\<close>

datatype engine_write =
    Create_policy string string string string
  | Update_policy string string string string
  | Delete_policy string string

text \<open>The sentences that end up in a row. The environment says how they read, and what the
  provisioning of the shared policies answers, which the API asks for after a change.\<close>

datatype row_text =
    Not_observed service_exc | Not_finished | Read_failed service_exc
  | Made | Promoted | Promoted_knowingly

record 'w rule_env =
  re_gateway_arn :: string
  re_engine_id :: string
  re_gateway_id :: string
  re_list_policies :: "'w \<Rightarrow> string option \<Rightarrow> (string + listed_policy page) \<times> 'w"
  re_get_policy :: "'w \<Rightarrow> string \<Rightarrow> string \<Rightarrow> (string + policy_detail) \<times> 'w"
  re_write :: "'w \<Rightarrow> engine_write \<Rightarrow> (string + string) \<times> 'w"
  re_get_gateway :: "'w \<Rightarrow> string \<Rightarrow> (string + string list list) \<times> 'w"
  re_list_targets :: "'w \<Rightarrow> string option \<Rightarrow> (string + listed_target page) \<times> 'w"
  re_get_target :: "'w \<Rightarrow> string \<Rightarrow> (string + json) \<times> 'w"
  re_assets :: "'w \<Rightarrow> (string + (string \<times> string \<times> string \<times> json) list) \<times> 'w"
  re_sleep :: "'w \<Rightarrow> 'w"
  re_now :: "'w \<Rightarrow> string \<times> 'w"
  re_new_id :: "'w \<Rightarrow> string \<times> 'w"
  re_hash :: "string \<Rightarrow> string"
  re_repr :: "json \<Rightarrow> string"
  re_parse_json :: "string \<Rightarrow> json option"
  re_text :: "row_text \<Rightarrow> string"
  re_provision :: "'w \<Rightarrow> nat \<Rightarrow> (string + json) \<times> 'w"
  re_no_mapping :: "json \<Rightarrow> string"

record 'w rule_state =
  rs_store :: identity_store
  rs_world :: 'w
  rs_sent :: "engine_write list"
  rs_seen :: "(nat \<times> string \<times> policy_detail) list"
  rs_changes :: "string list"

type_synonym ('w, 'a) rule_action = "('w rule_state, 'a ending) state"

definition answered :: "string + 'a \<Rightarrow> 'a ending" where
  "answered r = (case r of Inl x \<Rightarrow> Raised (Remote_failed x) | Inr a \<Rightarrow> Returned a)"

definition ask :: "('w \<Rightarrow> (string + 'a) \<times> 'w) \<Rightarrow> ('w, 'a) rule_action" where
  "ask f = State (\<lambda>st. case f (rs_world st) of (r, w) \<Rightarrow> (answered r, st\<lparr>rs_world := w\<rparr>))"

definition draw :: "('w \<Rightarrow> 'a \<times> 'w) \<Rightarrow> ('w, 'a) rule_action" where
  "draw f = State (\<lambda>st. case f (rs_world st) of (a, w) \<Rightarrow> (Returned a, st\<lparr>rs_world := w\<rparr>))"

definition get_policy :: "'w rule_env \<Rightarrow> string \<Rightarrow> string \<Rightarrow> ('w, policy_detail) rule_action" where
  "get_policy env engine pid = State (\<lambda>st.
     case re_get_policy env (rs_world st) engine pid of
       (Inl x, w) \<Rightarrow> (Raised (Remote_failed x), st\<lparr>rs_world := w\<rparr>)
     | (Inr d, w) \<Rightarrow> (Returned d,
         st\<lparr>rs_world := w, rs_seen := rs_seen st @ [(length (rs_sent st), pid, d)]\<rparr>))"

definition send :: "'w rule_env \<Rightarrow> engine_write \<Rightarrow> ('w, string) rule_action" where
  "send env x = State (\<lambda>st. case re_write env (rs_world st) x of (r, w) \<Rightarrow>
     (answered r, st\<lparr>rs_world := w, rs_sent := rs_sent st @ [x]\<rparr>))"

definition saved :: "domain_policy_rule \<Rightarrow> ('w, unit) rule_action" where
  "saved r = State (\<lambda>st. (Returned (), st\<lparr>rs_store := put_domain_policy_rule r (rs_store st)\<rparr>))"

definition stored_rule :: "string \<Rightarrow> ('w, domain_policy_rule) rule_action" where
  "stored_rule rule_id = State (\<lambda>st.
     (case get_domain_policy_rule (rs_store st) rule_id of
        Inl _ \<Rightarrow> Raised Rule_missing | Inr r \<Rightarrow> Returned r, st))"

section \<open>Pages\<close>

text \<open>The loop over the pages of a list: \<open>None\<close> where it does not end. A token that comes again
  ends the list, or raises where the client is \<open>strict\<close>.\<close>

partial_function (option) pages_from ::
  "bool \<Rightarrow> ('w \<Rightarrow> string option \<Rightarrow> (string + 'p page) \<times> 'w) \<Rightarrow> string option \<Rightarrow> string list
     \<Rightarrow> 'p list \<Rightarrow> 'w \<Rightarrow> ((service_exc + 'p list) \<times> 'w) option" where
  "pages_from strict call token seen listed w =
     (case call w token of
        (Inl x, w') \<Rightarrow> Some (Inl (Remote_failed x), w')
      | (Inr page, w') \<Rightarrow>
          (case pg_items page of
             None \<Rightarrow> Some (Inl No_list_key, w')
           | Some ps \<Rightarrow>
               if pg_next page = [] then Some (Inr (listed @ ps), w')
               else if pg_next page \<in> set seen
               then Some (if strict then Inl Token_repeated else Inr (listed @ ps), w')
               else pages_from strict call (Some (pg_next page)) (pg_next page # seen) (listed @ ps) w'))"

definition all_pages ::
  "bool \<Rightarrow> ('w \<Rightarrow> string option \<Rightarrow> (string + 'p page) \<times> 'w) \<Rightarrow> ('w, 'p list) rule_action" where
  "all_pages strict call = State (\<lambda>st.
     case pages_from strict call None [] [] (rs_world st) of
       None \<Rightarrow> (Hangs, st)
     | Some (Inl e, w) \<Rightarrow> (Raised e, st\<lparr>rs_world := w\<rparr>)
     | Some (Inr ps, w) \<Rightarrow> (Returned ps, st\<lparr>rs_world := w\<rparr>))"

text \<open>A status that is not settled.\<close>

definition still_changing :: "string \<Rightarrow> bool" where
  "still_changing status \<longleftrightarrow> status = [] \<or> suffix ''ING'' status"

end
