(* ===== verification/Domain_Service.thy ===== *)
theory Domain_Service
  imports Policy_Engine
begin

text \<open>
  The service of domain rules, \<open>DomainPolicyService\<close> in \<open>identity/domain_policy.py\<close>: it compiles
  a form, looks for live permits that make the rule pointless, creates the policy, promotes it,
  observes it and deletes it.
\<close>

section \<open>The live policies\<close>

definition or_else :: "string \<Rightarrow> string \<Rightarrow> string" where
  "or_else a b = (if a = [] then b else a)"

definition live_policy_of :: "listed_policy \<Rightarrow> policy_detail \<Rightarrow> live_policy" where
  "live_policy_of item detail =
     \<lparr>lv_policy_id = lp_id item, lv_name = or_else (pd_name detail) (lp_name item),
      lv_status = or_else (pd_status detail) (lp_status item), lv_cedar = pd_statement detail\<rparr>"

fun with_texts ::
  "'w rule_env \<Rightarrow> listed_policy list \<Rightarrow> ('w, live_policy list) rule_action" where
  "with_texts env [] = give []"
| "with_texts env (item # items) =
     try_bind (get_policy env (re_engine_id env) (lp_id item)) (\<lambda>detail.
     try_bind (with_texts env items) (\<lambda>rest.
     give (live_policy_of item detail # rest)))"

definition live_policies :: "'w rule_env \<Rightarrow> ('w, live_policy list) rule_action" where
  "live_policies env = try_bind (all_pages False (re_list_policies env)) (with_texts env)"

text \<open>An observation that failed carries the exception that its reason reports.\<close>

type_synonym observation = "service_exc + coarse_conflict list"

definition observe_conflicts :: "'w rule_env \<Rightarrow> string \<Rightarrow> string \<Rightarrow> ('w, observation) rule_action" where
  "observe_conflicts env action target =
     handled
       (try_bind (live_policies env) (\<lambda>ps. give (Inr (detect_permit_overlap action target ps []))))
       (\<lambda>e. give (Inl e))"

section \<open>Waiting for the engine\<close>

fun await_terminal ::
  "'w rule_env \<Rightarrow> string \<Rightarrow> nat \<Rightarrow> ('w, string \<times> string list \<times> string) rule_action" where
  "await_terminal env pid 0 = give (''UNKNOWN'', [re_text env Not_finished], [])"
| "await_terminal env pid (Suc n) =
     try_bind (draw (\<lambda>w. ((), re_sleep env w))) (\<lambda>_.
     State_Monad.bind (get_policy env (re_engine_id env) pid) (\<lambda>r.
     case r of
       Hangs \<Rightarrow> State_Monad.return Hangs
     | Raised e \<Rightarrow> give (''UNKNOWN'', [re_text env (Not_observed e)], [])
     | Returned d \<Rightarrow>
         if still_changing (pd_status d) then await_terminal env pid n
         else give (pd_status d, pd_reasons d, pd_mode d)))"

definition ACTIVE_MAX_POLLS :: nat where
  "ACTIVE_MAX_POLLS = 60"

section \<open>The operations\<close>

definition list_rules :: "identity_store \<Rightarrow> domain_policy_rule list" where
  "list_rules s = rev (sort_key dpr_created_at (rev (list_domain_policy_rules s)))"

definition rule_options :: "'w rule_env \<Rightarrow> ('w, policy_options) rule_action" where
  "rule_options env = try_bind (ask (re_assets env)) (\<lambda>assets.
     give (build_options (re_repr env) (re_parse_json env) (re_gateway_arn env) assets))"

text \<open>The draft of a form at the configured gateway, with its text.\<close>

definition prepared ::
  "'w rule_env \<Rightarrow> (string \<times> json) list \<Rightarrow> rule_error + rule_draft \<times> compiled_rule" where
  "prepared env payload =
     bind_res (normalize_draft (re_repr env) payload) (\<lambda>form.
       let d = form\<lparr>rd_gateway_arn := re_gateway_arn env\<rparr> in
       bind_res (compile_domain_rule (re_hash env) d) (\<lambda>c. Inr (d, c)))"

definition preview ::
  "'w rule_env \<Rightarrow> (string \<times> json) list \<Rightarrow> ('w, rule_draft \<times> compiled_rule \<times> observation) rule_action" where
  "preview env payload =
     try_bind (of_result Invalid_rule (prepared env payload)) (\<lambda>(d, c).
     try_bind (observe_conflicts env (cr_action c) (rd_target_name d)) (\<lambda>seen.
     give (d, c, seen)))"

definition conflict_name :: "coarse_conflict \<Rightarrow> string" where
  "conflict_name c = or_else (cf_policy_name c) (cf_policy_id c)"

text \<open>Conflicts must have been looked for, and stop the operation unless they are acknowledged.\<close>

definition cleared :: "bool \<Rightarrow> coarse_conflict list \<Rightarrow> ('w, coarse_conflict list) rule_action" where
  "cleared acknowledged conflicts =
     (if conflicts \<noteq> [] \<and> \<not> acknowledged then throw (Rule_ineffective conflicts) else give conflicts)"

definition observed :: "observation \<Rightarrow> ('w, coarse_conflict list) rule_action" where
  "observed seen = of_result Conflict_unobservable seen"

definition new_rule ::
  "'w rule_env \<Rightarrow> rule_draft \<Rightarrow> compiled_rule \<Rightarrow> coarse_conflict list \<Rightarrow> string \<Rightarrow> string
     \<Rightarrow> string \<times> string list \<times> string \<Rightarrow> string \<Rightarrow> string \<Rightarrow> string \<Rightarrow> domain_policy_rule" where
  "new_rule env d c conflicts name pid seen created_by now rule_id =
     (case seen of (status, reasons, mode) \<Rightarrow>
        \<lparr>dpr_rule_id = rule_id, dpr_gateway_arn = rd_gateway_arn d, dpr_engine_id = re_engine_id env,
         dpr_asset_id = rd_asset_id d, dpr_asset_version = rd_asset_version d,
         dpr_target_name = rd_target_name d, dpr_tool_name = rd_tool_name d,
         dpr_gateway_action = cr_action c, dpr_argument = rd_argument d,
         dpr_operator = rd_operator d, dpr_value_kind = rd_value_kind d,
         dpr_threshold = rd_value d, dpr_cedar_policy = cr_cedar_policy c,
         dpr_policy_hash = cr_policy_hash c, dpr_remote_policy_id = pid,
         dpr_remote_policy_name = name, dpr_observed_status = status,
         dpr_created_by = created_by, dpr_created_at = now,
         dpr_description = rd_description d, dpr_status_reasons = reasons,
         dpr_coarse_conflicts = map (conflict_value \<circ> cf_kind) conflicts,
         dpr_coarse_conflict_policies = map conflict_name conflicts,
         dpr_conflict_acknowledged = (conflicts \<noteq> []), dpr_enforcement_mode = mode,
         dpr_requested_enforcement_mode = ''LOG_ONLY'',
         dpr_enforcement_changes =
           [\<lparr>dpc_requested_mode = ''LOG_ONLY'', dpc_observed_mode = mode,
             dpc_observed_status = status, dpc_changed_by = created_by, dpc_changed_at = now,
             dpc_reason = re_text env Made\<rparr>],
         dpr_version = 1\<rparr>)"

definition create_domain_rule ::
  "'w rule_env \<Rightarrow> (string \<times> json) list \<Rightarrow> string \<Rightarrow> bool \<Rightarrow> ('w, domain_policy_rule) rule_action" where
  "create_domain_rule env payload created_by acknowledged =
     try_bind (of_result Invalid_rule (prepared env payload)) (\<lambda>(d, c).
     try_bind (observe_conflicts env (cr_action c) (rd_target_name d)) (\<lambda>seen.
     try_bind (observed seen) (\<lambda>all.
     try_bind (cleared acknowledged all) (\<lambda>conflicts.
     let name = policy_name (re_hash env) (rd_gateway_arn d) (cr_policy_hash c) 1 in
     try_bind (send env (Create_policy (re_engine_id env) name (cr_cedar_policy c) ''LOG_ONLY'')) (\<lambda>pid.
     if pid = [] then throw No_policy_id
     else
       try_bind (await_terminal env pid ACTIVE_MAX_POLLS) (\<lambda>state.
       try_bind (draw (re_now env)) (\<lambda>now.
       try_bind (draw (re_new_id env)) (\<lambda>rule_id.
       let rule = new_rule env d c conflicts name pid state created_by now rule_id in
       try_bind (saved rule) (\<lambda>_. give rule)))))))))"

definition promoted_rule ::
  "'w rule_env \<Rightarrow> domain_policy_rule \<Rightarrow> coarse_conflict list \<Rightarrow> string \<times> string list \<times> string
     \<Rightarrow> string \<Rightarrow> string \<Rightarrow> domain_policy_rule" where
  "promoted_rule env rule conflicts seen who now =
     (case seen of (status, reasons, mode) \<Rightarrow>
        rule\<lparr>dpr_observed_status := status, dpr_status_reasons := reasons,
          dpr_enforcement_mode := mode, dpr_requested_enforcement_mode := ''ACTIVE'',
          dpr_enforcement_changes := dpr_enforcement_changes rule @
            [\<lparr>dpc_requested_mode = ''ACTIVE'', dpc_observed_mode = mode,
              dpc_observed_status = status, dpc_changed_by = who, dpc_changed_at = now,
              dpc_reason = re_text env (if conflicts = [] then Promoted else Promoted_knowingly)\<rparr>],
          dpr_coarse_conflicts := map (conflict_value \<circ> cf_kind) conflicts,
          dpr_coarse_conflict_policies := map conflict_name conflicts,
          dpr_conflict_acknowledged := (conflicts \<noteq> [])\<rparr>)"

definition promote_domain_rule ::
  "'w rule_env \<Rightarrow> string \<Rightarrow> string \<Rightarrow> bool \<Rightarrow> ('w, domain_policy_rule) rule_action" where
  "promote_domain_rule env rule_id who acknowledged =
     try_bind (stored_rule rule_id) (\<lambda>rule.
     try_bind (handled (get_policy env (dpr_engine_id rule) (dpr_remote_policy_id rule))
       (\<lambda>e. throw (Raw_state_unobservable e))) (\<lambda>live.
     if fold_spaces (pd_statement live) \<noteq> fold_spaces (dpr_cedar_policy rule)
     then throw Statement_drifted
     else
       try_bind (observe_conflicts env (dpr_gateway_action rule) (dpr_target_name rule)) (\<lambda>seen.
       try_bind (observed seen) (\<lambda>all.
       try_bind (cleared acknowledged
         (filter (\<lambda>c. cf_policy_id c \<noteq> dpr_remote_policy_id rule) all)) (\<lambda>conflicts.
       try_bind (send env (Update_policy (dpr_engine_id rule) (dpr_remote_policy_id rule)
         (dpr_cedar_policy rule) ''ACTIVE'')) (\<lambda>_.
       try_bind (await_terminal env (dpr_remote_policy_id rule) ACTIVE_MAX_POLLS) (\<lambda>state.
       try_bind (draw (re_now env)) (\<lambda>now.
       let updated = promoted_rule env rule conflicts state who now in
       try_bind (saved updated) (\<lambda>_. give updated)))))))))"

definition refresh_domain_rule ::
  "'w rule_env \<Rightarrow> string \<Rightarrow> ('w, domain_policy_rule) rule_action" where
  "refresh_domain_rule env rule_id =
     try_bind (stored_rule rule_id) (\<lambda>rule.
     try_bind
       (handled
         (try_bind (get_policy env (dpr_engine_id rule) (dpr_remote_policy_id rule)) (\<lambda>d.
           give (rule\<lparr>dpr_observed_status := or_else (pd_status d) ''UNKNOWN'',
             dpr_status_reasons := pd_reasons d, dpr_enforcement_mode := pd_mode d\<rparr>)))
         (\<lambda>e. give (rule\<lparr>dpr_observed_status := ''UNKNOWN'',
           dpr_status_reasons := [re_text env (Read_failed e)], dpr_enforcement_mode := []\<rparr>)))
       (\<lambda>updated. try_bind (saved updated) (\<lambda>_. give updated)))"

text \<open>Whether the policy is gone, and if not, why.\<close>

definition dropped :: "string \<Rightarrow> ('w, unit) rule_action" where
  "dropped rule_id = State (\<lambda>st.
     (Returned (), st\<lparr>rs_store := fst (delete_domain_policy_rule rule_id (rs_store st))\<rparr>))"

definition delete_domain_rule :: "'w rule_env \<Rightarrow> string \<Rightarrow> ('w, service_exc option) rule_action" where
  "delete_domain_rule env rule_id =
     try_bind (stored_rule rule_id) (\<lambda>rule.
     try_bind
       (handled
         (try_bind (send env (Delete_policy (dpr_engine_id rule) (dpr_remote_policy_id rule)))
           (\<lambda>_. give None))
         (\<lambda>e. give (Some e)))
       (\<lambda>failure. if failure = None then try_bind (dropped rule_id) (\<lambda>_. give None)
                  else give failure))"

end
