(* ===== verification/Domain_Api.thy ===== *)
theory Domain_Api
  imports Domain_Service
begin

text \<open>
  The administration API of domain rules, \<open>identity/domain_policy_router.py\<close>, with the check of
  the provisioning that follows a committed change, \<open>identity/shared_policy_trigger.py\<close>. The
  provisioning itself answers as the world \<open>'w\<close> says; the changes it was asked for are kept.
\<close>

section \<open>The body of a request\<close>

definition BODY_FIELDS :: "(string \<times> nat \<times> nat) list" where
  "BODY_FIELDS = [(''asset_id'', 1, 200), (''asset_version'', 0, 100), (''target_name'', 1, 100),
     (''tool_name'', 1, 200), (''argument'', 1, 64), (''operator'', 1, 2), (''value_kind'', 1, 16),
     (''value'', 1, 128), (''description'', 0, 300)]"

definition field_ok :: "(string \<times> json) list \<Rightarrow> string \<times> nat \<times> nat \<Rightarrow> bool" where
  "field_ok body x =
     (case x of (k, least, most) \<Rightarrow>
        case dget body k of
          None \<Rightarrow> least = 0
        | Some (JStr s) \<Rightarrow> least \<le> length s \<and> length s \<le> most
        | Some _ \<Rightarrow> False)"

text \<open>\<open>extra="forbid"\<close>: no key but the fields.\<close>

definition body_valid :: "(string \<times> json) list \<Rightarrow> bool" where
  "body_valid body \<longleftrightarrow>
     list_all (\<lambda>k. k \<in> set (map fst BODY_FIELDS)) (map fst body) \<and> list_all (field_ok body) BODY_FIELDS"

definition draft_payload :: "(string \<times> json) list \<Rightarrow> (string \<times> json) list" where
  "draft_payload body =
     map (\<lambda>(k, _). (k, case dget body k of None \<Rightarrow> JStr [] | Some v \<Rightarrow> v)) BODY_FIELDS"

section \<open>Provisioning after a change\<close>

text \<open>\<open>_active_membership\<close>: \<open>None\<close> where it was not observed.\<close>

definition active_membership :: "domain_policy_rule \<Rightarrow> bool option" where
  "active_membership r =
     (if dpr_observed_status r = ''UNKNOWN'' \<or> dpr_enforcement_mode r = [] then None
      else Some (dpr_observed_status r = ''ACTIVE'' \<and> dpr_enforcement_mode r = ''ACTIVE'' \<and>
        dpr_remote_policy_id r \<noteq> []))"

definition HTTP_ACTIVE_MAX_POLLS :: nat where
  "HTTP_ACTIVE_MAX_POLLS = 8"

text \<open>The report of a provisioner that raised, or whose result is no mapping.\<close>

definition unknown_report :: "string \<Rightarrow> (string \<times> json) list" where
  "unknown_report reason =
     [(''ok'', JBool False), (''verdict'', JStr ''unknown''), (''reason'', JStr reason)]"

definition require_shared_policy_provisioned ::
  "(json \<Rightarrow> string) \<Rightarrow> string + json \<Rightarrow> (string \<times> json) list + (string \<times> json) list" where
  "require_shared_policy_provisioned no_mapping raw =
     (case raw of
        Inl failure \<Rightarrow> Inl (unknown_report failure)
      | Inr (JObj report) \<Rightarrow>
          if jget report ''ok'' \<noteq> JBool True \<or> truthy (jget report ''warnings'') then Inl report
          else Inr report
      | Inr other \<Rightarrow> Inl (unknown_report (no_mapping other)))"

section \<open>Replies\<close>

text \<open>What is served with the report of the provisioning if there was one; a status for an error;
  or the report of a provisioning that failed after the change was committed, with 502.\<close>

datatype 'a reply =
    Served 'a "(string \<times> json) list option"
  | Http nat
  | Committed_only string "(string \<times> json) list"

fun create_status :: "service_exc \<Rightarrow> nat" where
  "create_status (Invalid_rule _) = 400"
| "create_status (Rule_ineffective _) = 409"
| "create_status (Conflict_unobservable _) = 409"
| "create_status _ = 502"

fun promote_status :: "service_exc \<Rightarrow> nat" where
  "promote_status Rule_missing = 404"
| "promote_status (Rule_ineffective _) = 409"
| "promote_status (Conflict_unobservable _) = 409"
| "promote_status (Raw_state_unobservable _) = 409"
| "promote_status Statement_drifted = 409"
| "promote_status _ = 502"

text \<open>Other exceptions reach the server, which answers 500.\<close>

fun missing_status :: "service_exc \<Rightarrow> nat" where
  "missing_status Rule_missing = 404"
| "missing_status _ = 500"

definition with_status ::
  "(service_exc \<Rightarrow> nat) \<Rightarrow> ('w, 'a) rule_action \<Rightarrow> ('a \<Rightarrow> ('w, 'b reply) rule_action) \<Rightarrow> ('w, 'b reply) rule_action" where
  "with_status status m f = State_Monad.bind m (\<lambda>r.
     case r of Returned a \<Rightarrow> f a
     | Raised e \<Rightarrow> give (Http (status e))
     | Hangs \<Rightarrow> State_Monad.return Hangs)"

definition provisioned ::
  "'w rule_env \<Rightarrow> string \<Rightarrow> ('w, (string \<times> json) list + (string \<times> json) list) rule_action" where
  "provisioned env change = State (\<lambda>st.
     case re_provision env (rs_world st) HTTP_ACTIVE_MAX_POLLS of (raw, w) \<Rightarrow>
       (Returned (require_shared_policy_provisioned (re_no_mapping env) raw),
        st\<lparr>rs_world := w, rs_changes := rs_changes st @ [change]\<rparr>))"

definition served_after ::
  "'w rule_env \<Rightarrow> bool \<Rightarrow> string \<Rightarrow> 'a \<Rightarrow> ('w, 'a reply) rule_action" where
  "served_after env needed change a =
     (if \<not> needed then give (Served a None)
      else try_bind (provisioned env change) (\<lambda>r.
        case r of Inl report \<Rightarrow> give (Committed_only change report)
        | Inr report \<Rightarrow> give (Served a (Some report))))"

section \<open>The routes\<close>

definition listed_rule :: "string \<Rightarrow> ('w, domain_policy_rule) rule_action" where
  "listed_rule rule_id = State (\<lambda>st.
     (case find (\<lambda>r. dpr_rule_id r = rule_id) (list_rules (rs_store st)) of
        None \<Rightarrow> Raised Rule_missing | Some r \<Rightarrow> Returned r, st))"

definition preview_domain_policy ::
  "'w rule_env \<Rightarrow> (string \<times> json) list
     \<Rightarrow> ('w, (rule_draft \<times> compiled_rule \<times> observation) reply) rule_action" where
  "preview_domain_policy env body =
     (if \<not> body_valid body then give (Http 422)
      else with_status (\<lambda>e. case e of Invalid_rule _ \<Rightarrow> 400 | _ \<Rightarrow> 500)
        (preview env (draft_payload body)) (\<lambda>x. give (Served x None)))"

definition options_domain_policy :: "'w rule_env \<Rightarrow> ('w, policy_options reply) rule_action" where
  "options_domain_policy env = with_status (\<lambda>_. 502) (rule_options env) (\<lambda>x. give (Served x None))"

definition create_domain_policy ::
  "'w rule_env \<Rightarrow> (string \<times> json) list \<Rightarrow> string \<Rightarrow> bool \<Rightarrow> ('w, domain_policy_rule reply) rule_action" where
  "create_domain_policy env body who acknowledged =
     (if \<not> body_valid body then give (Http 422)
      else with_status create_status (create_domain_rule env (draft_payload body) who acknowledged)
        (\<lambda>rule. give (Served rule None)))"

definition promote_domain_policy ::
  "'w rule_env \<Rightarrow> string \<Rightarrow> string \<Rightarrow> bool \<Rightarrow> ('w, domain_policy_rule reply) rule_action" where
  "promote_domain_policy env rule_id who acknowledged =
     with_status promote_status (promote_domain_rule env rule_id who acknowledged) (\<lambda>rule.
       served_after env (active_membership rule = Some True) ''domain_policy_promoted'' rule)"

definition refresh_domain_policy ::
  "'w rule_env \<Rightarrow> string \<Rightarrow> ('w, domain_policy_rule reply) rule_action" where
  "refresh_domain_policy env rule_id =
     with_status missing_status (listed_rule rule_id) (\<lambda>before.
     with_status missing_status (refresh_domain_rule env rule_id) (\<lambda>rule.
       served_after env
         (active_membership rule = Some True \<or>
          active_membership before = Some True \<and> active_membership rule = Some False)
         ''domain_policy_refreshed'' rule))"

definition delete_domain_policy ::
  "'w rule_env \<Rightarrow> string \<Rightarrow> ('w, service_exc option reply) rule_action" where
  "delete_domain_policy env rule_id =
     with_status missing_status (listed_rule rule_id) (\<lambda>before.
     with_status missing_status (delete_domain_rule env rule_id) (\<lambda>failure.
       served_after env (failure = None \<and> active_membership before = Some True)
         ''domain_policy_deleted'' failure))"

end
