(* ===== verification/Engine_Laws.thy ===== *)
theory Engine_Laws
  imports Policy_Engine
begin

text \<open>
  What holds of the reading of lists page by page: when it ends, and how the two ways to treat a
  repeated token differ. And the rules for runs that raise: what an action leaves untouched.
\<close>

section \<open>Reading pages ends\<close>

text \<open>The calls are counted in the world.\<close>

definition counted ::
  "('w \<Rightarrow> string option \<Rightarrow> (string + 'p page) \<times> 'w)
     \<Rightarrow> 'w \<times> nat \<Rightarrow> string option \<Rightarrow> (string + 'p page) \<times> 'w \<times> nat" where
  "counted call x token = (case x of (w, n) \<Rightarrow> case call w token of (r, w') \<Rightarrow> (r, w', Suc n))"

lemma pages_from_ends:
  assumes "finite T" and tokens: "\<And>w token page w'. call w token = (Inr page, w') \<Longrightarrow> pg_next page \<in> insert [] T"
    and "set seen \<subseteq> T"
  shows "\<exists>r w' m. pages_from strict (counted call) token seen listed (w, n) = Some (r, w', m) \<and>
    m \<le> n + Suc (card (T - set seen))"
  using assms(3)
proof (induction "card (T - set seen)" arbitrary: token seen listed w n rule: less_induct)
  case less
  obtain r w' where call: "call w token = (r, w')" by fastforce
  have step: "counted call (w, n) token = (r, w', Suc n)" by (simp add: counted_def call)
  show ?case
  proof (cases r)
    case (Inr page)
    show ?thesis
    proof (cases "pg_items page = None \<or> pg_next page = [] \<or> pg_next page \<in> set seen")
      case True
      then show ?thesis
        by (subst pages_from.simps) (auto simp: step Inr split: option.splits)
    next
      case False
      then obtain ps where ps: "pg_items page = Some ps" and new: "pg_next page \<notin> set seen" by auto
      have T: "pg_next page \<in> T - set seen" using tokens [of w token page w'] call Inr False by auto
      then have smaller: "card (T - set (pg_next page # seen)) < card (T - set seen)"
        using assms(1) by (intro psubset_card_mono) auto
      have "set (pg_next page # seen) \<subseteq> T" using T less.prems by auto
      from less.hyps [OF smaller this, of "Some (pg_next page)" "listed @ ps" w' "Suc n"]
      obtain a u m where "pages_from strict (counted call) (Some (pg_next page)) (pg_next page # seen)
          (listed @ ps) (w', Suc n) = Some (a, u, m)" "m \<le> Suc n + Suc (card (T - set (pg_next page # seen)))"
        by blast
      with False smaller show ?thesis
        by (subst pages_from.simps) (simp add: step Inr ps)
    qed
  qed (subst pages_from.simps, simp add: step)
qed

text \<open>C28: Reading a list page by page ends where the tokens are from a finite set. Whatever the service
  answers, as long as its tokens are among those of \<open>T\<close>, both readers return or raise after at most
  one call more than there are tokens.\<close>

theorem paging_terminates:
  assumes "finite T"
    and "\<And>w token page w'. call w token = (Inr page, w') \<Longrightarrow> pg_next page \<in> insert [] T"
  shows "\<exists>r w' calls. pages_from strict (counted call) None [] [] (w, 0) = Some (r, w', calls) \<and>
    calls \<le> Suc (card T)"
proof -
  have "\<exists>r w' m. pages_from strict (counted call) None [] [] (w, 0) = Some (r, w', m) \<and>
      m \<le> 0 + Suc (card (T - set []))"
    by (rule pages_from_ends) (use assms in simp_all)
  then show ?thesis by simp
qed

definition round_trip_pages :: "nat \<Rightarrow> string option \<Rightarrow> (string + listed_policy page) \<times> nat" where
  "round_trip_pages w token =
     (Inr \<lparr>pg_items = Some [], pg_next = (if token = Some ''a'' then ''b'' else ''a'')\<rparr>, Suc w)"

theorem paging_terminates_witness:
  "\<exists>r w' calls. pages_from True (counted round_trip_pages) None [] [] (0, 0) = Some (r, w', calls) \<and> calls \<le> 3"
proof -
  have tokens: "pg_next page \<in> insert [] {''a'', ''b''}" if "round_trip_pages w token = (Inr page, w')" for w token page w'
    using that by (auto simp: round_trip_pages_def)
  have "card {''a'', ''b''} = 2" by simp
  with paging_terminates [OF _ tokens, where strict = True and w = 0] show ?thesis by simp
qed

lemmas pages_from_induct = pages_from.raw_induct [rotated 1, consumes 1, case_names step]

text \<open>Without that it need not end: a service that always names another token is read for ever.\<close>

definition endless_pages :: "nat \<Rightarrow> string option \<Rightarrow> (string + listed_policy page) \<times> nat" where
  "endless_pages n token = (Inr \<lparr>pg_items = Some [], pg_next = replicate (Suc n) CHR ''t''\<rparr>, Suc n)"

lemma endless_pages_hang: "pages_from strict endless_pages None [] [] n = None"
proof -
  have "False" if "pages_from strict call token seen listed n = Some y"
    "call = endless_pages" "\<forall>t \<in> set seen. length t \<le> n" for call token seen listed n y
    using that
  proof (induction strict call token seen listed n y rule: pages_from_induct)
    case (step f strict call token seen listed n y)
    let ?t = "replicate (Suc n) CHR ''t''"
    have "?t \<notin> set seen" using step(4) by (metis Suc_n_not_le_n length_replicate)
    moreover have "\<forall>t \<in> set (?t # seen). length t \<le> Suc n" using step(4) by auto
    ultimately show False
      using step(1) [of strict call "Some ?t" "?t # seen" listed "Suc n" y] step(2,3)
      by (simp add: endless_pages_def)
  qed
  then show ?thesis by (metis empty_iff list.set(1) not_Some_eq)
qed

section \<open>A repeated token\<close>

lemma strict_result_lenient:
  "pages_from strict call token seen listed w = Some (r, w') \<Longrightarrow> strict \<Longrightarrow>
     (if r = Inl Token_repeated then \<exists>ps. pages_from False call token seen listed w = Some (Inr ps, w')
      else pages_from False call token seen listed w = Some (r, w'))"
proof (induction strict call token seen listed w "(r, w')" rule: pages_from_induct)
  case (step f strict call token seen listed w)
  obtain a u where call: "call w token = (a, u)" by fastforce
  show ?case
    using step(1) [of strict call _ _ _ u] step(2,3) call
    by (subst (1 2) pages_from.simps) (auto split: sum.splits option.splits if_splits)
qed

lemma lenient_result_strict:
  "pages_from strict call token seen listed w = Some y \<Longrightarrow> \<not> strict \<Longrightarrow>
     pages_from True call token seen listed w \<noteq> None"
proof (induction strict call token seen listed w y rule: pages_from_induct)
  case (step f strict call token seen listed w y)
  obtain a u where call: "call w token = (a, u)" by fastforce
  show ?case
    using step(1) [of strict call _ _ _ u] step(2,3) call
    by (subst pages_from.simps) (auto split: sum.splits option.splits if_splits)
qed

text \<open>The two readers of the engine's policies agree but for a repeated token. Both end or
  neither does, in the same world and with the same policies or the same exception; only where the
  provisioner raises because a token came again, and so its list is incomplete, the service of domain
  rules takes what it has read for the whole list.\<close>

theorem repeated_token_passes_for_the_end:
  "case pages_from True call None [] [] w of
     None \<Rightarrow> pages_from False call None [] [] w = None
   | Some (Inl Token_repeated, w') \<Rightarrow> (\<exists>ps. pages_from False call None [] [] w = Some (Inr ps, w'))
   | Some (r, w') \<Rightarrow> pages_from False call None [] [] w = Some (r, w')"
proof (cases "pages_from True call None [] [] w")
  case None
  then show ?thesis
    using lenient_result_strict [of False call None "[]" "[]" w]
    by (cases "pages_from False call None [] [] w") auto
next
  case (Some y)
  then show ?thesis
    using strict_result_lenient [of True call None "[]" "[]" w "fst y" "snd y"]
    by (auto split: prod.splits sum.splits service_exc.splits if_splits)
qed

section \<open>What an action leaves alone\<close>

lemma run_try_bind:
  "run_state (try_bind m f) st =
     (case run_state m st of
        (Returned a, t) \<Rightarrow> run_state (f a) t | (Raised e, t) \<Rightarrow> (Raised e, t) | (Hangs, t) \<Rightarrow> (Hangs, t))"
  by (simp add: try_bind_def split: prod.split ending.split)

lemma run_handled:
  "run_state (handled m h) st =
     (case run_state m st of
        (Returned a, t) \<Rightarrow> (Returned a, t) | (Raised e, t) \<Rightarrow> run_state (h e) t | (Hangs, t) \<Rightarrow> (Hangs, t))"
  by (simp add: handled_def split: prod.split ending.split)

lemma run_give [simp]: "run_state (give a) st = (Returned a, st)"
  by (simp add: give_def)

lemma run_throw [simp]: "run_state (throw e) st = (Raised e, st)"
  by (simp add: throw_def)

lemma run_of_result [simp]:
  "run_state (of_result wrap r) st = (case r of Inl e \<Rightarrow> Raised (wrap e) | Inr a \<Rightarrow> Returned a, st)"
  by (simp add: of_result_def split: sum.split)

text \<open>An action that only asks: the ledger, the writes and the changes are as before, and what was seen
  is not forgotten.\<close>

definition unchanged :: "'w rule_state \<Rightarrow> 'w rule_state \<Rightarrow> bool" where
  "unchanged st st' \<longleftrightarrow>
     rs_store st' = rs_store st \<and> rs_sent st' = rs_sent st \<and> rs_changes st' = rs_changes st \<and>
     prefix (rs_seen st) (rs_seen st')"

definition only_asks :: "('w, 'a) rule_action \<Rightarrow> bool" where
  "only_asks m \<longleftrightarrow> (\<forall>st. unchanged st (snd (run_state m st)))"

lemma unchanged_refl [simp]: "unchanged st st"
  by (simp add: unchanged_def)

lemma unchanged_trans: "unchanged st t \<Longrightarrow> unchanged t u \<Longrightarrow> unchanged st u"
  by (auto simp: unchanged_def)

named_theorems asks_intros \<open>actions that only ask\<close>

lemma only_asksD: "only_asks m \<Longrightarrow> run_state m st = (r, t) \<Longrightarrow> unchanged st t"
  unfolding only_asks_def by (metis snd_conv)

lemma asks_run: "only_asks m \<Longrightarrow> unchanged s st \<Longrightarrow> unchanged s (snd (run_state m st))"
  unfolding only_asks_def by (blast intro: unchanged_trans)

lemma only_asks_try_bind [asks_intros]:
  "only_asks m \<Longrightarrow> (\<And>a. only_asks (f a)) \<Longrightarrow> only_asks (try_bind m f)"
  unfolding only_asks_def [of "try_bind m f"]
  by (auto simp: run_try_bind split: prod.split ending.split intro: asks_run dest: only_asksD)

lemma only_asks_handled [asks_intros]:
  "only_asks m \<Longrightarrow> (\<And>e. only_asks (h e)) \<Longrightarrow> only_asks (handled m h)"
  unfolding only_asks_def [of "handled m h"]
  by (auto simp: run_handled split: prod.split ending.split intro: asks_run dest: only_asksD)

lemma only_asks_bind [asks_intros]:
  "only_asks m \<Longrightarrow> (\<And>r. only_asks (f r)) \<Longrightarrow> only_asks (State_Monad.bind m f)"
  unfolding only_asks_def [of "State_Monad.bind m f"]
  by (auto split: prod.split intro: asks_run dest: only_asksD)

lemma only_asks_give [asks_intros]: "only_asks (give a)"
  by (simp add: only_asks_def)

lemma only_asks_throw [asks_intros]: "only_asks (throw e)"
  by (simp add: only_asks_def)

lemma only_asks_of_result [asks_intros]: "only_asks (of_result wrap r)"
  by (simp add: only_asks_def)

lemma only_asks_ask [asks_intros]: "only_asks (ask f)"
  by (simp add: only_asks_def ask_def unchanged_def split: prod.split)

lemma only_asks_draw [asks_intros]: "only_asks (draw f)"
  by (simp add: only_asks_def draw_def unchanged_def split: prod.split)

lemma only_asks_get_policy [asks_intros]: "only_asks (get_policy env engine pid)"
  by (simp add: only_asks_def get_policy_def unchanged_def split: prod.split sum.split)

text \<open>The state after a policy was asked for.\<close>

definition after_get :: "'w rule_env \<Rightarrow> string \<Rightarrow> string \<Rightarrow> 'w rule_state \<Rightarrow> 'w rule_state" where
  "after_get env engine pid st = snd (run_state (get_policy env engine pid) st)"

lemma run_get_policy:
  "run_state (get_policy env engine pid) st =
     (answered (fst (re_get_policy env (rs_world st) engine pid)), after_get env engine pid st)"
  by (simp add: after_get_def get_policy_def answered_def split: prod.split sum.split)

lemma after_get_simps [simp]:
  "rs_store (after_get env engine pid st) = rs_store st"
  "rs_sent (after_get env engine pid st) = rs_sent st"
  "rs_changes (after_get env engine pid st) = rs_changes st"
  "rs_world (after_get env engine pid st) = snd (re_get_policy env (rs_world st) engine pid)"
  by (simp_all add: after_get_def get_policy_def split: prod.split sum.split)

lemma only_asks_stored_rule [asks_intros]: "only_asks (stored_rule rule_id)"
  by (simp add: only_asks_def stored_rule_def)

lemma only_asks_all_pages [asks_intros]: "only_asks (all_pages strict call)"
  by (simp add: only_asks_def all_pages_def unchanged_def split: option.split sum.split prod.split)

lemma only_asks_return [asks_intros]: "only_asks (State_Monad.return r)"
  by (simp add: only_asks_def)

lemma only_asks_ending [asks_intros]:
  "(\<And>a. only_asks (f a)) \<Longrightarrow> (\<And>e. only_asks (g e)) \<Longrightarrow> only_asks m \<Longrightarrow>
     only_asks (case r of Returned a \<Rightarrow> f a | Raised e \<Rightarrow> g e | Hangs \<Rightarrow> m)"
  by (simp split: ending.split)

lemma only_asks_if [asks_intros]: "only_asks m \<Longrightarrow> only_asks n \<Longrightarrow> only_asks (if b then m else n)"
  by simp

end
