(* ===== verification/Rule_Texts.thy ===== *)
theory Rule_Texts
  imports Domain_Rules
begin

text \<open>
  What holds of the texts of domain rules: which drafts compile, that the check of the text never
  refuses a text that was built but for two words, that a rule that is live is seen as a duplicate
  by the next one, and which permits are not seen.
\<close>

section \<open>Scanning\<close>

lemma words_from_word:
  "list_all (\<lambda>c. \<not> is_space c) w \<Longrightarrow> words_from v (w @ s) = words_from (v @ w) s"
  by (induction w arbitrary: v) auto

lemma words_from_space:
  "list_all (\<lambda>c. \<not> is_space c) w \<Longrightarrow> w \<noteq> [] \<Longrightarrow> words_from [] (w @ CHR '' '' # s) = w # words_from [] s"
proof -
  have "is_space CHR '' ''" by (simp add: is_space_def)
  then show "list_all (\<lambda>c. \<not> is_space c) w \<Longrightarrow> w \<noteq> [] \<Longrightarrow> words_from [] (w @ CHR '' '' # s) = w # words_from [] s"
    by (simp add: words_from_word)
qed

lemma words_from_words:
  "list_all (\<lambda>w. w \<noteq> [] \<and> list_all (\<lambda>c. \<not> is_space c) w) ws \<Longrightarrow>
   words_from [] (concat (map (\<lambda>w. w @ '' '') ws) @ s) = ws @ words_from [] s"
  by (induction ws) (simp_all add: words_from_space)

lemma words_from_blank [simp]: "words_from [] (CHR '' '' # s) = words_from [] s"
  by (simp add: is_space_def)

lemma fold_spaces_words:
  "words_from [] s = w # ws \<Longrightarrow> fold_spaces s = w @ concat (map (Cons CHR '' '') ws)"
  by (simp add: fold_spaces_def)

lemma ident_not_space: "ident_char c \<Longrightarrow> \<not> is_space c"
  by (auto simp: ident_char_def is_alnum_def is_space_def Let_def)

lemma argument_no_space: "is_argument a \<Longrightarrow> list_all (\<lambda>c. \<not> is_space c) a \<and> a \<noteq> []"
  by (auto simp: is_argument_def list_all_iff ident_not_space)

lemma operator_word:
  assumes "operator \<in> set NUMERIC_OPERATORS"
  shows "list_all (\<lambda>c. \<not> is_space c) operator" "operator \<noteq> []"
  using assms by (auto simp: NUMERIC_OPERATORS_def is_space_def)

lemma validated_value_operator:
  "validated_value operator kind v = Inr literal \<Longrightarrow> operator \<in> set NUMERIC_OPERATORS"
  by (auto simp: validated_value_def NUMERIC_OPERATORS_def STRING_OPERATORS_def split: if_splits option.splits)

text \<open>Stripping keeps what comes before a character that is no space.\<close>

lemma prefix_strip:
  assumes "u = [] \<or> \<not> is_space (hd u)" "\<not> is_space c"
  shows "prefix (u @ [c]) (strip (CHR '' '' # u @ c # v))"
proof -
  have head: "dropWhile is_space (CHR '' '' # u @ c # v) = u @ c # v"
    using assms by (cases u) (auto simp: is_space_def)
  have "dropWhile is_space (rev v @ c # rev u) = dropWhile is_space (rev v) @ c # rev u"
    using assms(2) by (induction v rule: rev_induct) auto
  then have "strip (CHR '' '' # u @ c # v) = u @ c # rev (dropWhile is_space (rev v))"
    unfolding strip_def head by simp
  then show ?thesis by simp
qed

section \<open>The built text is read back\<close>

lemma quoted_run_quoted: "s \<noteq> [] \<Longrightarrow> CHR 0x22 \<notin> set s \<Longrightarrow> quoted_run (s @ CHR 0x22 # r) = Some (s, r)"
proof -
  assume s: "s \<noteq> []" "CHR 0x22 \<notin> set s"
  then have "takeWhile (\<lambda>c. c \<noteq> CHR 0x22) (s @ CHR 0x22 # r) = s"
    "dropWhile (\<lambda>c. c \<noteq> CHR 0x22) (s @ CHR 0x22 # r) = CHR 0x22 # r"
    by (auto simp: takeWhile_append dropWhile_append)
  with s show ?thesis by (simp add: quoted_run_def)
qed

lemma action_no_quote: "safe_action a \<Longrightarrow> CHR 0x22 \<notin> set a \<and> a \<noteq> []"
  by (auto simp: safe_action_def list_all_iff)

lemma gateway_no_quote: "safe_gateway g \<Longrightarrow> CHR 0x22 \<notin> set g"
  by (auto simp: safe_gateway_def list_all_iff gateway_char_def is_alnum_def)

lemma safe_action_literal_id: "safe_action a \<Longrightarrow> cedar_string_literal a = a"
  by (rule cedar_literal_id) (auto simp: safe_action_def list_all_iff action_char_gateway_char)

lemma safe_gateway_literal_id: "safe_gateway g \<Longrightarrow> cedar_string_literal g = g"
  by (rule cedar_literal_id) (simp add: safe_gateway_def)

lemma braced_body_end: "w \<noteq> [] \<Longrightarrow> braced_body (w @ ''};'') = Some w"
proof -
  have "strip '';'' = '';''" by (simp add: strip_def is_space_def)
  then show "w \<noteq> [] \<Longrightarrow> braced_body (w @ ''};'') = Some w" by (simp add: braced_body_def)
qed

lemma parse_rule_text:
  assumes "safe_action action" "safe_gateway gateway" "gateway \<noteq> []"
  shows "parse_shape (rule_text action gateway w) = Some (action, gateway, '' '' @ w @ '' '')"
proof -
  note ids = safe_action_literal_id [OF assms(1)] safe_gateway_literal_id [OF assms(2)]
  note quotes = action_no_quote [OF assms(1)] gateway_no_quote [OF assms(2)]
  have body: "braced_body (CHR '' '' # w @ '' };'') = Some (CHR '' '' # w @ '' '')"
    using braced_body_end [of "CHR '' '' # w @ '' ''"] by simp
  show ?thesis
    using quotes assms(3)
    by (simp add: parse_shape_def rule_text_def rule_head_def after_literal_def newline_def
        quoted_def ids is_space_def ACTION_MARKER_def quoted_run_quoted body)
qed


lemma strip_rule_text: "strip (rule_text action gateway w) = rule_text action gateway w"
  by (rule strip_id) (simp add: rule_text_def rule_head_def is_space_def)

lemma words_from_nonempty: "w \<noteq> [] \<Longrightarrow> words_from w s \<noteq> []"
  by (induction s arbitrary: w) auto

lemma fold_when_clause:
  assumes "is_argument argument" "operator \<in> set NUMERIC_OPERATORS"
  shows "\<exists>rest. fold_spaces ('' '' @ build_when_clause argument operator literal @ '' '') =
    has_guard argument @ '' && '' @ compared argument @ operator @ rest"
proof -
  note arg = argument_no_space [OF assms(1)] and op = operator_word [OF assms(2)]
  let ?rest = "words_from [] (literal @ '' '')"
  let ?words = "[''context.input'', ''has'', argument, ''&&'', ''context.input.'' @ argument, operator]"
  have "list_all (\<lambda>w. w \<noteq> [] \<and> list_all (\<lambda>c. \<not> is_space c) w) ?words"
    using arg op by (simp add: is_space_def)
  then have "words_from [] (concat (map (\<lambda>w. w @ '' '') ?words) @ literal @ '' '') = ?words @ ?rest"
    by (rule words_from_words)
  moreover have "build_when_clause argument operator literal @ '' '' = concat (map (\<lambda>w. w @ '' '') ?words) @ literal @ '' ''"
    by (simp add: build_when_clause_def has_guard_def compared_def)
  ultimately have "words_from [] ('' '' @ build_when_clause argument operator literal @ '' '') = ?words @ ?rest"
    by (simp only: append_Cons append_Nil words_from_blank)
  then have "fold_spaces ('' '' @ build_when_clause argument operator literal @ '' '') =
      has_guard argument @ '' && '' @ compared argument @ operator @ concat (map (Cons CHR '' '') ?rest)"
    by (simp add: fold_spaces_words has_guard_def compared_def)
  then show ?thesis by blast
qed

text \<open>The check of a built text fails for the two words only.\<close>

lemma check_built_text:
  fixes literal :: string
  assumes "safe_action action" "safe_gateway gateway" "gateway \<noteq> []"
    and "is_argument argument" "operator \<in> set NUMERIC_OPERATORS"
  defines "text \<equiv> rule_text action gateway (build_when_clause argument operator literal)"
  shows "assert_fail_closed_shape text argument action gateway =
    (if contains ''forbid'' text then Inl Has_forbid
     else if contains ''unless'' text then Inl Has_unless else Inr ())"
proof -
  have parse: "parse_shape text = Some (action, gateway, '' '' @ build_when_clause argument operator literal @ '' '')"
    unfolding text_def by (rule parse_rule_text [OF assms(1-3)])
  obtain rest where body: "fold_spaces ('' '' @ build_when_clause argument operator literal @ '' '') =
      has_guard argument @ '' && '' @ compared argument @ operator @ rest"
    using fold_when_clause [OF assms(4,5)] by blast
  obtain c cs where op: "operator = c # cs" and c: "\<not> is_space c"
    using operator_word [OF assms(5)] by (cases operator) auto
  have "prefix (compared argument @ [c]) (strip (CHR '' '' # compared argument @ c # cs @ rest))"
    by (rule prefix_strip [OF _ c]) (simp add: compared_def is_space_def)
  then have "prefix (compared argument) (strip (CHR '' '' # compared argument @ operator @ rest))"
    unfolding op by (metis append_Cons append_prefixD)
  moreover have "drop (length (has_guard argument) + 3) (has_guard argument @ '' && '' @ compared argument @ operator @ rest) =
      CHR '' '' # compared argument @ operator @ rest"
    by simp
  moreover have "strip text = text" unfolding text_def by (rule strip_rule_text)
  ultimately show ?thesis
    by (simp only: assert_fail_closed_shape_def Let_def parse option.case prod.case body) simp
qed

lemma compile_domain_rule_iff:
  "compile_domain_rule hash d = Inr c \<longleftrightarrow>
     (\<exists>literal. let gateway = strip (rd_gateway_arn d); action = draft_action d;
          text = rule_text action gateway (build_when_clause (rd_argument d) (rd_operator d) literal) in
        prefix ''arn:'' gateway \<and> safe_gateway gateway \<and>
        safe_target (rd_target_name d) \<and> rd_target_name d \<noteq> ''CallTool'' \<and> safe_action action \<and>
        is_argument (rd_argument d) \<and> rd_argument d \<notin> set (OWNER_ARGUMENT # CEDAR_RESERVED) \<and>
        validated_value (rd_operator d) (rd_value_kind d) (rd_value d) = Inr literal \<and>
        length (rd_description d) \<le> 300 \<and> length text \<le> 10000 \<and>
        \<not> contains ''forbid'' text \<and> \<not> contains ''unless'' text \<and>
        c = \<lparr>cr_action = action, cr_cedar_policy = text, cr_policy_hash = hash text,
             cr_size_bytes = length text\<rparr>)"
proof (cases "prefix ''arn:'' (strip (rd_gateway_arn d)) \<and> safe_gateway (strip (rd_gateway_arn d)) \<and>
    safe_target (rd_target_name d) \<and> rd_target_name d \<noteq> ''CallTool'' \<and> safe_action (draft_action d)")
  case False
  then show ?thesis by (auto simp: compile_domain_rule_def Let_def)
next
  case coordinates: True
  then have gw: "strip (rd_gateway_arn d) \<noteq> []" by auto
  show ?thesis
  proof (cases "validated_argument (rd_argument d)")
    case (Inl e)
    with coordinates show ?thesis
      by (auto simp: compile_domain_rule_def Let_def validated_argument_def split: if_splits)
  next
    case (Inr a)
    then have arg: "a = rd_argument d" "is_argument (rd_argument d)"
      "rd_argument d \<notin> set (OWNER_ARGUMENT # CEDAR_RESERVED)"
      by (auto simp: validated_argument_def split: if_splits)
    show ?thesis
    proof (cases "validated_value (rd_operator d) (rd_value_kind d) (rd_value d)")
      case (Inr literal)
      note check = check_built_text [OF _ _ gw arg(2) validated_value_operator [OF Inr],
          of "draft_action d" literal]
      show ?thesis
        using coordinates arg \<open>validated_argument _ = _\<close> Inr check
        by (auto simp: compile_domain_rule_def Let_def DESCRIPTION_MAX_def MAX_CEDAR_POLICY_BYTES_def)
    qed (use coordinates arg \<open>validated_argument _ = _\<close> in \<open>auto simp: compile_domain_rule_def Let_def\<close>)
  qed
qed

text \<open>A draft compiles exactly when its parts are allowed and its text has neither of two words.
  The coordinates, the argument (an identifier, not reserved, not the argument the interceptor
  fills) and the value are valid for the operator, the description and the text are short enough;
  the text is then the \<open>permit\<close> with the guard on that argument. The check of the text refuses
  nothing that was built, except a text that contains \<open>forbid\<close> or \<open>unless\<close>, be it in the name of
  a tool.\<close>

theorem compiled_rule_iff:
  "compile_domain_rule hash d = Inr c \<longleftrightarrow>
     (\<exists>literal. let gateway = strip (rd_gateway_arn d); action = draft_action d;
          text = rule_text action gateway (build_when_clause (rd_argument d) (rd_operator d) literal) in
        prefix ''arn:'' gateway \<and> safe_gateway gateway \<and>
        safe_target (rd_target_name d) \<and> rd_target_name d \<noteq> ''CallTool'' \<and> safe_action action \<and>
        is_argument (rd_argument d) \<and> rd_argument d \<notin> set (OWNER_ARGUMENT # CEDAR_RESERVED) \<and>
        validated_value (rd_operator d) (rd_value_kind d) (rd_value d) = Inr literal \<and>
        length (rd_description d) \<le> 300 \<and> length text \<le> 10000 \<and>
        \<not> contains ''forbid'' text \<and> \<not> contains ''unless'' text \<and>
        c = \<lparr>cr_action = action, cr_cedar_policy = text, cr_policy_hash = hash text,
             cr_size_bytes = length text\<rparr>)"
  by (rule compile_domain_rule_iff)

definition sample_draft :: rule_draft where
  "sample_draft = \<lparr>rd_gateway_arn = ''arn:aws:gw/1'', rd_asset_id = ''mcp'', rd_asset_version = ''1'',
     rd_target_name = ''shop'', rd_tool_name = ''refund'', rd_argument = ''amount'',
     rd_operator = ''<='', rd_value_kind = ''number'', rd_value = ''100'', rd_description = []\<rparr>"

text \<open>A tool that may well be called so cannot have a rule.\<close>

lemma allowed_name_refused:
  "compile_domain_rule hash (sample_draft\<lparr>rd_tool_name := ''forbid_user''\<rparr>) = Inl (Bad_shape Has_forbid)"
  by code_simp

section \<open>A live rule is seen\<close>

lemma strip_comments_plain:
  assumes "CHR ''/'' \<notin> set p" shows "strip_comments (p @ s) = p @ strip_comments s"
  using assms by (induction p) (simp_all add: strip_comments.simps [of "_ # _"])

lemma action_names_skip: "\<not> prefix ACTION_MARKER (c # s) \<Longrightarrow> action_names (c # s) = action_names s"
  by (simp add: action_names.simps [of "c # s"] name_at_def)

lemma action_names_hit:
  "safe_action a \<Longrightarrow> action_names (ACTION_MARKER @ a @ CHR 0x22 # r) = a # action_names r"
  using quoted_run_quoted [of a r] action_no_quote [of a]
  by (simp add: action_names.simps [of "ACTION_MARKER @ _"] name_at_def)

lemma rule_head_marker:
  "safe_action a \<Longrightarrow> rule_head a =
     ''permit('' @ newline @ ''  principal is AgentCore::OAuthUser,'' @ newline @ ''  action == '' @
     ACTION_MARKER @ a @ [CHR 0x22]"
  by (simp add: rule_head_def quoted_def ACTION_MARKER_def safe_action_literal_id)

lemma action_names_rule_head:
  assumes "safe_action a"
  shows "action_names (rule_head a @ s) = a # action_names s"
proof -
  have "action_names (''permit('' @ newline @ ''  principal is AgentCore::OAuthUser,'' @ newline @ ''  action == '' @ t) =
      action_names t" if "prefix ACTION_MARKER t" for t
    using that by (auto simp: newline_def prefix_def ACTION_MARKER_def action_names_skip)
  then show ?thesis
    using action_names_hit [OF assms, of s] by (simp add: rule_head_marker [OF assms])
qed

lemma no_slash_action: "safe_action a \<Longrightarrow> CHR ''/'' \<notin> set (rule_head a)"
  by (auto simp: rule_head_marker newline_def ACTION_MARKER_def safe_action_def list_all_iff
      action_char_def is_alnum_def)

text \<open>A rule that is live is never overlooked. If a draft compiles, and a policy with its text
  is \<open>ACTIVE\<close> under the name of a domain rule, then whoever makes another rule for the same tool
  is told of the duplicate, whatever the condition of either rule is.\<close>

theorem live_rule_is_seen:
  assumes "compile_domain_rule hash d = Inr c" "p \<in> set policies"
    and "lv_cedar p = cr_cedar_policy c" "lv_status p = ''ACTIVE''" "prefix NAME_PREFIX (lv_name p)"
    and "lv_policy_id p \<notin> set exclude"
  shows "\<lparr>cf_policy_id = lv_policy_id p, cf_policy_name = lv_name p, cf_kind = Duplicate_domain_rule\<rparr>
    \<in> set (detect_permit_overlap (cr_action c) target policies exclude)"
proof -
  obtain literal where c: "safe_action (draft_action d)" "cr_action c = draft_action d"
    "cr_cedar_policy c = rule_text (draft_action d) (strip (rd_gateway_arn d))
       (build_when_clause (rd_argument d) (rd_operator d) literal)"
    using assms(1) unfolding compile_domain_rule_iff by (auto simp: Let_def)
  obtain rest where live: "lv_cedar p = rule_head (draft_action d) @ rest"
    using c(3) assms(3) by (simp add: rule_text_def)
  have stripped: "strip_comments (lv_cedar p) = rule_head (draft_action d) @ strip_comments rest"
    unfolding live by (rule strip_comments_plain [OF no_slash_action [OF c(1)]])
  have "prefix ''permit'' (dropWhile is_space (strip_comments (lv_cedar p)))"
    by (simp add: stripped rule_head_def is_space_def)
  then have "overlap_kind (cr_action c) target p = Some Duplicate_domain_rule"
    using assms(4,5)
    by (simp add: overlap_kind_def Let_def stripped action_names_rule_head [OF c(1)] c(2))
  with assms(2,6) show ?thesis
    by (force simp: detect_permit_overlap_def List.map_filter_def)
qed

theorem live_rule_is_seen_witness:
  "\<exists>c. compile_domain_rule (\<lambda>_. ''h'') sample_draft = Inr c \<and>
     map cf_kind (detect_permit_overlap ''shop___refund'' ''other''
       [\<lparr>lv_policy_id = ''p1'', lv_name = ''DomainRule_x'', lv_status = ''ACTIVE'',
         lv_cedar = cr_cedar_policy c\<rparr>] []) = [Duplicate_domain_rule]"
proof -
  have "(case compile_domain_rule (\<lambda>_. ''h'') sample_draft of Inl _ \<Rightarrow> False
      | Inr c \<Rightarrow> cr_action c = ''shop___refund'')"
    by code_simp
  then obtain c where c: "compile_domain_rule (\<lambda>_. ''h'') sample_draft = Inr c" "cr_action c = ''shop___refund''"
    by (auto split: sum.splits)
  let ?p = "\<lparr>lv_policy_id = ''p1'', lv_name = ''DomainRule_x'', lv_status = ''ACTIVE'',
      lv_cedar = cr_cedar_policy c\<rparr>"
  have "prefix NAME_PREFIX (lv_name ?p)" by (simp add: NAME_PREFIX_def)
  from live_rule_is_seen [OF c(1), of ?p "[?p]" "[]" "''other''"] this c(2)
  have "set (detect_permit_overlap ''shop___refund'' ''other'' [?p] []) \<noteq> {}"
    "\<lparr>cf_policy_id = ''p1'', cf_policy_name = ''DomainRule_x'', cf_kind = Duplicate_domain_rule\<rparr>
      \<in> set (detect_permit_overlap ''shop___refund'' ''other'' [?p] [])"
    by auto
  with c(1) show ?thesis
    by (auto simp: detect_permit_overlap_def List.map_filter_simps split: option.splits)
qed

section \<open>A permit that is not seen\<close>

lemma set_fold_spaces: "CHR 0x0A \<notin> set (fold_spaces s)"
proof -
  have "is_space (CHR 0x0A)" by (simp add: is_space_def)
  then have "list_all (\<lambda>c. c \<noteq> CHR 0x0A) w \<Longrightarrow> x \<in> set (words_from w s) \<Longrightarrow> CHR 0x0A \<notin> set x" for w x
    by (induction w s rule: words_from.induct) (auto simp: list_all_iff split: if_splits)
  from this [of "[]"] have words: "x \<in> set (words_from [] s) \<Longrightarrow> CHR 0x0A \<notin> set x" for x
    by simp
  show ?thesis
  proof (cases "words_from [] s")
    case (Cons w ws)
    with words have "CHR 0x0A \<notin> set w" "\<forall>x \<in> set ws. CHR 0x0A \<notin> set x" by simp_all
    with Cons show ?thesis by (auto simp: fold_spaces_def)
  qed (simp add: fold_spaces_def)
qed

lemma after_close_set: "after_close s = Some r \<Longrightarrow> set r \<subseteq> set s"
  by (induction s arbitrary: r rule: after_close.induct) (auto split: if_splits)

lemma set_strip_comments: "set (strip_comments s) \<subseteq> insert CHR '' '' (set s)"
proof (induction s rule: strip_comments.induct)
  case (1 s)
  show ?case
  proof (cases s)
    case (Cons c cs)
    let ?close = "if prefix ''/*'' s then after_close (drop 2 s) else None"
    let ?line = "dropWhile (\<lambda>c. c \<noteq> CHR 0x0A) (drop 2 s)"
    have line: "set ?line \<subseteq> set s" by (auto dest!: set_dropWhileD in_set_dropD)
    show ?thesis
    proof (cases ?close)
      case (Some rest)
      then have "set rest \<subseteq> set s"
        using after_close_set [of "drop 2 s" rest] set_drop_subset [of 2 s] by (auto split: if_splits)
      with 1(3) [OF Cons Some] Some Cons show ?thesis
        by (subst strip_comments.simps) (auto split: if_splits)
    next
      case None
      show ?thesis
      proof (cases "prefix ''//'' s")
        case True
        with 1(1) [OF Cons None True] None Cons line show ?thesis
          by (subst strip_comments.simps) (auto split: if_splits)
      next
        case False
        with 1(2) [OF Cons None False] None Cons show ?thesis
          by (subst strip_comments.simps) (auto split: if_splits)
      qed
    qed
  qed (simp add: strip_comments.simps)
qed

lemma bare_action_line:
  assumes "CHR 0x0A \<notin> set s" "bare_action s"
  shows "prefix ''action'' (dropWhile is_space s)"
proof -
  have "\<not> bare_action_after s" using assms(1) by (induction s) auto
  with assms(2) show ?thesis
    by (auto simp: bare_action_def bare_action_at_def after_literal_def split: option.splits if_splits)
qed

text \<open>An open permit is overlooked when its text is on one line. Whatever the live policy says,
  the same text with its whitespace folded, as the code expects the service may return it, is
  never reported as a permit for all actions, so that the rule is not refused as pointless.\<close>

theorem folded_permit_overlooked:
  "overlap_kind action target (p\<lparr>lv_cedar := fold_spaces text\<rparr>) \<noteq> Some Action_unrestricted"
proof
  let ?text = "strip_comments (fold_spaces text)"
  assume "overlap_kind action target (p\<lparr>lv_cedar := fold_spaces text\<rparr>) = Some Action_unrestricted"
  then have "prefix ''permit'' (dropWhile is_space ?text)" "bare_action ?text"
    by (auto simp: overlap_kind_def Let_def split: if_splits)
  moreover have "CHR 0x0A \<notin> set ?text"
    using set_strip_comments [of "fold_spaces text"] set_fold_spaces [of "text"] by auto
  ultimately show False
    using bare_action_line [of ?text] by (auto simp: prefix_def)
qed

text \<open>The permit that the Gateway starts with, before tools are enumerated, as an example.\<close>

definition open_permit :: string where
  "open_permit = ''permit('' @ newline @ ''  principal is AgentCore::OAuthUser,'' @ newline @
     ''  action,'' @ newline @ ''  resource'' @ newline @ '');''"

lemma open_permit_seen:
  "overlap_kind action target \<lparr>lv_policy_id = ''p'', lv_name = ''gate'', lv_status = ''ACTIVE'',
     lv_cedar = open_permit\<rparr> = Some Action_unrestricted"
proof -
  have "strip_comments open_permit = open_permit" "action_names open_permit = []" "bare_action open_permit"
    "prefix ''permit'' (dropWhile is_space open_permit)"
    by code_simp+
  then show ?thesis by (simp add: overlap_kind_def Let_def)
qed

end
