(* ===== verification/Domain_Laws.thy ===== *)
theory Domain_Laws
  imports Domain_Api Engine_Laws Rule_Texts
begin

text \<open>
  What holds of the operations on domain rules, whatever the engine answers and whatever others do
  to it meanwhile: what is sent, what the ledger then says, and what every row satisfies.
\<close>

section \<open>The parts\<close>

lemma only_asks_with_texts [asks_intros]: "only_asks (with_texts env items)"
  by (induction items) (auto intro!: asks_intros)

lemma only_asks_observe_conflicts [asks_intros]: "only_asks (observe_conflicts env action target)"
  unfolding observe_conflicts_def live_policies_def by (intro asks_intros)

lemma only_asks_await [asks_intros]: "only_asks (await_terminal env pid n)"
proof (induction n)
  case (Suc n)
  then show ?case
    by (auto intro!: asks_intros)
qed (auto intro!: asks_intros)

text \<open>Waiting returns: a raised exception is an observation too.\<close>

lemma await_returns: "\<exists>x t. run_state (await_terminal env pid n) st = (Returned x, t)"
proof (induction n arbitrary: st)
  case (Suc n)
  then show ?case
    by (auto simp: run_try_bind draw_def run_get_policy answered_def split: sum.split)
qed simp

section \<open>Creation\<close>

lemma after_send:
  "run_state (try_bind (send env x) f) st =
     (case re_write env (rs_world st) x of
        (Inl e, w) \<Rightarrow> (Raised (Remote_failed e), st\<lparr>rs_world := w, rs_sent := rs_sent st @ [x]\<rparr>)
      | (Inr a, w) \<Rightarrow> run_state (f a) (st\<lparr>rs_world := w, rs_sent := rs_sent st @ [x]\<rparr>))"
  by (simp add: run_try_bind send_def answered_def split: prod.split sum.split)

lemma after_result [simp]:
  "run_state (try_bind (of_result wrap (Inr a)) f) st = run_state (f a) st"
  "run_state (try_bind (of_result wrap (Inl e)) f) st = (Raised (wrap e), st)"
  by (simp_all add: run_try_bind)

lemma after_observed [simp]: "run_state (try_bind (observed (Inr a)) f) st = run_state (f a) st"
  by (simp add: observed_def)

lemma after_cleared:
  "conflicts = [] \<or> acknowledged \<Longrightarrow>
     run_state (try_bind (cleared acknowledged conflicts) f) st = run_state (f conflicts) st"
  by (auto simp: cleared_def run_try_bind)

lemma after_returned:
  "run_state m st = (Returned a, t) \<Longrightarrow> run_state (try_bind m f) st = run_state (f a) t"
  by (simp add: run_try_bind)

text \<open>What comes after the write of a creation: waiting, and then the row.\<close>

lemma creation_tail:
  assumes "run_state (try_bind (await_terminal env pid n) (\<lambda>state.
       try_bind (draw (re_now env)) (\<lambda>now.
       try_bind (draw (re_new_id env)) (\<lambda>rule_id.
       let rule = mk state now rule_id in
       try_bind (saved rule) (\<lambda>_. give rule))))) st = (r, t)"
  shows "\<exists>state now rule_id. r = Returned (mk state now rule_id) \<and>
    rs_store t = put_domain_policy_rule (mk state now rule_id) (rs_store st) \<and>
    rs_sent t = rs_sent st \<and> rs_changes t = rs_changes st"
proof -
  obtain x u where await: "run_state (await_terminal env pid n) st = (Returned x, u)"
    using await_returns by blast
  then have "unchanged st u" using only_asksD [OF only_asks_await] by blast
  moreover obtain now v where now: "re_now env (rs_world u) = (now, v)" by fastforce
  moreover obtain rule_id w where "re_new_id env v = (rule_id, w)" by fastforce
  ultimately have "r = Returned (mk x now rule_id) \<and>
      rs_store t = put_domain_policy_rule (mk x now rule_id) (rs_store st) \<and>
      rs_sent t = rs_sent st \<and> rs_changes t = rs_changes st"
    using assms await by (auto simp: run_try_bind draw_def saved_def unchanged_def Let_def)
  then show ?thesis by blast
qed

text \<open>The write that a creation sends, for a form that was prepared as \<open>(d, c)\<close>.\<close>

definition creation_write :: "'w rule_env \<Rightarrow> rule_draft \<Rightarrow> compiled_rule \<Rightarrow> engine_write" where
  "creation_write env d c =
     Create_policy (re_engine_id env) (policy_name (re_hash env) (rd_gateway_arn d) (cr_policy_hash c) 1)
       (cr_cedar_policy c) ''LOG_ONLY''"

lemma creation_cases:
  assumes "run_state (create_domain_rule env payload who acknowledged) st = (r, st')"
  shows "unchanged st st' \<and> (\<nexists>rule. r = Returned rule) \<or>
    (\<exists>d c conflicts t. prepared env payload = Inr (d, c) \<and>
       run_state (observe_conflicts env (cr_action c) (rd_target_name d)) st = (Returned (Inr conflicts), t) \<and>
       (conflicts = [] \<or> acknowledged) \<and> rs_sent st' = rs_sent st @ [creation_write env d c] \<and>
       rs_changes st' = rs_changes st \<and>
       ((\<nexists>rule. r = Returned rule) \<and> rs_store st' = rs_store st \<or>
        (\<exists>pid state now rule_id. pid \<noteq> [] \<and>
          (let rule = new_rule env d c conflicts (policy_name (re_hash env) (rd_gateway_arn d) (cr_policy_hash c) 1)
                        pid state who now rule_id in
           r = Returned rule \<and> rs_store st' = put_domain_policy_rule rule (rs_store st)))))"
proof (cases "prepared env payload")
  case (Inl e)
  with assms show ?thesis by (auto simp: create_domain_rule_def run_try_bind)
next
  case (Inr x)
  obtain d c where x: "x = (d, c)" by (cases x)
  let ?observe = "observe_conflicts env (cr_action c) (rd_target_name d)"
  obtain seen t where seen: "run_state ?observe st = (seen, t)" by fastforce
  then have t: "unchanged st t" by (rule only_asksD [OF only_asks_observe_conflicts])
  show ?thesis
  proof (cases "\<exists>conflicts. seen = Returned (Inr conflicts) \<and> (conflicts = [] \<or> acknowledged)")
    case False
    then have "unchanged st st' \<and> (\<nexists>rule. r = Returned rule)"
      using assms t seen unfolding create_domain_rule_def Inr x
      by (auto simp: run_try_bind observed_def cleared_def split: ending.splits sum.splits if_splits)
    then show ?thesis ..
  next
    case True
    then obtain conflicts where conflicts: "seen = Returned (Inr conflicts)" "conflicts = [] \<or> acknowledged"
      by blast
    let ?rule = "\<lambda>pid state now rule_id. new_rule env d c conflicts
      (policy_name (re_hash env) (rd_gateway_arn d) (cr_policy_hash c) 1) pid state who now rule_id"
    let ?u = "\<lambda>w. t\<lparr>rs_world := w, rs_sent := rs_sent t @ [creation_write env d c]\<rparr>"
    have run: "run_state (create_domain_rule env payload who acknowledged) st =
        (case re_write env (rs_world t) (creation_write env d c) of
           (Inl e, w) \<Rightarrow> (Raised (Remote_failed e), ?u w)
         | (Inr pid, w) \<Rightarrow>
             if pid = [] then (Raised No_policy_id, ?u w)
             else run_state
               (try_bind (await_terminal env pid ACTIVE_MAX_POLLS) (\<lambda>state.
                try_bind (draw (re_now env)) (\<lambda>now.
                try_bind (draw (re_new_id env)) (\<lambda>rule_id.
                let rule = ?rule pid state now rule_id in
                try_bind (saved rule) (\<lambda>_. give rule))))) (?u w))"
      using conflicts seen
      by (simp add: create_domain_rule_def Inr x after_send after_cleared [OF conflicts(2)]
          creation_write_def Let_def after_returned [OF seen [unfolded conflicts(1)]]
          split: prod.split sum.split)
    obtain a w where answer: "re_write env (rs_world t) (creation_write env d c) = (a, w)" by fastforce
    have u: "rs_store (?u w) = rs_store st" "rs_sent (?u w) = rs_sent st @ [creation_write env d c]"
      "rs_changes (?u w) = rs_changes st"
      using t by (simp_all add: unchanged_def)
    have "(\<nexists>rule. r = Returned rule) \<and> rs_store st' = rs_store st \<and> rs_changes st' = rs_changes st \<and>
        rs_sent st' = rs_sent st @ [creation_write env d c] \<or>
      (\<exists>pid state now rule_id. pid \<noteq> [] \<and> r = Returned (?rule pid state now rule_id) \<and>
        rs_store st' = put_domain_policy_rule (?rule pid state now rule_id) (rs_store st) \<and>
        rs_sent st' = rs_sent st @ [creation_write env d c] \<and> rs_changes st' = rs_changes st)"
    proof (cases a)
      case (Inr pid)
      show ?thesis
      proof (cases "pid = []")
        case False
        with assms [unfolded run answer] Inr have "run_state (try_bind (await_terminal env pid ACTIVE_MAX_POLLS) (\<lambda>state.
            try_bind (draw (re_now env)) (\<lambda>now. try_bind (draw (re_new_id env)) (\<lambda>rule_id.
            let rule = ?rule pid state now rule_id in try_bind (saved rule) (\<lambda>_. give rule))))) (?u w) = (r, st')"
          by simp
        from creation_tail [OF this] False show ?thesis unfolding u by blast
      qed (use assms [unfolded run answer] u in \<open>auto simp: Inr\<close>)
    qed (use assms [unfolded run answer] u in auto)
    with conflicts seen \<open>prepared env payload = _\<close> x show ?thesis
      by (simp del: split_paired_Ex split_paired_All add: Let_def) blast
  qed
qed

text \<open>What a run returned, if it returned.\<close>

definition succeeded :: "'a ending \<Rightarrow> 'a option" where
  "succeeded r = (case r of Returned a \<Rightarrow> Some a | _ \<Rightarrow> None)"

lemma succeeded_simps [simp]:
  "succeeded (Returned a) = Some a" "succeeded (Raised e) = None" "succeeded Hangs = None"
  by (simp_all add: succeeded_def)

lemma succeeded_None: "(\<nexists>a. r = Returned a) \<Longrightarrow> succeeded r = None"
  by (cases r) simp_all

text \<open>C12: A rule is created to observe, never to enforce. A creation either sends nothing and leaves
  the ledger alone, or the form was valid and the live policies were read for conflicts, of which the detector
  reported none or the caller acknowledged them; then the one thing sent is the compiled text in the
  mode \<open>LOG_ONLY\<close>, and the ledger has a new row with that text and the reported conflicts exactly if
  the operation returned it. The detector does not see every permit that makes a rule pointless
  (\<open>folded_permit_overlooked\<close>).\<close>

theorem creation_only_observes:
  "case run_state (create_domain_rule env payload who acknowledged) st of (r, st') \<Rightarrow>
     succeeded r = None \<and> rs_sent st' = rs_sent st \<and> rs_store st' = rs_store st \<or>
     (\<exists>d c conflicts t. prepared env payload = Inr (d, c) \<and>
        run_state (observe_conflicts env (cr_action c) (rd_target_name d)) st = (Returned (Inr conflicts), t) \<and>
        (conflicts = [] \<or> acknowledged) \<and>
        rs_sent st' = rs_sent st @
          [Create_policy (re_engine_id env)
             (policy_name (re_hash env) (rd_gateway_arn d) (cr_policy_hash c) 1) (cr_cedar_policy c) ''LOG_ONLY''] \<and>
        (succeeded r = None \<and> rs_store st' = rs_store st \<or>
         (\<exists>rule. succeeded r = Some rule \<and> rs_store st' = put_domain_policy_rule rule (rs_store st) \<and>
            dpr_cedar_policy rule = cr_cedar_policy c \<and>
            dpr_requested_enforcement_mode rule = ''LOG_ONLY'' \<and>
            dpr_coarse_conflicts rule = map (conflict_value \<circ> cf_kind) conflicts)))"
proof -
  obtain r st' where run: "run_state (create_domain_rule env payload who acknowledged) st = (r, st')"
    by fastforce
  have row: "dpr_cedar_policy (new_rule env d c conflicts name pid state who now rule_id) = cr_cedar_policy c"
    "dpr_requested_enforcement_mode (new_rule env d c conflicts name pid state who now rule_id) = ''LOG_ONLY''"
    "dpr_coarse_conflicts (new_rule env d c conflicts name pid state who now rule_id) =
       map (conflict_value \<circ> cf_kind) conflicts" for d c conflicts name pid state now rule_id
    by (simp_all add: new_rule_def split: prod.split)
  from creation_cases [OF run] show ?thesis
    unfolding run prod.case creation_write_def Let_def unchanged_def
    by (metis row succeeded_None succeeded_simps(1))
qed

section \<open>Promotion\<close>

lemma promotion_tail:
  assumes "run_state (try_bind (await_terminal env pid n) (\<lambda>state.
       try_bind (draw (re_now env)) (\<lambda>now.
       let updated = mk state now in try_bind (saved updated) (\<lambda>_. give updated)))) st = (r, t)"
  shows "\<exists>state now. r = Returned (mk state now) \<and>
    rs_store t = put_domain_policy_rule (mk state now) (rs_store st) \<and>
    rs_sent t = rs_sent st \<and> rs_changes t = rs_changes st"
proof -
  obtain x u where await: "run_state (await_terminal env pid n) st = (Returned x, u)"
    using await_returns by blast
  then have "unchanged st u" using only_asksD [OF only_asks_await] by blast
  moreover obtain now v where now: "re_now env (rs_world u) = (now, v)" by fastforce
  ultimately have "r = Returned (mk x now) \<and>
      rs_store t = put_domain_policy_rule (mk x now) (rs_store st) \<and>
      rs_sent t = rs_sent st \<and> rs_changes t = rs_changes st"
    using assms await by (auto simp: run_try_bind draw_def saved_def unchanged_def Let_def)
  then show ?thesis by blast
qed

definition others_among :: "domain_policy_rule \<Rightarrow> coarse_conflict list \<Rightarrow> coarse_conflict list" where
  "others_among rule conflicts = filter (\<lambda>c. cf_policy_id c \<noteq> dpr_remote_policy_id rule) conflicts"

definition promotion_write :: "domain_policy_rule \<Rightarrow> engine_write" where
  "promotion_write rule =
     Update_policy (dpr_engine_id rule) (dpr_remote_policy_id rule) (dpr_cedar_policy rule) ''ACTIVE''"

lemma promotion_cases:
  assumes "run_state (promote_domain_rule env rule_id who acknowledged) st = (r, st')"
  shows "unchanged st st' \<and> (\<nexists>rule. r = Returned rule) \<or>
    (\<exists>rule live t conflicts u. get_domain_policy_rule (rs_store st) rule_id = Inr rule \<and>
       run_state (get_policy env (dpr_engine_id rule) (dpr_remote_policy_id rule)) st = (Returned live, t) \<and>
       fold_spaces (pd_statement live) = fold_spaces (dpr_cedar_policy rule) \<and>
       run_state (observe_conflicts env (dpr_gateway_action rule) (dpr_target_name rule)) t =
         (Returned (Inr conflicts), u) \<and>
       (others_among rule conflicts = [] \<or> acknowledged) \<and>
       rs_sent st' = rs_sent st @ [promotion_write rule] \<and> rs_changes st' = rs_changes st \<and>
       ((\<nexists>rule. r = Returned rule) \<and> rs_store st' = rs_store st \<or>
        (\<exists>state now. let updated = promoted_rule env rule (others_among rule conflicts) state who now in
           r = Returned updated \<and> rs_store st' = put_domain_policy_rule updated (rs_store st))))"
proof (cases "get_domain_policy_rule (rs_store st) rule_id")
  case (Inl e)
  with assms show ?thesis by (auto simp: promote_domain_rule_def run_try_bind stored_rule_def)
next
  case (Inr rule)
  let ?get = "get_policy env (dpr_engine_id rule) (dpr_remote_policy_id rule)"
  let ?observe = "observe_conflicts env (dpr_gateway_action rule) (dpr_target_name rule)"
  obtain live t where live: "run_state ?get st = (live, t)" by fastforce
  then have t: "unchanged st t" by (rule only_asksD [OF only_asks_get_policy])
  obtain seen u where seen: "run_state ?observe t = (seen, u)" by fastforce
  with t have u: "unchanged st u"
    using only_asksD [OF only_asks_observe_conflicts] unchanged_trans by blast
  show ?thesis
  proof (cases "\<exists>d conflicts. live = Returned d \<and> fold_spaces (pd_statement d) = fold_spaces (dpr_cedar_policy rule) \<and>
      seen = Returned (Inr conflicts) \<and> (others_among rule conflicts = [] \<or> acknowledged)")
    case False
    then have "unchanged st st' \<and> (\<nexists>rule. r = Returned rule)"
      using assms t u live seen unfolding promote_domain_rule_def others_among_def
      by (auto simp: run_try_bind run_handled stored_rule_def Inr observed_def cleared_def
          split: ending.splits sum.splits if_splits)
    then show ?thesis ..
  next
    case True
    then obtain d conflicts where ok: "live = Returned d" "fold_spaces (pd_statement d) = fold_spaces (dpr_cedar_policy rule)"
      "seen = Returned (Inr conflicts)" "others_among rule conflicts = [] \<or> acknowledged"
      by blast
    let ?rule = "\<lambda>state now. promoted_rule env rule (others_among rule conflicts) state who now"
    let ?v = "\<lambda>w. u\<lparr>rs_world := w, rs_sent := rs_sent u @ [promotion_write rule]\<rparr>"
    have found: "run_state (stored_rule rule_id) st = (Returned rule, st)"
      by (simp add: stored_rule_def Inr)
    have "run_state (handled ?get (\<lambda>e. throw (Raw_state_unobservable e))) st = (Returned d, t)"
      using live ok(1) by (simp add: run_handled)
    then have run: "run_state (promote_domain_rule env rule_id who acknowledged) st =
        (case re_write env (rs_world u) (promotion_write rule) of
           (Inl e, w) \<Rightarrow> (Raised (Remote_failed e), ?v w)
         | (Inr _, w) \<Rightarrow> run_state
               (try_bind (await_terminal env (dpr_remote_policy_id rule) ACTIVE_MAX_POLLS) (\<lambda>state.
                try_bind (draw (re_now env)) (\<lambda>now.
                let updated = ?rule state now in try_bind (saved updated) (\<lambda>_. give updated)))) (?v w))"
      using ok(2)
      by (simp add: promote_domain_rule_def after_send after_cleared [OF ok(4)] promotion_write_def
          others_among_def [symmetric] after_returned [OF found] after_returned
          after_returned [OF seen [unfolded ok(3)]] split: prod.split sum.split)
    obtain a w where answer: "re_write env (rs_world u) (promotion_write rule) = (a, w)" by fastforce
    have v: "rs_store (?v w) = rs_store st" "rs_sent (?v w) = rs_sent st @ [promotion_write rule]"
      "rs_changes (?v w) = rs_changes st"
      using u by (simp_all add: unchanged_def)
    have "(\<nexists>rule. r = Returned rule) \<and> rs_store st' = rs_store st \<and> rs_changes st' = rs_changes st \<and>
        rs_sent st' = rs_sent st @ [promotion_write rule] \<or>
      (\<exists>state now. r = Returned (?rule state now) \<and>
        rs_store st' = put_domain_policy_rule (?rule state now) (rs_store st) \<and>
        rs_sent st' = rs_sent st @ [promotion_write rule] \<and> rs_changes st' = rs_changes st)"
    proof (cases a)
      case (Inr x)
      with assms [unfolded run answer] have "run_state
          (try_bind (await_terminal env (dpr_remote_policy_id rule) ACTIVE_MAX_POLLS) (\<lambda>state.
           try_bind (draw (re_now env)) (\<lambda>now. let updated = ?rule state now in
           try_bind (saved updated) (\<lambda>_. give updated)))) (?v w) = (r, st')"
        by simp
      from promotion_tail [OF this] show ?thesis unfolding v by blast
    qed (use assms [unfolded run answer] v in auto)
    with ok live seen Inr show ?thesis
      by (simp del: split_paired_Ex split_paired_All add: Let_def) blast
  qed
qed

text \<open>C13: Only the text of the ledger is made to enforce, and only after a fresh look. A promotion
  either sends nothing and leaves the ledger alone, or the engine's text is that of the ledger up to
  spaces, the live policies were read for conflicts again after that, of which the detector
  reported none with another policy or the caller acknowledged them; then the one thing sent is the ledger's text in the mode \<open>ACTIVE\<close>.\<close>

theorem promotion_sends_the_ledger:
  "case run_state (promote_domain_rule env rule_id who acknowledged) st of (r, st') \<Rightarrow>
     succeeded r = None \<and> rs_sent st' = rs_sent st \<and> rs_store st' = rs_store st \<or>
     (\<exists>rule live t conflicts u. get_domain_policy_rule (rs_store st) rule_id = Inr rule \<and>
        run_state (get_policy env (dpr_engine_id rule) (dpr_remote_policy_id rule)) st = (Returned live, t) \<and>
        fold_spaces (pd_statement live) = fold_spaces (dpr_cedar_policy rule) \<and>
        run_state (observe_conflicts env (dpr_gateway_action rule) (dpr_target_name rule)) t =
          (Returned (Inr conflicts), u) \<and>
        (filter (\<lambda>c. cf_policy_id c \<noteq> dpr_remote_policy_id rule) conflicts = [] \<or> acknowledged) \<and>
        rs_sent st' = rs_sent st @ [Update_policy (dpr_engine_id rule) (dpr_remote_policy_id rule)
          (dpr_cedar_policy rule) ''ACTIVE''] \<and>
        (succeeded r = None \<and> rs_store st' = rs_store st \<or>
         (\<exists>updated. succeeded r = Some updated \<and> rs_store st' = put_domain_policy_rule updated (rs_store st) \<and>
            dpr_cedar_policy updated = dpr_cedar_policy rule)))"
proof -
  obtain r st' where run: "run_state (promote_domain_rule env rule_id who acknowledged) st = (r, st')"
    by fastforce
  have row: "dpr_cedar_policy (promoted_rule env rule conflicts state who now) = dpr_cedar_policy rule"
    for rule conflicts state now by (simp add: promoted_rule_def split: prod.split)
  have tail: "succeeded r = None \<and> rs_store st' = rs_store st \<or>
      (\<exists>updated. succeeded r = Some updated \<and> rs_store st' = put_domain_policy_rule updated (rs_store st) \<and>
         dpr_cedar_policy updated = dpr_cedar_policy rule)"
    if "(\<nexists>rule. r = Returned rule) \<and> rs_store st' = rs_store st \<or>
      (\<exists>state now. let updated = promoted_rule env rule conflicts state who now in
         r = Returned updated \<and> rs_store st' = put_domain_policy_rule updated (rs_store st))" for rule conflicts
    using that succeeded_None row by (fastforce simp only: Let_def succeeded_simps)
  have quiet: "succeeded r = None \<and> rs_sent st' = rs_sent st \<and> rs_store st' = rs_store st"
    if "unchanged st st' \<and> (\<nexists>rule. r = Returned rule)"
    using that by (simp add: unchanged_def succeeded_None)
  show ?thesis
    unfolding run prod.case
    apply (rule disjE [OF promotion_cases [OF run]])
     apply (rule disjI1, erule quiet)
    apply (rule disjI2)
    apply (elim exE conjE)
    apply (intro exI conjI)
           apply (assumption | erule tail | simp only: promotion_write_def others_among_def)+
    done
qed

end
