(* ===== verification/Rule_Ledger.thy ===== *)
theory Rule_Ledger
  imports Domain_Laws
begin

text \<open>
  The rules as a transition system: the four operations that change the ledger or the engine, in
  any order, against any engine. Every row and every text that was ever sent is a guarded permit.
  And what the ledger says of the engine: only what it answered, and not always to the API.
\<close>

section \<open>The operations\<close>

datatype rule_op =
    Create_rule "(string \<times> json) list" string bool
  | Promote_rule string string bool
  | Refresh_rule string
  | Delete_rule string

fun rule_step :: "'w rule_env \<Rightarrow> rule_op \<Rightarrow> 'w rule_state \<Rightarrow> 'w rule_state" where
  "rule_step env (Create_rule payload who ack) st = snd (run_state (create_domain_rule env payload who ack) st)"
| "rule_step env (Promote_rule rule_id who ack) st = snd (run_state (promote_domain_rule env rule_id who ack) st)"
| "rule_step env (Refresh_rule rule_id) st = snd (run_state (refresh_domain_rule env rule_id) st)"
| "rule_step env (Delete_rule rule_id) st = snd (run_state (delete_domain_rule env rule_id) st)"

section \<open>The invariant\<close>

text \<open>A text with the guard of its argument, as the check reads it.\<close>

definition guarded :: "string \<Rightarrow> string \<Rightarrow> string \<Rightarrow> string \<Rightarrow> bool" where
  "guarded cedar argument action gateway \<longleftrightarrow>
     assert_fail_closed_shape cedar argument action gateway = Inr () \<and> length cedar \<le> MAX_CEDAR_POLICY_BYTES"

text \<open>The history of a row: it began in \<open>LOG_ONLY\<close>, every later request was for \<open>ACTIVE\<close>, and the
  last one is the mode the row says was requested.\<close>

definition history_ok :: "domain_policy_rule \<Rightarrow> bool" where
  "history_ok r \<longleftrightarrow>
     (case map dpc_requested_mode (dpr_enforcement_changes r) of
        [] \<Rightarrow> False
      | m # ms \<Rightarrow> m = ''LOG_ONLY'' \<and> list_all (\<lambda>x. x = ''ACTIVE'') ms \<and>
          dpr_requested_enforcement_mode r = last (m # ms))"

definition rule_row_ok :: "'w rule_env \<Rightarrow> domain_policy_rule \<Rightarrow> bool" where
  "rule_row_ok env r \<longleftrightarrow>
     guarded (dpr_cedar_policy r) (dpr_argument r) (dpr_gateway_action r) (strip (dpr_gateway_arn r)) \<and>
     dpr_policy_hash r = re_hash env (dpr_cedar_policy r) \<and>
     dpr_gateway_action r = gateway_tool_name (dpr_target_name r) (dpr_tool_name r) \<and>
     dpr_remote_policy_id r \<noteq> [] \<and>
     dpr_conflict_acknowledged r = (dpr_coarse_conflicts r \<noteq> []) \<and>
     length (dpr_coarse_conflicts r) = length (dpr_coarse_conflict_policies r) \<and> history_ok r"

fun write_ok :: "engine_write \<Rightarrow> bool" where
  "write_ok (Create_policy _ _ cedar mode) =
     (mode = ''LOG_ONLY'' \<and> (\<exists>argument action gateway. guarded cedar argument action gateway))"
| "write_ok (Update_policy _ _ cedar mode) =
     (mode = ''ACTIVE'' \<and> (\<exists>argument action gateway. guarded cedar argument action gateway))"
| "write_ok (Delete_policy _ _) = True"

definition rules_ok :: "'w rule_env \<Rightarrow> 'w rule_state \<Rightarrow> bool" where
  "rules_ok env st \<longleftrightarrow>
     list_all (rule_row_ok env) (dvalues (st_domain_policy_rules (rs_store st))) \<and>
     list_all write_ok (rs_sent st)"

lemma set_dvalues_dput: "set (dvalues (dput k v d)) \<subseteq> insert v (set (dvalues d))"
  using set_dput_subset [of k v d] by (force simp: dvalues_def)

lemma rows_ok_put:
  "list_all (rule_row_ok env) (dvalues (st_domain_policy_rules s)) \<Longrightarrow> rule_row_ok env r \<Longrightarrow>
     list_all (rule_row_ok env) (dvalues (st_domain_policy_rules (put_domain_policy_rule r s)))"
  using set_dvalues_dput [of "dpr_rule_id r" r "st_domain_policy_rules s"]
  by (auto simp: put_domain_policy_rule_def list_all_iff)

lemma rows_ok_del:
  "list_all (rule_row_ok env) (dvalues (st_domain_policy_rules s)) \<Longrightarrow>
     list_all (rule_row_ok env) (dvalues (st_domain_policy_rules (fst (delete_domain_policy_rule k s))))"
  using set_ddel_subset [of k "st_domain_policy_rules s"]
  by (force simp: delete_domain_policy_rule_def list_all_iff dvalues_def)

lemma rows_ok_get:
  "list_all (rule_row_ok env) (dvalues (st_domain_policy_rules s)) \<Longrightarrow>
     get_domain_policy_rule s k = Inr r \<Longrightarrow> rule_row_ok env r"
  by (auto simp: get_domain_policy_rule_def of_option_def list_all_iff dvalues_def
      dest!: map_of_SomeD split: option.splits)

section \<open>Every operation keeps it\<close>

lemma compiled_guarded:
  assumes "compile_domain_rule hash d = Inr c"
  shows "guarded (cr_cedar_policy c) (rd_argument d) (cr_action c) (strip (rd_gateway_arn d))"
    "cr_policy_hash c = hash (cr_cedar_policy c)" "cr_action c = draft_action d"
  using assms
  by (auto simp: compile_domain_rule_def Let_def bind_res_Inr_iff guarded_def validated_argument_def
      split: if_splits sum.splits)

lemma prepared_guarded:
  assumes "prepared env payload = Inr (d, c)"
  shows "guarded (cr_cedar_policy c) (rd_argument d) (cr_action c) (strip (rd_gateway_arn d))"
    "cr_policy_hash c = re_hash env (cr_cedar_policy c)" "cr_action c = draft_action d"
proof -
  have "compile_domain_rule (re_hash env) d = Inr c"
    using assms by (auto simp: prepared_def Let_def bind_res_Inr_iff)
  from compiled_guarded [OF this]
  show "guarded (cr_cedar_policy c) (rd_argument d) (cr_action c) (strip (rd_gateway_arn d))"
    "cr_policy_hash c = re_hash env (cr_cedar_policy c)" "cr_action c = draft_action d" .
qed

lemma new_rule_ok:
  assumes "prepared env payload = Inr (d, c)" "pid \<noteq> []"
  shows "rule_row_ok env (new_rule env d c conflicts name pid state who now rule_id)"
  using prepared_guarded [OF assms(1)] assms(2)
  by (auto simp: rule_row_ok_def new_rule_def draft_action_def history_ok_def split: prod.split)

lemma promoted_rule_ok:
  "rule_row_ok env rule \<Longrightarrow> rule_row_ok env (promoted_rule env rule conflicts state who now)"
  by (auto simp: rule_row_ok_def promoted_rule_def history_ok_def split: prod.split list.splits)

lemma create_keeps:
  assumes "rules_ok env st"
  shows "rules_ok env (rule_step env (Create_rule payload who ack) st)"
proof -
  obtain r st' where run: "run_state (create_domain_rule env payload who ack) st = (r, st')" by fastforce
  have sent: "write_ok (creation_write env d c)" if "prepared env payload = Inr (d, c)" for d c
    using prepared_guarded(1) [OF that] by (auto simp: creation_write_def)
  from creation_cases [OF run] show ?thesis
    using assms
    by (auto simp: run rules_ok_def unchanged_def Let_def intro!: rows_ok_put sent intro: new_rule_ok)
qed

lemma promote_keeps:
  assumes "rules_ok env st"
  shows "rules_ok env (rule_step env (Promote_rule rule_id who ack) st)"
proof -
  obtain r st' where run: "run_state (promote_domain_rule env rule_id who ack) st = (r, st')" by fastforce
  have row: "rule_row_ok env rule" if "get_domain_policy_rule (rs_store st) rule_id = Inr rule" for rule
    using rows_ok_get assms that by (auto simp: rules_ok_def)
  have sent: "write_ok (promotion_write rule)" if "get_domain_policy_rule (rs_store st) rule_id = Inr rule" for rule
    using row [OF that] by (auto simp: promotion_write_def rule_row_ok_def)
  from promotion_cases [OF run] show ?thesis
    using assms
    by (auto simp: run rules_ok_def unchanged_def Let_def intro!: rows_ok_put sent promoted_rule_ok intro: row)
qed

text \<open>A refresh writes the row again with what was observed, and a deletion deletes it once the
  engine answered.\<close>

definition observed_row :: "'w rule_env \<Rightarrow> domain_policy_rule \<Rightarrow> string + policy_detail \<Rightarrow> domain_policy_rule" where
  "observed_row env rule answer =
     (case answer of
        Inl x \<Rightarrow> rule\<lparr>dpr_observed_status := ''UNKNOWN'',
          dpr_status_reasons := [re_text env (Read_failed (Remote_failed x))], dpr_enforcement_mode := []\<rparr>
      | Inr d \<Rightarrow> rule\<lparr>dpr_observed_status := or_else (pd_status d) ''UNKNOWN'',
          dpr_status_reasons := pd_reasons d, dpr_enforcement_mode := pd_mode d\<rparr>)"

lemma refresh_cases:
  "run_state (refresh_domain_rule env rule_id) st =
     (case get_domain_policy_rule (rs_store st) rule_id of
        Inl _ \<Rightarrow> (Raised Rule_missing, st)
      | Inr rule \<Rightarrow>
          (let updated = observed_row env rule
             (fst (re_get_policy env (rs_world st) (dpr_engine_id rule) (dpr_remote_policy_id rule))) in
           (Returned updated, (after_get env (dpr_engine_id rule) (dpr_remote_policy_id rule) st)
              \<lparr>rs_store := put_domain_policy_rule updated (rs_store st)\<rparr>)))"
  by (auto simp: refresh_domain_rule_def run_try_bind run_handled stored_rule_def run_get_policy Let_def
      answered_def saved_def observed_row_def split: sum.split prod.split)

lemma delete_cases:
  "run_state (delete_domain_rule env rule_id) st =
     (case get_domain_policy_rule (rs_store st) rule_id of
        Inl _ \<Rightarrow> (Raised Rule_missing, st)
      | Inr rule \<Rightarrow>
          (let x = Delete_policy (dpr_engine_id rule) (dpr_remote_policy_id rule) in
           case re_write env (rs_world st) x of
             (Inl e, w) \<Rightarrow> (Returned (Some (Remote_failed e)), st\<lparr>rs_world := w, rs_sent := rs_sent st @ [x]\<rparr>)
           | (Inr _, w) \<Rightarrow> (Returned None, st\<lparr>rs_world := w, rs_sent := rs_sent st @ [x],
               rs_store := fst (delete_domain_policy_rule rule_id (rs_store st))\<rparr>)))"
  by (auto simp: delete_domain_rule_def run_try_bind run_handled stored_rule_def send_def answered_def
      dropped_def Let_def split: sum.split prod.split)

lemma observed_row_ok: "rule_row_ok env rule \<Longrightarrow> rule_row_ok env (observed_row env rule answer)"
  by (auto simp: rule_row_ok_def observed_row_def history_ok_def split: sum.split list.split)

lemma refresh_keeps: "rules_ok env st \<Longrightarrow> rules_ok env (rule_step env (Refresh_rule rule_id) st)"
  by (auto simp: refresh_cases rules_ok_def Let_def split: sum.split
      intro!: rows_ok_put observed_row_ok intro: rows_ok_get)

lemma delete_keeps: "rules_ok env st \<Longrightarrow> rules_ok env (rule_step env (Delete_rule rule_id) st)"
  by (auto simp: delete_cases rules_ok_def Let_def split: sum.split prod.split intro!: rows_ok_del)

interpretation rules: transition_system "rule_step env" "rules_ok env" for env
proof
  show "rules_ok env st \<Longrightarrow> rules_ok env (rule_step env op st)" for op st
    using create_keeps promote_keeps refresh_keeps delete_keeps by (cases op) blast+
qed

text \<open>The service with an empty ledger, before anything was sent.\<close>

definition no_rules :: "'w \<Rightarrow> 'w rule_state" where
  "no_rules w = \<lparr>rs_store = empty_store, rs_world = w, rs_sent = [], rs_seen = [], rs_changes = []\<rparr>"

text \<open>C16: Every rule is a guarded permit, whatever happens. After any sequence of creations,
  promotions, refreshes and deletions, against any answers of the engine, every row of the ledger
  has a text that passes the check for its own tool, argument and Gateway, with the hash of that
  text, a policy of the engine, conflicts exactly if they were acknowledged, and a history that
  begins in \<open>LOG_ONLY\<close> and ends in the requested mode; and every text ever sent to the engine
  passes the check too, in \<open>LOG_ONLY\<close> where it created a policy.\<close>

theorem rules_stay_guarded:
  "list_all (rule_row_ok env)
     (dvalues (st_domain_policy_rules (rs_store (fold (rule_step env) ops (no_rules w))))) \<and>
   list_all write_ok (rs_sent (fold (rule_step env) ops (no_rules w)))"
proof -
  have "rules_ok env (no_rules w)"
    by (simp add: rules_ok_def no_rules_def empty_store_def dvalues_def)
  from rules.inv_run [OF this] show ?thesis by (simp add: rules_ok_def)
qed

section \<open>What the ledger says of the engine\<close>

text \<open>A mode is recorded only if the engine said so. Waiting for the engine always returns, with
  \<open>UNKNOWN\<close> and no mode, or with the status and the mode of one answer of the engine whose status is
  settled.\<close>

theorem recorded_mode_was_answered:
  "\<exists>status reasons mode. fst (run_state (await_terminal env pid n) st) = Returned (status, reasons, mode) \<and>
     (status = ''UNKNOWN'' \<and> mode = [] \<or>
      (\<exists>w detail w'. re_get_policy env w (re_engine_id env) pid = (Inr detail, w') \<and>
         pd_status detail = status \<and> pd_mode detail = mode \<and> still_changing status = False))"
proof (induction n arbitrary: st)
  case (Suc n)
  let ?w = "re_sleep env (rs_world st)"
  obtain a w where answer: "re_get_policy env ?w (re_engine_id env) pid = (a, w)" by fastforce
  let ?t = "after_get env (re_engine_id env) pid (st\<lparr>rs_world := ?w\<rparr>)"
  show ?case
  proof (cases a)
    case (Inr detail)
    show ?thesis
    proof (cases "still_changing (pd_status detail)")
      case True
      with Suc [of ?t] answer Inr show ?thesis
        by (simp add: run_try_bind draw_def run_get_policy answered_def)
    next
      case False
      with answer Inr show ?thesis
        by (auto simp: run_try_bind draw_def run_get_policy answered_def)
    qed
  qed (use answer in \<open>simp add: run_try_bind draw_def run_get_policy answered_def\<close>)
qed simp

section \<open>A departure that the API misses\<close>

text \<open>A world that is the list of the engine's next answers.\<close>

definition scripted :: "(string + policy_detail) list rule_env" where
  "scripted = \<lparr>re_gateway_arn = ''arn:aws:gw/1'', re_engine_id = ''e'', re_gateway_id = ''g'',
     re_list_policies = (\<lambda>w _. (Inr \<lparr>pg_items = Some [], pg_next = []\<rparr>, w)),
     re_get_policy = (\<lambda>w _ _. case w of [] \<Rightarrow> (Inl ''Timeout: '', []) | a # as \<Rightarrow> (a, as)),
     re_write = (\<lambda>w _. (Inr ''p1'', w)), re_get_gateway = (\<lambda>w _. (Inr [], w)),
     re_list_targets = (\<lambda>w _. (Inr \<lparr>pg_items = Some [], pg_next = []\<rparr>, w)),
     re_get_target = (\<lambda>w _. (Inr JNull, w)), re_assets = (\<lambda>w. (Inr [], w)), re_sleep = (\<lambda>w. w),
     re_now = (\<lambda>w. (''now'', w)), re_new_id = (\<lambda>w. (''r1'', w)), re_hash = (\<lambda>_. ''h''),
     re_repr = (\<lambda>_. []), re_parse_json = (\<lambda>_. None), re_text = (\<lambda>_. ''text''),
     re_provision = (\<lambda>w _. (Inr (JObj [(''ok'', JBool True)]), w)), re_no_mapping = (\<lambda>_. [])\<rparr>"

text \<open>One refresh of a rule, and several in a row, against any engine.\<close>

definition refreshed :: "'w rule_env \<Rightarrow> string \<Rightarrow> 'w rule_state \<Rightarrow> 'w rule_state" where
  "refreshed env rule_id st = snd (run_state (refresh_domain_policy env rule_id) st)"

fun refreshed_times :: "nat \<Rightarrow> 'w rule_env \<Rightarrow> string \<Rightarrow> 'w rule_state \<Rightarrow> 'w rule_state" where
  "refreshed_times 0 env rule_id st = st"
| "refreshed_times (Suc n) env rule_id st = refreshed env rule_id (refreshed_times n env rule_id st)"

text \<open>The row that both readers of the ledger find under an identifier: the listing of the route and
  the look-up of the service.\<close>

definition has_row :: "string \<Rightarrow> domain_policy_rule \<Rightarrow> 'w rule_state \<Rightarrow> bool" where
  "has_row rule_id rule st \<longleftrightarrow>
     keyed_by dpr_rule_id (st_domain_policy_rules (rs_store st)) \<and>
     wf_dict (st_domain_policy_rules (rs_store st)) \<and>
     dget (st_domain_policy_rules (rs_store st)) rule_id = Some rule"

lemma has_row_id: "has_row rule_id rule st \<Longrightarrow> dpr_rule_id rule = rule_id"
  using keyed_by_get by (fastforce simp: has_row_def)

lemma has_row_listed:
  assumes "has_row rule_id rule st"
  shows "find (\<lambda>r. dpr_rule_id r = rule_id) (list_rules (rs_store st)) = Some rule"
proof -
  let ?d = "st_domain_policy_rules (rs_store st)"
  have mem: "set (list_rules (rs_store st)) = snd ` set ?d"
    by (simp add: list_rules_def list_domain_policy_rules_def dvalues_def)
  have only: "r = rule" if "r \<in> set (list_rules (rs_store st))" "dpr_rule_id r = rule_id" for r
  proof -
    from that mem obtain k where k: "(k, r) \<in> set ?d" by auto
    with assms that have "k = rule_id" by (auto simp: has_row_def keyed_by_def)
    with k assms have "dget ?d rule_id = Some r"
      by (metis has_row_def map_of_is_SomeI wf_dict_def)
    with assms show ?thesis by (simp add: has_row_def)
  qed
  have "(rule_id, rule) \<in> set ?d" using assms by (auto simp: has_row_def dest: map_of_SomeD)
  then have "rule \<in> set (list_rules (rs_store st))" unfolding mem by force
  then have "find (\<lambda>r. dpr_rule_id r = rule_id) (list_rules (rs_store st)) \<noteq> None"
    using has_row_id [OF assms] unfolding find_None_iff by blast
  then obtain r where r: "find (\<lambda>r. dpr_rule_id r = rule_id) (list_rules (rs_store st)) = Some r" by blast
  then have "r \<in> set (list_rules (rs_store st))" "dpr_rule_id r = rule_id"
    unfolding find_Some_iff by auto
  with only r show ?thesis by blast
qed

lemma has_row_found: "has_row rule_id rule st \<Longrightarrow> get_domain_policy_rule (rs_store st) rule_id = Inr rule"
  by (simp add: has_row_def get_domain_policy_rule_def of_option_def)

text \<open>What the engine answers about the policy of a rule, and what one refresh makes of it.\<close>

definition engine_answer :: "'w rule_env \<Rightarrow> domain_policy_rule \<Rightarrow> 'w rule_state \<Rightarrow> string + policy_detail" where
  "engine_answer env rule st = fst (re_get_policy env (rs_world st) (dpr_engine_id rule) (dpr_remote_policy_id rule))"

lemma refresh_once:
  fixes env :: "'w rule_env"
  assumes "has_row rule_id rule st"
  defines "rule' \<equiv> observed_row env rule (engine_answer env rule st)"
  shows "has_row rule_id rule' (refreshed env rule_id st)"
    "rs_changes (refreshed env rule_id st) = rs_changes st @
       (if active_membership rule' = Some True \<or>
          active_membership rule = Some True \<and> active_membership rule' = Some False
        then [''domain_policy_refreshed''] else [])"
proof -
  have id: "dpr_rule_id rule' = rule_id"
    using has_row_id [OF assms(1)] by (simp add: rule'_def observed_row_def split: sum.split)
  let ?st = "(after_get env (dpr_engine_id rule) (dpr_remote_policy_id rule) st)
      \<lparr>rs_store := put_domain_policy_rule rule' (rs_store st)\<rparr>"
  have run: "run_state (refresh_domain_rule env rule_id) st = (Returned rule', ?st)"
    by (simp add: refresh_cases has_row_found [OF assms(1)] rule'_def engine_answer_def Let_def)
  have kept: "has_row rule_id rule' ?st"
    using assms(1) id by (simp add: has_row_def put_domain_policy_rule_def keyed_by_dput)
  have changes: "rs_changes ?st = rs_changes st" by simp
  let ?needed = "active_membership rule' = Some True \<or>
      active_membership rule = Some True \<and> active_membership rule' = Some False"
  have "refreshed env rule_id st = snd (run_state (served_after env ?needed ''domain_policy_refreshed'' rule') ?st)"
    by (simp add: refreshed_def refresh_domain_policy_def with_status_def listed_rule_def
        has_row_listed [OF assms(1)] run)
  then have "rs_store (refreshed env rule_id st) = rs_store ?st \<and>
      rs_changes (refreshed env rule_id st) = rs_changes ?st @ (if ?needed then [''domain_policy_refreshed''] else [])"
    by (simp add: served_after_def provisioned_def run_try_bind split: prod.split sum.split)
  with kept changes show "has_row rule_id rule' (refreshed env rule_id st)"
    "rs_changes (refreshed env rule_id st) = rs_changes st @ (if ?needed then [''domain_policy_refreshed''] else [])"
    by (simp_all add: has_row_def)
qed

text \<open>As long as the row was not active and is not read as active, nothing is provisioned.\<close>

lemma quiet_refreshes:
  assumes "has_row rule_id rule st" "active_membership rule \<noteq> Some True"
    and "\<And>i rule'. i \<le> n \<Longrightarrow> has_row rule_id rule' (refreshed_times i env rule_id st) \<Longrightarrow>
      active_membership rule' \<noteq> Some True"
  shows "rs_changes (refreshed_times n env rule_id st) = rs_changes st \<and>
    (\<exists>rule'. has_row rule_id rule' (refreshed_times n env rule_id st))"
  using assms(3)
proof (induction n)
  case (Suc n)
  have "rs_changes (refreshed_times n env rule_id st) = rs_changes st \<and>
      (\<exists>r. has_row rule_id r (refreshed_times n env rule_id st))"
    by (rule Suc.IH) (use Suc.prems in \<open>meson le_SucI\<close>)
  then obtain r where r: "has_row rule_id r (refreshed_times n env rule_id st)"
    "rs_changes (refreshed_times n env rule_id st) = rs_changes st" by blast
  with Suc.prems have "active_membership r \<noteq> Some True" by (meson le_SucI order_refl)
  moreover have "active_membership r' \<noteq> Some True"
    if "has_row rule_id r' (refreshed env rule_id (refreshed_times n env rule_id st))" for r'
    using Suc.prems [of "Suc n" r'] that by simp
  ultimately show ?case
    using refresh_once [OF r(1), of env] r(2) by auto
qed (use assms(1) in auto)

text \<open>C27: An outage hides that a rule stopped enforcing. Against any engine and whatever else the ledger
  holds, a refresh has the shared policies made anew exactly if it reads the rule as active, or if the row
  was active and it reads that the rule no longer is. A refresh that cannot reach the engine leaves the
  row unknown. From then on, until a refresh reads the rule as active again, no number of refreshes
  provisions anything, so a departure that one of them reads is missed: the shared policies still leave
  the tool to a rule that does not enforce.\<close>

theorem outage_hides_departure:
  assumes "has_row rule_id rule st"
  shows "\<exists>rule'. has_row rule_id rule' (refreshed env rule_id st) \<and>
    rule' = observed_row env rule (engine_answer env rule st) \<and>
    rs_changes (refreshed env rule_id st) = rs_changes st @
      (if active_membership rule' = Some True \<or>
         active_membership rule = Some True \<and> active_membership rule' = Some False
       then [''domain_policy_refreshed''] else []) \<and>
    (\<forall>e. engine_answer env rule st = Inl e \<longrightarrow> active_membership rule' = None \<and>
       (\<forall>n. (\<forall>i \<le> n. \<forall>r. has_row rule_id r (refreshed_times i env rule_id (refreshed env rule_id st)) \<longrightarrow>
               active_membership r \<noteq> Some True) \<longrightarrow>
          rs_changes (refreshed_times n env rule_id (refreshed env rule_id st)) = rs_changes st))"
proof -
  let ?rule = "observed_row env rule (engine_answer env rule st)"
  note once = refresh_once [OF assms, of env]
  have "active_membership ?rule = None \<and>
      rs_changes (refreshed_times n env rule_id (refreshed env rule_id st)) = rs_changes st"
    if "engine_answer env rule st = Inl e"
      "\<forall>i \<le> n. \<forall>r. has_row rule_id r (refreshed_times i env rule_id (refreshed env rule_id st)) \<longrightarrow>
         active_membership r \<noteq> Some True" for e n
  proof -
    have unknown: "active_membership ?rule = None"
      by (simp add: that(1) active_membership_def observed_row_def)
    with once(2) quiet_refreshes [OF once(1), of n] that(2) show ?thesis by simp
  qed
  moreover have "active_membership ?rule = None" if "engine_answer env rule st = Inl e" for e
    by (simp add: that active_membership_def observed_row_def)
  ultimately show ?thesis using once by blast
qed

definition one_rule :: "domain_policy_rule \<Rightarrow> identity_store" where
  "one_rule rule = empty_store\<lparr>st_domain_policy_rules := [(dpr_rule_id rule, rule)]\<rparr>"

definition ledger_of :: "'w \<Rightarrow> domain_policy_rule \<Rightarrow> 'w rule_state" where
  "ledger_of w rule = (no_rules w)\<lparr>rs_store := one_rule rule\<rparr>"

definition active_rule_row :: domain_policy_rule where
  "active_rule_row = (new_rule scripted sample_draft
     \<lparr>cr_action = ''shop___refund'', cr_cedar_policy = [], cr_policy_hash = [], cr_size_bytes = 0\<rparr> []
     ''n'' ''p1'' (''ACTIVE'', [], ''ACTIVE'') ''who'' ''now'' ''r1'')"

definition departed :: policy_detail where
  "departed = \<lparr>pd_name = [], pd_status = ''ACTIVE'', pd_reasons = [], pd_mode = ''LOG_ONLY'', pd_statement = []\<rparr>"

text \<open>The engine first times out and then says that the rule only observes: two refreshes provision
  nothing, where the second alone would have.\<close>

theorem outage_hides_departure_witness:
  "rs_changes (refreshed scripted ''r1'' (ledger_of [Inr departed] active_rule_row)) = [''domain_policy_refreshed''] \<and>
   rs_changes (refreshed_times 1 scripted ''r1''
     (refreshed scripted ''r1'' (ledger_of [Inl ''Timeout'', Inr departed] active_rule_row))) = []"
proof -
  let ?st = "\<lambda>w. ledger_of w active_rule_row"
  have id: "dpr_rule_id active_rule_row = ''r1''" by (simp add: active_rule_row_def new_rule_def)
  have row: "has_row ''r1'' active_rule_row (?st w)" for w :: "(string + policy_detail) list"
    by (simp add: has_row_def ledger_of_def one_rule_def no_rules_def id wf_dict_def keyed_by_def)
  have answer: "engine_answer scripted r (?st (a # w)) = a" for r a w
    by (simp add: engine_answer_def scripted_def ledger_of_def no_rules_def)
  have member: "active_membership active_rule_row = Some True"
    "active_membership (observed_row scripted active_rule_row (Inr departed)) = Some False"
    by (simp_all add: active_rule_row_def new_rule_def active_membership_def observed_row_def or_else_def departed_def)
  have start: "rs_changes (?st w) = []" for w :: "(string + policy_detail) list"
    by (simp add: ledger_of_def no_rules_def)
  have first: "rs_changes (refreshed scripted ''r1'' (?st [Inr departed])) = [''domain_policy_refreshed'']"
    using outage_hides_departure [OF row [of "[Inr departed]"], of scripted] member answer start by simp
  let ?st1 = "refreshed scripted ''r1'' (?st [Inl ''Timeout'', Inr departed])"
  have "list_all (\<lambda>i. list_all (\<lambda>(k, r). k = ''r1'' \<longrightarrow> active_membership r \<noteq> Some True)
      (st_domain_policy_rules (rs_store (refreshed_times i scripted ''r1'' ?st1)))) [0, Suc 0]"
    by code_simp
  then have quiet: "active_membership r \<noteq> Some True"
    if "i \<le> 1" "has_row ''r1'' r (refreshed_times i scripted ''r1'' ?st1)" for i r
    using that by (auto simp: has_row_def le_Suc_eq list_all_iff simp del: refreshed_times.simps dest!: map_of_SomeD)
  from outage_hides_departure [OF row [of "[Inl ''Timeout'', Inr departed]"], of scripted]
  have "\<forall>n. (\<forall>i \<le> n. \<forall>r. has_row ''r1'' r (refreshed_times i scripted ''r1'' ?st1) \<longrightarrow> active_membership r \<noteq> Some True) \<longrightarrow>
      rs_changes (refreshed_times n scripted ''r1'' ?st1) = rs_changes (?st [Inl ''Timeout'', Inr departed])"
    using answer by blast
  from spec [OF this, of 1] quiet have "rs_changes (refreshed_times 1 scripted ''r1'' ?st1) = []"
    unfolding start by blast
  with first show ?thesis by blast
qed

end
