(* ===== verification/Shared_Provisioner.thy ===== *)
theory Shared_Provisioner
  imports Policy_Engine
begin

text \<open>
  The provisioner of the shared Gateway policies, \<open>SharedPolicyProvisioner\<close> in
  \<open>identity/shared_policy_provisioner.py\<close>: it reads the interceptor, the ledger and the live
  Gateway, compiles the policies that should be there, and replaces the revision that is there by
  a new one; and the pass that deletes old revisions. Messages are dropped: a report has the
  cause of its verdict, a warning the policy it is about.
\<close>

section \<open>Names and texts\<close>

text \<open>\<open>re.sub(r"\s+", " ", text).strip()\<close>\<close>

function squeezed :: "string \<Rightarrow> string" where
  "squeezed s =
     (case s of [] \<Rightarrow> []
      | c # cs \<Rightarrow> if is_space c then CHR '' '' # squeezed (dropWhile is_space cs) else c # squeezed cs)"
  by pat_completeness auto
termination
  by (relation "measure length") (auto simp: less_Suc_eq_le length_dropWhile_le)

declare squeezed.simps [simp del]

definition normalize_cedar :: "string \<Rightarrow> string" where
  "normalize_cedar s = strip (squeezed s)"

definition name_safe :: "string \<Rightarrow> string" where
  "name_safe key = map (\<lambda>c. if ident_char c then c else CHR ''_'') key"

definition gateway_hash :: "(string \<Rightarrow> string) \<Rightarrow> string \<Rightarrow> string" where
  "gateway_hash hash gateway = take 10 (hash gateway)"

definition name_head :: "(string \<Rightarrow> string) \<Rightarrow> string \<Rightarrow> string" where
  "name_head hash gateway = ''Gateway_'' @ gateway_hash hash gateway @ ''_''"

definition shared_policy_name :: "(string \<Rightarrow> string) \<Rightarrow> string \<Rightarrow> nat \<Rightarrow> string \<Rightarrow> string" where
  "shared_policy_name hash gateway revision key =
     (let head = name_head hash gateway; tail = ''_r'' @ int_digits (int revision);
          budget = max 1 (48 - length head - length tail) in
      head @ take budget (name_safe key) @ tail)"

text \<open>\<open>rsplit("_r", 1)\<close>: at the last occurrence.\<close>

fun rsplit_r :: "string \<Rightarrow> (string \<times> string) option" where
  "rsplit_r [] = None"
| "rsplit_r (c # cs) =
     (case rsplit_r cs of
        Some (a, b) \<Rightarrow> Some (c # a, b)
      | None \<Rightarrow> if prefix ''_r'' (c # cs) then Some ([], drop 2 (c # cs)) else None)"

definition nat_of_digits :: "string \<Rightarrow> nat" where
  "nat_of_digits ds = nat (foldl (\<lambda>n c. 10 * n + digit_value c) 0 ds)"

definition revision_of :: "string \<Rightarrow> nat" where
  "revision_of name =
     (case rsplit_r name of
        None \<Rightarrow> 0
      | Some (_, ds) \<Rightarrow> if ds \<noteq> [] \<and> list_all is_digit ds then nat_of_digits ds else 0)"

definition policy_key_of :: "(string \<Rightarrow> string) \<Rightarrow> string \<Rightarrow> string \<Rightarrow> string" where
  "policy_key_of hash gateway name =
     (let head = name_head hash gateway in
      if \<not> prefix head name then []
      else let body = drop (length head) name in
        case rsplit_r body of None \<Rightarrow> body | Some (key, _) \<Rightarrow> key)"

definition statement_targets_gateway :: "string \<Rightarrow> string \<Rightarrow> bool" where
  "statement_targets_gateway statement gateway =
     (let folded = normalize_cedar statement; marker = ''AgentCore::Gateway::'' @ [CHR 0x22] in
      contains (marker @ gateway @ [CHR 0x22]) folded \<or>
      contains ''resource is AgentCore::Gateway'' folded \<and> \<not> contains marker folded)"

section \<open>The live Gateway\<close>

definition LIVE_TOOL_SCHEMA_MAX_TARGETS :: nat where
  "LIVE_TOOL_SCHEMA_MAX_TARGETS = 40"

definition declared_target_names :: "agent_tool_binding list \<Rightarrow> string list" where
  "declared_target_names bindings =
     List.map_filter (\<lambda>b.
       let t = strip (atb_gateway_target_name b) in
       if atb_desired_state b = Desired_ALLOWED \<and> atb_approval_state b \<noteq> Approval_REJECTED \<and> t \<noteq> []
       then Some t else None) bindings"

text \<open>The names in one schema of a Target, if there is a list of tools.\<close>

definition payload_names :: "(json \<Rightarrow> string) \<Rightarrow> json \<Rightarrow> string list option" where
  "payload_names repr node =
     (case node of
        JObj n \<Rightarrow>
          (case jget n ''toolSchema'' of
             JObj schema \<Rightarrow>
               (case jget schema ''inlinePayload'' of
                  JArr items \<Rightarrow> Some (filter (\<lambda>t. t \<noteq> []) (List.map_filter (\<lambda>item.
                    case item of
                      JObj i \<Rightarrow> Some (strip (py_str repr (j_or (jget i ''name'') (JStr []))))
                    | _ \<Rightarrow> None) items))
                | _ \<Rightarrow> None)
           | _ \<Rightarrow> None)
      | _ \<Rightarrow> None)"

text \<open>\<open>None\<close> where no list of tools is in the configuration.\<close>

definition inline_tool_names :: "(json \<Rightarrow> string) \<Rightarrow> json \<Rightarrow> string list option" where
  "inline_tool_names repr configuration =
     (case (case configuration of JObj c \<Rightarrow> jget c ''mcp'' | _ \<Rightarrow> JNull) of
        JObj mcp \<Rightarrow>
          (let lists = List.map_filter (\<lambda>k. payload_names repr (jget mcp k))
             [''lambda'', ''openApiSchema'', ''smithyModel''] in
           if lists = [] then None else Some (concat lists))
      | _ \<Rightarrow> None)"

text \<open>Whether a REQUEST interceptor is attached; \<open>None\<close> with the exception where it was not read.\<close>

definition observe_interceptor :: "'w rule_env \<Rightarrow> ('w, bool option \<times> service_exc option) rule_action" where
  "observe_interceptor env =
     try_bind (attempt (ask (\<lambda>w. re_get_gateway env w (re_gateway_id env)))) (\<lambda>r.
       case r of
         Inl e \<Rightarrow> give (None, Some e)
       | Inr configs \<Rightarrow> give (Some (list_ex (\<lambda>points. ''REQUEST'' \<in> set points) configs), None))"

definition target_items :: "string list option \<Rightarrow> listed_target list \<Rightarrow> listed_target list" where
  "target_items needed items =
     sort_key (\<lambda>t. strip (lt_name t)) (filter (\<lambda>t. strip (lt_name t) \<noteq> [] \<and>
       (case needed of None \<Rightarrow> True | Some ns \<Rightarrow> strip (lt_name t) \<in> set ns)) items)"

text \<open>The tools of the Targets, from the \<open>i\<close>-th, and the Targets whose tools were not read.\<close>

fun read_schemas ::
  "'w rule_env \<Rightarrow> nat \<Rightarrow> listed_target list \<Rightarrow> (string, string list) dict \<Rightarrow> string list
     \<Rightarrow> ('w, (string, string list) dict \<times> string list) rule_action" where
  "read_schemas env i [] tools unread = give (tools, unread)"
| "read_schemas env i (t # ts) tools unread =
     (let name = strip (lt_name t); missed = read_schemas env (Suc i) ts tools (unread @ [name]) in
      if LIVE_TOOL_SCHEMA_MAX_TARGETS \<le> i then missed
      else try_bind (attempt (ask (\<lambda>w. re_get_target env w (lt_id t)))) (\<lambda>r.
        case r of
          Inl _ \<Rightarrow> missed
        | Inr configuration \<Rightarrow>
            (case inline_tool_names (re_repr env) configuration of
               None \<Rightarrow> missed
             | Some names \<Rightarrow> read_schemas env (Suc i) ts (dput name names tools) unread)))"

definition observe_live_gateway_inventory ::
  "'w rule_env \<Rightarrow> string list option \<Rightarrow> ('w, live_gateway_inventory option) rule_action" where
  "observe_live_gateway_inventory env needed =
     try_bind (attempt (all_pages True (re_list_targets env))) (\<lambda>r.
       case r of
         Inl _ \<Rightarrow> give None
       | Inr items \<Rightarrow>
           try_bind (read_schemas env 0 (target_items needed items) [] []) (\<lambda>(tools, unread).
           give (Some \<lparr>li_targets = remdups (filter (\<lambda>n. n \<noteq> []) (map (\<lambda>t. strip (lt_name t)) items)),
             li_tools_by_target = tools, li_tool_lists_complete = (unread = [])\<rparr>)))"

section \<open>The ledger\<close>

text \<open>The rows of the agents, read agent by agent, and the rules; \<open>None\<close> where the agents' rows are not
  those of the whole table.\<close>

definition observe_policy_ledger ::
  "identity_store \<Rightarrow> (agent_tool_binding list \<times> domain_policy_rule list) option" where
  "observe_policy_ledger s =
     (let snapshot = get_agent_authorization_ledger_snapshot s;
          agents = sorted_set (map atb_agent_record_id (als_tool_bindings snapshot) @
            map aib_agent_record_id (als_identities snapshot));
          bindings = concat (map (list_agent_tool_bindings s) agents) in
      if set (map binding_key (als_tool_bindings snapshot)) \<noteq> set (map binding_key bindings) then None
      else Some (bindings, list_domain_policy_rules s))"

section \<open>The policies of the engine\<close>

type_synonym owned_policy = "string \<times> string"

definition listed_all :: "'w rule_env \<Rightarrow> ('w, listed_policy list) rule_action" where
  "listed_all env = all_pages True (re_list_policies env)"

definition owned_policies :: "'w rule_env \<Rightarrow> string \<Rightarrow> ('w, owned_policy list) rule_action" where
  "owned_policies env gateway =
     try_bind (listed_all env) (\<lambda>items.
     give (map (\<lambda>p. (lp_name p, lp_id p))
       (filter (\<lambda>p. prefix (name_head (re_hash env) gateway) (lp_name p)) items)))"

definition revisions :: "owned_policy list \<Rightarrow> nat list" where
  "revisions existing = map (\<lambda>(name, _). revision_of name) existing"

definition top_revision :: "owned_policy list \<Rightarrow> nat" where
  "top_revision existing = fold max (revisions existing) 0"

definition next_revision :: "owned_policy list \<Rightarrow> nat" where
  "next_revision existing = top_revision existing + 1"

definition stale_revision_names :: "owned_policy list \<Rightarrow> string list" where
  "stale_revision_names existing =
     (if length (remdups (revisions existing)) \<le> 1 then []
      else sort (map fst (filter (\<lambda>(name, _). revision_of name \<noteq> top_revision existing) existing)))"

text \<open>The texts that should be live, by their key in a name.\<close>

definition wanted :: "compiled_shared_gateway_policies \<Rightarrow> (string, string) dict" where
  "wanted compiled =
     fold (\<lambda>p. dput (name_safe (cp_policy_key p)) (normalize_cedar (cp_cedar_policy p)))
       (cs_policies compiled) []"

text \<open>\<open>_already_current\<close> after the comparison of the numbers.\<close>

fun all_current ::
  "'w rule_env \<Rightarrow> string \<Rightarrow> (string, string) dict \<Rightarrow> owned_policy list \<Rightarrow> ('w, bool) rule_action" where
  "all_current env gateway want [] = give (want = [])"
| "all_current env gateway want ((name, pid) # rest) =
     (case dget want (policy_key_of (re_hash env) gateway name) of
        None \<Rightarrow> give False
      | Some cedar \<Rightarrow>
          try_bind (attempt (get_policy env (re_engine_id env) pid)) (\<lambda>r.
            case r of
              Inl _ \<Rightarrow> give False
            | Inr d \<Rightarrow>
                if pd_status d \<noteq> ''ACTIVE'' \<or> normalize_cedar (pd_statement d) \<noteq> cedar then give False
                else all_current env gateway (ddel (policy_key_of (re_hash env) gateway name) want) rest))"

definition already_current ::
  "'w rule_env \<Rightarrow> owned_policy list \<Rightarrow> compiled_shared_gateway_policies \<Rightarrow> ('w, bool) rule_action" where
  "already_current env existing compiled =
     (if length existing \<noteq> length (cs_policies compiled) then give False
      else all_current env (cs_gateway_arn compiled) (wanted compiled) existing)"

text \<open>The policies of the latest revision with their status, if their texts are wanted and they are
  live or on the way.\<close>

fun resumable_from ::
  "'w rule_env \<Rightarrow> string \<Rightarrow> (string, string) dict \<Rightarrow> owned_policy list
     \<Rightarrow> (string \<times> string \<times> string) list \<Rightarrow> ('w, (string \<times> string \<times> string) list option) rule_action" where
  "resumable_from env gateway want [] seen = give (if want = [] then Some seen else None)"
| "resumable_from env gateway want ((name, pid) # rest) seen =
     (case dget want (policy_key_of (re_hash env) gateway name) of
        None \<Rightarrow> give None
      | Some cedar \<Rightarrow>
          try_bind (attempt (get_policy env (re_engine_id env) pid)) (\<lambda>r.
            case r of
              Inl _ \<Rightarrow> give None
            | Inr d \<Rightarrow>
                if pd_status d \<noteq> ''ACTIVE'' \<and> \<not> suffix ''ING'' (pd_status d) then give None
                else if normalize_cedar (pd_statement d) \<noteq> cedar then give None
                else resumable_from env gateway (ddel (policy_key_of (re_hash env) gateway name) want) rest
                  (seen @ [(name, pid, pd_status d)])))"

definition of_revision :: "nat \<Rightarrow> owned_policy list \<Rightarrow> owned_policy list" where
  "of_revision n existing = filter (\<lambda>(name, _). revision_of name = n) existing"

definition latest_resumable_revision ::
  "'w rule_env \<Rightarrow> owned_policy list \<Rightarrow> compiled_shared_gateway_policies
     \<Rightarrow> ('w, (nat \<times> (string \<times> string \<times> string) list) option) rule_action" where
  "latest_resumable_revision env existing compiled =
     (let revision = top_revision existing; candidates = of_revision revision existing in
      if existing = [] \<or> cs_policies compiled = [] then give None
      else if length candidates \<noteq> length (cs_policies compiled) then give None
      else try_bind (resumable_from env (cs_gateway_arn compiled) (wanted compiled) candidates [])
        (\<lambda>r. give (map_option (Pair revision) r)))"

section \<open>The rules that cover everything\<close>

text \<open>The policies of the active rules of the Gateway, with the actions they should list.\<close>

definition expected_rules :: "string \<Rightarrow> domain_policy_rule list \<Rightarrow> (string, string list) dict" where
  "expected_rules gateway rules =
     fold (\<lambda>r d. let pid = strip (dpr_remote_policy_id r); actions = dget d pid in
       dput pid ((case actions of None \<Rightarrow> [] | Some xs \<Rightarrow> xs) @ [strip (dpr_gateway_action r)]) d)
       (filter (active_rule gateway) rules) []"

definition covers :: "string \<Rightarrow> string list \<Rightarrow> policy_detail \<Rightarrow> bool" where
  "covers gateway actions d \<longleftrightarrow>
     pd_status d = ''ACTIVE'' \<and> statement_targets_gateway (pd_statement d) gateway \<and>
     list_all (\<lambda>a. a = [] \<or> a \<in> set (find_action_literals (pd_statement d))) actions"

fun all_cover ::
  "'w rule_env \<Rightarrow> string \<Rightarrow> bool \<Rightarrow> (string \<times> string list) list \<Rightarrow> ('w, bool) rule_action" where
  "all_cover env gateway ok [] = give ok"
| "all_cover env gateway ok ((pid, actions) # rest) =
     try_bind (attempt (get_policy env (re_engine_id env) pid)) (\<lambda>r.
       case r of
         Inl _ \<Rightarrow> give False
       | Inr d \<Rightarrow> all_cover env gateway (ok \<and> covers gateway actions d) rest)"

definition observe_domain_rule_policies ::
  "'w rule_env \<Rightarrow> string \<Rightarrow> domain_policy_rule list \<Rightarrow> ('w, bool) rule_action" where
  "observe_domain_rule_policies env gateway rules =
     (let expected = expected_rules gateway rules in
      if expected = [] then give False
      else try_bind (attempt (listed_all env)) (\<lambda>r.
        case r of
          Inl _ \<Rightarrow> give False
        | Inr items \<Rightarrow>
            if \<not> set (dkeys expected) \<subseteq> set (map lp_id items) then give False
            else all_cover env gateway True (sort_key fst expected)))"

section \<open>Making and deleting policies\<close>

datatype policy_warning =
    Interceptor_unread service_exc
  | Deletion_failed string service_exc
  | Absence_unread string service_exc
  | Absence_unconfirmed string
  | Rollback_failed string service_exc

fun wait_active :: "'w rule_env \<Rightarrow> nat \<Rightarrow> string \<Rightarrow> string \<Rightarrow> ('w, string list) rule_action" where
  "wait_active env 0 pid name = throw Activation_pending"
| "wait_active env (Suc n) pid name =
     try_bind (draw (\<lambda>w. ((), re_sleep env w))) (\<lambda>_.
     try_bind (get_policy env (re_engine_id env) pid) (\<lambda>d.
     if pd_status d = ''ACTIVE'' 
     then give (map (\<lambda>reason. name @ '': '' @ reason) (filter (\<lambda>reason. strip reason \<noteq> []) (pd_reasons d)))
     else if \<not> still_changing (pd_status d) then throw (Activation_failed (pd_status d))
     else wait_active env n pid name))"

definition create_active ::
  "'w rule_env \<Rightarrow> nat \<Rightarrow> string \<Rightarrow> string \<Rightarrow> ('w, string \<times> string list) rule_action" where
  "create_active env n name cedar =
     try_bind (send env (Create_policy (re_engine_id env) name cedar [])) (\<lambda>pid.
     if pid = [] then throw No_policy_id
     else try_bind (wait_active env n pid name) (\<lambda>findings. give (pid, findings)))"

definition DELETE_MAX_POLLS :: nat where
  "DELETE_MAX_POLLS = 8"

fun await_absence :: "'w rule_env \<Rightarrow> string \<Rightarrow> nat \<Rightarrow> ('w, bool \<times> policy_warning list) rule_action" where
  "await_absence env pid 0 = give (False, [Absence_unconfirmed pid])"
| "await_absence env pid (Suc n) =
     try_bind (draw (\<lambda>w. ((), re_sleep env w))) (\<lambda>_.
     try_bind (attempt (listed_all env)) (\<lambda>r.
       case r of
         Inl e \<Rightarrow> give (False, [Absence_unread pid e])
       | Inr items \<Rightarrow>
           if pid \<notin> set (map lp_id items) then give (True, []) else await_absence env pid n))"

text \<open>A failed deletion of a policy that the list lacks is a success; a list that cannot be read
  proves nothing.\<close>

definition policy_absent :: "'w rule_env \<Rightarrow> string \<Rightarrow> ('w, bool) rule_action" where
  "policy_absent env pid =
     try_bind (attempt (listed_all env)) (\<lambda>r.
       give (case r of Inl _ \<Rightarrow> False | Inr items \<Rightarrow> pid \<notin> set (map lp_id items)))"

definition delete_confirmed :: "'w rule_env \<Rightarrow> string \<Rightarrow> ('w, bool \<times> policy_warning list) rule_action" where
  "delete_confirmed env pid =
     try_bind (attempt (send env (Delete_policy (re_engine_id env) pid))) (\<lambda>r.
       case r of
         Inl e \<Rightarrow> try_bind (policy_absent env pid) (\<lambda>absent.
           if absent then give (True, []) else give (False, [Deletion_failed pid e]))
       | Inr _ \<Rightarrow> await_absence env pid DELETE_MAX_POLLS)"

fun rollback :: "'w rule_env \<Rightarrow> string list \<Rightarrow> ('w, policy_warning list) rule_action" where
  "rollback env [] = give []"
| "rollback env (pid # pids) =
     try_bind (attempt (send env (Delete_policy (re_engine_id env) pid))) (\<lambda>r.
     try_bind (rollback env pids) (\<lambda>rest.
     give ((case r of Inl e \<Rightarrow> [Rollback_failed pid e] | Inr _ \<Rightarrow> []) @ rest)))"

section \<open>Replacing a revision\<close>

record provision_report =
  pv_gateway_arn :: string
  pv_revision :: nat
  pv_interceptor :: "bool option"
  pv_created :: "string list"
  pv_deleted :: "string list"
  pv_unchanged :: "string list"
  pv_ok :: bool
  pv_verdict :: string
  pv_warnings :: "policy_warning list"
  pv_stale :: "string list"
  pv_findings :: "string list"
  pv_live_status :: string
  pv_excluded :: "string list"
  pv_excluded_approved :: "string list"

text \<open>A report that was not a success, with its verdict.\<close>

definition failed_with :: "string \<Rightarrow> provision_report \<Rightarrow> provision_report" where
  "failed_with verdict report = report\<lparr>pv_ok := False, pv_verdict := verdict\<rparr>"

text \<open>The resumed policies that are not live yet, in order; the findings so far and what stopped it.\<close>

fun follow ::
  "'w rule_env \<Rightarrow> nat \<Rightarrow> (string \<times> string \<times> string) list \<Rightarrow> string list
     \<Rightarrow> ('w, string list \<times> service_exc option) rule_action" where
  "follow env n [] findings = give (findings, None)"
| "follow env n ((name, pid, status) # rest) findings =
     (if status = ''ACTIVE'' then follow env n rest findings
      else try_bind (attempt (wait_active env n pid name)) (\<lambda>r.
        case r of
          Inl e \<Rightarrow> give (findings, Some e)
        | Inr found \<Rightarrow> follow env n rest (findings @ found)))"

text \<open>The policies of a new revision, in order: the names and ids made so far, the findings, and the
  name and exception that stopped it.\<close>

fun create_all ::
  "'w rule_env \<Rightarrow> nat \<Rightarrow> string \<Rightarrow> nat \<Rightarrow> compiled_shared_policy list \<Rightarrow> (string \<times> string) list
     \<Rightarrow> string list
     \<Rightarrow> ('w, (string \<times> string) list \<times> string list \<times> (string \<times> service_exc) option) rule_action" where
  "create_all env n gateway revision [] created findings = give (created, findings, None)"
| "create_all env n gateway revision (p # ps) created findings =
     (let name = shared_policy_name (re_hash env) gateway revision (cp_policy_key p) in
      try_bind (attempt (create_active env n name (cp_cedar_policy p))) (\<lambda>r.
        case r of
          Inl e \<Rightarrow> give (created, findings, Some (name, e))
        | Inr (pid, found) \<Rightarrow>
            create_all env n gateway revision ps (created @ [(name, pid)]) (findings @ found)))"

fun delete_old ::
  "'w rule_env \<Rightarrow> nat \<Rightarrow> owned_policy list \<Rightarrow> ('w, string list \<times> policy_warning list) rule_action" where
  "delete_old env revision [] = give ([], [])"
| "delete_old env revision ((name, pid) # rest) =
     (if revision_of name = revision then delete_old env revision rest
      else try_bind (delete_confirmed env pid) (\<lambda>(gone, warnings).
        try_bind (delete_old env revision rest) (\<lambda>(names, found).
        give ((if gone then [name] else []) @ names, warnings @ found))))"

definition with_old_deleted ::
  "'w rule_env \<Rightarrow> provision_report \<Rightarrow> owned_policy list \<Rightarrow> compiled_shared_gateway_policies \<Rightarrow> nat
     \<Rightarrow> ('w, provision_report) rule_action" where
  "with_old_deleted env report existing compiled revision =
     try_bind (delete_old env revision existing) (\<lambda>(names, warnings).
     give (report\<lparr>pv_deleted := names, pv_warnings := pv_warnings report @ warnings,
       pv_revision := (if cs_policies compiled = [] then 0 else revision)\<rparr>))"

definition resume_revision ::
  "'w rule_env \<Rightarrow> nat \<Rightarrow> provision_report \<Rightarrow> owned_policy list \<Rightarrow> compiled_shared_gateway_policies
     \<Rightarrow> nat \<times> (string \<times> string \<times> string) list \<Rightarrow> ('w, provision_report) rule_action" where
  "resume_revision env n report existing compiled x =
     (case x of (revision, seen) \<Rightarrow>
        let keys = map cp_policy_key (cs_policies compiled) in
        try_bind (follow env n seen []) (\<lambda>(findings, stopped).
        let report = report\<lparr>pv_revision := revision, pv_findings := findings\<rparr> in
        case stopped of
          None \<Rightarrow> with_old_deleted env (report\<lparr>pv_unchanged := keys\<rparr>) existing compiled revision
        | Some Activation_pending \<Rightarrow> give (failed_with ''provisioning'' (report\<lparr>pv_unchanged := keys\<rparr>))
        | Some _ \<Rightarrow> give (failed_with ''create_failed'' report)))"

definition create_revision ::
  "'w rule_env \<Rightarrow> nat \<Rightarrow> provision_report \<Rightarrow> owned_policy list \<Rightarrow> compiled_shared_gateway_policies
     \<Rightarrow> nat \<Rightarrow> ('w, provision_report) rule_action" where
  "create_revision env n report existing compiled revision =
     try_bind (create_all env n (cs_gateway_arn compiled) revision (cs_policies compiled) [] [])
       (\<lambda>(created, findings, stopped).
     let report = report\<lparr>pv_created := map fst created, pv_findings := findings\<rparr> in
     case stopped of
       None \<Rightarrow> with_old_deleted env report existing compiled revision
     | Some (name, Activation_pending) \<Rightarrow>
         give (failed_with ''provisioning'' (report\<lparr>pv_created := map fst created @ [name]\<rparr>))
     | Some (name, _) \<Rightarrow>
         try_bind (rollback env (map snd created)) (\<lambda>warnings.
         give (failed_with ''create_failed'' (report\<lparr>pv_warnings := pv_warnings report @ warnings\<rparr>))))"

section \<open>Provisioning\<close>

definition ledger_now :: "('w, identity_store) rule_action" where
  "ledger_now = State (\<lambda>st. (Returned (rs_store st), st))"

text \<open>An empty declaration is allowed where the engine has no policy at all; \<open>None\<close> where the list was
  not read.\<close>

definition empty_allowed ::
  "'w rule_env \<Rightarrow> agent_tool_binding list \<Rightarrow> domain_policy_rule list \<Rightarrow> ('w, bool option) rule_action" where
  "empty_allowed env bindings rules =
     (if bindings \<noteq> [] \<or> rules \<noteq> [] then give (Some False)
      else try_bind (attempt (listed_all env)) (\<lambda>r.
        give (case r of Inl _ \<Rightarrow> None | Inr items \<Rightarrow> Some (items = []))))"

definition first_report :: "string \<Rightarrow> bool option \<times> service_exc option \<Rightarrow> provision_report" where
  "first_report gateway attached =
     \<lparr>pv_gateway_arn = gateway, pv_revision = 0, pv_interceptor = fst attached, pv_created = [],
      pv_deleted = [], pv_unchanged = [], pv_ok = True, pv_verdict = ''provisioned'',
      pv_warnings = (case snd attached of None \<Rightarrow> [] | Some e \<Rightarrow> [Interceptor_unread e]),
      pv_stale = [], pv_findings = [], pv_live_status = ''unknown'', pv_excluded = [],
      pv_excluded_approved = []\<rparr>"

definition refused_exclusions :: "policy_input_error \<Rightarrow> string list \<times> string list" where
  "refused_exclusions e = (case e of Nothing_enumerable a b \<Rightarrow> (a, b) | _ \<Rightarrow> ([], []))"

definition observed_spec ::
  "shared_gateway_policy_spec \<Rightarrow> bool option \<Rightarrow> agent_tool_binding list \<Rightarrow> domain_policy_rule list
     \<Rightarrow> live_gateway_inventory option \<Rightarrow> shared_gateway_policy_spec" where
  "observed_spec spec attached bindings rules inventory =
     spec\<lparr>sp_interceptor_attached := attached, sp_tool_bindings := Some bindings,
       sp_domain_policy_rules := Some rules, sp_live_inventory := inventory\<rparr>"

text \<open>From the compiled policies on: the engine's policies of this Gateway against those.\<close>

definition converge ::
  "'w rule_env \<Rightarrow> nat \<Rightarrow> provision_report \<Rightarrow> bool \<Rightarrow> domain_policy_rule list
     \<Rightarrow> compiled_shared_gateway_policies \<Rightarrow> ('w, provision_report) rule_action" where
  "converge env n report allow rules compiled =
     try_bind (attempt (owned_policies env (cs_gateway_arn compiled))) (\<lambda>r.
     case r of
       Inl _ \<Rightarrow> give (failed_with ''unknown'' report)
     | Inr existing \<Rightarrow>
         if allow \<and> existing \<noteq> [] then give (failed_with ''unknown'' report)
         else
           let revision = (if existing = [] then 1 else next_revision existing);
               report = report\<lparr>pv_stale := stale_revision_names existing, pv_revision := revision\<rparr> in
           try_bind (if cs_policies compiled = [] \<and> \<not> allow
                     then observe_domain_rule_policies env (cs_gateway_arn compiled) rules
                     else give True) (\<lambda>covered.
           if \<not> covered then give (failed_with ''refused'' report)
           else
             try_bind (already_current env existing compiled) (\<lambda>current.
             if current
             then give (report\<lparr>pv_verdict := ''unchanged'',
               pv_unchanged := map cp_policy_key (cs_policies compiled),
               pv_revision := top_revision existing\<rparr>)
             else
               try_bind (latest_resumable_revision env existing compiled) (\<lambda>resumable.
               case resumable of
                 Some x \<Rightarrow> resume_revision env n report existing compiled x
               | None \<Rightarrow> create_revision env n report existing compiled revision))))"

definition provision ::
  "'w rule_env \<Rightarrow> nat \<Rightarrow> shared_gateway_policy_spec \<Rightarrow> ('w, provision_report) rule_action" where
  "provision env n spec =
     try_bind (observe_interceptor env) (\<lambda>attached.
     let report = first_report (sp_gateway_arn spec) attached in
     try_bind ledger_now (\<lambda>s.
     case observe_policy_ledger s of
       None \<Rightarrow> give (failed_with ''unknown'' report)
     | Some (bindings, rules) \<Rightarrow>
         try_bind (empty_allowed env bindings rules) (\<lambda>allowed.
         case allowed of
           None \<Rightarrow> give (failed_with ''unknown'' report)
         | Some allow \<Rightarrow>
             try_bind (observe_live_gateway_inventory env (Some (declared_target_names bindings))) (\<lambda>inventory.
             let report = report\<lparr>pv_live_status := live_status inventory\<rparr> in
             case compile_shared_gateway_policies (re_hash env) allow
                    (observed_spec spec (fst attached) bindings rules inventory) of
               Inl e \<Rightarrow>
                 give (failed_with ''refused'' (report\<lparr>pv_excluded := fst (refused_exclusions e),
                   pv_excluded_approved := snd (refused_exclusions e)\<rparr>))
             | Inr compiled \<Rightarrow>
                 converge env n (report\<lparr>pv_live_status := cs_live_inventory_status compiled,
                   pv_excluded := cs_excluded_actions compiled,
                   pv_excluded_approved := cs_excluded_approved_actions compiled\<rparr>) allow rules compiled))))"

section \<open>Deleting old revisions\<close>

record reclaim_report =
  rc_gateway_arn :: string
  rc_ok :: bool
  rc_verdict :: string
  rc_surviving :: nat
  rc_deleted :: "string list"
  rc_stale :: "string list"
  rc_warnings :: "policy_warning list"
  rc_live_status :: string

definition first_reclaim :: "string \<Rightarrow> reclaim_report" where
  "first_reclaim gateway =
     \<lparr>rc_gateway_arn = gateway, rc_ok = True, rc_verdict = ''not_applicable'', rc_surviving = 0,
      rc_deleted = [], rc_stale = [], rc_warnings = [], rc_live_status = ''unknown''\<rparr>"

definition reclaim_failed :: "string \<Rightarrow> reclaim_report \<Rightarrow> reclaim_report" where
  "reclaim_failed verdict report = report\<lparr>rc_ok := False, rc_verdict := verdict\<rparr>"

definition one_revision :: "owned_policy list \<Rightarrow> bool" where
  "one_revision existing \<longleftrightarrow> length (remdups (revisions existing)) \<le> 1"

text \<open>\<open>reclaim_precheck\<close>: \<open>None\<close> where there is something to delete.\<close>

definition reclaim_precheck ::
  "'w rule_env \<Rightarrow> string \<Rightarrow> ('w, reclaim_report option) rule_action" where
  "reclaim_precheck env gateway =
     try_bind (attempt (owned_policies env gateway)) (\<lambda>r.
     give (case r of
       Inl _ \<Rightarrow> Some (reclaim_failed ''unknown'' (first_reclaim gateway))
     | Inr existing \<Rightarrow>
         if one_revision existing
         then Some ((first_reclaim gateway)\<lparr>rc_stale := stale_revision_names existing,
           rc_surviving := top_revision existing\<rparr>)
         else None))"

text \<open>The details of policies, in order.\<close>

fun details :: "'w rule_env \<Rightarrow> owned_policy list \<Rightarrow> ('w, (string \<times> policy_detail) list) rule_action" where
  "details env [] = give []"
| "details env ((name, pid) # rest) =
     try_bind (get_policy env (re_engine_id env) pid) (\<lambda>d.
     try_bind (details env rest) (\<lambda>ds. give ((name, d) # ds)))"

definition live_texts ::
  "(string \<Rightarrow> string) \<Rightarrow> string \<Rightarrow> (string \<times> policy_detail) list \<Rightarrow> (string, string) dict" where
  "live_texts hash gateway ds =
     fold (\<lambda>(name, d). dput (policy_key_of hash gateway name) (normalize_cedar (pd_statement d))) ds []"

text \<open>\<open>_survivor_missing\<close>: also where the list cannot be read.\<close>

definition survivor_missing :: "'w rule_env \<Rightarrow> string list \<Rightarrow> ('w, bool) rule_action" where
  "survivor_missing env survivors =
     try_bind (attempt (listed_all env)) (\<lambda>r.
     give (case r of Inl _ \<Rightarrow> True | Inr items \<Rightarrow> \<not> set survivors \<subseteq> set (map lp_id items)))"

text \<open>The names deleted, the warnings, and whether the survivors were there to the end.\<close>

fun delete_stale ::
  "'w rule_env \<Rightarrow> string list \<Rightarrow> owned_policy list \<Rightarrow> ('w, string list \<times> policy_warning list \<times> bool) rule_action" where
  "delete_stale env survivors [] = give ([], [], True)"
| "delete_stale env survivors ((name, pid) # rest) =
     try_bind (survivor_missing env survivors) (\<lambda>missing.
     if missing then give ([], [], False)
     else try_bind (delete_confirmed env pid) (\<lambda>(gone, warnings).
       try_bind (delete_stale env survivors rest) (\<lambda>(names, found, complete).
       give ((if gone then [name] else []) @ names, warnings @ found, complete))))"

definition reclaim_old ::
  "'w rule_env \<Rightarrow> reclaim_report \<Rightarrow> owned_policy list \<Rightarrow> ('w, reclaim_report) rule_action" where
  "reclaim_old env report existing =
     (let top = top_revision existing;
          stale = filter (\<lambda>(name, _). revision_of name \<noteq> top) existing in
      try_bind (delete_stale env (map snd (of_revision top existing)) stale) (\<lambda>(names, warnings, complete).
      let report = report\<lparr>rc_deleted := names, rc_warnings := rc_warnings report @ warnings\<rparr> in
      give (if \<not> complete then reclaim_failed ''blocked'' report
            else if length names = length stale \<and> rc_warnings report = []
            then report\<lparr>rc_verdict := ''reclaimed''\<rparr>
            else reclaim_failed ''partial'' report)))"

text \<open>Dicts are compared by their keys and values.\<close>

definition dict_differs :: "(string, string) dict \<Rightarrow> (string, string) dict \<Rightarrow> bool" where
  "dict_differs d d' \<longleftrightarrow>
     \<not> (set (dkeys d) = set (dkeys d') \<and> list_all (\<lambda>k. dget d k = dget d' k) (dkeys d))"

definition reclaim_stale_revisions ::
  "'w rule_env \<Rightarrow> shared_gateway_policy_spec \<Rightarrow> ('w, reclaim_report) rule_action" where
  "reclaim_stale_revisions env spec =
     (let report = first_reclaim (sp_gateway_arn spec) in
      try_bind (attempt (owned_policies env (sp_gateway_arn spec))) (\<lambda>r.
      case r of
        Inl _ \<Rightarrow> give (reclaim_failed ''unknown'' report)
      | Inr existing \<Rightarrow>
          let top = top_revision existing;
              report = report\<lparr>rc_stale := stale_revision_names existing\<rparr> in
          if one_revision existing then give (report\<lparr>rc_surviving := top\<rparr>)
          else
            try_bind (observe_interceptor env) (\<lambda>attached.
            let report = report\<lparr>rc_warnings := (case snd attached of None \<Rightarrow> [] | Some e \<Rightarrow> [Interceptor_unread e])\<rparr> in
            try_bind ledger_now (\<lambda>s.
            case observe_policy_ledger s of
              None \<Rightarrow> give (reclaim_failed ''unknown'' report)
            | Some (bindings, rules) \<Rightarrow>
                try_bind (observe_live_gateway_inventory env (Some (declared_target_names bindings))) (\<lambda>inventory.
                let report = report\<lparr>rc_live_status := live_status inventory\<rparr> in
                case compile_shared_gateway_policies (re_hash env) False
                       (observed_spec spec (fst attached) bindings rules inventory) of
                  Inl _ \<Rightarrow> give (reclaim_failed ''blocked'' report)
                | Inr compiled \<Rightarrow>
                    if cs_policies compiled = [] then give (reclaim_failed ''blocked'' report)
                    else
                      let report = report\<lparr>rc_surviving := top\<rparr> in
                      try_bind (attempt (details env (of_revision top existing))) (\<lambda>r.
                      case r of
                        Inl _ \<Rightarrow> give (reclaim_failed ''unknown'' report)
                      | Inr ds \<Rightarrow>
                          if list_ex (\<lambda>(_, d). pd_status d \<noteq> ''ACTIVE'') ds
                          then give (reclaim_failed ''blocked'' report)
                          else if dict_differs (live_texts (re_hash env) (cs_gateway_arn compiled) ds) (wanted compiled)
                          then give (reclaim_failed ''blocked'' report)
                          else reclaim_old env report existing))))))"

end
