(* ===== verification/Provision_Laws.thy ===== *)
theory Provision_Laws
  imports Shared_Provisioner Engine_Laws
begin

text \<open>
  What holds of the provisioner and of the pass that deletes old revisions, whatever the engine and
  the Gateway answer: no policy is deleted before its replacement was seen live.
\<close>

section \<open>The parts only ask\<close>

lemma only_asks_attempt [asks_intros]: "only_asks m \<Longrightarrow> only_asks (attempt m)"
  unfolding attempt_def by (intro asks_intros)

lemma only_asks_case_sum [asks_intros]:
  "(\<And>a. only_asks (f a)) \<Longrightarrow> (\<And>b. only_asks (g b)) \<Longrightarrow>
     only_asks (case r of Inl a \<Rightarrow> f a | Inr b \<Rightarrow> g b)"
  by (simp split: sum.split)

lemma only_asks_case_option [asks_intros]:
  "only_asks m \<Longrightarrow> (\<And>b. only_asks (g b)) \<Longrightarrow> only_asks (case r of None \<Rightarrow> m | Some b \<Rightarrow> g b)"
  by (simp split: option.split)

lemma only_asks_case_prod [asks_intros]:
  "(\<And>a b. only_asks (f a b)) \<Longrightarrow> only_asks (case r of (a, b) \<Rightarrow> f a b)"
  by (simp split: prod.split)

lemma only_asks_Let [asks_intros]: "(\<And>a. only_asks (f a)) \<Longrightarrow> only_asks (let a = x in f a)"
  by simp

lemma only_asks_listed_all [asks_intros]: "only_asks (listed_all env)"
  unfolding listed_all_def by (intro asks_intros)

lemma only_asks_owned_policies [asks_intros]: "only_asks (owned_policies env gateway)"
  unfolding owned_policies_def by (intro asks_intros)

lemma only_asks_interceptor [asks_intros]: "only_asks (observe_interceptor env)"
  unfolding observe_interceptor_def by (intro asks_intros)

lemma only_asks_ledger_now [asks_intros]: "only_asks ledger_now"
  by (simp add: only_asks_def ledger_now_def)

lemma only_asks_empty_allowed [asks_intros]: "only_asks (empty_allowed env bindings rules)"
  unfolding empty_allowed_def by (intro asks_intros)

lemma only_asks_read_schemas [asks_intros]: "only_asks (read_schemas env i ts tools unread)"
  by (induction ts arbitrary: i tools unread) (simp_all add: Let_def, auto intro!: asks_intros)

lemma only_asks_inventory [asks_intros]: "only_asks (observe_live_gateway_inventory env needed)"
  unfolding observe_live_gateway_inventory_def by (intro asks_intros)

lemma only_asks_all_cover [asks_intros]: "only_asks (all_cover env gateway ok items)"
  by (induction items arbitrary: ok) (auto intro!: asks_intros)

lemma only_asks_rule_policies [asks_intros]: "only_asks (observe_domain_rule_policies env gateway rules)"
  unfolding observe_domain_rule_policies_def by (intro asks_intros)

lemma only_asks_all_current [asks_intros]: "only_asks (all_current env gateway want items)"
  by (induction items arbitrary: want) (auto intro!: asks_intros)

lemma only_asks_already_current [asks_intros]: "only_asks (already_current env existing compiled)"
  unfolding already_current_def by (intro asks_intros)

lemma only_asks_resumable_from [asks_intros]: "only_asks (resumable_from env gateway want items seen)"
  by (induction items arbitrary: want seen) (auto intro!: asks_intros)

lemma only_asks_latest_resumable [asks_intros]: "only_asks (latest_resumable_revision env existing compiled)"
  unfolding latest_resumable_revision_def by (intro asks_intros)

lemma only_asks_wait_active [asks_intros]: "only_asks (wait_active env n pid name)"
  by (induction n) (auto intro!: asks_intros)

lemma only_asks_follow [asks_intros]: "only_asks (follow env n items findings)"
  by (induction items arbitrary: findings) (auto intro!: asks_intros)

lemma only_asks_await_absence [asks_intros]: "only_asks (await_absence env pid n)"
  by (induction n) (auto intro!: asks_intros)

lemma only_asks_policy_absent [asks_intros]: "only_asks (policy_absent env pid)"
  unfolding policy_absent_def by (intro asks_intros)

lemma only_asks_details [asks_intros]: "only_asks (details env items)"
  by (induction items) (auto intro!: asks_intros)

lemma only_asks_survivor_missing [asks_intros]: "only_asks (survivor_missing env survivors)"
  unfolding survivor_missing_def by (intro asks_intros)

section \<open>Growing\<close>

text \<open>From one state to a later one in which \<open>new\<close> was sent.\<close>

definition grows :: "engine_write list \<Rightarrow> 'w rule_state \<Rightarrow> 'w rule_state \<Rightarrow> bool" where
  "grows new st t \<longleftrightarrow> rs_sent t = rs_sent st @ new \<and> rs_store t = rs_store st \<and> prefix (rs_seen st) (rs_seen t)"

lemma grows_refl: "grows [] st st"
  by (simp add: grows_def)

lemma grows_trans: "grows xs s t \<Longrightarrow> grows ys t u \<Longrightarrow> grows (xs @ ys) s u"
  by (auto simp: grows_def)

lemma unchanged_grows: "unchanged st t \<Longrightarrow> grows [] st t"
  by (simp add: grows_def unchanged_def)

lemma asks_grows: "only_asks m \<Longrightarrow> run_state m st = (r, t) \<Longrightarrow> grows [] st t"
  using only_asksD unchanged_grows by blast

text \<open>A run that begins with a question.\<close>

lemma asked_first:
  assumes "run_state (try_bind m f) st = (r, u)" "only_asks m"
  obtains (answer) a t where "run_state m st = (Returned a, t)" "grows [] st t" "run_state (f a) t = (r, u)"
  | (no_answer) "grows [] st u" "\<nexists>a. r = Returned a"
proof (cases "run_state m st")
  case (Pair x t)
  with assms(2) have "grows [] st t" by (rule asks_grows)
  with Pair assms(1) answer no_answer show thesis
    by (cases x) (auto simp: run_try_bind)
qed

text \<open>A policy that was seen live before the \<open>k\<close>-th write.\<close>

definition seen_live :: "nat \<Rightarrow> string \<Rightarrow> 'w rule_state \<Rightarrow> bool" where
  "seen_live k pid st \<longleftrightarrow>
     list_ex (\<lambda>(i, p, d). i \<le> k \<and> p = pid \<and> pd_status d = ''ACTIVE'') (rs_seen st)"

lemma seen_live_grows: "seen_live k pid st \<Longrightarrow> grows new st t \<Longrightarrow> k \<le> k' \<Longrightarrow> seen_live k' pid t"
proof -
  assume seen: "seen_live k pid st" and "grows new st t" and k: "k \<le> k'"
  then have more: "set (rs_seen st) \<subseteq> set (rs_seen t)" by (simp add: grows_def set_mono_prefix)
  from seen obtain i d where "(i, pid, d) \<in> set (rs_seen st)" "i \<le> k" "pd_status d = ''ACTIVE''"
    by (auto simp: seen_live_def list_ex_iff)
  with more k have "(i, pid, d) \<in> set (rs_seen t)" "i \<le> k'" by auto
  then show "seen_live k' pid t"
    using \<open>pd_status d = ''ACTIVE''\<close> unfolding seen_live_def list_ex_iff
    by (intro bexI [of _ "(i, pid, d)"]) simp_all
qed

lemma seen_liveI:
  "(i, pid, d) \<in> set (rs_seen st) \<Longrightarrow> i \<le> k \<Longrightarrow> pd_status d = ''ACTIVE'' \<Longrightarrow> seen_live k pid st"
  unfolding seen_live_def list_ex_iff by (intro bexI [of _ "(i, pid, d)"]) simp_all

lemma attempt_returned: "run_state (attempt m) st = (Returned (Inr a), t) \<longleftrightarrow> run_state m st = (Returned a, t)"
  by (auto simp: attempt_def run_handled run_try_bind split: prod.splits ending.splits)

lemma get_policy_seen:
  "run_state (get_policy env engine pid) st = (Returned d, t) \<Longrightarrow> (length (rs_sent st), pid, d) \<in> set (rs_seen t)"
  by (auto simp: get_policy_def split: prod.splits sum.splits)

lemma wait_active_seen:
  "run_state (wait_active env n pid name) st = (Returned f, t) \<Longrightarrow> seen_live (length (rs_sent st)) pid t"
proof (induction n arbitrary: st)
  case (Suc n)
  obtain u where sleep: "run_state (draw (\<lambda>w. ((), re_sleep env w))) st = (Returned (), u)" "rs_sent u = rs_sent st"
    by (simp add: draw_def)
  from Suc.prems sleep obtain d v where d: "run_state (get_policy env (re_engine_id env) pid) u = (Returned d, v)"
    "run_state (if pd_status d = ''ACTIVE''
       then give (map (\<lambda>reason. name @ '': '' @ reason) (filter (\<lambda>reason. strip reason \<noteq> []) (pd_reasons d)))
       else if \<not> still_changing (pd_status d) then throw (Activation_failed (pd_status d))
       else wait_active env n pid name) v = (Returned f, t)"
    by (auto simp: run_try_bind split: prod.splits ending.splits)
  then have v: "grows [] u v" using asks_grows only_asks_get_policy by blast
  show ?case
  proof (cases "pd_status d = ''ACTIVE''")
    case True
    with d(2) have "t = v" by simp
    with True get_policy_seen [OF d(1)] sleep(2) show ?thesis by (auto intro: seen_liveI)
  next
    case False
    with d(2) have "run_state (wait_active env n pid name) v = (Returned f, t)"
      by (auto split: if_splits)
    from Suc.IH [OF this] v sleep show ?thesis by (simp add: grows_def)
  qed
qed simp

section \<open>Deleting\<close>

lemma attempt_send:
  obtains a t where "run_state (attempt (send env x)) st = (Returned a, t)" "grows [x] st t"
proof -
  obtain r w where "re_write env (rs_world st) x = (r, w)" by fastforce
  then show thesis
    by (intro that [of "case r of Inl e \<Rightarrow> Inl (Remote_failed e) | Inr a \<Rightarrow> Inr a" "st\<lparr>rs_world := w, rs_sent := rs_sent st @ [x]\<rparr>"])
      (auto simp: attempt_def run_handled run_try_bind send_def answered_def grows_def split: sum.split)
qed

lemma delete_confirmed_sends:
  assumes "run_state (delete_confirmed env pid) st = (r, u)"
  shows "grows [Delete_policy (re_engine_id env) pid] st u"
proof -
  obtain a t where a: "run_state (attempt (send env (Delete_policy (re_engine_id env) pid))) st = (Returned a, t)"
    "grows [Delete_policy (re_engine_id env) pid] st t"
    by (rule attempt_send)
  let ?rest = "case a of
      Inl e \<Rightarrow> try_bind (policy_absent env pid) (\<lambda>absent.
        if absent then give (True, []) else give (False, [Deletion_failed pid e]))
    | Inr _ \<Rightarrow> await_absence env pid DELETE_MAX_POLLS"
  have "run_state ?rest t = (r, u)" using assms a(1) by (simp add: delete_confirmed_def run_try_bind)
  moreover have "only_asks ?rest" by (intro asks_intros)
  ultimately have "grows [] t u" by (rule asks_grows [rotated])
  with a(2) show ?thesis using grows_trans by fastforce
qed

definition deletions :: "'w rule_env \<Rightarrow> string list \<Rightarrow> engine_write list" where
  "deletions env pids = map (Delete_policy (re_engine_id env)) pids"

lemma deletions_simps [simp]:
  "deletions env [] = []" "deletions env (p # ps) = Delete_policy (re_engine_id env) p # deletions env ps"
  by (simp_all add: deletions_def)

text \<open>A deletion and then the rest of them.\<close>

lemma deleted_then:
  assumes "run_state (try_bind (delete_confirmed env pid) f) st = (r, u)"
  obtains (on) t x where "grows (deletions env [pid]) st t" "run_state (f x) t = (r, u)"
  | (off) "grows (deletions env [pid]) st u" "\<nexists>a. r = Returned a"
proof (cases "run_state (delete_confirmed env pid) st")
  case (Pair x t)
  then have "grows (deletions env [pid]) st t" using delete_confirmed_sends by fastforce
  with Pair assms on off show thesis by (cases x) (auto simp: run_try_bind)
qed

lemma delete_old_sends:
  "run_state (delete_old env revision items) st = (r, u) \<Longrightarrow>
     \<exists>pids. grows (deletions env pids) st u \<and>
       set pids \<subseteq> set (map snd (filter (\<lambda>x. revision_of (fst x) \<noteq> revision) items))"
proof (induction items arbitrary: st r u)
  case Nil
  then show ?case by (auto intro!: exI [of _ "[]"] grows_refl)
next
  case (Cons x items)
  obtain name pid where x: "x = (name, pid)" by fastforce
  show ?case
  proof (cases "revision_of name = revision")
    case True
    with Cons.prems x have "run_state (delete_old env revision items) st = (r, u)" by simp
    from Cons.IH [OF this] show ?thesis by auto
  next
    case False
    with Cons.prems x have "run_state (try_bind (delete_confirmed env pid) (\<lambda>(gone, warnings).
        try_bind (delete_old env revision items) (\<lambda>(names, found).
        give ((if gone then [name] else []) @ names, warnings @ found)))) st = (r, u)" by simp
    then show ?thesis
    proof (cases rule: deleted_then)
      case (on t y)
      obtain r' u' where rest: "run_state (delete_old env revision items) t = (r', u')" by fastforce
      with on(2) have "u' = u" by (auto simp: run_try_bind split: prod.splits ending.splits)
      with Cons.IH [OF rest] obtain pids where pids: "grows (deletions env pids) t u"
        "set pids \<subseteq> set (map snd (filter (\<lambda>x. revision_of (fst x) \<noteq> revision) items))" by blast
      have "grows (deletions env (pid # pids)) st u" using grows_trans [OF on(1) pids(1)] by simp
      moreover have "set (pid # pids) \<subseteq> set (map snd (filter (\<lambda>x. revision_of (fst x) \<noteq> revision) (x # items)))"
        using pids(2) False x by auto
      ultimately show ?thesis by blast
    next
      case off
      then have "grows (deletions env [pid]) st u" by simp
      moreover have "set [pid] \<subseteq> set (map snd (filter (\<lambda>x. revision_of (fst x) \<noteq> revision) (x # items)))"
        using False x by auto
      ultimately show ?thesis by blast
    qed
  qed
qed

lemma with_old_deleted_sends:
  assumes "run_state (with_old_deleted env report existing compiled revision) st = (r, u)"
  shows "\<exists>pids. grows (deletions env pids) st u \<and>
    set pids \<subseteq> set (map snd (filter (\<lambda>x. revision_of (fst x) \<noteq> revision) existing)) \<and>
    (case r of Returned report' \<Rightarrow> pv_verdict report' = pv_verdict report | _ \<Rightarrow> True)"
proof -
  obtain r' u' where rest: "run_state (delete_old env revision existing) st = (r', u')" by fastforce
  with assms have "u' = u" "case r of Returned report' \<Rightarrow> pv_verdict report' = pv_verdict report | _ \<Rightarrow> True"
    by (auto simp: with_old_deleted_def run_try_bind split: prod.splits ending.splits)
  with delete_old_sends [OF rest] show ?thesis by blast
qed

section \<open>Making\<close>

lemma create_active_sends:
  assumes "run_state (create_active env n name cedar) st = (r, u)"
  shows "grows [Create_policy (re_engine_id env) name cedar []] st u"
    and "\<And>pid f. r = Returned (pid, f) \<Longrightarrow> seen_live (Suc (length (rs_sent st))) pid u \<and>
      fst (re_write env (rs_world st) (Create_policy (re_engine_id env) name cedar [])) = Inr pid"
proof -
  let ?x = "Create_policy (re_engine_id env) name cedar []"
  obtain a w where answer: "re_write env (rs_world st) ?x = (a, w)" by fastforce
  let ?t = "st\<lparr>rs_world := w, rs_sent := rs_sent st @ [?x]\<rparr>"
  have sent: "run_state (send env ?x) st = (answered a, ?t)" using answer by (simp add: send_def)
  have t: "grows [?x] st ?t" "length (rs_sent ?t) = Suc (length (rs_sent st))" by (simp_all add: grows_def)
  show "grows [?x] st u"
  proof (cases a)
    case (Inr pid)
    let ?rest = "if pid = [] then throw No_policy_id
      else try_bind (wait_active env n pid name) (\<lambda>findings. give (pid, findings))"
    have "run_state ?rest ?t = (r, u)"
      using assms sent Inr by (simp add: create_active_def run_try_bind answered_def)
    moreover have "only_asks ?rest" by (intro asks_intros)
    ultimately have "grows [] ?t u" by (rule asks_grows [rotated])
    with t show ?thesis using grows_trans by fastforce
  qed (use assms sent t in \<open>simp add: create_active_def run_try_bind answered_def\<close>)
  show "seen_live (Suc (length (rs_sent st))) pid u \<and> fst (re_write env (rs_world st) ?x) = Inr pid"
    if "r = Returned (pid, f)" for pid f
  proof -
    from assms sent that have "a = Inr pid" "\<exists>f. run_state (wait_active env n pid name) ?t = (Returned f, u)"
      by (auto simp: create_active_def run_try_bind answered_def split: sum.splits if_splits prod.splits ending.splits)
    with wait_active_seen [of env n pid name ?t _ u] t answer show ?thesis by auto
  qed
qed

section \<open>Replacing\<close>

fun is_create :: "engine_write \<Rightarrow> bool" where
  "is_create (Create_policy _ _ _ _) = True"
| "is_create _ = False"

text \<open>A detail of the policy that was seen before the \<open>k\<close>-th write.\<close>

definition seen_with :: "nat \<Rightarrow> string \<Rightarrow> (policy_detail \<Rightarrow> bool) \<Rightarrow> 'w rule_state \<Rightarrow> bool" where
  "seen_with k pid P st \<longleftrightarrow> list_ex (\<lambda>(i, p, d). i \<le> k \<and> p = pid \<and> P d) (rs_seen st)"

lemma seen_withI: "(i, pid, d) \<in> set (rs_seen st) \<Longrightarrow> i \<le> k \<Longrightarrow> P d \<Longrightarrow> seen_with k pid P st"
  unfolding seen_with_def list_ex_iff by (intro bexI [of _ "(i, pid, d)"]) simp_all

lemma seen_with_grows:
  assumes "seen_with k pid P st" "grows new st t" shows "seen_with k pid P t"
proof -
  have "set (rs_seen st) \<subseteq> set (rs_seen t)" using assms(2) by (simp add: grows_def set_mono_prefix)
  moreover obtain i d where "(i, pid, d) \<in> set (rs_seen st)" "i \<le> k" "P d"
    using assms(1) by (auto simp: seen_with_def list_ex_iff)
  ultimately show ?thesis by (auto intro: seen_withI)
qed

text \<open>What justifies deleting: the rules that cover everything were seen to do so; or the one policy
  wanted was seen live, and it was made now with the compiled text, or has it already.\<close>

definition replaced ::
  "'w rule_env \<Rightarrow> domain_policy_rule list \<Rightarrow> compiled_shared_gateway_policies \<Rightarrow> nat \<Rightarrow> engine_write list
     \<Rightarrow> 'w rule_state \<Rightarrow> bool" where
  "replaced env rules compiled k made st \<longleftrightarrow>
     cs_policies compiled = [] \<and> made = [] \<and>
       list_all (\<lambda>(pid, actions). seen_with k pid (covers (cs_gateway_arn compiled) actions) st)
         (expected_rules (cs_gateway_arn compiled) rules) \<or>
     (\<exists>p pid. cs_policies compiled = [p] \<and> seen_live (k + length made) pid st \<and>
        ((\<exists>name w. made = [Create_policy (re_engine_id env) name (cp_cedar_policy p) []] \<and>
            fst (re_write env w (hd made)) = Inr pid) \<or>
         made = [] \<and> seen_with k pid
           (\<lambda>d. normalize_cedar (pd_statement d) = normalize_cedar (cp_cedar_policy p)) st))"

definition verdict_of :: "provision_report ending \<Rightarrow> string" where
  "verdict_of r = (case r of Returned report \<Rightarrow> pv_verdict report | _ \<Rightarrow> ''provisioned'')"

lemma with_old_deleted_verdict:
  assumes "run_state (with_old_deleted env report existing compiled revision) st = (r, u)"
    "pv_verdict report = ''provisioned''"
  obtains pids where "grows (deletions env pids) st u" "verdict_of r = ''provisioned''"
  using with_old_deleted_sends [OF assms(1)] assms(2) by (auto simp: verdict_of_def split: ending.splits)

lemma resume_sends:
  assumes "run_state (resume_revision env n report existing compiled (revision, [(name, pid, status)])) st = (r, u)"
    and "pv_verdict report = ''provisioned''"
    and "(i, pid, d) \<in> set (rs_seen st)" "i \<le> length (rs_sent st)" "pd_status d = status"
  shows "\<exists>pids. grows (deletions env pids) st u \<and>
    (pids = [] \<or> seen_live (length (rs_sent st)) pid u \<and> verdict_of r = ''provisioned'')"
proof -
  let ?follow = "follow env n [(name, pid, status)] []"
  let ?then = "\<lambda>(findings, stopped).
    let report = report\<lparr>pv_revision := revision, pv_findings := findings\<rparr> in
    case stopped of
      None \<Rightarrow> with_old_deleted env (report\<lparr>pv_unchanged := map cp_policy_key (cs_policies compiled)\<rparr>)
        existing compiled revision
    | Some Activation_pending \<Rightarrow> give (failed_with ''provisioning''
        (report\<lparr>pv_unchanged := map cp_policy_key (cs_policies compiled)\<rparr>))
    | Some _ \<Rightarrow> give (failed_with ''create_failed'' report)"
  have "run_state (try_bind ?follow ?then) st = (r, u)"
    using assms(1) by (simp add: resume_revision_def Let_def)
  moreover have "only_asks ?follow" by (rule asks_intros)
  ultimately show ?thesis
  proof (cases rule: asked_first)
    case (answer a t)
    obtain findings stopped where a: "a = (findings, stopped)" by (cases a)
    show ?thesis
    proof (cases stopped)
      case None
      have live: "seen_live (length (rs_sent st)) pid t"
      proof (cases "status = ''ACTIVE''")
        case True
        with assms(3-5) have "seen_live (length (rs_sent st)) pid st" by (auto intro: seen_liveI)
        with answer(2) show ?thesis using seen_live_grows by blast
      next
        case False
        with answer(1) a None obtain f where "run_state (wait_active env n pid name) st = (Returned f, t)"
          by (auto simp: attempt_def run_handled run_try_bind split: prod.splits ending.splits sum.splits)
        then show ?thesis by (rule wait_active_seen)
      qed
      from answer(3) a None have "run_state (with_old_deleted env (report\<lparr>pv_revision := revision, pv_findings := findings,
          pv_unchanged := map cp_policy_key (cs_policies compiled)\<rparr>) existing compiled revision) t = (r, u)"
        by (simp add: Let_def)
      then obtain pids where pids: "grows (deletions env pids) t u" "verdict_of r = ''provisioned''"
        by (rule with_old_deleted_verdict) (simp add: assms(2))
      with live have "seen_live (length (rs_sent st)) pid u" using seen_live_grows by blast
      with pids grows_trans [OF answer(2) pids(1)] show ?thesis by auto
    next
      case (Some e)
      with answer(3) a have "u = t" by (auto simp: Let_def split: service_exc.splits)
      with answer(2) show ?thesis by (intro exI [of _ "[]"]) simp
    qed
  next
    case no_answer
    then show ?thesis by (intro exI [of _ "[]"]) simp
  qed
qed

lemma create_sends:
  assumes "run_state (create_revision env n report existing compiled revision) st = (r, u)"
    and "pv_verdict report = ''provisioned''" "cs_policies compiled = [p]"
  shows "\<exists>made pids. grows (made @ deletions env pids) st u \<and> list_all is_create made \<and>
    (pids = [] \<or> replaced env rules compiled (length (rs_sent st)) made u \<and> verdict_of r = ''provisioned'')"
proof -
  let ?name = "shared_policy_name (re_hash env) (cs_gateway_arn compiled) revision (cp_policy_key p)"
  let ?make = "create_active env n ?name (cp_cedar_policy p)"
  let ?x = "Create_policy (re_engine_id env) ?name (cp_cedar_policy p) []"
  obtain a t where make: "run_state ?make st = (a, t)" by fastforce
  note sends = create_active_sends [OF make]
  show ?thesis
  proof (cases a)
    case (Returned x)
    obtain pid f where x: "x = (pid, f)" by (cases x)
    have "run_state (attempt ?make) st = (Returned (Inr (pid, f)), t)"
      using make Returned x by (simp add: attempt_returned)
    with assms(1,3) have "run_state (with_old_deleted env (report\<lparr>pv_created := [?name], pv_findings := f\<rparr>)
        existing compiled revision) t = (r, u)"
      by (simp add: create_revision_def run_try_bind Let_def)
    then obtain pids where pids: "grows (deletions env pids) t u" "verdict_of r = ''provisioned''"
      by (rule with_old_deleted_verdict) (simp add: assms(2))
    have live: "seen_live (length (rs_sent st) + length [?x]) pid u"
      using seen_live_grows [OF _ pids(1)] sends(2) Returned x by fastforce
    have "replaced env rules compiled (length (rs_sent st)) [?x] u"
      unfolding replaced_def using live assms(3) sends(2) [of pid f] Returned x by fastforce
    with pids(2) grows_trans [OF sends(1) pids(1)] show ?thesis
      by (intro exI [of _ "[?x]"] exI [of _ pids]) simp
  next
    case (Raised e)
    then have "run_state (attempt ?make) st = (Returned (Inl e), t)"
      using make by (simp add: attempt_def run_handled run_try_bind)
    with assms(1,3) have "u = t"
      by (auto simp: create_revision_def run_try_bind Let_def split: service_exc.splits)
    with sends(1) show ?thesis by (intro exI [of _ "[?x]"] exI [of _ "[]"]) simp
  next
    case Hangs
    then have "run_state (attempt ?make) st = (Hangs, t)"
      using make by (simp add: attempt_def run_handled run_try_bind)
    with assms(1,3) have "u = t" by (simp add: create_revision_def run_try_bind Let_def)
    with sends(1) show ?thesis by (intro exI [of _ "[?x]"] exI [of _ "[]"]) simp
  qed
qed

text \<open>A compilation has at most one policy.\<close>

lemma compiled_at_most_one:
  assumes "compile_shared_gateway_policies hash allow spec = Inr compiled"
  shows "cs_policies compiled = [] \<or> (\<exists>p. cs_policies compiled = [p])"
  using assms
  by (auto simp: compile_shared_gateway_policies_def bind_res_Inr_iff publish_shared_policy_def Let_def
      split: if_splits prod.splits)

lemma wanted_one: "cs_policies compiled = [p] \<Longrightarrow>
  wanted compiled = [(name_safe (cp_policy_key p), normalize_cedar (cp_cedar_policy p))]"
  by (simp add: wanted_def)

lemma resumable_seen:
  assumes "run_state (latest_resumable_revision env existing compiled) st = (Returned (Some (revision, xs)), t)"
    and "cs_policies compiled = [p]"
  obtains name pid d where "xs = [(name, pid, pd_status d)]" "(length (rs_sent st), pid, d) \<in> set (rs_seen t)"
    "normalize_cedar (pd_statement d) = normalize_cedar (cp_cedar_policy p)"
proof -
  let ?candidates = "of_revision (top_revision existing) existing"
  have one: "existing \<noteq> [] \<and> length ?candidates = 1"
    using assms by (cases "existing = []"; cases "length ?candidates = 1")
      (simp_all add: latest_resumable_revision_def Let_def)
  obtain r u where "run_state (resumable_from env (cs_gateway_arn compiled) (wanted compiled) ?candidates []) st = (r, u)"
    by fastforce
  with assms one have run: "run_state (resumable_from env (cs_gateway_arn compiled) (wanted compiled) ?candidates []) st =
      (Returned (Some xs), t)"
    by (simp add: latest_resumable_revision_def Let_def run_try_bind split: ending.splits)
  from one obtain name pid where candidates: "?candidates = [(name, pid)]"
    by (auto simp: length_Suc_conv)
  obtain a u where get: "run_state (get_policy env (re_engine_id env) pid) st = (a, u)" by fastforce
  show thesis
  proof (cases a)
    case (Returned d)
    with get have att: "run_state (attempt (get_policy env (re_engine_id env) pid)) st = (Returned (Inr d), u)"
      by (simp add: attempt_returned)
    from run have "xs = [(name, pid, pd_status d)] \<and> t = u \<and>
        normalize_cedar (pd_statement d) = normalize_cedar (cp_cedar_policy p)"
      unfolding candidates wanted_one [OF assms(2)]
      by (auto simp: run_try_bind att split: if_splits)
    with that get_policy_seen get Returned show thesis by blast
  next
    case (Raised e)
    with get have "run_state (attempt (get_policy env (re_engine_id env) pid)) st = (Returned (Inl e), u)"
      by (simp add: attempt_def run_handled run_try_bind)
    with run show thesis
      unfolding candidates wanted_one [OF assms(2)] by (auto simp: run_try_bind split: if_splits)
  next
    case Hangs
    with get have "run_state (attempt (get_policy env (re_engine_id env) pid)) st = (Hangs, u)"
      by (simp add: attempt_def run_handled run_try_bind)
    with run show thesis
      unfolding candidates wanted_one [OF assms(2)] by (auto simp: run_try_bind split: if_splits)
  qed
qed

lemma all_cover_seen:
  "run_state (all_cover env gateway ok items) st = (Returned True, t) \<Longrightarrow>
     ok \<and> list_all (\<lambda>(pid, actions). seen_with (length (rs_sent st)) pid (covers gateway actions) t) items"
proof (induction items arbitrary: ok st)
  case (Cons x items)
  obtain pid actions where x: "x = (pid, actions)" by fastforce
  obtain a u where get: "run_state (get_policy env (re_engine_id env) pid) st = (a, u)" by fastforce
  show ?case
  proof (cases a)
    case (Returned d)
    with get have "run_state (attempt (get_policy env (re_engine_id env) pid)) st = (Returned (Inr d), u)"
      by (simp add: attempt_returned)
    with Cons.prems x have run: "run_state (all_cover env gateway (ok \<and> covers gateway actions d) items) u = (Returned True, t)"
      by (simp add: run_try_bind)
    have u: "grows [] st u" using get by (rule asks_grows [OF only_asks_get_policy])
    have t: "grows [] u t" using run by (rule asks_grows [OF only_asks_all_cover])
    from Cons.IH [OF run] have ih: "ok" "covers gateway actions d"
      "list_all (\<lambda>(pid, actions). seen_with (length (rs_sent u)) pid (covers gateway actions) t) items"
      by auto
    have "(length (rs_sent st), pid, d) \<in> set (rs_seen u)" using get_policy_seen get Returned by blast
    then have "seen_with (length (rs_sent st)) pid (covers gateway actions) t"
      using seen_withI [where P = "covers gateway actions", OF _ order_refl ih(2)] seen_with_grows [OF _ t]
      by blast
    with ih u x show ?thesis by (simp add: grows_def)
  next
    case (Raised e)
    with get have "run_state (attempt (get_policy env (re_engine_id env) pid)) st = (Returned (Inl e), u)"
      by (simp add: attempt_def run_handled run_try_bind)
    with Cons.prems x show ?thesis by (simp add: run_try_bind)
  next
    case Hangs
    with get have "run_state (attempt (get_policy env (re_engine_id env) pid)) st = (Hangs, u)"
      by (simp add: attempt_def run_handled run_try_bind)
    with Cons.prems x show ?thesis by (simp add: run_try_bind)
  qed
qed simp

lemma rule_policies_seen:
  assumes "run_state (observe_domain_rule_policies env gateway rules) st = (Returned True, t)"
  shows "list_all (\<lambda>(pid, actions). seen_with (length (rs_sent st)) pid (covers gateway actions) t)
    (expected_rules gateway rules)"
proof -
  let ?items = "sort_key fst (expected_rules gateway rules)"
  from assms obtain r u where list: "run_state (attempt (listed_all env)) st = (Returned r, u)"
    and cover: "run_state (all_cover env gateway True ?items) u = (Returned True, t)"
    by (auto simp: observe_domain_rule_policies_def Let_def run_try_bind
        split: if_splits prod.splits ending.splits sum.splits)
  have "grows [] st u" using list by (rule asks_grows [OF only_asks_attempt [OF only_asks_listed_all]])
  then have "length (rs_sent u) = length (rs_sent st)" by (simp add: grows_def)
  with all_cover_seen [OF cover] show ?thesis by (simp add: list_all_iff)
qed

text \<open>From a question on: what was asked for is followed by the rest of the run, or the run is over and
  nothing was sent.\<close>

definition sends ::
  "'w rule_env \<Rightarrow> domain_policy_rule list \<Rightarrow> compiled_shared_gateway_policies \<Rightarrow> 'w rule_state
     \<Rightarrow> provision_report ending \<Rightarrow> 'w rule_state \<Rightarrow> bool" where
  "sends env rules compiled st r u \<longleftrightarrow>
     (\<exists>made pids. grows (made @ deletions env pids) st u \<and> list_all is_create made \<and>
        (pids = [] \<or> replaced env rules compiled (length (rs_sent st)) made u \<and> verdict_of r = ''provisioned''))"

lemma sends_nothing: "grows [] st u \<Longrightarrow> sends env rules compiled st r u"
  unfolding sends_def by (intro exI [of _ "[]"]) simp

lemma sends_later:
  assumes "grows [] st t" "sends env rules compiled t r u"
  shows "sends env rules compiled st r u"
proof -
  from assms(2) obtain made pids where new: "grows (made @ deletions env pids) t u"
    "list_all is_create made" "pids = [] \<or> replaced env rules compiled (length (rs_sent t)) made u \<and>
       verdict_of r = ''provisioned''"
    unfolding sends_def by blast
  have "length (rs_sent t) = length (rs_sent st)" using assms(1) by (simp add: grows_def)
  moreover have "grows (made @ deletions env pids) st u" using grows_trans [OF assms(1) new(1)] by simp
  ultimately show ?thesis unfolding sends_def using new(2,3) by auto
qed

lemma asked_sends:
  assumes "run_state (try_bind m f) st = (r, u)" "only_asks m"
    and "\<And>a t. run_state m st = (Returned a, t) \<Longrightarrow> grows [] st t \<Longrightarrow> run_state (f a) t = (r, u) \<Longrightarrow>
      sends env rules compiled t r u"
  shows "sends env rules compiled st r u"
  using assms(1,2)
  by (rule asked_first) (auto intro: sends_later sends_nothing assms(3))

lemma given_sends: "run_state (give x) st = (r, u) \<Longrightarrow> sends env rules compiled st r u"
  by (auto intro!: sends_nothing grows_refl)

lemma resumed_sends:
  assumes resumable: "run_state (latest_resumable_revision env existing compiled) w = (Returned (Some x), y)"
    and "run_state (resume_revision env n report existing compiled x) y = (r, u)" "grows [] w y"
    and "pv_verdict report = ''provisioned''" "cs_policies compiled = [p]"
  shows "sends env rules compiled y r u"
proof -
  obtain revision xs where x: "x = (revision, xs)" by (cases x)
  obtain name pid d where d: "xs = [(name, pid, pd_status d)]" "(length (rs_sent w), pid, d) \<in> set (rs_seen y)"
    "normalize_cedar (pd_statement d) = normalize_cedar (cp_cedar_policy p)"
    using resumable unfolding x by (rule resumable_seen [OF _ assms(5)])
  have len: "length (rs_sent y) = length (rs_sent w)" using assms(3) by (simp add: grows_def)
  with resume_sends [OF assms(2) [unfolded x d(1)] assms(4) d(2) _ refl]
  obtain pids where pids: "grows (deletions env pids) y u"
    "pids = [] \<or> seen_live (length (rs_sent y)) pid u \<and> verdict_of r = ''provisioned''"
    by auto
  have "seen_with (length (rs_sent y)) pid
      (\<lambda>d. normalize_cedar (pd_statement d) = normalize_cedar (cp_cedar_policy p)) u"
    by (rule seen_with_grows [OF seen_withI [OF d(2)] pids(1)]) (simp_all add: len d(3))
  with pids assms(5) show ?thesis
    unfolding sends_def replaced_def by (intro exI [of _ "[]"] exI [of _ pids]) auto
qed

lemma last_sends:
  assumes "run_state (latest_resumable_revision env existing compiled) w = (Returned resumable, y)"
    and "run_state (case resumable of
        Some x \<Rightarrow> resume_revision env n report existing compiled x
      | None \<Rightarrow> create_revision env n report existing compiled revision) y = (r, u)"
    and "cs_policies compiled = [] \<or> (\<exists>p. cs_policies compiled = [p])" "pv_verdict report = ''provisioned''"
    and covered: "run_state (if cs_policies compiled = [] \<and> \<not> allow
      then observe_domain_rule_policies env (cs_gateway_arn compiled) rules else give True) t = (Returned True, v)"
    and grown: "grows [] t v" "grows [] v w" "grows [] w y" and allow: "\<not> (allow \<and> existing \<noteq> [])"
  shows "sends env rules compiled y r u"
proof (cases "cs_policies compiled = []")
  case True
  then have "resumable = None" using assms(1) by (simp add: latest_resumable_revision_def Let_def)
  with assms(2) True have "run_state (with_old_deleted env (report\<lparr>pv_created := [], pv_findings := []\<rparr>)
      existing compiled revision) y = (r, u)"
    by (simp add: create_revision_def run_try_bind Let_def)
  from with_old_deleted_sends [OF this] assms(4)
  obtain pids where pids: "grows (deletions env pids) y u" "verdict_of r = ''provisioned''"
    "set pids \<subseteq> set (map snd existing)"
    by (fastforce simp: verdict_of_def split: ending.splits)
  show ?thesis
  proof (cases "existing = []")
    case False
    with allow covered True have
      "run_state (observe_domain_rule_policies env (cs_gateway_arn compiled) rules) t = (Returned True, v)"
      by simp
    note seen = rule_policies_seen [OF this]
    have "grows (deletions env pids) v u"
      using grows_trans [OF grown(2) grows_trans [OF grown(3) pids(1)]] by simp
    moreover have "length (rs_sent y) = length (rs_sent t)" using grown by (simp add: grows_def)
    ultimately have "list_all (\<lambda>(pid, actions). seen_with (length (rs_sent y)) pid (covers (cs_gateway_arn compiled) actions) u)
        (expected_rules (cs_gateway_arn compiled) rules)"
      using seen by (fastforce simp: list_all_iff intro: seen_with_grows)
    with True pids show ?thesis
      unfolding sends_def replaced_def by (intro exI [of _ "[]"] exI [of _ pids]) simp
  qed (use pids in \<open>auto intro: sends_nothing\<close>)
next
  case False
  then obtain p where p: "cs_policies compiled = [p]" using assms(3) by blast
  show ?thesis
  proof (cases resumable)
    case None
    with assms(2) have "run_state (create_revision env n report existing compiled revision) y = (r, u)" by simp
    from create_sends [OF this assms(4) p] show ?thesis unfolding sends_def .
  next
    case (Some x)
    with assms(1,2) resumed_sends [OF _ _ grown(3) assms(4) p] show ?thesis by simp
  qed
qed

lemma converge_sends:
  assumes "run_state (converge env n report allow rules compiled) st = (r, u)"
    and verdict: "pv_verdict report = ''provisioned''"
    and one: "cs_policies compiled = [] \<or> (\<exists>p. cs_policies compiled = [p])"
  shows "sends env rules compiled st r u"
proof (rule asked_sends [OF assms(1) [unfolded converge_def]])
  show "only_asks (attempt (owned_policies env (cs_gateway_arn compiled)))" by (intro asks_intros)
  fix x t
  let ?covered = "if cs_policies compiled = [] \<and> \<not> allow
    then observe_domain_rule_policies env (cs_gateway_arn compiled) rules else give True"
  assume run: "run_state (case x of
       Inl _ \<Rightarrow> give (failed_with ''unknown'' report)
     | Inr existing \<Rightarrow>
         if allow \<and> existing \<noteq> [] then give (failed_with ''unknown'' report)
         else
           let revision = (if existing = [] then 1 else next_revision existing);
               report = report\<lparr>pv_stale := stale_revision_names existing, pv_revision := revision\<rparr> in
           try_bind ?covered (\<lambda>covered.
           if \<not> covered then give (failed_with ''refused'' report)
           else
             try_bind (already_current env existing compiled) (\<lambda>current.
             if current
             then give (report\<lparr>pv_verdict := ''unchanged'',
               pv_unchanged := map cp_policy_key (cs_policies compiled),
               pv_revision := top_revision existing\<rparr>)
             else
               try_bind (latest_resumable_revision env existing compiled) (\<lambda>resumable.
               case resumable of
                 Some x \<Rightarrow> resume_revision env n report existing compiled x
               | None \<Rightarrow> create_revision env n report existing compiled revision)))) t = (r, u)"
  show "sends env rules compiled t r u"
  proof (cases "\<exists>existing. x = Inr existing \<and> \<not> (allow \<and> existing \<noteq> [])")
    case False
    with run show ?thesis by (auto intro!: given_sends split: sum.splits if_splits)
  next
    case True
    then obtain existing where x: "x = Inr existing" "\<not> (allow \<and> existing \<noteq> [])" by blast
    let ?rev = "if existing = [] then 1 else next_revision existing"
    let ?report = "report\<lparr>pv_stale := stale_revision_names existing, pv_revision := ?rev\<rparr>"
    let ?last = "\<lambda>resumable. case resumable of
        Some x \<Rightarrow> resume_revision env n ?report existing compiled x
      | None \<Rightarrow> create_revision env n ?report existing compiled ?rev"
    let ?next = "\<lambda>current. if current then give (?report\<lparr>pv_verdict := ''unchanged'',
        pv_unchanged := map cp_policy_key (cs_policies compiled), pv_revision := top_revision existing\<rparr>)
      else try_bind (latest_resumable_revision env existing compiled) ?last"
    have "run_state (try_bind ?covered (\<lambda>covered.
        if \<not> covered then give (failed_with ''refused'' ?report)
        else try_bind (already_current env existing compiled) ?next)) t = (r, u)"
      using run x by (simp add: Let_def)
    then show ?thesis
    proof (rule asked_sends)
      show "only_asks ?covered" by (intro asks_intros)
      fix covered v
      assume covered: "run_state ?covered t = (Returned covered, v)"
        and "run_state (if \<not> covered then give (failed_with ''refused'' ?report)
          else try_bind (already_current env existing compiled) ?next) v = (r, u)"
        and v: "grows [] t v"
      then consider "run_state (give (failed_with ''refused'' ?report)) v = (r, u)"
        | "covered" "run_state (try_bind (already_current env existing compiled) ?next) v = (r, u)"
        by (auto split: if_splits)
      then show "sends env rules compiled v r u"
      proof cases
        case 1
        then show ?thesis by (rule given_sends)
      next
        case 2
        from 2(2) show ?thesis
        proof (rule asked_sends)
          show "only_asks (already_current env existing compiled)" by (intro asks_intros)
          fix current w
          assume "run_state (?next current) w = (r, u)" and w: "grows [] v w"
          then consider (same) "current" "run_state (?next True) w = (r, u)"
            | (go) "run_state (try_bind (latest_resumable_revision env existing compiled) ?last) w = (r, u)"
            by (cases current) auto
          then show "sends env rules compiled w r u"
          proof cases
            case same
            then show ?thesis by (simp only: if_True) (rule given_sends)
          next
            case go
            then show ?thesis
            proof (rule asked_sends)
              show "only_asks (latest_resumable_revision env existing compiled)" by (intro asks_intros)
              fix resumable y
              assume resumable: "run_state (latest_resumable_revision env existing compiled) w = (Returned resumable, y)"
                and y: "grows [] w y" and last: "run_state (?last resumable) y = (r, u)"
              show "sends env rules compiled y r u"
                by (rule last_sends [OF resumable last one _ covered [unfolded eqTrueI [OF \<open>covered\<close>]] v w y x(2)])
                  (simp add: verdict)
            qed
          qed
        qed
      qed
    qed
  qed
qed

section \<open>The whole provisioning\<close>

text \<open>What is compiled: the ledger's rows and rules, with what was observed of the interceptor and of
  the live Gateway.\<close>

definition compiles_to ::
  "'w rule_env \<Rightarrow> shared_gateway_policy_spec \<Rightarrow> identity_store \<Rightarrow> domain_policy_rule list
     \<Rightarrow> compiled_shared_gateway_policies \<Rightarrow> bool" where
  "compiles_to env spec s rules compiled \<longleftrightarrow>
     (\<exists>bindings allow attached inventory. observe_policy_ledger s = Some (bindings, rules) \<and>
        compile_shared_gateway_policies (re_hash env) allow
          (observed_spec spec attached bindings rules inventory) = Inr compiled)"

definition provisions ::
  "'w rule_env \<Rightarrow> shared_gateway_policy_spec \<Rightarrow> 'w rule_state \<Rightarrow> provision_report ending \<Rightarrow> 'w rule_state \<Rightarrow> bool" where
  "provisions env spec st r u \<longleftrightarrow>
     grows [] st u \<or> (\<exists>rules compiled. compiles_to env spec (rs_store st) rules compiled \<and> sends env rules compiled st r u)"

lemma asked_provisions:
  assumes "run_state (try_bind m f) st = (r, u)" "only_asks m"
    and "\<And>a t. run_state m st = (Returned a, t) \<Longrightarrow> grows [] st t \<Longrightarrow> run_state (f a) t = (r, u) \<Longrightarrow>
      provisions env spec t r u"
  shows "provisions env spec st r u"
  using assms(1,2)
proof (rule asked_first)
  fix a t
  assume t: "run_state m st = (Returned a, t)" "grows [] st t" "run_state (f a) t = (r, u)"
  then have "rs_store t = rs_store st" by (simp add: grows_def)
  with assms(3) [OF t] show ?thesis
    unfolding provisions_def using grows_trans [OF t(2), of "[]" u] by (auto dest: sends_later [OF t(2)])
qed (simp add: provisions_def)

definition provisioning ::
  "'w rule_env \<Rightarrow> shared_gateway_policy_spec \<Rightarrow> identity_store \<Rightarrow> ('w, provision_report) rule_action \<Rightarrow> bool" where
  "provisioning env spec s m \<longleftrightarrow>
     (\<forall>st r u. rs_store st = s \<longrightarrow> run_state m st = (r, u) \<longrightarrow> provisions env spec st r u)"

lemma provisioning_only_asks: "only_asks m \<Longrightarrow> provisioning env spec s m"
  unfolding provisioning_def provisions_def using asks_grows by blast

lemma provisioning_asked:
  "only_asks m \<Longrightarrow> (\<And>a. provisioning env spec s (f a)) \<Longrightarrow> provisioning env spec s (try_bind m f)"
  unfolding provisioning_def by (auto elim!: asked_provisions simp: grows_def)

lemma provisioning_ledger: "provisioning env spec s (f s) \<Longrightarrow> provisioning env spec s (try_bind ledger_now f)"
  by (simp add: provisioning_def ledger_now_def run_try_bind)

lemma converge_provisioning:
  assumes "observe_policy_ledger s = Some (bindings, rules)"
    and "compile_shared_gateway_policies (re_hash env) allow
      (observed_spec spec attached bindings rules inventory) = Inr compiled"
    and "pv_verdict report = ''provisioned''"
  shows "provisioning env spec s (converge env n report allow' rules compiled)"
proof -
  have "compiles_to env spec s rules compiled" unfolding compiles_to_def using assms(1,2) by blast
  then show ?thesis
    unfolding provisioning_def provisions_def
    using converge_sends [OF _ assms(3) compiled_at_most_one [OF assms(2)]] by blast
qed

lemma provision_sends: "provisioning env spec s (provision env n spec)"
  unfolding provision_def Let_def
proof (rule provisioning_asked, intro asks_intros, rule provisioning_ledger, goal_cases)
  case (1 attached)
  show ?case
  proof (cases "observe_policy_ledger s")
    case None
    then show ?thesis by (simp add: provisioning_only_asks asks_intros)
  next
    case (Some x)
    obtain bindings rules where "x = (bindings, rules)" by (cases x)
    with Some have ledger: "observe_policy_ledger s = Some (bindings, rules)" by simp
    show ?thesis
      unfolding ledger option.case prod.case
    proof (rule provisioning_asked, intro asks_intros, goal_cases)
      case (1 allowed)
      show ?case
      proof (cases allowed)
        case (Some allow)
        show ?thesis
          unfolding Some option.case
          by (rule provisioning_asked, intro asks_intros, split sum.split)
            (auto intro: provisioning_only_asks [OF only_asks_give] converge_provisioning [OF ledger] simp: first_report_def)
      qed (simp add: provisioning_only_asks asks_intros)
    qed
  qed
qed

text \<open>C14: No policy is deleted before its replacement is live. Whatever the engine and the Gateway
  answer, a provisioning first creates at most, and then deletes; and if it deletes anything, then it
  ends as \<open>provisioned\<close>, and the one policy that the ledger compiles to was seen live before the
  first deletion, made now with that text or found with it; or the ledger compiles to none, and every
  active rule's policy was seen live, for this Gateway, with its tool. In particular a creation that
  failed deletes nothing, not even what it made.\<close>

theorem replacement_live_before_deletion:
  "case run_state (provision env n spec) st of (r, u) \<Rightarrow>
     \<exists>made pids. rs_sent u = rs_sent st @ made @ map (Delete_policy (re_engine_id env)) pids \<and>
       list_all is_create made \<and>
       (pids = [] \<or>
        (\<exists>rules compiled. compiles_to env spec (rs_store st) rules compiled \<and>
           replaced env rules compiled (length (rs_sent st)) made u \<and> verdict_of r = ''provisioned''))"
proof -
  obtain r u where run: "run_state (provision env n spec) st = (r, u)" by fastforce
  then have "provisions env spec st r u" using provision_sends unfolding provisioning_def by blast
  then show ?thesis
    unfolding provisions_def
  proof
    assume "grows [] st u"
    then show ?thesis unfolding run prod.case grows_def by (intro exI [of _ "[]"]) simp
  next
    assume "\<exists>rules compiled. compiles_to env spec (rs_store st) rules compiled \<and> sends env rules compiled st r u"
    then obtain rules compiled made pids where c: "compiles_to env spec (rs_store st) rules compiled"
      "grows (made @ deletions env pids) st u" "list_all is_create made"
      "pids = [] \<or> replaced env rules compiled (length (rs_sent st)) made u \<and> verdict_of r = ''provisioned''"
      unfolding sends_def by blast
    then show ?thesis
      unfolding run prod.case grows_def deletions_def by (intro exI [of _ made] exI [of _ pids]) blast
  qed
qed

section \<open>Deleting old revisions\<close>

lemma delete_stale_sends:
  "run_state (delete_stale env survivors items) st = (r, u) \<Longrightarrow>
     \<exists>pids. grows (deletions env pids) st u \<and> set pids \<subseteq> set (map snd items)"
proof (induction items arbitrary: st r u)
  case Nil
  then show ?case by (auto intro!: exI [of _ "[]"] grows_refl)
next
  case (Cons x items)
  obtain name pid where x: "x = (name, pid)" by fastforce
  let ?rest = "\<lambda>(gone, warnings). try_bind (delete_stale env survivors items) (\<lambda>(names, found, complete).
       give ((if gone then [name] else []) @ names, warnings @ found, complete))"
  have only: "only_asks (survivor_missing env survivors)" by (intro asks_intros)
  have "run_state (try_bind (survivor_missing env survivors) (\<lambda>missing.
     if missing then give ([], [], False) else try_bind (delete_confirmed env pid) ?rest)) st = (r, u)"
    using Cons.prems x by simp
  then show ?case
    using only
  proof (cases rule: asked_first)
    case (answer missing t)
    show ?thesis
    proof (cases missing)
      case True
      with answer(2,3) show ?thesis by (intro exI [of _ "[]"]) simp
    next
      case False
      with answer(3) have "run_state (try_bind (delete_confirmed env pid) ?rest) t = (r, u)" by simp
      then show ?thesis
      proof (cases rule: deleted_then)
        case (on v y)
        obtain r' u' where rest: "run_state (delete_stale env survivors items) v = (r', u')" by fastforce
        with on(2) have "u' = u" by (auto simp: run_try_bind split: prod.splits ending.splits)
        with Cons.IH [OF rest] obtain pids where pids: "grows (deletions env pids) v u" "set pids \<subseteq> set (map snd items)"
          by blast
        have "grows (deletions env (pid # pids)) st u"
          using grows_trans [OF answer(2) grows_trans [OF on(1) pids(1)]] by simp
        with pids(2) x show ?thesis by (intro exI [of _ "pid # pids"]) auto
      next
        case off
        with grows_trans [OF answer(2) off(1)] x show ?thesis by (intro exI [of _ "[pid]"]) simp
      qed
    qed
  next
    case no_answer
    then show ?thesis by (intro exI [of _ "[]"]) simp
  qed
qed

lemma reclaim_old_sends:
  assumes "run_state (reclaim_old env report existing) st = (r, u)"
  shows "\<exists>pids. grows (deletions env pids) st u \<and>
    set pids \<subseteq> set (map snd (filter (\<lambda>x. revision_of (fst x) \<noteq> top_revision existing) existing))"
proof -
  let ?stale = "filter (\<lambda>(name, _). revision_of name \<noteq> top_revision existing) existing"
  let ?del = "delete_stale env (map snd (of_revision (top_revision existing) existing)) ?stale"
  obtain r' u' where rest: "run_state ?del st = (r', u')" by fastforce
  with assms have "u' = u"
    by (auto simp: reclaim_old_def Let_def run_try_bind split: prod.splits ending.splits)
  moreover have "?stale = filter (\<lambda>x. revision_of (fst x) \<noteq> top_revision existing) existing"
    by (simp add: case_prod_beta')
  ultimately show ?thesis using delete_stale_sends [OF rest] by metis
qed

lemma details_seen:
  "run_state (details env items) st = (Returned ds, t) \<Longrightarrow>
     list_all2 (\<lambda>(name, pid) (name', d). name = name' \<and> (length (rs_sent st), pid, d) \<in> set (rs_seen t)) items ds"
proof (induction items arbitrary: st ds)
  case (Cons x items)
  obtain name pid where x: "x = (name, pid)" by fastforce
  from Cons.prems x obtain d u ds' where d: "run_state (get_policy env (re_engine_id env) pid) st = (Returned d, u)"
    "run_state (details env items) u = (Returned ds', t)" "ds = (name, d) # ds'"
    by (auto simp: run_try_bind split: prod.splits ending.splits)
  have u: "grows [] st u" "grows [] u t"
    using asks_grows [OF only_asks_get_policy d(1)] asks_grows [OF only_asks_details d(2)] by auto
  then have "set (rs_seen u) \<subseteq> set (rs_seen t)" "length (rs_sent u) = length (rs_sent st)"
    by (simp_all add: grows_def set_mono_prefix)
  with get_policy_seen [OF d(1)] Cons.IH [OF d(2)] d(3) x show ?case by auto
qed simp

lemma live_texts_from:
  "dget (fold (\<lambda>(name, d). dput (policy_key_of hash gateway name) (normalize_cedar (pd_statement d))) ds acc) k = Some v \<Longrightarrow>
     dget acc k = Some v \<or> (\<exists>x \<in> set ds. v = normalize_cedar (pd_statement (snd x)))"
proof (induction ds arbitrary: acc)
  case (Cons x ds)
  obtain name d where x: "x = (name, d)" by fastforce
  from Cons.prems x Cons.IH [of "dput (policy_key_of hash gateway name) (normalize_cedar (pd_statement d)) acc"]
  have "dget (dput (policy_key_of hash gateway name) (normalize_cedar (pd_statement d)) acc) k = Some v
    \<or> (\<exists>y \<in> set ds. v = normalize_cedar (pd_statement (snd y)))" by simp
  then show ?case using x by (cases "k = policy_key_of hash gateway name") auto
qed simp

lemma same_texts:
  assumes "\<not> dict_differs (live_texts hash gateway ds) (wanted compiled)" "cs_policies compiled = [p]"
  obtains x where "x \<in> set ds" "normalize_cedar (pd_statement (snd x)) = normalize_cedar (cp_cedar_policy p)"
proof -
  let ?k = "name_safe (cp_policy_key p)"
  have w: "wanted compiled = [(?k, normalize_cedar (cp_cedar_policy p))]" using assms(2) by (rule wanted_one)
  have keys: "set (dkeys (live_texts hash gateway ds)) = set (dkeys (wanted compiled))"
    and all: "list_all (\<lambda>k. dget (live_texts hash gateway ds) k = dget (wanted compiled) k) (dkeys (live_texts hash gateway ds))"
    using assms(1) unfolding dict_differs_def by blast+
  from keys w have "?k \<in> set (dkeys (live_texts hash gateway ds))"
    by (simp add: dkeys_def)
  with all have "dget (live_texts hash gateway ds) ?k = dget (wanted compiled) ?k"
    unfolding list_all_iff by blast
  with w have "dget (live_texts hash gateway ds) ?k = Some (normalize_cedar (cp_cedar_policy p))"
    by simp
  from live_texts_from [OF this [unfolded live_texts_def]] that show thesis by auto
qed

text \<open>What justifies deleting the older revisions of \<open>existing\<close>: every policy of the highest one was
  seen live, and one of them with the text that the ledger compiles to.\<close>

definition superseded ::
  "compiled_shared_gateway_policies \<Rightarrow> nat \<Rightarrow> owned_policy list \<Rightarrow> 'w rule_state \<Rightarrow> bool" where
  "superseded compiled k existing st \<longleftrightarrow>
     list_all (\<lambda>x. seen_live k (snd x) st) (of_revision (top_revision existing) existing) \<and>
     (\<exists>p. cs_policies compiled = [p] \<and>
        list_ex (\<lambda>x. seen_with k (snd x) (\<lambda>d. pd_status d = ''ACTIVE'' \<and>
          normalize_cedar (pd_statement d) = normalize_cedar (cp_cedar_policy p)) st)
          (of_revision (top_revision existing) existing))"

lemma details_supersede:
  assumes details: "run_state (details env (of_revision (top_revision existing) existing)) st = (Returned ds, t)"
    and live: "\<not> list_ex (\<lambda>(_, d). pd_status d \<noteq> ''ACTIVE'') ds"
    and same: "\<not> dict_differs (live_texts (re_hash env) gateway ds) (wanted compiled)"
    and one: "cs_policies compiled = [p]"
  shows "superseded compiled (length (rs_sent st)) existing t"
proof -
  let ?top = "of_revision (top_revision existing) existing"
  let ?k = "length (rs_sent st)"
  have all2: "list_all2 (\<lambda>(name, pid) (name', d). name = name' \<and> (?k, pid, d) \<in> set (rs_seen t)) ?top ds"
    using details by (rule details_seen)
  then have len: "length ds = length ?top" by (simp add: list_all2_lengthD)
  have at: "(?k, snd (?top ! i), snd (ds ! i)) \<in> set (rs_seen t)" "pd_status (snd (ds ! i)) = ''ACTIVE''"
    if "i < length ?top" for i
  proof -
    show "(?k, snd (?top ! i), snd (ds ! i)) \<in> set (rs_seen t)"
      using list_all2_nthD [OF all2 that] by (auto split: prod.splits)
    have "ds ! i \<in> set ds" using that len by simp
    with live show "pd_status (snd (ds ! i)) = ''ACTIVE''" by (auto simp: list_ex_iff)
  qed
  have "list_all (\<lambda>x. seen_live ?k (snd x) t) ?top"
    unfolding list_all_length using at by (auto intro: seen_liveI)
  moreover obtain x where "x \<in> set ds" "normalize_cedar (pd_statement (snd x)) = normalize_cedar (cp_cedar_policy p)"
    using same one by (rule same_texts)
  then obtain i where i: "i < length ?top" "normalize_cedar (pd_statement (snd (ds ! i))) = normalize_cedar (cp_cedar_policy p)"
    using len by (metis in_set_conv_nth)
  with at have "seen_with ?k (snd (?top ! i)) (\<lambda>d. pd_status d = ''ACTIVE'' \<and>
      normalize_cedar (pd_statement d) = normalize_cedar (cp_cedar_policy p)) t"
    by (intro seen_withI) auto
  with i(1) have "list_ex (\<lambda>x. seen_with ?k (snd x) (\<lambda>d. pd_status d = ''ACTIVE'' \<and>
      normalize_cedar (pd_statement d) = normalize_cedar (cp_cedar_policy p)) t) ?top"
    by (auto simp: list_ex_length)
  ultimately show ?thesis using one by (auto simp: superseded_def)
qed

lemma superseded_grows: "superseded compiled k existing st \<Longrightarrow> grows new st t \<Longrightarrow> superseded compiled k existing t"
  unfolding superseded_def list_all_iff list_ex_iff
  by (meson order_refl seen_live_grows seen_with_grows)

definition reclaims ::
  "'w rule_env \<Rightarrow> shared_gateway_policy_spec \<Rightarrow> owned_policy list \<Rightarrow> 'w rule_state \<Rightarrow> 'w rule_state \<Rightarrow> bool" where
  "reclaims env spec existing st u \<longleftrightarrow> grows [] st u \<or>
     (\<exists>rules compiled pids. compiles_to env spec (rs_store st) rules compiled \<and>
        grows (deletions env pids) st u \<and> superseded compiled (length (rs_sent st)) existing u \<and>
        set pids \<subseteq> set (map snd (filter (\<lambda>x. revision_of (fst x) \<noteq> top_revision existing) existing)))"

lemma reclaims_later: "grows [] st t \<Longrightarrow> reclaims env spec existing t u \<Longrightarrow> reclaims env spec existing st u"
  unfolding reclaims_def grows_def by (auto simp: prefix_order.trans intro: prefix_order.trans)

lemma asked_reclaims:
  assumes "run_state (try_bind m f) st = (r, u)" "only_asks m"
    and "\<And>a t. run_state m st = (Returned a, t) \<Longrightarrow> grows [] st t \<Longrightarrow> run_state (f a) t = (r, u) \<Longrightarrow>
      reclaims env spec existing t u"
  shows "reclaims env spec existing st u"
  using assms(1,2)
proof (rule asked_first)
  fix a t
  assume t: "run_state m st = (Returned a, t)" "grows [] st t" "run_state (f a) t = (r, u)"
  show ?thesis by (rule reclaims_later [OF t(2) assms(3) [OF t]])
qed (simp add: reclaims_def)

lemma given_reclaims: "run_state (give x) st = (r, u) \<Longrightarrow> reclaims env spec existing st u"
  by (auto simp: reclaims_def intro: grows_refl)

lemma reclaim_old_reclaims:
  assumes "run_state (reclaim_old env report existing) st = (r, u)"
    and "compiles_to env spec (rs_store st) rules compiled"
    and "superseded compiled (length (rs_sent st)) existing st"
  shows "reclaims env spec existing st u"
  using reclaim_old_sends [OF assms(1)] assms(2) superseded_grows [OF assms(3)]
  unfolding reclaims_def by blast

text \<open>From the compiled policies on.\<close>

lemma checked_reclaims:
  assumes "run_state (if cs_policies compiled = [] then give (reclaim_failed ''blocked'' report)
      else try_bind (attempt (details env (of_revision (top_revision existing) existing))) (\<lambda>r.
        case r of
          Inl _ \<Rightarrow> give (reclaim_failed ''unknown'' report')
        | Inr ds \<Rightarrow>
            if list_ex (\<lambda>(_, d). pd_status d \<noteq> ''ACTIVE'') ds
            then give (reclaim_failed ''blocked'' report')
            else if dict_differs (live_texts (re_hash env) (cs_gateway_arn compiled) ds) (wanted compiled)
            then give (reclaim_failed ''blocked'' report')
            else reclaim_old env report' existing)) st = (r, u)" (is "run_state (if _ then _ else ?next) st = _")
    and compiles: "compiles_to env spec (rs_store st) rules compiled"
    and one: "cs_policies compiled = [] \<or> (\<exists>p. cs_policies compiled = [p])"
  shows "reclaims env spec existing st u"
proof (cases "cs_policies compiled = []")
  case True
  from assms(1) [unfolded eqTrueI [OF True] if_True] show ?thesis by (rule given_reclaims)
next
  case False
  with one obtain p where p: "cs_policies compiled = [p]" by blast
  from False assms(1) have "run_state ?next st = (r, u)" by simp
  then show ?thesis
  proof (rule asked_reclaims)
    show "only_asks (attempt (details env (of_revision (top_revision existing) existing)))" by (intro asks_intros)
    fix x t
    assume x: "run_state (attempt (details env (of_revision (top_revision existing) existing))) st = (Returned x, t)"
      and t: "grows [] st t"
      and run: "run_state (case x of
          Inl _ \<Rightarrow> give (reclaim_failed ''unknown'' report')
        | Inr ds \<Rightarrow>
            if list_ex (\<lambda>(_, d). pd_status d \<noteq> ''ACTIVE'') ds
            then give (reclaim_failed ''blocked'' report')
            else if dict_differs (live_texts (re_hash env) (cs_gateway_arn compiled) ds) (wanted compiled)
            then give (reclaim_failed ''blocked'' report')
            else reclaim_old env report' existing) t = (r, u)"
    show "reclaims env spec existing t u"
    proof (cases "\<exists>ds. x = Inr ds \<and> \<not> list_ex (\<lambda>(_, d). pd_status d \<noteq> ''ACTIVE'') ds \<and>
        \<not> dict_differs (live_texts (re_hash env) (cs_gateway_arn compiled) ds) (wanted compiled)")
      case True
      then obtain ds where ds: "x = Inr ds" "\<not> list_ex (\<lambda>(_, d). pd_status d \<noteq> ''ACTIVE'') ds"
        "\<not> dict_differs (live_texts (re_hash env) (cs_gateway_arn compiled) ds) (wanted compiled)" by blast
      from x ds(1) have "superseded compiled (length (rs_sent st)) existing t"
        by (intro details_supersede [OF _ ds(2,3) p]) (simp add: attempt_returned)
      with t have "superseded compiled (length (rs_sent t)) existing t" by (simp add: grows_def)
      moreover from t compiles have "compiles_to env spec (rs_store t) rules compiled" by (simp add: grows_def)
      moreover from run ds have "run_state (reclaim_old env report' existing) t = (r, u)" by simp
      ultimately show ?thesis by (intro reclaim_old_reclaims)
    next
      case False
      with run show ?thesis by (auto intro!: given_reclaims split: sum.splits if_splits)
    qed
  qed
qed

text \<open>The pass without its first reading.\<close>

definition reclaim_read ::
  "'w rule_env \<Rightarrow> shared_gateway_policy_spec \<Rightarrow> owned_policy list \<Rightarrow> ('w, reclaim_report) rule_action" where
  "reclaim_read env spec existing =
     (let report = first_reclaim (sp_gateway_arn spec); top = top_revision existing;
          report = report\<lparr>rc_stale := stale_revision_names existing\<rparr> in
      if one_revision existing then give (report\<lparr>rc_surviving := top\<rparr>)
      else
        try_bind (observe_interceptor env) (\<lambda>attached.
        let report = report\<lparr>rc_warnings := (case snd attached of None \<Rightarrow> [] | Some e \<Rightarrow> [Interceptor_unread e])\<rparr> in
        try_bind ledger_now (\<lambda>s.
        case observe_policy_ledger s of
          None \<Rightarrow> give (reclaim_failed ''unknown'' report)
        | Some (bindings, rules) \<Rightarrow>
            try_bind (observe_live_gateway_inventory env (Some (declared_target_names bindings))) (\<lambda>inventory.
            let report = report\<lparr>rc_live_status := live_status inventory\<rparr> in
            case compile_shared_gateway_policies (re_hash env) False
                   (observed_spec spec (fst attached) bindings rules inventory) of
              Inl _ \<Rightarrow> give (reclaim_failed ''blocked'' report)
            | Inr compiled \<Rightarrow>
                if cs_policies compiled = [] then give (reclaim_failed ''blocked'' report)
                else
                  let report = report\<lparr>rc_surviving := top\<rparr> in
                  try_bind (attempt (details env (of_revision top existing))) (\<lambda>r.
                  case r of
                    Inl _ \<Rightarrow> give (reclaim_failed ''unknown'' report)
                  | Inr ds \<Rightarrow>
                      if list_ex (\<lambda>(_, d). pd_status d \<noteq> ''ACTIVE'') ds
                      then give (reclaim_failed ''blocked'' report)
                      else if dict_differs (live_texts (re_hash env) (cs_gateway_arn compiled) ds) (wanted compiled)
                      then give (reclaim_failed ''blocked'' report)
                      else reclaim_old env report existing)))))"

lemma reclaim_as_read:
  "reclaim_stale_revisions env spec =
     try_bind (attempt (owned_policies env (sp_gateway_arn spec))) (\<lambda>r.
     case r of
       Inl _ \<Rightarrow> give (reclaim_failed ''unknown'' (first_reclaim (sp_gateway_arn spec)))
     | Inr existing \<Rightarrow> reclaim_read env spec existing)"
  unfolding reclaim_stale_revisions_def reclaim_read_def Let_def by (rule refl)

lemma compiled_reclaims:
  assumes "run_state (case compile_shared_gateway_policies (re_hash env) False
         (observed_spec spec attached bindings rules inventory) of
       Inl _ \<Rightarrow> give (reclaim_failed ''blocked'' report)
     | Inr compiled \<Rightarrow>
         if cs_policies compiled = [] then give (reclaim_failed ''blocked'' report)
         else
           try_bind (attempt (details env (of_revision (top_revision existing) existing))) (\<lambda>r.
           case r of
             Inl _ \<Rightarrow> give (reclaim_failed ''unknown'' report')
           | Inr ds \<Rightarrow>
               if list_ex (\<lambda>(_, d). pd_status d \<noteq> ''ACTIVE'') ds
               then give (reclaim_failed ''blocked'' report')
               else if dict_differs (live_texts (re_hash env) (cs_gateway_arn compiled) ds) (wanted compiled)
               then give (reclaim_failed ''blocked'' report')
               else reclaim_old env report' existing)) st = (r, u)"
    and ledger: "observe_policy_ledger (rs_store st) = Some (bindings, rules)"
  shows "reclaims env spec existing st u"
proof (cases "compile_shared_gateway_policies (re_hash env) False
    (observed_spec spec attached bindings rules inventory)")
  case (Inl e)
  from assms(1) [unfolded Inl sum.case] show ?thesis by (rule given_reclaims)
next
  case (Inr compiled)
  then have "compiles_to env spec (rs_store st) rules compiled"
    unfolding compiles_to_def using ledger by blast
  then show ?thesis
    by (rule checked_reclaims [OF assms(1) [unfolded Inr sum.case] _ compiled_at_most_one [OF Inr]])
qed

definition reclaiming ::
  "'w rule_env \<Rightarrow> shared_gateway_policy_spec \<Rightarrow> identity_store \<Rightarrow> owned_policy list \<Rightarrow> ('w, 'a) rule_action \<Rightarrow> bool" where
  "reclaiming env spec s existing m \<longleftrightarrow>
     (\<forall>st r u. rs_store st = s \<longrightarrow> run_state m st = (r, u) \<longrightarrow> reclaims env spec existing st u)"

lemma reclaiming_only_asks: "only_asks m \<Longrightarrow> reclaiming env spec s existing m"
  unfolding reclaiming_def reclaims_def using asks_grows by blast

lemma reclaiming_asked:
  "only_asks m \<Longrightarrow> (\<And>a. reclaiming env spec s existing (f a)) \<Longrightarrow> reclaiming env spec s existing (try_bind m f)"
  unfolding reclaiming_def by (auto elim!: asked_reclaims simp: grows_def)

lemma reclaiming_ledger:
  "reclaiming env spec s existing (f s) \<Longrightarrow> reclaiming env spec s existing (try_bind ledger_now f)"
  by (simp add: reclaiming_def ledger_now_def run_try_bind)

lemma reclaim_read_reclaims: "reclaiming env spec s existing (reclaim_read env spec existing)"
proof (cases "one_revision existing")
  case True
  then show ?thesis
    unfolding reclaim_read_def Let_def by (simp add: reclaiming_only_asks asks_intros)
next
  case False
  show ?thesis
    unfolding reclaim_read_def Let_def if_not_P [OF False]
  proof (rule reclaiming_asked, intro asks_intros, rule reclaiming_ledger, goal_cases)
    case (1 attached)
    show ?case
    proof (cases "observe_policy_ledger s")
      case None
      then show ?thesis by (simp add: reclaiming_only_asks asks_intros)
    next
      case (Some x)
      obtain bindings rules where "x = (bindings, rules)" by (cases x)
      with Some have ledger: "observe_policy_ledger s = Some (bindings, rules)" by simp
      show ?thesis
        unfolding ledger option.case prod.case
      proof (rule reclaiming_asked, intro asks_intros, goal_cases)
        case (1 inventory)
        show ?case
          unfolding reclaiming_def using compiled_reclaims ledger by blast
      qed
    qed
  qed
qed

text \<open>C15: The pass that cleans up deletes older revisions only. Whatever the engine and the Gateway
  answer, it creates and changes nothing; if it deletes anything, then it had read the policies of this
  Gateway first, what it deletes is of them and not of the highest revision, and before the first
  deletion every policy of the highest revision was seen live, one of them with the text that the
  ledger compiles to.\<close>

theorem reclaim_deletes_superseded:
  "case run_state (reclaim_stale_revisions env spec) st of (r, u) \<Rightarrow>
     rs_sent u = rs_sent st \<or>
     (\<exists>existing t rules compiled pids.
        run_state (owned_policies env (sp_gateway_arn spec)) st = (Returned existing, t) \<and>
        compiles_to env spec (rs_store st) rules compiled \<and>
        superseded compiled (length (rs_sent st)) existing u \<and>
        rs_sent u = rs_sent st @ map (Delete_policy (re_engine_id env)) pids \<and>
        set pids \<subseteq> set (map snd (filter (\<lambda>x. revision_of (fst x) \<noteq> top_revision existing) existing)))"
proof -
  obtain r u where run: "run_state (reclaim_stale_revisions env spec) st = (r, u)" by fastforce
  let ?ask = "attempt (owned_policies env (sp_gateway_arn spec))"
  have only: "only_asks ?ask" by (intro asks_intros)
  from run [unfolded reclaim_as_read] only show ?thesis
  proof (cases rule: asked_first)
    case (answer x t)
    show ?thesis
    proof (cases x)
      case (Inl e)
      with answer show ?thesis by (simp add: run grows_def)
    next
      case (Inr existing)
      with answer(3) have "run_state (reclaim_read env spec existing) t = (r, u)" by simp
      then have "reclaims env spec existing t u" using reclaim_read_reclaims unfolding reclaiming_def by blast
      with answer(2) have "reclaims env spec existing st u" by (rule reclaims_later)
      moreover have "run_state (owned_policies env (sp_gateway_arn spec)) st = (Returned existing, t)"
        using answer(1) Inr by (simp add: attempt_returned)
      ultimately show ?thesis unfolding run prod.case reclaims_def grows_def deletions_def by fastforce
    qed
  next
    case no_answer
    then show ?thesis by (simp add: run grows_def)
  qed
qed

end
