(* ===== verification/Target_Names.thy ===== *)
theory Target_Names
  imports Gateway_Targets Catalog_Records "HOL-Library.Multiset" "HOL-Library.Countable"
begin

text \<open>
  Slugs and the names of Gateway Targets (\<open>shared/slug.py\<close>), and the Targets that a deployed MCP
  server gets from the sensitivity tags of its tools (\<open>runtime/deploy/target_slices.py\<close>). SHA-256
  in hexadecimal is the parameter \<open>hash\<close>, the parser and the printer of JSON are \<open>parse\<close> and
  \<open>dump\<close>.
\<close>

section \<open>Slugs\<close>

definition ascii_alnum :: "char \<Rightarrow> bool" where
  "ascii_alnum c = (let n = (of_char c :: nat) in
     48 \<le> n \<and> n \<le> 57 \<or> 65 \<le> n \<and> n \<le> 90 \<or> 97 \<le> n \<and> n \<le> 122)"

definition slug_char :: "char \<Rightarrow> bool" where
  "slug_char c \<longleftrightarrow> ascii_alnum c \<and> ascii_lower c = c \<or> c \<in> set ''._-''"

text \<open>\<open>re.sub("[^...]+", "-", text)\<close> for the characters that are not \<open>ok\<close>; \<open>inside\<close> a run of them,
  its dash is out already.\<close>

fun dashed :: "(char \<Rightarrow> bool) \<Rightarrow> bool \<Rightarrow> string \<Rightarrow> string" where
  "dashed ok inside [] = []"
| "dashed ok inside (c # cs) =
     (if ok c then c # dashed ok False cs
      else if inside then dashed ok True cs else CHR ''-'' # dashed ok True cs)"

text \<open>\<open>re.sub("-{2,}", "-", text)\<close>\<close>

fun single_dashes :: "bool \<Rightarrow> string \<Rightarrow> string" where
  "single_dashes after [] = []"
| "single_dashes after (c # cs) =
     (if c = CHR ''-'' then if after then single_dashes True cs else c # single_dashes True cs
      else c # single_dashes False cs)"

definition rstrip_chars :: "string \<Rightarrow> string \<Rightarrow> string" where
  "rstrip_chars chars s = rev (dropWhile (\<lambda>c. c \<in> set chars) (rev s))"

definition strip_chars :: "string \<Rightarrow> string \<Rightarrow> string" where
  "strip_chars chars s = rstrip_chars chars (dropWhile (\<lambda>c. c \<in> set chars) s)"

text \<open>A text of any characters, as its Unicode code points. All of this only looks at the ASCII ones, so
  a text is seen with one and the same character in place of every other. \<open>lower()\<close> leaves no ASCII
  letter of the others but for two: the dotted capital I, which becomes an i and a combining dot, and
  the Kelvin sign, which becomes a k.\<close>

type_synonym code_points = "nat list"

definition seen_as :: "code_points \<Rightarrow> string" where
  "seen_as points = map (\<lambda>n. if n < 128 then char_of n else CHR 0x80) points"

definition CAPITAL_I_DOT :: nat where
  "CAPITAL_I_DOT = 304"

definition KELVIN_SIGN :: nat where
  "KELVIN_SIGN = 8490"

definition lower_point :: "nat \<Rightarrow> code_points" where
  "lower_point n =
     (if 65 \<le> n \<and> n \<le> 90 then [n + 32]
      else if n = CAPITAL_I_DOT then [105, 775]
      else if n = KELVIN_SIGN then [107]
      else [n])"

definition lower_text :: "code_points \<Rightarrow> code_points" where
  "lower_text points = concat (map lower_point points)"

definition slugify :: "(code_points \<Rightarrow> string) \<Rightarrow> code_points \<Rightarrow> string" where
  "slugify hash points =
     (let t = strip_chars ''-._'' (single_dashes False (dashed slug_char False (seen_as (lower_text points)))) in
      if t \<noteq> [] then t else take 8 (hash points))"

section \<open>Names of Targets\<close>

definition SENSITIVITY_TARGET_SUFFIXES :: "(string, string) dict" where
  "SENSITIVITY_TARGET_SUFFIXES = map (\<lambda>tag. (tag, CHR ''-'' # casefold tag)) (allowed_tags FULL_ACCESS)"

definition GATEWAY_TARGET_NAME_LIMIT :: nat where
  "GATEWAY_TARGET_NAME_LIMIT = 100"

definition GATEWAY_TARGET_SUFFIX_RESERVE :: nat where
  "GATEWAY_TARGET_SUFFIX_RESERVE = fold max (map length (dvalues SENSITIVITY_TARGET_SUFFIXES)) 0"

definition GATEWAY_TARGET_PREFIX_LIMIT :: nat where
  "GATEWAY_TARGET_PREFIX_LIMIT = GATEWAY_TARGET_NAME_LIMIT - GATEWAY_TARGET_SUFFIX_RESERVE"

definition normalized_gateway_target_prefix :: "(string \<Rightarrow> string) \<Rightarrow> string \<Rightarrow> string" where
  "normalized_gateway_target_prefix hash name =
     (let t = casefold (single_dashes False (strip_chars ''-'' (dashed ascii_alnum False name))) in
      if t \<noteq> [] then t else ''mcp-'' @ take 8 (hash name))"

text \<open>\<open>gateway_target_name(name)\<close>, and \<open>gateway_target_name(name, sensitivity=tag)\<close>, which raises
  for an unknown tag.\<close>

definition gateway_target_name :: "(string \<Rightarrow> string) \<Rightarrow> string \<Rightarrow> string" where
  "gateway_target_name hash name =
     rstrip_chars ''-'' (take GATEWAY_TARGET_PREFIX_LIMIT (normalized_gateway_target_prefix hash name))"

text \<open>The name of the Target of a text of any characters.\<close>

definition text_target_name :: "(code_points \<Rightarrow> string) \<Rightarrow> code_points \<Rightarrow> string" where
  "text_target_name hash points = gateway_target_name (\<lambda>_. hash points) (seen_as points)"

definition tagged_target_name :: "(string \<Rightarrow> string) \<Rightarrow> string \<Rightarrow> string \<Rightarrow> string option" where
  "tagged_target_name hash name sensitivity =
     map_option (\<lambda>ending. gateway_target_name hash name @ ending)
       (dget SENSITIVITY_TARGET_SUFFIXES (upper (strip sensitivity)))"

definition resolved_gateway_target_name :: "(string \<Rightarrow> string) \<Rightarrow> string \<Rightarrow> json \<Rightarrow> string" where
  "resolved_gateway_target_name hash name stored_name =
     (let stored = (case stored_name of JStr s \<Rightarrow> strip s | _ \<Rightarrow> []) in
      if stored \<noteq> [] then stored else gateway_target_name hash name)"

text \<open>The name stored in the descriptors of a record, \<open>mcp.gatewayTargetName\<close>.\<close>

definition stored_target_name :: "descriptors \<Rightarrow> json" where
  "stored_target_name ds = (case jget ds ''mcp'' of JObj m \<Rightarrow> jget m ''gatewayTargetName'' | _ \<Rightarrow> JNull)"

definition mcp_target_name :: "(string \<Rightarrow> string) \<Rightarrow> registry_record \<Rightarrow> string" where
  "mcp_target_name hash r = resolved_gateway_target_name hash (rr_name r) (stored_target_name (rr_descriptors r))"

record gateway_target_name_collision =
  gc_target_name :: string
  gc_record_id :: string
  gc_asset_name :: string

definition find_gateway_target_name_collision ::
  "(string \<Rightarrow> string) \<Rightarrow> registry_record list \<Rightarrow> string \<Rightarrow> string \<Rightarrow> gateway_target_name_collision option" where
  "find_gateway_target_name_collision hash records target_name current =
     map_option (\<lambda>r. \<lparr>gc_target_name = target_name, gc_record_id = rr_record_id r, gc_asset_name = rr_name r\<rparr>)
       (find (\<lambda>r. rr_record_id r \<noteq> current \<and> rr_descriptor_type r = DT_MCP \<and>
          mcp_target_name hash r = target_name) records)"

section \<open>Slices\<close>

definition sensitivity_tags :: "string list" where
  "sensitivity_tags = fromkeys (concat (map (\<lambda>g. sort (allowed_tags g))
     [READ_ONLY, READ_CREATE, READ_WRITE, FULL_ACCESS]))"

definition gateway_target_names :: "(string \<Rightarrow> string) \<Rightarrow> string \<Rightarrow> (string, string) dict" where
  "gateway_target_names hash asset_name =
     List.map_filter (\<lambda>tag. map_option (Pair tag) (tagged_target_name hash asset_name tag)) sensitivity_tags"

record target_slice =
  ts_sensitivity :: string
  ts_gateway_target_name :: string
  ts_tools_inline :: string
  ts_operations :: "string list"

datatype unassigned_tool =
    Tag_missing string
  | Tag_unknown string string    \<comment> \<open>the name and the tag\<close>

record target_split =
  sl_slices :: "target_slice list"
  sl_unassigned_tools :: "unassigned_tool list"

definition tool_tag :: "(string \<times> json) list \<Rightarrow> string" where
  "tool_tag tool = (case jget tool ''sensitivity'' of JStr s \<Rightarrow> upper (strip s) | _ \<Rightarrow> [])"

definition tool_text :: "(json \<Rightarrow> string) \<Rightarrow> (string \<times> json) list \<Rightarrow> string" where
  "tool_text repr tool = py_str repr (j_or (jget tool ''name'') (JStr []))"

definition unassigned_of :: "(json \<Rightarrow> string) \<Rightarrow> (string \<times> json) list \<Rightarrow> unassigned_tool option" where
  "unassigned_of repr tool =
     (if tool_tag tool = [] then Some (Tag_missing (tool_text repr tool))
      else if tool_tag tool \<notin> set sensitivity_tags then Some (Tag_unknown (tool_text repr tool) (tool_tag tool))
      else None)"

text \<open>The document with only the tools of one tag, if there are any.\<close>

definition slice_of ::
  "(string \<Rightarrow> string) \<Rightarrow> (json \<Rightarrow> string) \<Rightarrow> (json \<Rightarrow> string) \<Rightarrow> string \<Rightarrow> (string, json) dict
     \<Rightarrow> (string \<times> json) list list \<Rightarrow> string \<Rightarrow> target_slice option" where
  "slice_of hash repr dump asset_name doc tools tag =
     (let mine = filter (\<lambda>tool. tool_tag tool = tag) tools in
      case dget (gateway_target_names hash asset_name) tag of
        None \<Rightarrow> None
      | Some name \<Rightarrow>
          if mine = [] then None
          else Some \<lparr>ts_sensitivity = tag, ts_gateway_target_name = name,
            ts_tools_inline = dump (JObj (dput ''tools'' (JArr (map JObj mine)) doc)),
            ts_operations = map (\<lambda>tool. py_str repr (jget tool ''name''))
              (filter (\<lambda>tool. truthy (jget tool ''name'')) mine)\<rparr>)"

text \<open>The document and the list of its tools; \<open>None\<close> where the text has none.\<close>

definition tools_document ::
  "(string \<Rightarrow> json option) \<Rightarrow> string \<Rightarrow> ((string, json) dict \<times> json list) option" where
  "tools_document parse s =
     (case parse s of
        Some (JObj doc) \<Rightarrow> (case jget doc ''tools'' of JArr tools \<Rightarrow> Some (doc, tools) | _ \<Rightarrow> None)
      | _ \<Rightarrow> None)"

definition split_target_slices ::
  "(string \<Rightarrow> string) \<Rightarrow> (string \<Rightarrow> json option) \<Rightarrow> (json \<Rightarrow> string) \<Rightarrow> (json \<Rightarrow> string) \<Rightarrow> string \<Rightarrow> string
     \<Rightarrow> target_split option" where
  "split_target_slices hash parse repr dump asset_name tools_inline =
     (case tools_document parse tools_inline of
        None \<Rightarrow> None
      | Some (doc, items) \<Rightarrow>
          (let tools = List.map_filter as_obj items in
           Some \<lparr>sl_slices = List.map_filter (slice_of hash repr dump asset_name doc tools) sensitivity_tags,
             sl_unassigned_tools = List.map_filter (unassigned_of repr) tools\<rparr>))"

section \<open>What the names satisfy\<close>

lemma sensitivity_tags_eval: "sensitivity_tags = [''READ'', ''CREATE'', ''UPDATE'', ''DELETE'']"
  by code_simp

lemma reserve_eval [simp]: "GATEWAY_TARGET_SUFFIX_RESERVE = 7" "GATEWAY_TARGET_PREFIX_LIMIT = 93"
  by code_simp+

text \<open>The constraint of \<open>CreateGatewayTarget\<close>, as far as the code keeps it: letters and digits, with
  single dashes between them.\<close>

fun dash_separated :: "bool \<Rightarrow> string \<Rightarrow> bool" where
  "dash_separated p [] = True"
| "dash_separated p (c # cs) =
     (if ascii_alnum c then dash_separated False cs else c = CHR ''-'' \<and> \<not> p \<and> dash_separated True cs)"

definition valid_target_name :: "string \<Rightarrow> bool" where
  "valid_target_name s \<longleftrightarrow> s \<noteq> [] \<and> length s \<le> 100 \<and> dash_separated True s \<and> last s \<noteq> CHR ''-''"

lemma alnum_not_dash [simp]: "\<not> ascii_alnum CHR ''-''"
  by code_simp

lemma of_char_ascii_lower:
  "of_char (ascii_lower c) = (if 65 \<le> (of_char c :: nat) \<and> of_char c \<le> (90 :: nat) then of_char c + 32 else (of_char c :: nat))"
  by (simp add: ascii_lower_def Let_def of_char_of)

lemma ascii_lower_alnum [simp]: "ascii_alnum (ascii_lower c) = ascii_alnum c"
  unfolding ascii_alnum_def Let_def of_char_ascii_lower by simp

lemma ascii_lower_dash [simp]: "ascii_lower c = CHR ''-'' \<longleftrightarrow> c = CHR ''-''"
proof -
  have dash: "x = CHR ''-'' \<longleftrightarrow> of_char x = (45 :: nat)" for x
    using of_char_eq_iff [of x "CHR ''-''", where 'a = nat] by simp
  show ?thesis unfolding dash of_char_ascii_lower by simp
qed

lemma dash_separated_append1: "dash_separated p (xs @ ys) \<Longrightarrow> dash_separated p xs"
  by (induction p xs rule: dash_separated.induct) (auto split: if_splits)

lemma dash_separated_rstrip: "dash_separated p s \<Longrightarrow> dash_separated p (rstrip_chars chars s)"
proof -
  assume "dash_separated p s"
  moreover have "s = rstrip_chars chars s @ rev (takeWhile (\<lambda>c. c \<in> set chars) (rev s))"
    unfolding rstrip_chars_def by (metis rev_append rev_rev_ident takeWhile_dropWhile_id)
  ultimately show ?thesis using dash_separated_append1 by metis
qed

lemma dash_separated_take: "dash_separated p s \<Longrightarrow> dash_separated p (take n s)"
  using dash_separated_append1 [of p "take n s" "drop n s"] by simp

lemma dash_separated_casefold [simp]: "dash_separated p (casefold s) = dash_separated p s"
  by (induction p s rule: dash_separated.induct) (simp_all add: casefold_def)

lemma dash_separated_dashed: "dash_separated p (dashed ascii_alnum p s)"
proof (induction s arbitrary: p)
  case (Cons c s)
  then show ?case by (cases "ascii_alnum c"; cases p) simp_all
qed simp

lemma dash_separated_mono: "dash_separated True s \<Longrightarrow> dash_separated p s"
proof (cases s)
  case (Cons c cs)
  moreover assume "dash_separated True s"
  ultimately show ?thesis by (cases "ascii_alnum c") simp_all
qed simp

lemma no_leading_dash: "dash_separated True s \<Longrightarrow> dropWhile (\<lambda>c. c = CHR ''-'') s = s"
proof (cases s)
  case (Cons c cs)
  moreover assume "dash_separated True s"
  ultimately have "ascii_alnum c" by (cases "ascii_alnum c") simp_all
  with Cons show ?thesis by auto
qed simp

lemma dash_separated_ldrop: "dash_separated False s \<Longrightarrow> dash_separated True (dropWhile (\<lambda>c. c = CHR ''-'') s)"
proof (cases s)
  case (Cons c cs)
  moreover assume "dash_separated False s"
  ultimately show ?thesis using no_leading_dash [of cs] by (cases "ascii_alnum c") auto
qed simp

lemma single_dashes_id: "dash_separated p s \<Longrightarrow> single_dashes p s = s"
proof (induction p s rule: dash_separated.induct)
  case (2 p c cs)
  then show ?case by (cases "ascii_alnum c"; cases "c = CHR ''-''") simp_all
qed simp

lemma last_rstrip: "rstrip_chars chars s \<noteq> [] \<Longrightarrow> last (rstrip_chars chars s) \<notin> set chars"
  unfolding rstrip_chars_def by (metis hd_dropWhile last_rev rev.simps(1) rev_rev_ident)

lemma dash_separated_words: "dash_separated True (strip_chars ''-'' (dashed ascii_alnum False s))"
  unfolding strip_chars_def
  using dash_separated_rstrip [OF dash_separated_ldrop [OF dash_separated_dashed [of False s]]] by simp

definition hash_ok :: "(string \<Rightarrow> string) \<Rightarrow> bool" where
  "hash_ok hash \<longleftrightarrow> (\<forall>x. list_all ascii_alnum (hash x) \<and> 8 \<le> length (hash x))"

lemma dash_separated_alnum: "list_all ascii_alnum s \<Longrightarrow> dash_separated p s"
  by (induction s arbitrary: p) auto

lemma hash_text: "hash_ok hash \<Longrightarrow> list_all ascii_alnum (take 8 (hash x)) \<and> take 8 (hash x) \<noteq> []"
  unfolding hash_ok_def by (metis append_take_drop_id length_0_conv length_take list_all_append min_absorb2 zero_neq_numeral)

lemma hash_name_separated: "hash_ok hash \<Longrightarrow> dash_separated p (''mcp-'' @ take 8 (hash x))"
proof -
  assume "hash_ok hash"
  then have "dash_separated True (take 8 (hash x))" using hash_text dash_separated_alnum by blast
  moreover have "ascii_alnum CHR ''m''" "ascii_alnum CHR ''c''" "ascii_alnum CHR ''p''" by code_simp+
  ultimately show ?thesis by simp
qed

lemma prefix_separated:
  "hash_ok hash \<Longrightarrow> dash_separated True (normalized_gateway_target_prefix hash name)"
  using dash_separated_words [of name]
  by (simp only: normalized_gateway_target_prefix_def Let_def single_dashes_id [OF dash_separated_mono]
      hash_name_separated dash_separated_casefold split: if_split)
    blast

lemma rstrip_starts: "\<not> c \<in> set chars \<Longrightarrow> rstrip_chars chars (c # cs) = c # rstrip_chars chars cs"
  by (auto simp: rstrip_chars_def dropWhile_append)

lemma starts_alnum: "dash_separated True (c # cs) \<Longrightarrow> ascii_alnum c"
  by (cases "ascii_alnum c") simp_all

lemma target_name_parts:
  assumes "hash_ok hash"
  shows "gateway_target_name hash name \<noteq> []" "length (gateway_target_name hash name) \<le> 93"
    "dash_separated True (gateway_target_name hash name)" "last (gateway_target_name hash name) \<noteq> CHR ''-''"
proof -
  let ?p = "normalized_gateway_target_prefix hash name"
  have sep: "dash_separated True ?p" using assms by (rule prefix_separated)
  have "?p \<noteq> []" by (simp add: normalized_gateway_target_prefix_def Let_def)
  then obtain c cs where p: "?p = c # cs" by (cases ?p) auto
  with sep have "ascii_alnum c" by (metis starts_alnum)
  then have "c \<noteq> CHR ''-''" by auto
  then have "rstrip_chars ''-'' (take 93 ?p) = c # rstrip_chars ''-'' (take 92 cs)"
    using p by (simp add: rstrip_starts take_Cons')
  then show ne: "gateway_target_name hash name \<noteq> []" by (simp add: gateway_target_name_def)
  have "length (rstrip_chars ''-'' t) \<le> length t" for t
    unfolding rstrip_chars_def by (metis length_dropWhile_le length_rev)
  from this [of "take 93 ?p"] show "length (gateway_target_name hash name) \<le> 93"
    by (simp add: gateway_target_name_def)
  show "dash_separated True (gateway_target_name hash name)"
    unfolding gateway_target_name_def by (intro dash_separated_rstrip dash_separated_take sep)
  show "last (gateway_target_name hash name) \<noteq> CHR ''-''"
    using last_rstrip [OF ne [unfolded gateway_target_name_def]] by (simp add: gateway_target_name_def)
qed

lemma dash_separated_append:
  "dash_separated p s \<Longrightarrow> s \<noteq> [] \<Longrightarrow> last s \<noteq> CHR ''-'' \<Longrightarrow> dash_separated False t \<Longrightarrow> dash_separated p (s @ t)"
proof (induction p s rule: dash_separated.induct)
  case (2 p c cs)
  show ?case
  proof (cases "ascii_alnum c")
    case True
    with 2 show ?thesis by (cases "cs = []") simp_all
  next
    case False
    with 2 have "cs \<noteq> []" by auto
    with 2 False show ?thesis by simp
  qed
qed simp

lemma suffix_facts:
  assumes "dget SENSITIVITY_TARGET_SUFFIXES tag = Some sfx"
  shows "sfx \<noteq> []" "length sfx \<le> 7" "dash_separated False sfx" "last sfx \<noteq> CHR ''-''"
proof -
  have all: "list_all (\<lambda>(_, x). x \<noteq> [] \<and> length x \<le> 7 \<and> dash_separated False x \<and> last x \<noteq> CHR ''-'')
      SENSITIVITY_TARGET_SUFFIXES" by code_simp
  have "(tag, sfx) \<in> set SENSITIVITY_TARGET_SUFFIXES" using assms by (rule map_of_SomeD)
  with all show "sfx \<noteq> []" "length sfx \<le> 7" "dash_separated False sfx" "last sfx \<noteq> CHR ''-''"
    by (auto simp: list_all_iff)
qed

text \<open>C24: Every name given to a Gateway Target, with or without a tag, is one that the service takes:
  from 1 to 100 letters, digits and single dashes between them, however long the name of the asset is
  and whatever characters it has.\<close>

theorem target_names_valid:
  assumes "hash_ok hash"
  shows "valid_target_name (gateway_target_name hash name) \<and>
    (case tagged_target_name hash name tag of
       None \<Rightarrow> upper (strip tag) \<notin> set sensitivity_tags
     | Some t \<Rightarrow> valid_target_name t \<and> upper (strip tag) \<in> set sensitivity_tags)"
proof -
  note base = target_name_parts [OF assms, of name]
  have tags: "dget SENSITIVITY_TARGET_SUFFIXES t = None \<longleftrightarrow> t \<notin> set sensitivity_tags" for t
  proof -
    have "set (dkeys SENSITIVITY_TARGET_SUFFIXES) = set sensitivity_tags" by code_simp
    then show ?thesis by (simp add: map_of_eq_None_iff dkeys_def)
  qed
  show ?thesis
  proof (cases "dget SENSITIVITY_TARGET_SUFFIXES (upper (strip tag))")
    case None
    with tags have "upper (strip tag) \<notin> set sensitivity_tags" by blast
    with None base show ?thesis by (simp add: tagged_target_name_def valid_target_name_def)
  next
    case (Some sfx)
    note sfx = suffix_facts [OF Some]
    have "valid_target_name (gateway_target_name hash name @ sfx)"
      unfolding valid_target_name_def using base sfx dash_separated_append [OF base(3,1,4) sfx(3)] by simp
    moreover from Some have "upper (strip tag) \<in> set sensitivity_tags" using tags by force
    ultimately show ?thesis using Some base
      by (simp add: tagged_target_name_def valid_target_name_def)
  qed
qed

theorem target_names_valid_witness:
  "valid_target_name (gateway_target_name (\<lambda>_. ''0123456789'') ''My_Notes (v2)'') \<and>
   gateway_target_name (\<lambda>_. ''0123456789'') ''My_Notes (v2)'' = ''my-notes-v2'' \<and>
   tagged_target_name (\<lambda>_. ''0123456789'') ''--'' ''read'' = Some ''mcp-01234567-read''"
proof -
  have "list_all ascii_alnum ''0123456789'' \<and> 8 \<le> length ''0123456789''" by code_simp
  then have "hash_ok (\<lambda>_. ''0123456789'')" unfolding hash_ok_def by blast
  from target_names_valid [OF this, of "''My_Notes (v2)''" "''read''"]
  have "valid_target_name (gateway_target_name (\<lambda>_. ''0123456789'') ''My_Notes (v2)'')" by blast
  moreover have "gateway_target_name (\<lambda>_. ''0123456789'') ''My_Notes (v2)'' = ''my-notes-v2''"
    "tagged_target_name (\<lambda>_. ''0123456789'') ''--'' ''read'' = Some ''mcp-01234567-read''"
    by code_simp+
  ultimately show ?thesis by simp
qed

section \<open>Slugs keep the name of the Target\<close>

text \<open>The runs of letters and digits of a text, \<open>run\<close> the one that has begun.\<close>

fun alnum_runs :: "string \<Rightarrow> string \<Rightarrow> string list" where
  "alnum_runs run [] = (if run = [] then [] else [run])"
| "alnum_runs run (c # cs) =
     (if ascii_alnum c then alnum_runs (run @ [c]) cs
      else (if run = [] then [] else [run]) @ alnum_runs [] cs)"

fun joined :: "string list \<Rightarrow> string" where
  "joined [] = []"
| "joined [x] = x"
| "joined (x # xs) = x @ CHR ''-'' # joined xs"

lemma joined_Cons: "xs \<noteq> [] \<Longrightarrow> joined (x # xs) = x @ CHR ''-'' # joined xs"
  by (cases xs) simp_all

lemma runs_nonempty: "run \<noteq> [] \<or> list_ex ascii_alnum s \<Longrightarrow> alnum_runs run s \<noteq> []"
  by (induction run s rule: alnum_runs.induct) auto

lemma joined_runs:
  "dash_separated (run = []) s \<Longrightarrow> s = [] \<or> last s \<noteq> CHR ''-'' \<Longrightarrow> joined (alnum_runs run s) = run @ s"
proof (induction run s rule: alnum_runs.induct)
  case (2 run c cs)
  show ?case
  proof (cases "ascii_alnum c")
    case True
    with 2 show ?thesis by (cases "cs = []") simp_all
  next
    case False
    with 2(3) have c: "c = CHR ''-''" "run \<noteq> []" "dash_separated True cs" by simp_all
    have "cs \<noteq> []" using 2(4) c(1) by (cases cs) simp_all
    with 2(4) have cs: "cs \<noteq> []" "last cs \<noteq> CHR ''-''" by simp_all
    then obtain d ds where "cs = d # ds" by (cases cs) auto
    moreover from this c(3) have "ascii_alnum d" by (metis starts_alnum)
    ultimately have "list_ex ascii_alnum cs" by simp
    then have "alnum_runs [] cs \<noteq> []" using runs_nonempty by blast
    with False 2(2) c cs show ?thesis by (simp add: joined_Cons)
  qed
qed simp

lemma runs_dashed:
  "(\<And>c. ascii_alnum c \<Longrightarrow> ok c) \<Longrightarrow> inside \<longrightarrow> run = [] \<Longrightarrow>
     alnum_runs run (dashed ok inside s) = alnum_runs run s"
proof (induction s arbitrary: run inside)
  case (Cons c s)
  then show ?case by (cases "ok c"; cases inside) auto
qed simp

lemma runs_single: "after \<longrightarrow> run = [] \<Longrightarrow> alnum_runs run (single_dashes after s) = alnum_runs run s"
proof (induction s arbitrary: run after)
  case (Cons c s)
  then show ?case by (cases "c = CHR ''-''"; cases after) simp_all
qed simp

lemma runs_ldrop: "(\<And>c. P c \<Longrightarrow> \<not> ascii_alnum c) \<Longrightarrow> alnum_runs [] (dropWhile P s) = alnum_runs [] s"
  by (induction s) simp_all

lemma runs_append_rest: "list_all (\<lambda>c. \<not> ascii_alnum c) t \<Longrightarrow> alnum_runs run (s @ t) = alnum_runs run s"
proof (induction run s rule: alnum_runs.induct)
  case (1 run)
  then have "alnum_runs [] t = []" by (induction t) simp_all
  with 1 show ?case by (cases t) simp_all
qed simp

lemma runs_rstrip: "list_all (\<lambda>c. \<not> ascii_alnum c) chars \<Longrightarrow> alnum_runs run (rstrip_chars chars s) = alnum_runs run s"
proof -
  assume chars: "list_all (\<lambda>c. \<not> ascii_alnum c) chars"
  let ?rest = "rev (takeWhile (\<lambda>c. c \<in> set chars) (rev s))"
  have s: "s = rstrip_chars chars s @ ?rest"
    unfolding rstrip_chars_def by (metis rev_append rev_rev_ident takeWhile_dropWhile_id)
  have "list_all (\<lambda>c. \<not> ascii_alnum c) ?rest"
    using chars by (auto simp: list_all_iff dest: set_takeWhileD)
  then have "alnum_runs run (rstrip_chars chars s @ ?rest) = alnum_runs run (rstrip_chars chars s)"
    by (rule runs_append_rest)
  with s show ?thesis by simp
qed

lemma runs_strip: "list_all (\<lambda>c. \<not> ascii_alnum c) chars \<Longrightarrow> alnum_runs [] (strip_chars chars s) = alnum_runs [] s"
  unfolding strip_chars_def by (simp add: runs_rstrip) (rule runs_ldrop, auto simp: list_all_iff)

lemma runs_casefold: "alnum_runs (casefold run) (casefold s) = map casefold (alnum_runs run s)"
  by (induction run s rule: alnum_runs.induct) (simp_all add: casefold_def)

lemma joined_casefold: "joined (map casefold xs) = casefold (joined xs)"
  by (induction xs rule: joined.induct) (simp_all add: casefold_def ascii_lower_def)

lemma ascii_lower_idem [simp]: "ascii_lower (ascii_lower c) = ascii_lower c"
proof -
  have "(of_char (ascii_lower (ascii_lower c)) :: nat) = of_char (ascii_lower c)"
    by (simp add: of_char_ascii_lower)
  then show ?thesis by simp
qed

lemma casefold_idem [simp]: "casefold (casefold s) = casefold s"
  by (simp add: casefold_def)

text \<open>The name without its tag and limit is a function of the runs.\<close>

lemma words_joined: "strip_chars ''-'' (dashed ascii_alnum False s) = joined (alnum_runs [] s)"
proof -
  let ?t = "strip_chars ''-'' (dashed ascii_alnum False s)"
  have "?t = [] \<or> last ?t \<noteq> CHR ''-''"
    unfolding strip_chars_def using last_rstrip [of "''-''"] by fastforce
  then have "joined (alnum_runs [] ?t) = ?t" using joined_runs [of "[]" ?t] dash_separated_words by simp
  moreover have "alnum_runs [] ?t = alnum_runs [] s" by (simp add: runs_strip runs_dashed)
  ultimately show ?thesis by simp
qed

lemma normalized_joined:
  "normalized_gateway_target_prefix hash name =
     (if alnum_runs [] name = [] then ''mcp-'' @ take 8 (hash name) else casefold (joined (alnum_runs [] name)))"
proof -
  have id: "single_dashes False (joined (alnum_runs [] name)) = joined (alnum_runs [] name)"
    using single_dashes_id [OF dash_separated_mono [OF dash_separated_words [of name]]]
    by (simp add: words_joined)
  have ne: "casefold (joined (alnum_runs [] name)) = [] \<longleftrightarrow> alnum_runs [] name = []"
  proof
    assume "casefold (joined (alnum_runs [] name)) = []"
    then have "strip_chars ''-'' (dashed ascii_alnum False name) = []" by (simp add: words_joined casefold_def)
    moreover have "alnum_runs [] (strip_chars ''-'' (dashed ascii_alnum False name)) = alnum_runs [] name"
      by (simp add: runs_strip runs_dashed)
    ultimately show "alnum_runs [] name = []" by simp
  qed (simp add: casefold_def)
  show ?thesis unfolding normalized_gateway_target_prefix_def Let_def words_joined id using ne by simp
qed

lemma no_runs: "alnum_runs [] s = [] \<longleftrightarrow> \<not> list_ex ascii_alnum s"
proof
  assume "\<not> list_ex ascii_alnum s"
  then show "alnum_runs [] s = []" by (induction s) simp_all
qed (use runs_nonempty in blast)

lemma hd_strip_chars: "strip_chars chars s \<noteq> [] \<Longrightarrow> hd (strip_chars chars s) \<notin> set chars"
proof (cases "dropWhile (\<lambda>c. c \<in> set chars) s")
  case (Cons c cs)
  then have "c \<notin> set chars" using hd_dropWhile [of "\<lambda>c. c \<in> set chars" s] by simp
  with Cons show ?thesis by (simp add: strip_chars_def rstrip_starts)
qed (simp add: strip_chars_def rstrip_chars_def)

lemma set_strip_chars: "set (strip_chars chars s) \<subseteq> set s"
  unfolding strip_chars_def rstrip_chars_def
  by (auto dest!: set_dropWhileD)

lemma set_single_dashes: "set (single_dashes p s) \<subseteq> set s"
  by (induction p s rule: single_dashes.induct) auto

lemma set_dashed: "c \<in> set (dashed ok p s) \<Longrightarrow> ok c \<or> c = CHR ''-''"
  by (induction s arbitrary: p) (auto split: if_splits)

text \<open>What is left of a slug begins with a letter or a digit.\<close>

lemma stripped_slug:
  "strip_chars ''-._'' (single_dashes False (dashed slug_char False s)) = [] \<or>
     list_ex ascii_alnum (strip_chars ''-._'' (single_dashes False (dashed slug_char False s)))" (is "?t = [] \<or> _")
proof (cases ?t)
  case (Cons c cs)
  then have c: "c \<notin> set ''-._''" using hd_strip_chars [of "''-._''" "single_dashes False (dashed slug_char False s)"] by simp
  have "c \<in> set ?t" using Cons by simp
  then have "c \<in> set (dashed slug_char False s)" using set_strip_chars set_single_dashes by blast
  with c have "slug_char c" using set_dashed by fastforce
  with c have "ascii_alnum c" by (auto simp: slug_char_def)
  with Cons show ?thesis by simp
qed simp

text \<open>Lower case on code points and on characters.\<close>

lemma seen_as_append [simp]: "seen_as (s @ t) = seen_as s @ seen_as t"
  by (simp add: seen_as_def)

lemma lower_point_seen:
  assumes "n \<noteq> CAPITAL_I_DOT" "n \<noteq> KELVIN_SIGN"
  shows "seen_as (lower_point n) = casefold (seen_as [n])"
proof (cases "n < 128")
  case True
  then have "(of_char (char_of n :: char) :: nat) = n" by (simp add: of_char_of)
  with True assms show ?thesis by (auto simp: lower_point_def seen_as_def casefold_def ascii_lower_def Let_def)
next
  case False
  have "ascii_lower (CHR 0x80) = CHR 0x80" by code_simp
  with False assms show ?thesis by (simp add: lower_point_def seen_as_def casefold_def)
qed

lemma lower_text_seen:
  "CAPITAL_I_DOT \<notin> set points \<Longrightarrow> KELVIN_SIGN \<notin> set points \<Longrightarrow> seen_as (lower_text points) = casefold (seen_as points)"
proof (induction points)
  case (Cons n points)
  have "seen_as (lower_point n) = casefold (seen_as [n])" using Cons.prems by (intro lower_point_seen) auto
  with Cons show ?case by (simp add: lower_text_def) (simp add: seen_as_def casefold_def)
qed (simp add: lower_text_def seen_as_def casefold_def)

lemma lower_text_lowered: "casefold (seen_as (lower_text points)) = seen_as (lower_text points)"
proof -
  have "casefold (seen_as (lower_point n)) = seen_as (lower_point n)" for n
  proof (cases "n = CAPITAL_I_DOT \<or> n = KELVIN_SIGN")
    case True
    moreover have "casefold (seen_as (lower_point CAPITAL_I_DOT)) = seen_as (lower_point CAPITAL_I_DOT)"
      "casefold (seen_as (lower_point KELVIN_SIGN)) = seen_as (lower_point KELVIN_SIGN)" by code_simp+
    ultimately show ?thesis by blast
  next
    case False
    then show ?thesis by (simp add: lower_point_seen)
  qed
  then show ?thesis by (induction points) (simp_all add: lower_text_def casefold_def seen_as_def)
qed

lemma lower_text_alnum: "list_ex ascii_alnum (seen_as points) \<Longrightarrow> list_ex ascii_alnum (seen_as (lower_text points))"
proof (induction points)
  case (Cons n points)
  have "list_ex ascii_alnum (seen_as (lower_point n))" if "list_ex ascii_alnum (seen_as [n])"
  proof -
    have "n \<noteq> CAPITAL_I_DOT \<and> n \<noteq> KELVIN_SIGN"
    proof -
      have "\<not> list_ex ascii_alnum (seen_as [CAPITAL_I_DOT])" "\<not> list_ex ascii_alnum (seen_as [KELVIN_SIGN])"
        by code_simp+
      with that show ?thesis by blast
    qed
    with that show ?thesis by (simp add: lower_point_seen casefold_def list_ex_iff)
  qed
  with Cons show ?case by (auto simp: lower_text_def) (auto simp: seen_as_def)
qed (simp add: seen_as_def)

lemma runs_slug_dashed:
  "casefold s = s \<Longrightarrow> inside \<longrightarrow> run = [] \<Longrightarrow> alnum_runs run (dashed slug_char inside s) = alnum_runs run s"
proof (induction s arbitrary: run inside)
  case (Cons c s)
  then have low: "ascii_lower c = c" "casefold s = s" by (simp_all add: casefold_def)
  show ?case
  proof (cases "slug_char c")
    case True
    with Cons.IH [OF low(2)] show ?thesis by simp
  next
    case False
    with low(1) have "\<not> ascii_alnum c" by (simp add: slug_char_def)
    with False Cons.IH [OF low(2)] Cons.prems(2) show ?thesis by simp
  qed
qed simp

text \<open>C25: A record that was stored under the slug of its name still leads to the Target of the name. For
  every text with an ASCII letter or digit the name of the Target of the slug is the name of the Target
  of the text, unless the text has one of the two characters whose lower case has an ASCII letter; with
  these it is the name of the Target of the text in lower case. Without a letter or digit the slug is the
  hash of the text, and what the text leads to begins with \<open>mcp-\<close>, so it cannot be recovered from the
  slug.\<close>

theorem slug_keeps_target_name:
  "if list_ex ascii_alnum (seen_as (lower_text points))
   then gateway_target_name slug_hash (slugify hash points) = text_target_name hash (lower_text points) \<and>
     (if CAPITAL_I_DOT \<in> set points \<or> KELVIN_SIGN \<in> set points then True
      else gateway_target_name slug_hash (slugify hash points) = text_target_name hash points)
   else slugify hash points = take 8 (hash points) \<and>
     text_target_name hash points = rstrip_chars ''-'' (take 93 (''mcp-'' @ take 8 (hash points)))"
proof -
  let ?low = "seen_as (lower_text points)"
  let ?slug = "strip_chars ''-._'' (single_dashes False (dashed slug_char False ?low))"
  have "alnum_runs [] (dashed slug_char False ?low) = alnum_runs [] ?low"
    by (simp add: runs_slug_dashed lower_text_lowered)
  moreover have "list_all (\<lambda>c. \<not> ascii_alnum c) ''-._''" by code_simp
  ultimately have runs: "alnum_runs [] ?slug = alnum_runs [] ?low"
    by (simp only: runs_strip) (simp add: runs_single)
  show ?thesis
  proof (cases "list_ex ascii_alnum ?low")
    case True
    then have some: "alnum_runs [] ?low \<noteq> []" by (simp add: no_runs)
    with runs have "?slug \<noteq> []" by (metis alnum_runs.simps(1))
    then have slug: "slugify hash points = ?slug" by (simp add: slugify_def Let_def)
    have pre: "normalized_gateway_target_prefix slug_hash ?slug = casefold (joined (alnum_runs [] ?low))"
      using some by (simp only: normalized_joined runs if_False)
    have "normalized_gateway_target_prefix h ?low = casefold (joined (alnum_runs [] ?low))" for h
      using some by (simp only: normalized_joined if_False)
    with pre have low: "gateway_target_name slug_hash (slugify hash points) = text_target_name hash (lower_text points)"
      by (simp only: slug gateway_target_name_def text_target_name_def)
    have "gateway_target_name slug_hash (slugify hash points) = text_target_name hash points"
      if "\<not> (CAPITAL_I_DOT \<in> set points \<or> KELVIN_SIGN \<in> set points)"
    proof -
      have eq: "?low = casefold (seen_as points)" using that by (intro lower_text_seen) auto
      have words: "alnum_runs [] ?low = map casefold (alnum_runs [] (seen_as points))"
        using runs_casefold [of "[]" "seen_as points"] unfolding eq by (simp add: casefold_def)
      with some have "normalized_gateway_target_prefix (\<lambda>_. hash points) (seen_as points) =
          casefold (joined (alnum_runs [] ?low))"
        by (simp add: normalized_joined joined_casefold)
      with pre show ?thesis by (simp only: slug gateway_target_name_def text_target_name_def)
    qed
    with low True show ?thesis by auto
  next
    case False
    then have "alnum_runs [] ?low = []" "alnum_runs [] (seen_as points) = []"
      using lower_text_alnum [of points] by (auto simp: no_runs)
    moreover from this runs have "alnum_runs [] ?slug = []" by simp
    moreover have "?slug = [] \<or> list_ex ascii_alnum ?slug" using stripped_slug by blast
    ultimately have "slugify hash points = take 8 (hash points)" by (auto simp: slugify_def Let_def no_runs)
    with False show ?thesis
      using \<open>alnum_runs [] (seen_as points) = []\<close> by (simp add: text_target_name_def gateway_target_name_def normalized_joined)
  qed
qed

text \<open>The Kelvin sign between two letters: the slug has a letter that the name of the Target has not.\<close>

lemma kelvin_sign_slug:
  "slugify hash [97, KELVIN_SIGN, 98] = ''akb'' \<and> text_target_name hash [97, KELVIN_SIGN, 98] = ''a-b''"
proof -
  have slug: "strip_chars ''-._'' (single_dashes False (dashed slug_char False (seen_as (lower_text [97, KELVIN_SIGN, 98])))) = ''akb''"
    by code_simp
  have "alnum_runs [] (seen_as [97, KELVIN_SIGN, 98]) = [''a'', ''b'']"
    "rstrip_chars ''-'' (take GATEWAY_TARGET_PREFIX_LIMIT (casefold (joined [''a'', ''b'']))) = ''a-b''" by code_simp+
  with slug show ?thesis
    by (simp add: slugify_def Let_def text_target_name_def gateway_target_name_def normalized_joined)
qed

section \<open>Slices partition the tools\<close>

text \<open>The tools of a document, those that are objects.\<close>

definition tools_in :: "(string \<Rightarrow> json option) \<Rightarrow> string \<Rightarrow> (string \<times> json) list list" where
  "tools_in parse s = (case tools_document parse s of None \<Rightarrow> [] | Some (_, items) \<Rightarrow> List.map_filter as_obj items)"

lemma map_filter_as_obj [simp]: "List.map_filter as_obj (map JObj xs) = xs"
  by (induction xs) (simp_all add: List.map_filter_simps)

lemma dput_twice [simp]: "dput k v (dput k w d) = dput k v d"
  by (induction d) auto

lemma slice_document:
  assumes "parse (dump (JObj (dput ''tools'' (JArr (map JObj mine)) doc))) =
      Some (JObj (dput ''tools'' (JArr (map JObj mine)) doc))"
  shows "tools_document parse (dump (JObj (dput ''tools'' (JArr (map JObj mine)) doc))) =
    Some (dput ''tools'' (JArr (map JObj mine)) doc, map JObj mine)"
  using assms by (simp add: tools_document_def jget_def)

lemma partition_by_tag:
  "distinct tags \<Longrightarrow>
     mset (concat (map (\<lambda>tag. filter (\<lambda>t. f t = tag) xs) tags)) + mset (filter (\<lambda>t. f t \<notin> set tags) xs) = mset xs"
proof (induction tags)
  case (Cons a tags)
  have "mset (filter (\<lambda>t. f t \<notin> set tags) xs) =
      mset (filter (\<lambda>t. f t = a) xs) + mset (filter (\<lambda>t. f t \<notin> set (a # tags)) xs)"
    using Cons.prems by (induction xs) auto
  with Cons show ?case by (simp add: ac_simps)
qed simp

lemma map_filter_if:
  "List.map_filter (\<lambda>x. if P x then None else Some (f x)) xs = map f (filter (\<lambda>x. \<not> P x) xs)"
  by (induction xs) (simp_all add: List.map_filter_simps)

lemma target_name_of_tag:
  "tag \<in> set sensitivity_tags \<Longrightarrow>
     dget (gateway_target_names hash name) tag = Some (gateway_target_name hash name @ CHR ''-'' # casefold tag)"
proof -
  have suffixes: "dget SENSITIVITY_TARGET_SUFFIXES (upper (strip t)) = Some (CHR ''-'' # casefold t)"
    if "t \<in> set sensitivity_tags" for t
  proof -
    have "list_all (\<lambda>t. dget SENSITIVITY_TARGET_SUFFIXES (upper (strip t)) = Some (CHR ''-'' # casefold t)) sensitivity_tags"
      by code_simp
    with that show ?thesis by (simp add: list_all_iff)
  qed
  have "gateway_target_names hash name = map (\<lambda>t. (t, gateway_target_name hash name @ CHR ''-'' # casefold t)) sensitivity_tags"
  proof -
    have "List.map_filter (\<lambda>tag. map_option (Pair tag) (tagged_target_name hash name tag)) ts =
        map (\<lambda>t. (t, gateway_target_name hash name @ CHR ''-'' # casefold t)) ts"
      if "set ts \<subseteq> set sensitivity_tags" for ts
      using that
    proof (induction ts)
      case (Cons t ts)
      then have "t \<in> set sensitivity_tags" by simp
      with suffixes Cons show ?case by (simp add: List.map_filter_simps tagged_target_name_def)
    qed (simp add: List.map_filter_simps)
    then show ?thesis by (simp add: gateway_target_names_def)
  qed
  moreover assume "tag \<in> set sensitivity_tags"
  moreover have "map_of (map (\<lambda>t. (t, f t)) ts) x = (if x \<in> set ts then Some (f x) else None)" for ts and x :: string and f :: "string \<Rightarrow> string"
    by (induction ts) auto
  ultimately show ?thesis by (simp only: if_True)
qed

lemma slices_eq:
  "List.map_filter (slice_of hash repr dump name doc tools) sensitivity_tags =
     map (\<lambda>tag. let mine = filter (\<lambda>t. tool_tag t = tag) tools in
         \<lparr>ts_sensitivity = tag, ts_gateway_target_name = gateway_target_name hash name @ CHR ''-'' # casefold tag,
          ts_tools_inline = dump (JObj (dput ''tools'' (JArr (map JObj mine)) doc)),
          ts_operations = map (\<lambda>tool. py_str repr (jget tool ''name''))
            (filter (\<lambda>tool. truthy (jget tool ''name'')) mine)\<rparr>)
       (filter (\<lambda>tag. list_ex (\<lambda>t. tool_tag t = tag) tools) sensitivity_tags)"
proof -
  have "List.map_filter (slice_of hash repr dump name doc tools) ts =
     map (\<lambda>tag. let mine = filter (\<lambda>t. tool_tag t = tag) tools in
         \<lparr>ts_sensitivity = tag, ts_gateway_target_name = gateway_target_name hash name @ CHR ''-'' # casefold tag,
          ts_tools_inline = dump (JObj (dput ''tools'' (JArr (map JObj mine)) doc)),
          ts_operations = map (\<lambda>tool. py_str repr (jget tool ''name''))
            (filter (\<lambda>tool. truthy (jget tool ''name'')) mine)\<rparr>)
       (filter (\<lambda>tag. list_ex (\<lambda>t. tool_tag t = tag) tools) ts)" if "set ts \<subseteq> set sensitivity_tags" for ts
    using that
  proof (induction ts)
    case (Cons t ts)
    then have "t \<in> set sensitivity_tags" by simp
    moreover have "filter (\<lambda>x. tool_tag x = t) tools = [] \<longleftrightarrow> \<not> list_ex (\<lambda>x. tool_tag x = t) tools"
      by (auto simp: filter_empty_conv list_ex_iff)
    ultimately show ?case using Cons target_name_of_tag [of t hash name]
      by (simp add: List.map_filter_simps slice_of_def Let_def)
  qed (simp add: List.map_filter_simps)
  then show ?thesis by simp
qed

lemma split_document:
  assumes "tools_document parse s = Some (doc, items)" "List.map_filter as_obj items = tools"
  shows "split_target_slices hash parse repr dump name s =
    Some \<lparr>sl_slices = map (\<lambda>tag. let mine = filter (\<lambda>t. tool_tag t = tag) tools in
         \<lparr>ts_sensitivity = tag, ts_gateway_target_name = gateway_target_name hash name @ CHR ''-'' # casefold tag,
          ts_tools_inline = dump (JObj (dput ''tools'' (JArr (map JObj mine)) doc)),
          ts_operations = map (\<lambda>tool. py_str repr (jget tool ''name''))
            (filter (\<lambda>tool. truthy (jget tool ''name'')) mine)\<rparr>)
       (filter (\<lambda>tag. list_ex (\<lambda>t. tool_tag t = tag) tools) sensitivity_tags),
      sl_unassigned_tools = List.map_filter (unassigned_of repr) tools\<rparr>"
  using assms by (simp add: split_target_slices_def slices_eq Let_def)

lemma concat_map_filter: "(\<And>x. P x \<or> f x = []) \<Longrightarrow> concat (map f (filter P xs)) = concat (map f xs)"
  by (induction xs) auto

text \<open>C23: The Targets of an MCP server partition its tools. If printing and parsing JSON restores it,
  then every tool of the document is in the text of exactly one slice or reported as unassigned, none
  is lost or twice there; the slices follow the order of the tags, each with a name of its own; and
  splitting the text of a slice again gives that slice and nothing unassigned.\<close>

theorem slices_partition_tools:
  assumes "\<And>j. parse (dump j) = Some j" "split_target_slices hash parse repr dump name s = Some plan"
  shows "mset (concat (map (\<lambda>sl. tools_in parse (ts_tools_inline sl)) (sl_slices plan))) +
      mset (filter (\<lambda>t. unassigned_of repr t \<noteq> None) (tools_in parse s)) = mset (tools_in parse s) \<and>
    sl_unassigned_tools plan = List.map_filter (unassigned_of repr) (tools_in parse s) \<and>
    subseq (map ts_sensitivity (sl_slices plan)) sensitivity_tags \<and>
    distinct (map ts_gateway_target_name (sl_slices plan)) \<and>
    list_all (\<lambda>sl. split_target_slices hash parse repr dump name (ts_tools_inline sl) =
      Some \<lparr>sl_slices = [sl], sl_unassigned_tools = []\<rparr>) (sl_slices plan)"
proof -
  from assms(2) obtain doc items where doc: "tools_document parse s = Some (doc, items)"
    by (auto simp: split_target_slices_def split: option.splits)
  let ?tools = "List.map_filter as_obj items"
  let ?has = "\<lambda>tag. list_ex (\<lambda>t. tool_tag t = tag) ?tools"
  let ?mine = "\<lambda>tag. filter (\<lambda>t. tool_tag t = tag) ?tools"
  let ?doc = "\<lambda>tag. dput ''tools'' (JArr (map JObj (?mine tag))) doc"
  let ?slice = "\<lambda>tag. let mine = ?mine tag in
     \<lparr>ts_sensitivity = tag, ts_gateway_target_name = gateway_target_name hash name @ CHR ''-'' # casefold tag,
      ts_tools_inline = dump (JObj (dput ''tools'' (JArr (map JObj mine)) doc)),
      ts_operations = map (\<lambda>tool. py_str repr (jget tool ''name''))
        (filter (\<lambda>tool. truthy (jget tool ''name'')) mine)\<rparr>"
  let ?tags = "filter ?has sensitivity_tags"
  have slices: "sl_slices plan = map ?slice ?tags"
    and rest: "sl_unassigned_tools plan = List.map_filter (unassigned_of repr) ?tools"
    using assms(2) doc by (auto simp: split_target_slices_def slices_eq Let_def)
  have tools: "tools_in parse s = ?tools" using doc by (simp add: tools_in_def)
  have of_slice: "tools_document parse (ts_tools_inline (?slice tag)) = Some (?doc tag, map JObj (?mine tag))" for tag
    using slice_document [of parse dump, OF assms(1)] by (simp add: Let_def)
  then have tools_of: "tools_in parse (ts_tools_inline (?slice tag)) = ?mine tag" for tag
    by (simp only: tools_in_def option.case prod.case map_filter_as_obj)
  have tags: "distinct sensitivity_tags" "[] \<notin> set sensitivity_tags" by (simp_all add: sensitivity_tags_eval)
  have "concat (map (\<lambda>sl. tools_in parse (ts_tools_inline sl)) (sl_slices plan)) = concat (map ?mine ?tags)"
    by (simp only: slices map_map comp_def tools_of)
  also have "\<dots> = concat (map ?mine sensitivity_tags)"
    by (rule concat_map_filter) (auto simp: filter_empty_conv list_ex_iff)
  finally have in_slices: "concat (map (\<lambda>sl. tools_in parse (ts_tools_inline sl)) (sl_slices plan)) = \<dots>" .
  have unassigned: "(unassigned_of repr t \<noteq> None) = (tool_tag t \<notin> set sensitivity_tags)" for t
    using tags(2) by (auto simp: unassigned_of_def)
  have names: "distinct (map ts_gateway_target_name (sl_slices plan))"
  proof -
    have "inj_on casefold (set sensitivity_tags)"
      by (simp add: sensitivity_tags_eval casefold_def) code_simp
    then have "inj_on casefold (set ?tags)" by (rule inj_on_subset) auto
    moreover have "distinct ?tags" using tags(1) by simp
    ultimately show ?thesis unfolding slices by (simp add: distinct_map o_def Let_def inj_on_def)
  qed
  have again: "split_target_slices hash parse repr dump name (ts_tools_inline (?slice tag)) =
      Some \<lparr>sl_slices = [?slice tag], sl_unassigned_tools = []\<rparr>" if "tag \<in> set ?tags" for tag
  proof -
    have only: "filter (\<lambda>tag'. list_ex (\<lambda>t. tool_tag t = tag') (?mine tag)) sensitivity_tags = [tag]"
      using tags(1) that by (intro filter_singleton) (auto simp: list_ex_iff)
    have none: "List.map_filter (unassigned_of repr) (?mine tag) = []"
      using that tags(2) by (auto simp: List.map_filter_def filter_empty_conv unassigned_of_def)
    show ?thesis
      unfolding split_target_slices_def of_slice by (simp add: slices_eq only none Let_def)
  qed
  show ?thesis
    using partition_by_tag [OF tags(1), of tool_tag ?tools] in_slices rest tools unassigned names again
    by (simp add: slices list_all_iff o_def Let_def subseq_filter_left)
qed

text \<open>JSON in unary: a printer and a parser that restore every value.\<close>

instance json :: countable
  by countable_datatype

definition unary_of_json :: "json \<Rightarrow> string" where
  "unary_of_json j = replicate (to_nat j) CHR ''1''"

definition json_of_unary :: "string \<Rightarrow> json option" where
  "json_of_unary s = Some (from_nat (length s))"

lemma unary_json [simp]: "json_of_unary (unary_of_json j) = Some j"
  by (simp add: json_of_unary_def unary_of_json_def)

definition tagged_tools :: json where
  "tagged_tools = JObj [(''tools'', JArr
     [JObj [(''name'', JStr ''purge''), (''sensitivity'', JStr ''delete'')],
      JObj [(''name'', JStr ''get''), (''sensitivity'', JStr '' READ '')],
      JObj [(''name'', JStr ''copy'')],
      JObj [(''name'', JStr ''list''), (''sensitivity'', JStr ''READ'')]])]"

theorem slices_partition_tools_witness:
  "\<exists>plan. split_target_slices (\<lambda>_. ''0123456789'') json_of_unary (\<lambda>_. []) unary_of_json ''notes'' (unary_of_json tagged_tools) = Some plan \<and>
     map ts_gateway_target_name (sl_slices plan) = [''notes-read'', ''notes-delete''] \<and>
     map ts_operations (sl_slices plan) = [[''get'', ''list''], [''purge'']] \<and>
     sl_unassigned_tools plan = [Tag_missing ''copy''] \<and>
     list_all (\<lambda>sl. split_target_slices (\<lambda>_. ''0123456789'') json_of_unary (\<lambda>_. []) unary_of_json ''notes'' (ts_tools_inline sl) =
       Some \<lparr>sl_slices = [sl], sl_unassigned_tools = []\<rparr>) (sl_slices plan)"
proof -
  let ?split = "split_target_slices (\<lambda>_. ''0123456789'') json_of_unary (\<lambda>_. []) unary_of_json ''notes''"
  let ?tools = "[[(''name'', JStr ''purge''), (''sensitivity'', JStr ''delete'')],
      [(''name'', JStr ''get''), (''sensitivity'', JStr '' READ '')],
      [(''name'', JStr ''copy'')],
      [(''name'', JStr ''list''), (''sensitivity'', JStr ''READ'')]]"
  let ?doc = "[(''tools'', JArr (map JObj ?tools))]"
  have "tools_document json_of_unary (unary_of_json tagged_tools) = Some (?doc, map JObj ?tools)"
    by (simp add: tools_document_def tagged_tools_def jget_def)
  note split = split_document [OF this map_filter_as_obj]
  obtain plan where plan: "?split (unary_of_json tagged_tools) = Some plan" using split by blast
  note parts = trans [OF plan [symmetric] split, unfolded option.inject]
  have facts: "filter (\<lambda>tag. list_ex (\<lambda>t. tool_tag t = tag) ?tools) sensitivity_tags = [''READ'', ''DELETE'']"
    "map (\<lambda>tool. py_str (\<lambda>_. []) (jget tool ''name'')) (filter (\<lambda>tool. truthy (jget tool ''name''))
      (filter (\<lambda>t. tool_tag t = ''READ'') ?tools)) = [''get'', ''list'']"
    "map (\<lambda>tool. py_str (\<lambda>_. []) (jget tool ''name'')) (filter (\<lambda>tool. truthy (jget tool ''name''))
      (filter (\<lambda>t. tool_tag t = ''DELETE'') ?tools)) = [''purge'']"
    "List.map_filter (unassigned_of (\<lambda>_. [])) ?tools = [Tag_missing ''copy'']"
    "gateway_target_name (\<lambda>_. ''0123456789'') ''notes'' = ''notes''"
    "casefold ''READ'' = ''read''" "casefold ''DELETE'' = ''delete''"
    by code_simp+
  have "map ts_gateway_target_name (sl_slices plan) = [''notes-read'', ''notes-delete'']"
    "map ts_operations (sl_slices plan) = [[''get'', ''list''], [''purge'']]"
    "sl_unassigned_tools plan = [Tag_missing ''copy'']"
    by (simp_all only: parts target_split.simps target_slice.simps facts list.map Let_def append.simps)
  with plan slices_partition_tools [OF unary_json plan, THEN conjunct2, THEN conjunct2, THEN conjunct2, THEN conjunct2]
  show ?thesis by (intro exI [of _ plan] conjI)
qed

text \<open>The search for a collision compares names without tags: a server connected under the name of
  another one's slice is not found.\<close>

lemma slice_name_not_reserved:
  "tagged_target_name hash ''notes'' ''READ'' = Some (gateway_target_name hash ''notes read'') \<and>
   find_gateway_target_name_collision hash
     [r\<lparr>rr_name := ''notes'', rr_descriptors := [(''mcp'', JObj [(''gatewayTargetName'', JStr ''notes'')])]\<rparr>]
     (gateway_target_name hash ''notes read'') [] = None"
proof -
  have runs: "alnum_runs [] ''notes'' = [''notes'']" "alnum_runs [] ''notes read'' = [''notes'', ''read'']" by code_simp+
  have names: "rstrip_chars ''-'' (take 93 (casefold (joined [''notes'']))) = ''notes''"
    "rstrip_chars ''-'' (take 93 (casefold (joined [''notes'', ''read'']))) = ''notes-read''"
    "dget SENSITIVITY_TARGET_SUFFIXES (upper (strip ''READ'')) = Some ''-read''" "strip ''notes'' = ''notes''"
    by code_simp+
  have "gateway_target_name hash ''notes'' = ''notes''" "gateway_target_name hash ''notes read'' = ''notes-read''"
    unfolding gateway_target_name_def normalized_joined runs reserve_eval using names(1,2) by simp_all
  then show ?thesis using names(3,4)
    by (simp add: tagged_target_name_def find_gateway_target_name_collision_def mcp_target_name_def
        stored_target_name_def resolved_gateway_target_name_def jget_def Let_def)
qed

end
