(* ===== verification/Deploy_Jobs.thy ===== *)
theory Deploy_Jobs
  imports Target_Names Policy_Engine
begin

text \<open>
  Deployment of MCP servers, \<open>runtime/deploy/jobs.py\<close>: a job is advanced one phase per poll, from
  the build over the Lambda and the Gateway Targets to the Registry record. Each call of the port, of
  the guard and of the services it hands over to is a function of a world that answers or raises;
  what was called and answered is kept in order. The job is a mutable object of the code: an exception
  leaves what was written to it before.
\<close>

section \<open>Jobs\<close>

datatype deploy_phase = QUEUED | BUILDING | REGISTERING_TARGET | DEPLOYING | PROVISIONING | VERIFYING | READY | FAILED

definition terminal_phase :: "deploy_phase \<Rightarrow> bool" where
  "terminal_phase p \<longleftrightarrow> p \<in> {READY, FAILED}"

record source_ref =
  sr_asset_id :: string
  sr_version :: string

record build_artifact =
  ba_build_type :: string
  ba_uri :: string
  ba_tools_inline :: string

record build_status =
  bs_state :: string
  bs_reason :: string
  bs_artifact :: "build_artifact option"

record lambda_deployment =
  ld_arn :: string
  ld_created :: bool

record target_status =
  tg_state :: string
  tg_reason :: string

text \<open>An entry of the ledger of Gateway Targets.\<close>

record target_entry =
  tn_sensitivity :: string
  tn_gateway_target_name :: string
  tn_target_id :: "string option"
  tn_operations :: "string list"
  tn_state :: string
  tn_action :: string
  tn_error :: "service_exc option"
  tn_created :: bool

text \<open>Why a job failed, and what stands in the way of going on.\<close>

datatype tools_error = Tools_unreadable | Tools_no_list | Tools_missing "string list"

datatype topology_error =
    Topology_unknown
  | Topology_legacy
  | Topology_unverified string
  | Topology_two_names string
  | Topology_two_owners string
  | Topology_plan_two_owners string
  | Topology_changed "string list" "string list" "string list" "string list"
      \<comment> \<open>moved operations; renamed, added and removed tags\<close>

datatype deploy_failure =
    Build_failed string
  | Tools_unusable tools_error
  | Split_impossible
  | Topology_refused topology_error
  | Lambda_failed service_exc
  | Targets_failed "(string \<times> service_exc) list"
  | Target_failed string
  | Register_failed service_exc
  | Policy_raised service_exc
  | Policy_not_ok string string
  | Guard_pending string string              \<comment> \<open>the status and the reason\<close>
  | Sanitized_missing

datatype compensation_note =
    Redeploy_retained
  | Owner_unproven
  | Owner_check_failed service_exc
  | Compensation_errors "(string \<times> service_exc) list" "string option"
      \<comment> \<open>deletions that failed; a Target kept because nothing shows who created it. The Lambda is
        always kept.\<close>

record job_error =
  je_phase :: string
  je_cause :: deploy_failure
  je_change :: "(string \<times> json) list option"
  je_impact :: "json list option"
  je_diverged :: "(string \<times> json) list list option"
  je_skipped :: "compensation_note option"
  je_compensation :: "compensation_note option"

definition job_failure :: "string \<Rightarrow> deploy_failure \<Rightarrow> job_error" where
  "job_failure phase cause =
     \<lparr>je_phase = phase, je_cause = cause, je_change = None, je_impact = None, je_diverged = None,
      je_skipped = None, je_compensation = None\<rparr>"

text \<open>The fields that the path of MCP servers uses; of \<open>meta\<close> the texts, with its tags apart.\<close>

record deploy_job =
  dj_job_id :: string
  dj_phase :: deploy_phase
  dj_principal :: string
  dj_source_ref :: source_ref
  dj_meta :: "(string, string) dict"
  dj_tags :: "string list"
  dj_build_type :: string
  dj_asset_type :: string
  dj_updated_at :: string
  dj_build_id :: "string option"
  dj_artifact_uri :: "string option"
  dj_lambda_arn :: "string option"
  dj_target_id :: "string option"
  dj_gateway_targets :: "target_entry list"
  dj_gateway_target_quota :: "json option"
  dj_unassigned_tools :: "unassigned_tool list"
  dj_gateway_url :: "string option"
  dj_tools_inline :: "string option"
  dj_record_id :: "string option"
  dj_error :: "job_error option"
  dj_redeploy_runtime_id :: "string option"
  dj_redeploy_record_id :: "string option"
  dj_redeploy_target_snapshot :: "json option"
  dj_shared_policy_report :: "(string \<times> json) list option"
  dj_read_access_report :: "(service_exc + json) option"
  dj_selected_tools :: "string list"
  dj_resource_owner_id :: "string option"
  dj_state_revision :: nat

text \<open>Truth values of an optional text, and a text of the \<open>meta\<close>, empty where absent.\<close>

definition text_of :: "string option \<Rightarrow> string" where
  "text_of x = (case x of None \<Rightarrow> [] | Some s \<Rightarrow> s)"

definition is_redeploy :: "deploy_job \<Rightarrow> bool" where
  "is_redeploy job \<longleftrightarrow> text_of (dj_redeploy_runtime_id job) \<noteq> [] \<or> text_of (dj_redeploy_record_id job) \<noteq> []"

definition meta_text :: "deploy_job \<Rightarrow> string \<Rightarrow> string" where
  "meta_text job k = text_of (dget (dj_meta job) k)"

section \<open>The port\<close>

datatype port_event =
    Build_started string "string + string"
  | Build_read string "string + build_status"
  | Guard_asked "string + json"
  | Lambda_written bool string "string + lambda_deployment"   \<comment> \<open>whether an update; the name\<close>
  | Target_found string "string + string option"
  | Target_updated string string string string "string + bool"
      \<comment> \<open>its id, name, Lambda and tools\<close>
  | Target_wired string string string "string + string"
  | Quota_observed "string + json"
  | Target_read string "string + target_status"
  | Target_deleted string "string + unit"
  | Owner_checked string "string + unit"
  | Endpoint_read "string + string"
  | Registered "string + string"
  | Policy_provisioned "string + (string \<times> json) list"
  | Read_provisioned "string + json"

text \<open>The parameters: the port of AWS, the guard and the two provisionings where they are wired, the
  registration, the clock, this process's id; the hash, JSON and numbers of the library.\<close>

record 'w deploy_env =
  de_start_build :: "'w \<Rightarrow> string \<Rightarrow> source_ref \<Rightarrow> string \<Rightarrow> string \<Rightarrow> (string + string) \<times> 'w"
  de_build_status :: "'w \<Rightarrow> string \<Rightarrow> (string + build_status) \<times> 'w"
  de_guard :: "('w \<Rightarrow> string \<Rightarrow> string \<Rightarrow> string \<Rightarrow> (string + json) \<times> 'w) option"
  de_update_lambda :: "'w \<Rightarrow> string \<Rightarrow> build_artifact \<Rightarrow> deploy_job \<Rightarrow> (string + lambda_deployment) \<times> 'w"
  de_create_lambda :: "'w \<Rightarrow> string \<Rightarrow> build_artifact \<Rightarrow> deploy_job \<Rightarrow> (string + lambda_deployment) \<times> 'w"
  de_find_target :: "'w \<Rightarrow> string \<Rightarrow> (string + string option) \<times> 'w"
  de_update_target :: "'w \<Rightarrow> string \<Rightarrow> string \<Rightarrow> string \<Rightarrow> string \<Rightarrow> (string + bool) \<times> 'w"
  de_wire_target :: "'w \<Rightarrow> string \<Rightarrow> string \<Rightarrow> string \<Rightarrow> string \<Rightarrow> (string + string) \<times> 'w"
  de_observe_quota :: "'w \<Rightarrow> (string + json) \<times> 'w"
  de_target_status :: "'w \<Rightarrow> string \<Rightarrow> (string + target_status) \<times> 'w"
  de_delete_target :: "'w \<Rightarrow> string \<Rightarrow> (string + unit) \<times> 'w"
  de_verify_owner :: "'w \<Rightarrow> string \<Rightarrow> deploy_job \<Rightarrow> (string + unit) \<times> 'w"
  de_endpoint :: "'w \<Rightarrow> (string + string) \<times> 'w"
  de_register :: "'w \<Rightarrow> deploy_job \<Rightarrow> (string + string) \<times> 'w"
  de_policy :: "('w \<Rightarrow> deploy_job \<Rightarrow> (string + (string \<times> json) list) \<times> 'w) option"
  de_read_access :: "('w \<Rightarrow> deploy_job \<Rightarrow> (string + json) \<times> 'w) option"
  de_now :: "'w \<Rightarrow> string \<times> 'w"
  de_owner_id :: string
  de_hash :: "string \<Rightarrow> string"
  de_parse :: "string \<Rightarrow> json option"
  de_dump :: "json \<Rightarrow> string"
  de_repr :: "json \<Rightarrow> string"
  de_float :: "string \<Rightarrow> rat"

record 'w deploy_state =
  dp_job :: deploy_job
  dp_world :: 'w
  dp_events :: "port_event list"

type_synonym ('w, 'a) deploy_action = "('w deploy_state, 'a ending) state"

definition called ::
  "('w \<Rightarrow> (string + 'a) \<times> 'w) \<Rightarrow> (string + 'a \<Rightarrow> port_event) \<Rightarrow> ('w, 'a) deploy_action" where
  "called f event = State (\<lambda>st. case f (dp_world st) of (r, w) \<Rightarrow>
     (answered r, st\<lparr>dp_world := w, dp_events := dp_events st @ [event r]\<rparr>))"

definition the_job :: "('w, deploy_job) deploy_action" where
  "the_job = State (\<lambda>st. (Returned (dp_job st), st))"

definition on_job :: "(deploy_job \<Rightarrow> deploy_job) \<Rightarrow> ('w, unit) deploy_action" where
  "on_job f = State (\<lambda>st. (Returned (), st\<lparr>dp_job := f (dp_job st)\<rparr>))"

text \<open>\<open>job.updated_at = now()\<close>\<close>

definition touched :: "'w deploy_env \<Rightarrow> ('w, unit) deploy_action" where
  "touched env = State (\<lambda>st. case de_now env (dp_world st) of (t, w) \<Rightarrow>
     (Returned (), st\<lparr>dp_world := w, dp_job := (dp_job st)\<lparr>dj_updated_at := t\<rparr>\<rparr>))"

section \<open>Failing\<close>

definition skip_note :: "string \<Rightarrow> deploy_job \<Rightarrow> compensation_note option" where
  "skip_note owner job =
     (if is_redeploy job \<and> dj_resource_owner_id job \<noteq> None then Some Redeploy_retained
      else if text_of (dj_lambda_arn job) \<noteq> [] \<and> dj_resource_owner_id job \<noteq> Some owner \<and> \<not> is_redeploy job
      then Some Owner_unproven
      else None)"

text \<open>\<open>_fail\<close>\<close>

definition failed_job :: "'w deploy_env \<Rightarrow> string \<Rightarrow> deploy_failure \<Rightarrow> ('w, unit) deploy_action" where
  "failed_job env phase cause =
     try_bind (on_job (\<lambda>job. job\<lparr>dj_phase := FAILED, dj_error := Some (job_failure phase cause)\<rparr>)) (\<lambda>_.
     try_bind (touched env) (\<lambda>_.
     on_job (\<lambda>job. job\<lparr>dj_error := map_option (\<lambda>e. e\<lparr>je_skipped := skip_note (de_owner_id env) job\<rparr>) (dj_error job)\<rparr>)))"

text \<open>\<open>compensate_failure\<close>: the entries after their deletions, and what failed.\<close>

fun delete_created ::
  "'w deploy_env \<Rightarrow> target_entry list \<Rightarrow> ('w, target_entry list \<times> (string \<times> service_exc) list) deploy_action" where
  "delete_created env [] = give ([], [])"
| "delete_created env (t # ts) =
     (let tid = text_of (tn_target_id t) in
      if tid = [] \<or> \<not> tn_created t
      then try_bind (delete_created env ts) (\<lambda>(us, errors). give (t # us, errors))
      else try_bind (attempt (called (\<lambda>w. de_delete_target env w tid) (Target_deleted tid))) (\<lambda>r.
        try_bind (delete_created env ts) (\<lambda>(us, errors).
        give (case r of
          Inr _ \<Rightarrow> (t\<lparr>tn_state := ''DELETED'', tn_action := ''COMPENSATED''\<rparr> # us, errors)
        | Inl e \<Rightarrow> (t\<lparr>tn_state := ''FAILED'', tn_error := Some e\<rparr> # us,
            (if tn_gateway_target_name t \<noteq> [] then tn_gateway_target_name t else tid, e) # errors)))))"

definition noted_compensation :: "compensation_note \<Rightarrow> deploy_job \<Rightarrow> deploy_job" where
  "noted_compensation note job =
     job\<lparr>dj_error := map_option (\<lambda>e. e\<lparr>je_compensation := Some note\<rparr>) (dj_error job)\<rparr>"

definition compensate_failure :: "'w deploy_env \<Rightarrow> ('w, bool) deploy_action" where
  "compensate_failure env =
     try_bind the_job (\<lambda>job.
     if dj_phase job \<noteq> FAILED \<or> text_of (dj_lambda_arn job) = [] \<or> is_redeploy job \<or>
        dj_resource_owner_id job \<noteq> Some (de_owner_id env)
     then give False
     else
       let arn = text_of (dj_lambda_arn job) in
       try_bind (attempt (called (\<lambda>w. de_verify_owner env w arn job) (Owner_checked arn))) (\<lambda>r.
       case r of
         Inl e \<Rightarrow> try_bind (on_job (noted_compensation (Owner_check_failed e))) (\<lambda>_. give True)
       | Inr _ \<Rightarrow>
           if dj_gateway_targets job \<noteq> []
           then try_bind (delete_created env (dj_gateway_targets job)) (\<lambda>(entries, errors).
             try_bind (on_job (\<lambda>job. noted_compensation (Compensation_errors errors None)
               (job\<lparr>dj_gateway_targets := entries\<rparr>))) (\<lambda>_. give True))
           else try_bind (on_job (noted_compensation (Compensation_errors []
               (if text_of (dj_target_id job) \<noteq> [] then dj_target_id job else None)))) (\<lambda>_. give True)))"

section \<open>The tools of a build\<close>

text \<open>\<open>_selected_tools_inline\<close>. A document that is not an object has no \<open>get\<close>: that exception is not
  one the caller handles.\<close>

datatype selection = Selected string | Selection_refused tools_error | Selection_raises

definition unhashable :: "json \<Rightarrow> bool" where
  "unhashable j = (case j of JArr _ \<Rightarrow> True | JObj _ \<Rightarrow> True | _ \<Rightarrow> False)"

definition selected_tools_inline ::
  "(string \<Rightarrow> json option) \<Rightarrow> (json \<Rightarrow> string) \<Rightarrow> string \<Rightarrow> string list \<Rightarrow> selection" where
  "selected_tools_inline parse dump tools_inline selected =
     (if selected = [] then Selected tools_inline
      else case parse tools_inline of
        None \<Rightarrow> Selection_refused Tools_unreadable
      | Some (JObj payload) \<Rightarrow>
          (case jget payload ''tools'' of
             JArr tools \<Rightarrow>
               (let objs = List.map_filter as_obj tools;
                    kept = filter (\<lambda>t. \<exists>s \<in> set selected. jget t ''name'' = JStr s) objs;
                    missing = sorted_set (filter (\<lambda>s. \<not> list_ex (\<lambda>t. jget t ''name'' = JStr s) kept) selected) in
                if list_ex (\<lambda>t. unhashable (jget t ''name'')) objs then Selection_refused Tools_unreadable
                else if missing \<noteq> [] then Selection_refused (Tools_missing missing)
                else Selected (dump (JObj (dput ''tools'' (JArr (map JObj kept)) payload))))
           | _ \<Rightarrow> Selection_refused Tools_no_list)
      | Some _ \<Rightarrow> Selection_raises)"

section \<open>The quota of Targets\<close>

definition number_of :: "(string \<Rightarrow> rat) \<Rightarrow> json \<Rightarrow> rat option" where
  "number_of float j = (case j of JInt n \<Rightarrow> Some (of_int n) | JFloat t \<Rightarrow> Some (float t) | _ \<Rightarrow> None)"

definition number_with :: "(string \<Rightarrow> rat) \<Rightarrow> (rat \<Rightarrow> bool) \<Rightarrow> json \<Rightarrow> bool" where
  "number_with float P j = (case number_of float j of None \<Rightarrow> False | Some x \<Rightarrow> P x)"

definition quota_sources :: "(string \<times> json) list" where
  "quota_sources = [(''current'', JStr ''ListGatewayTargets''), (''quota'', JStr ''ServiceQuotas.GetServiceQuota'')]"

definition unknown_quota :: "string \<Rightarrow> json" where
  "unknown_quota reason = JObj [(''status'', JStr ''unknown''), (''current'', JNull), (''quota'', JNull),
     (''usage_ratio'', JNull), (''threshold_ratio'', JFloat ''0.7''), (''threshold_reached'', JNull),
     (''reason'', JStr reason), (''sources'', JObj quota_sources)]"

definition same_object :: "(string \<times> json) list \<Rightarrow> (string \<times> json) list \<Rightarrow> bool" where
  "same_object a b \<longleftrightarrow> set (map fst a) = set (map fst b) \<and> list_all (\<lambda>k. map_of a k = map_of b k) (map fst a)"

definition quota_valid :: "(string \<Rightarrow> rat) \<Rightarrow> (string \<times> json) list \<Rightarrow> bool" where
  "quota_valid float q \<longleftrightarrow>
     (case jget q ''sources'' of JObj s \<Rightarrow> same_object s quota_sources | _ \<Rightarrow> False) \<and>
     number_with float (\<lambda>x. 0 < x \<and> x \<le> 1) (jget q ''threshold_ratio'') \<and>
     (if jget q ''status'' = JStr ''ok''
      then (case jget q ''current'' of JInt n \<Rightarrow> 0 \<le> n | _ \<Rightarrow> False) \<and>
        number_with float (\<lambda>x. 0 < x) (jget q ''quota'') \<and>
        number_with float (\<lambda>x. 0 \<le> x) (jget q ''usage_ratio'') \<and>
        (case jget q ''threshold_reached'' of JBool _ \<Rightarrow> True | _ \<Rightarrow> False)
      else if jget q ''status'' = JStr ''unknown''
      then jget q ''current'' = JNull \<and> jget q ''quota'' = JNull \<and> jget q ''usage_ratio'' = JNull \<and>
        jget q ''threshold_reached'' = JNull \<and>
        (case jget q ''reason'' of JStr r \<Rightarrow> strip r \<noteq> [] | _ \<Rightarrow> False)
      else False)"

definition observe_gateway_target_quota :: "'w deploy_env \<Rightarrow> ('w, json) deploy_action" where
  "observe_gateway_target_quota env =
     try_bind (attempt (called (de_observe_quota env) Quota_observed)) (\<lambda>r.
     give (case r of
       Inl (Remote_failed x) \<Rightarrow> unknown_quota x
     | Inr (JObj q) \<Rightarrow> if quota_valid (de_float env) q then JObj q
         else unknown_quota ''Gateway target quota probe returned an invalid result''
     | _ \<Rightarrow> unknown_quota ''Gateway target quota probe returned an invalid result''))"

section \<open>The topology before a redeployment\<close>

definition json_text :: "(json \<Rightarrow> string) \<Rightarrow> json \<Rightarrow> string" where
  "json_text repr j = py_str repr (j_or j (JStr []))"

text \<open>The owners of operations, first come first kept; the operation that has two.\<close>

fun owners_of ::
  "string \<Rightarrow> string list \<Rightarrow> (string, string) dict \<Rightarrow> string + (string, string) dict" where
  "owners_of tag [] owners = Inr owners"
| "owners_of tag (x # xs) owners =
     (case dget owners x of
        None \<Rightarrow> owners_of tag xs (dput x tag owners)
      | Some t \<Rightarrow> if t \<noteq> tag then Inl x else owners_of tag xs owners)"

text \<open>Names and owners of the Targets of a snapshot.\<close>

fun prior_topology ::
  "(json \<Rightarrow> string) \<Rightarrow> json list \<Rightarrow> (string, string) dict \<Rightarrow> (string, string) dict
     \<Rightarrow> topology_error + (string, string) dict \<times> (string, string) dict" where
  "prior_topology repr [] names owners = Inr (names, owners)"
| "prior_topology repr (t # ts) names owners =
     (case t of
        JObj target \<Rightarrow>
          (let tag = upper (strip (json_text repr (jget target ''sensitivity'')));
               name = strip (json_text repr (jget target ''gateway_target_name'')) in
           case jget target ''operations'' of
             JArr ops \<Rightarrow>
               if tag = [] \<or> name = [] then Inl Topology_unknown
               else if dget names tag \<noteq> None \<and> dget names tag \<noteq> Some name then Inl (Topology_two_names tag)
               else (case owners_of tag (stripped_nonempty (map (py_str repr) ops)) owners of
                  Inl x \<Rightarrow> Inl (Topology_two_owners x)
                | Inr owners' \<Rightarrow>
                    prior_topology repr ts (if dget names tag = None then dput tag name names else names) owners')
           | _ \<Rightarrow> Inl Topology_unknown)
      | _ \<Rightarrow> Inl Topology_unknown)"

fun desired_owners :: "target_slice list \<Rightarrow> (string, string) dict \<Rightarrow> string + (string, string) dict" where
  "desired_owners [] owners = Inr owners"
| "desired_owners (sl # sls) owners =
     (case owners_of (ts_sensitivity sl) (ts_operations sl) owners of
        Inl x \<Rightarrow> Inl x
      | Inr owners' \<Rightarrow> desired_owners sls owners')"

text \<open>Keys of both that differ in value, and keys of the first that the second has not.\<close>

definition changed_keys :: "(string, string) dict \<Rightarrow> (string, string) dict \<Rightarrow> string list" where
  "changed_keys a b = sorted_set (filter (\<lambda>k. dget b k \<noteq> None \<and> dget a k \<noteq> dget b k) (dkeys a))"

definition new_keys :: "(string, string) dict \<Rightarrow> (string, string) dict \<Rightarrow> string list" where
  "new_keys a b = sorted_set (filter (\<lambda>k. dget b k = None) (dkeys a))"

definition redeploy_topology_error ::
  "(json \<Rightarrow> string) \<Rightarrow> deploy_job \<Rightarrow> target_split \<Rightarrow> topology_error option" where
  "redeploy_topology_error repr job plan =
     (if \<not> is_redeploy job then None
      else case dj_redeploy_target_snapshot job of
        Some (JObj snapshot) \<Rightarrow>
          (if jget snapshot ''mode'' = JStr ''legacy'' then Some Topology_legacy
           else if jget snapshot ''mode'' \<noteq> JStr ''split''
           then Some (Topology_unverified (json_text repr (jget snapshot ''reason'')))
           else case jget snapshot ''targets'' of
             JArr targets \<Rightarrow>
               (case prior_topology repr targets [] [] of
                  Inl e \<Rightarrow> Some e
                | Inr (names, owners) \<Rightarrow>
                    (case desired_owners (sl_slices plan) [] of
                       Inl x \<Rightarrow> Some (Topology_plan_two_owners x)
                     | Inr wanted \<Rightarrow>
                         (let planned = fold (\<lambda>sl. dput (ts_sensitivity sl) (ts_gateway_target_name sl)) (sl_slices plan) [];
                              moved = changed_keys owners wanted; renamed = changed_keys names planned;
                              added = new_keys planned names; removed = new_keys names planned in
                          if moved = [] \<and> renamed = [] \<and> added = [] \<and> removed = [] then None
                          else Some (Topology_changed moved renamed added removed))))
           | _ \<Rightarrow> Some Topology_unknown)
      | _ \<Rightarrow> Some Topology_unknown)"

section \<open>Targets of the slices\<close>

definition new_entry :: "target_slice \<Rightarrow> target_entry" where
  "new_entry sl =
     \<lparr>tn_sensitivity = ts_sensitivity sl, tn_gateway_target_name = ts_gateway_target_name sl,
      tn_target_id = None, tn_operations = ts_operations sl, tn_state = ''ABSENT'', tn_action = ''NONE'',
      tn_error = None, tn_created = False\<rparr>"

definition failed_entry :: "service_exc \<Rightarrow> target_entry \<Rightarrow> target_entry" where
  "failed_entry e t = t\<lparr>tn_state := ''FAILED'', tn_error := Some e\<rparr>"

text \<open>A Target created, by its name and this job's id as the client's token.\<close>

definition wired ::
  "'w deploy_env \<Rightarrow> deploy_job \<Rightarrow> target_slice \<Rightarrow> ('w, string) deploy_action" where
  "wired env job sl =
     (let name = ts_gateway_target_name sl; arn = text_of (dj_lambda_arn job) in
      called (\<lambda>w. de_wire_target env w name arn (ts_tools_inline sl) (dj_job_id job))
        (Target_wired name arn (ts_tools_inline sl)))"

text \<open>One slice: its entry, and its failure if there is one.\<close>

definition reconcile_slice ::
  "'w deploy_env \<Rightarrow> deploy_job \<Rightarrow> target_slice \<Rightarrow> ('w, target_entry) deploy_action" where
  "reconcile_slice env job sl =
     (let name = ts_gateway_target_name sl; arn = text_of (dj_lambda_arn job); entry = new_entry sl in
      try_bind (attempt (called (\<lambda>w. de_find_target env w name) (Target_found name))) (\<lambda>r.
      case r of
        Inl e \<Rightarrow> give (failed_entry e entry)
      | Inr found \<Rightarrow>
          let existing = text_of found in
          if is_redeploy job \<and> existing \<noteq> []
          then try_bind (attempt (called
              (\<lambda>w. de_update_target env w existing name arn (ts_tools_inline sl))
              (Target_updated existing name arn (ts_tools_inline sl)))) (\<lambda>r.
            give (case r of
              Inl e \<Rightarrow> failed_entry e (entry\<lparr>tn_target_id := Some existing\<rparr>)
            | Inr changed \<Rightarrow> entry\<lparr>tn_target_id := Some existing,
                tn_action := (if changed then ''UPDATE'' else ''NOOP''), tn_state := ''SYNCHRONIZING''\<rparr>))
          else try_bind (attempt (wired env job sl)) (\<lambda>r.
            give (case r of
              Inl e \<Rightarrow> failed_entry e entry
            | Inr tid \<Rightarrow>
                if existing \<noteq> [] \<and> tid \<noteq> existing
                then failed_entry (Remote_failed ''RuntimeError: idempotent create returned a different target'') entry
                else entry\<lparr>tn_target_id := Some tid, tn_created := True, tn_state := ''SYNCHRONIZING'',
                  tn_action := (if existing \<noteq> [] then ''CREATE_RETRY'' else ''CREATE'')\<rparr>))))"

fun reconcile_slices ::
  "'w deploy_env \<Rightarrow> deploy_job \<Rightarrow> target_slice list \<Rightarrow> ('w, target_entry list) deploy_action" where
  "reconcile_slices env job [] = give []"
| "reconcile_slices env job (sl # sls) =
     try_bind (reconcile_slice env job sl) (\<lambda>entry.
     try_bind (reconcile_slices env job sls) (\<lambda>entries. give (entry # entries)))"

definition target_failures :: "target_entry list \<Rightarrow> (string \<times> service_exc) list" where
  "target_failures entries =
     List.map_filter (\<lambda>t. if tn_state t = ''FAILED''
       then map_option (Pair (tn_gateway_target_name t)) (tn_error t) else None) entries"

text \<open>The Target that stands for all in the older field: the first with an id that did not fail.\<close>

definition first_target :: "target_entry list \<Rightarrow> string option" where
  "first_target entries =
     (case find (\<lambda>t. tn_sensitivity t \<noteq> [] \<and> text_of (tn_target_id t) \<noteq> [] \<and>
          tn_state t \<notin> {''ABSENT'', ''DELETED'', ''FAILED''}) entries of
        None \<Rightarrow> None
      | Some t \<Rightarrow> tn_target_id t)"

definition reconcile_gateway_targets ::
  "'w deploy_env \<Rightarrow> target_split \<Rightarrow> ('w, (string \<times> service_exc) list) deploy_action" where
  "reconcile_gateway_targets env plan =
     try_bind (on_job (\<lambda>job. job\<lparr>dj_unassigned_tools := sl_unassigned_tools plan\<rparr>)) (\<lambda>_.
     try_bind the_job (\<lambda>job.
     try_bind (reconcile_slices env job (sl_slices plan)) (\<lambda>entries.
     try_bind (on_job (\<lambda>job. job\<lparr>dj_gateway_targets := entries\<rparr>)) (\<lambda>_.
     try_bind (if dj_gateway_target_quota job = None \<and>
           list_ex (\<lambda>t. tn_created t \<and> text_of (tn_target_id t) \<noteq> []) entries
         then try_bind (observe_gateway_target_quota env) (\<lambda>q. on_job (\<lambda>job. job\<lparr>dj_gateway_target_quota := Some q\<rparr>))
         else give ()) (\<lambda>_.
     try_bind (on_job (\<lambda>job. job\<lparr>dj_target_id := first_target entries\<rparr>)) (\<lambda>_.
     give (target_failures entries)))))))"

section \<open>The guard of a redeployment\<close>

definition unknown_decision :: "(string \<times> json) list" where
  "unknown_decision = [(''status'', JStr ''unknown'')]"

text \<open>What the guard decides on the tools of the build; \<open>unknown\<close> where it is not wired, raises or
  answers no object.\<close>

definition guard_decision :: "'w deploy_env \<Rightarrow> ('w, (string \<times> json) list) deploy_action" where
  "guard_decision env =
     (case de_guard env of
        None \<Rightarrow> give unknown_decision
      | Some ask_guard \<Rightarrow>
          try_bind the_job (\<lambda>job.
          try_bind (attempt (called (\<lambda>w. ask_guard w (text_of (dj_redeploy_record_id job))
              (text_of (dj_tools_inline job)) (dj_principal job)) Guard_asked)) (\<lambda>r.
          give (case r of Inr (JObj d) \<Rightarrow> d | _ \<Rightarrow> unknown_decision))))"

text \<open>The error of a job that waits for an approval.\<close>

definition pending_error :: "(json \<Rightarrow> string) \<Rightarrow> (string \<times> json) list \<Rightarrow> job_error" where
  "pending_error repr d =
     (job_failure ''sensitivity_approval''
        (Guard_pending (py_str repr (j_or (jget d ''status'') (JStr ''unknown''))) (json_text repr (jget d ''reason''))))
       \<lparr>je_change := as_obj (jget d ''change''), je_impact := as_arr (jget d ''impact'')\<rparr>"

text \<open>The changes that were applied: those of the decision, and the one this job waited for.\<close>

definition applied_changes ::
  "job_error option \<Rightarrow> (string \<times> json) list \<Rightarrow> (string \<times> json) list list" where
  "applied_changes prior d =
     (let changes = (case jget d ''changes'' of JArr xs \<Rightarrow> List.map_filter as_obj xs | _ \<Rightarrow> []) in
      case prior of
        Some e \<Rightarrow>
          if je_phase e = ''sensitivity_approval''
          then (case je_change e of
             Some c \<Rightarrow> if list_ex (\<lambda>x. jget x ''request_id'' = jget c ''request_id'') changes then changes
               else changes @ [c]
           | None \<Rightarrow> changes)
          else changes
      | None \<Rightarrow> changes)"

text \<open>The part of the building phase that a redeployment goes through first: the changes applied, or
  \<open>None\<close> where the job waits.\<close>

definition approved ::
  "'w deploy_env \<Rightarrow> ('w, (string \<times> json) list list option) deploy_action" where
  "approved env =
     try_bind the_job (\<lambda>job.
     if \<not> is_redeploy job then give (Some [])
     else
       try_bind (guard_decision env) (\<lambda>d.
       if jget d ''status'' \<noteq> JStr ''ready''
       then try_bind (on_job (\<lambda>job. job\<lparr>dj_error := Some (pending_error (de_repr env) d)\<rparr>)) (\<lambda>_.
         try_bind (touched env) (\<lambda>_. give None))
       else case jget d ''tools_inline'' of
         JStr tools \<Rightarrow>
           try_bind (on_job (\<lambda>job. job\<lparr>dj_tools_inline := Some tools, dj_error := None\<rparr>)) (\<lambda>_.
           give (Some (applied_changes (dj_error job) d)))
       | _ \<Rightarrow>
           try_bind (on_job (\<lambda>job. job\<lparr>dj_error := Some (job_failure ''sensitivity_approval'' Sanitized_missing)\<rparr>)) (\<lambda>_.
           try_bind (touched env) (\<lambda>_. give None))))"

section \<open>One step of a job\<close>

definition display_name :: "deploy_job \<Rightarrow> string" where
  "display_name job = (if meta_text job ''name'' \<noteq> [] then meta_text job ''name'' else dj_job_id job)"

definition lambda_name :: "'w deploy_env \<Rightarrow> deploy_job \<Rightarrow> string" where
  "lambda_name env job =
     (if meta_text job ''_gateway_target_name'' \<noteq> [] then meta_text job ''_gateway_target_name''
      else gateway_target_name (de_hash env) (display_name job))"

definition write_lambda :: "'w deploy_env \<Rightarrow> build_artifact \<Rightarrow> ('w, unit) deploy_action" where
  "write_lambda env artifact =
     try_bind the_job (\<lambda>job.
     let name = lambda_name env job;
         write_call = (if is_redeploy job then de_update_lambda env else de_create_lambda env) in
     try_bind (called (\<lambda>w. write_call w name artifact job) (Lambda_written (is_redeploy job) name)) (\<lambda>d.
     on_job (\<lambda>job. job\<lparr>dj_lambda_arn := Some (ld_arn d),
       dj_resource_owner_id := (if ld_created d then Some (de_owner_id env) else dj_resource_owner_id job)\<rparr>)))"

text \<open>The tools of the artifact, or of the job.\<close>

definition built_tools :: "build_artifact \<Rightarrow> deploy_job \<Rightarrow> string option" where
  "built_tools artifact job = (if ba_tools_inline artifact \<noteq> [] then Some (ba_tools_inline artifact) else dj_tools_inline job)"

text \<open>The plan of the Targets, and on to the Lambda and them.\<close>

definition deploy_plan ::
  "'w deploy_env \<Rightarrow> build_artifact \<Rightarrow> (string \<times> json) list list \<Rightarrow> target_split \<Rightarrow> ('w, unit) deploy_action" where
  "deploy_plan env artifact changes plan =
     try_bind (on_job (\<lambda>job. job\<lparr>dj_unassigned_tools := sl_unassigned_tools plan\<rparr>)) (\<lambda>_.
     try_bind the_job (\<lambda>job.
     case (if de_guard env = None then redeploy_topology_error (de_repr env) job plan else None) of
       Some e \<Rightarrow> failed_job env ''building'' (Topology_refused e)
     | None \<Rightarrow>
         try_bind (attempt (write_lambda env artifact)) (\<lambda>r.
         case r of
           Inl e \<Rightarrow>
             try_bind (failed_job env ''building'' (Lambda_failed e)) (\<lambda>_.
             on_job (\<lambda>job. if is_redeploy job \<and> changes \<noteq> []
               then job\<lparr>dj_error := map_option (\<lambda>x. x\<lparr>je_diverged := Some changes\<rparr>) (dj_error job)\<rparr> else job))
         | Inr _ \<Rightarrow>
             try_bind (reconcile_gateway_targets env plan) (\<lambda>errors.
             if errors \<noteq> [] then failed_job env ''building'' (Targets_failed errors)
             else try_bind (on_job (\<lambda>job. job\<lparr>dj_phase := REGISTERING_TARGET\<rparr>)) (\<lambda>_. touched env)))))"

definition advance_building :: "'w deploy_env \<Rightarrow> ('w, unit) deploy_action" where
  "advance_building env =
     try_bind the_job (\<lambda>job.
     let build = text_of (dj_build_id job) in
     try_bind (called (\<lambda>w. de_build_status env w build) (Build_read build)) (\<lambda>bs.
     if bs_state bs = ''IN_PROGRESS'' then give ()
     else if bs_state bs = ''FAILED''
     then failed_job env ''building'' (Build_failed (if bs_reason bs \<noteq> [] then bs_reason bs else ''build failed''))
     else
       let artifact = (case bs_artifact bs of Some a \<Rightarrow> a
         | None \<Rightarrow> \<lparr>ba_build_type = dj_build_type job, ba_uri = [], ba_tools_inline = []\<rparr>) in
       try_bind (on_job (\<lambda>job. job\<lparr>dj_artifact_uri := Some (ba_uri artifact), dj_tools_inline := built_tools artifact job\<rparr>)) (\<lambda>_.
       case selected_tools_inline (de_parse env) (de_dump env) (text_of (built_tools artifact job)) (dj_selected_tools job) of
         Selection_refused e \<Rightarrow> failed_job env ''building'' (Tools_unusable e)
       | Selection_raises \<Rightarrow> throw (Remote_failed ''AttributeError'')
       | Selected tools \<Rightarrow>
           try_bind (on_job (\<lambda>job. job\<lparr>dj_tools_inline := Some tools\<rparr>)) (\<lambda>_.
           try_bind (approved env) (\<lambda>changes.
           case changes of
             None \<Rightarrow> give ()
           | Some changes \<Rightarrow>
               try_bind the_job (\<lambda>job.
               case split_target_slices (de_hash env) (de_parse env) (de_repr env) (de_dump env)
                   (display_name job) (text_of (dj_tools_inline job)) of
                 None \<Rightarrow> failed_job env ''building'' Split_impossible
               | Some plan \<Rightarrow> deploy_plan env artifact changes plan))))))"

text \<open>The entries that are asked about, and one of them after its status was read.\<close>

definition awaited :: "target_entry \<Rightarrow> bool" where
  "awaited t \<longleftrightarrow> tn_sensitivity t \<noteq> [] \<and> text_of (tn_target_id t) \<noteq> [] \<and> tn_state t \<notin> {''ABSENT'', ''DELETED''}"

definition observed_entry :: "service_exc + target_status \<Rightarrow> target_entry \<Rightarrow> target_entry" where
  "observed_entry r t =
     (case r of
        Inl e \<Rightarrow> failed_entry e t
      | Inr s \<Rightarrow>
          if tg_state s = ''SYNCHRONIZING'' then t\<lparr>tn_state := ''SYNCHRONIZING''\<rparr>
          else if tg_state s = ''READY'' then t\<lparr>tn_state := ''READY'', tn_error := None\<rparr>
          else failed_entry (Remote_failed (''RuntimeError: '' @
            (if tg_reason s \<noteq> [] then tg_reason s else ''gateway target failed''))) t)"

text \<open>The entries after the round, whether one is still synchronizing, and what failed in it.\<close>

fun observe_entries ::
  "'w deploy_env \<Rightarrow> target_entry list
     \<Rightarrow> ('w, target_entry list \<times> bool \<times> (string \<times> service_exc) list) deploy_action" where
  "observe_entries env [] = give ([], False, [])"
| "observe_entries env (t # ts) =
     (if \<not> awaited t
      then try_bind (observe_entries env ts) (\<lambda>(us, syncing, errors). give (t # us, syncing, errors))
      else
        let tid = text_of (tn_target_id t) in
        try_bind (attempt (called (\<lambda>w. de_target_status env w tid) (Target_read tid))) (\<lambda>r.
        let u = observed_entry r t in
        try_bind (observe_entries env ts) (\<lambda>(us, syncing, errors).
        give (u # us, syncing \<or> tn_state u = ''SYNCHRONIZING'',
          (if tn_state u = ''FAILED'' then target_failures [u] else []) @ errors))))"

text \<open>Whether the Targets are ready: \<open>None\<close> where the job is done with for this poll.\<close>

definition targets_ready :: "'w deploy_env \<Rightarrow> ('w, bool) deploy_action" where
  "targets_ready env =
     try_bind the_job (\<lambda>job.
     if dj_gateway_targets job \<noteq> []
     then try_bind (observe_entries env (dj_gateway_targets job)) (\<lambda>(entries, syncing, errors).
       try_bind (on_job (\<lambda>job. job\<lparr>dj_gateway_targets := entries\<rparr>)) (\<lambda>_.
       if errors \<noteq> []
       then try_bind (failed_job env ''registering_target'' (Targets_failed errors)) (\<lambda>_. give False)
       else give (\<not> syncing)))
     else if text_of (dj_target_id job) \<noteq> []
     then
       let tid = text_of (dj_target_id job) in
       try_bind (called (\<lambda>w. de_target_status env w tid) (Target_read tid)) (\<lambda>s.
       if tg_state s = ''SYNCHRONIZING'' then give False
       else if tg_state s = ''FAILED''
       then try_bind (failed_job env ''registering_target'' (Target_failed
           (if tg_reason s \<noteq> [] then tg_reason s else ''gateway target failed''))) (\<lambda>_. give False)
       else give True)
     else give True)"

text \<open>The shared policy of the Gateway, where it is wired: whether the job goes on.\<close>

definition policy_provisioned :: "'w deploy_env \<Rightarrow> ('w, bool) deploy_action" where
  "policy_provisioned env =
     (case de_policy env of
        None \<Rightarrow> give True
      | Some provision_call \<Rightarrow>
          try_bind the_job (\<lambda>job.
          try_bind (attempt (called (\<lambda>w. provision_call w job) Policy_provisioned)) (\<lambda>r.
          case r of
            Inl e \<Rightarrow> try_bind (failed_job env ''registering_target'' (Policy_raised e)) (\<lambda>_. give False)
          | Inr report \<Rightarrow>
              try_bind (on_job (\<lambda>job. job\<lparr>dj_shared_policy_report := Some report\<rparr>)) (\<lambda>_.
              if truthy (jget_or report ''ok'' (JBool False)) then give True
              else try_bind (failed_job env ''registering_target'' (Policy_not_ok
                  (py_str (de_repr env) (j_or (jget report ''verdict'') (JStr ''unknown'')))
                  (json_text (de_repr env) (jget report ''reason'')))) (\<lambda>_. give False)))))"

definition read_access_provisioned :: "'w deploy_env \<Rightarrow> ('w, unit) deploy_action" where
  "read_access_provisioned env =
     (case de_read_access env of
        None \<Rightarrow> give ()
      | Some access_call \<Rightarrow>
          try_bind the_job (\<lambda>job.
          try_bind (attempt (called (\<lambda>w. access_call w job) Read_provisioned)) (\<lambda>r.
          on_job (\<lambda>job. job\<lparr>dj_read_access_report := Some r\<rparr>))))"

definition advance_registering :: "'w deploy_env \<Rightarrow> ('w, unit) deploy_action" where
  "advance_registering env =
     try_bind (targets_ready env) (\<lambda>ready.
     if \<not> ready then give ()
     else
       try_bind (called (de_endpoint env) Endpoint_read) (\<lambda>url.
       try_bind (on_job (\<lambda>job. job\<lparr>dj_gateway_url := Some url\<rparr>)) (\<lambda>_.
       try_bind the_job (\<lambda>job.
       try_bind (attempt (called (\<lambda>w. de_register env w job) Registered)) (\<lambda>r.
       case r of
         Inl e \<Rightarrow> failed_job env ''registering_target'' (Register_failed e)
       | Inr rid \<Rightarrow>
           try_bind (on_job (\<lambda>job. job\<lparr>dj_record_id := Some rid\<rparr>)) (\<lambda>_.
           try_bind (policy_provisioned env) (\<lambda>ok.
           if \<not> ok then give ()
           else
             try_bind (read_access_provisioned env) (\<lambda>_.
             try_bind (on_job (\<lambda>job. job\<lparr>dj_phase := READY\<rparr>)) (\<lambda>_. touched env))))))))) "

definition advance_queued :: "'w deploy_env \<Rightarrow> ('w, unit) deploy_action" where
  "advance_queued env =
     try_bind the_job (\<lambda>job.
     try_bind (called (\<lambda>w. de_start_build env w (dj_job_id job) (dj_source_ref job) (dj_build_type job) (dj_asset_type job))
       (Build_started (dj_job_id job))) (\<lambda>b.
     try_bind (on_job (\<lambda>job. job\<lparr>dj_build_id := Some b, dj_phase := BUILDING\<rparr>)) (\<lambda>_. touched env)))"

definition advance :: "'w deploy_env \<Rightarrow> ('w, unit) deploy_action" where
  "advance env =
     try_bind the_job (\<lambda>job.
     case dj_phase job of
       QUEUED \<Rightarrow> advance_queued env
     | BUILDING \<Rightarrow> advance_building env
     | REGISTERING_TARGET \<Rightarrow> advance_registering env
     | _ \<Rightarrow> give ())"

end
