(* ===== verification/Deploy_Service.thy ===== *)
theory Deploy_Service
  imports Deploy_Jobs
begin

text \<open>
  What \<open>runtime/deploy/service.py\<close> puts around a job of an MCP server: the registration of what was
  deployed (with \<open>catalog/sourcestore/bindings.py\<close>), the snapshot of the Targets before a
  redeployment, and the poll, which stores a step only while the stored job is the one that was read
  (\<open>put_if_phase\<close> of \<open>jobs_dynamo.py\<close>). The unconditional writes that \<open>poll\<close> has for a store without
  that method are left out.
\<close>

section \<open>Descriptors\<close>

text \<open>\<open>AssetBinding.validate\<close> on the paths of a manifest.\<close>

datatype asset_binding = Skill_binding | Agent_binding | Mcp_binding

definition get_binding :: "string \<Rightarrow> asset_binding option" where
  "get_binding asset_type =
     map_of [(''skill'', Skill_binding), (''agent'', Agent_binding), (''mcp'', Mcp_binding)] asset_type"

fun manifest_valid :: "asset_binding \<Rightarrow> string list \<Rightarrow> bool" where
  "manifest_valid Skill_binding paths = (''SKILL.md'' \<in> set paths)"
| "manifest_valid Agent_binding paths = (''agent-card.json'' \<in> set paths \<or> ''agent.json'' \<in> set paths)"
| "manifest_valid Mcp_binding paths = list_ex (\<lambda>p. suffix ''.py'' p \<or> suffix ''pyproject.toml'' p) paths"

text \<open>A key that is there where its value is true, and one that is there where it is given.\<close>

definition key_if :: "string \<Rightarrow> json \<Rightarrow> json \<Rightarrow> (string \<times> json) list" where
  "key_if k j v = (if truthy j then [(k, v)] else [])"

definition key_given :: "(string \<times> json) list \<Rightarrow> string \<Rightarrow> string \<Rightarrow> (string \<times> json) list" where
  "key_given extra k name =
     (case map_of extra k of Some (JArr xs) \<Rightarrow> [(name, JArr xs)] | _ \<Rightarrow> [])"

fun build_descriptors :: "asset_binding \<Rightarrow> (string \<times> json) list \<Rightarrow> descriptors" where
  "build_descriptors Skill_binding extra = [(''skill'', JObj [(''sourcePrefix'', jget_or extra ''s3_prefix'' (JStr []))])]"
| "build_descriptors Agent_binding extra =
     [(''agent'', JObj ([(''sourcePrefix'', jget_or extra ''s3_prefix'' (JStr []))] @
        key_if ''agentCard'' (jget extra ''agent_card'') (JObj [(''inlineContent'', jget extra ''agent_card'')])))]"
| "build_descriptors Mcp_binding extra =
     [(''mcp'', JObj ([(''sourcePrefix'', jget_or extra ''s3_prefix'' (JStr []))] @
        key_if ''endpoint'' (jget extra ''endpoint'') (jget extra ''endpoint'') @
        key_if ''tools'' (jget extra ''tools_inline'') (JObj [(''inlineContent'', jget extra ''tools_inline'')]) @
        key_if ''gatewayIdentifier'' (jget extra ''gateway_identifier'') (jget extra ''gateway_identifier'') @
        key_given extra ''gateway_targets'' ''gatewayTargets'' @
        key_given extra ''unassigned_tools'' ''unassignedTools'' @
        key_if ''gatewayTargetName'' (jget extra ''gateway_target_name'') (jget extra ''gateway_target_name'')))]"

section \<open>Registration\<close>

definition target_json :: "target_entry \<Rightarrow> json" where
  "target_json t = JObj
     [(''sensitivity'', JStr (tn_sensitivity t)), (''gatewayTargetName'', JStr (tn_gateway_target_name t)),
      (''gatewayTargetId'', JStr (text_of (tn_target_id t))),
      (''gatewayTargetState'', JStr (casefold (tn_state t))),
      (''operations'', JArr (map JStr (tn_operations t)))]"

definition registrable :: "target_entry \<Rightarrow> bool" where
  "registrable t \<longleftrightarrow> tn_sensitivity t \<noteq> [] \<and> text_of (tn_target_id t) \<noteq> [] \<and> tn_state t = ''READY''"

definition unassigned_json :: "unassigned_tool \<Rightarrow> json" where
  "unassigned_json u =
     (case u of
        Tag_missing name \<Rightarrow> JObj [(''name'', JStr name), (''reason'', JStr ''missing_sensitivity'')]
      | Tag_unknown name tag \<Rightarrow> JObj [(''name'', JStr name), (''reason'', JStr ''unknown_sensitivity''),
          (''sensitivity'', JStr tag)])"

definition opt_text :: "string option \<Rightarrow> json" where
  "opt_text x = (case x of None \<Rightarrow> JNull | Some s \<Rightarrow> JStr s)"

definition mcp_source_prefix :: "source_ref \<Rightarrow> string" where
  "mcp_source_prefix ref = ''mcp/'' @ sr_asset_id ref @ ''/'' @ sr_version ref @ ''/''"

definition job_descriptors :: "string \<Rightarrow> deploy_job \<Rightarrow> descriptors" where
  "job_descriptors gateway_id job =
     build_descriptors Mcp_binding
       [(''s3_prefix'', JStr (mcp_source_prefix (dj_source_ref job))),
        (''endpoint'', opt_text (dj_gateway_url job)),
        (''tools_inline'', opt_text (dj_tools_inline job)),
        (''gateway_identifier'', JStr gateway_id),
        (''gateway_targets'', JArr (map target_json (filter registrable (dj_gateway_targets job)))),
        (''unassigned_tools'', JArr (map unassigned_json (dj_unassigned_tools job)))]"

text \<open>\<open>asset_id.split("/")[-1]\<close>\<close>

definition last_segment :: "string \<Rightarrow> string" where
  "last_segment s = rev (takeWhile (\<lambda>c. c \<noteq> CHR ''/'') (rev s))"

text \<open>What is sent to the Registry: a new record, or new descriptors for one.\<close>

record registration =
  rg_name :: string
  rg_descriptors :: descriptors
  rg_version :: string
  rg_description :: string

record new_registration = registration +
  rg_owner_team :: string
  rg_escalation_contact :: string
  rg_owner_contact :: string
  rg_owner_user :: string
  rg_tags :: "string list"
  rg_category :: string

definition registration_of :: "string \<Rightarrow> deploy_job \<Rightarrow> new_registration" where
  "registration_of gateway_id job =
     \<lparr>rg_name = (if meta_text job ''name'' \<noteq> [] then meta_text job ''name'' else last_segment (sr_asset_id (dj_source_ref job))),
      rg_descriptors = job_descriptors gateway_id job, rg_version = sr_version (dj_source_ref job),
      rg_description = meta_text job ''description'', rg_owner_team = meta_text job ''owner_team'',
      rg_escalation_contact = meta_text job ''escalation_contact'', rg_owner_contact = meta_text job ''owner_contact'',
      rg_owner_user = dj_principal job, rg_tags = dj_tags job, rg_category = meta_text job ''category''\<rparr>"

text \<open>\<open>_register\<close>: the manifest is read first; the answers of the Registry are parameters.\<close>

definition register_job ::
  "('w \<Rightarrow> source_ref \<Rightarrow> (string + string list) \<times> 'w) \<Rightarrow>
   ('w \<Rightarrow> string \<Rightarrow> registration \<Rightarrow> (string + string) \<times> 'w) \<Rightarrow>
   ('w \<Rightarrow> new_registration \<Rightarrow> (string + string) \<times> 'w) \<Rightarrow> string \<Rightarrow> 'w \<Rightarrow> deploy_job \<Rightarrow> (string + string) \<times> 'w" where
  "register_job manifest update create gateway_id w job =
     (case manifest w (dj_source_ref job) of
        (Inl e, w1) \<Rightarrow> (Inl e, w1)
      | (Inr _, w1) \<Rightarrow>
          let reg = registration_of gateway_id job in
          if text_of (dj_redeploy_record_id job) \<noteq> []
          then update w1 (text_of (dj_redeploy_record_id job)) (registration.truncate reg)
          else create w1 reg)"

section \<open>The Targets before a redeployment\<close>

text \<open>\<open>_mcp_redeploy_target_snapshot\<close>\<close>

definition redeploy_target_snapshot :: "descriptors \<Rightarrow> json" where
  "redeploy_target_snapshot ds =
     (case mcp_gateway_target_index (JObj ds) of
        Inl _ \<Rightarrow> JObj [(''mode'', JStr ''unknown'')]
      | Inr idx \<Rightarrow>
          if \<not> ti_split idx
          then JObj [(''mode'', JStr ''legacy''), (''gateway_target_name'', JStr (text_of (ti_legacy_target_name idx)))]
          else JObj [(''mode'', JStr ''split''), (''targets'', JArr (map (\<lambda>t. JObj
            [(''sensitivity'', JStr (mt_sensitivity t)), (''gateway_target_name'', JStr (mt_name t)),
             (''operations'', JArr (map JStr (mt_operations t)))]) (ti_targets idx)))])"

section \<open>The stored jobs\<close>

type_synonym job_table = "(string, deploy_job) dict"

text \<open>\<open>put_if_phase\<close>: whether the condition of the write held.\<close>

definition put_if_phase :: "deploy_job \<Rightarrow> deploy_phase \<Rightarrow> nat \<Rightarrow> job_table \<Rightarrow> bool \<times> job_table" where
  "put_if_phase job phase revision jobs =
     (case dget jobs (dj_job_id job) of
        None \<Rightarrow> (False, jobs)
      | Some stored \<Rightarrow>
          if dj_phase stored = phase \<and> dj_state_revision stored = revision
          then (True, dput (dj_job_id job) job jobs) else (False, jobs))"

definition next_revision_of :: "deploy_job \<Rightarrow> deploy_job" where
  "next_revision_of job = job\<lparr>dj_state_revision := Suc (dj_state_revision job)\<rparr>"

definition put_next_revision :: "deploy_job \<Rightarrow> deploy_phase \<Rightarrow> job_table \<Rightarrow> bool \<times> job_table" where
  "put_next_revision job phase jobs = put_if_phase (next_revision_of job) phase (dj_state_revision job) jobs"

section \<open>The poll\<close>

text \<open>The calls of a step or of a compensation, from a job and a world: how it ended, with the job.\<close>

definition run_job ::
  "('w, 'a) deploy_action \<Rightarrow> deploy_job \<Rightarrow> 'w \<Rightarrow> 'a ending \<times> deploy_job \<times> 'w \<times> port_event list" where
  "run_job m job w =
     (case run_state m \<lparr>dp_job = job, dp_world = w, dp_events = []\<rparr> of
        (r, st) \<Rightarrow> (r, dp_job st, dp_world st, dp_events st))"

text \<open>What follows a step that was taken: it is stored, and a failure that was claimed is compensated.
  The job that is answered, with the table and the world.\<close>

definition stored_step ::
  "'w deploy_env \<Rightarrow> deploy_phase \<Rightarrow> deploy_job \<Rightarrow> job_table \<Rightarrow> 'w \<Rightarrow> deploy_job option ending \<times> job_table \<times> 'w" where
  "stored_step env phase job jobs w =
     (case put_next_revision job phase jobs of
        (False, _) \<Rightarrow> (Returned (dget jobs (dj_job_id job)), jobs, w)
      | (True, jobs1) \<Rightarrow>
          let job1 = next_revision_of job in
          if dj_phase job1 \<noteq> FAILED then (Returned (Some job1), jobs1, w)
          else case run_job (compensate_failure env) job1 w of
            (Raised e, _, w1, _) \<Rightarrow> (Raised e, jobs1, w1)
          | (Hangs, _, w1, _) \<Rightarrow> (Hangs, jobs1, w1)
          | (Returned False, job2, w1, _) \<Rightarrow> (Returned (Some job2), jobs1, w1)
          | (Returned True, job2, w1, _) \<Rightarrow>
              (case put_next_revision job2 FAILED jobs1 of
                 (False, _) \<Rightarrow> (Returned (dget jobs1 (dj_job_id job2)), jobs1, w1)
               | (True, jobs2) \<Rightarrow> (Returned (Some (next_revision_of job2)), jobs2, w1)))"

text \<open>\<open>poll\<close> of a job of an MCP server, where no other process polls.\<close>

definition poll ::
  "'w deploy_env \<Rightarrow> string \<Rightarrow> job_table \<Rightarrow> 'w \<Rightarrow> deploy_job option ending \<times> job_table \<times> 'w" where
  "poll env job_id jobs w =
     (case dget jobs job_id of
        None \<Rightarrow> (Returned None, jobs, w)
      | Some job \<Rightarrow>
          if terminal_phase (dj_phase job) then (Returned (Some job), jobs, w)
          else case run_job (advance env) job w of
            (Raised e, _, w1, _) \<Rightarrow> (Raised e, jobs, w1)
          | (Hangs, _, w1, _) \<Rightarrow> (Hangs, jobs, w1)
          | (Returned (), job1, w1, _) \<Rightarrow> stored_step env (dj_phase job) job1 jobs w1)"

section \<open>Several processes\<close>

text \<open>Processes that poll at the same time. A poll reads the job, then calls the services, then
  stores, then compensates if it stored a failure, then stores again; between these steps the others
  take theirs, and the services may answer anything.\<close>

datatype poller =
    Stepped deploy_phase deploy_job      \<comment> \<open>the phase that was read, and the job after the step\<close>
  | Claimed deploy_job
  | Compensated deploy_job

record fleet =
  fl_jobs :: job_table
  fl_pollers :: "poller list"
  fl_claims :: "string list"             \<comment> \<open>the jobs whose failure was stored, for each time it was\<close>

inductive fleet_step :: "'w deploy_env set \<Rightarrow> fleet \<Rightarrow> fleet \<Rightarrow> bool" for envs where
  Take: "env \<in> envs \<Longrightarrow> dget (fl_jobs f) job_id = Some job \<Longrightarrow> \<not> terminal_phase (dj_phase job) \<Longrightarrow>
     run_job (advance env) job w = (Returned (), job', w', events) \<Longrightarrow>
     fleet_step envs f (f\<lparr>fl_pollers := Stepped (dj_phase job) job' # fl_pollers f\<rparr>)"
| Store: "fl_pollers f = xs @ Stepped phase job # ys \<Longrightarrow> put_next_revision job phase (fl_jobs f) = (True, jobs) \<Longrightarrow>
     fleet_step envs f (if dj_phase job = FAILED
       then \<lparr>fl_jobs = jobs, fl_pollers = xs @ Claimed (next_revision_of job) # ys, fl_claims = dj_job_id job # fl_claims f\<rparr>
       else f\<lparr>fl_jobs := jobs, fl_pollers := xs @ ys\<rparr>)"
| Lose: "fl_pollers f = xs @ Stepped phase job # ys \<Longrightarrow> put_next_revision job phase (fl_jobs f) = (False, jobs) \<Longrightarrow>
     fleet_step envs f (f\<lparr>fl_pollers := xs @ ys\<rparr>)"
| Compensate: "env \<in> envs \<Longrightarrow> fl_pollers f = xs @ Claimed job # ys \<Longrightarrow>
     run_job (compensate_failure env) job w = (Returned changed, job', w', events) \<Longrightarrow>
     fleet_step envs f (f\<lparr>fl_pollers := xs @ (if changed then [Compensated job'] else []) @ ys\<rparr>)"
| Conclude: "fl_pollers f = xs @ Compensated job # ys \<Longrightarrow> put_next_revision job FAILED (fl_jobs f) = (stored, jobs) \<Longrightarrow>
     fleet_step envs f (f\<lparr>fl_jobs := jobs, fl_pollers := xs @ ys\<rparr>)"
| Crash: "fl_pollers f = xs @ p # ys \<Longrightarrow> fleet_step envs f (f\<lparr>fl_pollers := xs @ ys\<rparr>)"

end
