(* ===== verification/Deploy_Laws.thy ===== *)
theory Deploy_Laws
  imports Deploy_Service Engine_Laws
begin

text \<open>
  What holds of deployments of MCP servers: how a job moves through its phases, what must have been
  seen before it is ready or touches the Gateway, what a compensation may delete, and that of several
  processes that poll the same job one at most compensates it.
\<close>

section \<open>Invariants of the job\<close>

lemma keeps_give [inv_intros]: "keeps I (give a)"
  by (simp add: keeps_def give_def)

lemma keeps_throw [inv_intros]: "keeps I (throw e)"
  by (simp add: keeps_def throw_def)

lemma keeps_ending [inv_intros]:
  "(\<And>a. keeps I (f a)) \<Longrightarrow> (\<And>e. keeps I (g e)) \<Longrightarrow> keeps I m \<Longrightarrow>
     keeps I (case r of Returned a \<Rightarrow> f a | Raised e \<Rightarrow> g e | Hangs \<Rightarrow> m)"
  by (simp split: ending.split)

lemma keeps_try_bind [inv_intros]: "keeps I m \<Longrightarrow> (\<And>a. keeps I (f a)) \<Longrightarrow> keeps I (try_bind m f)"
  unfolding try_bind_def by (intro inv_intros)

lemma keeps_attempt [inv_intros]: "keeps I m \<Longrightarrow> keeps I (attempt m)"
  unfolding attempt_def handled_def by (intro inv_intros)

lemma keeps_Let [inv_intros]: "(\<And>a. keeps I (f a)) \<Longrightarrow> keeps I (let a = x in f a)"
  by simp

definition job_keeps :: "(deploy_job \<Rightarrow> bool) \<Rightarrow> ('w, 'a) deploy_action \<Rightarrow> bool" where
  "job_keeps S m = keeps (\<lambda>st. S (dp_job st)) m"

named_theorems job_intros \<open>actions that keep a property of the job\<close>

lemma job_keeps_basic [job_intros]:
  "job_keeps S (give a)" "job_keeps S (throw e)" "job_keeps S the_job" "job_keeps S (called f event)"
  by (simp_all add: job_keeps_def inv_intros) (simp_all add: keeps_def wp_def the_job_def called_def split: prod.split)

lemma job_keeps_on_job [job_intros]: "(\<And>job. S job \<Longrightarrow> S (f job)) \<Longrightarrow> job_keeps S (on_job f)"
  by (simp add: job_keeps_def keeps_def wp_def on_job_def)

lemma job_keeps_touched [job_intros]: "(\<And>job t. S job \<Longrightarrow> S (job\<lparr>dj_updated_at := t\<rparr>)) \<Longrightarrow> job_keeps S (touched env)"
  by (simp add: job_keeps_def keeps_def wp_def touched_def split: prod.split)

lemma job_keeps_bind [job_intros]: "job_keeps S m \<Longrightarrow> (\<And>a. job_keeps S (f a)) \<Longrightarrow> job_keeps S (try_bind m f)"
  unfolding job_keeps_def by (intro inv_intros)

lemma job_keeps_attempt [job_intros]: "job_keeps S m \<Longrightarrow> job_keeps S (attempt m)"
  unfolding job_keeps_def by (intro inv_intros)

lemma job_keeps_cases [job_intros]:
  "job_keeps S m \<Longrightarrow> job_keeps S n \<Longrightarrow> job_keeps S (if b then m else n)"
  "job_keeps S m \<Longrightarrow> (\<And>a. job_keeps S (f a)) \<Longrightarrow> job_keeps S (case x of None \<Rightarrow> m | Some a \<Rightarrow> f a)"
  "(\<And>a. job_keeps S (g a)) \<Longrightarrow> (\<And>b. job_keeps S (h b)) \<Longrightarrow> job_keeps S (case y of Inl a \<Rightarrow> g a | Inr b \<Rightarrow> h b)"
  "(\<And>a b. job_keeps S (k a b)) \<Longrightarrow> job_keeps S (case z of (a, b) \<Rightarrow> k a b)"
  "(\<And>a. job_keeps S (l a)) \<Longrightarrow> job_keeps S (let a = v in l a)"
  by (simp_all split: option.split sum.split prod.split)

lemma job_keepsD: "job_keeps S m \<Longrightarrow> S (dp_job st) \<Longrightarrow> run_state m st = (r, u) \<Longrightarrow> S (dp_job u)"
  by (auto simp: job_keeps_def keeps_def wp_def)

text \<open>A property that looks at what no step writes, but for the phase.\<close>

definition job_identity :: "deploy_job \<Rightarrow> string \<times> nat \<times> string option \<times> string option" where
  "job_identity job = (dj_job_id job, dj_state_revision job, dj_redeploy_runtime_id job, dj_redeploy_record_id job)"

definition identified :: "string \<times> nat \<times> string option \<times> string option \<Rightarrow> deploy_phase set \<Rightarrow> deploy_job \<Rightarrow> bool" where
  "identified k ps job \<longleftrightarrow> job_identity job = k \<and> dj_phase job \<in> ps"

lemma identified_update [simp]:
  "identified k ps (job\<lparr>dj_updated_at := t\<rparr>) = identified k ps job"
  "identified k ps (job\<lparr>dj_build_id := a\<rparr>) = identified k ps job"
  "identified k ps (job\<lparr>dj_artifact_uri := a\<rparr>) = identified k ps job"
  "identified k ps (job\<lparr>dj_lambda_arn := a\<rparr>) = identified k ps job"
  "identified k ps (job\<lparr>dj_target_id := a\<rparr>) = identified k ps job"
  "identified k ps (job\<lparr>dj_gateway_targets := ts\<rparr>) = identified k ps job"
  "identified k ps (job\<lparr>dj_gateway_target_quota := q\<rparr>) = identified k ps job"
  "identified k ps (job\<lparr>dj_unassigned_tools := us\<rparr>) = identified k ps job"
  "identified k ps (job\<lparr>dj_gateway_url := a\<rparr>) = identified k ps job"
  "identified k ps (job\<lparr>dj_tools_inline := a\<rparr>) = identified k ps job"
  "identified k ps (job\<lparr>dj_record_id := a\<rparr>) = identified k ps job"
  "identified k ps (job\<lparr>dj_error := e\<rparr>) = identified k ps job"
  "identified k ps (job\<lparr>dj_shared_policy_report := p\<rparr>) = identified k ps job"
  "identified k ps (job\<lparr>dj_read_access_report := x\<rparr>) = identified k ps job"
  "identified k ps (job\<lparr>dj_resource_owner_id := a\<rparr>) = identified k ps job"
  by (simp_all add: identified_def job_identity_def)

lemma identified_phase [simp]: "identified k ps job \<Longrightarrow> p \<in> ps \<Longrightarrow> identified k ps (job\<lparr>dj_phase := p\<rparr>)"
  by (simp add: identified_def job_identity_def)

lemma failed_job_keeps [job_intros]: "FAILED \<in> ps \<Longrightarrow> job_keeps (identified k ps) (failed_job env phase cause)"
  unfolding failed_job_def by (intro job_intros) simp_all

lemma delete_created_keeps [job_intros]: "job_keeps S (delete_created env ts)"
  by (induction ts) (auto simp: Let_def intro!: job_intros)

lemma compensate_keeps [job_intros]: "job_keeps (identified k ps) (compensate_failure env)"
  unfolding compensate_failure_def by (intro job_intros) (simp_all add: noted_compensation_def)

lemma quota_keeps [job_intros]: "job_keeps S (observe_gateway_target_quota env)"
  unfolding observe_gateway_target_quota_def by (intro job_intros)

lemma reconcile_slice_keeps [job_intros]: "job_keeps S (reconcile_slice env job sl)"
  unfolding reconcile_slice_def wired_def by (intro job_intros)

lemma reconcile_slices_keeps [job_intros]: "job_keeps S (reconcile_slices env job sls)"
  by (induction sls) (auto intro!: job_intros)

lemma reconcile_targets_keeps [job_intros]: "job_keeps (identified k ps) (reconcile_gateway_targets env plan)"
  unfolding reconcile_gateway_targets_def by (intro job_intros) simp_all

lemma guard_decision_keeps [job_intros]: "job_keeps S (guard_decision env)"
  unfolding guard_decision_def by (intro job_intros)

lemma json_case_keeps [job_intros]:
  "(\<And>s. job_keeps S (f s)) \<Longrightarrow> job_keeps S m \<Longrightarrow> job_keeps S (case j of JStr s \<Rightarrow> f s | _ \<Rightarrow> m)"
  by (simp split: json.split)

lemma selection_case_keeps [job_intros]:
  "(\<And>s. job_keeps S (f s)) \<Longrightarrow> (\<And>e. job_keeps S (g e)) \<Longrightarrow> job_keeps S m \<Longrightarrow>
     job_keeps S (case x of Selected s \<Rightarrow> f s | Selection_refused e \<Rightarrow> g e | Selection_raises \<Rightarrow> m)"
  by (simp split: selection.split)

lemma approved_keeps [job_intros]: "job_keeps (identified k ps) (approved env)"
  unfolding approved_def by (intro job_intros) simp_all

lemma write_lambda_keeps [job_intros]: "job_keeps (identified k ps) (write_lambda env artifact)"
  unfolding write_lambda_def by (intro job_intros) simp_all

lemma deploy_plan_keeps [job_intros]:
  "FAILED \<in> ps \<Longrightarrow> REGISTERING_TARGET \<in> ps \<Longrightarrow> job_keeps (identified k ps) (deploy_plan env artifact changes plan)"
  unfolding deploy_plan_def by (intro job_intros) simp_all

lemma advance_building_keeps [job_intros]:
  "FAILED \<in> ps \<Longrightarrow> REGISTERING_TARGET \<in> ps \<Longrightarrow> job_keeps (identified k ps) (advance_building env)"
  unfolding advance_building_def by (intro job_intros) simp_all

lemma observe_entries_keeps [job_intros]: "job_keeps S (observe_entries env ts)"
  by (induction ts) (auto simp: Let_def intro!: job_intros)

lemma targets_ready_keeps [job_intros]: "FAILED \<in> ps \<Longrightarrow> job_keeps (identified k ps) (targets_ready env)"
  unfolding targets_ready_def by (intro job_intros) simp_all

lemma policy_provisioned_keeps [job_intros]: "FAILED \<in> ps \<Longrightarrow> job_keeps (identified k ps) (policy_provisioned env)"
  unfolding policy_provisioned_def by (intro job_intros) simp_all

lemma read_access_keeps [job_intros]: "job_keeps (identified k ps) (read_access_provisioned env)"
  unfolding read_access_provisioned_def by (intro job_intros) simp_all

lemma advance_registering_keeps [job_intros]:
  "FAILED \<in> ps \<Longrightarrow> READY \<in> ps \<Longrightarrow> job_keeps (identified k ps) (advance_registering env)"
  unfolding advance_registering_def by (intro job_intros) simp_all

lemma advance_queued_keeps [job_intros]: "BUILDING \<in> ps \<Longrightarrow> job_keeps (identified k ps) (advance_queued env)"
  unfolding advance_queued_def by (intro job_intros) simp_all

section \<open>Phases\<close>

text \<open>The phases a step may lead to.\<close>

definition next_phases :: "deploy_phase \<Rightarrow> deploy_phase set" where
  "next_phases p =
     (case p of
        QUEUED \<Rightarrow> {QUEUED, BUILDING}
      | BUILDING \<Rightarrow> {BUILDING, REGISTERING_TARGET, FAILED}
      | REGISTERING_TARGET \<Rightarrow> {REGISTERING_TARGET, READY, FAILED}
      | p \<Rightarrow> {p})"

lemma advance_identified:
  assumes "run_state (advance env) st = (r, u)"
  shows "identified (job_identity (dp_job st)) (next_phases (dj_phase (dp_job st))) (dp_job u)"
proof -
  have st: "identified (job_identity (dp_job st)) (next_phases (dj_phase (dp_job st))) (dp_job st)"
    by (cases "dj_phase (dp_job st)") (simp_all add: identified_def next_phases_def)
  let ?m = "case dj_phase (dp_job st) of QUEUED \<Rightarrow> advance_queued env | BUILDING \<Rightarrow> advance_building env
    | REGISTERING_TARGET \<Rightarrow> advance_registering env | _ \<Rightarrow> give ()"
  have "job_keeps (identified (job_identity (dp_job st)) (next_phases (dj_phase (dp_job st)))) ?m"
    by (cases "dj_phase (dp_job st)") (simp_all add: next_phases_def job_intros)
  moreover have "run_state ?m st = (r, u)"
    using assms by (simp add: advance_def run_try_bind the_job_def)
  ultimately show ?thesis using st job_keepsD by blast
qed

lemma run_job_advance:
  assumes "run_job (advance env) job w = (r, job', w', events)"
  shows "job_identity job' = job_identity job" "dj_phase job' \<in> next_phases (dj_phase job)"
proof -
  from assms obtain u where "run_state (advance env) \<lparr>dp_job = job, dp_world = w, dp_events = []\<rparr> = (r, u)" "dp_job u = job'"
    by (auto simp: run_job_def split: prod.splits)
  with advance_identified [OF this(1)] show "job_identity job' = job_identity job" "dj_phase job' \<in> next_phases (dj_phase job)"
    by (auto simp: identified_def)
qed

lemma run_job_compensate:
  assumes "run_job (compensate_failure env) job w = (r, job', w', events)"
  shows "job_identity job' = job_identity job" "dj_phase job' = dj_phase job"
proof -
  from assms obtain u where "run_state (compensate_failure env) \<lparr>dp_job = job, dp_world = w, dp_events = []\<rparr> = (r, u)" "dp_job u = job'"
    by (auto simp: run_job_def split: prod.splits)
  with job_keepsD [OF compensate_keeps [of "job_identity job" "{dj_phase job}"] _ this(1)]
  show "job_identity job' = job_identity job" "dj_phase job' = dj_phase job"
    by (auto simp: identified_def)
qed

section \<open>Several processes\<close>

fun claiming :: "poller \<Rightarrow> string option" where
  "claiming (Stepped _ _) = None"
| "claiming (Claimed job) = Some (dj_job_id job)"
| "claiming (Compensated job) = Some (dj_job_id job)"

text \<open>The jobs that are being compensated, for each process that does.\<close>

definition compensating :: "fleet \<Rightarrow> string list" where
  "compensating f = List.map_filter claiming (fl_pollers f)"

fun poller_ok :: "poller \<Rightarrow> bool" where
  "poller_ok (Stepped phase job) = (\<not> terminal_phase phase \<and> dj_phase job \<in> next_phases phase)"
| "poller_ok (Claimed job) = (dj_phase job = FAILED)"
| "poller_ok (Compensated job) = (dj_phase job = FAILED)"

definition stored_failed :: "job_table \<Rightarrow> string \<Rightarrow> bool" where
  "stored_failed jobs job_id = (case dget jobs job_id of None \<Rightarrow> False | Some job \<Rightarrow> dj_phase job = FAILED)"

definition fleet_ok :: "fleet \<Rightarrow> bool" where
  "fleet_ok f \<longleftrightarrow> list_all poller_ok (fl_pollers f) \<and> list_all (stored_failed (fl_jobs f)) (fl_claims f) \<and>
     distinct (fl_claims f) \<and> mset (compensating f) \<subseteq># mset (fl_claims f)"

text \<open>What is stored for a job may become.\<close>

definition succeeds :: "deploy_job option \<Rightarrow> deploy_job option \<Rightarrow> bool" where
  "succeeds old new =
     (case (old, new) of
        (None, None) \<Rightarrow> True
      | (Some a, Some b) \<Rightarrow> (if dj_phase a = READY then b = a else dj_phase b \<in> next_phases (dj_phase a))
      | _ \<Rightarrow> False)"

lemma succeeds_refl [simp]: "succeeds x x"
  by (cases x) (auto simp: succeeds_def next_phases_def split: deploy_phase.split)

lemma put_next_revision_cases:
  assumes "put_next_revision job phase jobs = (stored, jobs')"
  obtains "\<not> stored" "jobs' = jobs"
  | old where "stored" "dget jobs (dj_job_id job) = Some old" "dj_phase old = phase"
      "jobs' = dput (dj_job_id job) (next_revision_of job) jobs"
  using assms
  by (auto simp: put_next_revision_def put_if_phase_def next_revision_of_def split: option.splits if_splits)

lemma put_succeeds:
  assumes "put_next_revision job phase jobs = (stored, jobs')"
    and "phase \<noteq> READY" "dj_phase job \<in> next_phases phase"
  shows "succeeds (dget jobs job_id) (dget jobs' job_id)"
  using assms(1)
proof (cases rule: put_next_revision_cases)
  case (2 old)
  with assms(2,3) show ?thesis
    by (cases "job_id = dj_job_id job") (simp_all add: succeeds_def next_revision_of_def)
qed simp

lemma put_keeps_failed:
  assumes "put_next_revision job phase jobs = (stored, jobs')" "stored_failed jobs job_id"
    and "phase = FAILED \<longrightarrow> dj_phase job = FAILED"
  shows "stored_failed jobs' job_id"
  using assms(1)
  by (cases rule: put_next_revision_cases)
    (use assms(2,3) in \<open>auto simp: stored_failed_def next_revision_of_def\<close>)

lemma map_filter_append [simp]: "List.map_filter f (xs @ ys) = List.map_filter f xs @ List.map_filter f ys"
  by (simp add: List.map_filter_def)

lemma fleet_step_succeeds:
  "fleet_step envs f g \<Longrightarrow> fleet_ok f \<Longrightarrow> succeeds (dget (fl_jobs f) job_id) (dget (fl_jobs g) job_id)"
proof (induction rule: fleet_step.induct)
  case (Store f xs phase job ys jobs)
  then have "poller_ok (Stepped phase job)" by (simp add: fleet_ok_def)
  with put_succeeds [OF Store(2)] show ?case by (auto simp: terminal_phase_def)
next
  case (Conclude f xs job ys stored jobs)
  then have "poller_ok (Compensated job)" by (simp add: fleet_ok_def)
  with put_succeeds [OF Conclude(2)] show ?case by (auto simp: next_phases_def)
qed simp_all

lemma fleet_step_ok: "fleet_step envs f g \<Longrightarrow> fleet_ok f \<Longrightarrow> fleet_ok g"
proof (induction rule: fleet_step.induct)
  case (Take env f job_id job w job' w' events)
  then show ?case
    using run_job_advance [OF Take(4)] by (simp add: fleet_ok_def compensating_def List.map_filter_simps)
next
  case (Store f xs phase job ys jobs)
  then have ok: "poller_ok (Stepped phase job)" by (simp add: fleet_ok_def)
  from Store have failed: "list_all (stored_failed jobs) (fl_claims f)"
    using put_keeps_failed [OF Store(2)] ok by (auto simp: fleet_ok_def list_all_iff terminal_phase_def)
  from Store(2) obtain old where old: "dget (fl_jobs f) (dj_job_id job) = Some old" "dj_phase old = phase"
    "jobs = dput (dj_job_id job) (next_revision_of job) (fl_jobs f)"
    by (cases rule: put_next_revision_cases) auto
  have new: "dj_job_id job \<notin> set (fl_claims f)"
  proof
    assume "dj_job_id job \<in> set (fl_claims f)"
    with Store(3) have "stored_failed (fl_jobs f) (dj_job_id job)" by (auto simp: fleet_ok_def list_all_iff)
    with old ok show False by (simp add: stored_failed_def terminal_phase_def)
  qed
  show ?case
  proof (cases "dj_phase job = FAILED")
    case True
    then have "stored_failed jobs (dj_job_id job)" using old by (simp add: stored_failed_def next_revision_of_def)
    with True failed new Store(1,3) show ?thesis
      by (simp add: fleet_ok_def compensating_def List.map_filter_simps next_revision_of_def)
  next
    case False
    with failed Store(1,3) show ?thesis by (simp add: fleet_ok_def compensating_def List.map_filter_simps)
  qed
next
  case (Lose f xs phase job ys jobs)
  then show ?case by (simp add: fleet_ok_def compensating_def List.map_filter_simps)
next
  case (Compensate env f xs job ys w changed job' w' events)
  then show ?case
    using run_job_compensate [OF Compensate(3)]
    by (auto simp: fleet_ok_def compensating_def List.map_filter_simps job_identity_def
        intro: subset_mset.order_trans [rotated])
next
  case (Conclude f xs job ys stored jobs)
  then have "poller_ok (Compensated job)" by (simp add: fleet_ok_def)
  then have "list_all (stored_failed jobs) (fl_claims f)"
    using Conclude(3) put_keeps_failed [OF Conclude(2)] by (auto simp: fleet_ok_def list_all_iff)
  with Conclude(1,3) show ?case
    by (auto simp: fleet_ok_def compensating_def List.map_filter_simps intro: subset_mset.order_trans [rotated])
next
  case (Crash f xs p ys)
  then show ?case
    by (auto simp: fleet_ok_def compensating_def List.map_filter_simps split: option.splits
        intro: subset_mset.order_trans [rotated])
qed

lemma distinct_submset: "mset xs \<subseteq># mset ys \<Longrightarrow> distinct ys \<Longrightarrow> distinct xs"
proof -
  assume "mset xs \<subseteq># mset ys" "distinct ys"
  then obtain zs where "mset ys = mset (xs @ zs)"
    by (metis ex_mset mset_append mset_subset_eq_exists_conv)
  with \<open>distinct ys\<close> have "distinct (xs @ zs)" by (metis mset_eq_imp_distinct_iff)
  then show "distinct xs" by simp
qed

definition new_fleet :: "job_table \<Rightarrow> fleet" where
  "new_fleet jobs = \<lparr>fl_jobs = jobs, fl_pollers = [], fl_claims = []\<rparr>"

lemma fleet_reach_ok: "(fleet_step envs)\<^sup>*\<^sup>* (new_fleet jobs) f \<Longrightarrow> fleet_ok f"
proof (induction rule: rtranclp_induct)
  case base
  show ?case by (simp add: fleet_ok_def new_fleet_def compensating_def List.map_filter_simps)
next
  case (step f g)
  then show ?case using fleet_step_ok by blast
qed

text \<open>C19: However many processes poll a job, crash or are overtaken, and whatever the services answer,
  the failure of a job is stored at most once, and only a process that stored it compensates: no job
  is compensated by two.\<close>

theorem failure_claimed_once:
  assumes "(fleet_step envs)\<^sup>*\<^sup>* (new_fleet jobs) f"
  shows "distinct (fl_claims f) \<and> distinct (compensating f) \<and>
    list_all (\<lambda>job_id. stored_failed (fl_jobs f) job_id \<and> job_id \<in> set (fl_claims f)) (compensating f)"
proof -
  from fleet_reach_ok [OF assms] have ok: "list_all (stored_failed (fl_jobs f)) (fl_claims f)" "distinct (fl_claims f)"
    "mset (compensating f) \<subseteq># mset (fl_claims f)"
    by (simp_all add: fleet_ok_def)
  from ok(2,3) have "distinct (compensating f)" using distinct_submset by blast
  moreover have "set (compensating f) \<subseteq> set (fl_claims f)" using ok(3) set_mset_mono by fastforce
  ultimately show ?thesis using ok by (auto simp: list_all_iff)
qed

text \<open>C20: A stored job only moves forward: from \<open>QUEUED\<close> over \<open>BUILDING\<close> and
  \<open>REGISTERING_TARGET\<close> to \<open>READY\<close>, or to \<open>FAILED\<close> from the last two; no phase is skipped or taken
  back, what is stored of a ready job never changes again, and jobs neither appear nor vanish,
  whichever processes poll at the same time.\<close>

theorem stored_job_moves_forward:
  assumes "(fleet_step envs)\<^sup>*\<^sup>* (new_fleet jobs) f" "fleet_step envs f g"
  shows "succeeds (dget (fl_jobs f) job_id) (dget (fl_jobs g) job_id)"
  using fleet_step_succeeds [OF assms(2) fleet_reach_ok [OF assms(1)]] .

section \<open>A concrete deployment\<close>

definition sample_job :: deploy_job where
  "sample_job =
     \<lparr>dj_job_id = ''j1'', dj_phase = BUILDING, dj_principal = ''kim'',
      dj_source_ref = \<lparr>sr_asset_id = ''kim/notes'', sr_version = ''1.0.0''\<rparr>, dj_meta = [(''name'', ''notes'')],
      dj_tags = [], dj_build_type = ''codezip'', dj_asset_type = ''mcp'', dj_updated_at = ''t0'',
      dj_build_id = Some ''b1'', dj_artifact_uri = None, dj_lambda_arn = None, dj_target_id = None,
      dj_gateway_targets = [], dj_gateway_target_quota = None, dj_unassigned_tools = [],
      dj_gateway_url = None, dj_tools_inline = None, dj_record_id = None, dj_error = None,
      dj_redeploy_runtime_id = None, dj_redeploy_record_id = None, dj_redeploy_target_snapshot = None,
      dj_shared_policy_report = None, dj_read_access_report = None, dj_selected_tools = [],
      dj_resource_owner_id = None, dj_state_revision = 1\<rparr>"

text \<open>Services that answer as they should, but for the build, which failed.\<close>

definition sample_services :: "unit deploy_env" where
  "sample_services =
     \<lparr>de_start_build = \<lambda>w _ _ _ _. (Inr ''b1'', w),
      de_build_status = \<lambda>w _. (Inr \<lparr>bs_state = ''FAILED'', bs_reason = ''no tests'', bs_artifact = None\<rparr>, w),
      de_guard = None,
      de_update_lambda = \<lambda>w _ _ _. (Inr \<lparr>ld_arn = ''arn:l'', ld_created = False\<rparr>, w),
      de_create_lambda = \<lambda>w _ _ _. (Inr \<lparr>ld_arn = ''arn:l'', ld_created = True\<rparr>, w),
      de_find_target = \<lambda>w _. (Inr None, w), de_update_target = \<lambda>w _ _ _ _. (Inr True, w),
      de_wire_target = \<lambda>w name _ _ _. (Inr (''id-'' @ name), w), de_observe_quota = \<lambda>w. (Inl ''down'', w),
      de_target_status = \<lambda>w _. (Inr \<lparr>tg_state = ''READY'', tg_reason = []\<rparr>, w),
      de_delete_target = \<lambda>w _. (Inr (), w), de_verify_owner = \<lambda>w _ _. (Inr (), w),
      de_endpoint = \<lambda>w. (Inr ''https://gw'', w), de_register = \<lambda>w _. (Inr ''rec1'', w),
      de_policy = None, de_read_access = None, de_now = \<lambda>w. (''t1'', w), de_owner_id = ''p1'',
      de_hash = \<lambda>_. ''0123456789'', de_parse = json_of_unary, de_dump = unary_of_json, de_repr = \<lambda>_. [],
      de_float = \<lambda>_. 0\<rparr>"

definition sample_failed :: deploy_job where
  "sample_failed = sample_job\<lparr>dj_phase := FAILED, dj_updated_at := ''t1'',
     dj_error := Some (job_failure ''building'' (Build_failed ''no tests''))\<rparr>"

lemma sample_advance:
  "run_job (advance sample_services) sample_job () =
     (Returned (), sample_failed, (), [Build_read ''b1'' (Inr \<lparr>bs_state = ''FAILED'', bs_reason = ''no tests'', bs_artifact = None\<rparr>)])"
  by (simp add: run_job_def advance_def advance_building_def run_try_bind the_job_def called_def answered_def
      failed_job_def on_job_def touched_def sample_job_def sample_services_def sample_failed_def job_failure_def
      skip_note_def is_redeploy_def text_of_def)

definition sample_jobs :: job_table where
  "sample_jobs = [(''j1'', sample_job)]"

text \<open>Two processes take the job, one stores the failure and the other is overtaken.\<close>

definition overtaken :: fleet where
  "overtaken = \<lparr>fl_jobs = [(''j1'', next_revision_of sample_failed)],
     fl_pollers = [Claimed (next_revision_of sample_failed), Stepped BUILDING sample_failed], fl_claims = [''j1'']\<rparr>"

lemma sample_reach:
  "(fleet_step {sample_services})\<^sup>*\<^sup>* (new_fleet sample_jobs)
     \<lparr>fl_jobs = sample_jobs, fl_pollers = [Stepped BUILDING sample_failed, Stepped BUILDING sample_failed], fl_claims = []\<rparr>"
proof -
  let ?two = "\<lparr>fl_jobs = sample_jobs, fl_pollers = [Stepped BUILDING sample_failed, Stepped BUILDING sample_failed], fl_claims = []\<rparr>"
  let ?one = "\<lparr>fl_jobs = sample_jobs, fl_pollers = [Stepped BUILDING sample_failed], fl_claims = []\<rparr>"
  have found: "dget sample_jobs ''j1'' = Some sample_job" by (simp add: sample_jobs_def)
  have open_job: "\<not> terminal_phase (dj_phase sample_job)" "dj_phase sample_job = BUILDING"
    by (simp_all add: sample_job_def terminal_phase_def)
  have "fleet_step {sample_services} (new_fleet sample_jobs) ?one"
    using fleet_step.Take [of sample_services "{sample_services}" "new_fleet sample_jobs", OF _ _ open_job(1) sample_advance] found open_job(2)
    by (simp add: new_fleet_def)
  moreover have "fleet_step {sample_services} ?one ?two"
    using fleet_step.Take [of sample_services "{sample_services}" ?one, OF _ _ open_job(1) sample_advance] found open_job(2)
    by simp
  ultimately show ?thesis by (meson converse_rtranclp_into_rtranclp r_into_rtranclp)
qed

lemma sample_stored:
  "fleet_step {sample_services} \<lparr>fl_jobs = sample_jobs,
     fl_pollers = [Stepped BUILDING sample_failed, Stepped BUILDING sample_failed], fl_claims = []\<rparr> overtaken"
proof -
  have "put_next_revision sample_failed BUILDING sample_jobs = (True, [(''j1'', next_revision_of sample_failed)])"
    by (simp add: put_next_revision_def put_if_phase_def next_revision_of_def sample_jobs_def sample_failed_def sample_job_def)
  moreover have "dj_phase sample_failed = FAILED" "dj_job_id sample_failed = ''j1''"
    by (simp_all add: sample_failed_def sample_job_def)
  ultimately show ?thesis
    using fleet_step.Store [of "\<lparr>fl_jobs = sample_jobs,
      fl_pollers = [Stepped BUILDING sample_failed, Stepped BUILDING sample_failed], fl_claims = []\<rparr>" "[]" BUILDING
      sample_failed "[Stepped BUILDING sample_failed]" _ "{sample_services}"]
    by (simp add: overtaken_def)
qed

theorem failure_claimed_once_witness:
  "(fleet_step {sample_services})\<^sup>*\<^sup>* (new_fleet sample_jobs) overtaken \<and> fl_claims overtaken = [''j1''] \<and>
   distinct (compensating overtaken) \<and> compensating overtaken = [''j1'']"
proof -
  have reach: "(fleet_step {sample_services})\<^sup>*\<^sup>* (new_fleet sample_jobs) overtaken"
    using sample_reach sample_stored by (rule rtranclp.rtrancl_into_rtrancl)
  moreover have "distinct (compensating overtaken)" using failure_claimed_once [OF reach] by (rule conjunct1 [OF conjunct2])
  moreover have "fl_claims overtaken = [''j1'']" "compensating overtaken = [''j1'']"
    by (simp_all add: overtaken_def compensating_def List.map_filter_simps next_revision_of_def sample_failed_def sample_job_def)
  ultimately show ?thesis by blast
qed

theorem stored_job_moves_forward_witness:
  "succeeds (Some sample_job) (Some (next_revision_of sample_failed)) \<and> sample_job \<noteq> next_revision_of sample_failed"
proof -
  have "succeeds (dget sample_jobs ''j1'') (dget (fl_jobs overtaken) ''j1'')"
    using stored_job_moves_forward [OF sample_reach sample_stored] by simp
  then show ?thesis
    by (simp add: overtaken_def sample_jobs_def) (simp add: next_revision_of_def sample_failed_def sample_job_def)
qed

end
