(* ===== verification/Deploy_Trace.thy ===== *)
theory Deploy_Trace
  imports Deploy_Laws
begin

text \<open>
  What the calls of a step say: what was seen before a job is ready, what was approved before a
  redeployment touches the Lambda and the Targets, and what a compensation deletes.
\<close>

section \<open>Calls are only added\<close>

definition growing :: "('w, 'a) deploy_action \<Rightarrow> bool" where
  "growing m \<longleftrightarrow> (\<forall>st. prefix (dp_events st) (dp_events (snd (run_state m st))))"

named_theorems growing_intros \<open>actions that only add to what was called\<close>

lemma growing_basic [growing_intros]:
  "growing (give a)" "growing (throw e)" "growing the_job" "growing (on_job f)" "growing (touched env)"
  "growing (called g event)"
  by (simp_all add: growing_def the_job_def on_job_def touched_def called_def split: prod.split)

lemma growing_bind [growing_intros]: "growing m \<Longrightarrow> (\<And>a. growing (f a)) \<Longrightarrow> growing (try_bind m f)"
  unfolding growing_def
proof
  fix st
  assume m: "\<forall>st. prefix (dp_events st) (dp_events (snd (run_state m st)))"
    and f: "\<And>a. \<forall>st. prefix (dp_events st) (dp_events (snd (run_state (f a) st)))"
  show "prefix (dp_events st) (dp_events (snd (run_state (try_bind m f) st)))"
    using m [rule_format, of st] f prefix_order.trans
    by (fastforce simp: run_try_bind split: prod.split ending.split)
qed

lemma growing_attempt [growing_intros]: "growing m \<Longrightarrow> growing (attempt m)"
  unfolding growing_def attempt_def
  by (auto simp: run_handled run_try_bind split: prod.split ending.split) (metis snd_conv)+

lemma growing_cases [growing_intros]:
  "growing m \<Longrightarrow> growing n \<Longrightarrow> growing (if b then m else n)"
  "growing m \<Longrightarrow> (\<And>a. growing (f a)) \<Longrightarrow> growing (case x of None \<Rightarrow> m | Some a \<Rightarrow> f a)"
  "(\<And>a. growing (g a)) \<Longrightarrow> (\<And>b. growing (h b)) \<Longrightarrow> growing (case y of Inl a \<Rightarrow> g a | Inr b \<Rightarrow> h b)"
  "(\<And>a b. growing (k a b)) \<Longrightarrow> growing (case z of (a, b) \<Rightarrow> k a b)"
  "(\<And>a. growing (l a)) \<Longrightarrow> growing (let a = v in l a)"
  by (simp_all split: option.split sum.split prod.split)

lemma growing_failed_job [growing_intros]: "growing (failed_job env phase cause)"
  unfolding failed_job_def by (intro growing_intros)

lemma growing_policy [growing_intros]: "growing (policy_provisioned env)"
  unfolding policy_provisioned_def by (intro growing_intros)

lemma growing_read_access [growing_intros]: "growing (read_access_provisioned env)"
  unfolding read_access_provisioned_def by (intro growing_intros)

lemma growingE:
  assumes "growing m" "run_state m st = (r, u)"
  obtains new where "dp_events u = dp_events st @ new"
  using assms by (metis growing_def prefixE snd_conv)

lemma called_run:
  "run_state (called g event) st = (r, u) \<longleftrightarrow>
     r = answered (fst (g (dp_world st))) \<and>
     u = st\<lparr>dp_world := snd (g (dp_world st)), dp_events := dp_events st @ [event (fst (g (dp_world st)))]\<rparr>"
  by (auto simp: called_def split: prod.split)

lemma answered_Returned [simp]: "answered x = Returned a \<longleftrightarrow> x = Inr a"
  by (simp add: answered_def split: sum.split)

lemma Returned_answered [simp]: "Returned a = answered x \<longleftrightarrow> x = Inr a"
  by (auto simp: answered_def split: sum.split)

lemma answered_not_Hangs [simp]: "answered x \<noteq> Hangs"
  by (simp add: answered_def split: sum.split)

lemma attempt_called:
  "run_state (attempt (called g event)) st =
     (Returned (case fst (g (dp_world st)) of Inl x \<Rightarrow> Inl (Remote_failed x) | Inr a \<Rightarrow> Inr a),
      st\<lparr>dp_world := snd (g (dp_world st)), dp_events := dp_events st @ [event (fst (g (dp_world st)))]\<rparr>)"
  by (simp add: attempt_def run_handled run_try_bind called_def answered_def split: prod.split sum.split)

section \<open>Compensation\<close>

fun deleted_id :: "port_event \<Rightarrow> string option" where
  "deleted_id (Target_deleted tid _) = Some tid"
| "deleted_id _ = None"

definition own_targets :: "target_entry list \<Rightarrow> string list" where
  "own_targets ts = map (\<lambda>t. text_of (tn_target_id t)) (filter (\<lambda>t. tn_created t \<and> text_of (tn_target_id t) \<noteq> []) ts)"

lemma delete_created_events:
  "\<exists>x st' es. run_state (delete_created env ts) st = (Returned x, st') \<and>
     dp_events st' = dp_events st @ es \<and> map deleted_id es = map Some (own_targets ts)"
proof (induction ts arbitrary: st)
  case (Cons t ts)
  show ?case
  proof (cases "text_of (tn_target_id t) = [] \<or> \<not> tn_created t")
    case True
    with Cons [of st] show ?thesis
      by (auto simp: run_try_bind own_targets_def Let_def split: prod.split)
  next
    case False
    let ?tid = "text_of (tn_target_id t)"
    let ?g = "\<lambda>w. de_delete_target env w ?tid"
    let ?u = "st\<lparr>dp_world := snd (?g (dp_world st)),
      dp_events := dp_events st @ [Target_deleted ?tid (fst (?g (dp_world st)))]\<rparr>"
    obtain us errors st' es where rest: "run_state (delete_created env ts) ?u = (Returned (us, errors), st')"
      "dp_events st' = dp_events ?u @ es" "map deleted_id es = map Some (own_targets ts)"
      using Cons [of ?u] by (auto simp del: deploy_state.simps)
    have "\<exists>x. run_state (delete_created env (t # ts)) st = (Returned x, st')"
      using False rest(1) by (simp add: Let_def run_try_bind attempt_called)
    moreover have "map deleted_id (Target_deleted ?tid (fst (?g (dp_world st))) # es) = map Some (own_targets (t # ts))"
      using False rest(3) by (simp add: own_targets_def)
    moreover have "dp_events st' = dp_events st @ Target_deleted ?tid (fst (?g (dp_world st))) # es"
      using rest(2) by simp
    ultimately show ?thesis by blast
  qed
qed (simp add: own_targets_def)

text \<open>C21: A compensation deletes what its job created and nothing else: it calls nothing unless the job
  failed, is a first deployment and its Lambda was made by this process; then it first has the owner of
  the Lambda checked, stops if that fails, and otherwise asks once for the deletion of each Target
  whose creation the job recorded, in order. It never asks for another one, and it makes no other
  call.\<close>

theorem compensation_deletes_own_targets:
  "case run_job (compensate_failure env) job w of (r, job', w', events) \<Rightarrow>
     (if dj_phase job = FAILED \<and> \<not> is_redeploy job \<and> text_of (dj_lambda_arn job) \<noteq> [] \<and>
         dj_resource_owner_id job = Some (de_owner_id env)
      then \<exists>answer es. events = Owner_checked (text_of (dj_lambda_arn job)) answer # es \<and> r = Returned True \<and>
        map deleted_id es = (case answer of Inl _ \<Rightarrow> [] | Inr _ \<Rightarrow> map Some (own_targets (dj_gateway_targets job)))
      else events = [] \<and> r = Returned False \<and> job' = job)"
proof (cases "dj_phase job = FAILED \<and> \<not> is_redeploy job \<and> text_of (dj_lambda_arn job) \<noteq> [] \<and>
         dj_resource_owner_id job = Some (de_owner_id env)")
  case False
  then show ?thesis by (auto simp: run_job_def compensate_failure_def run_try_bind the_job_def)
next
  case True
  let ?st = "\<lparr>dp_job = job, dp_world = w, dp_events = []\<rparr>"
  let ?arn = "text_of (dj_lambda_arn job)"
  obtain answer w1 where check: "de_verify_owner env w ?arn job = (answer, w1)" by fastforce
  let ?u = "\<lparr>dp_job = job, dp_world = w1, dp_events = [Owner_checked ?arn answer]\<rparr>"
  obtain x st' es where del: "run_state (delete_created env (dj_gateway_targets job)) ?u = (Returned x, st')"
    "dp_events st' = dp_events ?u @ es" "map deleted_id es = map Some (own_targets (dj_gateway_targets job))"
    using delete_created_events by blast
  obtain entries errors where x: "x = (entries, errors)" by (cases x)
  show ?thesis
  proof (cases answer)
    case (Inl e)
    with True check show ?thesis
      by (simp add: run_job_def compensate_failure_def run_try_bind the_job_def attempt_called on_job_def Let_def)
  next
    case (Inr a)
    show ?thesis
    proof (cases "dj_gateway_targets job = []")
      case True
      with \<open>dj_phase job = FAILED \<and> _\<close> check Inr show ?thesis
        by (simp add: run_job_def compensate_failure_def run_try_bind the_job_def attempt_called on_job_def Let_def own_targets_def)
    next
      case False
      with True check Inr del x show ?thesis
        by (auto simp add: run_job_def compensate_failure_def run_try_bind the_job_def attempt_called on_job_def Let_def)
    qed
  qed
qed

section \<open>Ready\<close>

definition seen_ready :: "port_event list \<Rightarrow> string \<Rightarrow> bool" where
  "seen_ready es tid \<longleftrightarrow>
     list_ex (\<lambda>e. case e of Target_read i (Inr s) \<Rightarrow> i = tid \<and> tg_state s = ''READY'' | _ \<Rightarrow> False) es"

lemma seen_ready_append [simp]: "seen_ready (es @ fs) tid \<longleftrightarrow> seen_ready es tid \<or> seen_ready fs tid"
  by (simp add: seen_ready_def)

lemma seen_ready_first: "seen_ready [e] tid \<Longrightarrow> seen_ready (e # es) tid"
  by (simp add: seen_ready_def)

lemma seen_ready_rest: "seen_ready es tid \<Longrightarrow> seen_ready (e # es) tid"
  by (simp add: seen_ready_def)

lemma observe_entries_ready:
  "run_state (observe_entries env ts) st = (Returned (us, False, []), u) \<Longrightarrow>
     dp_job u = dp_job st \<and>
     (\<exists>es. dp_events u = dp_events st @ es \<and> list_all (\<lambda>t. seen_ready es (text_of (tn_target_id t))) (filter awaited ts))"
proof (induction ts arbitrary: st us)
  case (Cons t ts)
  show ?case
  proof (cases "awaited t")
    case False
    with Cons.prems obtain vs where "run_state (observe_entries env ts) st = (Returned (vs, False, []), u)"
      by (auto simp: run_try_bind split: prod.splits ending.splits)
    with Cons.IH False show ?thesis by simp
  next
    case True
    let ?tid = "text_of (tn_target_id t)"
    let ?g = "\<lambda>w. de_target_status env w ?tid"
    let ?a = "fst (?g (dp_world st))"
    let ?v = "st\<lparr>dp_world := snd (?g (dp_world st)), dp_events := dp_events st @ [Target_read ?tid ?a]\<rparr>"
    let ?t = "observed_entry (case ?a of Inl x \<Rightarrow> Inl (Remote_failed x) | Inr a \<Rightarrow> Inr a) t"
    from Cons.prems True obtain vs syncing errors where
      rest: "run_state (observe_entries env ts) ?v = (Returned (vs, syncing, errors), u)"
      and now: "\<not> syncing" "tn_state ?t \<noteq> ''SYNCHRONIZING''" "(if tn_state ?t = ''FAILED'' then target_failures [?t] else []) @ errors = []"
      by (auto simp: run_try_bind attempt_called Let_def split: prod.splits ending.splits)
    have failures: "tn_state x = ''FAILED'' \<and> tn_error x \<noteq> None \<Longrightarrow> target_failures [x] \<noteq> []" for x
      by (auto simp: target_failures_def List.map_filter_simps)
    have "seen_ready [Target_read ?tid ?a] ?tid"
    proof (cases ?a)
      case (Inl e)
      with now(3) failures [of ?t] show ?thesis by (simp add: observed_entry_def failed_entry_def)
    next
      case (Inr s)
      with now(2,3) failures [of ?t] show ?thesis
        by (auto simp: observed_entry_def failed_entry_def seen_ready_def split: if_splits)
    qed
    moreover from rest now have "run_state (observe_entries env ts) ?v = (Returned (vs, False, []), u)" by simp
    from Cons.IH [OF this] obtain es where "dp_job u = dp_job st" "dp_events u = dp_events st @ Target_read ?tid ?a # es"
      "list_all (\<lambda>t. seen_ready es (text_of (tn_target_id t))) (filter awaited ts)" by auto
    ultimately show ?thesis using True
      by (intro conjI exI [of _ "Target_read ?tid ?a # es"])
        (auto simp: list_all_iff intro: seen_ready_first seen_ready_rest)
  qed
qed simp

text \<open>What a step saw of the Targets of its job.\<close>

definition targets_seen :: "deploy_job \<Rightarrow> port_event list \<Rightarrow> bool" where
  "targets_seen job es \<longleftrightarrow>
     (if dj_gateway_targets job \<noteq> []
      then list_all (\<lambda>t. seen_ready es (text_of (tn_target_id t))) (filter awaited (dj_gateway_targets job))
      else if text_of (dj_target_id job) \<noteq> []
      then list_ex (\<lambda>e. case e of Target_read i (Inr s) \<Rightarrow>
        i = text_of (dj_target_id job) \<and> tg_state s \<notin> {''SYNCHRONIZING'', ''FAILED''} | _ \<Rightarrow> False) es
      else True)"

lemma targets_seen_append: "targets_seen job es \<Longrightarrow> targets_seen job (es @ fs)"
  by (auto simp: targets_seen_def list_all_iff split: if_splits)

lemma targets_ready_seen:
  assumes "run_state (targets_ready env) st = (Returned True, u)"
  obtains es where "dp_events u = dp_events st @ es" "targets_seen (dp_job st) es"
proof (cases "dj_gateway_targets (dp_job st) = []")
  case False
  with assms obtain entries v where
    run: "run_state (observe_entries env (dj_gateway_targets (dp_job st))) st = (Returned (entries, False, []), v)"
    and u: "dp_events u = dp_events v"
    by (auto simp: targets_ready_def run_try_bind the_job_def on_job_def split: prod.splits ending.splits if_splits)
  from observe_entries_ready [OF run] u False that show thesis by (auto simp: targets_seen_def)
next
  case True
  show thesis
  proof (cases "text_of (dj_target_id (dp_job st)) = []")
    case True
    with \<open>dj_gateway_targets (dp_job st) = []\<close> assms have "u = st"
      by (simp add: targets_ready_def run_try_bind the_job_def)
    with True \<open>dj_gateway_targets (dp_job st) = []\<close> that [of "[]"] show thesis by (simp add: targets_seen_def)
  next
    case False
    let ?tid = "text_of (dj_target_id (dp_job st))"
    from False True assms obtain s where
      "dp_events u = dp_events st @ [Target_read ?tid (Inr s)]" "tg_state s \<notin> {''SYNCHRONIZING'', ''FAILED''}"
      by (auto simp: targets_ready_def run_try_bind the_job_def called_run Let_def split: prod.splits ending.splits if_splits)
    with False True that [of "[Target_read ?tid (Inr s)]"] show thesis by (simp add: targets_seen_def)
  qed
qed

text \<open>The registration and the shared policy, where it is wired.\<close>

definition policy_seen :: "'w deploy_env \<Rightarrow> port_event list \<Rightarrow> bool" where
  "policy_seen env es \<longleftrightarrow>
     (case de_policy env of
        None \<Rightarrow> True
      | Some _ \<Rightarrow> list_ex (\<lambda>e. case e of Policy_provisioned (Inr report) \<Rightarrow>
          truthy (jget_or report ''ok'' (JBool False)) | _ \<Rightarrow> False) es)"

lemma policy_provisioned_seen:
  assumes "run_state (policy_provisioned env) st = (Returned True, u)"
  obtains es where "dp_events u = dp_events st @ es" "policy_seen env es" "dj_record_id (dp_job u) = dj_record_id (dp_job st)"
proof (cases "de_policy env")
  case None
  with assms that [of "[]"] show thesis by (simp add: policy_provisioned_def policy_seen_def)
next
  case (Some g)
  let ?a = "fst (g (dp_world st) (dp_job st))"
  from assms Some obtain report where "?a = Inr report" "truthy (jget_or report ''ok'' (JBool False))"
    "dp_events u = dp_events st @ [Policy_provisioned ?a]" "dj_record_id (dp_job u) = dj_record_id (dp_job st)"
    by (auto simp: policy_provisioned_def run_try_bind the_job_def attempt_called on_job_def
        split: prod.splits ending.splits sum.splits if_splits)
  with that [of "[Policy_provisioned ?a]"] Some show thesis by (simp add: policy_seen_def)
qed

lemma read_access_record:
  "run_state (read_access_provisioned env) st = (r, u) \<Longrightarrow> dj_record_id (dp_job u) = dj_record_id (dp_job st)"
  by (auto simp: read_access_provisioned_def run_try_bind the_job_def attempt_called on_job_def split: option.splits)

definition ready_evidence :: "'w deploy_env \<Rightarrow> deploy_job \<Rightarrow> deploy_job \<Rightarrow> port_event list \<Rightarrow> bool" where
  "ready_evidence env before after es \<longleftrightarrow>
     targets_seen before es \<and>
     list_ex (\<lambda>e. case e of Registered (Inr rid) \<Rightarrow> dj_record_id after = Some rid | _ \<Rightarrow> False) es \<and>
     policy_seen env es"

lemma failed_job_phase: "run_state (failed_job env phase cause) st = (r, u) \<Longrightarrow> dj_phase (dp_job u) = FAILED"
  by (auto simp: failed_job_def run_try_bind on_job_def touched_def split: prod.splits)

lemma identified_only: "job_keeps (identified k {p}) m \<Longrightarrow> job_identity (dp_job st) = k \<Longrightarrow> dj_phase (dp_job st) = p \<Longrightarrow>
    run_state m st = (r, u) \<Longrightarrow> dj_phase (dp_job u) = p"
  using job_keepsD [of "identified k {p}" m st r u] by (simp add: identified_def)

text \<open>A part that fails the job or leaves its phase does not make it ready.\<close>

lemma part_not_ready:
  assumes "job_keeps (identified (job_identity (dp_job st)) {dj_phase (dp_job st), FAILED}) m"
    "run_state m st = (r, u)" "dj_phase (dp_job st) \<noteq> READY"
  shows "dj_phase (dp_job u) \<noteq> READY"
  using job_keepsD [OF assms(1) _ assms(2)] assms(3) by (auto simp: identified_def)

lemma registering_ready:
  assumes run: "run_state (advance_registering env) st = (r, u)"
    and ready: "dj_phase (dp_job u) = READY" "dj_phase (dp_job st) \<noteq> READY"
  shows "\<exists>es. dp_events u = dp_events st @ es \<and> ready_evidence env (dp_job st) (dp_job u) es"
proof -
  let ?k = "job_identity (dp_job st)"
  let ?ps = "{dj_phase (dp_job st), FAILED}"
  have keep: "identified ?k ?ps (dp_job st)" by (simp add: identified_def)
  have not_ready: False if "identified ?k ?ps (dp_job u)" using that ready by (auto simp: identified_def)
  obtain a t1 where t1: "run_state (targets_ready env) st = (a, t1)" by fastforce
  have k1: "identified ?k ?ps (dp_job t1)" using job_keepsD [OF targets_ready_keeps keep t1] by simp
  have a: "a = Returned True"
    using run t1 not_ready k1
    by (cases a) (auto simp: advance_registering_def run_try_bind split: if_splits)
  obtain es1 where es1: "dp_events t1 = dp_events st @ es1" "targets_seen (dp_job st) es1"
    using t1 a by (auto elim: targets_ready_seen)
  obtain url t2 where t2: "run_state (called (de_endpoint env) Endpoint_read) t1 = (Returned url, t2)"
    and run2: "run_state (try_bind (on_job (\<lambda>job. job\<lparr>dj_gateway_url := Some url\<rparr>)) (\<lambda>_.
       try_bind the_job (\<lambda>job.
       try_bind (attempt (called (\<lambda>w. de_register env w job) Registered)) (\<lambda>r.
       case r of
         Inl e \<Rightarrow> failed_job env ''registering_target'' (Register_failed e)
       | Inr rid \<Rightarrow>
           try_bind (on_job (\<lambda>job. job\<lparr>dj_record_id := Some rid\<rparr>)) (\<lambda>_.
           try_bind (policy_provisioned env) (\<lambda>ok.
           if \<not> ok then give ()
           else
             try_bind (read_access_provisioned env) (\<lambda>_.
             try_bind (on_job (\<lambda>job. job\<lparr>dj_phase := READY\<rparr>)) (\<lambda>_. touched env)))))))) t2 = (r, u)"
    using run t1 a k1 not_ready
    by (auto simp: advance_registering_def run_try_bind called_run split: prod.splits ending.splits)
  let ?t3 = "t2\<lparr>dp_job := (dp_job t2)\<lparr>dj_gateway_url := Some url\<rparr>\<rparr>"
  let ?g = "\<lambda>w. de_register env w (dp_job ?t3)"
  let ?a = "fst (?g (dp_world t2))"
  let ?t4 = "?t3\<lparr>dp_world := snd (?g (dp_world t2)), dp_events := dp_events t2 @ [Registered ?a]\<rparr>"
  have es2: "dp_events t2 = dp_events t1 @ [Endpoint_read (Inr url)]" "dp_job t2 = dp_job t1"
    using t2 by (auto simp: called_run)
  have k2: "identified ?k ?ps (dp_job t2)" using k1 es2 by simp
  have k4: "identified ?k ?ps (dp_job ?t4)" using k2 by simp
  show ?thesis
  proof (cases ?a)
    case (Inl e)
    with run2 have "run_state (failed_job env ''registering_target'' (Register_failed (Remote_failed e))) ?t4 = (r, u)"
      by (simp add: run_try_bind on_job_def the_job_def attempt_called)
    with failed_job_phase ready show ?thesis by fastforce
  next
    case (Inr rid)
    let ?t5 = "?t4\<lparr>dp_job := (dp_job ?t4)\<lparr>dj_record_id := Some rid\<rparr>\<rparr>"
    have k5: "identified ?k ?ps (dp_job ?t5)" using k4 by simp
    obtain b t6 where t6: "run_state (policy_provisioned env) ?t5 = (b, t6)" by fastforce
    have k6: "identified ?k ?ps (dp_job t6)" using job_keepsD [OF policy_provisioned_keeps k5 t6] by simp
    have b: "b = Returned True"
      using run2 Inr t6 k6 not_ready
      by (cases b) (auto simp: run_try_bind on_job_def the_job_def attempt_called split: if_splits)
    obtain es6 where es6: "dp_events t6 = dp_events ?t5 @ es6" "policy_seen env es6"
      "dj_record_id (dp_job t6) = Some rid"
      using t6 b by (auto elim!: policy_provisioned_seen)
    obtain c t7 where t7: "run_state (read_access_provisioned env) t6 = (c, t7)" by fastforce
    obtain es7 where es7: "dp_events t7 = dp_events t6 @ es7" by (rule growingE [OF growing_read_access t7])
    have "dj_record_id (dp_job u) = Some rid \<and> dp_events u = dp_events t7"
      using run2 Inr t6 b t7 read_access_record [OF t7] es6(3)
      by (cases c) (auto simp: run_try_bind on_job_def the_job_def attempt_called touched_def split: prod.splits)
    with es1 es2 es6 es7 Inr show ?thesis
      by (intro exI [of _ "es1 @ [Endpoint_read (Inr url), Registered (Inr rid)] @ es6 @ es7"])
        (auto simp: ready_evidence_def targets_seen_append policy_seen_def split: option.splits)
  qed
qed

text \<open>C18: A job is ready only after what it waits for was seen. A step that makes it ready began while its
  Targets were being registered. In that very step each Target of the job that has a tag and an id and
  is neither absent nor deleted was read as \<open>READY\<close>; of a job with one legacy Target that Target was
  read in a state other than \<open>SYNCHRONIZING\<close> and \<open>FAILED\<close>. The Registry answered with the record that
  the job then names; and where the provisioning of the shared policy is wired, it reported \<open>ok\<close>.\<close>

theorem ready_only_when_seen:
  "case run_state (advance env) st of (r, u) \<Rightarrow>
     (if dj_phase (dp_job u) = READY \<and> dj_phase (dp_job st) \<noteq> READY
      then dj_phase (dp_job st) = REGISTERING_TARGET \<and>
        (\<exists>es. dp_events u = dp_events st @ es \<and> ready_evidence env (dp_job st) (dp_job u) es)
      else True)"
proof -
  obtain r u where run: "run_state (advance env) st = (r, u)" by fastforce
  show ?thesis
  proof (cases "dj_phase (dp_job u) = READY \<and> dj_phase (dp_job st) \<noteq> READY")
    case True
    with advance_identified [OF run] have phase: "dj_phase (dp_job st) = REGISTERING_TARGET"
      by (auto simp: identified_def next_phases_def split: deploy_phase.splits)
    with run have "run_state (advance_registering env) st = (r, u)"
      by (simp add: advance_def run_try_bind the_job_def)
    from registering_ready [OF this] True phase run show ?thesis by simp
  qed (simp add: run)
qed

section \<open>Approval before writing\<close>

definition adds :: "(port_event \<Rightarrow> bool) \<Rightarrow> ('w, 'a) deploy_action \<Rightarrow> bool" where
  "adds P m \<longleftrightarrow> (\<forall>st. \<exists>es. dp_events (snd (run_state m st)) = dp_events st @ es \<and> list_all P es)"

named_theorems adds_intros \<open>actions whose calls all have a property\<close>

lemma addsE:
  assumes "adds P m" "run_state m st = (r, u)"
  obtains es where "dp_events u = dp_events st @ es" "list_all P es"
  using assms by (metis adds_def snd_conv)

lemma adds_basic [adds_intros]:
  "adds P (give a)" "adds P (throw e)" "adds P the_job" "adds P (on_job f)" "adds P (touched env)"
  by (simp_all add: adds_def the_job_def on_job_def touched_def split: prod.split)

lemma adds_called [adds_intros]: "(\<And>r. P (event r)) \<Longrightarrow> adds P (called g event)"
  by (auto simp: adds_def called_def split: prod.split)

lemma adds_bind [adds_intros]: "adds P m \<Longrightarrow> (\<And>a. adds P (f a)) \<Longrightarrow> adds P (try_bind m f)"
  unfolding adds_def
proof
  fix st
  assume m: "\<forall>st. \<exists>es. dp_events (snd (run_state m st)) = dp_events st @ es \<and> list_all P es"
    and f: "\<And>a. \<forall>st. \<exists>es. dp_events (snd (run_state (f a) st)) = dp_events st @ es \<and> list_all P es"
  obtain r u where run: "run_state m st = (r, u)" by fastforce
  with m obtain es where es: "dp_events u = dp_events st @ es" "list_all P es" by (metis snd_conv)
  show "\<exists>es. dp_events (snd (run_state (try_bind m f) st)) = dp_events st @ es \<and> list_all P es"
  proof (cases r)
    case (Returned a)
    from f [of a] obtain fs where "dp_events (snd (run_state (f a) u)) = dp_events u @ fs" "list_all P fs" by blast
    with es run Returned show ?thesis by (intro exI [of _ "es @ fs"]) (simp add: run_try_bind)
  qed (use run es in \<open>auto simp: run_try_bind\<close>)
qed

lemma adds_attempt [adds_intros]: "adds P m \<Longrightarrow> adds P (attempt m)"
proof -
  have "dp_events (snd (run_state (attempt m) st)) = dp_events (snd (run_state m st))" for st
    by (simp add: attempt_def run_handled run_try_bind split: prod.split ending.split)
  then show "adds P m \<Longrightarrow> adds P (attempt m)" by (simp add: adds_def)
qed

lemma adds_cases [adds_intros]:
  "adds P m \<Longrightarrow> adds P n \<Longrightarrow> adds P (if b then m else n)"
  "adds P m \<Longrightarrow> (\<And>a. adds P (f a)) \<Longrightarrow> adds P (case x of None \<Rightarrow> m | Some a \<Rightarrow> f a)"
  "(\<And>a. adds P (g a)) \<Longrightarrow> (\<And>b. adds P (h b)) \<Longrightarrow> adds P (case y of Inl a \<Rightarrow> g a | Inr b \<Rightarrow> h b)"
  "(\<And>a b. adds P (k a b)) \<Longrightarrow> adds P (case z of (a, b) \<Rightarrow> k a b)"
  "(\<And>a. adds P (l a)) \<Longrightarrow> adds P (let a = v in l a)"
  "(\<And>s. adds P (i s)) \<Longrightarrow> adds P m \<Longrightarrow> adds P (case j of JStr s \<Rightarrow> i s | _ \<Rightarrow> m)"
  by (simp_all split: option.split sum.split prod.split json.split)

text \<open>The calls that change the Lambda or a Target.\<close>

fun writes_gateway :: "port_event \<Rightarrow> bool" where
  "writes_gateway (Lambda_written _ _ _) = True"
| "writes_gateway (Target_updated _ _ _ _ _) = True"
| "writes_gateway (Target_wired _ _ _ _) = True"
| "writes_gateway (Target_deleted _ _) = True"
| "writes_gateway _ = False"

text \<open>The writes that a plan allows: the Lambda, and Targets with the name and the tools of a slice.\<close>

fun planned :: "bool \<Rightarrow> target_split \<Rightarrow> port_event \<Rightarrow> bool" where
  "planned redeploy plan (Lambda_written update _ _) = (update = redeploy)"
| "planned redeploy plan (Target_updated _ name _ tools _) =
     (redeploy \<and> (name, tools) \<in> (\<lambda>sl. (ts_gateway_target_name sl, ts_tools_inline sl)) ` set (sl_slices plan))"
| "planned redeploy plan (Target_wired name _ tools _) =
     ((name, tools) \<in> (\<lambda>sl. (ts_gateway_target_name sl, ts_tools_inline sl)) ` set (sl_slices plan))"
| "planned redeploy plan e = (\<not> writes_gateway e)"

text \<open>The guard's approval of a text.\<close>

definition approves :: "string \<Rightarrow> port_event \<Rightarrow> bool" where
  "approves tools e =
     (case e of Guard_asked (Inr (JObj d)) \<Rightarrow> jget d ''status'' = JStr ''ready'' \<and> jget d ''tools_inline'' = JStr tools
      | _ \<Rightarrow> False)"

lemma adds_failed_job [adds_intros]: "adds P (failed_job env phase cause)"
  unfolding failed_job_def by (intro adds_intros)

lemma adds_guard_decision [adds_intros]: "(\<And>r. P (Guard_asked r)) \<Longrightarrow> adds P (guard_decision env)"
  unfolding guard_decision_def by (intro adds_intros)

lemma adds_approved [adds_intros]: "(\<And>r. P (Guard_asked r)) \<Longrightarrow> adds P (approved env)"
  unfolding approved_def by (intro adds_intros)

lemma adds_quota [adds_intros]: "(\<And>r. P (Quota_observed r)) \<Longrightarrow> adds P (observe_gateway_target_quota env)"
  unfolding observe_gateway_target_quota_def by (intro adds_intros)

lemma adds_observe_entries [adds_intros]: "(\<And>i r. P (Target_read i r)) \<Longrightarrow> adds P (observe_entries env ts)"
  by (induction ts) (auto simp: Let_def intro!: adds_intros)

lemma adds_targets_ready [adds_intros]: "(\<And>i r. P (Target_read i r)) \<Longrightarrow> adds P (targets_ready env)"
  unfolding targets_ready_def by (intro adds_intros)

lemma adds_registering:
  "adds (\<lambda>e. \<not> writes_gateway e) (advance_registering env)"
  unfolding advance_registering_def policy_provisioned_def read_access_provisioned_def
  by (intro adds_intros) simp_all

lemma adds_reconcile_slice:
  "sl \<in> set (sl_slices plan) \<Longrightarrow> adds (planned (is_redeploy job) plan) (reconcile_slice env job sl)"
proof (cases "is_redeploy job")
  case True
  moreover assume "sl \<in> set (sl_slices plan)"
  ultimately show ?thesis unfolding reconcile_slice_def wired_def Let_def by (intro adds_intros) auto
next
  case False
  moreover assume "sl \<in> set (sl_slices plan)"
  ultimately show ?thesis
    unfolding reconcile_slice_def wired_def Let_def by (simp only: False simp_thms if_False) (intro adds_intros, auto)
qed

lemma adds_reconcile_slices:
  "set sls \<subseteq> set (sl_slices plan) \<Longrightarrow> adds (planned (is_redeploy job) plan) (reconcile_slices env job sls)"
  by (induction sls) (auto intro!: adds_intros adds_reconcile_slice)

text \<open>Actions on a job of which it is known whether it is a redeployment.\<close>

definition adds_for :: "bool \<Rightarrow> (port_event \<Rightarrow> bool) \<Rightarrow> ('w, 'a) deploy_action \<Rightarrow> bool" where
  "adds_for b P m \<longleftrightarrow>
     (\<forall>st. is_redeploy (dp_job st) = b \<longrightarrow>
        (\<exists>es. dp_events (snd (run_state m st)) = dp_events st @ es \<and> list_all P es))"

lemma adds_forI: "adds P m \<Longrightarrow> adds_for b P m"
  by (simp add: adds_def adds_for_def)

lemma adds_for_the_job: "(\<And>job. is_redeploy job = b \<Longrightarrow> adds_for b P (f job)) \<Longrightarrow> adds_for b P (try_bind the_job f)"
  by (simp add: adds_for_def run_try_bind the_job_def)

lemma adds_for_bind:
  assumes "adds_for b P m" "job_keeps (\<lambda>job. is_redeploy job = b) m" "\<And>a. adds_for b P (f a)"
  shows "adds_for b P (try_bind m f)"
  unfolding adds_for_def
proof (intro allI impI)
  fix st
  assume st: "is_redeploy (dp_job (st :: 'a deploy_state)) = b"
  obtain r u where run: "run_state m st = (r, u)" by fastforce
  with assms(1) st obtain es where es: "dp_events u = dp_events st @ es" "list_all P es"
    by (metis adds_for_def snd_conv)
  have "is_redeploy (dp_job u) = b" using job_keepsD [OF assms(2) st run] .
  with assms(3) obtain fs where "\<forall>a. r = Returned a \<longrightarrow>
      dp_events (snd (run_state (f a) u)) = dp_events u @ fs \<and> list_all P fs"
    unfolding adds_for_def by (cases r) auto
  with es run show "\<exists>es. dp_events (snd (run_state (try_bind m f) st)) = dp_events st @ es \<and> list_all P es"
    by (cases r) (auto simp: run_try_bind)
qed

lemma is_redeploy_identity: "job_identity a = job_identity b \<Longrightarrow> is_redeploy a = is_redeploy b"
  by (simp add: job_identity_def is_redeploy_def)

lemma is_redeploy_keeps [job_intros]:
  assumes "\<And>k. job_keeps (identified k UNIV) m" shows "job_keeps (\<lambda>job. is_redeploy job = b) m"
  unfolding job_keeps_def keeps_def wp_def
proof (intro allI impI, clarsimp)
  fix st :: "'a deploy_state" and r u
  assume run: "run_state m st = (r, u)"
  have "identified (job_identity (dp_job st)) UNIV (dp_job st)" by (simp add: identified_def)
  from job_keepsD [OF assms this run] have "job_identity (dp_job u) = job_identity (dp_job st)"
    by (simp add: identified_def)
  then show "is_redeploy (dp_job u) = is_redeploy (dp_job st)" by (rule is_redeploy_identity)
qed

lemma adds_write_lambda: "adds_for b (planned b plan) (write_lambda env artifact)"
  unfolding write_lambda_def
proof (rule adds_for_the_job)
  fix job
  assume "is_redeploy job = b"
  then show "adds_for b (planned b plan) (let name = lambda_name env job;
         write_call = (if is_redeploy job then de_update_lambda env else de_create_lambda env) in
     try_bind (called (\<lambda>w. write_call w name artifact job) (Lambda_written (is_redeploy job) name)) (\<lambda>d.
     on_job (\<lambda>job. job\<lparr>dj_lambda_arn := Some (ld_arn d),
       dj_resource_owner_id := (if ld_created d then Some (de_owner_id env) else dj_resource_owner_id job)\<rparr>)))"
    unfolding Let_def by (intro adds_forI adds_intros) simp
qed

lemma adds_reconcile: "adds_for b (planned b plan) (reconcile_gateway_targets env plan)"
proof -
  have "adds_for b (planned b plan) (try_bind the_job (\<lambda>job.
     try_bind (reconcile_slices env job (sl_slices plan)) (\<lambda>entries.
     try_bind (on_job (\<lambda>job. job\<lparr>dj_gateway_targets := entries\<rparr>)) (\<lambda>_.
     try_bind (if dj_gateway_target_quota job = None \<and>
           list_ex (\<lambda>t. tn_created t \<and> text_of (tn_target_id t) \<noteq> []) entries
         then try_bind (observe_gateway_target_quota env) (\<lambda>q. on_job (\<lambda>job. job\<lparr>dj_gateway_target_quota := Some q\<rparr>))
         else give ()) (\<lambda>_.
     try_bind (on_job (\<lambda>job. job\<lparr>dj_target_id := first_target entries\<rparr>)) (\<lambda>_.
     give (target_failures entries)))))))"
  proof (rule adds_for_the_job, rule adds_forI, rule adds_bind)
    fix job
    assume "is_redeploy job = b"
    then show "adds (planned b plan) (reconcile_slices env job (sl_slices plan))"
      using adds_reconcile_slices [of "sl_slices plan" plan job env] by simp
  qed (intro adds_intros, simp)
  note rest = this
  show ?thesis
    unfolding reconcile_gateway_targets_def
    by (rule adds_for_bind [OF adds_forI [OF adds_basic(4)] job_keeps_on_job rest]) (simp add: is_redeploy_def)
qed

lemma adds_deploy_plan: "adds_for b (planned b plan) (deploy_plan env artifact changes plan)"
proof -
  have attempted: "adds_for b (planned b plan) (attempt (write_lambda env artifact))"
  proof -
    have "dp_events (snd (run_state (attempt m) st)) = dp_events (snd (run_state m st))" for m :: "('a, unit) deploy_action" and st
      by (simp add: attempt_def run_handled run_try_bind split: prod.split ending.split)
    then show ?thesis using adds_write_lambda unfolding adds_for_def by metis
  qed
  have identity: "job_keeps (\<lambda>job. is_redeploy job = b) (attempt (write_lambda env artifact))"
    "job_keeps (\<lambda>job. is_redeploy job = b) (reconcile_gateway_targets env plan)"
    by (intro is_redeploy_keeps job_intros; simp)+
  have rest: "adds_for b (planned b plan) (try_bind (attempt (write_lambda env artifact)) (\<lambda>r.
         case r of
           Inl e \<Rightarrow>
             try_bind (failed_job env ''building'' (Lambda_failed e)) (\<lambda>_.
             on_job (\<lambda>job. if is_redeploy job \<and> changes \<noteq> []
               then job\<lparr>dj_error := map_option (\<lambda>x. x\<lparr>je_diverged := Some changes\<rparr>) (dj_error job)\<rparr> else job))
         | Inr _ \<Rightarrow>
             try_bind (reconcile_gateway_targets env plan) (\<lambda>errors.
             if errors \<noteq> [] then failed_job env ''building'' (Targets_failed errors)
             else try_bind (on_job (\<lambda>job. job\<lparr>dj_phase := REGISTERING_TARGET\<rparr>)) (\<lambda>_. touched env))))" (is "adds_for _ _ ?rest")
  proof (rule adds_for_bind [OF attempted identity(1)], split sum.split, intro conjI allI impI)
    show "adds_for b (planned b plan) (try_bind (failed_job env ''building'' (Lambda_failed e)) (\<lambda>_.
             on_job (\<lambda>job. if is_redeploy job \<and> changes \<noteq> []
               then job\<lparr>dj_error := map_option (\<lambda>x. x\<lparr>je_diverged := Some changes\<rparr>) (dj_error job)\<rparr> else job)))" for e
      by (intro adds_forI adds_intros)
    show "adds_for b (planned b plan) (try_bind (reconcile_gateway_targets env plan) (\<lambda>errors.
             if errors \<noteq> [] then failed_job env ''building'' (Targets_failed errors)
             else try_bind (on_job (\<lambda>job. job\<lparr>dj_phase := REGISTERING_TARGET\<rparr>)) (\<lambda>_. touched env)))"
      by (rule adds_for_bind [OF adds_reconcile identity(2)]) (intro adds_forI adds_intros)
  qed
  show ?thesis
    unfolding deploy_plan_def
  proof (rule adds_for_bind [OF adds_forI [OF adds_basic(4)] job_keeps_on_job])
    show "adds_for b (planned b plan) (try_bind the_job (\<lambda>job.
       case (if de_guard env = None then redeploy_topology_error (de_repr env) job plan else None) of
         Some e \<Rightarrow> failed_job env ''building'' (Topology_refused e)
       | None \<Rightarrow> ?rest))"
    proof (rule adds_for_the_job)
      fix job
      show "adds_for b (planned b plan)
          (case (if de_guard env = None then redeploy_topology_error (de_repr env) job plan else None) of
             Some e \<Rightarrow> failed_job env ''building'' (Topology_refused e) | None \<Rightarrow> ?rest)"
        using rest by (auto intro: adds_forI adds_intros split: option.split)
    qed
  qed (simp add: is_redeploy_def)
qed

lemma unknown_not_ready: "jget unknown_decision ''status'' \<noteq> JStr ''ready''"
  by (simp add: unknown_decision_def jget_def)

lemma guard_run:
  assumes "run_state (guard_decision env) st = (Returned d, u)" "jget d ''status'' = JStr ''ready''"
  shows "dp_job u = dp_job st \<and> dp_events u = dp_events st @ [Guard_asked (Inr (JObj d))] \<and>
    (\<exists>g. de_guard env = Some g \<and> Inr (JObj d) = fst (g (dp_world st) (text_of (dj_redeploy_record_id (dp_job st)))
       (text_of (dj_tools_inline (dp_job st))) (dj_principal (dp_job st))))"
proof (cases "de_guard env")
  case None
  with assms unknown_not_ready show ?thesis by (auto simp: guard_decision_def)
next
  case (Some g)
  let ?a = "fst (g (dp_world st) (text_of (dj_redeploy_record_id (dp_job st))) (text_of (dj_tools_inline (dp_job st))) (dj_principal (dp_job st)))"
  from assms unknown_not_ready Some show ?thesis
    by (auto simp: guard_decision_def run_try_bind the_job_def attempt_called split: sum.splits json.splits)
qed

text \<open>The guard was asked about the tools \<open>selected\<close> of a redeployment and answered that it is ready
  with \<open>tools\<close>.\<close>

definition guard_approves :: "'w deploy_env \<Rightarrow> deploy_job \<Rightarrow> string \<Rightarrow> string \<Rightarrow> port_event \<Rightarrow> bool" where
  "guard_approves env job selected tools e \<longleftrightarrow>
     approves tools e \<and>
     (\<exists>g w. de_guard env = Some g \<and>
        e = Guard_asked (fst (g w (text_of (dj_redeploy_record_id job)) selected (dj_principal job))))"

definition quiet :: "port_event \<Rightarrow> bool" where
  "quiet e \<longleftrightarrow> \<not> writes_gateway e"

lemma approved_run:
  assumes "run_state (approved env) st = (Returned (Some changes), u)"
  obtains es where "dp_events u = dp_events st @ es" "list_all quiet es"
    "if is_redeploy (dp_job st)
     then \<exists>e \<in> set es. guard_approves env (dp_job st) (text_of (dj_tools_inline (dp_job st))) (text_of (dj_tools_inline (dp_job u))) e
     else u = st"
proof (cases "is_redeploy (dp_job st)")
  case False
  with assms have "u = st" by (simp add: approved_def run_try_bind the_job_def)
  with False that [of "[]"] show thesis by simp
next
  case True
  obtain r t where guard: "run_state (guard_decision env) st = (r, t)" by fastforce
  with assms True obtain d tools where d: "r = Returned d" "jget d ''status'' = JStr ''ready''"
    "jget d ''tools_inline'' = JStr tools" "dj_tools_inline (dp_job u) = Some tools" "dp_events u = dp_events t"
    by (auto simp: approved_def run_try_bind the_job_def on_job_def touched_def
        split: ending.splits if_splits json.splits prod.splits)
  note asked = guard_run [OF guard [unfolded d(1)] d(2)]
  then have "guard_approves env (dp_job st) (text_of (dj_tools_inline (dp_job st))) tools (Guard_asked (Inr (JObj d)))"
    using d(2,3) unfolding guard_approves_def approves_def by auto
  with asked d(4,5) True that [of "[Guard_asked (Inr (JObj d))]"] show thesis
    by (simp add: quiet_def text_of_def)
qed

text \<open>What a step that writes had before it, from the tools \<open>selected\<close> for the job: in a redeployment the
  guard was asked about just these, and the tools it approved are the ones that are planned; otherwise
  they are planned themselves.\<close>

definition writes_from :: "'w deploy_env \<Rightarrow> deploy_job \<Rightarrow> string \<Rightarrow> port_event list \<Rightarrow> bool" where
  "writes_from env job selected es \<longleftrightarrow>
     list_all quiet es \<or>
     (\<exists>pre post tools plan. es = pre @ post \<and> list_all quiet pre \<and>
        (if is_redeploy job then \<exists>e \<in> set pre. guard_approves env job selected tools e else tools = selected) \<and>
        split_target_slices (de_hash env) (de_parse env) (de_repr env) (de_dump env) (display_name job) tools = Some plan \<and>
        list_all (planned (is_redeploy job) plan) post)"

text \<open>The artifact of a build that was read, and what a building step may do: the tools are those of the
  artifact, or of the job, cut down to the selected ones.\<close>

definition read_artifact :: "deploy_job \<Rightarrow> build_status \<Rightarrow> build_artifact" where
  "read_artifact job bs = (case bs_artifact bs of Some a \<Rightarrow> a
     | None \<Rightarrow> \<lparr>ba_build_type = dj_build_type job, ba_uri = [], ba_tools_inline = []\<rparr>)"

definition deployed_as_planned :: "'w deploy_env \<Rightarrow> deploy_job \<Rightarrow> port_event list \<Rightarrow> bool" where
  "deployed_as_planned env job es \<longleftrightarrow>
     list_all quiet es \<or>
     (\<exists>bs selected rest. es = Build_read (text_of (dj_build_id job)) (Inr bs) # rest \<and>
        selected_tools_inline (de_parse env) (de_dump env) (text_of (built_tools (read_artifact job bs) job))
          (dj_selected_tools job) = Selected selected \<and>
        writes_from env job selected rest)"

lemma quiet_planned: "list_all quiet es \<Longrightarrow> deployed_as_planned env job es"
  by (simp add: deployed_as_planned_def)

text \<open>What names the Targets of a job.\<close>

definition name_identity :: "deploy_job \<Rightarrow> (string, string) dict \<times> string \<times> string option \<times> string option" where
  "name_identity job = (dj_meta job, dj_job_id job, dj_redeploy_runtime_id job, dj_redeploy_record_id job)"

lemma name_identity_display: "name_identity a = name_identity b \<Longrightarrow> display_name a = display_name b \<and> is_redeploy a = is_redeploy b"
  by (simp add: name_identity_def display_name_def meta_text_def is_redeploy_def)

lemma approved_names: "job_keeps (\<lambda>job. name_identity job = k) (approved env)"
  unfolding approved_def by (intro job_intros) (simp_all add: name_identity_def)

text \<open>From the selected tools on.\<close>

lemma approved_deploys:
  assumes "run_state (try_bind (approved env) (\<lambda>changes.
           case changes of
             None \<Rightarrow> give ()
           | Some changes \<Rightarrow>
               try_bind the_job (\<lambda>job.
               case split_target_slices (de_hash env) (de_parse env) (de_repr env) (de_dump env)
                   (display_name job) (text_of (dj_tools_inline job)) of
                 None \<Rightarrow> failed_job env ''building'' Split_impossible
               | Some plan \<Rightarrow> deploy_plan env artifact changes plan))) st = (r, u)"
  shows "\<exists>es. dp_events u = dp_events st @ es \<and> writes_from env (dp_job st) (text_of (dj_tools_inline (dp_job st))) es"
proof -
  have quiet_from: "list_all quiet es \<Longrightarrow> writes_from env job selected es" for es job selected
    by (simp add: writes_from_def)
  obtain a t where app: "run_state (approved env) st = (a, t)" by fastforce
  have "adds quiet (approved env)" by (rule adds_approved) (simp add: quiet_def)
  from addsE [OF this app] obtain es where es: "dp_events t = dp_events st @ es" "list_all quiet es" .
  show ?thesis
  proof (cases "\<exists>changes. a = Returned (Some changes)")
    case False
    with assms app have "u = t" by (cases a) (auto simp: run_try_bind split: option.splits)
    with es quiet_from show ?thesis by blast
  next
    case True
    then obtain changes where a: "a = Returned (Some changes)" by blast
    obtain pre where pre: "dp_events t = dp_events st @ pre" "list_all quiet pre"
      "if is_redeploy (dp_job st)
       then \<exists>e \<in> set pre. guard_approves env (dp_job st) (text_of (dj_tools_inline (dp_job st))) (text_of (dj_tools_inline (dp_job t))) e
       else t = st"
      using app a by (auto elim: approved_run)
    have same: "display_name (dp_job t) = display_name (dp_job st)" "is_redeploy (dp_job t) = is_redeploy (dp_job st)"
      using job_keepsD [OF approved_names refl app] name_identity_display by blast+
    show ?thesis
    proof (cases "split_target_slices (de_hash env) (de_parse env) (de_repr env) (de_dump env)
        (display_name (dp_job t)) (text_of (dj_tools_inline (dp_job t)))")
      case None
      with assms app a have run: "run_state (failed_job env ''building'' Split_impossible) t = (r, u)"
        by (simp add: run_try_bind the_job_def)
      obtain fs where "dp_events u = dp_events t @ fs" "list_all quiet fs" by (rule addsE [OF adds_failed_job run])
      with es have "dp_events u = dp_events st @ es @ fs" "list_all quiet (es @ fs)" by simp_all
      then show ?thesis using quiet_from by blast
    next
      case (Some plan)
      with assms app a have run: "run_state (deploy_plan env artifact changes plan) t = (r, u)"
        by (simp add: run_try_bind the_job_def)
      then obtain post where post: "dp_events u = dp_events t @ post" "list_all (planned (is_redeploy (dp_job t)) plan) post"
        using adds_deploy_plan unfolding adds_for_def by (metis snd_conv)
      have "writes_from env (dp_job st) (text_of (dj_tools_inline (dp_job st))) (pre @ post)"
        unfolding writes_from_def
        by (intro disjI2 exI [of _ pre] exI [of _ post] exI [of _ "text_of (dj_tools_inline (dp_job t))"] exI [of _ plan])
          (use pre post Some same in \<open>auto split: if_splits\<close>)
      with pre post show ?thesis by auto
    qed
  qed
qed

lemma quiet_part:
  assumes "adds quiet m" "run_state m st = (r, u)"
  shows "\<exists>es. dp_events u = dp_events st @ es \<and> list_all quiet es"
  using addsE [OF assms] by metis

lemma quiet_failed_job: "adds quiet (failed_job env phase cause)"
  by (rule adds_failed_job)

lemma run_on_job: "run_state (try_bind (on_job f) g) st = run_state (g ()) (st\<lparr>dp_job := f (dp_job st)\<rparr>)"
  by (simp add: run_try_bind on_job_def)

lemma run_the_job: "run_state (try_bind the_job g) st = run_state (g (dp_job st)) st"
  by (simp add: run_try_bind the_job_def)

lemma run_called:
  "g (dp_world st) = (Inr a, w) \<Longrightarrow>
     run_state (try_bind (called g event) f) st = run_state (f a) (st\<lparr>dp_world := w, dp_events := dp_events st @ [event (Inr a)]\<rparr>)"
  by (simp add: run_try_bind called_def answered_def)

text \<open>After the build was read.\<close>

lemma built_deploys:
  assumes "run_state (if bs_state bs = ''IN_PROGRESS'' then give ()
     else if bs_state bs = ''FAILED''
     then failed_job env ''building'' (Build_failed (if bs_reason bs \<noteq> [] then bs_reason bs else ''build failed''))
     else
       let artifact = (case bs_artifact bs of Some a \<Rightarrow> a
         | None \<Rightarrow> \<lparr>ba_build_type = dj_build_type job, ba_uri = [], ba_tools_inline = []\<rparr>) in
       try_bind (on_job (\<lambda>job. job\<lparr>dj_artifact_uri := Some (ba_uri artifact), dj_tools_inline := built_tools artifact job\<rparr>)) (\<lambda>_.
       case selected_tools_inline (de_parse env) (de_dump env) (text_of (built_tools artifact job)) (dj_selected_tools job) of
         Selection_refused e \<Rightarrow> failed_job env ''building'' (Tools_unusable e)
       | Selection_raises \<Rightarrow> throw (Remote_failed ''AttributeError'')
       | Selected tools \<Rightarrow>
           try_bind (on_job (\<lambda>job. job\<lparr>dj_tools_inline := Some tools\<rparr>)) (\<lambda>_.
           try_bind (approved env) (\<lambda>changes.
           case changes of
             None \<Rightarrow> give ()
           | Some changes \<Rightarrow>
               try_bind the_job (\<lambda>job.
               case split_target_slices (de_hash env) (de_parse env) (de_repr env) (de_dump env)
                   (display_name job) (text_of (dj_tools_inline job)) of
                 None \<Rightarrow> failed_job env ''building'' Split_impossible
               | Some plan \<Rightarrow> deploy_plan env artifact changes plan))))) st = (r, u)"
    and job: "job = dp_job st"
  shows "\<exists>es. dp_events u = dp_events st @ es \<and>
    (list_all quiet es \<or>
     (\<exists>selected. selected_tools_inline (de_parse env) (de_dump env) (text_of (built_tools (read_artifact job bs) job))
         (dj_selected_tools job) = Selected selected \<and> writes_from env job selected es))"
proof -
  note assms = assms(1)
  let ?artifact = "case bs_artifact bs of Some a \<Rightarrow> a
         | None \<Rightarrow> \<lparr>ba_build_type = dj_build_type job, ba_uri = [], ba_tools_inline = []\<rparr>"
  let ?t = "st\<lparr>dp_job := (dp_job st)\<lparr>dj_artifact_uri := Some (ba_uri ?artifact), dj_tools_inline := built_tools ?artifact (dp_job st)\<rparr>\<rparr>"
  consider (busy) "bs_state bs = ''IN_PROGRESS''"
    | (failed) "bs_state bs \<noteq> ''IN_PROGRESS''" "bs_state bs = ''FAILED''"
    | (built) "bs_state bs \<noteq> ''IN_PROGRESS''" "bs_state bs \<noteq> ''FAILED''" by blast
  then show ?thesis
  proof cases
    case busy
    with assms have "run_state (give ()) st = (r, u)" by simp
    from quiet_part [OF adds_basic(1) this] show ?thesis by blast
  next
    case failed
    with assms have "run_state (failed_job env ''building''
        (Build_failed (if bs_reason bs \<noteq> [] then bs_reason bs else ''build failed''))) st = (r, u)" by simp
    from quiet_part [OF quiet_failed_job this] show ?thesis by blast
  next
    case built
    show ?thesis
    proof (cases "selected_tools_inline (de_parse env) (de_dump env) (text_of (built_tools ?artifact job)) (dj_selected_tools job)")
      case (Selected tools)
      let ?v = "?t\<lparr>dp_job := (dp_job ?t)\<lparr>dj_tools_inline := Some tools\<rparr>\<rparr>"
      from assms built Selected have "run_state (try_bind (approved env) (\<lambda>changes.
           case changes of
             None \<Rightarrow> give ()
           | Some changes \<Rightarrow>
               try_bind the_job (\<lambda>job.
               case split_target_slices (de_hash env) (de_parse env) (de_repr env) (de_dump env)
                   (display_name job) (text_of (dj_tools_inline job)) of
                 None \<Rightarrow> failed_job env ''building'' Split_impossible
               | Some plan \<Rightarrow> deploy_plan env ?artifact changes plan))) ?v = (r, u)"
        by (simp add: Let_def run_on_job)
      from approved_deploys [OF this]
      obtain es where es: "dp_events u = dp_events st @ es" "writes_from env (dp_job ?v) tools es" by (auto simp: text_of_def)
      have "display_name (dp_job ?v) = display_name job" "is_redeploy (dp_job ?v) = is_redeploy job"
        "dj_redeploy_record_id (dp_job ?v) = dj_redeploy_record_id job" "dj_principal (dp_job ?v) = dj_principal job"
        by (simp_all add: job display_name_def meta_text_def is_redeploy_def)
      with es(2) have "writes_from env job tools es" by (simp only: writes_from_def guard_approves_def)
      with es(1) Selected show ?thesis by (auto simp: read_artifact_def)
    next
      case (Selection_refused e)
      with assms built have "run_state (failed_job env ''building'' (Tools_unusable e)) ?t = (r, u)"
        by (simp add: Let_def run_try_bind on_job_def)
      from quiet_part [OF quiet_failed_job this] show ?thesis by auto
    next
      case Selection_raises
      with assms built have "run_state (throw (Remote_failed ''AttributeError'')) ?t = (r, u)"
        by (simp add: Let_def run_try_bind on_job_def)
      from quiet_part [OF adds_basic(2) this] show ?thesis by auto
    qed
  qed
qed

lemma building_deploys:
  assumes "run_state (advance_building env) st = (r, u)"
  shows "\<exists>es. dp_events u = dp_events st @ es \<and> deployed_as_planned env (dp_job st) es"
proof -
  let ?build = "text_of (dj_build_id (dp_job st))"
  let ?a = "fst (de_build_status env (dp_world st) ?build)"
  let ?t = "st\<lparr>dp_world := snd (de_build_status env (dp_world st) ?build), dp_events := dp_events st @ [Build_read ?build ?a]\<rparr>"
  have read: "list_all quiet [Build_read ?build ?a]" by (simp add: quiet_def)
  show ?thesis
  proof (cases ?a)
    case (Inl e)
    with assms have "dp_events u = dp_events st @ [Build_read ?build ?a]"
      by (auto simp: advance_building_def run_try_bind the_job_def called_def answered_def Let_def split: prod.splits)
    with read quiet_planned show ?thesis by blast
  next
    case (Inr bs)
    then have answer: "de_build_status env (dp_world st) ?build = (Inr bs, snd (de_build_status env (dp_world st) ?build))"
      by (simp add: prod_eq_iff)
    note run = assms [unfolded advance_building_def Let_def run_the_job run_called [where g = "\<lambda>w. de_build_status env w (text_of (dj_build_id (dp_job st)))" and st = st, OF answer]]
    have "\<exists>es. dp_events u = dp_events ?t @ es \<and>
      (list_all quiet es \<or>
       (\<exists>selected. selected_tools_inline (de_parse env) (de_dump env)
           (text_of (built_tools (read_artifact (dp_job st) bs) (dp_job st))) (dj_selected_tools (dp_job st)) = Selected selected \<and>
         writes_from env (dp_job st) selected es))"
      by (rule built_deploys [where bs = bs and job = "dp_job st" and r = r], unfold Let_def Inr) (rule run, simp)
    then obtain es where es: "dp_events u = dp_events st @ Build_read ?build (Inr bs) # es"
      "list_all quiet es \<or>
       (\<exists>selected. selected_tools_inline (de_parse env) (de_dump env)
           (text_of (built_tools (read_artifact (dp_job st) bs) (dp_job st))) (dj_selected_tools (dp_job st)) = Selected selected \<and>
         writes_from env (dp_job st) selected es)"
      by (auto simp: Inr)
    moreover have "deployed_as_planned env (dp_job st) (Build_read ?build (Inr bs) # es)"
      using es(2) by (auto simp: deployed_as_planned_def quiet_def)
    ultimately show ?thesis by blast
  qed
qed

text \<open>What a selection leaves of a tools document: only tools with a selected name, when the printed
  document reads back.\<close>

lemma selected_tools_only:
  assumes "selected_tools_inline parse dump tools selected = Selected s" "selected \<noteq> []"
    and "\<And>d. parse (dump (JObj d)) = Some (JObj d)"
  shows "list_all (\<lambda>t. list_ex (\<lambda>n. jget t ''name'' = JStr n) selected) (tools_in parse s)"
proof -
  from assms(1,2) obtain payload items where s: "s = dump (JObj (dput ''tools''
      (JArr (map JObj (filter (\<lambda>t. \<exists>n \<in> set selected. jget t ''name'' = JStr n) items))) payload))"
    by (auto simp: selected_tools_inline_def Let_def split: option.splits json.splits if_splits)
  show ?thesis
    unfolding s tools_in_def slice_document [where parse = parse and dump = dump, OF assms(3)]
    by (auto simp: list_all_iff list_ex_iff)
qed

text \<open>C17: What a step does to the Lambda and the Targets was planned, and approved where it must be. A
  step that writes is one of the building phase that read the build of the job; every Target it makes or
  changes has the name and the tools of a slice of a plan, and the plan splits the tools of that build,
  or of the job where the build names none, cut down to the tools selected for the job. In a
  redeployment it splits the tools that the guard, asked about these in that very step, answered to be
  ready with, so without a guard a redeployment writes nothing. No step deletes.\<close>

theorem writes_planned_and_approved:
  "case run_state (advance env) st of (r, u) \<Rightarrow>
     \<exists>es. dp_events u = dp_events st @ es \<and> deployed_as_planned env (dp_job st) es \<and>
       (dj_phase (dp_job st) = BUILDING \<or> list_all quiet es)"
proof -
  obtain r u where run: "run_state (advance env) st = (r, u)" by fastforce
  let ?goal = "\<exists>es. dp_events u = dp_events st @ es \<and> deployed_as_planned env (dp_job st) es \<and>
       (dj_phase (dp_job st) = BUILDING \<or> list_all quiet es)"
  have quiet: ?goal if "run_state m st = (r, u)" "adds quiet m" for m :: "('a, unit) deploy_action"
  proof -
    from that obtain es where "dp_events u = dp_events st @ es" "list_all quiet es" by (elim addsE)
    with quiet_planned show ?thesis by blast
  qed
  have ?goal
  proof (cases "dj_phase (dp_job st)")
    case BUILDING
    with run have "run_state (try_bind the_job (\<lambda>job. advance_building env)) st = (r, u)"
      by (simp add: advance_def run_try_bind the_job_def)
    then have "run_state (advance_building env) st = (r, u)" by (simp add: run_try_bind the_job_def)
    from building_deploys [OF this] BUILDING show ?thesis by blast
  next
    case QUEUED
    with run have "run_state (advance_queued env) st = (r, u)" by (simp add: advance_def run_try_bind the_job_def)
    moreover have "adds quiet (advance_queued env)"
      unfolding advance_queued_def by (intro adds_intros) (simp add: quiet_def)
    ultimately show ?thesis by (rule quiet)
  next
    case REGISTERING_TARGET
    with run have "run_state (advance_registering env) st = (r, u)" by (simp add: advance_def run_try_bind the_job_def)
    moreover have "adds quiet (advance_registering env)" using adds_registering by (simp add: quiet_def [abs_def])
    ultimately show ?thesis by (rule quiet)
  qed (use run in \<open>auto simp: advance_def run_try_bind the_job_def intro: quiet_planned\<close>)
  then show ?thesis by (simp add: run)
qed

section \<open>The check of the topology\<close>

definition topology_refused :: "deploy_job \<Rightarrow> bool" where
  "topology_refused job \<longleftrightarrow>
     (case dj_error job of None \<Rightarrow> False | Some e \<Rightarrow> (case je_cause e of Topology_refused _ \<Rightarrow> True | _ \<Rightarrow> False))"

definition unrefused :: "deploy_job \<Rightarrow> bool" where
  "unrefused job \<longleftrightarrow> \<not> topology_refused job"

lemma unrefused_update [simp]:
  "unrefused (job\<lparr>dj_updated_at := t\<rparr>) = unrefused job"
  "unrefused (job\<lparr>dj_phase := p\<rparr>) = unrefused job"
  "unrefused (job\<lparr>dj_build_id := a\<rparr>) = unrefused job"
  "unrefused (job\<lparr>dj_artifact_uri := a\<rparr>) = unrefused job"
  "unrefused (job\<lparr>dj_lambda_arn := a\<rparr>) = unrefused job"
  "unrefused (job\<lparr>dj_target_id := a\<rparr>) = unrefused job"
  "unrefused (job\<lparr>dj_gateway_targets := ts\<rparr>) = unrefused job"
  "unrefused (job\<lparr>dj_gateway_target_quota := q\<rparr>) = unrefused job"
  "unrefused (job\<lparr>dj_unassigned_tools := us\<rparr>) = unrefused job"
  "unrefused (job\<lparr>dj_gateway_url := a\<rparr>) = unrefused job"
  "unrefused (job\<lparr>dj_tools_inline := a\<rparr>) = unrefused job"
  "unrefused (job\<lparr>dj_record_id := a\<rparr>) = unrefused job"
  "unrefused (job\<lparr>dj_shared_policy_report := pr\<rparr>) = unrefused job"
  "unrefused (job\<lparr>dj_read_access_report := x\<rparr>) = unrefused job"
  "unrefused (job\<lparr>dj_resource_owner_id := a\<rparr>) = unrefused job"
  by (simp_all add: unrefused_def topology_refused_def)

lemma unrefused_error:
  "unrefused (job\<lparr>dj_error := None\<rparr>)"
  "je_cause e = cause \<Longrightarrow> (\<And>t. cause \<noteq> Topology_refused t) \<Longrightarrow> unrefused (job\<lparr>dj_error := Some e\<rparr>)"
  "(\<And>e. je_cause (f e) = je_cause e) \<Longrightarrow> unrefused job \<Longrightarrow> unrefused (job\<lparr>dj_error := map_option f (dj_error job)\<rparr>)"
  by (auto simp: unrefused_def topology_refused_def split: option.splits deploy_failure.splits)

lemma failed_unrefused [job_intros]:
  "(\<And>t. cause \<noteq> Topology_refused t) \<Longrightarrow> job_keeps unrefused (failed_job env' phase cause)"
  unfolding failed_job_def
  by (intro job_intros) (auto intro!: unrefused_error(2,3) simp: job_failure_def)

lemma write_lambda_unrefused [job_intros]: "job_keeps unrefused (write_lambda env' artifact)"
  unfolding write_lambda_def by (intro job_intros) simp_all

lemma reconcile_unrefused [job_intros]: "job_keeps unrefused (reconcile_gateway_targets env' plan)"
  unfolding reconcile_gateway_targets_def by (intro job_intros) simp_all

lemma approved_unrefused [job_intros]: "job_keeps unrefused (approved env')"
  unfolding approved_def
  by (intro job_intros) (auto intro!: unrefused_error(1,2) simp: pending_error_def job_failure_def)

lemma registering_unrefused: "job_keeps unrefused (advance_registering env')"
  unfolding advance_registering_def targets_ready_def policy_provisioned_def read_access_provisioned_def
  by (intro job_intros) simp_all

lemma queued_unrefused: "job_keeps unrefused (advance_queued env')"
  unfolding advance_queued_def by (intro job_intros) simp_all

text \<open>The part after the check.\<close>

lemma deploy_plan_unrefused:
  assumes "de_guard env = None \<longrightarrow> \<not> is_redeploy (dp_job st)" "unrefused (dp_job st)"
    and "run_state (deploy_plan env artifact changes plan) st = (r, u)"
  shows "unrefused (dp_job u)"
proof -
  let ?t = "st\<lparr>dp_job := (dp_job st)\<lparr>dj_unassigned_tools := sl_unassigned_tools plan\<rparr>\<rparr>"
  have "(if de_guard env = None then redeploy_topology_error (de_repr env) (dp_job ?t) plan else None) = None"
    using assms(1) by (simp add: redeploy_topology_error_def is_redeploy_def)
  with assms(3) have "run_state (try_bind (attempt (write_lambda env artifact)) (\<lambda>r.
         case r of
           Inl e \<Rightarrow>
             try_bind (failed_job env ''building'' (Lambda_failed e)) (\<lambda>_.
             on_job (\<lambda>job. if is_redeploy job \<and> changes \<noteq> []
               then job\<lparr>dj_error := map_option (\<lambda>x. x\<lparr>je_diverged := Some changes\<rparr>) (dj_error job)\<rparr> else job))
         | Inr _ \<Rightarrow>
             try_bind (reconcile_gateway_targets env plan) (\<lambda>errors.
             if errors \<noteq> [] then failed_job env ''building'' (Targets_failed errors)
             else try_bind (on_job (\<lambda>job. job\<lparr>dj_phase := REGISTERING_TARGET\<rparr>)) (\<lambda>_. touched env)))) ?t = (r, u)"
    (is "run_state ?rest _ = _")
    by (simp add: deploy_plan_def run_on_job run_the_job)
  moreover have "job_keeps unrefused ?rest"
    by (intro job_intros) (auto intro!: unrefused_error(3))
  moreover have "unrefused (dp_job ?t)" using assms(2) by simp
  ultimately show ?thesis using job_keepsD by blast
qed

lemma approved_guarded:
  assumes "run_state (approved env) st = (Returned (Some changes), t)"
  shows "de_guard env = None \<longrightarrow> \<not> is_redeploy (dp_job t)"
proof -
  have "is_redeploy (dp_job st) \<longrightarrow> de_guard env \<noteq> None" and "\<not> is_redeploy (dp_job st) \<longrightarrow> t = st"
    by (rule approved_run [OF assms]; auto simp: guard_approves_def)+
  moreover have "is_redeploy (dp_job t) = is_redeploy (dp_job st)"
    using job_keepsD [OF approved_names refl assms] name_identity_display by blast
  ultimately show ?thesis by auto
qed

lemma building_unrefused:
  assumes "run_state (advance_building env) st = (r, u)" "unrefused (dp_job st)"
  shows "unrefused (dp_job u)"
proof -
  let ?S = "unrefused"
  have tail: "job_keeps ?S (try_bind (approved env) (\<lambda>changes.
           case changes of
             None \<Rightarrow> give ()
           | Some changes \<Rightarrow>
               try_bind the_job (\<lambda>job.
               case split_target_slices (de_hash env) (de_parse env) (de_repr env) (de_dump env)
                   (display_name job) (text_of (dj_tools_inline job)) of
                 None \<Rightarrow> failed_job env ''building'' Split_impossible
               | Some plan \<Rightarrow> deploy_plan env artifact changes plan)))" (is "job_keeps _ ?tail") for artifact
    unfolding job_keeps_def keeps_def wp_def
  proof (intro allI impI, clarsimp)
    fix st :: "'a deploy_state" and r u
    assume S: "?S (dp_job st)" and run: "run_state ?tail st = (r, u)"
    obtain a t where app: "run_state (approved env) st = (a, t)" by fastforce
    have t: "?S (dp_job t)" by (rule job_keepsD [OF approved_unrefused S app])
    show "?S (dp_job u)"
    proof (cases "\<exists>changes plan. a = Returned (Some changes) \<and> split_target_slices (de_hash env) (de_parse env)
        (de_repr env) (de_dump env) (display_name (dp_job t)) (text_of (dj_tools_inline (dp_job t))) = Some plan")
      case True
      then obtain changes plan where a: "a = Returned (Some changes)" "split_target_slices (de_hash env) (de_parse env)
        (de_repr env) (de_dump env) (display_name (dp_job t)) (text_of (dj_tools_inline (dp_job t))) = Some plan" by blast
      with run app have "run_state (deploy_plan env artifact changes plan) t = (r, u)"
        by (simp add: run_try_bind the_job_def)
      from deploy_plan_unrefused [OF approved_guarded [OF app [unfolded a(1)]] t this] show ?thesis .
    next
      case False
      with run app consider "u = t" | "run_state (failed_job env ''building'' Split_impossible) t = (r, u)"
        by (cases a) (auto simp: run_try_bind the_job_def split: option.splits)
      then show ?thesis using t job_keepsD [OF failed_unrefused, of Split_impossible t env "''building''"] by cases auto
    qed
  qed
  have "job_keeps ?S (advance_building env)"
    unfolding advance_building_def by (intro job_intros tail) simp_all
  from job_keepsD [OF this assms(2,1)] show ?thesis .
qed

text \<open>C26: The check of a redeployment's topology never refuses anything: whatever the snapshot of the
  Targets and the new tools are, no step leaves a job refused for its topology that was not so before.
  Without a guard a redeployment does not come that far, and with one the check is not made.\<close>

theorem topology_never_refused:
  "case run_state (advance env) st of (r, u) \<Rightarrow>
     (if topology_refused (dp_job u) then topology_refused (dp_job st) else True)"
proof -
  obtain r u where run: "run_state (advance env) st = (r, u)" by fastforce
  have "unrefused (dp_job u)" if "unrefused (dp_job st)"
  proof (cases "dj_phase (dp_job st)")
    case BUILDING
    with run that show ?thesis using building_unrefused by (simp add: advance_def run_the_job)
  next
    case QUEUED
    with run that show ?thesis using job_keepsD [OF queued_unrefused] by (simp add: advance_def run_the_job)
  next
    case REGISTERING_TARGET
    with run that show ?thesis using job_keepsD [OF registering_unrefused] by (simp add: advance_def run_the_job)
  qed (use run that in \<open>simp_all add: advance_def run_the_job\<close>)
  then show ?thesis by (auto simp: run unrefused_def)
qed

section \<open>What is registered is what is read\<close>

text \<open>A Target of the ledger, as the readers of a descriptor have it.\<close>

definition as_target :: "target_entry \<Rightarrow> mcp_gateway_target" where
  "as_target t =
     \<lparr>mt_name = tn_gateway_target_name t, mt_sensitivity = tn_sensitivity t, mt_operations = tn_operations t,
      mt_target_id = text_of (tn_target_id t)\<rparr>"

definition tidy :: "string \<Rightarrow> bool" where
  "tidy s \<longleftrightarrow> s \<noteq> [] \<and> strip s = s"

definition readable :: "target_entry \<Rightarrow> bool" where
  "readable t \<longleftrightarrow> tidy (tn_gateway_target_name t) \<and> tidy (text_of (tn_target_id t)) \<and>
     tn_sensitivity t \<in> set (allowed_tags FULL_ACCESS) \<and> tn_operations t \<noteq> [] \<and>
     list_all tidy (tn_operations t) \<and> distinct (tn_operations t)"

lemma read_readable:
  assumes "readable t" "tn_state t = ''READY''"
  shows "read_target (target_json t) = Some (as_target t)"
proof -
  have tag: "upper (strip (tn_sensitivity t)) = tn_sensitivity t"
  proof -
    have "list_all (\<lambda>s. upper (strip s) = s) (allowed_tags FULL_ACCESS)" by code_simp
    with assms(1) show ?thesis by (auto simp: readable_def list_all_iff simp del: allowed_tags.simps)
  qed
  have ready: "casefold (strip (casefold ''READY'')) = ''ready''" by code_simp
  have ops: "map (\<lambda>op. strip (str_of op)) (map JStr (tn_operations t)) = tn_operations t"
    using assms(1) by (auto simp: readable_def list_all_iff tidy_def str_of_def intro: map_idI)
  have "list_all nonblank (map JStr (tn_operations t))"
    using assms(1) by (auto simp: readable_def list_all_iff tidy_def nonblank_def)
  with assms tag ready ops show ?thesis
    by (simp add: read_target_def target_json_def as_target_def readable_def jget_def str_of_def nonblank_def tidy_def
        del: allowed_tags.simps map_map)
qed

text \<open>No two Targets have a name, a tag or an operation in common.\<close>

definition disjoint_targets :: "mcp_gateway_target list \<Rightarrow> bool" where
  "disjoint_targets ts \<longleftrightarrow> distinct (map mt_name ts) \<and> distinct (map mt_sensitivity ts) \<and>
     distinct (concat (map mt_operations ts))"

lemma read_all_readable:
  assumes "list_all readable ts" "list_all (\<lambda>t. tn_state t = ''READY'') ts" "disjoint_targets done_targets"
  shows "read_targets (map target_json ts) done_targets =
    (if disjoint_targets (done_targets @ map as_target ts) then Inr (done_targets @ map as_target ts) else Inl TargetError)"
  using assms
proof (induction ts arbitrary: done_targets)
  case (Cons t ts)
  let ?t = "as_target t"
  let ?clash = "mt_name ?t \<in> set (map mt_name done_targets) \<or>
    mt_sensitivity ?t \<in> set (map mt_sensitivity done_targets) \<or>
    list_ex (\<lambda>op. op \<in> set (concat (map mt_operations done_targets))) (mt_operations ?t)"
  have read: "read_target (target_json t) = Some ?t" using Cons.prems by (simp add: read_readable)
  show ?case
  proof (cases ?clash)
    case True
    then have "\<not> disjoint_targets (done_targets @ map as_target (t # ts))"
      by (auto simp: disjoint_targets_def list_ex_iff)
    moreover from True read have "read_targets (map target_json (t # ts)) done_targets = Inl TargetError" by simp
    ultimately show ?thesis by (simp only: if_False)
  next
    case False
    have "distinct (mt_operations ?t)" using Cons.prems(1) by (simp add: readable_def as_target_def)
    with False Cons.prems(3) have "disjoint_targets (done_targets @ [?t])"
      by (auto simp: disjoint_targets_def list_ex_iff)
    with Cons.prems False read Cons.IH [of "done_targets @ [?t]"] show ?thesis by simp
  qed
qed simp

text \<open>C22: What a deployment registers is what authorization reads. Take a job whose ready Targets are
  complete: with a name, an id, one of the four tags and operations, none of them blank, padded or twice
  in a Target. If no two of them have a name, a tag or an operation in common, the index read from the
  registered descriptors has exactly these Targets, in order, each with its tag, operations and id, so an
  operation leads to the Target that serves it; otherwise the descriptors cannot be read at all.\<close>

theorem registered_targets_read_back:
  assumes "list_all readable (filter registrable (dj_gateway_targets job))"
  shows "mcp_gateway_target_index (JObj (job_descriptors gateway_id job)) =
    (if disjoint_targets (map as_target (filter registrable (dj_gateway_targets job)))
     then Inr \<lparr>ti_split = True, ti_targets = map as_target (filter registrable (dj_gateway_targets job)),
       ti_legacy_target_name = None\<rparr>
     else Inl TargetError)"
proof -
  let ?ts = "filter registrable (dj_gateway_targets job)"
  have ready: "list_all (\<lambda>t. tn_state t = ''READY'') ?ts" by (auto simp: list_all_iff registrable_def)
  have "read_targets (map target_json ?ts) [] =
      (if disjoint_targets (map as_target ?ts) then Inr (map as_target ?ts) else Inl TargetError)"
    using read_all_readable [OF assms ready, of "[]"] by (simp add: disjoint_targets_def)
  moreover obtain mcp where "job_descriptors gateway_id job = [(''mcp'', JObj mcp)]"
    "map_of mcp ''gatewayTargets'' = Some (JArr (map target_json ?ts))"
    by (simp add: job_descriptors_def key_if_def key_given_def jget_def)
  ultimately show ?thesis by (simp add: mcp_gateway_target_index_def jget_def)
qed

text \<open>Two tools of one name under two tags: the descriptors are registered and cannot be read.\<close>

lemma repeated_operation_unreadable:
  "mcp_gateway_target_index (JObj (job_descriptors gateway_id (job\<lparr>dj_gateway_targets :=
     [\<lparr>tn_sensitivity = ''READ'', tn_gateway_target_name = ''notes-read'', tn_target_id = Some ''1'',
       tn_operations = [''get''], tn_state = ''READY'', tn_action = ''CREATE'', tn_error = None, tn_created = True\<rparr>,
      \<lparr>tn_sensitivity = ''DELETE'', tn_gateway_target_name = ''notes-delete'', tn_target_id = Some ''2'',
       tn_operations = [''get''], tn_state = ''READY'', tn_action = ''CREATE'', tn_error = None, tn_created = True\<rparr>]\<rparr>))) =
   Inl TargetError"
proof -
  let ?a = "\<lparr>tn_sensitivity = ''READ'', tn_gateway_target_name = ''notes-read'', tn_target_id = Some ''1'',
       tn_operations = [''get''], tn_state = ''READY'', tn_action = ''CREATE'', tn_error = None, tn_created = True\<rparr>"
  let ?b = "\<lparr>tn_sensitivity = ''DELETE'', tn_gateway_target_name = ''notes-delete'', tn_target_id = Some ''2'',
       tn_operations = [''get''], tn_state = ''READY'', tn_action = ''CREATE'', tn_error = None, tn_created = True\<rparr>"
  have "registrable ?a" "registrable ?b" "readable ?a" "readable ?b" by code_simp+
  then have "read_targets (map target_json [?a, ?b]) [] = Inl TargetError"
    using read_readable [of ?a] read_readable [of ?b] by (simp add: as_target_def)
  with \<open>registrable ?a\<close> \<open>registrable ?b\<close> show ?thesis
    by (simp add: mcp_gateway_target_index_def job_descriptors_def key_if_def key_given_def jget_def)
qed

definition sample_ready :: deploy_job where
  "sample_ready = sample_job\<lparr>dj_gateway_targets :=
     [\<lparr>tn_sensitivity = ''READ'', tn_gateway_target_name = ''notes-read'', tn_target_id = Some ''1'',
       tn_operations = [''get'', ''list''], tn_state = ''READY'', tn_action = ''CREATE'', tn_error = None, tn_created = True\<rparr>,
      \<lparr>tn_sensitivity = ''DELETE'', tn_gateway_target_name = ''notes-delete'', tn_target_id = Some ''2'',
       tn_operations = [''purge''], tn_state = ''READY'', tn_action = ''CREATE'', tn_error = None, tn_created = True\<rparr>]\<rparr>"

theorem registered_targets_read_back_witness:
  "\<exists>idx. mcp_gateway_target_index (JObj (job_descriptors ''gw'' sample_ready)) = Inr idx \<and>
     index_target_name idx ''purge'' = Some ''notes-delete'' \<and> index_target_name idx ''copy'' = None"
proof -
  have ok: "list_all readable (filter registrable (dj_gateway_targets sample_ready))"
    "disjoint_targets (map as_target (filter registrable (dj_gateway_targets sample_ready)))" by code_simp+
  note index = registered_targets_read_back [OF ok(1), of "''gw''", unfolded if_P [OF ok(2)]]
  have "index_target_name \<lparr>ti_split = True,
      ti_targets = map as_target (filter registrable (dj_gateway_targets sample_ready)), ti_legacy_target_name = None\<rparr> ''purge'' =
      Some ''notes-delete''"
    "index_target_name \<lparr>ti_split = True,
      ti_targets = map as_target (filter registrable (dj_gateway_targets sample_ready)), ti_legacy_target_name = None\<rparr> ''copy'' = None"
    by code_simp+
  with index show ?thesis by blast
qed

end
