(* ===== verification/Spec2Isabelle.thy ===== *)
theory Spec2Isabelle
  imports Policy_Compiler Authorization_Chain Authorization Ledger_Operations Registration_Gate
    Drift_Ledger Cleaning_Laws Rule_Ledger Provision_Laws
    Deploy_Trace
begin

text \<open>
  The identity, authorization and governance core of the Agora backend (Python,
  \<open>src/api/src/agora\<close>).

  The program. Agora registers agents and the MCP tools they use. A person who calls an agent
  gets a short-lived delegation handle; the agent calls tools through an AgentCore Gateway,
  and every request there goes through a REQUEST interceptor (a Lambda). The decisions rest on
  one ledger, \<open>InMemoryIdentityStore\<close> in \<open>domains/identity/store.py\<close>: which rows an agent has for
  which tools (layer 4), which person or group holds a grant for exactly which tool (layer 7),
  which version of an asset is current, which OAuth client an agent has, which handles are
  issued, and the audit log. A Cedar policy compiled from the same rows makes tools visible on
  the Gateway; it lists names and decides nothing.

  Before an asset is in the catalog at all it is under governance (\<open>domains/governance\<close>). A
  registration submits the Registry record for approval; a scan runs the tools that the tier of
  the asset type asks for; the gate makes stages and a verdict of the latest scan; the verdict,
  or a reviewer, sets the record's status, an approval only when the asset has contacts; a
  poller carries results that arrive later. The scans, decisions and reasons are in
  \<open>GovStore\<close>, the status in the Registry, the contacts and further metadata in \<open>AuxStore\<close>.

  Theories, from the bottom; first identity.

  \<^item> Prelude: results as sums, insertion-ordered dicts (association lists with \<open>dget\<close>, \<open>dput\<close>,
    \<open>ddel\<close>), JSON values, Python's string functions on ASCII, the collection \<open>inv_intros\<close>.
  \<^item> Interfaces: the contracts as locales (row tables, deletable tables, rows with optimistic
    versions, registers of one-time claims, transition systems, monotone systems).
  \<^item> Identity_Models: \<open>identity/models.py\<close>, \<open>resource_ref.py\<close>, \<open>agent_policy_cutover.py\<close> (records)
    and \<open>shared/permission_group.py\<close>.
  \<^item> Identity_Store, Agent_Ledger, Audit_Log: \<open>identity/store.py\<close> by table, with
    \<open>connection_normalize.py\<close> and \<open>audit_timeline.py\<close>. One method is one definition; a raised
    exception is \<open>Inl\<close>, and the state is returned only with \<open>Inr\<close>. Each method of the code holds
    the store's lock for its whole body, so one call is one step.
  \<^item> Delegation: \<open>identity/delegation.py\<close>, issue, validation, revocation of a handle.
  \<^item> Ledger_Operations: all state-changing methods as one operation type \<open>ledger_op\<close> and the
    invariant \<open>ledger_wf\<close>; \<open>fold apply_ledger_op ops empty_store\<close> is a reachable ledger.
  \<^item> Gateway_Interceptor: \<open>identity/gateway_interceptor.py\<close> and the Lambda entry
    \<open>gateway_request_interceptor.py\<close>; \<open>authorize_and_transform\<close> is the whole decision,
    \<open>process_event\<close> the answer to the Gateway.
  \<^item> Authorization: \<open>identity/authorization.py\<close>, the advisory decision with its audit record.
  \<^item> Authorization_Chain: \<open>identity/authorization_chain.py\<close>, the diagnosis shown to administrators.
  \<^item> Gateway_Targets, Policy_Compiler: \<open>shared/gateway_tools.py\<close>, \<open>agent_policy_scope.py\<close>,
    \<open>agent_policy_compiler.py\<close>: from registry and ledger to the Cedar text.
  \<^item> Ledger_Cleanup, Cleaning_Laws: \<open>access_grant_cleanup.py\<close>, \<open>asset_capability_cleanup.py\<close>,
    \<open>agent_invoke.py\<close>: the cleaners as clients of a ledger that others write between any two
    calls (\<open>ce_others\<close>) and that fails at any call, before or after it took effect (\<open>ce_fate\<close>).
  \<^item> Domain_Rules, Rule_Texts: the pure half of \<open>domain_policy.py\<close>: forms, drafts, Cedar texts, their
    check, the search for permits that make a rule pointless; and what holds of the texts.
  \<^item> Policy_Engine, Engine_Laws: what the clients of the policy engine share. The engine is a
    function of a world, so it may answer anything and others may change it between two calls; a
    run returns, raises or does not end, since lists are paged in a loop without a bound
    (\<open>partial_function\<close>). Paging ends if the tokens are from a finite set.
  \<^item> Domain_Service, Domain_Api, Domain_Laws, Rule_Ledger: \<open>DomainPolicyService\<close>,
    \<open>domain_policy_router.py\<close> and \<open>shared_policy_trigger.py\<close>; what creation and promotion send; the
    four operations as a transition system whose rows are guarded permits.
  \<^item> Shared_Provisioner, Provision_Laws: \<open>shared_policy_provisioner.py\<close>: the replacement of the
    revision of the shared policies that is live by what the ledger compiles to, and the pass that
    deletes older revisions; what either may delete, and when.
  \<^item> Target_Names: \<open>shared/slug.py\<close> and \<open>runtime/deploy/target_slices.py\<close>: slugs (of
    any Unicode text, as code points), names of Gateway Targets, and the slices of a server's tools by their tags.
  \<^item> Deploy_Jobs, Deploy_Service: \<open>runtime/deploy/jobs.py\<close>, and of \<open>service.py\<close> and
    \<open>jobs_dynamo.py\<close> what polls, stores and registers the job of an MCP server; the build, the
    Lambda, the Gateway, the guard and the Registry answer arbitrarily.
  \<^item> Deploy_Laws, Deploy_Trace: the phases; several processes that poll at the same time; and,
    from the calls of a step, what was seen and approved before it wrote or ended.
  \<^item> Sample_Ledger: one concrete ledger that witnesses evaluate.

  Governance. \<open>domains/governance\<close> unless another directory is named.

  \<^item> Scan_Gate: \<open>gate.py\<close>, \<open>scan_orchestration.py\<close>, \<open>tool_catalog.py\<close>, \<open>seed.py\<close> and the records
    of \<open>models.py\<close> they use; pure functions on a scan, a catalog and a matrix of tiers.
  \<^item> Gov_Store: \<open>store.py\<close> and the other records of \<open>models.py\<close>; a record of dicts, one
    definition per method, histories of an asset oldest first.
  \<^item> Catalog_Records: \<open>catalog/registry/models.py\<close>, \<open>catalog/aux_store.py\<close>,
    \<open>catalog/responsibility.py\<close> and the records of \<open>shared/responsibility.py\<close>.
  \<^item> Effects: weakest preconditions for the library's state monad, as equations; the code that
    mixes the store with calls to services is written in that monad.
  \<^item> Governance_Env: the services (\<open>gov_env\<close>), the state (\<open>gov_state\<close>: governance store,
    auxiliary store, cache of origins, the world, the calls made so far) and the lookups of
    \<open>catalog/registry/aws_adapter.py\<close>, \<open>queue_router.py\<close>, \<open>scan_applicability.py\<close>. The record
    of calls is read by no operation; properties speak of it.
  \<^item> Scan_Service: \<open>apply_verdict_to_registry\<close> of \<open>scan_service.py\<close> with \<open>approval_block.py\<close> and
    \<open>shared/trust.py\<close>; \<open>carry_verdict\<close> is the part after the verdict is known.
  \<^item> Scan_Runs: \<open>run\<close>, \<open>run_async\<close>, \<open>rescan_tool\<close> of \<open>scan_service.py\<close> and \<open>sync_execution\<close> of
    \<open>stepfn_runner.py\<close>. What a method does at once and what its thread does later are two
    actions, so that anything may run between them.
  \<^item> Registration_Gate: \<open>registration_gate.py\<close>, \<open>catalog/registration_hook.py\<close>,
    \<open>auto_scan.py\<close>, the decisions of \<open>queue_router.py\<close> and the backstop of \<open>poller.py\<close>.

  Tools of MCP servers. \<open>domains/catalog/mcp\<close>.

  \<^item> Tool_Drift: \<open>drift.py\<close>, the entries of \<open>drift_models.py\<close> with their stored form,
    \<open>sensitivity_admin.py\<close>, and from \<open>drift_service.py\<close> the places where entries change: the seeding
    from descriptors, with what it keeps for a deployed server, an applied change of tag or legacy
    split, and the retirement of tools. An entry is a tool as last seen, its state, and the tag an
    administrator gave it for an approved shape.
  \<^item> Drift_Ledger: the ledger of one asset as a transition system and its lemmas: the invariant of
    an entry, the documented table of states, that an observation gives no tag, that a change does
    what its plan announced, and the stored form read back.

  What is shown. Per component: the invariants of the tables and that every sequence of
  operations keeps them; exact characterisations (iff) of what the interceptor forwards, what
  \<open>decide\<close> allows and what a compiled policy lists; what a forwarded call may carry; the error
  reported on each refusal; single winners of versioned updates and one-time claims; the
  refinement of the managed client reservations to their life cycle; append-only, ordered and
  completely paginated audit history; the Cedar text read back as the actions printed; that the
  cleaning of a purged asset names every row it left, under any interference. This
  theory adds what spans components: a handle from its issue to the forwarded call, a revoked
  handle at the Gateway, and the effect of a deleted grant and of a new asset version.

  In governance: the exact condition of an automatic approval; that a stage passes only when
  examined; that what is run is what is waited for; that the status follows the verdict and the
  contacts, whatever the Registry answers; that no approval is held without a reason on record;
  that a failure never becomes an approval and the hook stays within its budget; that the
  poller settles an execution that ended and finds every stuck verdict; that a rescan of one
  tool leaves the other stages alone; that a decision is on record with its reviewer. Four
  theorems record what modelling found: a connected MCP approved unexamined, a redeployed
  version scanned again and again, a failed rescan that costs every stage, and
  (\<open>approval_hides_no_version\<close>) an approval that hides no earlier version.

  Parameters. SHA-256, random handles and uuids, base64url with JSON decoding of a token's
  payload, \<open>strftime\<close>, ISO timestamp parsing, Python's \<open>str\<close> of JSON containers and the clock are
  arguments of the definitions that use them. The interceptor's clock is one reading per
  request. Strings are ASCII character lists. Recursion is structural or has a measure; nothing
  needs fuel except the pagination client in Audit_Log, whose bound is the number of events.
  In governance the Registry's control plane, the source store, the scanners, Step Functions,
  the clocks and sleep are functions of an arbitrary type of worlds: each call may answer
  anything and change the world, so that a property holds whatever the services do unless it
  names what they answer. A scanner answers an outcome and does not raise; the runners in
  \<open>stepfn_runner.py\<close> and \<open>fargate_runner.py\<close> catch their exceptions. Times are milliseconds:
  the hook makes 3 attempts, waits 50, 100 and 150 ms after failures and starts none once 5 s
  have passed; the cache of origins holds 512
  entries and drops the least recently used. The Korean texts of reasons and findings are the
  parameter \<open>ge_prose\<close> or empty; the document for the judge is represented by its inputs;
  the shape of a contact route is checked on ASCII.

  Not modelled: the DynamoDB twins of the stores and the files of \<open>GovStore\<close> and \<open>AuxStore\<close>
  (an in-memory store does not fail), the HTTP routers and views, the workflows over AWS (policy
  deployment of single agents, cutover, identities in Cognito), the scan tools and the patterns of
  the static scanner, overlap reviews, the cleanup of MCP re-registrations, publishing and
  search in the catalog, the deployment of agents and the admission of jobs, playground, monitoring, infrastructure and the web
  console. They call AWS services or third-party packages whose code is not in the repository,
  or only present what the modelled parts decide.
\<close>

section \<open>Delegations and the interceptor\<close>

lemma validate_call_frame:
  assumes "st_delegations s' = st_delegations s"
    "st_agent_identity_bindings s' = st_agent_identity_bindings s"
  shows "validate_call env s' headers = validate_call env s headers"
proof -
  have "get_delegation s' = get_delegation s"
    "get_agent_identity_binding s' = get_agent_identity_binding s"
    by (simp_all add: fun_eq_iff get_delegation_def get_agent_identity_binding_def assms)
  then show ?thesis by (simp only: validate_call_def)
qed

lemma layer4_frame:
  assumes "st_agent_tool_bindings s' = st_agent_tool_bindings s"
    "st_asset_versions s' = st_asset_versions s"
  shows "layer4 s' c tool = layer4 s c tool"
proof -
  have "get_asset_version s' = get_asset_version s"
    "list_agent_tool_bindings s' = list_agent_tool_bindings s"
    by (simp_all add: fun_eq_iff get_asset_version_def list_agent_tool_bindings_def assms)
  then show ?thesis
    by (simp only: layer4_def resolve_binding_def approved_bindings_def pending_bindings_def
        candidate_bindings_def)
qed

lemma reachable:
  "ledger_wf (fold apply_ledger_op ops empty_store)"
  by (rule ledger.inv_run) simp

lemma ledger_wfD:
  "ledger_wf s \<Longrightarrow> bindings_wf s" "ledger_wf s \<Longrightarrow> delegations_keyed s"
  by (simp_all add: ledger_wf_def delegations_wf_def)

lemma put_delegation_wf: "ledger_wf s \<Longrightarrow> ledger_wf (put_delegation c s)"
  using ledger_wf_op [of s "On_delegations (Put_delegation c)"] by simp

text \<open>\<open>DelegationService.revoke\<close> is at most one write to the ledger.\<close>

lemma revoke_wf: "ledger_wf s \<Longrightarrow> ledger_wf (revoke hash now handle s)"
  by (auto simp: revoke_def put_delegation_wf split: sum.split)

lemma validate_call_refused:
  assumes "\<And>c. get_delegation s (ie_hash env (header_of headers ''x-agora-call'')) = Inr c \<Longrightarrow>
     dc_revoked_at c \<noteq> None"
  shows "validate_call env s headers = Inl (Denied Deny_invalid_delegation)"
  using assms by (auto simp: validate_call_def Let_def split: sum.split)

section \<open>Properties that span components\<close>

text \<open>C5: A revoked handle is dead at the Gateway. On every ledger that operations can reach,
  after \<open>revoke\<close> and whatever else runs later, short of a delegation written under the same
  hash, the interceptor refuses every well-formed request that carries the handle, for any
  method and any caller, as an invalid delegation.\<close>

theorem revoked_handle_refused_at_gateway:
  assumes "s = revoke (ie_hash env) at handle (fold apply_ledger_op before empty_store)"
    and "\<forall>op \<in> set later. \<not> writes_delegation (ie_hash env handle) op"
    and "header_of headers ''x-agora-call'' = handle"
    and "jget kvs ''method'' = JStr m" "m \<noteq> []"
  shows "authorize_and_transform env (fold apply_ledger_op later s) (JObj kvs) headers =
    Inl (Denied Deny_invalid_delegation)"
proof -
  let ?s = "fold apply_ledger_op before empty_store"
  have g: "get_delegation s (ie_hash env handle) =
      (case get_delegation ?s (ie_hash env handle) of
         Inl e \<Rightarrow> Inl e | Inr c \<Rightarrow> Inr (c\<lparr>dc_revoked_at := Some at\<rparr>))"
    unfolding assms(1)
    by (subst get_delegation_revoke [OF delegations_keyedD [OF ledger_wfD(2) [OF reachable]]])
      (auto split: sum.split)
  have "validate_call env (fold apply_ledger_op later s) headers =
      Inl (Denied Deny_invalid_delegation)"
    by (rule validate_call_refused)
      (auto simp: assms(3) delegation_kept_run [OF assms(2)] g split: sum.splits)
  then show ?thesis using assms(4,5) by (simp add: authorize_and_transform_def)
qed

definition sample_history :: "ledger_op list" where
  "sample_history = [On_delegations (Put_delegation sample_context)]"

theorem revoked_handle_refused_at_gateway_witness:
  "authorize_and_transform sample_env
     (fold apply_ledger_op [On_grants (Put_grant sample_grant)]
       (revoke id 150 ''h'' (fold apply_ledger_op sample_history empty_store)))
     (JObj [(''method'', JStr ''ping'')]) sample_headers = Inl (Denied Deny_invalid_delegation)"
proof -
  have h: "header_of sample_headers ''x-agora-call'' = ''h''" by code_simp
  have e: "ie_hash sample_env = id" by (simp add: sample_env_def)
  show ?thesis
    by (rule revoked_handle_refused_at_gateway [of _ sample_env 150 "''h''" sample_history _ _ _
          "''ping''"]) (simp_all add: h e writes_delegation_def jget_def)
qed

text \<open>C1: What an issued handle is worth, from the issue to the forwarded call. Whatever happens
  to the ledger after \<open>issue\<close>, short of a write to the same delegation, a \<open>tools/call\<close> with
  the handle is forwarded iff the handle has not expired, the bearer token is the named agent's
  registered client or the named person's own access token from a configured human client,
  exactly one ledger row of that agent opens the tool, its asset was named at the issue and is
  at the approved version, that person or one of the groups named at the issue holds a live
  grant for exactly that tool, and an email was given if the tool asks for its owner.\<close>

theorem issued_handle_opens_exactly:
  assumes "issue (ie_hash env) issued handle new_id r (fold apply_ledger_op before empty_store)
      = Inr (t, handle, c)"
    and "\<forall>op \<in> set later. \<not> writes_delegation (ie_hash env handle) op"
    and "s = fold apply_ledger_op later t"
    and "header_of headers ''x-agora-call'' = handle" "handle \<noteq> []"
    and "jget kvs ''method'' = JStr ''tools/call''"
    and "requested_tool kvs = Some (params, tool, arguments)"
  shows "(\<exists>out. authorize_and_transform env s (JObj kvs) headers = Inr out) \<longleftrightarrow>
    ie_now env < issued + ir_ttl_seconds r \<and>
    (\<exists>claims identity.
       read_bearer_claims env headers = Inr claims \<and>
       (human_shaped claims \<longrightarrow> human_client_ids env \<noteq> []) \<and>
       get_agent_identity_binding s (ir_agent_id r) = Inr identity \<and>
       aib_status identity = Identity_ACTIVE \<and> aib_client_id identity \<noteq> [] \<and>
       (if is_human env claims
        then bc_token_use claims = ''access'' \<and> bc_sub claims = ir_principal_id r
        else aib_client_id identity = bc_client_id claims)) \<and>
    (\<exists>b v.
       {x. opens_tool s (ir_agent_id r) tool x} = {b} \<and>
       atb_asset_id b \<in> set (stripped_nonempty (ir_allowed_asset_ids r)) \<and>
       get_asset_version s (atb_asset_id b) = Inr v \<and>
       av_asset_version v = atb_asset_version b \<and>
       ((\<exists>g. get_tool_grant s (atb_asset_id b) (atb_operation_id b) (ir_principal_id r) [] = Inr g
            \<and> live_grant (ie_now env) g)
        \<or> (\<exists>grp \<in> set (stripped_nonempty (ir_principal_groups r)).
            \<exists>g. get_tool_grant s (atb_asset_id b) (atb_operation_id b) [] grp = Inr g
              \<and> live_grant (ie_now env) g))) \<and>
    (map_of arguments OWNER_ARGUMENT \<noteq> None \<longrightarrow> strip (ir_principal_email r) \<noteq> [])"
proof -
  let ?s0 = "fold apply_ledger_op before empty_store"
  from assms(1) have t: "t = put_delegation c ?s0" by (simp add: issue_Inr_iff)
  from assms(1) have c: "dc_handle_hash c = ie_hash env handle" "dc_revoked_at c = None"
    "dc_expires_at c = issued + ir_ttl_seconds r" "dc_agent_id c = ir_agent_id r"
    "dc_principal_id c = ir_principal_id r" "dc_principal_email c = strip (ir_principal_email r)"
    "set (dc_allowed_asset_ids c) = set (stripped_nonempty (ir_allowed_asset_ids r))"
    "set (dc_principal_groups c) = set (stripped_nonempty (ir_principal_groups r))"
    by (simp_all add: issue_Inr_iff)
  have wf: "bindings_wf s"
    unfolding assms(3) t
    by (intro ledger_wfD(1) ledger.inv_run put_delegation_wf reachable)
  have d: "get_delegation s (ie_hash env handle) = Inr c"
    by (simp add: assms(3) delegation_kept_run [OF assms(2)] t c(1))
  have grp: "(\<exists>grp \<in> set (stripped_nonempty gs). strip grp \<noteq> [] \<and> P grp) \<longleftrightarrow>
      (\<exists>grp \<in> set (stripped_nonempty gs). P grp)" for gs P
    by (metis Nil_notin_stripped_nonempty stripped_nonempty_strip)
  have "(\<exists>out. authorize_and_transform env s (JObj kvs) headers = Inr out) \<longleftrightarrow>
      (\<exists>client. validate_call env s headers = Inr (c, client)) \<and>
      (\<exists>b. layer4 s c tool = Inr b \<and> holds_grant s (ie_now env) c b) \<and>
      (\<exists>rewritten. rewrite_owner c arguments = Inr rewritten)"
  proof -
    have "validate_call env s headers = Inr (x, y) \<Longrightarrow> x = c" for x y
      by (simp add: validate_call_Inr_iff assms(4) d)
    then show ?thesis
      unfolding transform_tools_call [OF assms(6)] bind_res_Inr_iff split_paired_Ex split_conv
        authorize_tool_Inr_iff assms(7)
      by blast
  qed
  moreover have "(\<exists>client. validate_call env s headers = Inr (c, client)) \<longleftrightarrow>
      ie_now env < issued + ir_ttl_seconds r \<and>
      (\<exists>claims identity.
         read_bearer_claims env headers = Inr claims \<and>
         (human_shaped claims \<longrightarrow> human_client_ids env \<noteq> []) \<and>
         get_agent_identity_binding s (ir_agent_id r) = Inr identity \<and>
         aib_status identity = Identity_ACTIVE \<and> aib_client_id identity \<noteq> [] \<and>
         (if is_human env claims
          then bc_token_use claims = ''access'' \<and> bc_sub claims = ir_principal_id r
          else aib_client_id identity = bc_client_id claims))"
    by (auto simp: validate_call_Inr_iff assms(4,5) d c split del: if_split cong: if_cong)
  moreover have "(\<exists>b. layer4 s c tool = Inr b \<and> holds_grant s (ie_now env) c b) \<longleftrightarrow>
      (\<exists>b v.
         {x. opens_tool s (ir_agent_id r) tool x} = {b} \<and>
         atb_asset_id b \<in> set (stripped_nonempty (ir_allowed_asset_ids r)) \<and>
         get_asset_version s (atb_asset_id b) = Inr v \<and>
         av_asset_version v = atb_asset_version b \<and>
         ((\<exists>g. get_tool_grant s (atb_asset_id b) (atb_operation_id b) (ir_principal_id r) [] = Inr g
              \<and> live_grant (ie_now env) g)
          \<or> (\<exists>grp \<in> set (stripped_nonempty (ir_principal_groups r)).
              \<exists>g. get_tool_grant s (atb_asset_id b) (atb_operation_id b) [] grp = Inr g
                \<and> live_grant (ie_now env) g)))"
    unfolding layer4_Inr_iff [OF wf] holds_grant_person_or_group c grp by blast
  ultimately show ?thesis by (simp only: rewrite_owner_ex c(6) conj_assoc)
qed

definition sample_issued :: issue_request where
  "sample_issued = \<lparr>ir_principal_id = ''ann'', ir_agent_id = ''bot'', ir_workload_id = [],
     ir_allowed_asset_ids = [''mcp''], ir_principal_groups = [''user''],
     ir_principal_email = ''ann@x'', ir_ttl_seconds = 900\<rparr>"

theorem issued_handle_opens_exactly_witness:
  "\<exists>t c. issue id 100 ''h'' ''i'' sample_issued empty_store = Inr (t, ''h'', c) \<and>
     \<not> (\<exists>out. authorize_and_transform sample_env
          (fold apply_ledger_op [Put_identity sample_identity] t) (JObj sample_call) sample_headers
        = Inr out)"
proof -
  have h: "header_of sample_headers ''x-agora-call'' = ''h''" by code_simp
  have e: "ie_hash sample_env = id" by (simp add: sample_env_def)
  obtain t c where i: "issue id 100 ''h'' ''i'' sample_issued empty_store = Inr (t, ''h'', c)"
    by (simp add: issue_def sample_issued_def Let_def)
  then have t: "st_asset_versions t = []"
    by (auto simp: issue_Inr_iff put_delegation_def empty_store_def)
  from i have i': "issue (ie_hash sample_env) 100 ''h'' ''i'' sample_issued
      (fold apply_ledger_op [] empty_store) = Inr (t, ''h'', c)"
    by (simp add: e)
  have "\<nexists>v. get_asset_version (fold apply_ledger_op [Put_identity sample_identity] t) a = Inr v"
    for a
    by (simp add: get_asset_version_def t)
  with issued_handle_opens_exactly [OF i' _ refl h _ sample_requested,
      of "[Put_identity sample_identity]"] i
  show ?thesis by (auto simp: writes_delegation_def)
qed

text \<open>A new asset version closes the asset's tools until they are approved again. On every
  reachable ledger, once a version of an asset is recorded for which no row opens the
  requested tool, no call of that tool through the asset is forwarded, whoever calls and
  whatever grants exist.\<close>

theorem new_version_closes_tools:
  assumes "s = fold apply_ledger_op ops empty_store"
    and "jget kvs ''method'' = JStr ''tools/call''"
    and "requested_tool kvs = Some (params, tool, arguments)"
    and "\<forall>a b. opens_tool s a tool b \<longrightarrow>
       atb_asset_id b = av_asset_id r \<and> atb_asset_version b \<noteq> av_asset_version r"
  shows "authorize_and_transform env (put_asset_version r s) (JObj kvs) headers \<noteq> Inr out"
proof -
  let ?t = "put_asset_version r s"
  have same: "st_agent_tool_bindings (put_asset_version r x) = st_agent_tool_bindings x" for x
    by (simp add: put_asset_version_def)
  have wf: "bindings_wf ?t" and opens: "opens_tool ?t = opens_tool s"
    using ledger_wfD(1) [OF reachable [of ops]]
    by (simp_all add: bindings_wf_def opens_tool_def stored_binding_def fun_eq_iff same assms(1))
  have "get_asset_version ?t (av_asset_id r) = Inr r"
    by (simp add: get_asset_version_def asset_version_rows.get_put)
  moreover have "opens_tool s (dc_agent_id c) tool b"
    if "{x. opens_tool s (dc_agent_id c) tool x} = {b}" for c b
    using that by blast
  ultimately have "layer4 ?t c tool \<noteq> Inr b" for c b
    using assms(4) by (fastforce simp: layer4_Inr_iff [OF wf] opens)
  then show ?thesis
    by (auto simp: transform_tools_call [OF assms(2)] bind_res_Inr_iff authorize_tool_Inr_iff
        assms(3))
qed

theorem new_version_closes_tools_witness:
  "\<exists>s. s = fold apply_ledger_op [On_bindings (Put_binding sample_binding)] empty_store \<and>
     opens_tool s ''bot'' ''t___read'' sample_binding \<and>
     authorize_and_transform sample_env
       (put_asset_version (sample_version\<lparr>av_asset_version := ''2''\<rparr>) s)
       (JObj sample_call) sample_headers \<noteq> Inr []"
proof -
  let ?s = "fold apply_ledger_op [On_bindings (Put_binding sample_binding)] empty_store"
  have st: "stored_binding ?s b \<longleftrightarrow> b = sample_binding" for b
    by (auto simp: stored_binding_def put_agent_tool_binding_def empty_store_def
        sample_binding_def binding_key_def)
  have "authorize_and_transform sample_env
       (put_asset_version (sample_version\<lparr>av_asset_version := ''2''\<rparr>) ?s)
       (JObj sample_call) sample_headers \<noteq> Inr []"
  proof (rule new_version_closes_tools [OF refl sample_requested], intro allI impI)
    fix a b assume "opens_tool ?s a ''t___read'' b"
    then have "b = sample_binding" by (simp only: opens_tool_def st)
    then show "atb_asset_id b = av_asset_id (sample_version\<lparr>av_asset_version := ''2''\<rparr>) \<and>
        atb_asset_version b \<noteq> av_asset_version (sample_version\<lparr>av_asset_version := ''2''\<rparr>)"
      by (simp add: sample_binding_def sample_version_def)
  qed
  moreover have "opens_tool ?s ''bot'' ''t___read'' sample_binding"
    by (simp only: opens_tool_def st) (simp add: sample_binding_def)
  ultimately show ?thesis by blast
qed

lemma delete_grant_parts:
  assumes "delete_grant_with_audit a op p grp n e s = Inr (t, True)"
  shows "st_delegations t = st_delegations s" "st_asset_versions t = st_asset_versions s"
    "st_agent_identity_bindings t = st_agent_identity_bindings s"
    "st_agent_tool_bindings t = st_agent_tool_bindings s"
    "strip a \<noteq> []" "strip op \<noteq> []"
    "get_tool_grant t a op p grp = Inl RecordNotFound"
    "get_tool_grant t a' op' p' grp' = Inr g \<Longrightarrow> get_tool_grant s a' op' p' grp' = Inr g"
proof -
  from assms obtain key current where key: "grant_key p grp a op = Inr key"
    "dget (st_grants s) key = Some current"
    and t: "t = s\<lparr>st_grants := ddel key (st_grants s), st_audit_events := st_audit_events s @ [e]\<rparr>"
    by (auto simp: delete_grant_with_audit_def bind_res_Inr_iff split: option.splits if_splits)
  show "st_delegations t = st_delegations s" "st_asset_versions t = st_asset_versions s"
    "st_agent_identity_bindings t = st_agent_identity_bindings s"
    "st_agent_tool_bindings t = st_agent_tool_bindings s" by (simp_all add: t)
  show "strip a \<noteq> []" "strip op \<noteq> []" using key(1) by (simp_all add: grant_key_Inr_iff)
  show "get_tool_grant t a op p grp = Inl RecordNotFound"
    by (simp add: get_tool_grant_def key(1) t)
  show "get_tool_grant t a' op' p' grp' = Inr g \<Longrightarrow> get_tool_grant s a' op' p' grp' = Inr g"
    by (auto simp: get_tool_grant_def t bind_res_Inr_iff of_option_def split: option.splits if_splits)
qed

text \<open>Deleting a person's tool grant closes the tool for that person. When a call has an
  authenticated caller, an open row and a grant of the person only, then right after the
  grant's conditional deletion the same call is refused, and refused as a missing grant: no
  session, token or handle keeps the deleted right alive.\<close>

theorem deleted_grant_closes_tool:
  assumes "delete_grant_with_audit a op p [] n event s = Inr (t, True)"
    and "jget kvs ''method'' = JStr ''tools/call''"
    and "requested_tool kvs = Some (params, tool, arguments)"
    and "validate_call env s headers = Inr (c, client)" "dc_principal_id c = p"
    and "layer4 s c tool = Inr b" "atb_asset_id b = a" "atb_operation_id b = op"
    and "\<forall>grp \<in> set (dc_principal_groups c). \<forall>g. strip grp \<noteq> [] \<longrightarrow>
       get_tool_grant s a op [] grp = Inr g \<longrightarrow> \<not> live_grant (ie_now env) g"
  shows "authorize_and_transform env t (JObj kvs) headers = Inl (Denied Deny_human_grant_missing)"
proof -
  note parts = delete_grant_parts [OF assms(1)]
  have "\<not> holds_grant t (ie_now env) c b"
    using parts(7) assms(9)
    by (auto simp: holds_grant_person_or_group assms(5,7,8) dest!: parts(8))
  then have "\<forall>x \<in> set (grant_subjects c). \<forall>g.
      lookup_tool_grant t (atb_asset_id b) (atb_operation_id b) x = Inr g \<longrightarrow>
      \<not> live_grant (ie_now env) g"
    by (auto simp: holds_grant_def)
  then have "has_tool_grant t (ie_now env) c b = Inr False"
    using tool_grants.any_live_missing_iff [of t "(a, op)"] parts(5,6)
    by (simp add: has_tool_grant_def grant_subjects_def assms(7,8) del: any_live_grant.simps)
  moreover have "validate_call env t headers = Inr (c, client)" "layer4 t c tool = Inr b"
    using validate_call_frame [OF parts(1,3)] layer4_frame [OF parts(4,2)] assms(4,6) by simp_all
  ultimately show ?thesis
    by (simp add: transform_tools_call [OF assms(2)] authorize_tool_stages assms(3))
qed

theorem deleted_grant_closes_tool_witness:
  "\<exists>t. delete_grant_with_audit ''mcp'' ''read'' ''ann'' [] 1 (sample_event ''e'' ''t'') sample_store = Inr (t, True) \<and>
     authorize_and_transform sample_env t (JObj sample_call) sample_headers =
       Inl (Denied Deny_human_grant_missing)"
proof -
  obtain t where t: "delete_grant_with_audit ''mcp'' ''read'' ''ann'' [] 1 (sample_event ''e'' ''t'') sample_store =
      Inr (t, True)"
    by (simp add: delete_grant_with_audit_def grant_key_def sample_store_def sample_grant_def)
  have l: "layer4 sample_store sample_context ''t___read'' = Inr sample_binding"
    using sample_opens by (simp add: layer4_Inr_iff sample_context_def sample_binding_def
        sample_version_def)
  have "\<forall>g. get_tool_grant sample_store ''mcp'' ''read'' [] ''user'' \<noteq> Inr g"
    by (simp add: get_tool_grant_def grant_key_def sample_store_def)
  then have "authorize_and_transform sample_env t (JObj sample_call) sample_headers =
      Inl (Denied Deny_human_grant_missing)"
    by (intro deleted_grant_closes_tool [OF t sample_requested sample_validated _ l])
      (simp_all add: sample_context_def sample_binding_def)
  with t show ?thesis by blast
qed

end
